(* ===== verification/Sig_Prelude.thy ===== *)
theory Sig_Prelude
  imports Main "HOL-Library.Word" "HOL-Library.Char_ord"
begin

text \<open>
  Shared vocabulary of the development.

  A Go \<open>string\<close> is an immutable sequence of bytes and is a HOL \<open>string\<close> here (a list of
  8 bit characters); a Go \<open>[]byte\<close> is a list of \<open>8 word\<close>.  The theory also holds the model of
  the two directions of \<open>math/big\<close> between naturals and big endian bytes (\<open>SetBytes\<close> and
  \<open>Bytes\<close>), and the state-and-error programs in which the use cases are written, with the
  rules by which an invariant is carried through them.
\<close>

named_theorems keeps_intros
  \<open>introduction rules by which a state-and-error program keeps an invariant\<close>
named_theorems byte_simps
  \<open>conversions between characters, bytes and numbers\<close>

type_synonym byte = "8 word"
type_synonym bytes = "8 word list"

section \<open>Strings and bytes\<close>

definition byte_of_char :: "char \<Rightarrow> byte" where
  "byte_of_char c = of_char c"

definition char_of_byte :: "byte \<Rightarrow> char" where
  "char_of_byte b = char_of (unat b)"

definition bytes_of_string :: "string \<Rightarrow> bytes" where
  "bytes_of_string s = List.map byte_of_char s"

definition string_of_bytes :: "bytes \<Rightarrow> string" where
  "string_of_bytes bs = List.map char_of_byte bs"

lemma unat_byte_of_char [byte_simps]: "unat (byte_of_char c) = of_char c"
proof -
  have "(of_char c :: byte) = word_of_nat (of_char c)"
    by (cases c) (simp add: of_char_Char)
  moreover have "of_char c < (256::nat)" by (rule nat_of_char_less_256)
  ultimately show ?thesis by (simp add: byte_of_char_def unat_of_nat)
qed

lemma char_of_byte_of_char [simp]: "char_of_byte (byte_of_char c) = c"
  by (simp add: char_of_byte_def unat_byte_of_char)

lemma byte_of_char_of_byte [simp]: "byte_of_char (char_of_byte b) = b"
proof -
  have "unat b < 256" using unsigned_less [of b, where 'a = nat] by simp
  then have "unat (byte_of_char (char_of_byte b)) = unat b"
    by (simp add: unat_byte_of_char char_of_byte_def take_bit_eq_mod)
  then show ?thesis by (simp only: word_unat_eq_iff)
qed

lemma string_of_bytes_of_string [simp]: "string_of_bytes (bytes_of_string s) = s"
  by (simp add: string_of_bytes_def bytes_of_string_def o_def)

lemma bytes_of_string_of_bytes [simp]: "bytes_of_string (string_of_bytes bs) = bs"
  by (simp add: string_of_bytes_def bytes_of_string_def o_def)

lemma length_bytes_of_string [simp]: "length (bytes_of_string s) = length s"
  by (simp add: bytes_of_string_def)

lemma length_string_of_bytes [simp]: "length (string_of_bytes bs) = length bs"
  by (simp add: string_of_bytes_def)

lemma bytes_of_string_Nil [simp]: "bytes_of_string [] = []"
  by (simp add: bytes_of_string_def)

lemma bytes_of_string_inject [simp]: "bytes_of_string s = bytes_of_string t \<longleftrightarrow> s = t"
  by (metis string_of_bytes_of_string)

lemma string_of_bytes_inject [simp]: "string_of_bytes s = string_of_bytes t \<longleftrightarrow> s = t"
  by (metis bytes_of_string_of_bytes)

text \<open>\<open>strings.HasPrefix\<close> and \<open>strings.HasSuffix\<close>.\<close>

definition HasPrefix :: "string \<Rightarrow> string \<Rightarrow> bool" where
  "HasPrefix s p = (length p \<le> length s \<and> take (length p) s = p)"

definition HasSuffix :: "string \<Rightarrow> string \<Rightarrow> bool" where
  "HasSuffix s p = (length p \<le> length s \<and> drop (length s - length p) s = p)"

section \<open>Big endian naturals\<close>

text \<open>\<open>(*big.Int).Bytes\<close>: the minimal big endian bytes, empty for zero.\<close>

fun be_bytes :: "nat \<Rightarrow> bytes" where
  "be_bytes n = (if n = 0 then [] else be_bytes (n div 256) @ [word_of_nat n])"

declare be_bytes.simps [simp del]

text \<open>\<open>(*big.Int).SetBytes\<close>.\<close>

definition be_nat :: "bytes \<Rightarrow> nat" where
  "be_nat bs = foldl (\<lambda>a b. a * 256 + unat b) 0 bs"

lemma be_nat_Nil [simp]: "be_nat [] = 0"
  by (simp add: be_nat_def)

lemma be_nat_snoc [simp]: "be_nat (bs @ [b]) = be_nat bs * 256 + unat b"
  by (simp add: be_nat_def)

lemma be_nat_single [simp]: "be_nat [b] = unat b"
  by (simp add: be_nat_def)

lemma be_nat_append: "be_nat (as @ bs) = be_nat as * 256 ^ length bs + be_nat bs"
proof (induction bs rule: rev_induct)
  case Nil then show ?case by simp
next
  case (snoc b bs)
  have "be_nat (as @ bs @ [b]) = be_nat ((as @ bs) @ [b])" by simp
  also have "\<dots> = be_nat (as @ bs) * 256 + unat b" by (rule be_nat_snoc)
  finally show ?case using snoc by (simp add: algebra_simps)
qed

lemma be_nat_Cons: "be_nat (b # bs) = unat b * 256 ^ length bs + be_nat bs"
  using be_nat_append [of "[b]" bs] by simp

lemma unat_byte_less [simp]: "unat (b :: byte) < 256"
  using unsigned_less [of b, where 'a = nat] by simp

lemma unat_of_nat_byte [byte_simps]: "n < 256 \<Longrightarrow> unat (word_of_nat n :: byte) = n"
  by (simp add: unat_of_nat)

lemma be_nat_less: "be_nat bs < 256 ^ length bs"
proof (induction bs rule: rev_induct)
  case Nil then show ?case by simp
next
  case (snoc b bs)
  have "be_nat bs * 256 + unat b < (be_nat bs + 1) * 256"
    using unat_byte_less [of b] by simp
  also have "\<dots> \<le> 256 ^ length bs * 256"
    by (rule mult_le_mono1) (use snoc in simp)
  finally show ?case by simp
qed

lemma be_bytes_0 [simp]: "be_bytes 0 = []"
  by (simp add: be_bytes.simps)

lemma be_nat_be_bytes [simp]: "be_nat (be_bytes n) = n"
proof (induction n rule: be_bytes.induct)
  case (1 n)
  show ?case
  proof (cases "n = 0")
    case False
    then show ?thesis using 1
      by (subst be_bytes.simps) (simp add: unat_of_nat)
  qed simp
qed

lemma be_bytes_inject [simp]: "be_bytes m = be_bytes n \<longleftrightarrow> m = n"
  by (metis be_nat_be_bytes)

lemma be_bytes_eq_Nil [simp]: "be_bytes n = [] \<longleftrightarrow> n = 0"
  by (metis be_bytes_0 be_nat_Nil be_nat_be_bytes)

lemma be_nat_zeros [simp]: "be_nat (replicate k 0) = 0"
  by (induction k) (simp_all add: be_nat_Cons)

lemma be_nat_pad [simp]: "be_nat (replicate k 0 @ bs) = be_nat bs"
  by (simp add: be_nat_append)

lemma be_bytes_snoc:
  "be_bytes (n * 256 + unat b) = (if n = 0 \<and> b = 0 then [] else be_bytes n @ [b])"
proof (cases "n * 256 + unat b = 0")
  case True
  then show ?thesis by (simp add: unat_eq_0)
next
  case False
  moreover have "(n * 256 + unat b) div 256 = n" by simp
  moreover have "word_of_nat (n * 256 + unat b) = b"
  proof -
    have "(256 :: byte) = 0" by (transfer) simp
    then show ?thesis by (simp only: of_nat_add of_nat_mult of_nat_numeral) simp
  qed
  moreover have "\<not> (n = 0 \<and> b = 0)" using False by auto
  ultimately show ?thesis by (subst be_bytes.simps) simp
qed

text \<open>\<open>SetBytes\<close> followed by \<open>Bytes\<close> strips the leading zero bytes.\<close>

lemma be_bytes_be_nat: "be_bytes (be_nat bs) = dropWhile (\<lambda>b. b = 0) bs"
proof (induction bs rule: rev_induct)
  case Nil then show ?case by simp
next
  case (snoc b bs)
  have zero: "be_nat bs = 0 \<longleftrightarrow> (\<forall>x\<in>set bs. x = 0)"
    using be_bytes_eq_Nil [of "be_nat bs"] by (simp add: snoc dropWhile_eq_Nil_conv)
  show ?case
  proof (cases "\<forall>x\<in>set bs. x = 0")
    case True
    then show ?thesis using zero
      by (cases "b = 0") (auto simp: be_bytes_snoc [of 0, simplified] dropWhile_append)
  next
    case False
    then show ?thesis using zero snoc
      by (auto simp: be_bytes_snoc dropWhile_append)
  qed
qed

lemma length_be_bytes_le: "n < 256 ^ k \<Longrightarrow> length (be_bytes n) \<le> k"
proof (induction k arbitrary: n)
  case 0 then show ?case by simp
next
  case (Suc k)
  show ?case
  proof (cases "n = 0")
    case False
    have "n div 256 < 256 ^ k" using Suc.prems by (simp add: less_mult_imp_div_less mult.commute)
    then show ?thesis using Suc.IH False by (subst be_bytes.simps) simp
  qed simp
qed

lemma length_be_bytes_iff: "length (be_bytes n) \<le> k \<longleftrightarrow> n < 256 ^ k"
proof
  assume "length (be_bytes n) \<le> k"
  moreover have "n < 256 ^ length (be_bytes n)" using be_nat_less [of "be_bytes n"] by simp
  ultimately show "n < 256 ^ k"
    by (meson less_le_trans one_le_numeral power_increasing)
qed (rule length_be_bytes_le)

lemma hd_be_bytes: "0 < n \<Longrightarrow> hd (be_bytes n) \<noteq> 0"
proof -
  assume "0 < n"
  then have "dropWhile (\<lambda>b. b = 0) (be_bytes n) \<noteq> []"
    using be_bytes_be_nat [of "be_bytes n"] by simp
  then show ?thesis
    using hd_dropWhile [of "\<lambda>b. b = 0" "be_bytes n"] be_bytes_be_nat [of "be_bytes n"] by simp
qed


text \<open>The \<open>l\<close> low bytes of a number.\<close>

fun be_fixed :: "nat \<Rightarrow> nat \<Rightarrow> bytes" where
  "be_fixed 0 v = []"
| "be_fixed (Suc l) v = be_fixed l (v div 256) @ [word_of_nat v]"

lemma length_be_fixed [simp]: "length (be_fixed l v) = l"
  by (induction l arbitrary: v) simp_all

lemma be_nat_be_fixed: "be_nat (be_fixed l v) = v mod 256 ^ l"
proof (induction l arbitrary: v)
  case (Suc l)
  have "be_nat (be_fixed (Suc l) v) = (v div 256 mod 256 ^ l) * 256 + v mod 256"
    using Suc by (simp add: unat_of_nat)
  also have "\<dots> = v mod (256 * 256 ^ l)"
    by (simp add: mod_mult2_eq)
  finally show ?case by simp
qed simp

lemma be_nat_be_fixed_small [simp]: "v < 256 ^ l \<Longrightarrow> be_nat (be_fixed l v) = v"
  by (simp add: be_nat_be_fixed)

lemma be_fixed_0 [simp]: "be_fixed l 0 = replicate l 0"
  by (induction l) (simp_all add: replicate_append_same)

lemma be_fixed_add:
  "be_fixed (a + b) v = be_fixed a (v div 256 ^ b) @ be_fixed b v"
proof (induction b arbitrary: v)
  case (Suc b)
  then show ?case by (simp add: div_mult2_eq)
qed simp

lemma be_fixed_mod: "be_fixed l (v mod 256 ^ l) = be_fixed l v"
proof (induction l arbitrary: v)
  case (Suc l)
  have "v mod (256 * 256 ^ l) div 256 = v div 256 mod 256 ^ l"
    by (simp add: mod_mult2_eq)
  moreover have "word_of_nat (v mod (256 * 256 ^ l)) = (word_of_nat v :: byte)"
    by (simp add: word_unat_eq_iff unat_of_nat mod_mod_cancel)
  ultimately show ?case using Suc [of "v div 256"] by simp
qed simp

lemma be_nat_inject:
  "length as = length bs \<Longrightarrow> be_nat as = be_nat bs \<Longrightarrow> as = bs"
proof (induction as arbitrary: bs rule: rev_induct)
  case (snoc a as)
  then obtain cs c where bs: "bs = cs @ [c]" "length as = length cs"
    by (cases bs rule: rev_cases) auto
  then have e: "be_nat as * 256 + unat a = be_nat cs * 256 + unat c" using snoc.prems by simp
  then have "(be_nat as * 256 + unat a) mod 256 = (be_nat cs * 256 + unat c) mod 256" by simp
  then have u: "unat a = unat c" by simp
  then have "a = c" by (simp only: word_unat_eq_iff)
  then show ?case using e u bs snoc.IH [of cs] by simp
qed simp

lemma be_fixed_pad:
  "v < 256 ^ l \<Longrightarrow> be_fixed l v = replicate (l - length (be_bytes v)) 0 @ be_bytes v"
  by (rule be_nat_inject) (simp_all add: length_be_bytes_le)

text \<open>The length of a number in bits.\<close>

fun bit_len :: "nat \<Rightarrow> nat" where
  "bit_len n = (if n = 0 then 0 else Suc (bit_len (n div 2)))"

declare bit_len.simps [simp del]

lemma bit_len_le_iff: "bit_len n \<le> k \<longleftrightarrow> n < 2 ^ k"
proof (induction k arbitrary: n)
  case 0
  then show ?case by (subst bit_len.simps) simp
next
  case (Suc k)
  have "n div 2 < 2 ^ k \<longleftrightarrow> n < 2 ^ Suc k"
    by (simp add: less_mult_imp_div_less mult.commute div_less_iff_less_mult)
  then show ?case using Suc by (subst bit_len.simps) auto
qed

lemma bit_len_less_iff: "bit_len n < k \<longleftrightarrow> n < 2 ^ (k - 1) \<and> 0 < k"
  using bit_len_le_iff [of n "k - 1"] by (cases k) auto

section \<open>Lists\<close>

text \<open>Copying into a zeroed array of fixed length, cut off on the right.\<close>

definition copy_zeroed :: "nat \<Rightarrow> bytes \<Rightarrow> bytes" where
  "copy_zeroed n src = take n src @ replicate (n - length src) 0"

lemma length_copy_zeroed [simp]: "length (copy_zeroed n src) = n"
  by (simp add: copy_zeroed_def)

lemma copy_zeroed_same [simp]: "length src = n \<Longrightarrow> copy_zeroed n src = src"
  by (simp add: copy_zeroed_def)

end
