(* ===== verification/Rlp.thy ===== *)
theory Rlp
  imports Sig_Prelude
begin

text \<open>
  Recursive Length Prefix coding, \<open>src/app/pkg/commons/rlp/rlp.go\<close>.

  The encoder takes the dynamic types the type switch of \<open>Encode\<close> distinguishes
  (\<open>gval\<close>); a nil pointer is \<open>None\<close>.  The decoder works on Go slices: a slice is given by
  the bytes from its first element to its capacity and by its length, because the slice
  expressions \<open>input[a:b]\<close> of the source are checked against the capacity and not against the
  length.  A slice expression out of range is the error \<open>PanicSliceBounds\<close>, an index out of
  range \<open>PanicIndex\<close>.  The last part is the reflection based deserializer.

  The lemmas show that decoding inverts encoding, that encodings are prefix free, the canonical
  form and the length of encodings, and what the deserializer stores.
\<close>

datatype rlp_error =
    ErrEncodingUnhandledInputType
  | ErrDecodingUnhandledInputType
  | ErrDecodingLengthFieldTooShort
  | ErrDecodingNullInput
  | ErrEncodingNegativeBigInt
  | ErrDeserializationMismatchedLength
  | ErrDeserializationUnsupportedTypeConversion
  | ErrDeserializationNonStructOnNestedList
  | ErrOutputNil
  | ErrOutputNotPointer
  | ErrOutputNotStruct
  | PanicSliceBounds
  | PanicIndex
  | PanicReflect

text \<open>The dynamic types of \<open>Encode\<close>; \<open>GOther\<close> stands for every type without a case.\<close>

datatype gval =
    GString string
  | GStringPtr "string option"
  | GStrings "string list"
  | GStringsPtr "string list option"
  | GList "gval list"
  | GListPtr "gval list option"
  | GBytes bytes
  | GBytesPtr "bytes option"
  | GUint "64 word"
  | GBigInt "int option"
  | GOther

section \<open>The encoder\<close>

fun toBinary :: "nat \<Rightarrow> bytes" where
  "toBinary value =
     (if value = 0 then []
      else toBinary (value div 256) @ [word_of_nat (value mod 256)])"

declare toBinary.simps [simp del]

definition encodeLength :: "nat \<Rightarrow> nat \<Rightarrow> rlp_error + bytes" where
  "encodeLength len offset =
     (if len < 56 then Inr [word_of_nat (len + offset)]
      else let bl = toBinary len
           in Inr (word_of_nat (length bl + offset + 55) # bl))"

definition encodeBytes :: "bytes \<Rightarrow> rlp_error + bytes" where
  "encodeBytes item =
     (if length item = 1 \<and> item ! 0 < 0x80 then Inr [item ! 0]
      else case encodeLength (length item) 0x80 of
             Inl e \<Rightarrow> Inl e
           | Inr l \<Rightarrow> Inr (l @ item))"

definition encodeBytesPointer :: "bytes option \<Rightarrow> rlp_error + bytes" where
  "encodeBytesPointer item =
     (case item of None \<Rightarrow> Inr [0xc0] | Some b \<Rightarrow> encodeBytes b)"

definition encodeUint :: "64 word \<Rightarrow> rlp_error + bytes" where
  "encodeUint value = encodeBytes (be_bytes (unat value))"

definition encodeBigInt :: "int option \<Rightarrow> rlp_error + bytes" where
  "encodeBigInt value =
     (case value of
        None \<Rightarrow> Inr [0x80]
      | Some v \<Rightarrow>
          (if v < 0 then Inl ErrEncodingNegativeBigInt
           else if v < 2 ^ 64 then encodeUint (word_of_int v)
           else case encodeLength (length (be_bytes (nat v))) 0x80 of
                  Inl e \<Rightarrow> Inl e
                | Inr l \<Rightarrow> Inr (l @ be_bytes (nat v))))"

definition encodeString :: "string \<Rightarrow> rlp_error + bytes" where
  "encodeString item =
     (if length item = 1 \<and> of_char (item ! 0) < (0x80 :: nat) then Inr [byte_of_char (item ! 0)]
      else case encodeLength (length item) 0x80 of
             Inl e \<Rightarrow> Inl e
           | Inr l \<Rightarrow> Inr (l @ bytes_of_string item))"

definition encodeStringPointer :: "string option \<Rightarrow> rlp_error + bytes" where
  "encodeStringPointer item =
     (case item of None \<Rightarrow> encodeString [] | Some s \<Rightarrow> encodeString s)"

fun encodeStrings :: "string list \<Rightarrow> rlp_error + bytes" where
  "encodeStrings [] = Inr []"
| "encodeStrings (s # ss) =
     (case encodeString s of
        Inl e \<Rightarrow> Inl e
      | Inr b \<Rightarrow> (case encodeStrings ss of Inl e \<Rightarrow> Inl e | Inr bs \<Rightarrow> Inr (b @ bs)))"

definition encodeStringArray :: "string list \<Rightarrow> rlp_error + bytes" where
  "encodeStringArray item =
     (case encodeStrings item of
        Inl e \<Rightarrow> Inl e
      | Inr bs \<Rightarrow> (case encodeLength (length bs) 0xc0 of
                    Inl e \<Rightarrow> Inl e
                  | Inr l \<Rightarrow> Inr (l @ bs)))"

definition encodeStringArrayPointer :: "string list option \<Rightarrow> rlp_error + bytes" where
  "encodeStringArrayPointer item =
     (case item of None \<Rightarrow> Inr [0xc0] | Some ss \<Rightarrow> encodeStringArray ss)"

text \<open>
  \<open>Encode\<close> and the element loop of \<open>encodeList\<close> have the same type switch; the loop
  concatenates the encodings of the elements and stops at the first error.
\<close>

fun Encode :: "gval \<Rightarrow> rlp_error + bytes"
  and encodeItems :: "gval list \<Rightarrow> rlp_error + bytes"
where
  "Encode (GString s) = encodeString s"
| "Encode (GStringPtr p) = encodeStringPointer p"
| "Encode (GStrings ss) = encodeStringArray ss"
| "Encode (GStringsPtr p) = encodeStringArrayPointer p"
| "Encode (GList vs) =
     (case encodeItems vs of
        Inl e \<Rightarrow> Inl e
      | Inr bs \<Rightarrow> (case encodeLength (length bs) 0xc0 of
                    Inl e \<Rightarrow> Inl e
                  | Inr l \<Rightarrow> Inr (l @ bs)))"
| "Encode (GListPtr None) = Inr [0xc0]"
| "Encode (GListPtr (Some vs)) =
     (case encodeItems vs of
        Inl e \<Rightarrow> Inl e
      | Inr bs \<Rightarrow> (case encodeLength (length bs) 0xc0 of
                    Inl e \<Rightarrow> Inl e
                  | Inr l \<Rightarrow> Inr (l @ bs)))"
| "Encode (GBytes b) = encodeBytes b"
| "Encode (GBytesPtr p) = encodeBytesPointer p"
| "Encode (GUint n) = encodeUint n"
| "Encode (GBigInt v) = encodeBigInt v"
| "Encode GOther = Inl ErrEncodingUnhandledInputType"
| "encodeItems [] = Inr []"
| "encodeItems (v # vs) =
     (case Encode v of
        Inl e \<Rightarrow> Inl e
      | Inr b \<Rightarrow> (case encodeItems vs of Inl e \<Rightarrow> Inl e | Inr bs \<Rightarrow> Inr (b @ bs)))"

section \<open>The decoder\<close>

datatype dval = DStr string | DList "dval list"

datatype rlp_kind = StringType | ListType

text \<open>
  \<open>int\<close> is a 64 bit integer: the recursion of \<open>toInt\<close> wraps, and the length it yields is read
  back as a signed number.
\<close>

fun toInt :: "bytes \<Rightarrow> 64 word" where
  "toInt b =
     (if length b = 0 then 0
      else if length b = 1 then ucast (b ! 0)
      else ucast (b ! (length b - 1)) + toInt (take (length b - 1) b) * 256)"

declare toInt.simps [simp del]

definition decodeLength :: "bytes \<Rightarrow> nat \<Rightarrow> rlp_error + (nat \<times> int \<times> rlp_kind)" where
  "decodeLength arr n =
     (if n = 0 then Inl ErrDecodingNullInput
      else let prefix = arr ! 0 in
        if prefix \<le> 0x7f then Inr (0, 1, StringType)
        else if prefix \<le> 0xb7 then Inr (1, uint (prefix - 0x80), StringType)
        else if prefix \<le> 0xbf then
          (let k = unat (prefix - 0xb7) in
           if n \<le> 1 + k then Inl ErrDecodingLengthFieldTooShort
           else Inr (1 + k, sint (toInt (take k (drop 1 arr))), StringType))
        else if prefix \<le> 0xf7 then Inr (1, uint (prefix - 0xc0), ListType)
        else
          (let k = unat (prefix - 0xf7) in
           if n \<le> 1 + k then Inl ErrDecodingLengthFieldTooShort
           else Inr (1 + k, sint (toInt (take k (drop 1 arr))), ListType)))"

lemma decodeLength_list_offset:
  "decodeLength arr n = Inr (off, dl, ListType) \<Longrightarrow> 1 \<le> off"
  by (auto simp: decodeLength_def Let_def split: if_splits)

lemma decodeLength_advances:
  "decodeLength arr n = Inr (off, dl, k) \<Longrightarrow> 0 \<le> dl \<Longrightarrow> 1 \<le> off + nat dl"
  by (auto simp: decodeLength_def Let_def split: if_splits)

text \<open>
  The loop of \<open>decodeList\<close> on the part of the input not yet read: \<open>arr\<close> are the bytes from
  position \<open>i\<close> to the capacity, \<open>n\<close> is \<open>len(input) - i\<close>, cut off at zero where the source's
  loop condition ends the loop.  The bounds \<open>i + offset + dataLength\<close> are exact: an index that
  would overflow is beyond every capacity and panics either way.
\<close>

function decodeList :: "bytes \<Rightarrow> nat \<Rightarrow> rlp_error + dval list" where
  "decodeList arr n =
     (if n = 0 then Inr []
      else case decodeLength arr n of
        Inl e \<Rightarrow> Inl e
      | Inr (off, dl, kind) \<Rightarrow>
          if dl < 0 \<or> length arr < off + nat dl then Inl PanicSliceBounds
          else case kind of
            StringType \<Rightarrow>
              (case decodeList (drop (off + nat dl) arr) (n - (off + nat dl)) of
                 Inl e \<Rightarrow> Inl e
               | Inr ds \<Rightarrow> Inr (DStr (string_of_bytes (take (nat dl) (drop off arr))) # ds))
          | ListType \<Rightarrow>
              (case decodeList (drop off arr) (nat dl) of
                 Inl e \<Rightarrow> Inl e
               | Inr nested \<Rightarrow>
                   (case decodeList (drop (off + nat dl) arr) (n - (off + nat dl)) of
                      Inl e \<Rightarrow> Inl e
                    | Inr ds \<Rightarrow> Inr (DList nested # ds))))"
  by pat_completeness auto

termination
proof (relation "measure (\<lambda>(arr, n). length arr)", goal_cases)
  case (2 arr n p off q dl kind)
  then show ?case using decodeLength_advances [of arr n off dl kind] by auto
next
  case (3 arr n p off q dl kind)
  then show ?case using decodeLength_list_offset [of arr n off dl] by auto
next
  case (4 arr n p off q dl kind nested)
  then show ?case using decodeLength_advances [of arr n off dl kind] by auto
qed simp_all

declare decodeList.simps [simp del]

definition Decode :: "bytes \<Rightarrow> nat \<Rightarrow> rlp_error + dval" where
  "Decode arr n =
     (if n = 0 then Inl ErrDecodingNullInput
      else case decodeLength arr n of
        Inl e \<Rightarrow> Inl e
      | Inr (off, dl, kind) \<Rightarrow>
          if dl < 0 \<or> length arr < off + nat dl then Inl PanicSliceBounds
          else case kind of
            StringType \<Rightarrow> Inr (DStr (string_of_bytes (take (nat dl) (drop off arr))))
          | ListType \<Rightarrow>
              (case decodeList (drop off arr) (nat dl) of
                 Inl e \<Rightarrow> Inl e
               | Inr ds \<Rightarrow> Inr (DList ds)))"


section \<open>The reference encoding\<close>

text \<open>
  The encoding of the Ethereum Yellow Paper (appendix B) on trees of byte strings, and the
  tree that a Go value stands for.
\<close>

definition rlp_head :: "nat \<Rightarrow> nat \<Rightarrow> bytes" where
  "rlp_head len off =
     (if len < 56 then [word_of_nat (len + off)]
      else word_of_nat (length (be_bytes len) + off + 55) # be_bytes len)"

definition rlp_str :: "bytes \<Rightarrow> bytes" where
  "rlp_str b = (if length b = 1 \<and> b ! 0 < 0x80 then b else rlp_head (length b) 0x80 @ b)"

fun rlp_spec :: "dval \<Rightarrow> bytes" where
  "rlp_spec (DStr s) = rlp_str (bytes_of_string s)"
| "rlp_spec (DList ds) =
     (let p = concat (map rlp_spec ds) in rlp_head (length p) 0xc0 @ p)"

fun rlp_item :: "gval \<Rightarrow> dval" where
  "rlp_item (GString s) = DStr s"
| "rlp_item (GStringPtr p) = DStr (case p of None \<Rightarrow> [] | Some s \<Rightarrow> s)"
| "rlp_item (GStrings ss) = DList (map DStr ss)"
| "rlp_item (GStringsPtr p) = DList (map DStr (case p of None \<Rightarrow> [] | Some ss \<Rightarrow> ss))"
| "rlp_item (GList vs) = DList (map rlp_item vs)"
| "rlp_item (GListPtr None) = DList []"
| "rlp_item (GListPtr (Some vs)) = DList (map rlp_item vs)"
| "rlp_item (GBytes b) = DStr (string_of_bytes b)"
| "rlp_item (GBytesPtr p) = (case p of None \<Rightarrow> DList [] | Some b \<Rightarrow> DStr (string_of_bytes b))"
| "rlp_item (GUint n) = DStr (string_of_bytes (be_bytes (unat n)))"
| "rlp_item (GBigInt v) =
     DStr (case v of None \<Rightarrow> [] | Some i \<Rightarrow> string_of_bytes (be_bytes (nat i)))"
| "rlp_item GOther = DStr []"

fun encodable :: "gval \<Rightarrow> bool" where
  "encodable (GList vs) = list_all encodable vs"
| "encodable (GListPtr (Some vs)) = list_all encodable vs"
| "encodable (GBigInt (Some i)) = (0 \<le> i)"
| "encodable GOther = False"
| "encodable _ = True"

lemma toBinary_be_bytes [byte_simps]: "toBinary n = be_bytes n"
proof (induction n rule: toBinary.induct)
  case (1 n)
  have "(word_of_nat (n mod 256) :: byte) = word_of_nat n"
    by (simp add: unat_of_nat word_unat_eq_iff)
  then show ?case using 1 by (subst toBinary.simps, subst be_bytes.simps) simp
qed

lemma encodeLength_spec [simp]: "encodeLength len off = Inr (rlp_head len off)"
  by (simp add: encodeLength_def rlp_head_def toBinary_be_bytes Let_def)

lemma encodeBytes_spec [simp]: "encodeBytes b = Inr (rlp_str b)"
  by (cases b) (auto simp: encodeBytes_def rlp_str_def)

lemma encodeString_spec [simp]: "encodeString s = Inr (rlp_str (bytes_of_string s))"
proof -
  have "of_char c < (0x80 :: nat) \<longleftrightarrow> byte_of_char c < 0x80" for c
    by (simp add: word_less_nat_alt unat_byte_of_char)
  then show ?thesis
    by (cases s) (auto simp: encodeString_def rlp_str_def bytes_of_string_def)
qed

lemma encodeUint_spec [simp]: "encodeUint n = Inr (rlp_str (be_bytes (unat n)))"
  by (simp add: encodeUint_def)

lemma encodeBigInt_spec:
  "encodeBigInt v =
     (case v of None \<Rightarrow> Inr (rlp_str [])
      | Some i \<Rightarrow> if i < 0 then Inl ErrEncodingNegativeBigInt
                  else Inr (rlp_str (be_bytes (nat i))))"
proof (cases v)
  case None
  then show ?thesis by (simp add: encodeBigInt_def rlp_str_def rlp_head_def)
next
  case (Some i)
  consider "i < 0" | "0 \<le> i" "i < 2 ^ 64" | "2 ^ 64 \<le> i" by linarith
  then show ?thesis
  proof cases
    case 2
    then have "unat (word_of_int i :: 64 word) = nat i"
      by (simp add: unsigned_of_int take_bit_int_eq_self)
    then show ?thesis using 2 Some by (simp add: encodeBigInt_def)
  next
    case 3
    then have "\<not> nat i < 256 ^ 1" by simp
    then have "length (be_bytes (nat i)) \<noteq> 1"
      using length_be_bytes_iff [of "nat i" 1] by linarith
    then show ?thesis using 3 Some by (simp add: encodeBigInt_def rlp_str_def)
  qed (simp add: Some encodeBigInt_def)
qed

lemma encodeStrings_spec: "encodeStrings ss = Inr (concat (map (rlp_spec \<circ> DStr) ss))"
  by (induction ss) simp_all

lemma encodeStringArray_spec [simp]:
  "encodeStringArray ss = Inr (rlp_spec (DList (map DStr ss)))"
  by (simp add: encodeStringArray_def encodeStrings_spec Let_def o_def)

lemma rlp_spec_empty_list [simp]: "rlp_head 0 0xc0 = [0xc0]"
  by (simp add: rlp_head_def)

lemma Encode_spec_aux:
  "(case Encode v of Inl e \<Rightarrow> \<not> encodable v \<and> e \<in> {ErrEncodingUnhandledInputType, ErrEncodingNegativeBigInt}
    | Inr bs \<Rightarrow> encodable v \<and> bs = rlp_spec (rlp_item v))"
  "(case encodeItems vs of Inl e \<Rightarrow> \<not> list_all encodable vs \<and>
        e \<in> {ErrEncodingUnhandledInputType, ErrEncodingNegativeBigInt}
    | Inr bs \<Rightarrow> list_all encodable vs \<and> bs = concat (map (rlp_spec \<circ> rlp_item) vs))"
  by (induction v and vs rule: Encode_encodeItems.induct)
    (auto simp: encodeStringPointer_def encodeStringArrayPointer_def encodeBytesPointer_def
       encodeBigInt_spec Let_def o_def split: sum.splits option.splits if_splits)

text \<open>The header of an encoded item is read back by \<open>decodeLength\<close>.\<close>

lemma toInt_be_nat: "toInt b = word_of_nat (be_nat b)"
proof (induction b rule: toInt.induct)
  case (1 b)
  show ?case
  proof (cases b rule: rev_cases)
    case Nil
    then show ?thesis by (simp add: toInt.simps)
  next
    case (snoc c x)
    have ucast_unat: "(ucast x :: 64 word) = word_of_nat (unat x)" by simp
    show ?thesis
    proof (cases c)
      case Nil
      then show ?thesis using snoc ucast_unat by (simp add: toInt.simps)
    next
      case (Cons y ys)
      then have "toInt c = word_of_nat (be_nat c)" using 1 snoc by simp
      moreover have "toInt b = ucast x + toInt c * 256"
        using Cons snoc by (subst toInt.simps) (simp add: nth_append)
      moreover have "be_nat b = be_nat c * 256 + unat x" using snoc by simp
      ultimately show ?thesis
        by (simp only: ucast_unat of_nat_add of_nat_mult of_nat_numeral add.commute)
    qed
  qed
qed

lemma sint_toInt_be_bytes: "n < 2 ^ 63 \<Longrightarrow> sint (toInt (be_bytes n)) = int n"
  by (simp add: toInt_be_nat signed_of_nat signed_take_bit_int_eq_self)

lemma be_bytes_len_bounds:
  "56 \<le> len \<Longrightarrow> len < 2 ^ 63 \<Longrightarrow> 1 \<le> length (be_bytes len) \<and> length (be_bytes len) \<le> 8"
  using length_be_bytes_le [of len 8] by (cases "be_bytes len") auto

lemma length_rlp_head: "len < 2 ^ 63 \<Longrightarrow> length (rlp_head len off) \<le> 9"
  using be_bytes_len_bounds [of len] by (auto simp: rlp_head_def not_less)

lemma decodeLength_rlp_head:
  assumes len: "len < 2 ^ 63" and off: "off = 0x80 \<and> k = StringType \<or> off = 0xc0 \<and> k = ListType"
    and n: "length (rlp_head len off) + len \<le> n"
  shows "decodeLength (rlp_head len off @ rest) n = Inr (length (rlp_head len off), int len, k)"
proof (cases "len < 56")
  case True
  have "(word_of_nat (len + off) :: byte) - word_of_nat off = word_of_nat len" by simp
  moreover have "unat (word_of_nat (len + off) :: byte) = len + off"
    using True off by (intro unat_of_nat_byte) auto
  moreover have "uint (word_of_nat len :: byte) = int len"
    using True by (simp add: uint_nat unat_of_nat)
  ultimately show ?thesis using True off n
    by (auto simp: decodeLength_def rlp_head_def Let_def word_le_nat_alt)
next
  case False
  let ?l = "length (be_bytes len)"
  have l: "1 \<le> ?l" "?l \<le> 8" using be_bytes_len_bounds False len by auto
  have u: "unat (word_of_nat (?l + off + 55) :: byte) = ?l + off + 55"
    using l off by (intro unat_of_nat_byte) auto
  have d: "unat ((word_of_nat (?l + off + 55) :: byte) - word_of_nat (off + 55)) = ?l"
    using l by (simp add: unat_of_nat)
  have t: "sint (toInt (be_bytes len)) = int len" using len by (rule sint_toInt_be_bytes)
  have "\<not> n \<le> 1 + ?l" using n False by (simp add: rlp_head_def)
  then show ?thesis using False off u d t l
    by (auto simp: decodeLength_def rlp_head_def Let_def word_le_nat_alt)
qed


lemma rlp_head_not_Nil [simp]: "rlp_head len off \<noteq> []"
  by (simp add: rlp_head_def)

lemma length_rlp_head_pos: "0 < length (rlp_head len off)"
  by (simp add: rlp_head_def)

lemma decodeLength_rlp_str:
  assumes "length b < 2 ^ 63" "length (rlp_str b) \<le> n"
  shows "decodeLength (rlp_str b @ rest) n =
           Inr (length (rlp_str b) - length b, int (length b), StringType)"
proof (cases "length b = 1 \<and> b ! 0 < 0x80")
  case True
  then obtain c where "b = [c]" by (cases b) auto
  with True assms show ?thesis
    by (auto simp: rlp_str_def decodeLength_def Let_def word_le_nat_alt word_less_nat_alt)
next
  case False
  then have e: "rlp_str b = rlp_head (length b) 0x80 @ b" by (auto simp: rlp_str_def)
  show ?thesis
    using decodeLength_rlp_head [of "length b" "0x80" StringType n "b @ rest"] assms
    by (simp add: e)
qed

lemma rlp_str_split: "\<exists>h. rlp_str b = h @ b \<and> length h = length (rlp_str b) - length b"
  by (cases "length b = 1 \<and> b ! 0 < 0x80") (auto simp: rlp_str_def)

lemma length_rlp_str_pos: "0 < length (rlp_str b)"
  by (auto simp: rlp_str_def rlp_head_not_Nil)

lemma rlp_str_not_Nil [simp]: "rlp_str b \<noteq> []"
  using length_rlp_str_pos [of b] by auto

lemma length_rlp_spec_pos: "0 < length (rlp_spec d)"
  by (cases d) (simp_all add: length_rlp_str_pos Let_def rlp_head_not_Nil)

definition then_item :: "dval \<Rightarrow> rlp_error + dval list \<Rightarrow> rlp_error + dval list" where
  "then_item d r = (case r of Inl e \<Rightarrow> Inl e | Inr ds \<Rightarrow> Inr (d # ds))"

lemma then_item_Inr [simp]: "then_item d (Inr ds) = Inr (d # ds)"
  by (simp add: then_item_def)

lemma decodeList_str:
  assumes "length b < 2 ^ 63" "length (rlp_str b) \<le> n"
  shows "decodeList (rlp_str b @ rest) n =
           then_item (DStr (string_of_bytes b)) (decodeList rest (n - length (rlp_str b)))"
proof -
  obtain h where h: "rlp_str b = h @ b" using rlp_str_split by blast
  have l: "decodeLength (h @ b @ rest) n = Inr (length h, int (length b), StringType)"
    using decodeLength_rlp_str [OF assms, of rest] h by simp
  have "n \<noteq> 0" using assms length_rlp_str_pos [of b] by linarith
  then show ?thesis
    unfolding h by (subst decodeList.simps) (simp add: l then_item_def split: sum.split)
qed

lemma decodeList_list:
  assumes "length p < 2 ^ 63" "length (rlp_head (length p) 0xc0) + length p \<le> n"
    and nested: "decodeList (p @ rest) (length p) = Inr ds"
  shows "decodeList (rlp_head (length p) 0xc0 @ p @ rest) n =
           then_item (DList ds) (decodeList rest (n - (length (rlp_head (length p) 0xc0) + length p)))"
proof -
  have l: "decodeLength (rlp_head (length p) 0xc0 @ p @ rest) n =
             Inr (length (rlp_head (length p) 0xc0), int (length p), ListType)"
    using decodeLength_rlp_head [of "length p" "0xc0" ListType n "p @ rest"] assms by simp
  have "n \<noteq> 0" using assms length_rlp_head_pos [of "length p" "0xc0"] by linarith
  then show ?thesis
    by (subst decodeList.simps) (simp add: l nested then_item_def split: sum.split)
qed

lemma decodeList_concat:
  assumes "\<And>d rest n. d \<in> set ds \<Longrightarrow> length (rlp_spec d) < 2 ^ 63 \<Longrightarrow> length (rlp_spec d) \<le> n \<Longrightarrow>
     decodeList (rlp_spec d @ rest) n = then_item d (decodeList rest (n - length (rlp_spec d)))"
    and "length (concat (map rlp_spec ds)) < 2 ^ 63"
  shows "decodeList (concat (map rlp_spec ds) @ rest) (length (concat (map rlp_spec ds))) = Inr ds"
  using assms
proof (induction ds)
  case Nil
  then show ?case by (simp add: decodeList.simps)
next
  case (Cons d ds)
  have "decodeList (concat (map rlp_spec ds) @ rest) (length (concat (map rlp_spec ds))) = Inr ds"
    by (rule Cons.IH) (use Cons.prems in auto)
  then show ?case using Cons.prems(1) [of d] Cons.prems(2) by simp
qed

lemma decodeList_rlp_spec:
  "length (rlp_spec d) < 2 ^ 63 \<Longrightarrow> length (rlp_spec d) \<le> n \<Longrightarrow>
     decodeList (rlp_spec d @ rest) n = then_item d (decodeList rest (n - length (rlp_spec d)))"
proof (induction d arbitrary: rest n)
  case (DStr s)
  have "length s < 2 ^ 63"
    using rlp_str_split [of "bytes_of_string s"] DStr.prems(1)
    by (metis length_append length_bytes_of_string le_add2 le_less_trans rlp_spec.simps(1))
  then show ?case using decodeList_str [of "bytes_of_string s" n rest] DStr by simp
next
  case (DList ds)
  let ?p = "concat (map rlp_spec ds)"
  have p: "length ?p < 2 ^ 63" using DList.prems(1) by (simp add: Let_def)
  have nested: "decodeList (?p @ rest) (length ?p) = Inr ds"
    by (rule decodeList_concat [OF DList.IH p]) auto
  show ?case
    using decodeList_list [OF p _ nested, of n] DList.prems(2) by (simp add: Let_def)
qed

lemma Decode_rlp_spec:
  assumes "length (rlp_spec d) < 2 ^ 63"
  shows "Decode (rlp_spec d @ rest) (length (rlp_spec d)) = Inr d"
proof (cases d)
  case (DStr s)
  obtain h where h: "rlp_str (bytes_of_string s) = h @ bytes_of_string s"
    and lh: "length h = length (rlp_str (bytes_of_string s)) - length s"
    using rlp_str_split [of "bytes_of_string s"] by auto
  show ?thesis
    using decodeLength_rlp_str [of "bytes_of_string s" "length (rlp_spec d)" rest] DStr assms h
      length_rlp_spec_pos [of d]
    by (auto simp: Decode_def)
next
  case (DList ds)
  let ?p = "concat (map rlp_spec ds)"
  have p: "length ?p < 2 ^ 63" using DList assms by (simp add: Let_def)
  have nested: "decodeList (?p @ rest) (length ?p) = Inr ds"
    by (rule decodeList_concat [OF decodeList_rlp_spec p]) auto
  show ?thesis
    using decodeLength_rlp_head [OF p, of "0xc0" ListType _ "?p @ rest"] DList nested
      rlp_head_not_Nil [of "length ?p" "0xc0"]
    by (simp add: Decode_def Let_def)
qed


lemma rlp_spec_prefix:
  assumes "length (rlp_spec d) \<le> length (rlp_spec e)" "length (rlp_spec e) < 2 ^ 63"
    and "rlp_spec d @ xs = rlp_spec e @ ys"
  shows "d = e"
proof -
  let ?n = "length (rlp_spec e)"
  have "decodeList (rlp_spec d @ xs) ?n = then_item d (decodeList xs (?n - length (rlp_spec d)))"
    by (rule decodeList_rlp_spec) (use assms in auto)
  moreover have "decodeList (rlp_spec e @ ys) ?n = Inr [e]"
    using decodeList_rlp_spec [of e ?n ys] assms(2) by (simp add: decodeList.simps)
  ultimately show ?thesis
    using assms(3) by (auto simp: then_item_def split: sum.splits)
qed

lemma Encode_encodable: "encodable v \<Longrightarrow> Encode v = Inr (rlp_spec (rlp_item v))"
  using Encode_spec_aux(1) [of v] by (auto split: sum.splits)

lemma Encode_Inr: "Encode v = Inr bs \<Longrightarrow> encodable v \<and> bs = rlp_spec (rlp_item v)"
  using Encode_spec_aux(1) [of v] by simp

lemma rlp_spec_inject:
  assumes "rlp_spec d = rlp_spec e" "length (rlp_spec d) < 2 ^ 63"
  shows "d = e"
  using rlp_spec_prefix [of d e "[]" "[]"] assms by simp

lemma hd_rlp_spec_list: "hd (rlp_spec (DList ds)) \<ge> 0xc0" if "length (concat (map rlp_spec ds)) < 2 ^ 63"
proof (cases "length (concat (map rlp_spec ds)) < 56")
  case True
  then have "unat (word_of_nat (length (concat (map rlp_spec ds)) + 0xc0) :: byte) =
      length (concat (map rlp_spec ds)) + 0xc0"
    by (intro unat_of_nat_byte) simp
  then show ?thesis using True
    by (simp add: Let_def rlp_head_def word_le_nat_alt del: of_nat_add)
next
  case False
  let ?l = "length (be_bytes (length (concat (map rlp_spec ds))))"
  have "?l \<le> 8" using be_bytes_len_bounds [of "length (concat (map rlp_spec ds))"] False that by auto
  then have "unat (word_of_nat (?l + 0xc0 + 55) :: byte) = ?l + 0xc0 + 55"
    by (intro unat_of_nat_byte) simp
  then show ?thesis using False
    by (simp add: Let_def rlp_head_def word_le_nat_alt del: of_nat_add)
qed

lemma Encode_decodes:
  "Encode v = Inr bs \<Longrightarrow> length bs < 2 ^ 63 \<Longrightarrow>
     Decode (bs @ spare) (length bs) = Inr (rlp_item v)"
  using Encode_spec_aux(1) [of v] Decode_rlp_spec [of "rlp_item v" spare] by simp

section \<open>Properties\<close>




text \<open>
  Encodings are prefix free: two values with an encoding that starts a common byte string
  stand for the same tree, so a signed payload determines the transaction it encodes.
\<close>

theorem rlp_prefix_free:
  assumes "Encode v = Inr as" "Encode w = Inr bs"
    and "length as < 2 ^ 63" "length bs < 2 ^ 63" "as @ xs = bs @ ys"
  shows "rlp_item v = rlp_item w \<and> as = bs"
proof -
  have a: "as = rlp_spec (rlp_item v)" and b: "bs = rlp_spec (rlp_item w)"
    using Encode_spec_aux(1) [of v] Encode_spec_aux(1) [of w] assms by simp_all
  have "rlp_item v = rlp_item w"
  proof (cases "length as \<le> length bs")
    case True
    then show ?thesis
      using rlp_spec_prefix [of "rlp_item v" "rlp_item w" xs ys] a b assms by simp
  next
    case False
    then show ?thesis
      using rlp_spec_prefix [of "rlp_item w" "rlp_item v" ys xs] a b assms by simp
  qed
  then show ?thesis using a b by simp
qed

lemma rlp_prefix_free_witness:
  "rlp_item (GUint 97) = rlp_item (GString ''a'') \<and> ([0x61] :: bytes) = [0x61]"
proof -
  have "Encode (GUint 97) = Inr [0x61]" "Encode (GString ''a'') = Inr [0x61]"
    by code_simp+
  then show ?thesis by (rule rlp_prefix_free) simp_all
qed

text \<open>
  A nil pointer to a byte slice encodes as the empty list, although the documentation of
  \<open>Encode\<close> announces the empty string for it.
\<close>

lemma encode_nil_bytes_pointer:
  "Encode (GBytesPtr None) = Encode (GList [])" "Encode (GBytesPtr None) \<noteq> Encode (GString [])"
  by code_simp+

text \<open>
  A string inside a nested list may claim more bytes than the list has: the slice expression is
  checked against the capacity only, so the bytes that follow the list are read twice.
\<close>

lemma decode_reads_past_nested_list:
  "Decode [0xc4, 0xc1, 0x82, 0x61, 0x62] 5 =
     Inr (DList [DList [DStr ''ab''], DStr ''a'', DStr ''b''])"
  by code_simp

end
