(* ===== verification/Rlp_Deserialize.thy ===== *)
theory Rlp_Deserialize
  imports Rlp
begin

text \<open>
  The reflection based deserializer of \<open>src/app/pkg/commons/rlp/rlp.go\<close>
  (\<open>DecodeAndDeserialize\<close>, \<open>nestedDeserialize\<close>).

  The type of the output is a value of \<open>gty\<close>; a struct lists, for each field, whether
  \<open>reflect\<close> can set it (exported fields) and its type.  \<open>TySlice\<close> has the element type, since
  the code distinguishes \<open>[]string\<close> and \<open>[]byte\<close>.  The result is the error, if any, with the
  output as it was left: fields before the failing one have been stored.
\<close>

datatype gty =
    TyString
  | TyUint
  | TyUint8
  | TySlice gty
  | TyStruct "(bool \<times> gty) list"
  | TyOther

datatype fval =
    FString string
  | FUint "64 word"
  | FStrings "string list"
  | FBytes bytes
  | FStruct "fval list"
  | FOpaque

datatype outref = OutNil | OutNonPointer | OutPtr gty fval

fun strings_of :: "dval list \<Rightarrow> string list option" where
  "strings_of [] = Some []"
| "strings_of (DStr s # ds) = (case strings_of ds of None \<Rightarrow> None | Some ss \<Rightarrow> Some (s # ss))"
| "strings_of (DList _ # ds) = None"

definition set_string :: "dval \<Rightarrow> fval \<Rightarrow> rlp_error option \<times> fval" where
  "set_string d cur =
     (case d of DStr s \<Rightarrow> (None, FString s)
      | DList _ \<Rightarrow> (Some ErrDeserializationUnsupportedTypeConversion, cur))"

definition set_bytes :: "dval \<Rightarrow> fval \<Rightarrow> rlp_error option \<times> fval" where
  "set_bytes d cur =
     (case d of DStr s \<Rightarrow> (None, FBytes (bytes_of_string s))
      | DList _ \<Rightarrow> (Some ErrDeserializationUnsupportedTypeConversion, cur))"

definition set_uint :: "dval \<Rightarrow> fval \<Rightarrow> rlp_error option \<times> fval" where
  "set_uint d cur =
     (case d of
        DStr [] \<Rightarrow> (Some PanicIndex, cur)
      | DStr (c # _) \<Rightarrow> (None, FUint (of_char c))
      | DList _ \<Rightarrow> (Some ErrDeserializationUnsupportedTypeConversion, cur))"

definition set_strings :: "dval list \<Rightarrow> fval \<Rightarrow> rlp_error option \<times> fval" where
  "set_strings ds cur =
     (case strings_of ds of Some ss \<Rightarrow> (None, FStrings ss)
      | None \<Rightarrow> (Some ErrDeserializationUnsupportedTypeConversion, cur))"

fun fields_of :: "fval \<Rightarrow> fval list" where
  "fields_of (FStruct vs) = vs"
| "fields_of _ = []"

text \<open>
  \<open>nestedDeserialize\<close>; \<open>whole\<close> is \<open>interfaceSlice\<close>, which the \<open>[]string\<close> case of the source
  converts as a whole instead of its element \<open>i\<close>.
\<close>

fun nestedDeserialize :: "dval list \<Rightarrow> gty \<Rightarrow> fval \<Rightarrow> rlp_error option \<times> fval"
  and nestedFields ::
    "dval list \<Rightarrow> (bool \<times> gty) list \<Rightarrow> dval list \<Rightarrow> fval list \<Rightarrow> rlp_error option \<times> fval list"
  and nestedField :: "dval list \<Rightarrow> gty \<Rightarrow> dval \<Rightarrow> fval \<Rightarrow> rlp_error option \<times> fval"
where
  "nestedDeserialize items (TyStruct fs) cur =
     (if length items \<noteq> length fs then (Some ErrDeserializationMismatchedLength, cur)
      else case nestedFields items fs items (fields_of cur) of (e, vs) \<Rightarrow> (e, FStruct vs))"
| "nestedDeserialize items _ cur = (Some ErrDeserializationNonStructOnNestedList, cur)"
| "nestedFields whole ((canSet, ty) # fs) (d # ds) (c # cs) =
     (if \<not> canSet then (case nestedFields whole fs ds cs of (e, vs) \<Rightarrow> (e, c # vs))
      else case nestedField whole ty d c of
             (Some e, v) \<Rightarrow> (Some e, v # cs)
           | (None, v) \<Rightarrow> (case nestedFields whole fs ds cs of (e, vs) \<Rightarrow> (e, v # vs)))"
| "nestedFields whole _ _ cs = (None, cs)"
| "nestedField whole TyString d cur = set_string d cur"
| "nestedField whole (TySlice TyString) d cur = set_strings whole cur"
| "nestedField whole (TySlice TyUint8) d cur = set_bytes d cur"
| "nestedField whole TyUint d cur = set_uint d cur"
| "nestedField whole (TyStruct fs) d cur =
     (case d of DList ds \<Rightarrow> nestedDeserialize ds (TyStruct fs) cur
      | DStr _ \<Rightarrow> (Some ErrDeserializationUnsupportedTypeConversion, cur))"
| "nestedField whole _ d cur = (Some ErrDeserializationUnsupportedTypeConversion, cur)"

text \<open>
  One field of the loop of \<open>DecodeAndDeserialize\<close>.  A slice of any other element type is left
  alone without an error.  After the nested call the source tests \<open>err\<close>, which is nil here,
  and not the error of the call: whatever the nested call reports is dropped.  A panic is not an
  error value and still ends the loop.
\<close>

definition is_panic :: "rlp_error \<Rightarrow> bool" where
  "is_panic e \<longleftrightarrow> e \<in> {PanicSliceBounds, PanicIndex, PanicReflect}"

fun structField :: "gty \<Rightarrow> dval \<Rightarrow> fval \<Rightarrow> rlp_error option \<times> fval" where
  "structField TyString d cur = set_string d cur"
| "structField (TySlice TyString) d cur =
     (case d of DList ds \<Rightarrow> set_strings ds cur
      | DStr _ \<Rightarrow> (Some ErrDeserializationUnsupportedTypeConversion, cur))"
| "structField (TySlice TyUint8) d cur = set_bytes d cur"
| "structField (TySlice _) d cur = (None, cur)"
| "structField TyUint d cur = set_uint d cur"
| "structField (TyStruct fs) d cur =
     (case d of
        DList ds \<Rightarrow>
          (case nestedDeserialize ds (TyStruct fs) cur of
             (Some e, v) \<Rightarrow> (if is_panic e then Some e else None, v)
           | (None, v) \<Rightarrow> (None, v))
      | DStr _ \<Rightarrow> (Some ErrDeserializationUnsupportedTypeConversion, cur))"
| "structField _ d cur = (Some ErrDeserializationUnsupportedTypeConversion, cur)"

fun structFields ::
    "(bool \<times> gty) list \<Rightarrow> dval list \<Rightarrow> fval list \<Rightarrow> rlp_error option \<times> fval list" where
  "structFields ((canSet, ty) # fs) (d # ds) (c # cs) =
     (if \<not> canSet then (case structFields fs ds cs of (e, vs) \<Rightarrow> (e, c # vs))
      else case structField ty d c of
             (Some e, v) \<Rightarrow> (Some e, v # cs)
           | (None, v) \<Rightarrow> (case structFields fs ds cs of (e, vs) \<Rightarrow> (e, v # vs)))"
| "structFields _ _ cs = (None, cs)"

definition deserializeStruct ::
    "(bool \<times> gty) list \<Rightarrow> dval \<Rightarrow> fval \<Rightarrow> rlp_error option \<times> fval" where
  "deserializeStruct fs decoded cur =
     (case decoded of
        DStr s \<Rightarrow>
          (case fs of
             [(canSet, TyString)] \<Rightarrow>
               if canSet then (None, FStruct [FString s]) else (Some PanicReflect, cur)
           | _ \<Rightarrow> if length fs \<noteq> 0 then (Some ErrDeserializationMismatchedLength, cur) else (None, cur))
      | DList ds \<Rightarrow>
          if length fs \<noteq> length ds then (Some ErrDeserializationMismatchedLength, cur)
          else (case structFields fs ds (fields_of cur) of (e, vs) \<Rightarrow> (e, FStruct vs)))"

definition DecodeAndDeserialize ::
    "bytes \<Rightarrow> nat \<Rightarrow> outref \<Rightarrow> rlp_error option \<times> outref" where
  "DecodeAndDeserialize arr n output =
     (case output of
        OutNil \<Rightarrow> (Some ErrOutputNil, output)
      | OutNonPointer \<Rightarrow> (Some ErrOutputNotPointer, output)
      | OutPtr ty cur \<Rightarrow>
          (let finish = (\<lambda>(e, v). (e, OutPtr ty v)) in
           case ty of
             TyString \<Rightarrow>
               (case Decode arr n of Inl e \<Rightarrow> (Some e, output)
                | Inr d \<Rightarrow> finish (set_string d cur))
           | TySlice TyString \<Rightarrow>
               (case Decode arr n of Inl e \<Rightarrow> (Some e, output)
                | Inr (DStr _) \<Rightarrow> (Some ErrDeserializationUnsupportedTypeConversion, output)
                | Inr (DList ds) \<Rightarrow> finish (set_strings ds cur))
           | TyStruct fs \<Rightarrow>
               (case Decode arr n of Inl e \<Rightarrow> (Some e, output)
                | Inr d \<Rightarrow> finish (deserializeStruct fs d cur))
           | _ \<Rightarrow> (Some ErrOutputNotStruct, output)))"

section \<open>What survives a round trip\<close>

text \<open>The value handed to the encoder for a struct: the list of its fields.\<close>

fun gval_of :: "fval \<Rightarrow> gval" where
  "gval_of (FString s) = GString s"
| "gval_of (FUint n) = GUint n"
| "gval_of (FStrings ss) = GStrings ss"
| "gval_of (FBytes b) = GBytes b"
| "gval_of (FStruct vs) = GList (map gval_of vs)"
| "gval_of FOpaque = GOther"

text \<open>
  The values that come back: every field exported, an unsigned integer in one nonzero byte, and
  a \<open>[]string\<close> only in the outermost struct.
\<close>

fun survives_nested :: "gty \<Rightarrow> fval \<Rightarrow> bool" where
  "survives_nested TyString (FString s) = True"
| "survives_nested (TySlice TyUint8) (FBytes b) = True"
| "survives_nested TyUint (FUint n) = (0 < n \<and> n < 256)"
| "survives_nested (TyStruct fs) (FStruct vs) =
     list_all2 (\<lambda>(canSet, ty) v. canSet \<and> survives_nested ty v) fs vs"
| "survives_nested _ _ = False"

definition survives_field :: "gty \<Rightarrow> fval \<Rightarrow> bool" where
  "survives_field ty v \<longleftrightarrow>
     (case (ty, v) of (TySlice TyString, FStrings ss) \<Rightarrow> True | _ \<Rightarrow> survives_nested ty v)"

definition survives :: "(bool \<times> gty) list \<Rightarrow> fval list \<Rightarrow> bool" where
  "survives fs vs \<longleftrightarrow> list_all2 (\<lambda>(canSet, ty) v. canSet \<and> survives_field ty v) fs vs"


text \<open>The current value of the output has the shape of its type, as Go's types guarantee.\<close>

fun shaped :: "gty \<Rightarrow> fval \<Rightarrow> bool" where
  "shaped (TyStruct fs) (FStruct vs) = list_all2 (\<lambda>(canSet, ty) v. shaped ty v) fs vs"
| "shaped (TyStruct fs) _ = False"
| "shaped _ _ = True"

lemma of_char_char_of_byte: "(of_char (char_of_byte b) :: 64 word) = ucast b"
proof -
  have "(of_char (char_of_byte b) :: 64 word) = word_of_nat (of_char (char_of_byte b))"
    by (cases "char_of_byte b") (simp add: of_char_Char)
  also have "of_char (char_of_byte b) = unat b"
    using unat_byte_of_char [of "char_of_byte b"] by simp
  finally show ?thesis by simp
qed

lemma be_bytes_one_byte: "0 < n \<Longrightarrow> n < 256 \<Longrightarrow> be_bytes n = [word_of_nat n]"
  by (subst be_bytes.simps) (simp add: be_bytes.simps)

lemma set_uint_one_byte:
  assumes "0 < n" "n < 256"
  shows "set_uint (DStr (string_of_bytes (be_bytes (unat n)))) cur = (None, FUint n)"
proof -
  have "unat n < 256" "0 < unat n" using assms by (simp_all add: word_less_nat_alt unat_gt_0)
  then have "be_bytes (unat n) = [word_of_nat (unat n)]" by (simp add: be_bytes_one_byte)
  moreover have "(ucast (word_of_nat (unat n) :: byte) :: 64 word) = n"
  proof -
    have "(ucast (word_of_nat (unat n) :: byte) :: 64 word) = word_of_nat (unat (word_of_nat (unat n) :: byte))"
      by (simp only: of_nat_unat)
    then show ?thesis using \<open>unat n < 256\<close> by (simp only: unat_of_nat_byte) simp
  qed
  ultimately show ?thesis
    by (simp add: set_uint_def string_of_bytes_def of_char_char_of_byte)
qed

lemma strings_of_map [simp]: "strings_of (map DStr ss) = Some ss"
  by (induction ss) simp_all

lemma nestedField_survives:
  "survives_nested ty v \<Longrightarrow> shaped ty cur \<Longrightarrow>
     nestedField whole ty (rlp_item (gval_of v)) cur = (None, v)"
proof (induction ty v arbitrary: whole cur rule: survives_nested.induct)
  case (4 fs vs)
  obtain cs where cur: "cur = FStruct cs" using "4.prems"(2) by (cases cur) auto
  let ?ok = "\<lambda>(canSet, ty) v. canSet \<and> survives_nested ty v"
  have IH: "nestedField w t (rlp_item (gval_of v)) c = (None, v)"
    if "(b, t) \<in> set fs" "v \<in> set vs" "survives_nested t v" "shaped t c" for b t v c w
    using "4.IH" that by blast
  have fields: "nestedFields w fs' (map (rlp_item \<circ> gval_of) vs') cs' = (None, vs')"
    if "list_all2 ?ok fs' vs'" "list_all2 (\<lambda>(canSet, ty) v. shaped ty v) fs' cs'"
       "set fs' \<subseteq> set fs" "set vs' \<subseteq> set vs" for fs' vs' cs' w
    using that
  proof (induction fs' vs' arbitrary: cs' rule: list_all2_induct)
    case (Cons f fs' v vs')
    then show ?case using IH by (cases f) (auto simp: list_all2_Cons1)
  qed simp
  have "length vs = length fs" using "4.prems"(1) by (auto dest: list_all2_lengthD)
  then show ?case using fields [of fs vs cs] "4.prems" cur by simp
qed (auto simp: set_string_def set_bytes_def set_uint_one_byte)

lemma structField_survives:
  "survives_field ty v \<Longrightarrow> shaped ty cur \<Longrightarrow>
     structField ty (rlp_item (gval_of v)) cur = (None, v)"
proof -
  assume s: "survives_field ty v" and c: "shaped ty cur"
  consider (strings) ss where "ty = TySlice TyString" "v = FStrings ss"
    | (nested) "survives_nested ty v"
    using s by (auto simp: survives_field_def split: gty.splits fval.splits)
  then show ?thesis
  proof cases
    case strings
    then show ?thesis by (simp add: set_strings_def)
  next
    case nested
    then have n: "nestedField [] ty (rlp_item (gval_of v)) cur = (None, v)"
      using c by (rule nestedField_survives)
    show ?thesis using nested n
      by (cases "(ty, v)" rule: survives_nested.cases) (auto split: prod.splits)
  qed
qed

lemma structFields_survive:
  "survives fs vs \<Longrightarrow> list_all2 (\<lambda>(canSet, ty) v. shaped ty v) fs cs \<Longrightarrow>
     structFields fs (map (rlp_item \<circ> gval_of) vs) cs = (None, vs)"
  unfolding survives_def
proof (induction fs vs arbitrary: cs rule: list_all2_induct)
  case (Cons f fs v vs)
  then show ?case using structField_survives
    by (cases f) (auto simp: list_all2_Cons1)
qed simp


lemma nested_only_index_panic:
  "fst (nestedDeserialize ds ty cur) \<noteq> Some PanicSliceBounds \<and>
     fst (nestedDeserialize ds ty cur) \<noteq> Some PanicReflect"
  "fst (nestedFields ds fs items cs) \<noteq> Some PanicSliceBounds \<and>
     fst (nestedFields ds fs items cs) \<noteq> Some PanicReflect"
  "fst (nestedField ds ty d cur) \<noteq> Some PanicSliceBounds \<and>
     fst (nestedField ds ty d cur) \<noteq> Some PanicReflect"
  by (induction ds ty cur and ds fs items cs and ds ty d cur
      rule: nestedDeserialize_nestedFields_nestedField.induct)
    (auto simp: set_string_def set_uint_def set_bytes_def set_strings_def
       split: prod.splits option.splits dval.splits list.splits)

section \<open>Properties\<close>

text \<open>
  A struct whose exported fields are strings, byte slices, nonzero one byte unsigned
  integers, string slices (in the outermost struct) and nested structs of these is restored
  exactly by \<open>DecodeAndDeserialize\<close> from the encoding of the list of its fields.
\<close>

theorem deserialize_roundtrip:
  assumes "survives fs vs" and "shaped (TyStruct fs) cur"
    and "Encode (gval_of (FStruct vs)) = Inr bs" and "length bs < 2 ^ 63"
  shows "DecodeAndDeserialize (bs @ spare) (length bs) (OutPtr (TyStruct fs) cur)
           = (None, OutPtr (TyStruct fs) (FStruct vs))"
proof -
  obtain cs where cur: "cur = FStruct cs" "list_all2 (\<lambda>(canSet, ty) v. shaped ty v) fs cs"
    using assms(2) by (cases cur) auto
  have "length fs = length vs"
    using assms(1) by (auto simp: survives_def dest: list_all2_lengthD)
  moreover have "Decode (bs @ spare) (length bs) = Inr (DList (map (rlp_item \<circ> gval_of) vs))"
    using Encode_decodes [OF assms(3,4), of spare] by simp
  ultimately show ?thesis
    using structFields_survive [OF assms(1) cur(2)] cur(1)
    by (simp add: DecodeAndDeserialize_def deserializeStruct_def)
qed

lemma deserialize_roundtrip_witness:
  "DecodeAndDeserialize ([0xc6, 0x61, 0x07, 0xc3, 0x82, 0x01, 0x02] @ []) 7
      (OutPtr (TyStruct [(True, TyString), (True, TyUint), (True, TyStruct [(True, TySlice TyUint8)])])
              (FStruct [FString [], FUint 0, FStruct [FBytes []]]))
    = (None, OutPtr (TyStruct [(True, TyString), (True, TyUint), (True, TyStruct [(True, TySlice TyUint8)])])
              (FStruct [FString ''a'', FUint 7, FStruct [FBytes [1, 2]]]))"
proof -
  have "Encode (gval_of (FStruct [FString ''a'', FUint 7, FStruct [FBytes [1, 2]]]))
          = Inr [0xc6, 0x61, 0x07, 0xc3, 0x82, 0x01, 0x02]"
    by code_simp
  then have "DecodeAndDeserialize ([0xc6, 0x61, 0x07, 0xc3, 0x82, 0x01, 0x02] @ [])
      (length [0xc6, 0x61, 0x07, 0xc3, 0x82, 0x01, 0x02 :: byte])
      (OutPtr (TyStruct [(True, TyString), (True, TyUint), (True, TyStruct [(True, TySlice TyUint8)])])
              (FStruct [FString [], FUint 0, FStruct [FBytes []]]))
    = (None, OutPtr (TyStruct [(True, TyString), (True, TyUint), (True, TyStruct [(True, TySlice TyUint8)])])
              (FStruct [FString ''a'', FUint 7, FStruct [FBytes [1, 2]]]))"
    by (intro deserialize_roundtrip) (simp_all add: survives_def survives_field_def)
  moreover have "length [0xc6, 0x61, 0x07, 0xc3, 0x82, 0x01, 0x02 :: byte] = 7" by simp
  ultimately show ?thesis by (simp only:)
qed

text \<open>
  an error of the deserialization of a nested struct is never reported: whatever the nested
  list holds, a field of struct type of the outermost struct ends without an error value.
\<close>

theorem nested_errors_dropped:
  "case structField (TyStruct fs) (DList ds) cur of
     (None, v) \<Rightarrow> v = snd (nestedDeserialize ds (TyStruct fs) cur)
   | (Some e, v) \<Rightarrow> e = PanicIndex"
proof (cases "nestedDeserialize ds (TyStruct fs) cur")
  case (Pair r v)
  then have "r \<noteq> Some PanicSliceBounds" "r \<noteq> Some PanicReflect"
    using nested_only_index_panic(1) [of ds "TyStruct fs" cur] by simp_all
  then show ?thesis
    by (auto simp: Pair is_panic_def simp del: nestedDeserialize.simps split: option.split)
qed

text \<open>The same list is refused by \<open>nestedDeserialize\<close> and accepted by the outer struct.\<close>

lemma nested_error_dropped_example:
  "nestedDeserialize [DStr ''x''] (TyStruct []) (FStruct []) =
     (Some ErrDeserializationMismatchedLength, FStruct [])"
  "structFields [(True, TyStruct [])] [DList [DStr ''x'']] [FStruct []] = (None, [FStruct []])"
  by (simp_all add: is_panic_def)

text \<open>A zero encodes as the empty string, on which the deserializer indexes out of range.\<close>

lemma deserialize_zero_uint_panics:
  "Encode (GList [GUint 0]) = Inr [0xc1, 0x80]"
  "DecodeAndDeserialize [0xc1, 0x80] 2 (OutPtr (TyStruct [(True, TyUint)]) (FStruct [FUint 5])) =
     (Some PanicIndex, OutPtr (TyStruct [(True, TyUint)]) (FStruct [FUint 5]))"
  by code_simp+

text \<open>Only the first byte of a larger integer is kept.\<close>

lemma deserialize_large_uint:
  "Encode (GList [GUint 258]) = Inr [0xc3, 0x82, 1, 2]"
  "DecodeAndDeserialize [0xc3, 0x82, 1, 2] 4 (OutPtr (TyStruct [(True, TyUint)]) (FStruct [FUint 0])) =
     (None, OutPtr (TyStruct [(True, TyUint)]) (FStruct [FUint 1]))"
  by code_simp+

end
