(* ===== verification/Hex_Core.thy ===== *)
theory Hex_Core
  imports Sig_Prelude
begin

text \<open>
  Hexadecimal text: the model of the functions of Go's \<open>encoding/hex\<close> and \<open>strconv\<close> that
  \<open>entities/encoding_types.go\<close>, \<open>entities/address/address.go\<close> and
  \<open>usecases/hsmconnector\<close> call, with the facts about digits those components share.
\<close>

section \<open>Digits\<close>

text \<open>\<open>invalidNibble\<close> of the source is the largest \<open>uint64\<close>.\<close>

definition invalidNibble :: "64 word" where
  "invalidNibble = - 1"

definition decodeNibble :: "char \<Rightarrow> 64 word" where
  "decodeNibble c =
     (let n = (of_char c :: nat) in
      if 48 \<le> n \<and> n \<le> 57 then word_of_nat (n - 48)
      else if 65 \<le> n \<and> n \<le> 70 then word_of_nat (n - 65 + 10)
      else if 97 \<le> n \<and> n \<le> 102 then word_of_nat (n - 97 + 10)
      else invalidNibble)"

definition IsHexCharacter :: "char \<Rightarrow> bool" where
  "IsHexCharacter c =
     (let n = (of_char c :: nat) in
      (48 \<le> n \<and> n \<le> 57) \<or> (97 \<le> n \<and> n \<le> 102) \<or> (65 \<le> n \<and> n \<le> 70))"

definition digit_val :: "char \<Rightarrow> nat" where
  "digit_val c = unat (decodeNibble c)"

definition hex_char :: "nat \<Rightarrow> char" where
  "hex_char d = char_of (if d < 10 then 48 + d else 87 + d)"

definition hex_val :: "string \<Rightarrow> nat" where
  "hex_val s = foldl (\<lambda>a c. a * 16 + digit_val c) 0 s"

definition digit_nat :: "char \<Rightarrow> nat" where
  "digit_nat c =
     (let n = (of_char c :: nat) in
      if n \<le> 57 then n - 48 else if n \<le> 70 then n - 55 else n - 87)"

lemma decodeNibble_nat:
  "decodeNibble c = (if IsHexCharacter c then word_of_nat (digit_nat c) else invalidNibble)"
  by (auto simp: decodeNibble_def IsHexCharacter_def digit_nat_def Let_def)

lemma digit_nat_less: "IsHexCharacter c \<Longrightarrow> digit_nat c < 16"
  by (auto simp: digit_nat_def IsHexCharacter_def Let_def)

lemma small_not_invalidNibble: "n < 16 \<Longrightarrow> word_of_nat n \<noteq> invalidNibble"
proof
  assume "n < 16" "word_of_nat n = invalidNibble"
  then have "unat (word_of_nat n :: 64 word) = unat (- 1 :: 64 word)"
    by (simp add: invalidNibble_def)
  then show False using \<open>n < 16\<close>
    by (simp add: unat_of_nat unsigned_minus_1_eq_mask mask_eq_exp_minus_1)
qed

lemma decodeNibble_invalid [simp]: "decodeNibble c = invalidNibble \<longleftrightarrow> \<not> IsHexCharacter c"
  using small_not_invalidNibble digit_nat_less by (auto simp: decodeNibble_nat)

lemma digit_val_nat: "IsHexCharacter c \<Longrightarrow> digit_val c = digit_nat c"
  using digit_nat_less [of c] by (simp add: digit_val_def decodeNibble_nat unat_of_nat)

lemma digit_val_less: "IsHexCharacter c \<Longrightarrow> digit_val c < 16"
  by (simp add: digit_val_nat digit_nat_less)

lemma of_char_hex_char: "d < 16 \<Longrightarrow> (of_char (hex_char d) :: nat) = (if d < 10 then 48 + d else 87 + d)"
  by (simp add: hex_char_def)

lemma hex_char_is_hex [simp]: "d < 16 \<Longrightarrow> IsHexCharacter (hex_char d)"
  by (auto simp: IsHexCharacter_def of_char_hex_char)

lemma digit_val_hex_char [simp]: "d < 16 \<Longrightarrow> digit_val (hex_char d) = d"
  by (simp add: digit_val_nat) (simp add: digit_nat_def of_char_hex_char Let_def)

lemma decodeNibble_eq: "decodeNibble c = word_of_nat (digit_val c)"
  by (simp add: digit_val_def)

lemma hex_val_Nil [simp]: "hex_val [] = 0"
  by (simp add: hex_val_def)

lemma hex_val_snoc [simp]: "hex_val (s @ [c]) = hex_val s * 16 + digit_val c"
  by (simp add: hex_val_def)

lemma hex_val_append: "hex_val (s @ t) = hex_val s * 16 ^ length t + hex_val t"
proof (induction t rule: rev_induct)
  case (snoc c t)
  have "hex_val (s @ t @ [c]) = hex_val ((s @ t) @ [c])" by simp
  also have "\<dots> = hex_val (s @ t) * 16 + digit_val c" by (rule hex_val_snoc)
  finally show ?case using snoc by (simp add: algebra_simps)
qed simp

lemma hex_val_single [simp]: "hex_val [c] = digit_val c"
  by (simp add: hex_val_def)

lemma hex_val_Cons: "hex_val (c # s) = digit_val c * 16 ^ length s + hex_val s"
  using hex_val_append [of "[c]" s] by simp

lemma hex_val_less: "list_all IsHexCharacter s \<Longrightarrow> hex_val s < 16 ^ length s"
proof (induction s rule: rev_induct)
  case (snoc c s)
  then have "hex_val s + 1 \<le> 16 ^ length s" "digit_val c < 16"
    by (auto simp: digit_val_less)
  then have "hex_val s * 16 + digit_val c < 16 ^ length s * 16" by linarith
  then show ?case by simp
qed simp

text \<open>Without a leading zero the number of digits determines the size of the number.\<close>

lemma hex_val_length:
  assumes "list_all IsHexCharacter s" "s \<noteq> []" "1 < length s \<longrightarrow> s ! 0 \<noteq> CHR ''0''" "0 < k"
  shows "length s \<le> k \<longleftrightarrow> hex_val s < 16 ^ k"
proof
  assume "length s \<le> k"
  then have "(16 :: nat) ^ length s \<le> 16 ^ k" by (intro power_increasing) auto
  then show "hex_val s < 16 ^ k" using hex_val_less [OF assms(1)] by linarith
next
  assume v: "hex_val s < 16 ^ k"
  show "length s \<le> k"
  proof (rule ccontr)
    assume l: "\<not> length s \<le> k"
    obtain c t where s: "s = c # t" using assms(2) by (cases s) auto
    have "c \<noteq> CHR ''0''" using assms(3,4) l s by (cases t) auto
    then have "(of_char c :: nat) \<noteq> of_char CHR ''0''" by (metis of_char_eq_iff)
    then have "(of_char c :: nat) \<noteq> 48" by simp
    then have "0 < digit_val c" using assms(1) s
      by (simp add: digit_val_nat) (auto simp: digit_nat_def IsHexCharacter_def Let_def)
    then have "1 * 16 ^ length t \<le> digit_val c * 16 ^ length t"
      by (intro mult_le_mono1) linarith
    then have "16 ^ length t \<le> hex_val s"
      using hex_val_Cons [of c t] by (simp only: s mult_1)
    moreover have "(16 :: nat) ^ k \<le> 16 ^ length t" using l s by (intro power_increasing) auto
    ultimately show False using v by linarith
  qed
qed

section \<open>Printing and parsing naturals\<close>

text \<open>The digits that \<open>strconv.AppendUint\<close> in base 16 and the verb \<open>%x\<close> print.\<close>

fun hex_digits :: "nat \<Rightarrow> string" where
  "hex_digits n = (if n < 16 then [hex_char n] else hex_digits (n div 16) @ [hex_char (n mod 16)])"

declare hex_digits.simps [simp del]

lemma hex_digits_hex [simp]: "list_all IsHexCharacter (hex_digits n)"
  by (induction n rule: hex_digits.induct) (subst hex_digits.simps, simp)

lemma hex_val_hex_digits [simp]: "hex_val (hex_digits n) = n"
proof (induction n rule: hex_digits.induct)
  case (1 n)
  then show ?case by (subst hex_digits.simps) simp
qed

lemma hex_digits_not_Nil [simp]: "hex_digits n \<noteq> []"
  by (subst hex_digits.simps) simp

lemma hex_char_eq_0: "d < 16 \<Longrightarrow> hex_char d = CHR ''0'' \<longleftrightarrow> d = 0"
proof -
  assume "d < 16"
  have "(of_char CHR ''0'' :: nat) = 48" by simp
  then have "hex_char d = CHR ''0'' \<longleftrightarrow> (of_char (hex_char d) :: nat) = 48"
    by (metis of_char_eq_iff)
  then show ?thesis using \<open>d < 16\<close> by (simp add: of_char_hex_char)
qed

lemma hd_hex_digits: "0 < n \<Longrightarrow> hd (hex_digits n) \<noteq> CHR ''0''"
proof (induction n rule: hex_digits.induct)
  case (1 n)
  then show ?case
    by (subst hex_digits.simps) (auto simp: hex_char_eq_0 hd_append div_greater_zero_iff)
qed

lemma hex_digits_small: "n < 16 \<Longrightarrow> hex_digits n = [hex_char n]"
  by (simp add: hex_digits.simps)

lemma length_hex_digits_le: "n < 16 ^ k \<Longrightarrow> 0 < k \<Longrightarrow> length (hex_digits n) \<le> k"
proof (induction k arbitrary: n)
  case (Suc k)
  show ?case
  proof (cases "n < 16")
    case True
    then show ?thesis by (simp add: hex_digits_small)
  next
    case False
    have "0 < k" using Suc.prems False by (cases k) auto
    moreover have "n div 16 < 16 ^ k"
      using Suc.prems by (simp add: less_mult_imp_div_less mult.commute)
    ultimately show ?thesis using Suc.IH [of "n div 16"] False by (subst hex_digits.simps) simp
  qed
qed simp

section \<open>The package encoding/hex\<close>

datatype hex_dec_error = InvalidByteError | ErrLength

text \<open>\<open>hex.EncodeToString\<close>.\<close>

fun hex_encode :: "bytes \<Rightarrow> string" where
  "hex_encode [] = []"
| "hex_encode (b # bs) = hex_char (unat b div 16) # hex_char (unat b mod 16) # hex_encode bs"

text \<open>
  \<open>hex.DecodeString\<close>: the bytes decoded before the first fault, and the fault.  A last
  character without a partner is a length error unless it is no digit.
\<close>

fun hex_decode :: "string \<Rightarrow> bytes \<times> hex_dec_error option" where
  "hex_decode [] = ([], None)"
| "hex_decode [c] = ([], Some (if IsHexCharacter c then ErrLength else InvalidByteError))"
| "hex_decode (c # d # s) =
     (if \<not> IsHexCharacter c \<or> \<not> IsHexCharacter d then ([], Some InvalidByteError)
      else case hex_decode s of (bs, e) \<Rightarrow> (word_of_nat (digit_val c * 16 + digit_val d) # bs, e))"

lemma length_hex_encode [simp]: "length (hex_encode bs) = 2 * length bs"
  by (induction bs) simp_all

lemma hex_encode_eq_Nil [simp]: "hex_encode bs = [] \<longleftrightarrow> bs = []"
  by (cases bs) simp_all

lemma nibbles_less: "unat (b :: byte) div 16 < 16" "unat (b :: byte) mod 16 < 16"
  using unat_byte_less [of b] by (auto intro: less_mult_imp_div_less)

lemma hex_encode_hex [simp]: "list_all IsHexCharacter (hex_encode bs)"
  by (induction bs) (simp_all add: nibbles_less)

lemma hex_decode_encode [simp]: "hex_decode (hex_encode bs) = (bs, None)"
proof (induction bs)
  case (Cons b bs)
  have "unat b div 16 * 16 + unat b mod 16 = unat b" by simp
  then show ?case using Cons by (simp add: nibbles_less)
qed simp

lemma hex_decode_ok_iff:
  "snd (hex_decode s) = None \<longleftrightarrow> list_all IsHexCharacter s \<and> even (length s)"
  by (induction s rule: hex_decode.induct) (auto split: prod.splits)

lemma hex_decode_ok:
  "list_all IsHexCharacter s \<Longrightarrow> even (length s) \<Longrightarrow> \<exists>bs. hex_decode s = (bs, None) \<and> 2 * length bs = length s"
  by (induction s rule: hex_decode.induct) auto

lemma hex_decode_length: "hex_decode s = (bs, None) \<Longrightarrow> length s = 2 * length bs"
  by (induction s arbitrary: bs rule: hex_decode.induct) (auto split: prod.splits if_splits)

lemma hex_decode_val: "hex_decode s = (bs, None) \<Longrightarrow> be_nat bs = hex_val s"
proof (induction s arbitrary: bs rule: hex_decode.induct)
  case (3 c d s)
  then obtain bs' where s: "hex_decode s = (bs', None)" and h: "IsHexCharacter c" "IsHexCharacter d"
    and bs: "bs = word_of_nat (digit_val c * 16 + digit_val d) # bs'"
    by (auto split: prod.splits if_splits)
  have "digit_val c * 16 + digit_val d < 256"
    using digit_val_less [OF h(1)] digit_val_less [OF h(2)] by linarith
  then have "unat (word_of_nat (digit_val c * 16 + digit_val d) :: byte) = digit_val c * 16 + digit_val d"
    by (rule unat_of_nat_byte)
  then have "be_nat bs = (digit_val c * 16 + digit_val d) * 256 ^ length bs' + hex_val s"
    using 3 s h by (simp add: bs be_nat_Cons del: of_nat_add of_nat_mult)
  moreover have "(256 :: nat) ^ length bs' = 16 ^ length s"
    using hex_decode_length [OF s] by (simp add: power_mult)
  ultimately show ?case by (simp add: hex_val_Cons algebra_simps)
qed (auto split: if_splits)

end
