(* ===== verification/Hex_Types.thy ===== *)
theory Hex_Types
  imports Hex_Core
begin

text \<open>
  The integer and byte types of \<open>src/app/pkg/entities/encoding_types.go\<close>: \<open>Int256\<close>,
  \<open>HexInt256\<close>, \<open>UInt64\<close>, \<open>HexUInt64\<close>, \<open>HexBytes\<close> and \<open>HexBytes32\<close> with their parsers,
  printers and arithmetic.

  A \<open>big.Int\<close> is an \<open>int\<close>, a \<open>uint64\<close> and a \<open>big.Word\<close> a \<open>64 word\<close>, a \<open>[32]byte\<close> a
  list of 32 bytes.  Methods that change their receiver return its new value.  The theorems show
  that every printed value parses back, that the word by word parser of \<open>HexInt256\<close> never
  overflows a word, and that the overflow flags of the \<open>UInt64\<close> operations are exact.
\<close>

datatype hex_error =
    HexEmptyString
  | HexSyntax
  | HexMissingPrefix
  | HexOddLength
  | HexEmptyNumber
  | HexLeadingZero
  | HexUint64Range
  | HexInt256Range
  | HexNotANumber string
  | HexTooLong string
  | NumErrSyntax
  | NumErrRange
  | HexInvalidType hex_error
  | HexNonString
  | HexPanicIndex

section \<open>Checks on the text\<close>

definition checkPrefixFromString :: "string \<Rightarrow> bool" where
  "checkPrefixFromString input =
     (2 \<le> length input \<and> input ! 0 = CHR ''0'' \<and> (input ! 1 = CHR ''x'' \<or> input ! 1 = CHR ''X''))"

definition checkNumber :: "string \<Rightarrow> hex_error + string" where
  "checkNumber input =
     (if length input = 0 then Inl HexEmptyString
      else if \<not> checkPrefixFromString input then Inl HexMissingPrefix
      else let input = drop 2 input in
        if length input = 0 then Inl HexEmptyNumber
        else if 1 < length input \<and> input ! 0 = CHR ''0'' then Inl HexLeadingZero
        else Inr input)"

definition checkNumberText :: "string \<Rightarrow> hex_error + string" where
  "checkNumberText input =
     (if length input = 0 then Inr []
      else if \<not> checkPrefixFromString input then Inl HexMissingPrefix
      else let input = drop 2 input in
        if length input = 0 then Inl HexEmptyNumber
        else if 1 < length input \<and> input ! 0 = CHR ''0'' then Inl HexLeadingZero
        else Inr input)"

definition checkString :: "string \<Rightarrow> bool" where
  "checkString input =
     (2 \<le> length input \<and> input ! 0 = CHR 0x22 \<and> input ! (length input - 1) = CHR 0x22)"

definition checkText :: "string \<Rightarrow> bool \<Rightarrow> hex_error + string" where
  "checkText input wantPrefix =
     (if length input = 0 then Inr []
      else if \<not> checkPrefixFromString input \<and> wantPrefix then Inl HexMissingPrefix
      else let input = (if checkPrefixFromString input then drop 2 input else input) in
        if length input mod 2 \<noteq> 0 then Inl HexOddLength else Inr input)"

definition errorHexEncoding :: "hex_dec_error \<Rightarrow> hex_error" where
  "errorHexEncoding e = (case e of InvalidByteError \<Rightarrow> HexSyntax | ErrLength \<Rightarrow> HexOddLength)"

definition errorHexEncodingNum :: "hex_error \<Rightarrow> hex_error" where
  "errorHexEncodingNum e =
     (case e of NumErrRange \<Rightarrow> HexUint64Range | NumErrSyntax \<Rightarrow> HexSyntax | _ \<Rightarrow> e)"

section \<open>Numbers in the standard library\<close>

text \<open>
  \<open>strconv.ParseUint(s, base, 64)\<close> for the bases 16 and 10: no digit or a wrong digit is a
  syntax error with value zero, a number above 64 bits a range error with the largest value.
\<close>

definition dec_digit :: "char \<Rightarrow> bool" where
  "dec_digit c = (let n = (of_char c :: nat) in 48 \<le> n \<and> n \<le> 57)"

definition dec_val :: "string \<Rightarrow> nat" where
  "dec_val s = foldl (\<lambda>a c. a * 10 + (of_char c - 48)) 0 s"

definition ParseUint :: "bool \<Rightarrow> string \<Rightarrow> 64 word \<times> hex_error option" where
  "ParseUint hex s =
     (let v = (if hex then hex_val s else dec_val s) in
      if s = [] \<or> \<not> list_all (if hex then IsHexCharacter else dec_digit) s
      then (0, Some NumErrSyntax)
      else if 2 ^ 64 \<le> v then (- 1, Some NumErrRange)
      else (word_of_nat v, None))"

text \<open>\<open>(*big.Int).SetString(s, base)\<close> for the same bases: an optional sign and digits.\<close>

definition big_set_string :: "bool \<Rightarrow> string \<Rightarrow> int option" where
  "big_set_string hex s =
     (let neg = (s \<noteq> [] \<and> hd s = CHR ''-'');
          digits = (if s \<noteq> [] \<and> (hd s = CHR ''-'' \<or> hd s = CHR ''+'') then tl s else s);
          v = int (if hex then hex_val digits else dec_val digits)
      in if digits = [] \<or> \<not> list_all (if hex then IsHexCharacter else dec_digit) digits then None
         else Some (if neg then - v else v))"

text \<open>\<open>(*big.Int).BitLen\<close>, the length of the absolute value.\<close>

definition BitLen :: "int \<Rightarrow> nat" where
  "BitLen i = bit_len (nat \<bar>i\<bar>)"

text \<open>Decimal printing.\<close>

fun dec_digits :: "nat \<Rightarrow> string" where
  "dec_digits n = (if n < 10 then [char_of (48 + n)] else dec_digits (n div 10) @ [char_of (48 + n mod 10)])"

declare dec_digits.simps [simp del]

section \<open>Int256\<close>

definition Int256_String :: "int \<Rightarrow> string" where
  "Int256_String b = (if b < 0 then CHR ''-'' # dec_digits (nat (- b)) else dec_digits (nat b))"

definition NewInt256FromString :: "string \<Rightarrow> hex_error + int" where
  "NewInt256FromString s =
     (if length s = 0 then Inr 0
      else case (if 2 \<le> length s \<and> (take 2 s = ''0x'' \<or> take 2 s = ''0X'')
                 then big_set_string True (drop 2 s) else big_set_string False s) of
             None \<Rightarrow> Inl (HexNotANumber s)
           | Some i \<Rightarrow> if 256 < BitLen i then Inl (HexTooLong s) else Inr i)"

definition IsInt256 :: "string \<Rightarrow> bool" where
  "IsInt256 s = (case NewInt256FromString s of Inl _ \<Rightarrow> False | Inr _ \<Rightarrow> True)"

text \<open>\<open>U256\<close> overwrites its receiver with the result it returns.\<close>

definition U256 :: "int \<Rightarrow> int \<times> int" where
  "U256 b = (let v = take_bit 256 b in (v, v))"

definition S256 :: "int \<Rightarrow> int" where
  "S256 b = (if b < 2 ^ 255 then b else b - 2 ^ 256)"

fun first_set :: "nat \<Rightarrow> nat \<Rightarrow> int \<Rightarrow> nat" where
  "first_set 0 k i = BitLen i"
| "first_set (Suc m) k i = (if bit i k then k else first_set m (Suc k) i)"

definition FirstBitSet :: "int \<Rightarrow> nat" where
  "FirstBitSet b = first_set (BitLen b) 0 b"

text \<open>The words of the absolute value, least significant first (\<open>big.Int.Bits\<close>).\<close>

fun big_words :: "nat \<Rightarrow> 64 word list" where
  "big_words n = (if n = 0 then [] else word_of_nat n # big_words (n div 2 ^ 64))"

declare big_words.simps [simp del]

fun read_word :: "nat \<Rightarrow> 64 word \<Rightarrow> nat \<Rightarrow> bytes \<Rightarrow> nat \<times> bytes" where
  "read_word 0 d l buf = (l, buf)"
| "read_word (Suc j) d l buf =
     (if l = 0 then (l, buf)
      else read_word j (drop_bit 8 d) (l - 1) (buf[l - 1 := ucast d]))"

fun read_words :: "64 word list \<Rightarrow> nat \<Rightarrow> bytes \<Rightarrow> bytes" where
  "read_words [] l buf = buf"
| "read_words (d # ds) l buf = (case read_word 8 d l buf of (l', buf') \<Rightarrow> read_words ds l' buf')"

definition ReadBits :: "int \<Rightarrow> bytes \<Rightarrow> bytes" where
  "ReadBits b buf = read_words (big_words (nat \<bar>b\<bar>)) (length buf) buf"

definition PaddedBytes :: "int \<Rightarrow> nat \<Rightarrow> bytes" where
  "PaddedBytes b n =
     (if n \<le> BitLen b div 8 then be_bytes (nat \<bar>b\<bar>) else ReadBits b (replicate n 0))"

definition U256Bytes :: "int \<Rightarrow> bytes" where
  "U256Bytes b = PaddedBytes (fst (U256 b)) 32"

section \<open>HexInt256\<close>

text \<open>
  The digits are gathered from the right in chunks of \<open>bigWordNibbles = 16\<close>, one word per chunk.
\<close>

fun chunk_word :: "string \<Rightarrow> 64 word \<Rightarrow> hex_error + 64 word" where
  "chunk_word [] w = Inr w"
| "chunk_word (c # cs) w =
     (if decodeNibble c = invalidNibble then Inl HexSyntax
      else chunk_word cs (w * 16 + decodeNibble c))"

fun hex_words :: "nat \<Rightarrow> string \<Rightarrow> hex_error + 64 word list" where
  "hex_words 0 raw = Inr []"
| "hex_words (Suc k) raw =
     (let start = length raw - 16 in
      case chunk_word (drop start raw) 0 of
        Inl e \<Rightarrow> Inl e
      | Inr w \<Rightarrow> (case hex_words k (take start raw) of Inl e \<Rightarrow> Inl e | Inr ws \<Rightarrow> Inr (w # ws)))"

text \<open>\<open>(*big.Int).SetBits\<close>.\<close>

fun SetBits :: "64 word list \<Rightarrow> nat" where
  "SetBits [] = 0"
| "SetBits (w # ws) = unat w + 2 ^ 64 * SetBits ws"

definition decode_hex_int256 :: "string \<Rightarrow> hex_error + int" where
  "decode_hex_int256 raw =
     (if 64 < length raw then Inl HexInt256Range
      else case hex_words (length raw div 16 + 1) raw of
             Inl e \<Rightarrow> Inl e
           | Inr ws \<Rightarrow> Inr (int (SetBits ws)))"

definition NewHexInt256FromString :: "string \<Rightarrow> hex_error + int" where
  "NewHexInt256FromString input =
     (case checkNumber input of Inl e \<Rightarrow> Inl e | Inr raw \<Rightarrow> decode_hex_int256 raw)"

definition HexInt256_UnmarshalText :: "string \<Rightarrow> hex_error + int" where
  "HexInt256_UnmarshalText input =
     (case checkNumberText input of Inl e \<Rightarrow> Inl e | Inr raw \<Rightarrow> decode_hex_int256 raw)"

text \<open>The verb \<open>%#x\<close> prints the sign before the prefix.\<close>

definition HexInt256_Encode :: "int \<Rightarrow> string" where
  "HexInt256_Encode b =
     (if BitLen b = 0 then ''0x0''
      else if b < 0 then ''-0x'' @ hex_digits (nat (- b))
      else ''0x'' @ hex_digits (nat b))"

definition IsHexInt256 :: "string \<Rightarrow> bool" where
  "IsHexInt256 input = (case NewHexInt256FromString input of Inl _ \<Rightarrow> False | Inr _ \<Rightarrow> True)"

text \<open>
  \<open>json.Marshal\<close> of a string without characters to escape, and the wrapping of an
  \<open>UnmarshalText\<close> by the \<open>UnmarshalJSON\<close> methods; a panic is not an error value.
\<close>

definition json_string :: "string \<Rightarrow> string" where
  "json_string s = CHR 0x22 # s @ [CHR 0x22]"

definition errorHexEncodingInvalidType :: "hex_error \<Rightarrow> hex_error" where
  "errorHexEncodingInvalidType e = (if e = HexPanicIndex then e else HexInvalidType e)"

definition unmarshal_json :: "(string \<Rightarrow> hex_error + 'a) \<Rightarrow> string \<Rightarrow> hex_error + 'a" where
  "unmarshal_json unmarshal_text input =
     (if \<not> checkString input then Inl HexNonString
      else case unmarshal_text (take (length input - 2) (drop 1 input)) of
             Inl e \<Rightarrow> Inl (errorHexEncodingInvalidType e)
           | Inr v \<Rightarrow> Inr v)"

definition HexInt256_MarshalJSON :: "int \<Rightarrow> string" where
  "HexInt256_MarshalJSON b = json_string (HexInt256_Encode b)"

definition HexInt256_UnmarshalJSON :: "string \<Rightarrow> hex_error + int" where
  "HexInt256_UnmarshalJSON = unmarshal_json HexInt256_UnmarshalText"

section \<open>UInt64 and HexUInt64\<close>

definition NewUInt64FromString :: "string \<Rightarrow> hex_error + 64 word" where
  "NewUInt64FromString s =
     (if s = [] then Inr 0
      else case (if 2 \<le> length s \<and> (take 2 s = ''0x'' \<or> take 2 s = ''0X'')
                 then ParseUint True (drop 2 s) else ParseUint False s) of
             (_, Some e) \<Rightarrow> Inl e
           | (v, None) \<Rightarrow> Inr v)"

text \<open>\<open>bits.Sub64\<close>, \<open>bits.Add64\<close> and \<open>bits.Mul64\<close> with the flag the methods derive.\<close>

definition UInt64_Sub :: "64 word \<Rightarrow> 64 word \<Rightarrow> 64 word \<times> bool" where
  "UInt64_Sub x y = (x - y, x < y)"

definition UInt64_Add :: "64 word \<Rightarrow> 64 word \<Rightarrow> 64 word \<times> bool" where
  "UInt64_Add x y = (x + y, x + y < x)"

definition UInt64_Mul :: "64 word \<Rightarrow> 64 word \<Rightarrow> 64 word \<times> bool" where
  "UInt64_Mul x y =
     (let p = (ucast x :: 128 word) * ucast y;
          hi = (ucast (drop_bit 64 p) :: 64 word); lo = ucast p
      in (lo, hi \<noteq> 0))"

definition NewHexUInt64FromString :: "string \<Rightarrow> 64 word \<times> hex_error option" where
  "NewHexUInt64FromString input =
     (case checkNumber input of
        Inl e \<Rightarrow> (0, Some e)
      | Inr raw \<Rightarrow> (case ParseUint True raw of (v, e) \<Rightarrow> (v, map_option errorHexEncodingNum e)))"

definition HexUInt64_UnmarshalText :: "string \<Rightarrow> hex_error + 64 word" where
  "HexUInt64_UnmarshalText input =
     (case checkNumberText input of
        Inl e \<Rightarrow> Inl e
      | Inr raw \<Rightarrow> if 16 < length raw then Inl HexUint64Range else chunk_word raw 0)"

definition HexUInt64_encode :: "64 word \<Rightarrow> string" where
  "HexUInt64_encode b = ''0x'' @ hex_digits (unat b)"

definition HexUInt64_UnmarshalJSON :: "string \<Rightarrow> hex_error + 64 word" where
  "HexUInt64_UnmarshalJSON = unmarshal_json HexUInt64_UnmarshalText"

section \<open>HexBytes and HexBytes32\<close>

definition NewHexBytesFromString :: "string \<Rightarrow> bytes \<times> hex_error option" where
  "NewHexBytesFromString input =
     (if length input = 0 then ([], Some HexEmptyString)
      else let input = (if checkPrefixFromString input then input else ''0x'' @ input) in
        case hex_decode (drop 2 input) of (b, e) \<Rightarrow> (b, map_option errorHexEncoding e))"

definition HexBytes_Encode :: "bytes \<Rightarrow> string" where
  "HexBytes_Encode b = ''0x'' @ hex_encode b"

definition HexBytes_UnmarshalText :: "string \<Rightarrow> hex_error + bytes" where
  "HexBytes_UnmarshalText input =
     (case checkText input True of
        Inl e \<Rightarrow> Inl e
      | Inr raw \<Rightarrow> (case hex_decode raw of
                      (_, Some e) \<Rightarrow> Inl (errorHexEncoding e)
                    | (dec, None) \<Rightarrow> Inr dec))"

definition HexBytes_UnmarshalJSON :: "string \<Rightarrow> hex_error + bytes" where
  "HexBytes_UnmarshalJSON = unmarshal_json HexBytes_UnmarshalText"

definition HexBytes32_FromBytes :: "bytes \<Rightarrow> bytes" where
  "HexBytes32_FromBytes src = copy_zeroed 32 src"

definition NewHexBytes32FromString :: "string \<Rightarrow> hex_error + bytes" where
  "NewHexBytes32FromString input =
     (if length input = 0 then Inl HexEmptyString
      else if \<not> checkPrefixFromString input then Inl HexMissingPrefix
      else case hex_decode (drop 2 input) of
             (_, Some e) \<Rightarrow> Inl (errorHexEncoding e)
           | (b, None) \<Rightarrow> Inr (HexBytes32_FromBytes b))"

definition HexBytes32_String :: "bytes \<Rightarrow> string" where
  "HexBytes32_String b = string_of_bytes (takeWhile (\<lambda>x. x \<noteq> 0) b)"

definition HexBytes32_Encode :: "bytes \<Rightarrow> string" where
  "HexBytes32_Encode b = hex_encode b"

text \<open>
  \<open>hex.Decode\<close> writes into a destination of 32 bytes: the thirty-third good byte is an index
  out of range.
\<close>

definition HexBytes32_UnmarshalText :: "string \<Rightarrow> hex_error + bytes" where
  "HexBytes32_UnmarshalText input =
     (case checkText input True of
        Inl e \<Rightarrow> Inl e
      | Inr raw \<Rightarrow> (case hex_decode raw of (dec, e) \<Rightarrow>
                      if 32 < length dec then Inl HexPanicIndex
                      else case e of
                             Some e \<Rightarrow> Inl (errorHexEncoding e)
                           | None \<Rightarrow> Inr (HexBytes32_FromBytes (copy_zeroed 32 dec))))"

definition HexBytes32_MarshalJSON :: "bytes \<Rightarrow> string" where
  "HexBytes32_MarshalJSON b = json_string (HexBytes32_Encode b)"

definition HexBytes32_UnmarshalJSON :: "string \<Rightarrow> hex_error + bytes" where
  "HexBytes32_UnmarshalJSON = unmarshal_json HexBytes32_UnmarshalText"

section \<open>Helpers\<close>

definition HasHexPrefix :: "string \<Rightarrow> bool" where
  "HasHexPrefix = checkPrefixFromString"

definition IsHex :: "string \<Rightarrow> bool" where
  "IsHex str = (if length str mod 2 \<noteq> 0 then False else list_all IsHexCharacter str)"

definition HexToBytes :: "string \<Rightarrow> bytes \<times> hex_dec_error option" where
  "HexToBytes str = (if checkPrefixFromString str then hex_decode (drop 2 str) else hex_decode str)"

definition FromHex :: "string \<Rightarrow> bytes \<times> hex_dec_error option" where
  "FromHex s =
     (let s1 = (if HasHexPrefix s then drop 2 s else s);
          s2 = (if length s1 mod 2 = 1 then CHR ''0'' # s1 else s1)
      in HexToBytes s2)"

definition RightPadBytes :: "bytes \<Rightarrow> nat \<Rightarrow> bytes" where
  "RightPadBytes s l =
     (if l \<le> length s then s else s @ replicate (l - length s) 0)"

definition LeftPadBytes :: "bytes \<Rightarrow> nat \<Rightarrow> bytes" where
  "LeftPadBytes s l =
     (if l \<le> length s then s else replicate (l - length s) 0 @ s)"

fun trim_from :: "bytes \<Rightarrow> nat \<Rightarrow> nat" where
  "trim_from s 0 = 0"
| "trim_from s (Suc k) = (if s ! k \<noteq> 0 then Suc k else trim_from s k)"

definition TrimRightZeroes :: "bytes \<Rightarrow> bytes" where
  "TrimRightZeroes s = take (trim_from s (length s)) s"

definition MaxBigInt :: "int \<Rightarrow> int \<Rightarrow> int" where
  "MaxBigInt x y = (if x < y then y else x)"

definition MinBigInt :: "int \<Rightarrow> int \<Rightarrow> int" where
  "MinBigInt x y = (if y < x then y else x)"

section \<open>Lemmas on the parsers\<close>

lemma chunk_word_ok:
  "list_all IsHexCharacter s \<Longrightarrow>
     chunk_word s (word_of_nat n) = Inr (word_of_nat (n * 16 ^ length s + hex_val s))"
proof (induction s arbitrary: n)
  case (Cons c s)
  have "word_of_nat n * 16 + decodeNibble c = (word_of_nat (n * 16 + digit_val c) :: 64 word)"
    by (simp add: decodeNibble_eq)
  then have "chunk_word (c # s) (word_of_nat n) = chunk_word s (word_of_nat (n * 16 + digit_val c))"
    using Cons.prems by (simp del: of_nat_add of_nat_mult)
  also have "\<dots> = Inr (word_of_nat ((n * 16 + digit_val c) * 16 ^ length s + hex_val s))"
    using Cons by (simp del: of_nat_add of_nat_mult)
  also have "(n * 16 + digit_val c) * 16 ^ length s + hex_val s = n * 16 ^ length (c # s) + hex_val (c # s)"
    by (simp add: hex_val_Cons algebra_simps)
  finally show ?case .
qed simp

lemma chunk_word_bad: "\<not> list_all IsHexCharacter s \<Longrightarrow> chunk_word s w = Inl HexSyntax"
  by (induction s arbitrary: w) auto

lemma chunk_word_0:
  "chunk_word s 0 = (if list_all IsHexCharacter s then Inr (word_of_nat (hex_val s)) else Inl HexSyntax)"
  using chunk_word_ok [of s 0] chunk_word_bad [of s 0] by simp

lemma unat_hex_word:
  assumes "list_all IsHexCharacter s" "length s \<le> 16"
  shows "unat (word_of_nat (hex_val s) :: 64 word) = hex_val s"
proof -
  have "hex_val s < 16 ^ length s" using assms(1) by (rule hex_val_less)
  also have "\<dots> \<le> 16 ^ 16" using assms(2) by (intro power_increasing) auto
  finally show ?thesis by (simp add: unat_of_nat)
qed

lemma hex_words_ok:
  "list_all IsHexCharacter raw \<Longrightarrow> length raw \<le> 16 * k \<Longrightarrow>
     \<exists>ws. hex_words k raw = Inr ws \<and> SetBits ws = hex_val raw"
proof (induction k arbitrary: raw)
  case (Suc k)
  let ?i = "length raw - 16"
  have split: "raw = take ?i raw @ drop ?i raw" by simp
  have hex: "list_all IsHexCharacter (take ?i raw)" "list_all IsHexCharacter (drop ?i raw)"
    using Suc.prems(1) by (metis split list_all_append)+
  obtain ws where ws: "hex_words k (take ?i raw) = Inr ws" "SetBits ws = hex_val (take ?i raw)"
    using Suc.IH [OF hex(1)] Suc.prems(2) by fastforce
  have low: "unat (word_of_nat (hex_val (drop ?i raw)) :: 64 word) = hex_val (drop ?i raw)"
    using hex(2) by (rule unat_hex_word) simp
  have "hex_val raw = hex_val (take ?i raw) * 16 ^ length (drop ?i raw) + hex_val (drop ?i raw)"
    using hex_val_append [of "take ?i raw" "drop ?i raw"] by simp
  also have "hex_val (take ?i raw) * 16 ^ length (drop ?i raw) = 2 ^ 64 * hex_val (take ?i raw)"
    by (cases "16 \<le> length raw") auto
  finally have "hex_val raw = SetBits (word_of_nat (hex_val (drop ?i raw)) # ws)"
    using ws(2) low by simp
  then show ?case using ws(1) hex(2) by (auto simp: chunk_word_0 Let_def)
qed simp

lemma hex_words_bad:
  "\<not> list_all IsHexCharacter raw \<Longrightarrow> length raw \<le> 16 * k \<Longrightarrow> hex_words k raw = Inl HexSyntax"
proof (induction k arbitrary: raw)
  case (Suc k)
  let ?i = "length raw - 16"
  have "\<not> list_all IsHexCharacter (take ?i raw) \<or> \<not> list_all IsHexCharacter (drop ?i raw)"
    using Suc.prems(1) by (metis append_take_drop_id list_all_append)
  then show ?case using Suc.IH [of "take ?i raw"] Suc.prems(2)
    by (auto simp: chunk_word_0 Let_def)
qed simp

lemma decode_hex_int256_eq:
  "decode_hex_int256 raw =
     (if 64 < length raw then Inl HexInt256Range
      else if list_all IsHexCharacter raw then Inr (int (hex_val raw)) else Inl HexSyntax)"
proof -
  have "length raw \<le> 16 * (length raw div 16 + 1)"
    by presburger
  then show ?thesis
    using hex_words_ok [of raw "length raw div 16 + 1"] hex_words_bad [of raw "length raw div 16 + 1"]
    by (auto simp: decode_hex_int256_def simp del: hex_words.simps)
qed

lemma prefix_cases:
  "checkPrefixFromString s \<longleftrightarrow> (\<exists>r. s = ''0x'' @ r \<or> s = ''0X'' @ r)"
  by (cases s; cases "tl s") (auto simp: checkPrefixFromString_def)

lemma checkPrefix_0x [simp]: "checkPrefixFromString (CHR ''0'' # CHR ''x'' # r)"
  by (simp add: checkPrefixFromString_def)

lemma checkNumber_hex_digits [simp]:
  "checkNumber (CHR ''0'' # CHR ''x'' # hex_digits n) = Inr (hex_digits n)"
proof -
  have "hex_digits n ! 0 \<noteq> CHR ''0'' \<or> length (hex_digits n) = 1"
  proof (cases "n = 0")
    case True
    then show ?thesis by (simp add: hex_digits_small)
  next
    case False
    then show ?thesis using hd_hex_digits [of n] by (simp add: hd_conv_nth)
  qed
  then show ?thesis by (auto simp: checkNumber_def Let_def)
qed

lemma checkNumberText_checkNumber:
  "s \<noteq> [] \<Longrightarrow> checkNumberText s = checkNumber s"
  by (simp add: checkNumberText_def checkNumber_def)

lemma checkNumber_ok_iff:
  "checkNumber s = Inr raw \<longleftrightarrow>
     (s = ''0x'' @ raw \<or> s = ''0X'' @ raw) \<and> raw \<noteq> [] \<and> (1 < length raw \<longrightarrow> raw ! 0 \<noteq> CHR ''0'')"
  by (cases "checkPrefixFromString s")
    (auto simp: checkNumber_def Let_def prefix_cases split: if_splits)

lemma checkString_json [simp]: "checkString (json_string s)"
  by (simp add: checkString_def json_string_def nth_Cons' nth_append)

lemma unmarshal_json_string [simp]:
  "unmarshal_json f (json_string s) =
     (case f s of Inl e \<Rightarrow> Inl (errorHexEncodingInvalidType e) | Inr v \<Rightarrow> Inr v)"
  by (simp add: unmarshal_json_def) (simp add: json_string_def)

lemma BitLen_le_iff: "BitLen i \<le> k \<longleftrightarrow> \<bar>i\<bar> < 2 ^ k"
  by (simp add: BitLen_def bit_len_le_iff nat_less_iff)

lemma BitLen_eq_0 [simp]: "BitLen i = 0 \<longleftrightarrow> i = 0"
  using BitLen_le_iff [of i 0] by auto

section \<open>Lemmas on the byte forms\<close>

lemma read_word_eq:
  "l \<le> length buf \<Longrightarrow> read_word j d l buf =
     (l - j, take (l - j) buf @ be_fixed (min j l) (unat d) @ drop l buf)"
proof (induction j arbitrary: d l buf)
  case (Suc j)
  show ?case
  proof (cases l)
    case (Suc m)
    have b: "(ucast d :: byte) = word_of_nat (unat d)" by simp
    have s: "unat (drop_bit 8 d) = unat d div 256"
      by (subst unat_drop_bit_eq) (simp add: drop_bit_eq_div)
    have t: "take (m - j) (buf[m := ucast d]) = take (m - j) buf" for m by simp
    have d: "drop m (buf[m := x]) = x # drop (Suc m) buf" for x
      using Suc.prems \<open>l = Suc m\<close> by (simp add: drop_update_swap Cons_nth_drop_Suc [symmetric])
    show ?thesis
      using Suc.IH [of m "buf[m := ucast d]" "drop_bit 8 d"] Suc.prems \<open>l = Suc m\<close>
      by (simp add: s t d b del: of_nat_unat)
  qed simp
qed simp

lemma read_words_eq:
  "l \<le> length buf \<Longrightarrow> take l buf = replicate l 0 \<Longrightarrow>
     read_words (big_words v) l buf = be_fixed l v @ drop l buf"
proof (induction v arbitrary: l buf rule: big_words.induct)
  case (1 v)
  show ?case
  proof (cases "v = 0")
    case True
    then show ?thesis using 1 by (simp add: big_words.simps) (metis append_take_drop_id)
  next
    case False
    let ?buf = "take (l - 8) buf @ be_fixed (min 8 l) (unat (word_of_nat v :: 64 word)) @ drop l buf"
    have low: "be_fixed (min 8 l) (unat (word_of_nat v :: 64 word)) = be_fixed (min 8 l) v"
    proof -
      have "unat (word_of_nat v :: 64 word) = v mod 256 ^ 8" by (simp add: unat_of_nat)
      then have "be_fixed (min 8 l) (unat (word_of_nat v :: 64 word)) =
          be_fixed (min 8 l) (v mod 256 ^ 8 mod 256 ^ min 8 l)" by (simp only: be_fixed_mod)
      also have "v mod 256 ^ 8 mod 256 ^ min 8 l = v mod 256 ^ min 8 l"
        by (rule mod_mod_cancel) (rule le_imp_power_dvd, simp)
      finally show ?thesis by (simp add: be_fixed_mod)
    qed
    have "read_words (big_words v) l buf = read_words (big_words (v div 2 ^ 64)) (l - 8) ?buf"
      using False 1(2) by (subst big_words.simps) (simp add: read_word_eq)
    also have "\<dots> = be_fixed (l - 8) (v div 2 ^ 64) @ drop (l - 8) ?buf"
    proof (rule "1.IH")
      have t: "take (l - 8) buf = replicate (l - 8) 0"
        using 1(3) by (metis diff_le_self min.absorb2 take_replicate take_take min.commute)
      show "take (l - 8) ?buf = replicate (l - 8) 0" using t 1(2) by simp
    qed (use False 1(2) in auto)
    also have "drop (l - 8) ?buf = be_fixed (min 8 l) v @ drop l buf"
      using 1(2) by (simp add: low)
    also have "be_fixed (l - 8) (v div 2 ^ 64) @ be_fixed (min 8 l) v @ drop l buf = be_fixed l v @ drop l buf"
    proof (cases "8 \<le> l")
      case True
      then show ?thesis using be_fixed_add [of "l - 8" 8 v] by simp
    qed (simp add: min_def)
    finally show ?thesis .
  qed
qed

lemma ReadBits_zeroed: "ReadBits b (replicate n 0) = be_fixed n (nat \<bar>b\<bar>)"
  by (simp add: ReadBits_def read_words_eq)

lemma PaddedBytes_eq:
  "PaddedBytes b n =
     (if \<bar>b\<bar> < 2 ^ (8 * n) then be_fixed n (nat \<bar>b\<bar>) else be_bytes (nat \<bar>b\<bar>))"
proof (cases "n \<le> BitLen b div 8")
  case False
  then have "BitLen b \<le> 8 * n" using div_less_iff_less_mult [of 8 "BitLen b" n] by simp
  then show ?thesis using False
    by (simp add: PaddedBytes_def ReadBits_zeroed BitLen_le_iff)
next
  case True
  then have big: "\<not> nat \<bar>b\<bar> < 256 ^ (n - 1)" if "0 < n"
  proof -
    have "8 * n \<le> BitLen b" using True by (simp add: less_eq_div_iff_mult_less_eq mult.commute)
    then have "\<not> BitLen b \<le> 8 * (n - 1)" using that by linarith
    then show ?thesis by (simp add: BitLen_le_iff power_mult nat_less_iff)
  qed
  have "be_fixed n (nat \<bar>b\<bar>) = be_bytes (nat \<bar>b\<bar>)" if "\<bar>b\<bar> < 2 ^ (8 * n)"
  proof -
    have s: "nat \<bar>b\<bar> < 256 ^ n" using that by (simp add: power_mult nat_less_iff)
    then have "length (be_bytes (nat \<bar>b\<bar>)) \<le> n" by (rule length_be_bytes_le)
    moreover have "n \<le> length (be_bytes (nat \<bar>b\<bar>))"
      using big length_be_bytes_iff [of "nat \<bar>b\<bar>" "n - 1"] by (cases n) auto
    ultimately show ?thesis using s by (simp add: be_fixed_pad)
  qed
  then show ?thesis using True by (simp add: PaddedBytes_def)
qed

lemma signed_residue:
  fixes M b :: int
  assumes "0 < M"
  shows "(if b mod (2 * M) < M then b mod (2 * M) else b mod (2 * M) - 2 * M) = b
           \<longleftrightarrow> - M \<le> b \<and> b < M" (is "?r = b \<longleftrightarrow> _")
proof
  have m: "0 \<le> b mod (2 * M)" "b mod (2 * M) < 2 * M" using assms by simp_all
  then have "- M \<le> ?r \<and> ?r < M" by simp
  then show "?r = b \<Longrightarrow> - M \<le> b \<and> b < M" by simp
next
  assume r: "- M \<le> b \<and> b < M"
  show "?r = b"
  proof (cases "0 \<le> b")
    case False
    have "b mod (2 * M) = (b + 2 * M) mod (2 * M)" by simp
    also have "\<dots> = b + 2 * M" using r False by (intro mod_pos_pos_trivial) linarith+
    finally show ?thesis using r by simp
  qed (use r in simp)
qed

lemma hex_encode_no_prefix: "\<not> checkPrefixFromString (hex_encode b)"
proof
  assume "checkPrefixFromString (hex_encode b)"
  then obtain x r where x: "hex_encode b = CHR ''0'' # x # r" "x = CHR ''x'' \<or> x = CHR ''X''"
    by (auto simp: prefix_cases)
  then have "IsHexCharacter x" using hex_encode_hex [of b] by simp
  then show False using x(2) by (auto simp: IsHexCharacter_def)
qed

section \<open>Properties\<close>

lemma NewHexInt256FromString_eq:
  "NewHexInt256FromString s =
     (case checkNumber s of
        Inl e \<Rightarrow> Inl e
      | Inr raw \<Rightarrow>
          if 64 < length raw then Inl HexInt256Range
          else if list_all IsHexCharacter raw then Inr (int (hex_val raw)) else Inl HexSyntax)"
  by (simp add: NewHexInt256FromString_def decode_hex_int256_eq split: sum.split)

text \<open>
  \<open>NewHexInt256FromString\<close> accepts exactly a prefix \<open>0x\<close> or \<open>0X\<close> followed by one to 64
  digits without a leading zero, and its result, gathered in 64 bit words, is the number the
  digits denote, below \<open>2 ^ 256\<close>.
\<close>

theorem hex_int256_parse:
  "NewHexInt256FromString s = Inr i \<longleftrightarrow>
     (\<exists>raw. (s = ''0x'' @ raw \<or> s = ''0X'' @ raw) \<and> 0 < length raw \<and> length raw \<le> 64 \<and>
        \<not> (length raw \<noteq> 1 \<and> raw ! 0 = CHR ''0'') \<and> list_all IsHexCharacter raw \<and>
        i = int (hex_val raw) \<and> i < 2 ^ 256)"
  (is "?l \<longleftrightarrow> ?r")
proof
  assume ?l
  then obtain raw where raw: "checkNumber s = Inr raw" "length raw \<le> 64"
      "list_all IsHexCharacter raw" "i = int (hex_val raw)"
    by (auto simp: NewHexInt256FromString_eq split: sum.splits if_splits)
  have "hex_val raw < 16 ^ length raw" using raw(3) by (rule hex_val_less)
  also have "\<dots> \<le> 16 ^ 64" using raw(2) by (intro power_increasing) auto
  finally have "hex_val raw < 2 ^ 256" by (simp add: power_mult [symmetric])
  then have "i < 2 ^ 256" using raw(4) by (simp only: of_nat_less_iff [symmetric, where 'a = int]) simp
  moreover have "length raw = 1 \<or> raw ! 0 \<noteq> CHR ''0''" "0 < length raw"
    using raw(1) by (auto simp: checkNumber_ok_iff le_Suc_eq not_less)
  ultimately show ?r using raw by (auto simp: checkNumber_ok_iff)
next
  assume ?r
  then obtain raw where raw: "s = ''0x'' @ raw \<or> s = ''0X'' @ raw" "0 < length raw"
      "length raw \<le> 64" "length raw = 1 \<or> raw ! 0 \<noteq> CHR ''0''"
      "list_all IsHexCharacter raw" "i = int (hex_val raw)"
    by blast
  then have "checkNumber s = Inr raw" by (auto simp: checkNumber_ok_iff)
  then show ?l using raw by (simp add: NewHexInt256FromString_eq)
qed

text \<open>
  Every \<open>HexInt256\<close> of 256 bits is read back from its text and JSON forms by all three of
  its parsers.
\<close>

theorem hex_int256_roundtrip:
  assumes "0 \<le> i" "i < 2 ^ 256"
  shows "NewHexInt256FromString (HexInt256_Encode i) = Inr i \<and>
         HexInt256_UnmarshalText (HexInt256_Encode i) = Inr i \<and>
         HexInt256_UnmarshalJSON (HexInt256_MarshalJSON i) = Inr i"
proof -
  have e: "HexInt256_Encode i = ''0x'' @ hex_digits (nat i)"
  proof (cases "i = 0")
    case True
    then show ?thesis by (simp add: HexInt256_Encode_def hex_digits_small hex_char_def) code_simp
  qed (use assms in \<open>simp add: HexInt256_Encode_def\<close>)
  have "nat i < 16 ^ 64" using assms by (simp add: nat_less_iff)
  then have l: "length (hex_digits (nat i)) \<le> 64" by (rule length_hex_digits_le) simp
  show ?thesis using assms l
    by (simp add: e NewHexInt256FromString_eq HexInt256_UnmarshalText_def HexInt256_UnmarshalJSON_def
        HexInt256_MarshalJSON_def checkNumberText_checkNumber decode_hex_int256_eq)
qed

lemma hex_int256_roundtrip_witness:
  "NewHexInt256FromString (HexInt256_Encode 4660) = Inr 4660 \<and>
   HexInt256_UnmarshalText (HexInt256_Encode 4660) = Inr 4660 \<and>
   HexInt256_UnmarshalJSON (HexInt256_MarshalJSON 4660) = Inr 4660"
  by (rule hex_int256_roundtrip) simp_all

text \<open>
  A negative number is printed with its sign, although the documentation of \<open>Encode\<close> says that
  the sign is ignored, and no parser reads it back.
\<close>

lemma hex_int256_encode_negative:
  "HexInt256_Encode (- 255) = ''-0xff''" "NewHexInt256FromString ''-0xff'' = Inl HexMissingPrefix"
  by code_simp+

text \<open>
  every \<open>HexUInt64\<close> is read back from its text by its three parsers, and on every nonempty
  text the decoder of \<open>UnmarshalText\<close> accepts what \<open>NewHexUInt64FromString\<close> accepts with at most
  16 digits, with the same value.
\<close>

theorem hex_uint64_parsers:
  "NewHexUInt64FromString (HexUInt64_encode n) = (n, None) \<and>
   HexUInt64_UnmarshalText (HexUInt64_encode n) = Inr n \<and>
   HexUInt64_UnmarshalJSON (json_string (HexUInt64_encode n)) = Inr n \<and>
   (HexUInt64_UnmarshalText (c # s) = Inr m \<longleftrightarrow> NewHexUInt64FromString (c # s) = (m, None))"
proof -
  have u: "unat n < 16 ^ 16" using unsigned_less [of n, where 'a = nat] by simp
  then have l: "length (hex_digits (unat n)) \<le> 16" by (rule length_hex_digits_le) simp
  have read: "HexUInt64_UnmarshalText (HexUInt64_encode n) = Inr n"
    using l by (simp add: HexUInt64_UnmarshalText_def HexUInt64_encode_def
        checkNumberText_checkNumber chunk_word_0)
  have new: "NewHexUInt64FromString (HexUInt64_encode n) = (n, None)"
    using u by (simp add: NewHexUInt64FromString_def HexUInt64_encode_def ParseUint_def)
  have "HexUInt64_UnmarshalText (c # s) = Inr m \<longleftrightarrow> NewHexUInt64FromString (c # s) = (m, None)"
  proof (cases "checkNumber (c # s)")
    case (Inl e)
    then show ?thesis
      by (simp add: HexUInt64_UnmarshalText_def NewHexUInt64FromString_def checkNumberText_checkNumber)
  next
    case (Inr raw)
    then have raw: "raw \<noteq> []" "1 < length raw \<longrightarrow> raw ! 0 \<noteq> CHR ''0''"
      by (auto simp: checkNumber_ok_iff)
    show ?thesis
    proof (cases "list_all IsHexCharacter raw")
      case True
      have "length raw \<le> 16 \<longleftrightarrow> hex_val raw < 2 ^ 64" using hex_val_length [OF True raw, of 16] by simp
      then show ?thesis using Inr raw True
        by (auto simp: HexUInt64_UnmarshalText_def NewHexUInt64FromString_def
            checkNumberText_checkNumber ParseUint_def chunk_word_0 Let_def)
    next
      case False
      then show ?thesis using Inr raw
        by (auto simp: HexUInt64_UnmarshalText_def NewHexUInt64FromString_def
            checkNumberText_checkNumber ParseUint_def chunk_word_0 Let_def)
    qed
  qed
  then show ?thesis using read new by (simp add: HexUInt64_UnmarshalJSON_def)
qed

text \<open>
  C38: the second result of \<open>Add\<close>, \<open>Sub\<close> and \<open>Mul\<close> tells exactly whether the first one, a
  64 bit number, differs from the mathematical result.
\<close>

theorem uint64_flags_exact:
  "(snd (UInt64_Add x y) \<longleftrightarrow> unat (fst (UInt64_Add x y)) \<noteq> unat x + unat y) \<and>
   (snd (UInt64_Sub x y) \<longleftrightarrow> int (unat (fst (UInt64_Sub x y))) \<noteq> int (unat x) - int (unat y)) \<and>
   (snd (UInt64_Mul x y) \<longleftrightarrow> unat (fst (UInt64_Mul x y)) \<noteq> unat x * unat y)"
proof -
  have add: "snd (UInt64_Add x y) \<longleftrightarrow> unat (fst (UInt64_Add x y)) \<noteq> unat x + unat y"
  proof -
    have "unat (x + y) = (if unat x + unat y < 2 ^ 64 then unat x + unat y
                          else unat x + unat y - 2 ^ 64)"
      using unat_plus_if' [of x y] by simp
    moreover have "unat x < 2 ^ 64" "unat y < 2 ^ 64"
      using unsigned_less [of x, where 'a = nat] unsigned_less [of y, where 'a = nat] by simp_all
    ultimately show ?thesis
      by (auto simp: UInt64_Add_def word_less_nat_alt)
  qed
  have sub: "snd (UInt64_Sub x y) \<longleftrightarrow> int (unat (fst (UInt64_Sub x y))) \<noteq> int (unat x) - int (unat y)"
  proof (cases "x < y")
    case True
    then have "unat x < unat y" by (simp only: word_less_nat_alt)
    then have "int (unat x) - int (unat y) < 0" by linarith
    moreover have "0 \<le> int (unat (x - y))" by simp
    ultimately have "int (unat (x - y)) \<noteq> int (unat x) - int (unat y)" by linarith
    then show ?thesis using True unfolding UInt64_Sub_def fst_conv snd_conv by blast
  next
    case False
    then have "y \<le> x" by simp
    then have "unat (x - y) = unat x - unat y" "unat y \<le> unat x"
      by (simp_all only: unat_sub word_le_nat_alt)
    then have "int (unat (x - y)) = int (unat x) - int (unat y)" by (simp only: of_nat_diff)
    then show ?thesis using False unfolding UInt64_Sub_def fst_conv snd_conv by blast
  qed
  have mul: "snd (UInt64_Mul x y) \<longleftrightarrow> unat (fst (UInt64_Mul x y)) \<noteq> unat x * unat y"
  proof -
    let ?p = "(ucast x :: 128 word) * ucast y"
    have prod: "unat x * unat y < 2 ^ 64 * 2 ^ 64"
      using unsigned_less [of x, where 'a = nat] unsigned_less [of y, where 'a = nat]
      by (intro mult_strict_mono) simp_all
    have u: "unat (ucast z :: 128 word) = unat z" for z :: "64 word"
      using unsigned_less [of z, where 'a = nat]
      by (simp only: unsigned_ucast_eq) (rule take_bit_nat_eq_self, simp)
    have p: "unat ?p = unat x * unat y"
      using prod by (simp add: unat_word_ariths(2) u)
    have lo: "unat (ucast ?p :: 64 word) = (unat x * unat y) mod 2 ^ 64"
      by (simp only: unsigned_ucast_eq p take_bit_eq_mod) simp
    have "unat (drop_bit 64 ?p) = (unat x * unat y) div 2 ^ 64"
      by (subst unat_drop_bit_eq) (simp only: p drop_bit_eq_div)
    moreover have "(unat x * unat y) div 2 ^ 64 < 2 ^ 64"
      using prod by (rule less_mult_imp_div_less)
    ultimately have hi: "unat (ucast (drop_bit 64 ?p) :: 64 word) = (unat x * unat y) div 2 ^ 64"
      by (simp only: unsigned_ucast_eq take_bit_eq_mod) simp
    have "(ucast (drop_bit 64 ?p) :: 64 word) \<noteq> 0 \<longleftrightarrow> (unat x * unat y) div 2 ^ 64 \<noteq> 0"
      unfolding hi [symmetric] by (simp add: unat_eq_0)
    also have "\<dots> \<longleftrightarrow> (unat x * unat y) mod 2 ^ 64 \<noteq> unat x * unat y"
      by (simp add: div_eq_0_iff mod_eq_self_iff_div_eq_0)
    finally show ?thesis
      unfolding UInt64_Mul_def Let_def fst_conv snd_conv lo .
  qed
  show ?thesis using add sub mul by blast
qed

text \<open>
  \<open>PaddedBytes\<close> gives a big endian number with the absolute value of the receiver on at
  least \<open>n\<close> bytes and on exactly \<open>n\<close> whenever these suffice; \<open>S256\<close> undoes \<open>U256\<close> on all
  numbers of 256 bits in two's complement, and \<open>U256Bytes\<close> always has 32 bytes.
\<close>

theorem int256_bytes:
  "be_nat (PaddedBytes b n) = nat \<bar>b\<bar> \<and>
   (if \<bar>b\<bar> < 2 ^ (8 * n) then length (PaddedBytes b n) = n else n < length (PaddedBytes b n)) \<and>
   length (U256Bytes b) = 32 \<and> int (be_nat (U256Bytes b)) = b mod 2 ^ 256 \<and>
   (S256 (fst (U256 b)) = b \<longleftrightarrow> - (2 ^ 255) \<le> b \<and> b < 2 ^ 255)"
proof -
  have e: "\<bar>b\<bar> < 2 ^ (8 * n) \<longleftrightarrow> nat \<bar>b\<bar> < 256 ^ n"
    by (simp add: power_mult nat_less_iff)
  have v: "be_nat (PaddedBytes b n) = nat \<bar>b\<bar>"
    using e by (simp add: PaddedBytes_eq)
  have l: "if \<bar>b\<bar> < 2 ^ (8 * n) then length (PaddedBytes b n) = n else n < length (PaddedBytes b n)"
    using e length_be_bytes_iff [of "nat \<bar>b\<bar>" n] by (auto simp: PaddedBytes_eq not_le)
  have m: "0 \<le> b mod 2 ^ 256" "b mod 2 ^ 256 < 2 ^ 256" by simp_all
  have u: "U256Bytes b = be_fixed 32 (nat (b mod 2 ^ 256))"
  proof -
    have "fst (U256 b) = b mod 2 ^ 256" by (simp only: U256_def Let_def fst_conv take_bit_eq_mod)
    then show ?thesis using m by (simp only: U256Bytes_def PaddedBytes_eq) simp
  qed
  have "nat (b mod 2 ^ 256) < 256 ^ 32" using m by (simp add: nat_less_iff)
  then have w: "length (U256Bytes b) = 32" "int (be_nat (U256Bytes b)) = b mod 2 ^ 256"
    using m by (simp_all add: u)
  have "S256 (fst (U256 b)) = b \<longleftrightarrow> - (2 ^ 255) \<le> b \<and> b < 2 ^ 255"
  proof -
    have "(2 :: int) ^ 256 = 2 * 2 ^ 255" by simp
    then show ?thesis
      using signed_residue [of "2 ^ 255" b]
      by (simp only: S256_def U256_def Let_def fst_conv take_bit_eq_mod zero_less_power zero_less_numeral)
  qed
  then show ?thesis using v l w by blast
qed

text \<open>
  byte strings are read back from their text by \<open>UnmarshalText\<close>, \<open>UnmarshalJSON\<close> and
  \<open>NewHexBytesFromString\<close>, which also takes the text without its prefix; \<open>UnmarshalText\<close>
  accepts nothing but the empty text and an even number of digits after a prefix.
\<close>

theorem hex_bytes_parsers:
  "HexBytes_UnmarshalText (HexBytes_Encode b) = Inr b \<and>
   HexBytes_UnmarshalJSON (json_string (HexBytes_Encode b)) = Inr b \<and>
   NewHexBytesFromString (HexBytes_Encode b) = (b, None) \<and>
   (b \<noteq> [] \<longrightarrow> NewHexBytesFromString (hex_encode b) = (b, None)) \<and>
   ((\<exists>v. HexBytes_UnmarshalText s = Inr v) \<longleftrightarrow>
      s = [] \<or> (\<exists>raw. (s = ''0x'' @ raw \<or> s = ''0X'' @ raw) \<and> even (length raw) \<and>
                  list_all IsHexCharacter raw))"
proof -
  have read: "HexBytes_UnmarshalText (HexBytes_Encode b) = Inr b"
    by (simp add: HexBytes_UnmarshalText_def HexBytes_Encode_def checkText_def)
  have new: "NewHexBytesFromString (HexBytes_Encode b) = (b, None)"
    by (simp add: NewHexBytesFromString_def HexBytes_Encode_def)
  have bare: "NewHexBytesFromString (hex_encode b) = (b, None)" if "b \<noteq> []"
  proof -
    show ?thesis using that by (simp add: NewHexBytesFromString_def hex_encode_no_prefix)
  qed
  have ok: "(\<exists>v. HexBytes_UnmarshalText s = Inr v) \<longleftrightarrow>
      s = [] \<or> (\<exists>raw. (s = ''0x'' @ raw \<or> s = ''0X'' @ raw) \<and> even (length raw) \<and>
                  list_all IsHexCharacter raw)"
  proof (cases "checkPrefixFromString s")
    case True
    then obtain raw where s: "s = ''0x'' @ raw \<or> s = ''0X'' @ raw" by (auto simp: prefix_cases)
    then have "(\<exists>v. HexBytes_UnmarshalText s = Inr v) \<longleftrightarrow> even (length raw) \<and> snd (hex_decode raw) = None"
      using True by (auto simp: HexBytes_UnmarshalText_def checkText_def even_iff_mod_2_eq_zero
          split: prod.splits option.splits)
    then show ?thesis using s by (auto simp: hex_decode_ok_iff)
  next
    case False
    then show ?thesis
      by (auto simp: HexBytes_UnmarshalText_def checkText_def prefix_cases)
  qed
  show ?thesis using read new bare ok by (simp add: HexBytes_UnmarshalJSON_def)
qed

lemma hex_bytes_parsers_witness:
  "NewHexBytesFromString (hex_encode [0xab]) = ([0xab], None)"
  using hex_bytes_parsers [of "[0xab]"] by simp

text \<open>
  a \<open>HexBytes32\<close> never reads its own JSON form back, since the form has no prefix and the
  parser asks for one; and a JSON text with more than 32 good bytes is an index out of range.
\<close>

theorem hex_bytes32_json:
  "(length b = 32 \<longrightarrow>
      HexBytes32_UnmarshalJSON (HexBytes32_MarshalJSON b) = Inl (HexInvalidType HexMissingPrefix)) \<and>
   (32 < length c \<longrightarrow> HexBytes32_UnmarshalJSON (json_string (''0x'' @ hex_encode c)) = Inl HexPanicIndex) \<and>
   (length c \<le> 32 \<longrightarrow>
      HexBytes32_UnmarshalJSON (json_string (''0x'' @ hex_encode c)) = Inr (copy_zeroed 32 c))"
proof -
  have own: "HexBytes32_UnmarshalJSON (HexBytes32_MarshalJSON b) = Inl (HexInvalidType HexMissingPrefix)"
    if "length b = 32"
  proof -
    have "hex_encode b \<noteq> []" "\<not> checkPrefixFromString (hex_encode b)"
      using that hex_encode_no_prefix [of b] by auto
    then show ?thesis
      by (simp add: HexBytes32_UnmarshalJSON_def HexBytes32_MarshalJSON_def HexBytes32_Encode_def
          HexBytes32_UnmarshalText_def checkText_def errorHexEncodingInvalidType_def)
  qed
  have other: "HexBytes32_UnmarshalText (''0x'' @ hex_encode c) =
      (if 32 < length c then Inl HexPanicIndex else Inr (copy_zeroed 32 c))"
    by (simp add: HexBytes32_UnmarshalText_def checkText_def HexBytes32_FromBytes_def)
  show ?thesis using own other
    by (simp add: HexBytes32_UnmarshalJSON_def errorHexEncodingInvalidType_def)
qed

lemma hex_bytes32_json_witness:
  "HexBytes32_UnmarshalJSON (HexBytes32_MarshalJSON (replicate 32 1)) = Inl (HexInvalidType HexMissingPrefix) \<and>
   HexBytes32_UnmarshalJSON (json_string (''0x'' @ hex_encode (replicate 33 1))) = Inl HexPanicIndex"
  using hex_bytes32_json [of "replicate 32 1" "replicate 33 1"] by simp

end
