(* ===== verification/Address.thy ===== *)
theory Address
  imports Hex_Core
begin

text \<open>
  Ethereum addresses, \<open>src/app/pkg/entities/address/address.go\<close>.

  An \<open>Address\<close> is a list of 20 bytes.  The Keccak-256 hash of the EIP-55 checksum comes from a
  library outside the sources and is the parameter \<open>keccak\<close> of the definitions.
\<close>

type_synonym address = bytes

datatype address_error =
    InvalidAddress string
  | InvalidAddressChecksum string
  | NotAnEthAddress
  | AddressHexError hex_dec_error

definition addressLength :: nat where
  "addressLength = 20"

definition ZeroAddress :: address where
  "ZeroAddress = replicate addressLength 0"

definition isHexPrefixed :: "string \<Rightarrow> bool" where
  "isHexPrefixed str =
     (2 \<le> length str \<and> str ! 0 = CHR ''0'' \<and> (str ! 1 = CHR ''x'' \<or> str ! 1 = CHR ''X''))"

definition isHex :: "string \<Rightarrow> bool" where
  "isHex str = (if length str mod 2 \<noteq> 0 then False else list_all IsHexCharacter str)"

definition isHexAddress :: "string \<Rightarrow> bool" where
  "isHexAddress s =
     (let s = (if isHexPrefixed s then drop 2 s else s)
      in length s = 2 * addressLength \<and> isHex s)"

definition TrimPrefix :: "string \<Rightarrow> string \<Rightarrow> string" where
  "TrimPrefix s p = (if take (length p) s = p then drop (length p) s else s)"

definition removeHexPrefix :: "string \<Rightarrow> string" where
  "removeHexPrefix str =
     (if take 2 str = ''0X'' then TrimPrefix str ''0X'' else TrimPrefix str ''0x'')"

definition NewFromHexString :: "string \<Rightarrow> address_error + address" where
  "NewFromHexString s =
     (if \<not> isHexAddress s then Inl (InvalidAddress s)
      else case hex_decode (removeHexPrefix s) of
             (_, Some e) \<Rightarrow> Inl (AddressHexError e)
           | (bs, None) \<Rightarrow> Inr (copy_zeroed addressLength bs))"

definition MustNewFromHexString :: "string \<Rightarrow> address" where
  "MustNewFromHexString s = (case NewFromHexString s of Inl _ \<Rightarrow> ZeroAddress | Inr a \<Rightarrow> a)"

text \<open>\<open>strings.ToLower\<close> and \<open>strings.ToUpper\<close> on the ASCII letters of a hexadecimal text.\<close>

definition lower_char :: "char \<Rightarrow> char" where
  "lower_char c = (let n = (of_char c :: nat) in if 65 \<le> n \<and> n \<le> 90 then char_of (n + 32) else c)"

definition upper_char :: "char \<Rightarrow> char" where
  "upper_char c = (let n = (of_char c :: nat) in if 97 \<le> n \<and> n \<le> 122 then char_of (n - 32) else c)"

definition ToLower :: "string \<Rightarrow> string" where
  "ToLower s = map lower_char s"

definition ToUpper :: "string \<Rightarrow> string" where
  "ToUpper s = map upper_char s"

definition prefixedHex :: "address \<Rightarrow> string" where
  "prefixedHex a = ''0x'' @ hex_encode a"

text \<open>The loop of \<open>String\<close> on the digit at position \<open>i\<close> of the unprefixed text.\<close>

definition checksum_char :: "bytes \<Rightarrow> nat \<Rightarrow> char \<Rightarrow> char" where
  "checksum_char hash i c =
     (let hashByte = (if i mod 2 = 0 then unat (hash ! (i div 2)) div 16
                      else unat (hash ! (i div 2)) mod 16)
      in if (57 :: nat) < of_char c \<and> 7 < hashByte then char_of ((of_char c :: nat) - 32) else c)"

definition String_of_address :: "(bytes \<Rightarrow> bytes) \<Rightarrow> address \<Rightarrow> string" where
  "String_of_address keccak a =
     (let buf = prefixedHex a;
          hash = keccak (bytes_of_string (drop 2 buf))
      in take 2 buf @ map (\<lambda>i. checksum_char hash (i - 2) (buf ! i)) [2..<length buf])"

definition NewFromHexStringChecksum :: "(bytes \<Rightarrow> bytes) \<Rightarrow> string \<Rightarrow> address_error + address" where
  "NewFromHexStringChecksum keccak s =
     (case NewFromHexString s of
        Inl e \<Rightarrow> Inl e
      | Inr a \<Rightarrow>
          (let hexPart = removeHexPrefix s in
           if hexPart = ToLower hexPart \<or> hexPart = ToUpper hexPart then Inr a
           else if String_of_address keccak a \<noteq> ''0x'' @ hexPart then Inl (InvalidAddressChecksum s)
           else Inr a))"

definition NewFromRawBytes :: "bytes \<Rightarrow> address_error + address" where
  "NewFromRawBytes b =
     (if addressLength < length b then Inr (drop (length b - addressLength) b)
      else if length b < addressLength then Inl NotAnEthAddress
      else Inr b)"

definition IsEmpty :: "address \<Rightarrow> bool" where
  "IsEmpty a = (a = ZeroAddress)"

section \<open>Lemmas\<close>

lemma removeHexPrefix_eq: "removeHexPrefix s = (if isHexPrefixed s then drop 2 s else s)"
  by (cases s; cases "tl s")
    (auto simp: removeHexPrefix_def TrimPrefix_def isHexPrefixed_def split: if_splits)

lemma NewFromHexString_eq:
  "NewFromHexString s =
     (if length (removeHexPrefix s) = 40 \<and> list_all IsHexCharacter (removeHexPrefix s)
      then Inr (fst (hex_decode (removeHexPrefix s))) else Inl (InvalidAddress s))"
proof (cases "length (removeHexPrefix s) = 40 \<and> list_all IsHexCharacter (removeHexPrefix s)")
  case True
  then obtain bs where "hex_decode (removeHexPrefix s) = (bs, None)" "length bs = 20"
    using hex_decode_ok [of "removeHexPrefix s"] by auto
  then show ?thesis using True
    by (simp add: NewFromHexString_def isHexAddress_def isHex_def addressLength_def
        removeHexPrefix_eq [symmetric] Let_def)
next
  case False
  then show ?thesis
    by (auto simp: NewFromHexString_def isHexAddress_def isHex_def addressLength_def
        removeHexPrefix_eq [symmetric] Let_def)
qed

definition same_digit :: "char \<Rightarrow> char \<Rightarrow> bool" where
  "same_digit c d \<longleftrightarrow> IsHexCharacter c \<and> IsHexCharacter d \<and> digit_val c = digit_val d"

lemma hex_decode_same_digits:
  "list_all2 same_digit s t \<Longrightarrow> hex_decode s = hex_decode t"
proof (induction s arbitrary: t rule: hex_decode.induct)
  case (3 c d s)
  then obtain c' d' t' where t: "t = c' # d' # t'" "same_digit c c'" "same_digit d d'"
      "list_all2 same_digit s t'"
    by (auto simp: list_all2_Cons1)
  have h: "IsHexCharacter c" "IsHexCharacter d" using t by (simp_all add: same_digit_def)
  then have "hex_decode s = hex_decode t'" using "3.IH" t(4) by simp
  then show ?case using t by (simp add: same_digit_def)
qed (auto simp: same_digit_def list_all2_Cons1)

lemma same_digit_nat:
  "IsHexCharacter c \<Longrightarrow> IsHexCharacter d \<Longrightarrow> digit_nat c = digit_nat d \<Longrightarrow> same_digit c d"
  by (simp add: same_digit_def digit_val_nat)

lemma same_digit_upper:
  assumes "97 \<le> (of_char c :: nat)" "(of_char c :: nat) \<le> 102"
  shows "same_digit (char_of ((of_char c :: nat) - 32)) c"
proof -
  have "(of_char (char_of ((of_char c :: nat) - 32) :: char) :: nat) = of_char c - 32"
    using assms by simp
  then show ?thesis using assms
    by (intro same_digit_nat) (auto simp: IsHexCharacter_def digit_nat_def Let_def)
qed

lemma same_digit_refl: "IsHexCharacter c \<Longrightarrow> same_digit c c"
  by (simp add: same_digit_def)

lemma checksum_char_same_digit:
  assumes "IsHexCharacter c" "\<not> (65 \<le> (of_char c :: nat) \<and> of_char c \<le> (70 :: nat))"
  shows "same_digit (checksum_char h i c) c"
  using assms same_digit_refl same_digit_upper
  by (auto simp: checksum_char_def IsHexCharacter_def Let_def)

lemma hex_char_lower: "d < 16 \<Longrightarrow> \<not> (65 \<le> (of_char (hex_char d) :: nat) \<and> of_char (hex_char d) \<le> (70 :: nat))"
  by (simp add: of_char_hex_char)

lemma hex_encode_lower:
  "list_all (\<lambda>c. IsHexCharacter c \<and> \<not> (65 \<le> (of_char c :: nat) \<and> of_char c \<le> (70 :: nat))) (hex_encode bs)"
  by (induction bs) (use hex_char_lower nibbles_less in auto)

lemma String_of_address_eq:
  "String_of_address keccak a =
     ''0x'' @ map (\<lambda>i. checksum_char (keccak (bytes_of_string (hex_encode a))) i (hex_encode a ! i))
                [0..<2 * length a]"
proof -
  have "[2..<Suc (Suc (2 * length a))] = map (\<lambda>i. i + 2) [0..<2 * length a]"
    using map_add_upt [of 2 "2 * length a"] by simp
  then show ?thesis by (simp add: String_of_address_def prefixedHex_def Let_def)
qed

lemma String_of_address_digits:
  "\<exists>t. String_of_address keccak a = ''0x'' @ t \<and> list_all2 same_digit t (hex_encode a)"
proof -
  have "list_all2 same_digit
      (map (\<lambda>i. checksum_char h i (hex_encode a ! i)) [0..<2 * length a]) (hex_encode a)" for h
    using hex_encode_lower [of a]
    by (intro list_all2_all_nthI) (auto simp: list_all_length intro!: checksum_char_same_digit)
  then show ?thesis by (simp add: String_of_address_eq)
qed

lemma removeHexPrefix_0x [simp]: "removeHexPrefix (CHR ''0'' # CHR ''x'' # t) = t"
  by (simp add: removeHexPrefix_def TrimPrefix_def)

lemma NewFromHexString_String:
  assumes "length a = 20"
  shows "NewFromHexString (String_of_address keccak a) = Inr a"
proof -
  obtain t where t: "String_of_address keccak a = ''0x'' @ t" "list_all2 same_digit t (hex_encode a)"
    using String_of_address_digits by blast
  then have "length t = 40" "list_all IsHexCharacter t" "hex_decode t = (a, None)"
    using assms hex_decode_same_digits [OF t(2)]
    by (auto simp: list_all2_conv_all_nth list_all_length same_digit_def)
  then show ?thesis by (simp add: NewFromHexString_eq t)
qed

lemma upper_same_digit:
  "IsHexCharacter (upper_char c) \<or> IsHexCharacter c \<Longrightarrow> same_digit (upper_char c) c"
proof -
  assume h: "IsHexCharacter (upper_char c) \<or> IsHexCharacter c"
  show ?thesis
  proof (cases "97 \<le> (of_char c :: nat) \<and> of_char c \<le> (122 :: nat)")
    case True
    then have "(of_char (upper_char c) :: nat) = of_char c - 32"
      by (auto simp: upper_char_def)
    then have "(of_char c :: nat) \<le> 102" using h True by (auto simp: IsHexCharacter_def Let_def)
    then show ?thesis using True same_digit_upper [of c] by (simp add: upper_char_def)
  next
    case False
    then have "upper_char c = c" by (auto simp: upper_char_def)
    then show ?thesis using h same_digit_refl by simp
  qed
qed

section \<open>Properties\<close>

text \<open>
  Every address is read back from its EIP-55 text by both parsers, whatever the hash.
\<close>

theorem address_roundtrip:
  assumes "length a = 20"
  shows "NewFromHexString (String_of_address keccak a) = Inr a \<and>
         NewFromHexStringChecksum keccak (String_of_address keccak a) = Inr a"
proof -
  obtain t where t: "String_of_address keccak a = ''0x'' @ t"
    using String_of_address_digits by blast
  show ?thesis
    using NewFromHexString_String [OF assms, of keccak] t
    by (simp add: NewFromHexStringChecksum_def Let_def)
qed

lemma address_roundtrip_witness:
  "NewFromHexString (String_of_address (\<lambda>_. replicate 32 0xf0) (replicate 20 0xab)) = Inr (replicate 20 0xab) \<and>
   NewFromHexStringChecksum (\<lambda>_. replicate 32 0xf0)
     (String_of_address (\<lambda>_. replicate 32 0xf0) (replicate 20 0xab)) = Inr (replicate 20 0xab)"
  by (rule address_roundtrip) simp

text \<open>
  \<open>NewFromHexStringChecksum\<close> accepts exactly the texts of 40 digits, with or without a
  prefix, that carry no case information or the EIP-55 capitalisation of the address they denote:
  a text in mixed case differing from it in one letter is refused.
\<close>

theorem address_checksum:
  "NewFromHexStringChecksum keccak s = Inr a \<longleftrightarrow>
     (let h = removeHexPrefix s in
      length h = 40 \<and> list_all IsHexCharacter h \<and> hex_decode h = (a, None) \<and>
      (h = ToLower h \<or> h = ToUpper h \<or> String_of_address keccak a = ''0x'' @ h))"
proof (cases "length (removeHexPrefix s) = 40 \<and> list_all IsHexCharacter (removeHexPrefix s)")
  case True
  then obtain bs where "hex_decode (removeHexPrefix s) = (bs, None)"
    using hex_decode_ok [of "removeHexPrefix s"] by auto
  then show ?thesis using True
    by (auto simp: NewFromHexStringChecksum_def NewFromHexString_eq Let_def)
next
  case False
  then show ?thesis
    by (auto simp: NewFromHexStringChecksum_def NewFromHexString_eq Let_def)
qed

text \<open>
  \<open>NewFromHexString\<close> does not distinguish the case of the digits nor the form of the prefix,
  and the address it returns has 20 bytes.
\<close>

theorem address_case_insensitive:
  "(NewFromHexString (''0x'' @ h) = Inr a \<longleftrightarrow> NewFromHexString (''0X'' @ h) = Inr a) \<and>
   (NewFromHexString (''0x'' @ h) = Inr a \<longleftrightarrow> NewFromHexString (''0x'' @ ToUpper h) = Inr a) \<and>
   (NewFromHexString s = Inr a \<longrightarrow> length a = 20)"
proof -
  have up: "removeHexPrefix (''0X'' @ h) = h"
    by (simp add: removeHexPrefix_def TrimPrefix_def)
  have "list_all IsHexCharacter (ToUpper h) = list_all IsHexCharacter h \<and> hex_decode (ToUpper h) = hex_decode h"
    if "list_all IsHexCharacter (ToUpper h) \<or> list_all IsHexCharacter h"
  proof -
    have "list_all2 same_digit (ToUpper h) h"
      using that by (auto simp: ToUpper_def list_all2_conv_all_nth list_all_length intro: upper_same_digit)
    then show ?thesis using hex_decode_same_digits [of "ToUpper h" h]
      by (simp add: list_all2_conv_all_nth list_all_length same_digit_def)
  qed
  then have upper: "NewFromHexString (''0x'' @ h) = Inr a \<longleftrightarrow> NewFromHexString (''0x'' @ ToUpper h) = Inr a"
    by (auto simp: NewFromHexString_eq ToUpper_def)
  have "length a = 20" if "NewFromHexString s = Inr a"
    using that hex_decode_ok [of "removeHexPrefix s"]
    by (auto simp: NewFromHexString_eq split: if_splits)
  then show ?thesis using up upper by (auto simp: NewFromHexString_eq)
qed

lemma address_case_insensitive_witness:
  "NewFromHexString (replicate 40 (CHR ''1'')) = Inr (replicate 20 0x11) \<and>
   length (replicate 20 (0x11 :: byte)) = 20"
proof -
  have e: "NewFromHexString (replicate 40 (CHR ''1'')) = Inr (replicate 20 0x11)"
    by code_simp
  then show ?thesis
    using address_case_insensitive [of "[]" "replicate 20 0x11" "replicate 40 (CHR ''1'')"] by blast
qed

end
