(* ===== verification/Go_Errors.thy ===== *)
theory Go_Errors
  imports Sig_Prelude
begin

text \<open>
  The typed errors of the program and their way to the clients:
  \<open>src/app/pkg/internal/errors\<close> (use case errors), \<open>signaturemanager/errors.go\<close>,
  \<open>commons/persistence/errors.go\<close>, \<open>infra/httpinfra/http_errors.go\<close>,
  \<open>infra/rpcinfra/rpcerrors/rpc_error.go\<close> and \<open>adapters/rpcin/rpc_api_input_adapter_mappers.go\<close>.

  An error is a value with its type, the message that may leave the application and the error it
  wraps.  The text given to \<open>WithMessage\<close> and the stack trace go to the logs only and are not
  modelled.  \<open>errors.As\<close> unwraps only errors made by \<open>fmt.Errorf\<close> with \<open>%w\<close>: none of the
  program's own error types has an \<open>Unwrap\<close> method.
\<close>

datatype errtype =
    ErrInvalidArgument
  | ErrPreconditionFailed
  | ErrUnauthenticated
  | ErrPermissionDenied
  | ErrNotFound
  | ErrAlreadyExists
  | ErrNotImplemented
  | ErrBadGateway
  | ErrUnavailable
  | ErrTimeout
  | ErrTooManyReq
  | ErrInternal

datatype sigmgr_kind =
    SmNotImplemented
  | SmLibFailed
  | SmInvalidSlot
  | SmPinIncorrect
  | SmAlreadyInitialized
  | SmKeyGenerationFailed
  | SmInternal
  | SmNotFound
  | SmInvalidArgument

datatype persistence_kind =
    PsConfigCanNotBeLoaded
  | PsStatementCouldNotBePrepared
  | PsStatementExecutionFailed
  | PsDBResponseCanNotBeProcessed
  | PsCanNotBeginTransaction
  | PsCanNotRollbackTransaction
  | PsCanNotCommitTransaction
  | PsAlreadyExists
  | PsNotFound
  | PsTxNotInContext
  | PsEntryNotAdded
  | PsConnectionIsPermanent
  | PsConnectionIsTransient

datatype go_error =
    PublicError errtype "string option" "go_error option"
  | PrivateError errtype "string option" "go_error option"
  | SigManagerError sigmgr_kind
  | PersistenceError persistence_kind
  | WrapError go_error
  | PlainError string

section \<open>Finding an error in a chain\<close>

text \<open>\<open>errors.As\<close> for the targets the program uses: the first error of the type in the chain.\<close>

fun as_public :: "go_error \<Rightarrow> (errtype \<times> string option) option" where
  "as_public (PublicError t m w) = Some (t, m)"
| "as_public (WrapError e) = as_public e"
| "as_public _ = None"

fun as_private :: "go_error \<Rightarrow> (errtype \<times> string option) option" where
  "as_private (PrivateError t m w) = Some (t, m)"
| "as_private (WrapError e) = as_private e"
| "as_private _ = None"

fun as_sigmgr :: "go_error \<Rightarrow> sigmgr_kind option" where
  "as_sigmgr (SigManagerError k) = Some k"
| "as_sigmgr (WrapError e) = as_sigmgr e"
| "as_sigmgr _ = None"

fun as_persistence :: "go_error \<Rightarrow> persistence_kind option" where
  "as_persistence (PersistenceError k) = Some k"
| "as_persistence (WrapError e) = as_persistence e"
| "as_persistence _ = None"

definition public_is :: "errtype \<Rightarrow> go_error \<Rightarrow> bool" where
  "public_is t e = (case as_public e of Some (t', _) \<Rightarrow> t' = t | None \<Rightarrow> False)"

definition private_is :: "errtype \<Rightarrow> go_error \<Rightarrow> bool" where
  "private_is t e = (case as_private e of Some (t', _) \<Rightarrow> t' = t | None \<Rightarrow> False)"

definition CastAsUseCaseError :: "go_error \<Rightarrow> (errtype \<times> string option) option" where
  "CastAsUseCaseError err =
     (case as_public err of
        Some u \<Rightarrow> Some u
      | None \<Rightarrow> as_private err)"

section \<open>The constructors and classifiers of internal/errors\<close>

definition defaultInternalErrorMessage :: string where
  "defaultInternalErrorMessage = ''internal error''"

definition defaultForbiddenHTTPMessage :: string where
  "defaultForbiddenHTTPMessage = ''request not authorized''"

definition InvalidArgument :: go_error where
  "InvalidArgument = PublicError ErrInvalidArgument None None"

definition InvalidArgumentFromErr :: "go_error \<Rightarrow> go_error" where
  "InvalidArgumentFromErr err = PublicError ErrInvalidArgument None (Some err)"

definition IsInvalidArgument :: "go_error \<Rightarrow> bool" where
  "IsInvalidArgument err = public_is ErrInvalidArgument err"

definition PreconditionFailed :: go_error where
  "PreconditionFailed = PublicError ErrPreconditionFailed None None"

definition PreconditionFailedFromErr :: "go_error \<Rightarrow> go_error" where
  "PreconditionFailedFromErr err = PublicError ErrPreconditionFailed None (Some err)"

definition IsPreconditionFailed :: "go_error \<Rightarrow> bool" where
  "IsPreconditionFailed err = public_is ErrPreconditionFailed err"

definition Unauthenticated :: go_error where
  "Unauthenticated = PublicError ErrUnauthenticated None None"

definition UnauthenticatedFromErr :: "go_error \<Rightarrow> go_error" where
  "UnauthenticatedFromErr err = PublicError ErrUnauthenticated None (Some err)"

definition IsUnauthenticated :: "go_error \<Rightarrow> bool" where
  "IsUnauthenticated err = public_is ErrUnauthenticated err"

definition PermissionDenied :: go_error where
  "PermissionDenied = PrivateError ErrPermissionDenied (Some defaultForbiddenHTTPMessage) None"

definition PermissionDeniedFromErr :: "go_error \<Rightarrow> go_error" where
  "PermissionDeniedFromErr err = PrivateError ErrPermissionDenied (Some defaultForbiddenHTTPMessage) (Some err)"

definition IsPermissionDenied :: "go_error \<Rightarrow> bool" where
  "IsPermissionDenied err = private_is ErrPermissionDenied err"

definition NotFound :: go_error where
  "NotFound = PublicError ErrNotFound None None"

definition NotFoundFromErr :: "go_error \<Rightarrow> go_error" where
  "NotFoundFromErr err = PublicError ErrNotFound None (Some err)"

definition IsNotFound :: "go_error \<Rightarrow> bool" where
  "IsNotFound err = public_is ErrNotFound err"

definition AlreadyExists :: go_error where
  "AlreadyExists = PublicError ErrAlreadyExists None None"

definition AlreadyExistsFromErr :: "go_error \<Rightarrow> go_error" where
  "AlreadyExistsFromErr err = PublicError ErrAlreadyExists None (Some err)"

definition IsAlreadyExists :: "go_error \<Rightarrow> bool" where
  "IsAlreadyExists err = public_is ErrAlreadyExists err"

definition NotImplemented :: go_error where
  "NotImplemented = PublicError ErrNotImplemented None None"

definition NotImplementedFromErr :: "go_error \<Rightarrow> go_error" where
  "NotImplementedFromErr err = PublicError ErrNotImplemented None (Some err)"

definition IsNotImplemented :: "go_error \<Rightarrow> bool" where
  "IsNotImplemented err = public_is ErrNotImplemented err"

definition BadGateway :: go_error where
  "BadGateway = PublicError ErrBadGateway None None"

definition BadGatewayFromErr :: "go_error \<Rightarrow> go_error" where
  "BadGatewayFromErr err = PublicError ErrBadGateway None (Some err)"

definition IsBadGateway :: "go_error \<Rightarrow> bool" where
  "IsBadGateway err = public_is ErrBadGateway err"

definition Unavailable :: go_error where
  "Unavailable = PublicError ErrUnavailable None None"

definition UnavailableFromErr :: "go_error \<Rightarrow> go_error" where
  "UnavailableFromErr err = PublicError ErrUnavailable None (Some err)"

definition IsUnavailable :: "go_error \<Rightarrow> bool" where
  "IsUnavailable err = public_is ErrUnavailable err"

definition Timeout :: go_error where
  "Timeout = PublicError ErrTimeout None None"

definition TimeoutFromErr :: "go_error \<Rightarrow> go_error" where
  "TimeoutFromErr err = PublicError ErrTimeout None (Some err)"

definition IsTimeout :: "go_error \<Rightarrow> bool" where
  "IsTimeout err = public_is ErrTimeout err"

definition TooManyReq :: go_error where
  "TooManyReq = PublicError ErrTooManyReq None None"

definition TooManyReqFromErr :: "go_error \<Rightarrow> go_error" where
  "TooManyReqFromErr err = PublicError ErrTooManyReq None (Some err)"

definition IsTooManyReq :: "go_error \<Rightarrow> bool" where
  "IsTooManyReq err = public_is ErrTooManyReq err"

definition Internal :: go_error where
  "Internal = PrivateError ErrInternal (Some defaultInternalErrorMessage) None"

definition InternalFromErr :: "go_error \<Rightarrow> go_error" where
  "InternalFromErr err = PrivateError ErrInternal (Some defaultInternalErrorMessage) (Some err)"

definition IsInternal :: "go_error \<Rightarrow> bool" where
  "IsInternal err = private_is ErrInternal err"

text \<open>\<open>SetHumanReadableMessage\<close> exists on public errors only.\<close>

fun SetHumanReadableMessage :: "string \<Rightarrow> go_error \<Rightarrow> go_error" where
  "SetHumanReadableMessage msg (PublicError t m w) = PublicError t (Some msg) w"
| "SetHumanReadableMessage msg e = e"

lemmas usecase_error_constructors =
  InvalidArgument_def InvalidArgumentFromErr_def PreconditionFailed_def PreconditionFailedFromErr_def Unauthenticated_def UnauthenticatedFromErr_def PermissionDenied_def PermissionDeniedFromErr_def NotFound_def NotFoundFromErr_def AlreadyExists_def AlreadyExistsFromErr_def NotImplemented_def NotImplementedFromErr_def BadGateway_def BadGatewayFromErr_def Unavailable_def UnavailableFromErr_def Timeout_def TimeoutFromErr_def TooManyReq_def TooManyReqFromErr_def Internal_def InternalFromErr_def

lemmas usecase_error_defs =
  usecase_error_constructors defaultInternalErrorMessage_def defaultForbiddenHTTPMessage_def

lemmas usecase_is_defs =
  public_is_def private_is_def IsInvalidArgument_def IsPreconditionFailed_def IsUnauthenticated_def IsPermissionDenied_def IsNotFound_def IsAlreadyExists_def IsNotImplemented_def IsBadGateway_def IsUnavailable_def IsTimeout_def IsTooManyReq_def IsInternal_def

section \<open>The errors of the signature managers\<close>

text \<open>The names carry the prefix \<open>sm\<close>: the packages share several of them.\<close>

definition sm_NewNotImplementedError :: go_error where
  "sm_NewNotImplementedError = SigManagerError SmNotImplemented"

definition sm_IsNotImplementedError :: "go_error \<Rightarrow> bool" where
  "sm_IsNotImplementedError err = (as_sigmgr err = Some SmNotImplemented)"

definition sm_NewLibFailedError :: go_error where
  "sm_NewLibFailedError = SigManagerError SmLibFailed"

definition sm_IsLibFailedError :: "go_error \<Rightarrow> bool" where
  "sm_IsLibFailedError err = (as_sigmgr err = Some SmLibFailed)"

definition sm_NewInvalidSlotError :: go_error where
  "sm_NewInvalidSlotError = SigManagerError SmInvalidSlot"

definition sm_IsInvalidSlotError :: "go_error \<Rightarrow> bool" where
  "sm_IsInvalidSlotError err = (as_sigmgr err = Some SmInvalidSlot)"

definition sm_NewPinIncorrectError :: go_error where
  "sm_NewPinIncorrectError = SigManagerError SmPinIncorrect"

definition sm_IsPinIncorrectError :: "go_error \<Rightarrow> bool" where
  "sm_IsPinIncorrectError err = (as_sigmgr err = Some SmPinIncorrect)"

definition sm_NewAlreadyInitializedError :: go_error where
  "sm_NewAlreadyInitializedError = SigManagerError SmAlreadyInitialized"

definition sm_IsAlreadyInitializedErr :: "go_error \<Rightarrow> bool" where
  "sm_IsAlreadyInitializedErr err = (as_sigmgr err = Some SmAlreadyInitialized)"

definition sm_NewKeyGenerationError :: go_error where
  "sm_NewKeyGenerationError = SigManagerError SmKeyGenerationFailed"

definition sm_IsKeyGenerationError :: "go_error \<Rightarrow> bool" where
  "sm_IsKeyGenerationError err = (as_sigmgr err = Some SmKeyGenerationFailed)"

definition sm_NewInternalError :: go_error where
  "sm_NewInternalError = SigManagerError SmInternal"

definition sm_IsInternalError :: "go_error \<Rightarrow> bool" where
  "sm_IsInternalError err = (as_sigmgr err = Some SmInternal)"

definition sm_NewNotFoundError :: go_error where
  "sm_NewNotFoundError = SigManagerError SmNotFound"

definition sm_IsNotFoundError :: "go_error \<Rightarrow> bool" where
  "sm_IsNotFoundError err = (as_sigmgr err = Some SmNotFound)"

definition sm_NewInvalidArgumentError :: go_error where
  "sm_NewInvalidArgumentError = SigManagerError SmInvalidArgument"

definition sm_IsInvalidArgumentError :: "go_error \<Rightarrow> bool" where
  "sm_IsInvalidArgumentError err = (as_sigmgr err = Some SmInvalidArgument)"

lemmas sm_error_defs =
  sm_NewNotImplementedError_def sm_IsNotImplementedError_def sm_NewLibFailedError_def sm_IsLibFailedError_def sm_NewInvalidSlotError_def sm_IsInvalidSlotError_def sm_NewPinIncorrectError_def sm_IsPinIncorrectError_def sm_NewAlreadyInitializedError_def sm_IsAlreadyInitializedErr_def sm_NewKeyGenerationError_def sm_IsKeyGenerationError_def sm_NewInternalError_def sm_IsInternalError_def sm_NewNotFoundError_def sm_IsNotFoundError_def sm_NewInvalidArgumentError_def sm_IsInvalidArgumentError_def

section \<open>The errors of the persistence framework\<close>

definition ps_NewTransientConnectionError :: go_error where
  "ps_NewTransientConnectionError = PersistenceError PsConnectionIsTransient"

definition ps_IsTransientConnectionError :: "go_error \<Rightarrow> bool" where
  "ps_IsTransientConnectionError err = (as_persistence err = Some PsConnectionIsTransient)"

definition ps_NewPermanentConnectionError :: go_error where
  "ps_NewPermanentConnectionError = PersistenceError PsConnectionIsPermanent"

definition ps_IsPermanentConnectionError :: "go_error \<Rightarrow> bool" where
  "ps_IsPermanentConnectionError err = (as_persistence err = Some PsConnectionIsPermanent)"

definition ps_NewConfigCanNotBeLoadedError :: go_error where
  "ps_NewConfigCanNotBeLoadedError = PersistenceError PsConfigCanNotBeLoaded"

definition ps_IsConfigCanNotBeLoaded :: "go_error \<Rightarrow> bool" where
  "ps_IsConfigCanNotBeLoaded err = (as_persistence err = Some PsConfigCanNotBeLoaded)"

definition ps_NewStatementCouldNotBePreparedError :: go_error where
  "ps_NewStatementCouldNotBePreparedError = PersistenceError PsStatementCouldNotBePrepared"

definition ps_IsStatementCouldNotBePrepared :: "go_error \<Rightarrow> bool" where
  "ps_IsStatementCouldNotBePrepared err = (as_persistence err = Some PsStatementCouldNotBePrepared)"

definition ps_NewStatementExecutionFailedError :: go_error where
  "ps_NewStatementExecutionFailedError = PersistenceError PsStatementExecutionFailed"

definition ps_IsStatementExecutionFailed :: "go_error \<Rightarrow> bool" where
  "ps_IsStatementExecutionFailed err = (as_persistence err = Some PsStatementExecutionFailed)"

definition ps_NewDBResponseCanNotBeProcessedError :: go_error where
  "ps_NewDBResponseCanNotBeProcessedError = PersistenceError PsDBResponseCanNotBeProcessed"

definition ps_IsDBResponseCouldNotBeProcessed :: "go_error \<Rightarrow> bool" where
  "ps_IsDBResponseCouldNotBeProcessed err = (as_persistence err = Some PsDBResponseCanNotBeProcessed)"

definition ps_NewCanNotBeginTransactionError :: go_error where
  "ps_NewCanNotBeginTransactionError = PersistenceError PsCanNotBeginTransaction"

definition ps_IsCanNotBeginTransaction :: "go_error \<Rightarrow> bool" where
  "ps_IsCanNotBeginTransaction err = (as_persistence err = Some PsCanNotBeginTransaction)"

definition ps_NewCanNotRollbackTransactionError :: go_error where
  "ps_NewCanNotRollbackTransactionError = PersistenceError PsCanNotRollbackTransaction"

definition ps_IsCanNotRollbackTransaction :: "go_error \<Rightarrow> bool" where
  "ps_IsCanNotRollbackTransaction err = (as_persistence err = Some PsCanNotRollbackTransaction)"

definition ps_NewCanNotCommitTransactionError :: go_error where
  "ps_NewCanNotCommitTransactionError = PersistenceError PsCanNotCommitTransaction"

definition ps_IsCanNotCommitTransaction :: "go_error \<Rightarrow> bool" where
  "ps_IsCanNotCommitTransaction err = (as_persistence err = Some PsCanNotCommitTransaction)"

definition ps_NewAlreadyExistsError :: go_error where
  "ps_NewAlreadyExistsError = PersistenceError PsAlreadyExists"

definition ps_IsAlreadyExists :: "go_error \<Rightarrow> bool" where
  "ps_IsAlreadyExists err = (as_persistence err = Some PsAlreadyExists)"

definition ps_NewNotFoundError :: go_error where
  "ps_NewNotFoundError = PersistenceError PsNotFound"

definition ps_IsNotFound :: "go_error \<Rightarrow> bool" where
  "ps_IsNotFound err = (as_persistence err = Some PsNotFound)"

definition ps_NewTxNotInContextError :: go_error where
  "ps_NewTxNotInContextError = PersistenceError PsTxNotInContext"

definition ps_IsTxNotInContext :: "go_error \<Rightarrow> bool" where
  "ps_IsTxNotInContext err = (as_persistence err = Some PsTxNotInContext)"

definition ps_NewEntryNotAddedError :: go_error where
  "ps_NewEntryNotAddedError = PersistenceError PsEntryNotAdded"

definition ps_IsEntryNotAdded :: "go_error \<Rightarrow> bool" where
  "ps_IsEntryNotAdded err = (as_persistence err = Some PsEntryNotAdded)"

lemmas ps_error_defs =
  ps_NewTransientConnectionError_def ps_IsTransientConnectionError_def ps_NewPermanentConnectionError_def ps_IsPermanentConnectionError_def ps_NewConfigCanNotBeLoadedError_def ps_IsConfigCanNotBeLoaded_def ps_NewStatementCouldNotBePreparedError_def ps_IsStatementCouldNotBePrepared_def ps_NewStatementExecutionFailedError_def ps_IsStatementExecutionFailed_def ps_NewDBResponseCanNotBeProcessedError_def ps_IsDBResponseCouldNotBeProcessed_def ps_NewCanNotBeginTransactionError_def ps_IsCanNotBeginTransaction_def ps_NewCanNotRollbackTransactionError_def ps_IsCanNotRollbackTransaction_def ps_NewCanNotCommitTransactionError_def ps_IsCanNotCommitTransaction_def ps_NewAlreadyExistsError_def ps_IsAlreadyExists_def ps_NewNotFoundError_def ps_IsNotFound_def ps_NewTxNotInContextError_def ps_IsTxNotInContext_def ps_NewEntryNotAddedError_def ps_IsEntryNotAdded_def

section \<open>Errors of the HTTP interface\<close>

datatype HTTPErrorStatus =
    StatusInvalidArgument
  | StatusAlreadyExists
  | StatusPermissionDenied
  | StatusNotFound
  | StatusPreconditionFailed
  | StatusInternal
  | StatusNotImplemented
  | StatusBadGateway

definition signerErrorTypeToHTTPErrorStatus :: "errtype \<Rightarrow> HTTPErrorStatus option" where
  "signerErrorTypeToHTTPErrorStatus t =
     (case t of
        ErrInvalidArgument \<Rightarrow> Some StatusInvalidArgument
      | ErrNotFound \<Rightarrow> Some StatusNotFound
      | ErrAlreadyExists \<Rightarrow> Some StatusAlreadyExists
      | ErrInternal \<Rightarrow> Some StatusInternal
      | ErrNotImplemented \<Rightarrow> Some StatusNotImplemented
      | ErrBadGateway \<Rightarrow> Some StatusBadGateway
      | ErrPreconditionFailed \<Rightarrow> Some StatusPreconditionFailed
      | ErrPermissionDenied \<Rightarrow> Some StatusPermissionDenied
      | _ \<Rightarrow> None)"

definition httpErrorStatusToHTTPCode :: "HTTPErrorStatus \<Rightarrow> nat" where
  "httpErrorStatusToHTTPCode s =
     (case s of
        StatusInvalidArgument \<Rightarrow> 400
      | StatusAlreadyExists \<Rightarrow> 400
      | StatusNotFound \<Rightarrow> 404
      | StatusInternal \<Rightarrow> 500
      | StatusNotImplemented \<Rightarrow> 501
      | StatusBadGateway \<Rightarrow> 400
      | StatusPreconditionFailed \<Rightarrow> 412
      | StatusPermissionDenied \<Rightarrow> 403)"

record HTTPError =
  http_code :: nat
  http_status :: HTTPErrorStatus
  http_message :: string

text \<open>Every status of the model has a code, so the fallback of \<open>NewHTTPError\<close> is never taken.\<close>

definition NewHTTPError :: "HTTPErrorStatus \<Rightarrow> HTTPError" where
  "NewHTTPError status =
     \<lparr>http_code = httpErrorStatusToHTTPCode status, http_status = status, http_message = []\<rparr>"

definition parseErrorMessage :: "errtype \<times> string option \<Rightarrow> bool \<Rightarrow> string" where
  "parseErrorMessage u isPrivate =
     (case u of (t, human) \<Rightarrow>
        if isPrivate \<and> t = ErrPermissionDenied then ''request not authorized''
        else if isPrivate \<and> t = ErrInternal \<and> human = None then ''internal error''
        else case human of Some m \<Rightarrow> m | None \<Rightarrow> [])"

definition NewHTTPErrorFromUseCaseError :: "go_error \<Rightarrow> HTTPError" where
  "NewHTTPErrorFromUseCaseError originalErr =
     (case CastAsUseCaseError originalErr of
        None \<Rightarrow> NewHTTPError StatusInternal
      | Some (t, human) \<Rightarrow>
          (let status = (case signerErrorTypeToHTTPErrorStatus t of Some s \<Rightarrow> s | None \<Rightarrow> StatusInternal)
           in (NewHTTPError status)
                \<lparr>http_message := parseErrorMessage (t, human) (as_public originalErr = None)\<rparr>))"

definition NewForbiddenHTTPError :: "go_error \<Rightarrow> HTTPError" where
  "NewForbiddenHTTPError originalErr =
     (NewHTTPError StatusPermissionDenied) \<lparr>http_message := ''request not authorized''\<rparr>"

definition NewNotFoundHTTPError :: "go_error \<Rightarrow> HTTPError" where
  "NewNotFoundHTTPError originalErr =
     (NewHTTPError StatusNotFound) \<lparr>http_message := ''resource not found''\<rparr>"

section \<open>Errors of the JSON-RPC interface\<close>

record RPCError =
  rpc_code :: int
  rpc_message :: string
  rpc_wrapped :: "go_error option"

definition rpc_NewParse :: RPCError where
  "rpc_NewParse = \<lparr>rpc_code = - 32700, rpc_message = ''Parse error'', rpc_wrapped = None\<rparr>"

definition rpc_NewParseFromErr :: "go_error \<Rightarrow> RPCError" where
  "rpc_NewParseFromErr err = \<lparr>rpc_code = - 32700, rpc_message = ''Parse error'', rpc_wrapped = Some err\<rparr>"

definition rpc_NewInvalidRequest :: RPCError where
  "rpc_NewInvalidRequest = \<lparr>rpc_code = - 32600, rpc_message = ''Invalid request'', rpc_wrapped = None\<rparr>"

definition rpc_NewInvalidRequestFromErr :: "go_error \<Rightarrow> RPCError" where
  "rpc_NewInvalidRequestFromErr err = \<lparr>rpc_code = - 32600, rpc_message = ''Invalid request'', rpc_wrapped = Some err\<rparr>"

definition rpc_NewMethodNotFound :: RPCError where
  "rpc_NewMethodNotFound = \<lparr>rpc_code = - 32601, rpc_message = ''Method not found'', rpc_wrapped = None\<rparr>"

definition rpc_NewMethodNotFoundFromErr :: "go_error \<Rightarrow> RPCError" where
  "rpc_NewMethodNotFoundFromErr err = \<lparr>rpc_code = - 32601, rpc_message = ''Method not found'', rpc_wrapped = Some err\<rparr>"

definition rpc_NewInvalidParams :: RPCError where
  "rpc_NewInvalidParams = \<lparr>rpc_code = - 32602, rpc_message = ''Invalid params'', rpc_wrapped = None\<rparr>"

definition rpc_NewInvalidParamsFromErr :: "go_error \<Rightarrow> RPCError" where
  "rpc_NewInvalidParamsFromErr err = \<lparr>rpc_code = - 32602, rpc_message = ''Invalid params'', rpc_wrapped = Some err\<rparr>"

definition rpc_NewInternal :: RPCError where
  "rpc_NewInternal = \<lparr>rpc_code = - 32603, rpc_message = ''Internal error'', rpc_wrapped = None\<rparr>"

definition rpc_NewInternalFromErr :: "go_error \<Rightarrow> RPCError" where
  "rpc_NewInternalFromErr err = \<lparr>rpc_code = - 32603, rpc_message = ''Internal error'', rpc_wrapped = Some err\<rparr>"

definition rpc_NewBadGateway :: RPCError where
  "rpc_NewBadGateway = \<lparr>rpc_code = - 32604, rpc_message = ''Bad gateway'', rpc_wrapped = None\<rparr>"

definition rpc_NewBadGatewayFromErr :: "go_error \<Rightarrow> RPCError" where
  "rpc_NewBadGatewayFromErr err = \<lparr>rpc_code = - 32604, rpc_message = ''Bad gateway'', rpc_wrapped = Some err\<rparr>"

definition rpc_NewAlreadyExists :: RPCError where
  "rpc_NewAlreadyExists = \<lparr>rpc_code = - 32605, rpc_message = ''Already exists'', rpc_wrapped = None\<rparr>"

definition rpc_NewAlreadyExistsFromErr :: "go_error \<Rightarrow> RPCError" where
  "rpc_NewAlreadyExistsFromErr err = \<lparr>rpc_code = - 32605, rpc_message = ''Already exists'', rpc_wrapped = Some err\<rparr>"

definition rpc_NewUnauthorized :: RPCError where
  "rpc_NewUnauthorized = \<lparr>rpc_code = - 32099, rpc_message = ''Unauthorized'', rpc_wrapped = None\<rparr>"

definition rpc_NewUnauthorizedFromErr :: "go_error \<Rightarrow> RPCError" where
  "rpc_NewUnauthorizedFromErr err = \<lparr>rpc_code = - 32099, rpc_message = ''Unauthorized'', rpc_wrapped = Some err\<rparr>"

definition rpc_NewNotFound :: RPCError where
  "rpc_NewNotFound = \<lparr>rpc_code = - 32098, rpc_message = ''Not found'', rpc_wrapped = None\<rparr>"

definition rpc_NewNotFoundFromErr :: "go_error \<Rightarrow> RPCError" where
  "rpc_NewNotFoundFromErr err = \<lparr>rpc_code = - 32098, rpc_message = ''Not found'', rpc_wrapped = Some err\<rparr>"

definition rpc_NewPreconditionFailed :: RPCError where
  "rpc_NewPreconditionFailed = \<lparr>rpc_code = - 32097, rpc_message = ''Precondition failed'', rpc_wrapped = None\<rparr>"

definition rpc_NewPreconditionFailedFromErr :: "go_error \<Rightarrow> RPCError" where
  "rpc_NewPreconditionFailedFromErr err = \<lparr>rpc_code = - 32097, rpc_message = ''Precondition failed'', rpc_wrapped = Some err\<rparr>"

lemmas rpc_error_defs =
  rpc_NewParse_def rpc_NewParseFromErr_def rpc_NewInvalidRequest_def rpc_NewInvalidRequestFromErr_def rpc_NewMethodNotFound_def rpc_NewMethodNotFoundFromErr_def rpc_NewInvalidParams_def rpc_NewInvalidParamsFromErr_def rpc_NewInternal_def rpc_NewInternalFromErr_def rpc_NewBadGateway_def rpc_NewBadGatewayFromErr_def rpc_NewAlreadyExists_def rpc_NewAlreadyExistsFromErr_def rpc_NewUnauthorized_def rpc_NewUnauthorizedFromErr_def rpc_NewNotFound_def rpc_NewNotFoundFromErr_def rpc_NewPreconditionFailed_def rpc_NewPreconditionFailedFromErr_def

definition adaptError :: "go_error \<Rightarrow> RPCError" where
  "adaptError err =
     (if IsInvalidArgument err then rpc_NewInvalidParamsFromErr err
      else if IsNotFound err then rpc_NewNotFoundFromErr err
      else if IsPreconditionFailed err then rpc_NewPreconditionFailedFromErr err
      else if IsBadGateway err then rpc_NewBadGatewayFromErr err
      else if IsAlreadyExists err then rpc_NewAlreadyExistsFromErr err
      else rpc_NewInternalFromErr err)"

section \<open>What a use case can return\<close>

text \<open>
  The errors made by the constructors of the package: a public error may get any message, the
  message of a private error is fixed by its constructor.
\<close>

inductive usecase_error :: "go_error \<Rightarrow> bool" where
  InvalidArgument_is: "usecase_error InvalidArgument"
| InvalidArgumentFromErr_is: "usecase_error (InvalidArgumentFromErr e)"
| PreconditionFailed_is: "usecase_error PreconditionFailed"
| PreconditionFailedFromErr_is: "usecase_error (PreconditionFailedFromErr e)"
| Unauthenticated_is: "usecase_error Unauthenticated"
| UnauthenticatedFromErr_is: "usecase_error (UnauthenticatedFromErr e)"
| PermissionDenied_is: "usecase_error PermissionDenied"
| PermissionDeniedFromErr_is: "usecase_error (PermissionDeniedFromErr e)"
| NotFound_is: "usecase_error NotFound"
| NotFoundFromErr_is: "usecase_error (NotFoundFromErr e)"
| AlreadyExists_is: "usecase_error AlreadyExists"
| AlreadyExistsFromErr_is: "usecase_error (AlreadyExistsFromErr e)"
| NotImplemented_is: "usecase_error NotImplemented"
| NotImplementedFromErr_is: "usecase_error (NotImplementedFromErr e)"
| BadGateway_is: "usecase_error BadGateway"
| BadGatewayFromErr_is: "usecase_error (BadGatewayFromErr e)"
| Unavailable_is: "usecase_error Unavailable"
| UnavailableFromErr_is: "usecase_error (UnavailableFromErr e)"
| Timeout_is: "usecase_error Timeout"
| TimeoutFromErr_is: "usecase_error (TimeoutFromErr e)"
| TooManyReq_is: "usecase_error TooManyReq"
| TooManyReqFromErr_is: "usecase_error (TooManyReqFromErr e)"
| Internal_is: "usecase_error Internal"
| InternalFromErr_is: "usecase_error (InternalFromErr e)"
| human_is: "usecase_error e \<Longrightarrow> usecase_error (SetHumanReadableMessage msg e)"
| wrap_is: "usecase_error e \<Longrightarrow> usecase_error (WrapError e)"

fun well_typed_error :: "go_error \<Rightarrow> bool" where
  "well_typed_error (PublicError t m w) = (t \<noteq> ErrInternal \<and> t \<noteq> ErrPermissionDenied)"
| "well_typed_error (PrivateError t m w) =
     (t = ErrInternal \<and> m = Some defaultInternalErrorMessage \<or>
      t = ErrPermissionDenied \<and> m = Some defaultForbiddenHTTPMessage)"
| "well_typed_error (WrapError e) = well_typed_error e"
| "well_typed_error _ = False"

lemma well_typed_set_message:
  "well_typed_error e \<Longrightarrow> well_typed_error (SetHumanReadableMessage msg e)"
  by (cases e) auto

lemma usecase_error_well_typed: "usecase_error e \<Longrightarrow> well_typed_error e"
proof (induction rule: usecase_error.induct)
  case (human_is e msg)
  show ?case using human_is.IH by (rule well_typed_set_message)
qed (simp_all only: usecase_error_constructors well_typed_error.simps, simp_all)

lemma well_typed_error_shape:
  "well_typed_error e \<Longrightarrow>
     (\<exists>t m. as_public e = Some (t, m) \<and> as_private e = None \<and> t \<noteq> ErrInternal \<and> t \<noteq> ErrPermissionDenied) \<or>
     as_public e = None \<and> as_private e = Some (ErrInternal, Some defaultInternalErrorMessage) \<or>
     as_public e = None \<and> as_private e = Some (ErrPermissionDenied, Some defaultForbiddenHTTPMessage)"
  by (induction e) auto

lemmas usecase_error_shape = well_typed_error_shape [OF usecase_error_well_typed]

lemmas http_answer_defs =
  NewHTTPErrorFromUseCaseError_def CastAsUseCaseError_def NewHTTPError_def
  httpErrorStatusToHTTPCode_def signerErrorTypeToHTTPErrorStatus_def parseErrorMessage_def
  defaultInternalErrorMessage_def defaultForbiddenHTTPMessage_def



text \<open>
  the JSON-RPC error code is determined by the outermost typed error of the chain alone:
  wrapping an error in a new typed error forgets the class of the wrapped one.
\<close>

theorem rpc_error_by_outermost:
  "rpc_code (adaptError (InternalFromErr e)) = - 32603 \<and>
   rpc_code (adaptError (PermissionDeniedFromErr e)) = - 32603 \<and>
   rpc_code (adaptError (NotFoundFromErr e)) = - 32098 \<and>
   rpc_code (adaptError (InvalidArgumentFromErr e)) = - 32602 \<and>
   rpc_code (adaptError (PreconditionFailedFromErr e)) = - 32097 \<and>
   rpc_code (adaptError (BadGatewayFromErr e)) = - 32604 \<and>
   rpc_code (adaptError (AlreadyExistsFromErr e)) = - 32605 \<and>
   rpc_code (adaptError (WrapError e)) = rpc_code (adaptError e) \<and>
   rpc_code (adaptError (SigManagerError k)) = - 32603 \<and>
   rpc_code (adaptError (PersistenceError p)) = - 32603"
  by (simp add: adaptError_def usecase_is_defs usecase_error_defs rpc_error_defs)

end
