(* ===== verification/Eth_Tx.thy ===== *)
theory Eth_Tx
  imports Rlp Hex_Types Address Go_Errors
begin

text \<open>
  Ethereum transactions, \<open>src/app/pkg/usecases/hsmconnector/types.go\<close>: the two transaction types
  the program signs, the payload whose hash is signed and the signed encoding.

  The source turns numbers into byte strings through their hexadecimal text; the lemmas show that
  the detour yields the minimal big endian bytes, except for a zero \<open>gas\<close>.  The theorems relate
  the payloads to the encodings of EIP-155 and EIP-1559, and show that a payload determines the
  transaction and the type it was made from.
\<close>

record EthereumSignature =
  sig_V :: int
  sig_R :: int
  sig_S :: int

record EthereumTransaction =
  tx_From :: address
  tx_To :: "address option"
  tx_Gas :: "64 word"
  tx_GasPrice :: int
  tx_Value :: "int option"
  tx_Data :: bytes
  tx_Nonce :: "64 word"
  tx_ChainID :: int
  tx_Signature :: "EthereumSignature option"

record AccessListEntry =
  al_Address :: address
  al_StorageKeys :: "bytes list"

record EIP1559TransactionSignature =
  sig_YParity :: int
  sig1559_R :: int
  sig1559_S :: int

record EIP1559Transaction =
  tx2_From :: address
  tx2_To :: "address option"
  tx2_Gas :: "64 word"
  tx2_MaxFeePerGas :: int
  tx2_MaxPriorityFeePerGas :: int
  tx2_Value :: "int option"
  tx2_Data :: bytes
  tx2_Nonce :: "64 word"
  tx2_ChainID :: int
  tx2_AccessList :: "AccessListEntry list option"
  tx2_Signature :: "EIP1559TransactionSignature option"

definition rlp_failure :: "rlp_error \<Rightarrow> go_error" where
  "rlp_failure e =
     (case e of
        ErrEncodingUnhandledInputType \<Rightarrow> PlainError ''unhandled input type for RLP encoding''
      | ErrEncodingNegativeBigInt \<Rightarrow> PlainError ''RLP can not encode negative big.Int''
      | _ \<Rightarrow> PlainError [])"

definition hexStringEvenLength :: "string \<Rightarrow> string" where
  "hexStringEvenLength input =
     (if length input mod 2 \<noteq> 0 then ''0x0'' @ drop 2 input else input)"

text \<open>The fields common to both types, as both \<open>RLPEncode\<close> and \<open>Hash\<close> prepare them.\<close>

definition nonce_field :: "64 word \<Rightarrow> go_error + bytes" where
  "nonce_field nonce =
     (case NewHexBytesFromString (hexStringEvenLength (HexUInt64_encode nonce)) of
        (_, Some _) \<Rightarrow> Inl Internal
      | (b, None) \<Rightarrow> Inr (if nonce = 0 then [] else b))"

definition gas_field :: "64 word \<Rightarrow> go_error + bytes" where
  "gas_field gas =
     (case NewHexBytesFromString (hexStringEvenLength (HexUInt64_encode gas)) of
        (_, Some _) \<Rightarrow> Inl Internal
      | (b, None) \<Rightarrow> Inr b)"

definition to_field :: "(bytes \<Rightarrow> bytes) \<Rightarrow> address option \<Rightarrow> go_error + bytes" where
  "to_field keccak to =
     (case to of
        None \<Rightarrow> Inr []
      | Some a \<Rightarrow>
          (case NewHexBytesFromString (String_of_address keccak a) of
             (_, Some _) \<Rightarrow> Inl Internal
           | (b, None) \<Rightarrow> Inr b))"

definition value_field :: "int option \<Rightarrow> int option" where
  "value_field value = (case value of None \<Rightarrow> None | Some v \<Rightarrow> if v = 0 then None else Some v)"

definition data_field :: "bytes \<Rightarrow> go_error + bytes" where
  "data_field d =
     (if 0 < length d then
        (case NewHexBytesFromString (HexBytes_Encode d) of
           (_, Some _) \<Rightarrow> Inl Internal
         | (b, None) \<Rightarrow> Inr b)
      else Inr [])"

definition chain_field :: "int \<Rightarrow> go_error + bytes" where
  "chain_field chainID =
     (case NewHexBytesFromString (hexStringEvenLength (HexInt256_Encode chainID)) of
        (_, Some _) \<Rightarrow> Inl (InternalFromErr (PlainError ''hex''))
      | (b, None) \<Rightarrow> Inr b)"

definition prepareCommonFields ::
    "(bytes \<Rightarrow> bytes) \<Rightarrow> 64 word \<Rightarrow> 64 word \<Rightarrow> address option \<Rightarrow> int option \<Rightarrow> bytes \<Rightarrow>
       go_error + (bytes \<times> bytes \<times> bytes \<times> int option \<times> bytes)" where
  "prepareCommonFields keccak nonce gas to value txData =
     (case nonce_field nonce of Inl e \<Rightarrow> Inl e
      | Inr n \<Rightarrow> (case gas_field gas of Inl e \<Rightarrow> Inl e
      | Inr g \<Rightarrow> (case to_field keccak to of Inl e \<Rightarrow> Inl e
      | Inr t \<Rightarrow> (case data_field txData of Inl e \<Rightarrow> Inl e
      | Inr d \<Rightarrow> Inr (n, g, t, value_field value, d)))))"

section \<open>Legacy transactions\<close>

fun encode_each :: "gval list \<Rightarrow> rlp_error option" where
  "encode_each [] = None"
| "encode_each (v # vs) = (case Encode v of Inl e \<Rightarrow> Some e | Inr _ \<Rightarrow> encode_each vs)"

definition legacy_fields ::
    "EthereumTransaction \<Rightarrow> bytes \<times> bytes \<times> bytes \<times> int option \<times> bytes \<Rightarrow> gval list" where
  "legacy_fields tx common =
     (case common of (n, g, t, v, d) \<Rightarrow>
        [GBytesPtr (Some n),
         GBigInt (if tx_GasPrice tx \<noteq> 0 then Some (tx_GasPrice tx) else None),
         GBytes g, GBytes t, GBigInt v, GBytes d])"

definition EthereumTransaction_RLPEncode ::
    "(bytes \<Rightarrow> bytes) \<Rightarrow> EthereumTransaction \<Rightarrow> go_error + bytes" where
  "EthereumTransaction_RLPEncode keccak tx =
     (case tx_Signature tx of
        None \<Rightarrow> Inl Internal
      | Some sig \<Rightarrow>
          (case prepareCommonFields keccak (tx_Nonce tx) (tx_Gas tx) (tx_To tx) (tx_Value tx) (tx_Data tx) of
             Inl e \<Rightarrow> Inl e
           | Inr common \<Rightarrow>
               (let dataToEncode = legacy_fields tx common @
                      [GBigInt (Some (sig_V sig)), GBigInt (Some (sig_R sig)), GBigInt (Some (sig_S sig))]
                in case encode_each dataToEncode of
                     Some e \<Rightarrow> Inl (rlp_failure e)
                   | None \<Rightarrow>
                       (case Encode (GList dataToEncode) of
                          Inl e \<Rightarrow> Inl (InternalFromErr (rlp_failure e))
                        | Inr b \<Rightarrow> Inr b))))"

text \<open>The payload that \<open>Hash\<close> hashes, and its hash.\<close>

definition EthereumTransaction_payload ::
    "(bytes \<Rightarrow> bytes) \<Rightarrow> EthereumTransaction \<Rightarrow> go_error + bytes" where
  "EthereumTransaction_payload keccak tx =
     (case prepareCommonFields keccak (tx_Nonce tx) (tx_Gas tx) (tx_To tx) (tx_Value tx) (tx_Data tx) of
        Inl e \<Rightarrow> Inl e
      | Inr common \<Rightarrow>
          (case chain_field (tx_ChainID tx) of
             Inl e \<Rightarrow> Inl e
           | Inr c \<Rightarrow>
               (case Encode (GList (legacy_fields tx common @ [GBytes c, GUint 0, GUint 0])) of
                  Inl e \<Rightarrow> Inl (InternalFromErr (rlp_failure e))
                | Inr b \<Rightarrow> Inr b)))"

definition EthereumTransaction_Hash ::
    "(bytes \<Rightarrow> bytes) \<Rightarrow> EthereumTransaction \<Rightarrow> go_error + bytes" where
  "EthereumTransaction_Hash keccak tx =
     (case EthereumTransaction_payload keccak tx of Inl e \<Rightarrow> Inl e | Inr p \<Rightarrow> Inr (keccak p))"

section \<open>EIP-1559 transactions\<close>

fun access_list_items :: "(bytes \<Rightarrow> bytes) \<Rightarrow> AccessListEntry list \<Rightarrow> gval list option" where
  "access_list_items keccak [] = Some []"
| "access_list_items keccak (entry # es) =
     (case NewHexBytesFromString (String_of_address keccak (al_Address entry)) of
        (_, Some _) \<Rightarrow> None
      | (b, None) \<Rightarrow>
          (case access_list_items keccak es of
             None \<Rightarrow> None
           | Some vs \<Rightarrow> Some (GList [GBytes b, GList (map GBytes (al_StorageKeys entry))] # vs)))"

definition accessListToRLPInterface ::
    "(bytes \<Rightarrow> bytes) \<Rightarrow> AccessListEntry list option \<Rightarrow> gval list" where
  "accessListToRLPInterface keccak al =
     (case al of None \<Rightarrow> [] | Some es \<Rightarrow>
        (case access_list_items keccak es of None \<Rightarrow> [] | Some vs \<Rightarrow> vs))"

definition eip1559_fields ::
    "(bytes \<Rightarrow> bytes) \<Rightarrow> EIP1559Transaction \<Rightarrow> bytes \<Rightarrow>
       bytes \<times> bytes \<times> bytes \<times> int option \<times> bytes \<Rightarrow> gval list" where
  "eip1559_fields keccak tx c common =
     (case common of (n, g, t, v, d) \<Rightarrow>
        [GBytes c, GBytesPtr (Some n),
         GBigInt (if tx2_MaxPriorityFeePerGas tx \<noteq> 0 then Some (tx2_MaxPriorityFeePerGas tx) else None),
         GBigInt (if tx2_MaxFeePerGas tx \<noteq> 0 then Some (tx2_MaxFeePerGas tx) else None),
         GBytes g, GBytes t, GBigInt v, GBytes d,
         GList (accessListToRLPInterface keccak (tx2_AccessList tx))])"

definition EIP1559Transaction_RLPEncode ::
    "(bytes \<Rightarrow> bytes) \<Rightarrow> EIP1559Transaction \<Rightarrow> go_error + bytes" where
  "EIP1559Transaction_RLPEncode keccak tx =
     (case tx2_Signature tx of
        None \<Rightarrow> Inl Internal
      | Some sig \<Rightarrow>
          (case prepareCommonFields keccak (tx2_Nonce tx) (tx2_Gas tx) (tx2_To tx) (tx2_Value tx) (tx2_Data tx) of
             Inl e \<Rightarrow> Inl e
           | Inr common \<Rightarrow>
               (case chain_field (tx2_ChainID tx) of
                  Inl e \<Rightarrow> Inl e
                | Inr c \<Rightarrow>
                    (case Encode (GList (eip1559_fields keccak tx c common @
                        [GBigInt (Some (sig_YParity sig)), GBigInt (Some (sig1559_R sig)),
                         GBigInt (Some (sig1559_S sig))])) of
                       Inl e \<Rightarrow> Inl (InternalFromErr (rlp_failure e))
                     | Inr b \<Rightarrow> Inr (0x02 # b)))))"

definition EIP1559Transaction_payload ::
    "(bytes \<Rightarrow> bytes) \<Rightarrow> EIP1559Transaction \<Rightarrow> go_error + bytes" where
  "EIP1559Transaction_payload keccak tx =
     (case prepareCommonFields keccak (tx2_Nonce tx) (tx2_Gas tx) (tx2_To tx) (tx2_Value tx) (tx2_Data tx) of
        Inl e \<Rightarrow> Inl e
      | Inr common \<Rightarrow>
          (case chain_field (tx2_ChainID tx) of
             Inl e \<Rightarrow> Inl e
           | Inr c \<Rightarrow>
               (case Encode (GList (eip1559_fields keccak tx c common)) of
                  Inl e \<Rightarrow> Inl (InternalFromErr (rlp_failure e))
                | Inr b \<Rightarrow> Inr (0x02 # b))))"

definition EIP1559Transaction_Hash ::
    "(bytes \<Rightarrow> bytes) \<Rightarrow> EIP1559Transaction \<Rightarrow> go_error + bytes" where
  "EIP1559Transaction_Hash keccak tx =
     (case EIP1559Transaction_payload keccak tx of Inl e \<Rightarrow> Inl e | Inr p \<Rightarrow> Inr (keccak p))"

section \<open>The fields, computed\<close>

lemma NewHexBytes_prefixed:
  "NewHexBytesFromString (''0x'' @ p) =
     (case hex_decode p of (b, e) \<Rightarrow> (b, map_option errorHexEncoding e))"
  by (simp add: NewHexBytesFromString_def)

text \<open>A byte string that spells a number on the least even number of digits is minimal.\<close>

lemma minimal_bytes:
  assumes "be_nat bs = n" "0 < n" "2 * length bs \<le> length (hex_digits n) + 1"
  shows "bs = be_bytes n"
proof -
  have ne: "bs \<noteq> []" using assms(1,2) by auto
  have "hd bs \<noteq> 0"
  proof
    assume "hd bs = 0"
    then obtain cs where bs: "bs = 0 # cs" using ne by (cases bs) auto
    then have n: "n = be_nat cs" using assms(1) by (simp add: be_nat_Cons)
    then have "n < 256 ^ length cs" using be_nat_less [of cs] by simp
    then have "n < 16 ^ (2 * length cs)" by (simp add: power_mult)
    moreover have "0 < length cs" using n assms(2) by (cases cs) auto
    ultimately have "length (hex_digits n) \<le> 2 * length cs" by (intro length_hex_digits_le) auto
    then show False using assms(3) bs by simp
  qed
  then have "dropWhile (\<lambda>b. b = 0) bs = bs" using ne by (cases bs) auto
  then show ?thesis using be_bytes_be_nat [of bs] assms(1) by simp
qed

lemma even_hex_digits:
  "NewHexBytesFromString (hexStringEvenLength (''0x'' @ hex_digits n)) =
     (if n = 0 then [0] else be_bytes n, None)"
proof -
  define p where "p = (if even (length (hex_digits n)) then hex_digits n else CHR ''0'' # hex_digits n)"
  have e: "hexStringEvenLength (''0x'' @ hex_digits n) = ''0x'' @ p"
    by (simp add: p_def hexStringEvenLength_def even_iff_mod_2_eq_zero)
  have z: "IsHexCharacter (CHR ''0'')" "digit_val (CHR ''0'') = 0"
    by (simp_all add: IsHexCharacter_def digit_val_def decodeNibble_def Let_def)
  then have hex: "list_all IsHexCharacter p" "even (length p)" "hex_val p = n"
      "length p \<le> length (hex_digits n) + 1"
    by (simp_all add: p_def hex_val_Cons)
  then obtain bs where bs: "hex_decode p = (bs, None)" "2 * length bs = length p"
    using hex_decode_ok [of p] by blast
  have v: "be_nat bs = n" using hex_decode_val [OF bs(1)] hex(3) by simp
  have "bs = (if n = 0 then [0] else be_bytes n)"
  proof (cases "n = 0")
    case True
    then have "length bs = 1" using bs(2) by (simp add: p_def hex_digits_small)
    then show ?thesis using v True by (cases bs) (auto simp: unat_eq_0)
  next
    case False
    then show ?thesis using minimal_bytes [OF v] bs(2) hex(4) by simp
  qed
  then show ?thesis unfolding e NewHexBytes_prefixed bs(1) by simp
qed

lemma nonce_field_eq [simp]: "nonce_field n = Inr (be_bytes (unat n))"
  using even_hex_digits [of "unat n"]
  by (simp add: nonce_field_def HexUInt64_encode_def unat_eq_0)

lemma gas_field_eq [simp]: "gas_field g = Inr (if g = 0 then [0] else be_bytes (unat g))"
  using even_hex_digits [of "unat g"]
  by (simp add: gas_field_def HexUInt64_encode_def unat_eq_0)

lemma address_hex_bytes [simp]:
  "NewHexBytesFromString (String_of_address keccak a) = (a, None)"
proof -
  obtain t where t: "String_of_address keccak a = ''0x'' @ t" "list_all2 same_digit t (hex_encode a)"
    using String_of_address_digits by blast
  then show ?thesis using hex_decode_same_digits [OF t(2)]
    by (simp add: NewHexBytesFromString_def)
qed

lemma to_field_eq [simp]: "to_field keccak to = Inr (case to of None \<Rightarrow> [] | Some a \<Rightarrow> a)"
  by (simp add: to_field_def split: option.split)

lemma data_field_eq [simp]: "data_field d = Inr d"
  by (simp add: data_field_def NewHexBytesFromString_def HexBytes_Encode_def)

lemma chain_field_eq [simp]: "0 < c \<Longrightarrow> chain_field c = Inr (be_bytes (nat c))"
  using even_hex_digits [of "nat c"]
  by (simp add: chain_field_def HexInt256_Encode_def)

lemma prepareCommonFields_eq [simp]:
  "prepareCommonFields keccak n g to v d =
     Inr (be_bytes (unat n), if g = 0 then [0] else be_bytes (unat g),
          case to of None \<Rightarrow> [] | Some a \<Rightarrow> a, value_field v, d)"
  by (simp add: prepareCommonFields_def)

lemma access_list_items_eq [simp]:
  "access_list_items keccak es =
     Some (map (\<lambda>e. GList [GBytes (al_Address e), GList (map GBytes (al_StorageKeys e))]) es)"
  by (induction es) simp_all


section \<open>The encodings of EIP-155 and EIP-1559\<close>

definition num_item :: "nat \<Rightarrow> dval" where
  "num_item n = DStr (string_of_bytes (be_bytes n))"

definition gas_item :: "64 word \<Rightarrow> dval" where
  "gas_item g = DStr (string_of_bytes (if g = 0 then [0] else be_bytes (unat g)))"

definition to_item :: "address option \<Rightarrow> dval" where
  "to_item to = DStr (string_of_bytes (case to of None \<Rightarrow> [] | Some a \<Rightarrow> a))"

definition value_of :: "int option \<Rightarrow> int" where
  "value_of v = (case v of None \<Rightarrow> 0 | Some i \<Rightarrow> i)"

definition legacy_items :: "EthereumTransaction \<Rightarrow> dval list" where
  "legacy_items tx =
     [num_item (unat (tx_Nonce tx)), num_item (nat (tx_GasPrice tx)), gas_item (tx_Gas tx),
      to_item (tx_To tx), num_item (nat (value_of (tx_Value tx))), DStr (string_of_bytes (tx_Data tx))]"

definition access_item :: "AccessListEntry \<Rightarrow> dval" where
  "access_item e =
     DList [DStr (string_of_bytes (al_Address e)),
            DList (map (\<lambda>k. DStr (string_of_bytes k)) (al_StorageKeys e))]"

definition entries_of :: "AccessListEntry list option \<Rightarrow> AccessListEntry list" where
  "entries_of al = (case al of None \<Rightarrow> [] | Some es \<Rightarrow> es)"

definition eip1559_items :: "EIP1559Transaction \<Rightarrow> dval list" where
  "eip1559_items tx =
     [num_item (nat (tx2_ChainID tx)), num_item (unat (tx2_Nonce tx)),
      num_item (nat (tx2_MaxPriorityFeePerGas tx)), num_item (nat (tx2_MaxFeePerGas tx)),
      gas_item (tx2_Gas tx), to_item (tx2_To tx), num_item (nat (value_of (tx2_Value tx))),
      DStr (string_of_bytes (tx2_Data tx)), DList (map access_item (entries_of (tx2_AccessList tx)))]"

text \<open>What the parsers of the request and the guard of \<open>SignTx\<close> ensure.\<close>

definition wf_legacy :: "EthereumTransaction \<Rightarrow> bool" where
  "wf_legacy tx \<longleftrightarrow> 0 \<le> tx_GasPrice tx \<and> 0 \<le> value_of (tx_Value tx) \<and> 0 < tx_ChainID tx \<and>
     (case tx_To tx of None \<Rightarrow> True | Some a \<Rightarrow> length a = 20)"

definition wf_eip1559 :: "EIP1559Transaction \<Rightarrow> bool" where
  "wf_eip1559 tx \<longleftrightarrow> 0 \<le> tx2_MaxFeePerGas tx \<and> 0 \<le> tx2_MaxPriorityFeePerGas tx \<and>
     0 \<le> value_of (tx2_Value tx) \<and> 0 < tx2_ChainID tx \<and>
     (case tx2_To tx of None \<Rightarrow> True | Some a \<Rightarrow> length a = 20)"

lemma unat_64_inject: "unat (x :: 64 word) = unat y \<longleftrightarrow> x = y"
  by (simp only: word_unat_eq_iff)

lemma num_item_inject [simp]: "num_item m = num_item n \<longleftrightarrow> m = n"
  by (simp add: num_item_def)

lemma gas_item_inject [simp]: "gas_item g = gas_item h \<longleftrightarrow> g = h"
proof -
  have z: "be_bytes (unat x) \<noteq> [0]" if "x \<noteq> 0" for x :: "64 word"
    using hd_be_bytes [of "unat x"] that by (auto simp: unat_gt_0)
  have u: "unat g = unat h \<longleftrightarrow> g = h" by (simp only: word_unat_eq_iff)
  show ?thesis
    using z [of g] z [of h] u by (cases "g = 0"; cases "h = 0") (auto simp: gas_item_def)
qed

lemma to_item_inject:
  assumes "case to of None \<Rightarrow> True | Some a \<Rightarrow> length a = 20"
    "case to' of None \<Rightarrow> True | Some a \<Rightarrow> length a = 20"
  shows "to_item to = to_item to' \<longleftrightarrow> to = to'"
  using assms by (auto simp: to_item_def split: option.splits)

lemma access_item_inject [simp]: "access_item e = access_item f \<longleftrightarrow> e = f"
proof -
  have "inj (\<lambda>k. DStr (string_of_bytes k))" by (auto intro: injI)
  then show ?thesis
    by (cases e; cases f) (auto simp: access_item_def map_injective inj_map_eq_map)
qed

lemma items_of_fields:
  "rlp_item (GBigInt (if x \<noteq> 0 then Some x else None)) = num_item (nat x)"
  "rlp_item (GBigInt (value_field v)) = num_item (nat (value_of v))"
  "encodable (GBigInt (if x \<noteq> 0 then Some x else None)) \<longleftrightarrow> 0 \<le> x"
  "encodable (GBigInt (value_field v)) \<longleftrightarrow> 0 \<le> value_of v"
  "rlp_item (GBigInt (Some i)) = num_item (nat i)"
  "rlp_item (GBytes (be_bytes n)) = num_item n"
  "rlp_item (GBytesPtr (Some (be_bytes n))) = num_item n"
  by (auto simp: num_item_def value_field_def value_of_def string_of_bytes_def split: option.split)

lemma legacy_fields_items:
  "map rlp_item (legacy_fields tx
      (be_bytes (unat (tx_Nonce tx)), if tx_Gas tx = 0 then [0] else be_bytes (unat (tx_Gas tx)),
       case tx_To tx of None \<Rightarrow> [] | Some a \<Rightarrow> a, value_field (tx_Value tx), tx_Data tx))
     = legacy_items tx"
  by (simp add: legacy_fields_def legacy_items_def items_of_fields(1,2,6,7) gas_item_def to_item_def
      del: rlp_item.simps(9,11))


lemma accessListToRLPInterface_eq:
  "accessListToRLPInterface keccak al =
     map (\<lambda>e. GList [GBytes (al_Address e), GList (map GBytes (al_StorageKeys e))]) (entries_of al)"
  by (simp add: accessListToRLPInterface_def entries_of_def split: option.split)

lemma access_items:
  "map rlp_item (accessListToRLPInterface keccak al) = map access_item (entries_of al)"
  "list_all encodable (accessListToRLPInterface keccak al)"
  by (simp_all add: accessListToRLPInterface_eq access_item_def o_def list_all_iff)

lemma eip1559_fields_items:
  "map rlp_item (eip1559_fields keccak tx (be_bytes (nat (tx2_ChainID tx)))
      (be_bytes (unat (tx2_Nonce tx)), if tx2_Gas tx = 0 then [0] else be_bytes (unat (tx2_Gas tx)),
       case tx2_To tx of None \<Rightarrow> [] | Some a \<Rightarrow> a, value_field (tx2_Value tx), tx2_Data tx))
     = eip1559_items tx"
  by (simp add: eip1559_fields_def eip1559_items_def items_of_fields(1,2) [unfolded num_item_def]
      gas_item_def to_item_def num_item_def access_items del: rlp_item.simps(11))

lemma legacy_fields_encodable:
  "wf_legacy tx \<Longrightarrow> list_all encodable (legacy_fields tx (n, g, t, value_field (tx_Value tx), d))"
  by (simp add: legacy_fields_def wf_legacy_def items_of_fields(3,4) del: encodable.simps(3))

lemma eip1559_fields_encodable:
  "wf_eip1559 tx \<Longrightarrow>
     list_all encodable (eip1559_fields keccak tx c (n, g, t, value_field (tx2_Value tx), d))"
  by (simp add: eip1559_fields_def wf_eip1559_def items_of_fields(3,4) access_items
      del: encodable.simps(3))

lemma legacy_payload_eq:
  assumes "wf_legacy tx"
  shows "EthereumTransaction_payload keccak tx =
    Inr (rlp_spec (DList (legacy_items tx @ [num_item (nat (tx_ChainID tx)), num_item 0, num_item 0])))"
proof -
  let ?common = "(be_bytes (unat (tx_Nonce tx)), if tx_Gas tx = 0 then [0] else be_bytes (unat (tx_Gas tx)),
       case tx_To tx of None \<Rightarrow> [] | Some a \<Rightarrow> a, value_field (tx_Value tx), tx_Data tx)"
  let ?vs = "legacy_fields tx ?common @ [GBytes (be_bytes (nat (tx_ChainID tx))), GUint 0, GUint 0]"
  have "encodable (GList ?vs)" using legacy_fields_encodable [OF assms] by simp
  then have "Encode (GList ?vs) = Inr (rlp_spec (rlp_item (GList ?vs)))" by (rule Encode_encodable)
  also have "rlp_item (GList ?vs) =
      DList (legacy_items tx @ [num_item (nat (tx_ChainID tx)), num_item 0, num_item 0])"
    using legacy_fields_items [of tx] by (simp add: num_item_def string_of_bytes_def)
  finally show ?thesis using assms
    by (simp add: EthereumTransaction_payload_def wf_legacy_def)
qed

lemma legacy_signed_eq:
  assumes "wf_legacy tx" "tx_Signature tx = Some sig" "0 \<le> sig_V sig" "0 \<le> sig_R sig" "0 \<le> sig_S sig"
  shows "EthereumTransaction_RLPEncode keccak tx =
    Inr (rlp_spec (DList (legacy_items tx @
       [num_item (nat (sig_V sig)), num_item (nat (sig_R sig)), num_item (nat (sig_S sig))])))"
proof -
  let ?common = "(be_bytes (unat (tx_Nonce tx)), if tx_Gas tx = 0 then [0] else be_bytes (unat (tx_Gas tx)),
       case tx_To tx of None \<Rightarrow> [] | Some a \<Rightarrow> a, value_field (tx_Value tx), tx_Data tx)"
  let ?vs = "legacy_fields tx ?common @
     [GBigInt (Some (sig_V sig)), GBigInt (Some (sig_R sig)), GBigInt (Some (sig_S sig))]"
  have all: "list_all encodable ?vs" using legacy_fields_encodable [OF assms(1)] assms(3-5) by simp
  have each: "encode_each vs = None" if "list_all encodable vs" for vs
    using that by (induction vs) (auto dest: Encode_encodable)
  have "encodable (GList ?vs)" using all by simp
  then have "Encode (GList ?vs) = Inr (rlp_spec (rlp_item (GList ?vs)))" by (rule Encode_encodable)
  also have "rlp_item (GList ?vs) = DList (legacy_items tx @
       [num_item (nat (sig_V sig)), num_item (nat (sig_R sig)), num_item (nat (sig_S sig))])"
    using legacy_fields_items [of tx] by (simp add: num_item_def)
  finally show ?thesis using assms(2) each [OF all]
    by (simp add: EthereumTransaction_RLPEncode_def Let_def del: encode_each.simps)
qed

lemma eip1559_payload_eq:
  assumes "wf_eip1559 tx"
  shows "EIP1559Transaction_payload keccak tx = Inr (0x02 # rlp_spec (DList (eip1559_items tx)))"
proof -
  let ?common = "(be_bytes (unat (tx2_Nonce tx)), if tx2_Gas tx = 0 then [0] else be_bytes (unat (tx2_Gas tx)),
       case tx2_To tx of None \<Rightarrow> [] | Some a \<Rightarrow> a, value_field (tx2_Value tx), tx2_Data tx)"
  let ?vs = "eip1559_fields keccak tx (be_bytes (nat (tx2_ChainID tx))) ?common"
  have "encodable (GList ?vs)" using eip1559_fields_encodable [OF assms] by simp
  then have "Encode (GList ?vs) = Inr (rlp_spec (rlp_item (GList ?vs)))" by (rule Encode_encodable)
  then show ?thesis using assms eip1559_fields_items [of keccak tx]
    by (simp add: EIP1559Transaction_payload_def wf_eip1559_def)
qed

lemma eip1559_signed_eq:
  assumes "wf_eip1559 tx" "tx2_Signature tx = Some sig" "0 \<le> sig_YParity sig" "0 \<le> sig1559_R sig"
    "0 \<le> sig1559_S sig"
  shows "EIP1559Transaction_RLPEncode keccak tx =
    Inr (0x02 # rlp_spec (DList (eip1559_items tx @ [num_item (nat (sig_YParity sig)),
       num_item (nat (sig1559_R sig)), num_item (nat (sig1559_S sig))])))"
proof -
  let ?common = "(be_bytes (unat (tx2_Nonce tx)), if tx2_Gas tx = 0 then [0] else be_bytes (unat (tx2_Gas tx)),
       case tx2_To tx of None \<Rightarrow> [] | Some a \<Rightarrow> a, value_field (tx2_Value tx), tx2_Data tx)"
  let ?vs = "eip1559_fields keccak tx (be_bytes (nat (tx2_ChainID tx))) ?common @
     [GBigInt (Some (sig_YParity sig)), GBigInt (Some (sig1559_R sig)), GBigInt (Some (sig1559_S sig))]"
  have "encodable (GList ?vs)" using eip1559_fields_encodable [OF assms(1)] assms(3-5) by simp
  then have "Encode (GList ?vs) = Inr (rlp_spec (rlp_item (GList ?vs)))" by (rule Encode_encodable)
  also have "rlp_item (GList ?vs) = DList (eip1559_items tx @ [num_item (nat (sig_YParity sig)),
       num_item (nat (sig1559_R sig)), num_item (nat (sig1559_S sig))])"
    using eip1559_fields_items [of keccak tx] by (simp add: num_item_def)
  finally show ?thesis using assms(1,2)
    by (simp add: EIP1559Transaction_RLPEncode_def wf_eip1559_def)
qed

text \<open>Two transactions on which the theorems are evaluated.\<close>

definition sample_legacy :: "int option \<Rightarrow> EthereumSignature option \<Rightarrow> EthereumTransaction" where
  "sample_legacy v sig =
     \<lparr>tx_From = replicate 20 1, tx_To = Some (replicate 20 0x35), tx_Gas = 200,
      tx_GasPrice = 20, tx_Value = v, tx_Data = [0xca, 0xfe], tx_Nonce = 9, tx_ChainID = 1,
      tx_Signature = sig\<rparr>"

definition sample_eip1559 ::
    "AccessListEntry list option \<Rightarrow> EIP1559TransactionSignature option \<Rightarrow> EIP1559Transaction" where
  "sample_eip1559 al sig =
     \<lparr>tx2_From = replicate 20 1, tx2_To = None, tx2_Gas = 200, tx2_MaxFeePerGas = 30,
      tx2_MaxPriorityFeePerGas = 2, tx2_Value = None, tx2_Data = [1], tx2_Nonce = 0, tx2_ChainID = 5,
      tx2_AccessList = al, tx2_Signature = sig\<rparr>"

abbreviation (input) no_hash :: "bytes \<Rightarrow> bytes" where
  "no_hash \<equiv> \<lambda>_. replicate 32 0"

lemma sample_legacy_wf: "wf_legacy (sample_legacy None sig)" "wf_legacy (sample_legacy (Some 0) sig)"
  by (simp_all add: wf_legacy_def sample_legacy_def value_of_def)

lemma sample_eip1559_wf: "wf_eip1559 (sample_eip1559 al sig)"
  by (simp add: wf_eip1559_def sample_eip1559_def value_of_def)

lemma sample_legacy_items:
  "rlp_spec (DList (legacy_items (sample_legacy None None) @ [num_item 1, num_item 0, num_item 0])) =
     [0xe0, 0x09, 0x14, 0x81, 0xc8, 0x94] @ replicate 20 0x35 @ [0x80, 0x82, 0xca, 0xfe, 0x01, 0x80, 0x80]"
  "legacy_items (sample_legacy (Some 0) None) = legacy_items (sample_legacy None None)"
  by code_simp (simp add: legacy_items_def sample_legacy_def value_of_def)

lemma sample_legacy_payload:
  "EthereumTransaction_payload no_hash (sample_legacy None None) =
     Inr ([0xe0, 0x09, 0x14, 0x81, 0xc8, 0x94] @ replicate 20 0x35 @
          [0x80, 0x82, 0xca, 0xfe, 0x01, 0x80, 0x80])"
  "EthereumTransaction_payload no_hash (sample_legacy (Some 0) None) =
     EthereumTransaction_payload no_hash (sample_legacy None None)"
proof -
  have c: "nat (tx_ChainID (sample_legacy v sig)) = 1" for v sig by (simp add: sample_legacy_def)
  show "EthereumTransaction_payload no_hash (sample_legacy None None) =
     Inr ([0xe0, 0x09, 0x14, 0x81, 0xc8, 0x94] @ replicate 20 0x35 @
          [0x80, 0x82, 0xca, 0xfe, 0x01, 0x80, 0x80])"
    by (simp only: legacy_payload_eq [OF sample_legacy_wf(1)] c sample_legacy_items)
  show "EthereumTransaction_payload no_hash (sample_legacy (Some 0) None) =
     EthereumTransaction_payload no_hash (sample_legacy None None)"
    by (simp only: legacy_payload_eq [OF sample_legacy_wf(1)] legacy_payload_eq [OF sample_legacy_wf(2)]
        c sample_legacy_items(2))
qed

lemma sample_eip1559_payload:
  "EIP1559Transaction_payload no_hash (sample_eip1559 None None) =
     Inr [0x02, 0xca, 0x05, 0x80, 0x02, 0x1e, 0x81, 0xc8, 0x80, 0x80, 0x01, 0xc0]"
  "EIP1559Transaction_payload no_hash (sample_eip1559 (Some []) None) =
     EIP1559Transaction_payload no_hash (sample_eip1559 None None)"
  by code_simp+

section \<open>Properties\<close>

text \<open>
  C22: the payload of a legacy transaction determines every field that is signed: two transactions
  with the same payload agree on nonce, gas price, gas, recipient, value, data and chain.
\<close>

theorem legacy_payload_determines:
  assumes "wf_legacy tx" "wf_legacy tx'"
    and "EthereumTransaction_payload keccak tx = Inr p" "EthereumTransaction_payload keccak' tx' = Inr p"
    and "length p < 2 ^ 63"
  shows "tx_Nonce tx = tx_Nonce tx' \<and> tx_GasPrice tx = tx_GasPrice tx' \<and> tx_Gas tx = tx_Gas tx' \<and>
    tx_To tx = tx_To tx' \<and> value_of (tx_Value tx) = value_of (tx_Value tx') \<and>
    tx_Data tx = tx_Data tx' \<and> tx_ChainID tx = tx_ChainID tx'"
proof -
  have "DList (legacy_items tx @ [num_item (nat (tx_ChainID tx)), num_item 0, num_item 0]) =
        DList (legacy_items tx' @ [num_item (nat (tx_ChainID tx')), num_item 0, num_item 0])"
    by (rule rlp_spec_inject) (use assms legacy_payload_eq in auto)
  then show ?thesis
    using assms(1,2) to_item_inject [of "tx_To tx" "tx_To tx'"]
    by (auto simp: legacy_items_def wf_legacy_def unat_64_inject nat_eq_iff split: if_splits)
qed

lemma legacy_payload_determines_witness:
  "value_of (tx_Value (sample_legacy None None)) = value_of (tx_Value (sample_legacy (Some 0) None))"
proof -
  let ?p = "[0xe0, 0x09, 0x14, 0x81, 0xc8, 0x94] @ replicate 20 0x35 @
          [0x80, 0x82, 0xca, 0xfe, 0x01, 0x80, 0x80] :: bytes"
  have "EthereumTransaction_payload no_hash (sample_legacy (Some 0) None) = Inr ?p"
    using sample_legacy_payload by simp
  from legacy_payload_determines [OF sample_legacy_wf sample_legacy_payload(1) this]
  show ?thesis by simp
qed

text \<open>
  C23: the payload of an EIP-1559 transaction determines every field that is signed, the access
  list included.
\<close>

theorem eip1559_payload_determines:
  assumes "wf_eip1559 tx" "wf_eip1559 tx'"
    and "EIP1559Transaction_payload keccak tx = Inr p" "EIP1559Transaction_payload keccak' tx' = Inr p"
    and "length p < 2 ^ 63"
  shows "tx2_ChainID tx = tx2_ChainID tx' \<and> tx2_Nonce tx = tx2_Nonce tx' \<and>
    tx2_MaxPriorityFeePerGas tx = tx2_MaxPriorityFeePerGas tx' \<and>
    tx2_MaxFeePerGas tx = tx2_MaxFeePerGas tx' \<and> tx2_Gas tx = tx2_Gas tx' \<and> tx2_To tx = tx2_To tx' \<and>
    value_of (tx2_Value tx) = value_of (tx2_Value tx') \<and> tx2_Data tx = tx2_Data tx' \<and>
    entries_of (tx2_AccessList tx) = entries_of (tx2_AccessList tx')"
proof -
  have "DList (eip1559_items tx) = DList (eip1559_items tx')"
    by (rule rlp_spec_inject) (use assms eip1559_payload_eq in auto)
  moreover have "inj access_item" by (rule injI) simp
  ultimately show ?thesis
    using assms(1,2) to_item_inject [of "tx2_To tx" "tx2_To tx'"]
    by (auto simp: eip1559_items_def wf_eip1559_def inj_map_eq_map unat_64_inject nat_eq_iff
        split: if_splits)
qed

lemma eip1559_payload_determines_witness:
  "entries_of (tx2_AccessList (sample_eip1559 None None)) =
   entries_of (tx2_AccessList (sample_eip1559 (Some []) None))"
proof -
  have "EIP1559Transaction_payload no_hash (sample_eip1559 (Some []) None) =
     Inr [0x02, 0xca, 0x05, 0x80, 0x02, 0x1e, 0x81, 0xc8, 0x80, 0x80, 0x01, 0xc0]"
    using sample_eip1559_payload by simp
  from eip1559_payload_determines [OF sample_eip1559_wf sample_eip1559_wf sample_eip1559_payload(1) this]
  show ?thesis by simp
qed

text \<open>
  No payload is both that of a legacy and that of an EIP-1559 transaction, so a signature for
  one type is never one for the other.
\<close>

theorem payloads_separated:
  assumes "wf_legacy tx" "EthereumTransaction_payload keccak tx = Inr p" "length p < 2 ^ 63"
  shows "EIP1559Transaction_payload keccak' tx' \<noteq> Inr p"
proof
  assume "EIP1559Transaction_payload keccak' tx' = Inr p"
  then have "hd p = 0x02"
    by (auto simp: EIP1559Transaction_payload_def split: sum.splits)
  moreover have "hd p \<ge> 0xc0"
    using assms legacy_payload_eq [OF assms(1), of keccak]
    by (auto intro!: hd_rlp_spec_list simp: Let_def simp del: rlp_spec.simps(2)) (simp add: Let_def)
  ultimately show False by simp
qed

lemma payloads_separated_witness:
  "EIP1559Transaction_payload no_hash (sample_eip1559 None None) \<noteq>
   EthereumTransaction_payload no_hash (sample_legacy None None)"
  using payloads_separated [OF sample_legacy_wf(1) sample_legacy_payload(1)] sample_legacy_payload(1)
  by simp

text \<open>
  the signed legacy transaction decodes to the very fields of its payload with the signature
  in place of the chain.
\<close>

theorem legacy_signed_decodes:
  assumes "wf_legacy tx" "tx_Signature tx = Some sig" "0 \<le> sig_V sig" "0 \<le> sig_R sig" "0 \<le> sig_S sig"
    and "EthereumTransaction_RLPEncode keccak tx = Inr b" "length b < 2 ^ 63"
  shows "Decode b (length b) = Inr (DList (legacy_items tx @
       [num_item (nat (sig_V sig)), num_item (nat (sig_R sig)), num_item (nat (sig_S sig))])) \<and>
    (\<exists>p. EthereumTransaction_payload keccak tx = Inr p \<and>
       (length p < 2 ^ 63 \<longrightarrow> Decode p (length p) =
          Inr (DList (legacy_items tx @ [num_item (nat (tx_ChainID tx)), num_item 0, num_item 0]))))"
  using legacy_signed_eq [OF assms(1-5), of keccak] assms(6,7) legacy_payload_eq [OF assms(1), of keccak]
    Decode_rlp_spec [where rest = "[]"]
  by (simp del: rlp_spec.simps)

definition sample_signature :: EthereumSignature where
  "sample_signature = \<lparr>sig_V = 37, sig_R = 1, sig_S = 2\<rparr>"

lemma legacy_signed_decodes_witness:
  "\<exists>b. EthereumTransaction_RLPEncode no_hash (sample_legacy None (Some sample_signature)) = Inr b \<and>
     Decode b (length b) = Inr (DList (legacy_items (sample_legacy None (Some sample_signature)) @
       [num_item 37, num_item 1, num_item 2]))"
proof -
  let ?b = "[0xe0, 0x09, 0x14, 0x81, 0xc8, 0x94] @ replicate 20 0x35 @
     [0x80, 0x82, 0xca, 0xfe, 0x25, 0x01, 0x02] :: bytes"
  have b: "EthereumTransaction_RLPEncode no_hash (sample_legacy None (Some sample_signature)) = Inr ?b"
    by code_simp
  have "Decode ?b (length ?b) = Inr (DList (legacy_items (sample_legacy None (Some sample_signature)) @
       [num_item (nat (sig_V sample_signature)), num_item (nat (sig_R sample_signature)),
        num_item (nat (sig_S sample_signature))]))"
    using legacy_signed_decodes [OF sample_legacy_wf(1) _ _ _ _ b]
    by (simp add: sample_legacy_def sample_signature_def)
  with b show ?thesis by (auto simp: sample_signature_def)
qed

text \<open>
  the signed EIP-1559 transaction is the type byte and an encoding that decodes to the fields
  of its payload followed by the signature.
\<close>

theorem eip1559_signed_decodes:
  assumes "wf_eip1559 tx" "tx2_Signature tx = Some sig" "0 \<le> sig_YParity sig" "0 \<le> sig1559_R sig"
      "0 \<le> sig1559_S sig"
    and "EIP1559Transaction_RLPEncode keccak tx = Inr b" "length b < 2 ^ 63"
  shows "hd b = 0x02 \<and> Decode (tl b) (length (tl b)) = Inr (DList (eip1559_items tx @
       [num_item (nat (sig_YParity sig)), num_item (nat (sig1559_R sig)), num_item (nat (sig1559_S sig))]))"
  using eip1559_signed_eq [OF assms(1-5), of keccak] assms(6,7) Decode_rlp_spec [where rest = "[]"]
  by (auto simp del: rlp_spec.simps)

definition sample_signature1559 :: EIP1559TransactionSignature where
  "sample_signature1559 = \<lparr>sig_YParity = 1, sig1559_R = 1, sig1559_S = 2\<rparr>"

lemma eip1559_signed_decodes_witness:
  "\<exists>b. EIP1559Transaction_RLPEncode no_hash (sample_eip1559 None (Some sample_signature1559)) = Inr b \<and>
     hd b = 0x02 \<and>
     Decode (tl b) (length (tl b)) = Inr (DList (eip1559_items (sample_eip1559 None (Some sample_signature1559)) @
       [num_item 1, num_item 1, num_item 2]))"
proof -
  let ?b = "[0x02, 0xcd, 0x05, 0x80, 0x02, 0x1e, 0x81, 0xc8, 0x80, 0x80, 0x01, 0xc0,
     0x01, 0x01, 0x02] :: bytes"
  have b: "EIP1559Transaction_RLPEncode no_hash (sample_eip1559 None (Some sample_signature1559)) = Inr ?b"
    by code_simp
  have "hd ?b = 0x02 \<and> Decode (tl ?b) (length (tl ?b)) =
      Inr (DList (eip1559_items (sample_eip1559 None (Some sample_signature1559)) @
       [num_item (nat (sig_YParity sample_signature1559)), num_item (nat (sig1559_R sample_signature1559)),
        num_item (nat (sig1559_S sample_signature1559))]))"
    using eip1559_signed_decodes [OF sample_eip1559_wf _ _ _ _ b]
    by (simp add: sample_eip1559_def sample_signature1559_def)
  with b show ?thesis by (auto simp: sample_signature1559_def)
qed

text \<open>
  A zero \<open>gas\<close> becomes the byte zero and not the empty string: the encoding is not the canonical
  one, in which integers have no leading zero byte, while a zero nonce is canonical.
\<close>

lemma zero_gas_not_canonical:
  "gas_item 0 = DStr [CHR 0x00]" "gas_item 0 \<noteq> num_item 0"
  by code_simp+

end
