(* ===== verification/Go_Prog.thy ===== *)
theory Go_Prog
  imports Go_Errors
begin

text \<open>
  Programs of the use case layer: functions that read and change a world and return an error or a
  result, as every operation of the source does through its receiver and its \<open>(result, error)\<close>
  pair.  \<open>bindP\<close> is the early return \<open>if err != nil { return nil, err }\<close>, \<open>onErrP\<close> the same with
  a translation of the error.
\<close>

type_synonym ('w, 'a) prog = "'w \<Rightarrow> (go_error + 'a) \<times> 'w"

definition returnP :: "'a \<Rightarrow> ('w, 'a) prog" where
  "returnP x w = (Inr x, w)"

definition throwP :: "go_error \<Rightarrow> ('w, 'a) prog" where
  "throwP e w = (Inl e, w)"

definition bindP :: "('w, 'a) prog \<Rightarrow> ('a \<Rightarrow> ('w, 'b) prog) \<Rightarrow> ('w, 'b) prog" where
  "bindP m f w =
     (case m w of (Inl e, w') \<Rightarrow> (Inl e, w') | (Inr x, w') \<Rightarrow> f x w')"

definition onErrP :: "('w, 'a) prog \<Rightarrow> (go_error \<Rightarrow> go_error) \<Rightarrow> ('w, 'a) prog" where
  "onErrP m h w = (case m w of (Inl e, w') \<Rightarrow> (Inl (h e), w') | (Inr x, w') \<Rightarrow> (Inr x, w'))"

text \<open>Running a program and looking at its error without returning it.\<close>

definition tryP :: "('w, 'a) prog \<Rightarrow> ('w, go_error + 'a) prog" where
  "tryP m w = (case m w of (r, w') \<Rightarrow> (Inr r, w'))"

definition liftP :: "go_error + 'a \<Rightarrow> ('w, 'a) prog" where
  "liftP r w = (r, w)"

definition checkP :: "bool \<Rightarrow> go_error \<Rightarrow> ('w, unit) prog" where
  "checkP ok e = (if ok then returnP () else throwP e)"

fun mapP :: "('a \<Rightarrow> ('w, 'b) prog) \<Rightarrow> 'a list \<Rightarrow> ('w, 'b list) prog" where
  "mapP f [] = returnP []"
| "mapP f (x # xs) = bindP (f x) (\<lambda>y. bindP (mapP f xs) (\<lambda>ys. returnP (y # ys)))"

text \<open>
  Correctness statements: from a world with \<open>P\<close>, a run of \<open>m\<close> ends with \<open>Q\<close> on its result and
  world, or with \<open>E\<close> on its error and world.
\<close>

definition runs :: "('w \<Rightarrow> bool) \<Rightarrow> ('w, 'a) prog \<Rightarrow> ('a \<Rightarrow> 'w \<Rightarrow> bool) \<Rightarrow> (go_error \<Rightarrow> 'w \<Rightarrow> bool) \<Rightarrow> bool" where
  "runs P m Q E \<longleftrightarrow>
     (\<forall>w. P w \<longrightarrow> (case m w of (Inr x, w') \<Rightarrow> Q x w' | (Inl e, w') \<Rightarrow> E e w'))"

definition keeps :: "('w \<Rightarrow> bool) \<Rightarrow> ('w, 'a) prog \<Rightarrow> bool" where
  "keeps P m \<longleftrightarrow> (\<forall>w. P w \<longrightarrow> P (snd (m w)))"

text \<open>The inversion of a successful run.\<close>

lemma bindP_Inr:
  "bindP m f w = (Inr y, w'') \<longleftrightarrow> (\<exists>x w'. m w = (Inr x, w') \<and> f x w' = (Inr y, w''))"
  by (auto simp: bindP_def split: prod.splits sum.splits)

lemma onErrP_Inr: "onErrP m h w = (Inr y, w') \<longleftrightarrow> m w = (Inr y, w')"
  by (auto simp: onErrP_def split: prod.splits sum.splits)

lemma returnP_eq: "returnP x w = (r, w') \<longleftrightarrow> r = Inr x \<and> w' = w"
  by (auto simp: returnP_def)

lemma throwP_eq: "throwP e w = (r, w') \<longleftrightarrow> r = Inl e \<and> w' = w"
  by (auto simp: throwP_def)

lemma liftP_eq: "liftP r w = (r', w') \<longleftrightarrow> r = r' \<and> w' = w"
  by (auto simp: liftP_def)

lemma checkP_Inr: "checkP ok e w = (Inr u, w') \<longleftrightarrow> ok \<and> w' = w"
  by (auto simp: checkP_def returnP_def throwP_def)

lemma tryP_eq: "tryP m w = (r, w') \<longleftrightarrow> (\<exists>x. r = Inr x \<and> m w = (x, w'))"
  by (auto simp: tryP_def split: prod.splits)

lemmas prog_ok = bindP_Inr onErrP_Inr returnP_eq throwP_eq liftP_eq checkP_Inr tryP_eq

lemma bindP_ok: "m w = (Inr x, w') \<Longrightarrow> bindP m f w = f x w'"
  by (simp add: bindP_def)

lemma bindP_err: "m w = (Inl e, w') \<Longrightarrow> bindP m f w = (Inl e, w')"
  by (simp add: bindP_def)

lemma bind_returnP [simp]: "bindP (returnP x) f = f x"
  by (rule ext) (simp add: bindP_def returnP_def)

lemma bind_throwP [simp]: "bindP (throwP e) f = throwP e"
  by (rule ext) (simp add: bindP_def throwP_def)

lemmas prog_defs = bindP_def onErrP_def returnP_def throwP_def liftP_def checkP_def tryP_def

section \<open>Invariants\<close>

lemma keeps_returnP [keeps_intros]: "keeps P (returnP x)"
  by (simp add: keeps_def returnP_def)

lemma keeps_throwP [keeps_intros]: "keeps P (throwP e)"
  by (simp add: keeps_def throwP_def)

lemma keeps_liftP [keeps_intros]: "keeps P (liftP r)"
  by (simp add: keeps_def liftP_def)

lemma keeps_checkP [keeps_intros]: "keeps P (checkP b e)"
  by (simp add: checkP_def keeps_returnP keeps_throwP)

lemma keeps_bindP [keeps_intros]: "keeps P m \<Longrightarrow> (\<And>x. keeps P (f x)) \<Longrightarrow> keeps P (bindP m f)"
  by (fastforce simp: keeps_def bindP_def split: prod.splits sum.splits)

lemma keeps_onErrP [keeps_intros]: "keeps P m \<Longrightarrow> keeps P (onErrP m h)"
  by (fastforce simp: keeps_def onErrP_def split: prod.splits sum.splits)

lemma keeps_tryP [keeps_intros]: "keeps P m \<Longrightarrow> keeps P (tryP m)"
  by (fastforce simp: keeps_def tryP_def split: prod.splits)

lemma keeps_if [keeps_intros]: "keeps P m \<Longrightarrow> keeps P m' \<Longrightarrow> keeps P (if b then m else m')"
  by simp

lemma keeps_option [keeps_intros]:
  "keeps P m \<Longrightarrow> (\<And>x. keeps P (f x)) \<Longrightarrow> keeps P (case v of None \<Rightarrow> m | Some x \<Rightarrow> f x)"
  by (cases v) simp_all

lemma keeps_sum [keeps_intros]:
  "(\<And>x. keeps P (f x)) \<Longrightarrow> (\<And>x. keeps P (g x)) \<Longrightarrow> keeps P (case v of Inl x \<Rightarrow> f x | Inr x \<Rightarrow> g x)"
  by (cases v) simp_all

lemma keeps_prod [keeps_intros]:
  "(\<And>a b. keeps P (f a b)) \<Longrightarrow> keeps P (case v of (a, b) \<Rightarrow> f a b)"
  by (cases v) simp

lemma keeps_mapP [keeps_intros]: "(\<And>x. keeps P (f x)) \<Longrightarrow> keeps P (mapP f xs)"
  by (induction xs) (auto intro!: keeps_intros)

lemma keepsD: "keeps P m \<Longrightarrow> P w \<Longrightarrow> m w = (r, w') \<Longrightarrow> P w'"
  by (metis keeps_def snd_conv)

section \<open>Correctness rules\<close>

lemma runsI:
  assumes "\<And>w x w'. P w \<Longrightarrow> m w = (Inr x, w') \<Longrightarrow> Q x w'"
    and "\<And>w e w'. P w \<Longrightarrow> m w = (Inl e, w') \<Longrightarrow> E e w'"
  shows "runs P m Q E"
  using assms by (fastforce simp: runs_def split: prod.splits sum.splits)

lemma runs_ok: "runs P m Q E \<Longrightarrow> P w \<Longrightarrow> m w = (Inr x, w') \<Longrightarrow> Q x w'"
  by (fastforce simp: runs_def)

lemma runs_err: "runs P m Q E \<Longrightarrow> P w \<Longrightarrow> m w = (Inl e, w') \<Longrightarrow> E e w'"
  by (fastforce simp: runs_def)

lemma runs_conseq:
  assumes "runs P' m Q' E'" and "\<And>w. P w \<Longrightarrow> P' w" and "\<And>x w. Q' x w \<Longrightarrow> Q x w"
    and "\<And>e w. E' e w \<Longrightarrow> E e w"
  shows "runs P m Q E"
  using assms by (fastforce simp: runs_def split: prod.splits sum.splits)

lemma runs_returnP: "(\<And>w. P w \<Longrightarrow> Q x w) \<Longrightarrow> runs P (returnP x) Q E"
  by (simp add: runs_def returnP_def)

lemma runs_throwP: "(\<And>w. P w \<Longrightarrow> E e w) \<Longrightarrow> runs P (throwP e) Q E"
  by (simp add: runs_def throwP_def)

lemma runs_bindP:
  assumes "runs P m R E" and "\<And>x. runs (R x) (f x) Q E"
  shows "runs P (bindP m f) Q E"
  using assms by (fastforce simp: runs_def bindP_def split: prod.splits sum.splits)

lemma runs_onErrP: "runs P m Q (\<lambda>e. E (h e)) \<Longrightarrow> runs P (onErrP m h) Q E"
  by (fastforce simp: runs_def onErrP_def split: prod.splits sum.splits)

lemma runs_tryP:
  assumes "runs P m (\<lambda>x. Q (Inr x)) (\<lambda>e. Q (Inl e))"
  shows "runs P (tryP m) Q E"
proof (rule runsI)
  fix w r w' assume "P w" "tryP m w = (Inr r, w')"
  then show "Q r w'"
    using runs_ok [OF assms] runs_err [OF assms] by (cases r) (auto simp: tryP_eq)
qed (simp add: tryP_eq)

lemma runs_liftP:
  "(\<And>w x. P w \<Longrightarrow> r = Inr x \<Longrightarrow> Q x w) \<Longrightarrow> (\<And>w e. P w \<Longrightarrow> r = Inl e \<Longrightarrow> E e w) \<Longrightarrow>
   runs P (liftP r) Q E"
  by (auto simp: runs_def liftP_def split: sum.splits)

lemma runs_checkP:
  "(\<And>w. P w \<Longrightarrow> b \<Longrightarrow> Q () w) \<Longrightarrow> (\<And>w. P w \<Longrightarrow> \<not> b \<Longrightarrow> E e w) \<Longrightarrow> runs P (checkP b e) Q E"
  by (auto simp: runs_def checkP_def returnP_def throwP_def)

lemma keeps_runs: "keeps P m \<longleftrightarrow> runs P m (\<lambda>_. P) (\<lambda>_. P)"
proof -
  have "(case m w of (Inr x, w') \<Rightarrow> P w' | (Inl e, w') \<Rightarrow> P w') = P (snd (m w))" for w
    by (cases "m w"; cases "fst (m w)") auto
  then show ?thesis by (simp add: keeps_def runs_def)
qed

end
