(* ===== verification/Hsm_Connector.thy ===== *)
theory Hsm_Connector
  imports Eth_Tx Go_Prog
begin

text \<open>
  The connector to the signature managers, \<open>src/app/pkg/usecases/hsmconnector\<close>
  (\<open>hsm_connector.go\<close>, \<open>utils.go\<close>, \<open>signature_manager_factory.go\<close>), with the manager for keys held
  in the configuration (\<open>signaturemanager/localkeyvault\<close>), the one for Azure Key Vault
  (\<open>signaturemanager/akv\<close>) and \<open>signaturemanager/address_utils.go\<close>.

  The curve library is a record of parameters (\<open>crypto\<close>).  A signature manager is a record of
  programs over a world \<open>'w\<close>, the state of the devices; the factory maps module kinds to
  managers.  \<open>govalidator.ValidateStruct\<close> is a parameter that sees the tags of the struct with the
  values of its fields.
\<close>

section \<open>Parameters and data\<close>

record crypto =
  c_keccak :: "bytes \<Rightarrow> bytes"
  c_order :: nat
  c_recover :: "bytes \<Rightarrow> bytes \<Rightarrow> bytes option"
  c_parse :: "bytes \<Rightarrow> bytes option"

type_synonym validator = "(string \<times> string) list \<Rightarrow> bool"

record AKVConfig =
  KeyName :: string
  KeyVersion :: string
  KeyPublicAddress :: string

text \<open>A Go map may be nil: the key store is an optional partial function.\<close>

type_synonym KeyStore = "(address \<rightharpoonup> string) option"

record SlotConnectionData =
  sc_Slot :: string
  sc_Pin :: string
  sc_AKV :: "AKVConfig list"
  sc_LocalKeyVault :: "KeyStore option"
  sc_ModuleKind :: string

record SignInput =
  si_Slot :: string
  si_Pin :: string
  si_From :: address
  si_Data :: bytes
  si_AKV :: "AKVConfig list"
  si_LocalKeyVault :: "KeyStore option"

record 'w dsm =
  dsm_GenerateKey :: "string \<Rightarrow> string \<Rightarrow> ('w, address) prog"
  dsm_DeriveAddress :: "bytes \<Rightarrow> ('w, address) prog"
  dsm_RemoveKey :: "string \<Rightarrow> string \<Rightarrow> address \<Rightarrow> ('w, unit) prog"
  dsm_ListKeys :: "string \<Rightarrow> string \<Rightarrow> ('w, address list) prog"
  dsm_Sign :: "SignInput \<Rightarrow> ('w, bytes) prog"
  dsm_Close :: "('w, unit) prog"
  dsm_Open :: "('w, unit) prog"
  dsm_IsAlive :: "string \<Rightarrow> string \<Rightarrow> ('w, bool) prog"

text \<open>The map of the factory in some iteration order.\<close>

type_synonym 'w factory = "(string \<times> 'w dsm) list"

definition supportedSigningModules :: "string list" where
  "supportedSigningModules = [''SoftHSM'', ''AKV'', ''LocalKeyVault'']"

definition IsModuleSupported :: "string \<Rightarrow> bool" where
  "IsModuleSupported m = (m \<in> set supportedSigningModules)"

section \<open>The factory\<close>

definition factory_Reset :: "'w factory \<Rightarrow> string \<Rightarrow> ('w, unit) prog" where
  "factory_Reset fac kind =
     (case map_of fac kind of
        None \<Rightarrow> throwP InvalidArgument
      | Some m \<Rightarrow>
          bindP (onErrP (dsm_Close m) (\<lambda>_. Internal)) (\<lambda>_.
          onErrP (dsm_Open m) (\<lambda>_. Internal)))"

definition factory_Create :: "'w factory \<Rightarrow> string \<Rightarrow> ('w, 'w dsm) prog" where
  "factory_Create fac kind =
     (case map_of fac kind of
        None \<Rightarrow> throwP InvalidArgument
      | Some m \<Rightarrow>
          bindP (tryP (dsm_Open m)) (\<lambda>r.
            case r of
              Inl openErr \<Rightarrow> if \<not> sm_IsAlreadyInitializedErr openErr then throwP Internal else returnP m
            | Inr _ \<Rightarrow> returnP m))"

fun factory_Close :: "'w factory \<Rightarrow> ('w, unit) prog" where
  "factory_Close [] = returnP ()"
| "factory_Close ((k, m) # fac) =
     bindP (onErrP (dsm_Close m) InternalFromErr) (\<lambda>_. factory_Close fac)"

section \<open>Signatures\<close>

definition addr_failure :: "address_error \<Rightarrow> go_error" where
  "addr_failure e = (case e of AddressHexError _ \<Rightarrow> PlainError ''hex'' | _ \<Rightarrow> InvalidArgument)"

definition DeriveAddressFromPublicKey :: "(bytes \<Rightarrow> bytes) \<Rightarrow> bytes \<Rightarrow> go_error + address" where
  "DeriveAddressFromPublicKey keccak pk =
     (if length pk \<noteq> 65 \<or> pk ! 0 \<noteq> 0x04 then Inl sm_NewInvalidArgumentError
      else case NewFromRawBytes (drop 12 (keccak (drop 1 pk))) of
             Inl e \<Rightarrow> Inl (addr_failure e)
           | Inr a \<Rightarrow> Inr a)"

definition validateBackendSignature :: "nat \<Rightarrow> bytes \<Rightarrow> go_error option" where
  "validateBackendSignature order sig =
     (let human = ''the signing backend returned a malformed signature'' in
      if length sig \<noteq> 64 then Some (SetHumanReadableMessage human BadGateway)
      else let r = be_nat (take 32 sig); s = be_nat (drop 32 sig) in
        if r = 0 \<or> order \<le> r then Some (SetHumanReadableMessage human BadGateway)
        else if s = 0 \<or> order \<le> s then Some (SetHumanReadableMessage human BadGateway)
        else None)"

definition halfOrder :: "nat \<Rightarrow> nat" where
  "halfOrder order = order div 2"

definition signatureToLowS :: "nat \<Rightarrow> bytes \<Rightarrow> bytes" where
  "signatureToLowS order sig =
     (let h = length sig div 2;
          rVal = be_nat (take h sig); s0 = be_nat (drop h sig);
          sVal = (if halfOrder order < s0 then order - s0 else s0);
          rBytes = be_bytes rVal; sBytes = be_bytes sVal
      in replicate (h - length rBytes) 0 @ rBytes @ replicate (h - length sBytes) 0 @ sBytes)"

text \<open>
  The loop of \<open>recoverV\<close> over the candidates for the first byte; the value of the buffer when it
  succeeds.
\<close>

fun recoverV_loop :: "crypto \<Rightarrow> nat list \<Rightarrow> bytes \<Rightarrow> address \<Rightarrow> bytes \<Rightarrow> go_error + bytes" where
  "recoverV_loop cr [] signatureWithV from data = Inl Internal"
| "recoverV_loop cr (i # is) signatureWithV from data =
     (let signatureWithV = signatureWithV[0 := word_of_nat i] in
      case c_recover cr signatureWithV data of
        None \<Rightarrow> recoverV_loop cr is signatureWithV from data
      | Some recovered \<Rightarrow>
          (case c_parse cr recovered of
             None \<Rightarrow> recoverV_loop cr is signatureWithV from data
           | Some pubKey \<Rightarrow>
               (case DeriveAddressFromPublicKey (c_keccak cr) pubKey of
                  Inl e \<Rightarrow> Inl e
                | Inr addr \<Rightarrow>
                    if String_of_address (c_keccak cr) addr = String_of_address (c_keccak cr) from
                    then Inr signatureWithV
                    else recoverV_loop cr is signatureWithV from data)))"

definition recoverV :: "crypto \<Rightarrow> bytes \<Rightarrow> address \<Rightarrow> bytes \<Rightarrow> go_error + bytes" where
  "recoverV cr signatureWithV from data = recoverV_loop cr [27..<28 + 1] signatureWithV from data"

definition assembleRecoverableSignature ::
    "crypto \<Rightarrow> bytes \<Rightarrow> address \<Rightarrow> bytes \<Rightarrow> go_error + bytes" where
  "assembleRecoverableSignature cr rawSig from data =
     (case validateBackendSignature (c_order cr) rawSig of
        Some e \<Rightarrow> Inl e
      | None \<Rightarrow> recoverV cr (0 # signatureToLowS (c_order cr) rawSig) from data)"

definition generateEthereumSignature :: "bytes \<Rightarrow> int \<Rightarrow> EthereumSignature" where
  "generateEthereumSignature signature chainID =
     \<lparr>sig_V = (uint (signature ! 0) - 27) + 35 + chainID * 2,
      sig_R = int (be_nat (take 32 (drop 1 signature))),
      sig_S = int (be_nat (take 32 (drop 33 signature)))\<rparr>"

definition generateEIP1559TransactionSignature :: "bytes \<Rightarrow> EIP1559TransactionSignature" where
  "generateEIP1559TransactionSignature signature =
     \<lparr>sig_YParity = uint (signature ! 0) - 27,
      sig1559_R = int (be_nat (take 32 (drop 1 signature))),
      sig1559_S = int (be_nat (take 32 (drop 33 signature)))\<rparr>"

text \<open>
  \<open>ToHex\<close>; \<open>copy\<close> into \<open>buffer[32-len(rBytes):32]\<close> is defined for numbers of at most 32 bytes,
  a longer one is a slice out of range.
\<close>

definition ToHex :: "EthereumSignature \<Rightarrow> string option" where
  "ToHex s =
     (let rBytes = be_bytes (nat \<bar>sig_R s\<bar>); sBytes = be_bytes (nat \<bar>sig_S s\<bar>);
          vBytes = be_bytes (nat \<bar>sig_V s\<bar>)
      in if 32 < length rBytes \<or> 64 < length sBytes then None
         else Some (''0x'' @ hex_encode
           (take (64 - length sBytes) (replicate (32 - length rBytes) 0 @ rBytes @ replicate 32 0) @
            sBytes @ [if vBytes \<noteq> [] then last vBytes else 0])))"

section \<open>The manager for keys in the configuration\<close>

record 'w lkv_crypto =
  lkv_order :: nat
  lkv_keccak :: "bytes \<Rightarrow> bytes"
  lkv_pubkey :: "bytes \<Rightarrow> bytes"
  lkv_basemult :: "bytes \<Rightarrow> bool"
  lkv_sign :: "nat \<Rightarrow> bytes \<Rightarrow> ('w, nat \<times> nat) prog"

definition LKV_DeriveAddressFromPrivateKey :: "'w lkv_crypto \<Rightarrow> bytes \<Rightarrow> ('w, address) prog" where
  "LKV_DeriveAddressFromPrivateKey lc privateKey =
     (if length privateKey \<noteq> 32 then throwP sm_NewInvalidArgumentError
      else if lkv_order lc \<le> be_nat privateKey then throwP Internal
      else if be_nat privateKey = 0 then throwP Internal
      else case DeriveAddressFromPublicKey (lkv_keccak lc) (lkv_pubkey lc privateKey) of
             Inl e \<Rightarrow> throwP Internal
           | Inr a \<Rightarrow> returnP a)"

definition pad32 :: "nat \<Rightarrow> go_error + bytes" where
  "pad32 n =
     (if 32 < length (be_bytes n) then Inl (PlainError ''makeslice: len out of range'')
      else Inr (replicate (32 - length (be_bytes n)) 0 @ be_bytes n))"

definition LKV_Sign :: "'w lkv_crypto \<Rightarrow> SignInput \<Rightarrow> ('w, bytes) prog" where
  "LKV_Sign lc input =
     (case si_LocalKeyVault input of
        None \<Rightarrow> throwP sm_NewInternalError
      | Some None \<Rightarrow> throwP sm_NewInternalError
      | Some (Some keyStore) \<Rightarrow>
          (case keyStore (si_From input) of
             None \<Rightarrow> throwP sm_NewInternalError
           | Some privateKeyStr \<Rightarrow>
               (case NewHexBytesFromString privateKeyStr of
                  (_, Some e) \<Rightarrow> throwP (InternalFromErr InvalidArgument)
                | (privateKeyBytes, None) \<Rightarrow>
                    if lkv_order lc \<le> be_nat privateKeyBytes then throwP Internal
                    else if be_nat privateKeyBytes = 0 then throwP Internal
                    else if \<not> lkv_basemult lc privateKeyBytes then throwP Internal
                    else bindP (onErrP (lkv_sign lc (be_nat privateKeyBytes) (si_Data input)) InternalFromErr)
                      (\<lambda>(r, s). bindP (liftP (pad32 r)) (\<lambda>rPadded. bindP (liftP (pad32 s)) (\<lambda>sPadded.
                         returnP (rPadded @ sPadded)))))))"

definition LKVSignatureManager :: "'w lkv_crypto \<Rightarrow> 'w dsm" where
  "LKVSignatureManager lc =
     \<lparr>dsm_GenerateKey = (\<lambda>_ _. throwP sm_NewNotImplementedError),
      dsm_DeriveAddress = LKV_DeriveAddressFromPrivateKey lc,
      dsm_RemoveKey = (\<lambda>_ _ _. throwP sm_NewNotImplementedError),
      dsm_ListKeys = (\<lambda>_ _. throwP sm_NewNotImplementedError),
      dsm_Sign = LKV_Sign lc,
      dsm_Close = returnP (), dsm_Open = returnP (),
      dsm_IsAlive = (\<lambda>_ _. returnP True)\<rparr>"

section \<open>The manager for Azure Key Vault\<close>

text \<open>The client of the service is a parameter; of several entries for an address the last wins.\<close>

fun akv_key :: "string \<Rightarrow> AKVConfig list \<Rightarrow> string \<times> string \<Rightarrow> string \<times> string" where
  "akv_key from [] nv = nv"
| "akv_key from (c # cs) nv =
     akv_key from cs (if KeyPublicAddress c = from then (KeyName c, KeyVersion c) else nv)"

definition AKV_Sign ::
    "(bytes \<Rightarrow> bytes) \<Rightarrow> (string \<Rightarrow> string \<Rightarrow> bytes \<Rightarrow> ('w, bytes) prog) \<Rightarrow> SignInput \<Rightarrow> ('w, bytes) prog" where
  "AKV_Sign keccak client input =
     (case akv_key (String_of_address keccak (si_From input)) (si_AKV input) ([], []) of
        (name, version) \<Rightarrow>
          if length name = 0 \<or> length version = 0 then throwP sm_NewInternalError
          else onErrP (client name version (si_Data input)) (\<lambda>_. sm_NewInternalError))"

definition AKVSignatureManager ::
    "(bytes \<Rightarrow> bytes) \<Rightarrow> (string \<Rightarrow> string \<Rightarrow> bytes \<Rightarrow> ('w, bytes) prog) \<Rightarrow> 'w dsm" where
  "AKVSignatureManager keccak client =
     \<lparr>dsm_GenerateKey = (\<lambda>_ _. throwP sm_NewNotImplementedError),
      dsm_DeriveAddress = (\<lambda>_. throwP sm_NewNotImplementedError),
      dsm_RemoveKey = (\<lambda>_ _ _. throwP sm_NewNotImplementedError),
      dsm_ListKeys = (\<lambda>_ _. throwP sm_NewNotImplementedError),
      dsm_Sign = AKV_Sign keccak client,
      dsm_Close = returnP (), dsm_Open = returnP (),
      dsm_IsAlive = (\<lambda>_ _. returnP True)\<rparr>"

section \<open>The operations of the connector\<close>

record 'w connector =
  cn_crypto :: crypto
  cn_factory :: "'w factory"
  cn_validate :: validator

definition slot_fields :: "SlotConnectionData \<Rightarrow> (string \<times> string) list" where
  "slot_fields d =
     [(''optional'', sc_Slot d), (''optional'', sc_Pin d)] @
     concat (map (\<lambda>c. [(''required'', KeyName c), (''required'', KeyVersion c),
                       (''required'', KeyPublicAddress c)]) (sc_AKV d)) @
     [(''in(SoftHSM|AKV|LocalKeyVault)'', sc_ModuleKind d)]"

definition invalid_input :: go_error where
  "invalid_input =
     SetHumanReadableMessage ''couldn't validate input data''
       (InvalidArgumentFromErr (PlainError ''govalidator''))"

definition quoted :: "string \<Rightarrow> string" where
  "quoted s = CHR 0x27 # s @ [CHR 0x27]"

definition slot_unreachable :: "string \<Rightarrow> go_error \<Rightarrow> go_error" where
  "slot_unreachable s err =
     SetHumanReadableMessage (''the slot '' @ quoted s @ '' is not reachable in the HSM module'')
       (BadGatewayFromErr err)"

definition GenerateAddress :: "'w connector \<Rightarrow> SlotConnectionData \<Rightarrow> ('w, address) prog" where
  "GenerateAddress cn input =
     bindP (checkP (cn_validate cn (slot_fields input)) invalid_input) (\<lambda>_.
     bindP (factory_Create (cn_factory cn) (sc_ModuleKind input)) (\<lambda>m.
     onErrP (dsm_GenerateKey m (sc_Slot input) (sc_Pin input)) (\<lambda>err.
       if sm_IsInvalidSlotError err then slot_unreachable (sc_Slot input) err
       else InternalFromErr err)))"

definition DeriveAddressFromPrivateKey :: "'w connector \<Rightarrow> bytes \<Rightarrow> string \<Rightarrow> ('w, address) prog" where
  "DeriveAddressFromPrivateKey cn privateKey kind =
     bindP (checkP (cn_validate cn [(''in(SoftHSM|AKV|LocalKeyVault)'', kind)]) invalid_input) (\<lambda>_.
     bindP (onErrP (factory_Create (cn_factory cn) kind) InternalFromErr) (\<lambda>m.
     onErrP (dsm_DeriveAddress m privateKey) (\<lambda>err.
       if sm_IsInvalidArgumentError err then InvalidArgumentFromErr err
       else InternalFromErr err)))"

definition RemoveAddress :: "'w connector \<Rightarrow> SlotConnectionData \<Rightarrow> address \<Rightarrow> ('w, address) prog" where
  "RemoveAddress cn input addr =
     bindP (checkP (cn_validate cn (slot_fields input @
       [(''address'', String_of_address (c_keccak (cn_crypto cn)) addr)])) invalid_input) (\<lambda>_.
     bindP (onErrP (factory_Create (cn_factory cn) (sc_ModuleKind input)) InternalFromErr) (\<lambda>m.
     bindP (onErrP (dsm_RemoveKey m (sc_Slot input) (sc_Pin input) addr) (\<lambda>err.
       if sm_IsInvalidSlotError err then slot_unreachable (sc_Slot input) err
       else if sm_IsNotFoundError err then
         SetHumanReadableMessage
           (''key for address ['' @ String_of_address (c_keccak (cn_crypto cn)) addr @ ''] not found'')
           (NotFoundFromErr err)
       else InternalFromErr err)) (\<lambda>_.
     returnP addr)))"

definition ListAddresses :: "'w connector \<Rightarrow> SlotConnectionData \<Rightarrow> ('w, address list) prog" where
  "ListAddresses cn input =
     bindP (checkP (cn_validate cn (slot_fields input)) invalid_input) (\<lambda>_.
     bindP (onErrP (factory_Create (cn_factory cn) (sc_ModuleKind input)) InternalFromErr) (\<lambda>m.
     onErrP (dsm_ListKeys m (sc_Slot input) (sc_Pin input)) InternalFromErr))"

definition CloseAll :: "'w connector \<Rightarrow> ('w, unit) prog" where
  "CloseAll cn = onErrP (factory_Close (cn_factory cn)) InternalFromErr"

definition IsAlive :: "'w connector \<Rightarrow> string \<Rightarrow> string \<Rightarrow> string \<Rightarrow> ('w, bool) prog" where
  "IsAlive cn slot pin kind =
     bindP (checkP (cn_validate cn [(''required'', slot), (''required'', pin), (''in(SoftHSM)'', kind)])
       invalid_input) (\<lambda>_.
     bindP (onErrP (factory_Create (cn_factory cn) kind) InternalFromErr) (\<lambda>m.
     onErrP (dsm_IsAlive m slot pin) (\<lambda>err.
       if sm_IsInvalidSlotError err then slot_unreachable slot err
       else if sm_IsPinIncorrectError err then
         SetHumanReadableMessage (''the pin provided for the slot '' @ quoted slot @ '' is not correct'')
           (PreconditionFailedFromErr err)
       else InternalFromErr err)))"

definition Reset :: "'w connector \<Rightarrow> string \<Rightarrow> ('w, unit) prog" where
  "Reset cn kind =
     bindP (checkP (cn_validate cn []) invalid_input) (\<lambda>_.
     onErrP (factory_Reset (cn_factory cn) kind) InternalFromErr)"

end
