(* ===== verification/Sign_Tx.thy ===== *)
theory Sign_Tx
  imports Hsm_Connector
begin

text \<open>
  Signing a transaction: \<open>SignTx\<close>, \<open>signLegacyTx\<close>, \<open>signEIP1559Tx\<close>, \<open>signAndRecover\<close> and
  \<open>identifyTxType\<close> of \<open>src/app/pkg/usecases/hsmconnector/hsm_connector.go\<close>, and the facts about the
  signatures the connector lets through.
\<close>

record SignTxInput =
  in_Slot :: SlotConnectionData
  in_From :: address
  in_To :: "address option"
  in_Gas :: "64 word option"
  in_GasPrice :: "int option"
  in_Value :: "int option"
  in_Data :: bytes
  in_Nonce :: "64 word"
  in_ChainID :: int
  in_MaxFeePerGas :: "int option"
  in_MaxPriorityFeePerGas :: "int option"
  in_AccessList :: "AccessListEntry list option"
  in_MaxFeePerBlobGas :: "int option"
  in_BlobVersionedHashes :: "bytes list option"
  in_AuthorizationList :: "AccessListEntry list option"

datatype TxType = TransactionType0Legacy | TransactionType1EIP2930 | TransactionType2EIP1559
  | TransactionType3EIP4844

text \<open>The output carries the transaction of one of the two types.\<close>

datatype SignedTransaction = SignedLegacy EthereumTransaction | SignedEIP1559 EIP1559Transaction

record SignTxOutput =
  out_SignedTx :: string
  out_Transaction :: SignedTransaction

definition identifyTxType :: "SignTxInput \<Rightarrow> go_error + TxType" where
  "identifyTxType input =
     (if in_GasPrice input \<noteq> None then
        (if in_MaxFeePerGas input \<noteq> None \<or> in_MaxPriorityFeePerGas input \<noteq> None \<or>
            in_MaxFeePerBlobGas input \<noteq> None \<or> in_BlobVersionedHashes input \<noteq> None \<or>
            in_AuthorizationList input \<noteq> None
         then Inl InvalidArgument
         else if in_AccessList input \<noteq> None then Inr TransactionType1EIP2930
         else Inr TransactionType0Legacy)
      else if in_MaxFeePerGas input \<noteq> None \<or> in_MaxPriorityFeePerGas input \<noteq> None then
        (if in_MaxFeePerGas input \<noteq> None \<and> in_MaxPriorityFeePerGas input \<noteq> None \<and>
            in_AccessList input \<noteq> None
         then (if in_MaxFeePerBlobGas input \<noteq> None \<or> in_BlobVersionedHashes input \<noteq> None \<or>
                  in_AuthorizationList input \<noteq> None
               then Inr TransactionType3EIP4844
               else Inr TransactionType2EIP1559)
         else Inl InvalidArgument)
      else Inr TransactionType0Legacy)"

definition copy_key_store :: "KeyStore option \<Rightarrow> KeyStore option" where
  "copy_key_store lkv =
     (case lkv of
        None \<Rightarrow> None
      | Some ks \<Rightarrow> Some (Some (case ks of None \<Rightarrow> Map.empty | Some m \<Rightarrow> m)))"

definition sign_input :: "SlotConnectionData \<Rightarrow> address \<Rightarrow> bytes \<Rightarrow> SignInput" where
  "sign_input slot from data =
     \<lparr>si_Slot = sc_Slot slot, si_Pin = sc_Pin slot, si_From = from, si_Data = data,
      si_AKV = map (\<lambda>c. \<lparr>KeyName = KeyName c, KeyVersion = KeyVersion c,
                          KeyPublicAddress = KeyPublicAddress c\<rparr>) (sc_AKV slot),
      si_LocalKeyVault = copy_key_store (sc_LocalKeyVault slot)\<rparr>"

definition signAndRecover ::
    "'w connector \<Rightarrow> SlotConnectionData \<Rightarrow> address \<Rightarrow> bytes \<Rightarrow> ('w, bytes) prog" where
  "signAndRecover cn slot from payload =
     bindP (onErrP (factory_Create (cn_factory cn) (sc_ModuleKind slot)) InternalFromErr) (\<lambda>m.
     bindP (onErrP (dsm_Sign m (sign_input slot from payload)) (\<lambda>err.
       if sm_IsInvalidSlotError err then slot_unreachable (sc_Slot slot) err
       else InternalFromErr err)) (\<lambda>rawSig.
     liftP (assembleRecoverableSignature (cn_crypto cn) rawSig from payload)))"

definition legacy_transaction :: "SignTxInput \<Rightarrow> EthereumTransaction" where
  "legacy_transaction input =
     \<lparr>tx_From = in_From input, tx_To = in_To input,
      tx_Gas = (case in_Gas input of None \<Rightarrow> 90000 | Some g \<Rightarrow> g),
      tx_GasPrice = (case in_GasPrice input of None \<Rightarrow> 0 | Some p \<Rightarrow> p),
      tx_Value = in_Value input, tx_Data = in_Data input, tx_Nonce = in_Nonce input,
      tx_ChainID = in_ChainID input, tx_Signature = None\<rparr>"

definition signLegacyTx :: "'w connector \<Rightarrow> SignTxInput \<Rightarrow> ('w, SignTxOutput) prog" where
  "signLegacyTx cn input =
     (let keccak = c_keccak (cn_crypto cn); transaction = legacy_transaction input in
      bindP (liftP (EthereumTransaction_Hash keccak transaction)) (\<lambda>payload.
      bindP (signAndRecover cn (in_Slot input) (in_From input) payload) (\<lambda>signatureWithV.
      let transaction = transaction
            \<lparr>tx_Signature := Some (generateEthereumSignature signatureWithV (in_ChainID input))\<rparr> in
      bindP (onErrP (liftP (EthereumTransaction_RLPEncode keccak transaction)) InternalFromErr) (\<lambda>enc.
      returnP \<lparr>out_SignedTx = HexBytes_Encode enc, out_Transaction = SignedLegacy transaction\<rparr>))))"

text \<open>
  A nil pointer dereference, which \<open>identifyTxType\<close> rules out, is the error \<open>nil_dereference\<close>.
\<close>

definition nil_dereference :: go_error where
  "nil_dereference = PlainError ''invalid memory address or nil pointer dereference''"

definition eip1559_transaction :: "SignTxInput \<Rightarrow> int \<Rightarrow> int \<Rightarrow> EIP1559Transaction" where
  "eip1559_transaction input maxFee maxPriorityFee =
     \<lparr>tx2_From = in_From input, tx2_To = in_To input,
      tx2_Gas = (case in_Gas input of None \<Rightarrow> 90000 | Some g \<Rightarrow> g),
      tx2_MaxFeePerGas = maxFee, tx2_MaxPriorityFeePerGas = maxPriorityFee,
      tx2_Value = in_Value input, tx2_Data = in_Data input, tx2_Nonce = in_Nonce input,
      tx2_ChainID = in_ChainID input, tx2_AccessList = in_AccessList input,
      tx2_Signature = None\<rparr>"

definition signEIP1559Tx :: "'w connector \<Rightarrow> SignTxInput \<Rightarrow> ('w, SignTxOutput) prog" where
  "signEIP1559Tx cn input =
     (case (in_MaxFeePerGas input, in_MaxPriorityFeePerGas input) of
        (Some maxFee, Some maxPriorityFee) \<Rightarrow>
          (let keccak = c_keccak (cn_crypto cn);
               transaction = eip1559_transaction input maxFee maxPriorityFee in
           bindP (liftP (EIP1559Transaction_Hash keccak transaction)) (\<lambda>payload.
           bindP (signAndRecover cn (in_Slot input) (in_From input) payload) (\<lambda>signatureWithV.
           let transaction = transaction
                 \<lparr>tx2_Signature := Some (generateEIP1559TransactionSignature signatureWithV)\<rparr> in
           bindP (onErrP (liftP (EIP1559Transaction_RLPEncode keccak transaction)) InternalFromErr) (\<lambda>enc.
           returnP \<lparr>out_SignedTx = HexBytes_Encode enc, out_Transaction = SignedEIP1559 transaction\<rparr>))))
      | _ \<Rightarrow> throwP nil_dereference)"

definition SignTx :: "'w connector \<Rightarrow> SignTxInput \<Rightarrow> ('w, SignTxOutput) prog" where
  "SignTx cn input =
     bindP (checkP (cn_validate cn (slot_fields (in_Slot input) @
        [(''address'', String_of_address (c_keccak (cn_crypto cn)) (in_From input))])) invalid_input) (\<lambda>_.
     bindP (checkP (\<not> IsEmpty (in_From input))
        (SetHumanReadableMessage (''field '' @ quoted ''from'' @ '' cannot be empty'') InvalidArgument)) (\<lambda>_.
     bindP (checkP (1 \<le> in_ChainID input)
        (SetHumanReadableMessage
           (''field '' @ quoted ''chainId'' @ '' must be a positive EIP-155 value (>= 1)'') InvalidArgument)) (\<lambda>_.
     bindP (onErrP (liftP (identifyTxType input)) (\<lambda>err.
        SetHumanReadableMessage ''Could not determine transaction type'' (InvalidArgumentFromErr err))) (\<lambda>txType.
     case txType of
       TransactionType0Legacy \<Rightarrow> signLegacyTx cn input
     | TransactionType2EIP1559 \<Rightarrow> signEIP1559Tx cn input
     | _ \<Rightarrow> throwP (SetHumanReadableMessage ''Not supported transaction type'' InvalidArgument)))))"

section \<open>What a signature that is let through satisfies\<close>

text \<open>
  \<open>r\<close>, \<open>s\<close> and the recovery bit \<open>v\<close> form a low-S signature in the range of the curve from which
  the library recovers the address \<open>from\<close> over \<open>data\<close>.
\<close>

definition recovers_to :: "crypto \<Rightarrow> address \<Rightarrow> bytes \<Rightarrow> nat \<Rightarrow> nat \<Rightarrow> nat \<Rightarrow> bool" where
  "recovers_to cr from data v r s \<longleftrightarrow>
     v \<le> 1 \<and> 1 \<le> r \<and> r < c_order cr \<and> 1 \<le> s \<and> s \<le> c_order cr div 2 \<and>
     (\<exists>recovered pubKey addr.
        c_recover cr (word_of_nat (27 + v) # be_fixed 32 r @ be_fixed 32 s) data = Some recovered \<and>
        c_parse cr recovered = Some pubKey \<and>
        DeriveAddressFromPublicKey (c_keccak cr) pubKey = Inr addr \<and>
        String_of_address (c_keccak cr) addr = String_of_address (c_keccak cr) from)"

lemma validateBackendSignature_ok:
  "validateBackendSignature N sig = None \<longleftrightarrow>
     length sig = 64 \<and> 1 \<le> be_nat (take 32 sig) \<and> be_nat (take 32 sig) < N \<and>
     1 \<le> be_nat (drop 32 sig) \<and> be_nat (drop 32 sig) < N"
  by (auto simp: validateBackendSignature_def Let_def)

lemma be_nat_take_less: "length bs = 64 \<Longrightarrow> be_nat (take 32 bs) < 256 ^ 32"
  using be_nat_less [of "take 32 bs"] by simp

lemma be_nat_drop_less: "length bs = 64 \<Longrightarrow> be_nat (drop 32 bs) < 256 ^ 32"
  using be_nat_less [of "drop 32 bs"] by simp

text \<open>The low value is never wider than the high one it replaces, so it fits its half.\<close>

lemma signatureToLowS_eq:
  assumes "validateBackendSignature N sig = None"
  shows "\<exists>s. signatureToLowS N sig = be_fixed 32 (be_nat (take 32 sig)) @ be_fixed 32 s \<and>
    1 \<le> s \<and> s \<le> N div 2 \<and> s < 256 ^ 32 \<and> (s = be_nat (drop 32 sig) \<or> s = N - be_nat (drop 32 sig))"
proof -
  let ?r = "be_nat (take 32 sig)" and ?t = "be_nat (drop 32 sig)"
  let ?s = "if N div 2 < ?t then N - ?t else ?t"
  have sig: "length sig = 64" "1 \<le> ?t" "?t < N"
    using assms by (auto simp: validateBackendSignature_ok)
  have r: "?r < 256 ^ 32" and s0: "?t < 256 ^ 32"
    using be_nat_take_less [OF sig(1)] be_nat_drop_less [OF sig(1)] by simp_all
  have s: "1 \<le> ?s" "?s \<le> N div 2" "?s \<le> ?t" using sig by auto
  then have "?s < 256 ^ 32" using s0 by linarith
  moreover from this have "signatureToLowS N sig = be_fixed 32 ?r @ be_fixed 32 ?s"
    using r sig(1) by (simp add: signatureToLowS_def halfOrder_def Let_def be_fixed_pad)
  ultimately show ?thesis using s by (intro exI [of _ ?s]) simp
qed

lemma recoverV_ok:
  "recoverV cr (b # rs) from data = Inr sig \<Longrightarrow>
     \<exists>v. v \<le> 1 \<and> sig = word_of_nat (27 + v) # rs \<and>
       (\<exists>recovered pubKey addr. c_recover cr sig data = Some recovered \<and>
          c_parse cr recovered = Some pubKey \<and> DeriveAddressFromPublicKey (c_keccak cr) pubKey = Inr addr \<and>
          String_of_address (c_keccak cr) addr = String_of_address (c_keccak cr) from)"
proof -
  assume ok: "recoverV cr (b # rs) from data = Inr sig"
  have l: "[27..<28 + 1] = [27, 28 :: nat]" by (simp add: upt_rec)
  have c: "(word_of_nat 27 :: byte) = word_of_nat (27 + 0)" "(word_of_nat 28 :: byte) = word_of_nat (27 + 1)"
    by simp_all
  show ?thesis
    using ok unfolding recoverV_def l recoverV_loop.simps Let_def
    by (auto split: option.splits sum.splits if_splits intro: exI [of _ 0] exI [of _ 1])
qed

lemma assemble_ok:
  assumes "assembleRecoverableSignature cr rawSig from data = Inr sig"
  shows "\<exists>v r s. sig = word_of_nat (27 + v) # be_fixed 32 r @ be_fixed 32 s \<and> recovers_to cr from data v r s \<and>
    r < 256 ^ 32 \<and> s < 256 ^ 32 \<and> r = be_nat (take 32 rawSig) \<and>
    (s = be_nat (drop 32 rawSig) \<or> s = c_order cr - be_nat (drop 32 rawSig))"
proof -
  have valid: "validateBackendSignature (c_order cr) rawSig = None"
    and rec: "recoverV cr (0 # signatureToLowS (c_order cr) rawSig) from data = Inr sig"
    using assms by (auto simp: assembleRecoverableSignature_def split: option.splits)
  obtain s where s: "signatureToLowS (c_order cr) rawSig = be_fixed 32 (be_nat (take 32 rawSig)) @ be_fixed 32 s"
      "1 \<le> s" "s \<le> c_order cr div 2" "s < 256 ^ 32"
      "s = be_nat (drop 32 rawSig) \<or> s = c_order cr - be_nat (drop 32 rawSig)"
    using signatureToLowS_eq [OF valid] by blast
  have r: "be_nat (take 32 rawSig) < 256 ^ 32" "1 \<le> be_nat (take 32 rawSig)" "be_nat (take 32 rawSig) < c_order cr"
    using valid be_nat_take_less [of rawSig] by (auto simp: validateBackendSignature_ok)
  obtain v where "v \<le> 1" "sig = word_of_nat (27 + v) # be_fixed 32 (be_nat (take 32 rawSig)) @ be_fixed 32 s"
      "\<exists>recovered pubKey addr. c_recover cr sig data = Some recovered \<and>
          c_parse cr recovered = Some pubKey \<and> DeriveAddressFromPublicKey (c_keccak cr) pubKey = Inr addr \<and>
          String_of_address (c_keccak cr) addr = String_of_address (c_keccak cr) from"
    using recoverV_ok [OF rec] s(1) by auto
  then show ?thesis using s r
    by (intro exI [of _ v] exI [of _ "be_nat (take 32 rawSig)"] exI [of _ s])
      (simp add: recovers_to_def del: of_nat_add)
qed

lemma signature_parts:
  assumes "v \<le> 1" "r < 256 ^ 32" "s < 256 ^ 32"
  shows "generateEthereumSignature (word_of_nat (27 + v) # be_fixed 32 r @ be_fixed 32 s) chain =
      \<lparr>sig_V = int v + 35 + 2 * chain, sig_R = int r, sig_S = int s\<rparr>"
    and "generateEIP1559TransactionSignature (word_of_nat (27 + v) # be_fixed 32 r @ be_fixed 32 s) =
      \<lparr>sig_YParity = int v, sig1559_R = int r, sig1559_S = int s\<rparr>"
proof -
  have "unat (word_of_nat (27 + v) :: byte) = 27 + v" using assms(1) by (intro unat_of_nat_byte) simp
  then have v: "uint (word_of_nat (27 + v) :: byte) = int (27 + v)"
    by (simp only: uint_nat)
  show "generateEthereumSignature (word_of_nat (27 + v) # be_fixed 32 r @ be_fixed 32 s) chain =
      \<lparr>sig_V = int v + 35 + 2 * chain, sig_R = int r, sig_S = int s\<rparr>"
    using assms(2,3) by (simp add: generateEthereumSignature_def v del: of_nat_add)
  show "generateEIP1559TransactionSignature (word_of_nat (27 + v) # be_fixed 32 r @ be_fixed 32 s) =
      \<lparr>sig_YParity = int v, sig1559_R = int r, sig1559_S = int s\<rparr>"
    using assms(2,3) by (simp add: generateEIP1559TransactionSignature_def v del: of_nat_add)
qed

lemma signAndRecover_ok:
  "signAndRecover cn slot from payload w = (Inr sig, w') \<Longrightarrow>
     \<exists>rawSig. assembleRecoverableSignature (cn_crypto cn) rawSig from payload = Inr sig"
  by (auto simp: signAndRecover_def prog_ok)


lemma keccak_hash_inv:
  "EthereumTransaction_Hash keccak tx = Inr h \<Longrightarrow>
     \<exists>p. EthereumTransaction_payload keccak tx = Inr p \<and> h = keccak p"
  by (auto simp: EthereumTransaction_Hash_def split: sum.splits)

lemma keccak_hash2_inv:
  "EIP1559Transaction_Hash keccak tx = Inr h \<Longrightarrow>
     \<exists>p. EIP1559Transaction_payload keccak tx = Inr p \<and> h = keccak p"
  by (auto simp: EIP1559Transaction_Hash_def split: sum.splits)

lemma SignTx_inv:
  assumes "SignTx cn input w = (Inr out, w')"
  shows "in_From input \<noteq> ZeroAddress \<and> 1 \<le> in_ChainID input \<and>
    (identifyTxType input = Inr TransactionType0Legacy \<and> signLegacyTx cn input w = (Inr out, w') \<or>
     identifyTxType input = Inr TransactionType2EIP1559 \<and> signEIP1559Tx cn input w = (Inr out, w'))"
proof -
  obtain t where t: "in_From input \<noteq> ZeroAddress" "1 \<le> in_ChainID input" "identifyTxType input = Inr t"
      "(case t of TransactionType0Legacy \<Rightarrow> signLegacyTx cn input
        | TransactionType2EIP1559 \<Rightarrow> signEIP1559Tx cn input
        | _ \<Rightarrow> throwP (SetHumanReadableMessage ''Not supported transaction type'' InvalidArgument)) w
       = (Inr out, w')"
    using assms by (auto simp: SignTx_def prog_ok IsEmpty_def)
  then show ?thesis by (cases t) (simp_all add: prog_ok)
qed

lemma signLegacyTx_inv:
  assumes "signLegacyTx cn input w = (Inr out, w')"
  shows "\<exists>p v r s enc. EthereumTransaction_payload (c_keccak (cn_crypto cn)) (legacy_transaction input) = Inr p \<and>
    recovers_to (cn_crypto cn) (in_From input) (c_keccak (cn_crypto cn) p) v r s \<and>
    out_Transaction out = SignedLegacy ((legacy_transaction input)
      \<lparr>tx_Signature := Some \<lparr>sig_V = int v + 35 + 2 * in_ChainID input, sig_R = int r, sig_S = int s\<rparr>\<rparr>) \<and>
    EthereumTransaction_RLPEncode (c_keccak (cn_crypto cn)) ((legacy_transaction input)
      \<lparr>tx_Signature := Some \<lparr>sig_V = int v + 35 + 2 * in_ChainID input, sig_R = int r, sig_S = int s\<rparr>\<rparr>) = Inr enc \<and>
    out_SignedTx out = HexBytes_Encode enc"
proof -
  let ?cr = "cn_crypto cn"
  obtain h sig enc where h: "EthereumTransaction_Hash (c_keccak ?cr) (legacy_transaction input) = Inr h"
    and sig: "\<exists>w1. signAndRecover cn (in_Slot input) (in_From input) h w = (Inr sig, w1)"
    and enc: "EthereumTransaction_RLPEncode (c_keccak ?cr) ((legacy_transaction input)
        \<lparr>tx_Signature := Some (generateEthereumSignature sig (in_ChainID input))\<rparr>) = Inr enc"
    and out: "out = \<lparr>out_SignedTx = HexBytes_Encode enc, out_Transaction = SignedLegacy ((legacy_transaction input)
        \<lparr>tx_Signature := Some (generateEthereumSignature sig (in_ChainID input))\<rparr>)\<rparr>"
    using assms by (auto simp: signLegacyTx_def prog_ok Let_def)
  obtain rawSig where "assembleRecoverableSignature ?cr rawSig (in_From input) h = Inr sig"
    using sig by (auto dest!: signAndRecover_ok)
  from assemble_ok [OF this] obtain v r s where
    vrs: "sig = word_of_nat (27 + v) # be_fixed 32 r @ be_fixed 32 s" "recovers_to ?cr (in_From input) h v r s"
      "r < 256 ^ 32" "s < 256 ^ 32"
    by blast
  have "v \<le> 1" using vrs(2) by (simp add: recovers_to_def)
  then have g: "generateEthereumSignature sig (in_ChainID input) =
      \<lparr>sig_V = int v + 35 + 2 * in_ChainID input, sig_R = int r, sig_S = int s\<rparr>"
    using vrs by (simp only: signature_parts(1))
  obtain p where "EthereumTransaction_payload (c_keccak ?cr) (legacy_transaction input) = Inr p"
      "h = c_keccak ?cr p"
    using keccak_hash_inv [OF h] by blast
  then show ?thesis using vrs(2) enc out by (auto simp: g)
qed

lemma signEIP1559Tx_inv:
  assumes "signEIP1559Tx cn input w = (Inr out, w')"
  shows "\<exists>maxFee maxPriorityFee p v r s enc. in_MaxFeePerGas input = Some maxFee \<and>
    in_MaxPriorityFeePerGas input = Some maxPriorityFee \<and>
    EIP1559Transaction_payload (c_keccak (cn_crypto cn)) (eip1559_transaction input maxFee maxPriorityFee) = Inr p \<and>
    recovers_to (cn_crypto cn) (in_From input) (c_keccak (cn_crypto cn) p) v r s \<and>
    out_Transaction out = SignedEIP1559 ((eip1559_transaction input maxFee maxPriorityFee)
      \<lparr>tx2_Signature := Some \<lparr>sig_YParity = int v, sig1559_R = int r, sig1559_S = int s\<rparr>\<rparr>) \<and>
    EIP1559Transaction_RLPEncode (c_keccak (cn_crypto cn)) ((eip1559_transaction input maxFee maxPriorityFee)
      \<lparr>tx2_Signature := Some \<lparr>sig_YParity = int v, sig1559_R = int r, sig1559_S = int s\<rparr>\<rparr>) = Inr enc \<and>
    out_SignedTx out = HexBytes_Encode enc"
proof -
  let ?cr = "cn_crypto cn"
  obtain mf mp h sig enc where m: "in_MaxFeePerGas input = Some mf" "in_MaxPriorityFeePerGas input = Some mp"
    and h: "EIP1559Transaction_Hash (c_keccak ?cr) (eip1559_transaction input mf mp) = Inr h"
    and sig: "\<exists>w1. signAndRecover cn (in_Slot input) (in_From input) h w = (Inr sig, w1)"
    and enc: "EIP1559Transaction_RLPEncode (c_keccak ?cr) ((eip1559_transaction input mf mp)
        \<lparr>tx2_Signature := Some (generateEIP1559TransactionSignature sig)\<rparr>) = Inr enc"
    and out: "out = \<lparr>out_SignedTx = HexBytes_Encode enc, out_Transaction = SignedEIP1559 ((eip1559_transaction input mf mp)
        \<lparr>tx2_Signature := Some (generateEIP1559TransactionSignature sig)\<rparr>)\<rparr>"
    using assms by (auto simp: signEIP1559Tx_def prog_ok Let_def split: option.splits)
  obtain rawSig where "assembleRecoverableSignature ?cr rawSig (in_From input) h = Inr sig"
    using sig by (auto dest!: signAndRecover_ok)
  from assemble_ok [OF this] obtain v r s where
    vrs: "sig = word_of_nat (27 + v) # be_fixed 32 r @ be_fixed 32 s" "recovers_to ?cr (in_From input) h v r s"
      "r < 256 ^ 32" "s < 256 ^ 32"
    by blast
  have "v \<le> 1" using vrs(2) by (simp add: recovers_to_def)
  then have g: "generateEIP1559TransactionSignature sig =
      \<lparr>sig_YParity = int v, sig1559_R = int r, sig1559_S = int s\<rparr>"
    using vrs by (simp only: signature_parts(2))
  obtain p where "EIP1559Transaction_payload (c_keccak ?cr) (eip1559_transaction input mf mp) = Inr p"
      "h = c_keccak ?cr p"
    using keccak_hash2_inv [OF h] by blast
  then show ?thesis using m vrs(2) enc out by (auto simp: g)
qed

section \<open>A connector on which the theorems are evaluated\<close>

definition sample_crypto :: crypto where
  "sample_crypto = \<lparr>c_keccak = (\<lambda>_. replicate 32 1), c_order = 100,
     c_recover = (\<lambda>_ _. Some (0x04 # replicate 64 0)), c_parse = Some\<rparr>"

definition sample_dsm :: "unit dsm" where
  "sample_dsm =
     \<lparr>dsm_GenerateKey = (\<lambda>_ _. throwP sm_NewNotImplementedError),
      dsm_DeriveAddress = (\<lambda>_. throwP sm_NewNotImplementedError),
      dsm_RemoveKey = (\<lambda>_ _ _. throwP sm_NewNotImplementedError),
      dsm_ListKeys = (\<lambda>_ _. throwP sm_NewNotImplementedError),
      dsm_Sign = (\<lambda>_. returnP (be_fixed 32 5 @ be_fixed 32 90)),
      dsm_Close = returnP (), dsm_Open = returnP (),
      dsm_IsAlive = (\<lambda>_ _. returnP True)\<rparr>"

definition sample_connector :: "unit connector" where
  "sample_connector =
     \<lparr>cn_crypto = sample_crypto, cn_factory = [(''AKV'', sample_dsm)], cn_validate = (\<lambda>_. True)\<rparr>"

definition sample_input :: "int option \<Rightarrow> AccessListEntry list option \<Rightarrow> SignTxInput" where
  "sample_input fee al =
     \<lparr>in_Slot = \<lparr>sc_Slot = [], sc_Pin = [], sc_AKV = [], sc_LocalKeyVault = None, sc_ModuleKind = ''AKV''\<rparr>,
      in_From = replicate 20 1, in_To = None, in_Gas = Some 200, in_GasPrice = None, in_Value = None,
      in_Data = [1], in_Nonce = 0, in_ChainID = 5, in_MaxFeePerGas = fee, in_MaxPriorityFeePerGas = fee,
      in_AccessList = al, in_MaxFeePerBlobGas = None, in_BlobVersionedHashes = None,
      in_AuthorizationList = None\<rparr>"

lemma sample_assemble:
  "assembleRecoverableSignature sample_crypto (be_fixed 32 5 @ be_fixed 32 90) (replicate 20 1) h =
     Inr (27 # be_fixed 32 5 @ be_fixed 32 10)"
proof -
  have v: "validateBackendSignature 100 (be_fixed 32 5 @ be_fixed 32 90) = None"
    by (simp add: validateBackendSignature_ok)
  have b: "be_fixed 32 n = replicate (32 - length (be_bytes n)) 0 @ be_bytes n" if "n < 256" for n
    using that less_trans [of n 256 "256 ^ 32"] by (intro be_fixed_pad) simp
  have l: "signatureToLowS 100 (be_fixed 32 5 @ be_fixed 32 90) = be_fixed 32 5 @ be_fixed 32 10"
    by (simp add: signatureToLowS_def halfOrder_def Let_def) (simp add: b)
  have d: "DeriveAddressFromPublicKey (\<lambda>_. replicate 32 1) (0x04 # replicate 64 0) = Inr (replicate 20 1)"
    by (simp add: DeriveAddressFromPublicKey_def NewFromRawBytes_def addressLength_def)
  show ?thesis
    by (simp add: assembleRecoverableSignature_def v l recoverV_def upt_rec sample_crypto_def d)
qed

lemma sample_signAndRecover:
  "signAndRecover sample_connector (in_Slot (sample_input fee al)) (replicate 20 1) h () =
     (Inr (27 # be_fixed 32 5 @ be_fixed 32 10), ())"
  by (simp add: signAndRecover_def sample_connector_def factory_Create_def sample_input_def
      sample_dsm_def prog_defs sample_assemble)

lemma sample_connector_valid [simp]: "cn_validate sample_connector fs"
  by (simp add: sample_connector_def)

lemma sample_SignTx_legacy: "\<exists>out. SignTx sample_connector (sample_input None None) () = (Inr out, ())"
proof -
  let ?tx = "legacy_transaction (sample_input None None)"
  have wf: "wf_legacy ?tx"
    by (simp add: wf_legacy_def legacy_transaction_def sample_input_def value_of_def)
  have h: "EthereumTransaction_Hash k ?tx = Inr (k (rlp_spec (DList (legacy_items ?tx @
      [num_item (nat (tx_ChainID ?tx)), num_item 0, num_item 0]))))" for k
    by (simp only: EthereumTransaction_Hash_def legacy_payload_eq [OF wf] sum.case)
  have g: "generateEthereumSignature (27 # be_fixed 32 5 @ be_fixed 32 10) 5 =
      \<lparr>sig_V = 45, sig_R = 5, sig_S = 10\<rparr>"
    by (simp add: generateEthereumSignature_def)
  have wf': "wf_legacy (?tx\<lparr>tx_Signature := Some \<lparr>sig_V = 45, sig_R = 5, sig_S = 10\<rparr>\<rparr>)"
    using wf by (simp add: wf_legacy_def)
  have enc: "\<exists>b. EthereumTransaction_RLPEncode k (?tx\<lparr>tx_Signature := Some \<lparr>sig_V = 45, sig_R = 5, sig_S = 10\<rparr>\<rparr>) = Inr b" for k
    using legacy_signed_eq [OF wf', of "\<lparr>sig_V = 45, sig_R = 5, sig_S = 10\<rparr>" k] by simp
  have sample: "in_From (sample_input None None) = replicate 20 1" "in_ChainID (sample_input None None) = 5"
      "identifyTxType (sample_input None None) = Inr TransactionType0Legacy"
      "replicate 20 (1 :: byte) \<noteq> ZeroAddress"
    by (simp_all add: sample_input_def identifyTxType_def ZeroAddress_def addressLength_def)
  obtain b where b: "EthereumTransaction_RLPEncode (c_keccak (cn_crypto sample_connector))
      (?tx\<lparr>tx_Signature := Some \<lparr>sig_V = 45, sig_R = 5, sig_S = 10\<rparr>\<rparr>) = Inr b"
    using enc by blast
  have "\<exists>out. signLegacyTx sample_connector (sample_input None None) () = (Inr out, ())"
    by (simp add: signLegacyTx_def Let_def h sample sample_signAndRecover g b prog_defs del: rlp_spec.simps)
  then show ?thesis
    by (simp add: SignTx_def sample IsEmpty_def prog_defs sample_connector_valid)
qed


lemma sample_SignTx_eip1559:
  "\<exists>out. SignTx sample_connector (sample_input (Some 3) (Some [])) () = (Inr out, ())"
proof -
  let ?i = "sample_input (Some 3) (Some [])"
  let ?tx = "eip1559_transaction ?i 3 3"
  have wf: "wf_eip1559 ?tx"
    by (simp add: wf_eip1559_def eip1559_transaction_def sample_input_def value_of_def)
  have h: "EIP1559Transaction_Hash k ?tx = Inr (k (0x02 # rlp_spec (DList (eip1559_items ?tx))))" for k
    by (simp only: EIP1559Transaction_Hash_def eip1559_payload_eq [OF wf] sum.case)
  have g: "generateEIP1559TransactionSignature (27 # be_fixed 32 5 @ be_fixed 32 10) =
      \<lparr>sig_YParity = 0, sig1559_R = 5, sig1559_S = 10\<rparr>"
    by (simp add: generateEIP1559TransactionSignature_def)
  have wf': "wf_eip1559 (?tx\<lparr>tx2_Signature := Some \<lparr>sig_YParity = 0, sig1559_R = 5, sig1559_S = 10\<rparr>\<rparr>)"
    using wf by (simp add: wf_eip1559_def)
  obtain b where b: "EIP1559Transaction_RLPEncode (c_keccak (cn_crypto sample_connector))
      (?tx\<lparr>tx2_Signature := Some \<lparr>sig_YParity = 0, sig1559_R = 5, sig1559_S = 10\<rparr>\<rparr>) = Inr b"
    using eip1559_signed_eq [OF wf', of "\<lparr>sig_YParity = 0, sig1559_R = 5, sig1559_S = 10\<rparr>"] by simp
  have sample: "in_From ?i = replicate 20 1" "in_ChainID ?i = 5"
      "in_MaxFeePerGas ?i = Some 3" "in_MaxPriorityFeePerGas ?i = Some 3"
      "identifyTxType ?i = Inr TransactionType2EIP1559" "replicate 20 (1 :: byte) \<noteq> ZeroAddress"
    by (simp_all add: sample_input_def identifyTxType_def ZeroAddress_def addressLength_def)
  have "\<exists>out. signEIP1559Tx sample_connector ?i () = (Inr out, ())"
    by (simp add: signEIP1559Tx_def Let_def h sample sample_signAndRecover g b prog_defs del: rlp_spec.simps)
  then show ?thesis
    by (simp add: SignTx_def sample IsEmpty_def prog_defs)
qed

section \<open>Properties\<close>

text \<open>
  C13: whatever the signature manager answers, a legacy transaction leaves \<open>SignTx\<close> only with a
  signature in the range of the curve, with a low S value, from which the address of the request is
  recovered over the hash of the payload of this very transaction; the V value is that of EIP-155
  for the chain of the request, and the text returned is the signed encoding.
\<close>

theorem signTx_legacy_sound:
  assumes "SignTx cn input w = (Inr out, w')" and "identifyTxType input = Inr TransactionType0Legacy"
  shows "in_From input \<noteq> ZeroAddress \<and> 1 \<le> in_ChainID input \<and>
    (\<exists>p v r s enc. EthereumTransaction_payload (c_keccak (cn_crypto cn)) (legacy_transaction input) = Inr p \<and>
       recovers_to (cn_crypto cn) (in_From input) (c_keccak (cn_crypto cn) p) v r s \<and>
       out_Transaction out = SignedLegacy ((legacy_transaction input)
         \<lparr>tx_Signature := Some \<lparr>sig_V = int v + 35 + 2 * in_ChainID input, sig_R = int r, sig_S = int s\<rparr>\<rparr>) \<and>
       EthereumTransaction_RLPEncode (c_keccak (cn_crypto cn)) ((legacy_transaction input)
         \<lparr>tx_Signature := Some \<lparr>sig_V = int v + 35 + 2 * in_ChainID input, sig_R = int r, sig_S = int s\<rparr>\<rparr>) = Inr enc \<and>
       out_SignedTx out = HexBytes_Encode enc)"
  using SignTx_inv [OF assms(1)] assms(2) signLegacyTx_inv [of cn input w out w'] by simp

lemma signTx_legacy_sound_witness:
  "\<exists>out p v r s. SignTx sample_connector (sample_input None None) () = (Inr out, ()) \<and>
     recovers_to sample_crypto (replicate 20 1) (c_keccak sample_crypto p) v r s"
proof -
  obtain out where out: "SignTx sample_connector (sample_input None None) () = (Inr out, ())"
    using sample_SignTx_legacy by blast
  have "identifyTxType (sample_input None None) = Inr TransactionType0Legacy"
    by (simp add: identifyTxType_def sample_input_def)
  from signTx_legacy_sound [OF out this] out show ?thesis
    by (auto simp: sample_connector_def sample_input_def)
qed

text \<open>
  C14: the same for an EIP-1559 transaction, whose signature carries the recovery bit itself.
\<close>

theorem signTx_eip1559_sound:
  assumes "SignTx cn input w = (Inr out, w')" and "identifyTxType input = Inr TransactionType2EIP1559"
  shows "in_From input \<noteq> ZeroAddress \<and> 1 \<le> in_ChainID input \<and>
    (\<exists>maxFee maxPriorityFee p v r s enc. in_MaxFeePerGas input = Some maxFee \<and>
       in_MaxPriorityFeePerGas input = Some maxPriorityFee \<and>
       EIP1559Transaction_payload (c_keccak (cn_crypto cn)) (eip1559_transaction input maxFee maxPriorityFee) = Inr p \<and>
       recovers_to (cn_crypto cn) (in_From input) (c_keccak (cn_crypto cn) p) v r s \<and>
       out_Transaction out = SignedEIP1559 ((eip1559_transaction input maxFee maxPriorityFee)
         \<lparr>tx2_Signature := Some \<lparr>sig_YParity = int v, sig1559_R = int r, sig1559_S = int s\<rparr>\<rparr>) \<and>
       EIP1559Transaction_RLPEncode (c_keccak (cn_crypto cn)) ((eip1559_transaction input maxFee maxPriorityFee)
         \<lparr>tx2_Signature := Some \<lparr>sig_YParity = int v, sig1559_R = int r, sig1559_S = int s\<rparr>\<rparr>) = Inr enc \<and>
       out_SignedTx out = HexBytes_Encode enc)"
  using SignTx_inv [OF assms(1)] assms(2) signEIP1559Tx_inv [of cn input w out w'] by simp

lemma signTx_eip1559_sound_witness:
  "\<exists>out p v r s. SignTx sample_connector (sample_input (Some 3) (Some [])) () = (Inr out, ()) \<and>
     recovers_to sample_crypto (replicate 20 1) (c_keccak sample_crypto p) v r s"
proof -
  obtain out where out: "SignTx sample_connector (sample_input (Some 3) (Some [])) () = (Inr out, ())"
    using sample_SignTx_eip1559 by blast
  have "identifyTxType (sample_input (Some 3) (Some [])) = Inr TransactionType2EIP1559"
    by (simp add: identifyTxType_def sample_input_def)
  from signTx_eip1559_sound [OF out this] out show ?thesis
    by (auto simp: sample_connector_def sample_input_def)
qed

text \<open>
  The connector answers with a bad gateway error exactly when the manager's answer is not 64
  bytes or one of its halves is out of the range of the curve, and never returns such a signature.
\<close>

theorem malformed_signature_is_bad_gateway:
  "(\<exists>e. assembleRecoverableSignature cr rawSig from data = Inl e \<and> IsBadGateway e) \<longleftrightarrow>
     \<not> (length rawSig = 64 \<and>
        be_nat (take 32 rawSig) \<in> {1 ..< c_order cr} \<and> be_nat (drop 32 rawSig) \<in> {1 ..< c_order cr})"
proof (cases "validateBackendSignature (c_order cr) rawSig")
  case None
  have loop: "\<not> IsBadGateway e" if "recoverV_loop cr ks sig from data = Inl e" for ks sig e
    using that
    by (induction ks arbitrary: sig)
      (auto simp: DeriveAddressFromPublicKey_def addr_failure_def Let_def usecase_is_defs usecase_error_defs
        sm_error_defs split: option.splits sum.splits if_splits address_error.splits)
  then have "\<not> IsBadGateway e" if "assembleRecoverableSignature cr rawSig from data = Inl e" for e
    using that None loop
    by (auto simp: assembleRecoverableSignature_def recoverV_def simp del: recoverV_loop.simps)
  then show ?thesis using None by (auto simp: validateBackendSignature_ok)
next
  case (Some e)
  then have "IsBadGateway e"
    by (auto simp: validateBackendSignature_def Let_def usecase_is_defs usecase_error_defs split: if_splits)
  then show ?thesis using Some validateBackendSignature_ok [of "c_order cr" rawSig]
    by (auto simp: assembleRecoverableSignature_def)
qed

text \<open>
  a request is signed as EIP-1559 exactly when it gives both fees, an access list and no legacy
  gas price nor a field of the blob and authorization types, and as legacy exactly when it gives a
  gas price without any field of the later types, or neither a gas price nor a fee, whatever else
  it gives.
\<close>

theorem identifyTxType_exact:
  "(identifyTxType input = Inr TransactionType2EIP1559 \<longleftrightarrow>
      in_GasPrice input = None \<and> in_MaxFeePerGas input \<noteq> None \<and> in_MaxPriorityFeePerGas input \<noteq> None \<and>
      in_AccessList input \<noteq> None \<and> in_MaxFeePerBlobGas input = None \<and>
      in_BlobVersionedHashes input = None \<and> in_AuthorizationList input = None) \<and>
   (identifyTxType input = Inr TransactionType0Legacy \<longleftrightarrow>
      (if in_GasPrice input = None then in_MaxFeePerGas input = None \<and> in_MaxPriorityFeePerGas input = None
       else in_MaxFeePerGas input = None \<and> in_MaxPriorityFeePerGas input = None \<and>
         in_MaxFeePerBlobGas input = None \<and> in_BlobVersionedHashes input = None \<and>
         in_AuthorizationList input = None \<and> in_AccessList input = None))"
  by (auto simp: identifyTxType_def)

text \<open>
  So an access list, blob hashes or authorizations without any fee are signed as a legacy
  transaction, which does not contain them.
\<close>

lemma access_list_dropped:
  "identifyTxType (sample_input None (Some al)) = Inr TransactionType0Legacy"
  "legacy_transaction (sample_input None (Some al)) = legacy_transaction (sample_input None None)"
  by (simp_all add: identifyTxType_def legacy_transaction_def sample_input_def)

lemma pad32_Inr: "pad32 n = Inr b \<Longrightarrow> be_nat b = n \<and> length b = 32"
  by (auto simp: pad32_def split: if_splits)

text \<open>
  a signature that the manager for keys in the configuration makes with values in the range of
  a curve of at most 256 bits always passes the check of the connector.
\<close>

theorem lkv_signature_accepted:
  assumes "LKV_Sign lc input w = (Inr sig, w')" "lkv_order lc \<le> 256 ^ 32"
    and "\<And>d data w r s w'. lkv_sign lc d data w = (Inr (r, s), w') \<Longrightarrow>
           r \<in> {1 ..< lkv_order lc} \<and> s \<in> {1 ..< lkv_order lc}"
  shows "validateBackendSignature (lkv_order lc) sig = None"
proof -
  obtain r s d w1 rb sb where rs: "lkv_sign lc d (si_Data input) w = (Inr (r, s), w1)"
    and pads: "pad32 r = Inr rb" "pad32 s = Inr sb" and sig: "sig = rb @ sb"
    using assms(1)
    by (auto simp: LKV_Sign_def prog_ok split: option.splits prod.splits if_splits)
  have "be_nat rb = r" "length rb = 32" "be_nat sb = s" "length sb = 32"
    using pads pad32_Inr by blast+
  then show ?thesis
    using assms(3) [OF rs] sig by (auto simp: validateBackendSignature_ok)
qed


definition sample_lkv :: "unit lkv_crypto" where
  "sample_lkv = \<lparr>lkv_order = 100, lkv_keccak = (\<lambda>_. replicate 32 1), lkv_pubkey = (\<lambda>_. 0x04 # replicate 64 0),
     lkv_basemult = (\<lambda>_. True), lkv_sign = (\<lambda>_ _. returnP (5, 7))\<rparr>"

definition sample_sign_input :: SignInput where
  "sample_sign_input = \<lparr>si_Slot = [], si_Pin = [], si_From = replicate 20 1, si_Data = [], si_AKV = [],
     si_LocalKeyVault = Some (Some [replicate 20 1 \<mapsto> ''0x07''])\<rparr>"

lemma lkv_signature_accepted_witness:
  "\<exists>sig. LKV_Sign sample_lkv sample_sign_input () = (Inr sig, ()) \<and> validateBackendSignature 100 sig = None"
proof -
  have p: "pad32 5 = Inr (be_fixed 32 5)" "pad32 7 = Inr (be_fixed 32 7)"
  proof -
    have "pad32 n = Inr (be_fixed 32 n)" if "n < 256 ^ 32" for n
      using that length_be_bytes_le [of n 32] by (simp add: pad32_def be_fixed_pad)
    from this [of 5] this [of 7] show "pad32 5 = Inr (be_fixed 32 5)" "pad32 7 = Inr (be_fixed 32 7)"
      by simp_all
  qed
  have k: "NewHexBytesFromString ''0x07'' = ([7], None)" by code_simp
  have "LKV_Sign sample_lkv sample_sign_input () = (Inr (be_fixed 32 5 @ be_fixed 32 7), ())"
    by (simp add: LKV_Sign_def sample_lkv_def sample_sign_input_def k p prog_defs del: be_fixed.simps)
  then show ?thesis
    using lkv_signature_accepted [of sample_lkv sample_sign_input "()" "be_fixed 32 5 @ be_fixed 32 7" "()"]
    by (simp add: sample_lkv_def returnP_def del: be_fixed.simps)
qed

end
