(* ===== verification/Storage.thy ===== *)
theory Storage
  imports Hsm_Connector
begin

text \<open>
  The database layer: \<open>app/pkg/commons/persistence\<close>, the statements of the mappers under
  \<open>app/include/config/mappers\<close> and the schema under \<open>app/include/dbschemas\<close>.

  A table is the list of its rows.  A statement runs on the tables of a world and fails when the
  next element of \<open>w_faults\<close> is true, which stands for a lost connection or any other failure of
  the database; the empty list is a database that works.  A unique key that is violated is the
  persistence error \<open>AlreadyExists\<close>, as the error maps of both dialects translate it.
\<close>

section \<open>Queries\<close>

text \<open>
  \<open>strings.TrimSpace\<close>: the number of bytes of the white space character that starts a string, in
  UTF-8, and of the one that ends it.
\<close>

fun space_width :: "nat list \<Rightarrow> nat" where
  "space_width (c # cs) =
     (if c \<in> {9, 10, 11, 12, 13, 32} then 1
      else case cs of
        d # ds \<Rightarrow>
          if c = 194 \<and> (d = 133 \<or> d = 160) then 2
          else (case ds of
              e # _ \<Rightarrow>
                if (c = 225 \<and> d = 154 \<and> e = 128) \<or>
                   (c = 226 \<and> d = 128 \<and> (128 \<le> e \<and> e \<le> 138 \<or> e = 168 \<or> e = 169 \<or> e = 175)) \<or>
                   (c = 226 \<and> d = 129 \<and> e = 159) \<or> (c = 227 \<and> d = 128 \<and> e = 128) then 3 else 0
            | [] \<Rightarrow> 0)
      | [] \<Rightarrow> 0)"
| "space_width [] = 0"

definition char_codes :: "string \<Rightarrow> nat list" where
  "char_codes s = map of_char s"

function trim_left :: "string \<Rightarrow> string" where
  "trim_left s =
     (let n = space_width (char_codes s) in if n = 0 \<or> length s < n then s else trim_left (drop n s))"
  by auto
termination by (relation "measure length") (auto simp: Let_def)

text \<open>The width of the white space character at the end, found at one, two or three bytes from it.\<close>

definition trailing_space :: "string \<Rightarrow> nat" where
  "trailing_space s =
     (if space_width (char_codes (drop (length s - 1) s)) = 1 then 1
      else if 2 \<le> length s \<and> space_width (char_codes (drop (length s - 2) s)) = 2 then 2
      else if 3 \<le> length s \<and> space_width (char_codes (drop (length s - 3) s)) = 3 then 3
      else 0)"

function trim_right :: "string \<Rightarrow> string" where
  "trim_right s =
     (let n = trailing_space s in if n = 0 \<or> length s < n then s else trim_right (take (length s - n) s))"
  by auto
termination by (relation "measure length") (auto simp: Let_def)

declare trim_left.simps [simp del] trim_right.simps [simp del]

definition TrimSpace :: "string \<Rightarrow> string" where
  "TrimSpace s = trim_right (trim_left s)"

definition DefaultString :: "string \<Rightarrow> string \<Rightarrow> string" where
  "DefaultString src defaultValue = (if length (TrimSpace src) = 0 then defaultValue else src)"

definition OrderAsc :: string where "OrderAsc = ''asc''"

definition OrderDesc :: string where "OrderDesc = ''desc''"

definition OrderByLastUpdate :: string where "OrderByLastUpdate = ''lastUpdate''"

definition NormalizeOrderDirection :: "string \<Rightarrow> string \<times> bool" where
  "NormalizeOrderDirection direction =
     (let d = ToLower (TrimSpace direction) in
      if d = OrderAsc then (OrderAsc, True)
      else if d = OrderDesc then (OrderDesc, True)
      else ([], False))"

text \<open>The verb \<open>%q\<close> on a string without characters to escape.\<close>

definition go_quote :: "string \<Rightarrow> string" where
  "go_quote s = CHR 0x22 # s @ [CHR 0x22]"

definition invalid_direction :: "string \<Rightarrow> go_error" where
  "invalid_direction direction =
     SetHumanReadableMessage
       (''invalid order direction '' @ go_quote direction @ '', expected one of [asc, desc]'') InvalidArgument"

definition DefaultPageLimit :: int where "DefaultPageLimit = 30"

definition MaxPageLimit :: int where "MaxPageLimit = 100"

definition ClampPageLimit :: "int \<Rightarrow> int" where
  "ClampPageLimit limit =
     (if limit \<le> 0 then DefaultPageLimit else if MaxPageLimit < limit then MaxPageLimit else limit)"

text \<open>Order clauses and filters; the result is the text of the clause or an error.\<close>

record Order =
  or_By :: string
  or_Direction :: string

definition validOrderByOptions :: "string list" where
  "validOrderByOptions = [''creation_date'', ''last_update'']"

definition Order_ToSQLStmt :: "Order \<Rightarrow> string option" where
  "Order_ToSQLStmt ord =
     (if or_By ord \<notin> set validOrderByOptions then None
      else if or_Direction ord = OrderAsc then Some (or_By ord @ '' ASC'')
      else if or_Direction ord = OrderDesc then Some (or_By ord @ '' DESC'')
      else None)"

text \<open>The regular expression of \<open>identifierPattern\<close>.\<close>

definition letter_or_underscore :: "char \<Rightarrow> bool" where
  "letter_or_underscore c =
     (let n = (of_char c :: nat) in 97 \<le> n \<and> n \<le> 122 \<or> 65 \<le> n \<and> n \<le> 90 \<or> n = 95)"

definition word_char :: "char \<Rightarrow> bool" where
  "word_char c = (letter_or_underscore c \<or> (let n = (of_char c :: nat) in 48 \<le> n \<and> n \<le> 57))"

definition validateIdentifier :: "string \<Rightarrow> bool" where
  "validateIdentifier s = (case s of [] \<Rightarrow> False | c # cs \<Rightarrow> letter_or_underscore c \<and> list_all word_char cs)"

definition formatComparison :: "string \<Rightarrow> string \<Rightarrow> string option" where
  "formatComparison col op = (if \<not> validateIdentifier col then None else Some (col @ op @ '':'' @ col))"

datatype Filter = EqualFilter string | LessFilter string | LessOrEqualFilter string
  | GreaterFilter string | GreaterOrEqualFilter string

fun Filter_ToSQLStmt :: "Filter \<Rightarrow> string option" where
  "Filter_ToSQLStmt (EqualFilter col) = formatComparison col ''=''"
| "Filter_ToSQLStmt (LessFilter col) = formatComparison col ''<''"
| "Filter_ToSQLStmt (LessOrEqualFilter col) = formatComparison col ''<=''"
| "Filter_ToSQLStmt (GreaterFilter col) = formatComparison col ''>''"
| "Filter_ToSQLStmt (GreaterOrEqualFilter col) = formatComparison col ''>=''"

record Pagination =
  pg_Limit :: int
  pg_Offset :: int

record query =
  qu_Order :: "Order option"
  qu_Filters :: "Filter list"
  qu_Pagination :: "Pagination option"

definition no_query :: query where
  "no_query = \<lparr>qu_Order = None, qu_Filters = [], qu_Pagination = None\<rparr>"

text \<open>A page of a collection.\<close>

record 'a collection =
  co_Items :: "'a list"
  co_Limit :: int
  co_Offset :: int
  co_MoreItems :: bool

definition NewUnlimitedQueryStandardCollectionPage :: "'a list \<Rightarrow> 'a collection" where
  "NewUnlimitedQueryStandardCollectionPage items =
     \<lparr>co_Items = items, co_Limit = int (length items), co_Offset = 0, co_MoreItems = False\<rparr>"

section \<open>The schema\<close>

record ApplicationDB =
  ap_ID :: string
  ap_InternalResourceID :: string
  ap_DefaultChainID :: string
  ap_Description :: "string option"
  ap_CreationDate :: int
  ap_LastUpdate :: int
  ap_ResourceVersion :: string

text \<open>The column \<open>roles\<close> holds the JSON text of a list of strings; it is kept as that list.\<close>

record UserDB =
  us_ID :: string
  us_ApplicationID :: string
  us_InternalResourceID :: string
  us_Roles :: "string list"
  us_Description :: string
  us_CreationDate :: int
  us_LastUpdate :: int
  us_ResourceVersion :: string

record AccountDB =
  ac_InternalResourceID :: string
  ac_Address :: string
  ac_ApplicationID :: string
  ac_UserID :: string
  ac_CreationDate :: int
  ac_LastUpdate :: int

record ReferentialIntegrityEntryDB =
  ri_ID :: string
  ri_ResourceID :: string
  ri_ResourceKind :: string
  ri_ParentResourceID :: string
  ri_ParentResourceKind :: string
  ri_CreationDate :: int
  ri_LastUpdate :: int

record HardwareSecurityModuleDB =
  hm_ID :: string
  hm_InternalResourceID :: string
  hm_Kind :: string
  hm_Configuration :: string
  hm_Description :: string
  hm_CreationDate :: int
  hm_LastUpdate :: int
  hm_ResourceVersion :: string

text \<open>
  The column \<open>configuration\<close> of a slot holds JSON text; it is kept as the structure it encodes, the
  key store as the list of its members.
\<close>

record slotConfigDB =
  sd_AKV :: "AKVConfig list"
  sd_LocalKeyVault :: "(string \<times> string) list option"

record HSMSlotDB =
  sl_ID :: string
  sl_InternalResourceID :: string
  sl_ApplicationID :: string
  sl_HSMModuleID :: string
  sl_Slot :: string
  sl_Pin :: string
  sl_Config :: slotConfigDB
  sl_CreationDate :: int
  sl_LastUpdate :: int
  sl_ResourceVersion :: string

record AdminDB =
  ad_ID :: string
  ad_InternalResourceID :: string
  ad_Roles :: "string list"
  ad_Description :: string
  ad_CreationDate :: int
  ad_LastUpdate :: int
  ad_ResourceVersion :: string

text \<open>The unique keys of the tables: two rows that violate one.\<close>

definition application_clash :: "ApplicationDB \<Rightarrow> ApplicationDB \<Rightarrow> bool" where
  "application_clash r s = (ap_ID r = ap_ID s \<or> ap_InternalResourceID r = ap_InternalResourceID s)"

definition user_clash :: "UserDB \<Rightarrow> UserDB \<Rightarrow> bool" where
  "user_clash r s =
     (us_ApplicationID r = us_ApplicationID s \<and> us_ID r = us_ID s \<or>
      us_InternalResourceID r = us_InternalResourceID s)"

definition account_clash :: "AccountDB \<Rightarrow> AccountDB \<Rightarrow> bool" where
  "account_clash r s =
     (ac_ApplicationID r = ac_ApplicationID s \<and> ac_UserID r = ac_UserID s \<and> ac_Address r = ac_Address s \<or>
      ac_InternalResourceID r = ac_InternalResourceID s)"

definition entry_clash :: "ReferentialIntegrityEntryDB \<Rightarrow> ReferentialIntegrityEntryDB \<Rightarrow> bool" where
  "entry_clash r s =
     (ri_ID r = ri_ID s \<or>
      ri_ResourceID r = ri_ResourceID s \<and> ri_ResourceKind r = ri_ResourceKind s \<and>
      ri_ParentResourceID r = ri_ParentResourceID s \<and> ri_ParentResourceKind r = ri_ParentResourceKind s)"

definition module_clash :: "HardwareSecurityModuleDB \<Rightarrow> HardwareSecurityModuleDB \<Rightarrow> bool" where
  "module_clash r s = (hm_ID r = hm_ID s \<or> hm_InternalResourceID r = hm_InternalResourceID s)"

definition slot_clash :: "HSMSlotDB \<Rightarrow> HSMSlotDB \<Rightarrow> bool" where
  "slot_clash r s =
     (sl_ID r = sl_ID s \<or> sl_InternalResourceID r = sl_InternalResourceID s \<or>
      sl_HSMModuleID r = sl_HSMModuleID s \<and> sl_Slot r = sl_Slot s \<or>
      sl_ApplicationID r = sl_ApplicationID s)"

definition admin_clash :: "AdminDB \<Rightarrow> AdminDB \<Rightarrow> bool" where
  "admin_clash r s = (ad_ID r = ad_ID s \<or> ad_InternalResourceID r = ad_InternalResourceID s)"

section \<open>The world\<close>

text \<open>
  The tables, how many UUIDs were drawn and how often the clock was read, the outcome of the next
  statements, and the state of the devices.  What the environment decides is a parameter: the UUIDs
  \<open>github.com/google/uuid\<close> gives, the readings of the clock, the verdict of \<open>govalidator\<close> on the
  tags and values of a struct, Keccak-256, and the roles file.
\<close>

record Role =
  role_ID :: string
  role_Scope :: string

record env =
  e_uuid :: "nat \<Rightarrow> string"
  e_clock :: "nat \<Rightarrow> int"
  e_validate :: validator
  e_keccak :: "bytes \<Rightarrow> bytes"
  e_roles :: "Role list"

record 'd world =
  w_applications :: "ApplicationDB list"
  w_users :: "UserDB list"
  w_accounts :: "AccountDB list"
  w_modules :: "HardwareSecurityModuleDB list"
  w_slots :: "HSMSlotDB list"
  w_admins :: "AdminDB list"
  w_entries :: "ReferentialIntegrityEntryDB list"
  w_uuids :: nat
  w_ticks :: nat
  w_faults :: "bool list"
  w_devices :: 'd

definition empty_world :: "'d \<Rightarrow> 'd world" where
  "empty_world dev =
     \<lparr>w_applications = [], w_users = [], w_accounts = [], w_modules = [], w_slots = [],
      w_admins = [], w_entries = [], w_uuids = 0, w_ticks = 0,
      w_faults = [], w_devices = dev\<rparr>"

definition newUUID :: "env \<Rightarrow> ('d world, string) prog" where
  "newUUID en w = (Inr (e_uuid en (w_uuids w)), w\<lparr>w_uuids := Suc (w_uuids w)\<rparr>)"

definition timeNow :: "env \<Rightarrow> ('d world, int) prog" where
  "timeNow en w = (Inr (e_clock en (w_ticks w)), w\<lparr>w_ticks := Suc (w_ticks w)\<rparr>)"

text \<open>A program of the devices, run inside the world.\<close>

definition onDevices :: "('d, 'a) prog \<Rightarrow> ('d world, 'a) prog" where
  "onDevices m w = (case m (w_devices w) of (r, d) \<Rightarrow> (r, w\<lparr>w_devices := d\<rparr>))"

section \<open>Statements\<close>

definition run_statement :: "('d world, unit) prog" where
  "run_statement w =
     (case w_faults w of
        [] \<Rightarrow> (Inr (), w)
      | b # bs \<Rightarrow> (if b then Inl ps_NewStatementExecutionFailedError else Inr (), w\<lparr>w_faults := bs\<rparr>))"

definition sql_insert ::
    "('d world \<Rightarrow> 'r list) \<Rightarrow> ('r list \<Rightarrow> 'd world \<Rightarrow> 'd world) \<Rightarrow> ('r \<Rightarrow> 'r \<Rightarrow> bool) \<Rightarrow> 'r \<Rightarrow>
     ('d world, unit) prog" where
  "sql_insert tab put clash r =
     bindP run_statement (\<lambda>_ w.
       if list_ex (\<lambda>x. clash x r) (tab w) then (Inl ps_NewAlreadyExistsError, w)
       else (Inr (), put (tab w @ [r]) w))"

definition sql_select :: "('d world \<Rightarrow> 'r list) \<Rightarrow> ('r \<Rightarrow> bool) \<Rightarrow> ('d world, 'r list) prog" where
  "sql_select tab sel = bindP run_statement (\<lambda>_ w. (Inr (filter sel (tab w)), w))"

text \<open>The number of rows affected is the result.\<close>

definition sql_update ::
    "('d world \<Rightarrow> 'r list) \<Rightarrow> ('r list \<Rightarrow> 'd world \<Rightarrow> 'd world) \<Rightarrow> ('r \<Rightarrow> bool) \<Rightarrow> ('r \<Rightarrow> 'r) \<Rightarrow>
     ('d world, nat) prog" where
  "sql_update tab put sel f =
     bindP run_statement (\<lambda>_ w.
       (Inr (length (filter sel (tab w))), put (map (\<lambda>r. if sel r then f r else r) (tab w)) w))"

definition sql_delete ::
    "('d world \<Rightarrow> 'r list) \<Rightarrow> ('r list \<Rightarrow> 'd world \<Rightarrow> 'd world) \<Rightarrow> ('r \<Rightarrow> bool) \<Rightarrow> ('d world, nat) prog" where
  "sql_delete tab put sel =
     bindP run_statement (\<lambda>_ w.
       (Inr (length (filter sel (tab w))), put (filter (\<lambda>r. \<not> sel r) (tab w)) w))"

text \<open>
  A list query.  \<open>ORDER BY\<close> sorts by the column, rows with the same date in the order of the table
  (the databases leave it open); \<open>LIMIT\<close> and \<open>OFFSET\<close> cut the page out and fail on negative
  numbers.  A clause that cannot be rendered fails before the statement runs.
\<close>

definition order_rows :: "('r \<Rightarrow> int) \<Rightarrow> ('r \<Rightarrow> int) \<Rightarrow> Order option \<Rightarrow> 'r list \<Rightarrow> 'r list" where
  "order_rows created updated ord rows =
     (case ord of
        None \<Rightarrow> rows
      | Some d \<Rightarrow>
          (let col = (if or_By d = ''last_update'' then updated else created)
           in sort_key (\<lambda>r. if or_Direction d = OrderDesc then - col r else col r) rows))"

definition cut_page :: "Pagination option \<Rightarrow> 'r list \<Rightarrow> 'r list" where
  "cut_page page rows =
     (case page of None \<Rightarrow> rows | Some p \<Rightarrow> take (nat (pg_Limit p)) (drop (nat (pg_Offset p)) rows))"

definition sql_list ::
    "('r \<Rightarrow> int) \<Rightarrow> ('r \<Rightarrow> int) \<Rightarrow> ('d world \<Rightarrow> 'r list) \<Rightarrow> query \<Rightarrow> ('r \<Rightarrow> bool) \<Rightarrow>
     ('d world, 'r list) prog" where
  "sql_list created updated tab q sel =
     bindP (checkP (list_all (\<lambda>f. Filter_ToSQLStmt f \<noteq> None) (qu_Filters q) \<and>
                    (case qu_Order q of None \<Rightarrow> True | Some d \<Rightarrow> Order_ToSQLStmt d \<noteq> None))
              ps_NewStatementCouldNotBePreparedError) (\<lambda>_.
     bindP run_statement (\<lambda>_ w.
       if (case qu_Pagination q of None \<Rightarrow> False | Some p \<Rightarrow> pg_Limit p < 0 \<or> pg_Offset p < 0)
       then (Inl ps_NewStatementExecutionFailedError, w)
       else (Inr (cut_page (qu_Pagination q) (order_rows created updated (qu_Order q) (filter sel (tab w)))), w)))"

text \<open>
  What every \<open>All\<close> method of the output adapters does around its list query: one row more than the
  page is asked for, and its presence is \<open>MoreItems\<close>.
\<close>

definition one_more :: "query \<Rightarrow> query" where
  "one_more q = q\<lparr>qu_Pagination := map_option (\<lambda>p. p\<lparr>pg_Limit := pg_Limit p + 1\<rparr>) (qu_Pagination q)\<rparr>"

definition paged :: "Pagination option \<Rightarrow> 'r list \<Rightarrow> 'r collection" where
  "paged page storageData =
     (case page of
        None \<Rightarrow> NewUnlimitedQueryStandardCollectionPage storageData
      | Some p \<Rightarrow>
          \<lparr>co_Items = (if int (length storageData) = pg_Limit p + 1 then butlast storageData else storageData),
           co_Limit = pg_Limit p, co_Offset = pg_Offset p,
           co_MoreItems = (int (length storageData) = pg_Limit p + 1)\<rparr>)"

text \<open>\<open>mapSliceFromDB\<close>: the first row that cannot be mapped is the error.\<close>

fun mapSliceFromDB :: "('r \<Rightarrow> go_error + 'a) \<Rightarrow> 'r list \<Rightarrow> go_error + 'a list" where
  "mapSliceFromDB f [] = Inr []"
| "mapSliceFromDB f (r # rs) =
     (case f r of
        Inl e \<Rightarrow> Inl e
      | Inr x \<Rightarrow> (case mapSliceFromDB f rs of Inl e \<Rightarrow> Inl e | Inr xs \<Rightarrow> Inr (x # xs)))"

definition mapPersistenceErrorToSignerError :: "go_error \<Rightarrow> go_error" where
  "mapPersistenceErrorToSignerError err =
     (if ps_IsAlreadyExists err then AlreadyExistsFromErr err
      else if ps_IsNotFound err then NotFoundFromErr err
      else if ps_IsEntryNotAdded err then InternalFromErr err
      else InternalFromErr err)"

definition with_items :: "'r collection \<Rightarrow> 'a list \<Rightarrow> 'a collection" where
  "with_items c items =
     \<lparr>co_Items = items, co_Limit = co_Limit c, co_Offset = co_Offset c, co_MoreItems = co_MoreItems c\<rparr>"

text \<open>
  The rows that the filters of a query select: the filters compare columns with the values bound to
  the statement.  The output adapters only build \<open>EqualFilter\<close>.
\<close>

definition selects :: "(string \<Rightarrow> 'r \<Rightarrow> string) \<Rightarrow> 'r \<Rightarrow> Filter list \<Rightarrow> 'r \<Rightarrow> bool" where
  "selects column values fs r =
     list_all (\<lambda>f. case f of EqualFilter col \<Rightarrow> column col r = column col values | _ \<Rightarrow> False) fs"

text \<open>The common shape of \<open>Get\<close> in the output adapters: none, one or more rows for an identifier.\<close>

definition single_row :: "('r \<Rightarrow> go_error + 'a) \<Rightarrow> 'r list \<Rightarrow> go_error + 'a" where
  "single_row mapFromDB storageData =
     (if length storageData = 0 then Inl NotFound
      else if 1 < length storageData then Inl Internal
      else case mapFromDB (storageData ! 0) of Inl err \<Rightarrow> Inl (InternalFromErr err) | Inr x \<Rightarrow> Inr x)"

text \<open>The common shape of \<open>All\<close>: the page with its rows mapped.\<close>

definition mapped_page :: "('r \<Rightarrow> go_error + 'a) \<Rightarrow> Pagination option \<Rightarrow> 'r list \<Rightarrow> go_error + 'a collection" where
  "mapped_page mapFromDB page storageData =
     (case mapSliceFromDB mapFromDB (co_Items (paged page storageData)) of
        Inl err \<Rightarrow> Inl (InternalFromErr err)
      | Inr items \<Rightarrow> Inr (with_items (paged page storageData) items))"

end
