(* ===== verification/Tables.thy ===== *)
theory Tables
  imports Storage
begin

text \<open>
  The contract of a table with unique keys: what an insertion, a deletion, an update and a query by
  key do, proved once in the locale \<open>table\<close> and used for each table of the schema; and the laws of
  pages and of the rendered clauses.
\<close>

definition distinct_rows :: "('r \<Rightarrow> 'r \<Rightarrow> bool) \<Rightarrow> 'r list \<Rightarrow> bool" where
  "distinct_rows clash rows = sorted_wrt (\<lambda>r s. \<not> clash r s) rows"

section \<open>Statements of a database that works\<close>

lemma run_statement_quiet [simp]: "w_faults w = [] \<Longrightarrow> run_statement w = (Inr (), w)"
  by (simp add: run_statement_def)

lemma run_statement_cases:
  "run_statement w = (r, w') \<Longrightarrow> (r = Inr () \<or> r = Inl ps_NewStatementExecutionFailedError) \<and> (\<exists>bs. w' = w\<lparr>w_faults := bs\<rparr>)"
  by (auto simp: run_statement_def split: list.splits if_splits)
    (metis (no_types, lifting) world.surjective world.update_convs(10))+

lemma sql_insert_quiet:
  "w_faults w = [] \<Longrightarrow> sql_insert tab put clash r w =
     (if \<exists>x\<in>set (tab w). clash x r then (Inl ps_NewAlreadyExistsError, w) else (Inr (), put (tab w @ [r]) w))"
  by (auto simp: sql_insert_def bindP_def list_ex_iff)

lemma sql_select_quiet: "w_faults w = [] \<Longrightarrow> sql_select tab sel w = (Inr (filter sel (tab w)), w)"
  by (simp add: sql_select_def bindP_def)

lemma sql_update_quiet:
  "w_faults w = [] \<Longrightarrow> sql_update tab put sel f w =
     (Inr (length (filter sel (tab w))), put (map (\<lambda>r. if sel r then f r else r) (tab w)) w)"
  by (simp add: sql_update_def bindP_def)

lemma sql_delete_quiet:
  "w_faults w = [] \<Longrightarrow> sql_delete tab put sel w =
     (Inr (length (filter sel (tab w))), put (filter (\<lambda>r. \<not> sel r) (tab w)) w)"
  by (simp add: sql_delete_def bindP_def)

lemma sql_list_quiet:
  "w_faults w = [] \<Longrightarrow> list_all (\<lambda>f. Filter_ToSQLStmt f \<noteq> None) (qu_Filters q) \<Longrightarrow>
   (case qu_Order q of None \<Rightarrow> True | Some d \<Rightarrow> Order_ToSQLStmt d \<noteq> None) \<Longrightarrow>
   (case qu_Pagination q of None \<Rightarrow> True | Some p \<Rightarrow> 0 \<le> pg_Limit p \<and> 0 \<le> pg_Offset p) \<Longrightarrow>
   sql_list created updated tab q sel w =
     (Inr (cut_page (qu_Pagination q) (order_rows created updated (qu_Order q) (filter sel (tab w)))), w)"
  by (simp add: sql_list_def bindP_def checkP_def returnP_def split: option.splits)

lemmas quiet_simps = sql_insert_quiet sql_select_quiet sql_update_quiet sql_delete_quiet

lemma keeps_read [keeps_intros]:
  assumes "\<And>w bs. P w \<Longrightarrow> P (w\<lparr>w_faults := bs\<rparr>)"
  shows "keeps P run_statement"
  unfolding keeps_def using assms run_statement_cases by (metis prod.collapse)

text \<open>A program that only reads leaves a world with a working database as it is.\<close>

definition still :: "'d world \<Rightarrow> 'd world \<Rightarrow> bool" where
  "still w0 w \<longleftrightarrow> w = w0 \<and> w_faults w0 = []"

lemma still_refl: "w_faults w = [] \<Longrightarrow> still w w"
  by (simp add: still_def)

lemma keeps_still_statement [keeps_intros]: "keeps (still w0) run_statement"
  by (auto simp: keeps_def still_def)

lemma keeps_still_select [keeps_intros]: "keeps (still w0) (sql_select tab sel)"
  by (auto simp: keeps_def still_def sql_select_quiet)

lemma keeps_still_list [keeps_intros]: "keeps (still w0) (sql_list created updated tab q sel)"
  by (auto simp: keeps_def still_def sql_list_def bindP_def checkP_def returnP_def throwP_def)

lemma still_snd: "keeps (still w) m \<Longrightarrow> w_faults w = [] \<Longrightarrow> snd (m w) = w"
  by (auto simp: keeps_def still_def)

lemma still_eq: "keeps (still w) m \<Longrightarrow> w_faults w = [] \<Longrightarrow> m w = (r, w') \<Longrightarrow> w' = w"
  using still_snd by fastforce

lemma mapSliceFromDB_Inr:
  "mapSliceFromDB f rows = Inr xs \<longleftrightarrow> map f rows = map Inr xs"
proof (induction rows arbitrary: xs)
  case (Cons r rows)
  show ?case
  proof (cases xs)
    case (Cons y ys)
    then show ?thesis using Cons.IH [of ys]
      by (cases "f r"; cases "mapSliceFromDB f rows") auto
  qed (simp split: sum.splits)
qed auto

lemma mapSliceFromDB_total:
  "(\<And>r. r \<in> set rows \<Longrightarrow> f r = Inr (g r)) \<Longrightarrow> mapSliceFromDB f rows = Inr (map g rows)"
  by (induction rows) auto

text \<open>A database that works goes on working.\<close>

definition quiet :: "'d world \<Rightarrow> bool" where
  "quiet w \<longleftrightarrow> w_faults w = []"

lemma keeps_quiet_reads [keeps_intros]:
  "keeps quiet (sql_select tab sel)" "keeps quiet (sql_list created updated tab q sel)"
  "keeps quiet (newUUID en)" "keeps quiet (timeNow en)" "keeps quiet (onDevices m)"
  by (auto simp: keeps_def quiet_def quiet_simps sql_list_def bindP_def checkP_def returnP_def throwP_def
      newUUID_def timeNow_def onDevices_def split: prod.splits)

lemma keeps_quiet_writes [keeps_intros]:
  assumes "\<And>rs w. w_faults (put rs w) = w_faults w"
  shows "keeps quiet (sql_insert tab put clash r)" and "keeps quiet (sql_update tab put sel f)"
    and "keeps quiet (sql_delete tab put sel)"
  using assms by (auto simp: keeps_def quiet_def quiet_simps)

section \<open>The contract\<close>

locale table =
  fixes tab :: "'d world \<Rightarrow> 'r list"
    and put :: "'r list \<Rightarrow> 'd world \<Rightarrow> 'd world"
    and clash :: "'r \<Rightarrow> 'r \<Rightarrow> bool"
  assumes tab_put: "tab (put rs w) = rs"
    and put_put: "put rs (put ss w) = put rs w"
    and tab_faults: "tab (w\<lparr>w_faults := bs\<rparr>) = tab w"
    and clash_refl: "clash r r"
    and clash_sym: "clash r s \<Longrightarrow> clash s r"
begin

lemma keeps_insert: "keeps (\<lambda>w. distinct_rows clash (tab w)) (sql_insert tab put clash r)"
proof -
  have "keeps (\<lambda>w. distinct_rows clash (tab w)) run_statement"
    by (rule keeps_read) (simp add: tab_faults)
  moreover have "keeps (\<lambda>w. distinct_rows clash (tab w))
      (\<lambda>w. if list_ex (\<lambda>x. clash x r) (tab w) then (Inl ps_NewAlreadyExistsError, w)
           else (Inr (), put (tab w @ [r]) w))"
    by (auto simp: keeps_def tab_put distinct_rows_def sorted_wrt_append list_ex_iff)
  ultimately show ?thesis unfolding sql_insert_def by (rule keeps_bindP)
qed

lemma keeps_delete: "keeps (\<lambda>w. distinct_rows clash (tab w)) (sql_delete tab put sel)"
proof -
  have "keeps (\<lambda>w. distinct_rows clash (tab w)) run_statement"
    by (rule keeps_read) (simp add: tab_faults)
  then show ?thesis unfolding sql_delete_def
    by (rule keeps_bindP) (auto simp: keeps_def tab_put distinct_rows_def intro: sorted_wrt_filter)
qed

lemma keeps_update:
  assumes "\<And>r s. clash (f r) s = clash r s" and "\<And>r s. clash r (f s) = clash r s"
  shows "keeps (\<lambda>w. distinct_rows clash (tab w)) (sql_update tab put sel f)"
proof -
  have "distinct_rows clash (map (\<lambda>r. if sel r then f r else r) rows) = distinct_rows clash rows" for rows
    by (simp add: distinct_rows_def sorted_wrt_map if_distrib [of "\<lambda>x. clash x _"]
          if_distrib [of "\<lambda>x. clash _ x"] assms cong: if_cong)
  moreover have "keeps (\<lambda>w. distinct_rows clash (tab w)) run_statement"
    by (rule keeps_read) (simp add: tab_faults)
  ultimately show ?thesis unfolding sql_update_def
    by (intro keeps_bindP) (simp_all add: keeps_def tab_put)
qed

lemma keeps_select: "keeps (\<lambda>w. distinct_rows clash (tab w)) (sql_select tab sel)"
proof -
  have "keeps (\<lambda>w. distinct_rows clash (tab w)) run_statement"
    by (rule keeps_read) (simp add: tab_faults)
  then show ?thesis unfolding sql_select_def by (rule keeps_bindP) (simp add: keeps_def)
qed

lemma distinct_clash:
  "distinct_rows clash rows \<Longrightarrow> r \<in> set rows \<Longrightarrow> s \<in> set rows \<Longrightarrow> clash r s \<Longrightarrow> r = s"
  by (induction rows) (auto simp: distinct_rows_def intro: clash_sym dest: clash_sym)

lemma select_key:
  assumes "distinct_rows clash rows" and "r \<in> set rows" and "sel r"
    and "\<And>x. sel x \<Longrightarrow> clash r x"
  shows "filter sel rows = [r]"
  using assms
proof (induction rows)
  case (Cons s rows)
  show ?case
  proof (cases "s = r")
    case True
    then have "filter sel rows = []"
      using Cons.prems by (auto simp: distinct_rows_def filter_empty_conv)
    then show ?thesis using True Cons.prems by simp
  next
    case False
    then have "r \<in> set rows" using Cons.prems by simp
    then have "\<not> clash s r" using Cons.prems by (simp add: distinct_rows_def)
    then have "\<not> sel s" using Cons.prems clash_sym by blast
    then show ?thesis using Cons \<open>r \<in> set rows\<close> by (simp add: distinct_rows_def)
  qed
qed simp

text \<open>What was inserted is what a query by its key returns.\<close>

lemma insert_lookup:
  assumes "distinct_rows clash (tab w)" and "sql_insert tab put clash r w = (Inr (), w')"
    and "sel r" and "\<And>x. sel x \<Longrightarrow> clash r x"
  shows "filter sel (tab w') = [r]"
proof -
  obtain bs where w': "w' = put (tab w @ [r]) (w\<lparr>w_faults := bs\<rparr>)" and none: "\<forall>x\<in>set (tab w). \<not> clash x r"
    using assms(2) unfolding sql_insert_def bindP_Inr
    by (auto simp: list_ex_iff tab_faults split: if_splits dest!: run_statement_cases)
  have "filter sel (tab w) = []"
    using none assms(4) clash_sym by (auto simp: filter_empty_conv)
  then show ?thesis using assms(3) by (simp add: w' tab_put)
qed

text \<open>What was deleted is not found, and all the rest is.\<close>

lemma delete_lookup:
  assumes "sql_delete tab put sel w = (Inr n, w')"
  shows "filter sel (tab w') = []" and "tab w' = filter (\<lambda>r. \<not> sel r) (tab w)"
proof -
  obtain bs where w': "w' = put (filter (\<lambda>r. \<not> sel r) (tab w)) (w\<lparr>w_faults := bs\<rparr>)"
    using assms unfolding sql_delete_def bindP_Inr
    by (auto simp: tab_faults dest!: run_statement_cases)
  then show "tab w' = filter (\<lambda>r. \<not> sel r) (tab w)" by (simp add: tab_put)
  then show "filter sel (tab w') = []" by (auto simp: filter_empty_conv)
qed

end

section \<open>The tables of the schema\<close>

interpretation applications: table w_applications "\<lambda>rs. w_applications_update (\<lambda>_. rs)" application_clash
  by unfold_locales (auto simp: application_clash_def)

interpretation users: table w_users "\<lambda>rs. w_users_update (\<lambda>_. rs)" user_clash
  by unfold_locales (auto simp: user_clash_def)

interpretation accounts: table w_accounts "\<lambda>rs. w_accounts_update (\<lambda>_. rs)" account_clash
  by unfold_locales (auto simp: account_clash_def)

interpretation entries: table w_entries "\<lambda>rs. w_entries_update (\<lambda>_. rs)" entry_clash
  by unfold_locales (auto simp: entry_clash_def)

interpretation modules: table w_modules "\<lambda>rs. w_modules_update (\<lambda>_. rs)" module_clash
  by unfold_locales (auto simp: module_clash_def)

interpretation slots: table w_slots "\<lambda>rs. w_slots_update (\<lambda>_. rs)" slot_clash
  by unfold_locales (auto simp: slot_clash_def)

interpretation admins: table w_admins "\<lambda>rs. w_admins_update (\<lambda>_. rs)" admin_clash
  by unfold_locales (auto simp: admin_clash_def)

abbreviation put_applications where
  "put_applications rs \<equiv> w_applications_update (\<lambda>_. rs)"

abbreviation put_users where
  "put_users rs \<equiv> w_users_update (\<lambda>_. rs)"

abbreviation put_accounts where
  "put_accounts rs \<equiv> w_accounts_update (\<lambda>_. rs)"

abbreviation put_modules where
  "put_modules rs \<equiv> w_modules_update (\<lambda>_. rs)"

abbreviation put_slots where
  "put_slots rs \<equiv> w_slots_update (\<lambda>_. rs)"

abbreviation put_admins where
  "put_admins rs \<equiv> w_admins_update (\<lambda>_. rs)"

abbreviation put_entries where
  "put_entries rs \<equiv> w_entries_update (\<lambda>_. rs)"

section \<open>Unique keys\<close>

text \<open>The unique keys of all tables, which no operation violates whatever the database does.\<close>

definition keys_ok :: "'d world \<Rightarrow> bool" where
  "keys_ok w \<longleftrightarrow>
     distinct_rows application_clash (w_applications w) \<and> distinct_rows user_clash (w_users w) \<and>
     distinct_rows account_clash (w_accounts w) \<and> distinct_rows module_clash (w_modules w) \<and>
     distinct_rows slot_clash (w_slots w) \<and> distinct_rows admin_clash (w_admins w) \<and>
     distinct_rows entry_clash (w_entries w)"

lemma keeps_conj: "keeps P m \<Longrightarrow> keeps Q m \<Longrightarrow> keeps (\<lambda>w. P w \<and> Q w) m"
  by (simp add: keeps_def)

lemma keeps_other:
  assumes "\<And>w bs. P w \<Longrightarrow> P (w\<lparr>w_faults := bs\<rparr>)" and "\<And>w rs. P w \<Longrightarrow> P (put rs w)"
  shows "keeps P (sql_insert tab put clash r)" and "keeps P (sql_update tab put sel f)"
    and "keeps P (sql_delete tab put sel)"
proof -
  have read: "keeps P run_statement" using assms(1) by (rule keeps_read)
  show "keeps P (sql_insert tab put clash r)" "keeps P (sql_update tab put sel f)" "keeps P (sql_delete tab put sel)"
    unfolding sql_insert_def sql_update_def sql_delete_def
    by (rule keeps_bindP [OF read], use assms(2) in \<open>simp add: keeps_def\<close>)+
qed

lemma keeps_keys_reads [keeps_intros]:
  "keeps keys_ok (sql_select tab sel)" "keeps keys_ok (sql_list created updated tab q sel)"
  "keeps keys_ok (newUUID en)" "keeps keys_ok (timeNow en)"
proof -
  have read: "keeps keys_ok run_statement" by (rule keeps_read) (simp add: keys_ok_def)
  show "keeps keys_ok (sql_select tab sel)" unfolding sql_select_def
    by (rule keeps_bindP [OF read]) (simp add: keeps_def)
  show "keeps keys_ok (sql_list created updated tab q sel)" unfolding sql_list_def
    by (intro keeps_bindP [OF keeps_checkP] keeps_bindP [OF read]) (simp add: keeps_def)
qed (simp_all add: keeps_def newUUID_def timeNow_def keys_ok_def)

lemma keeps_keys_applications [keeps_intros]:
  "keeps keys_ok (sql_insert w_applications put_applications application_clash r)"
  "keeps keys_ok (sql_delete w_applications put_applications sel)"
  unfolding keys_ok_def
  by (intro keeps_conj applications.keeps_insert applications.keeps_delete keeps_other; simp)+

lemma keeps_keys_users [keeps_intros]:
  "keeps keys_ok (sql_insert w_users put_users user_clash r)"
  "keeps keys_ok (sql_delete w_users put_users sel)"
  unfolding keys_ok_def
  by (intro keeps_conj users.keeps_insert users.keeps_delete keeps_other; simp)+

lemma keeps_keys_accounts [keeps_intros]:
  "keeps keys_ok (sql_insert w_accounts put_accounts account_clash r)"
  "keeps keys_ok (sql_delete w_accounts put_accounts sel)"
  unfolding keys_ok_def
  by (intro keeps_conj accounts.keeps_insert accounts.keeps_delete keeps_other; simp)+

lemma keeps_keys_modules [keeps_intros]:
  "keeps keys_ok (sql_insert w_modules put_modules module_clash r)"
  "keeps keys_ok (sql_delete w_modules put_modules sel)"
  unfolding keys_ok_def
  by (intro keeps_conj modules.keeps_insert modules.keeps_delete keeps_other; simp)+

lemma keeps_keys_slots [keeps_intros]:
  "keeps keys_ok (sql_insert w_slots put_slots slot_clash r)"
  "keeps keys_ok (sql_delete w_slots put_slots sel)"
  unfolding keys_ok_def
  by (intro keeps_conj slots.keeps_insert slots.keeps_delete keeps_other; simp)+

lemma keeps_keys_admins [keeps_intros]:
  "keeps keys_ok (sql_insert w_admins put_admins admin_clash r)"
  "keeps keys_ok (sql_delete w_admins put_admins sel)"
  unfolding keys_ok_def
  by (intro keeps_conj admins.keeps_insert admins.keeps_delete keeps_other; simp)+

lemma keeps_keys_entries [keeps_intros]:
  "keeps keys_ok (sql_insert w_entries put_entries entry_clash r)"
  "keeps keys_ok (sql_delete w_entries put_entries sel)"
  unfolding keys_ok_def
  by (intro keeps_conj entries.keeps_insert entries.keeps_delete keeps_other; simp)+

lemma keeps_keys_application_update [keeps_intros]:
  assumes "\<And>r. ap_ID (f r) = ap_ID r" and "\<And>r. ap_InternalResourceID (f r) = ap_InternalResourceID r"
  shows "keeps keys_ok (sql_update w_applications put_applications sel f)"
  unfolding keys_ok_def
  by (intro keeps_conj applications.keeps_update keeps_other(2); simp add: application_clash_def assms)

lemma keeps_keys_user_update [keeps_intros]:
  assumes "\<And>r. us_ID (f r) = us_ID r" and "\<And>r. us_ApplicationID (f r) = us_ApplicationID r" and "\<And>r. us_InternalResourceID (f r) = us_InternalResourceID r"
  shows "keeps keys_ok (sql_update w_users put_users sel f)"
  unfolding keys_ok_def
  by (intro keeps_conj users.keeps_update keeps_other(2); simp add: user_clash_def assms)

lemma keeps_keys_module_update [keeps_intros]:
  assumes "\<And>r. hm_ID (f r) = hm_ID r" and "\<And>r. hm_InternalResourceID (f r) = hm_InternalResourceID r"
  shows "keeps keys_ok (sql_update w_modules put_modules sel f)"
  unfolding keys_ok_def
  by (intro keeps_conj modules.keeps_update keeps_other(2); simp add: module_clash_def assms)

lemma keeps_keys_slot_update [keeps_intros]:
  assumes "\<And>r. sl_ID (f r) = sl_ID r" and "\<And>r. sl_InternalResourceID (f r) = sl_InternalResourceID r" and "\<And>r. sl_HSMModuleID (f r) = sl_HSMModuleID r" and "\<And>r. sl_Slot (f r) = sl_Slot r" and "\<And>r. sl_ApplicationID (f r) = sl_ApplicationID r"
  shows "keeps keys_ok (sql_update w_slots put_slots sel f)"
  unfolding keys_ok_def
  by (intro keeps_conj slots.keeps_update keeps_other(2); simp add: slot_clash_def assms)

lemma keeps_keys_admin_update [keeps_intros]:
  assumes "\<And>r. ad_ID (f r) = ad_ID r" and "\<And>r. ad_InternalResourceID (f r) = ad_InternalResourceID r"
  shows "keeps keys_ok (sql_update w_admins put_admins sel f)"
  unfolding keys_ok_def
  by (intro keeps_conj admins.keeps_update keeps_other(2); simp add: admin_clash_def assms)

end
