(* ===== verification/Query_Laws.thy ===== *)
theory Query_Laws
  imports Tables "HOL-Library.Multiset"
begin

text \<open>
  The laws of list queries: what reaches the text of a statement, that the parameters of a page are
  bounded, and that the pages of a table hold each of its rows once.
\<close>

section \<open>The text of a statement\<close>

lemma formatComparison_Some:
  "formatComparison col op = Some s \<Longrightarrow> list_all word_char col \<and> s = col @ op @ '':'' @ col"
  by (auto simp: formatComparison_def validateIdentifier_def word_char_def split: if_splits list.splits)

text \<open>
  A filter is rendered exactly when its column is an identifier, and the text it adds to a
  statement is made of letters, digits, underscores and the comparison; an order clause is one of
  four fixed texts.  So no quote, space, comment or separator reaches the statement from a column
  name or a direction.
\<close>

theorem clauses_carry_no_sql:
  "(Filter_ToSQLStmt f = Some s \<longrightarrow> list_all (\<lambda>c. word_char c \<or> c \<in> set ''<=>:'') s) \<and>
   (Order_ToSQLStmt d = Some t \<longrightarrow>
      t \<in> {''creation_date ASC'', ''creation_date DESC'', ''last_update ASC'', ''last_update DESC''}) \<and>
   (formatComparison col op = None \<longleftrightarrow> \<not> validateIdentifier col)"
proof (intro conjI impI)
  assume "Filter_ToSQLStmt f = Some s"
  then show "list_all (\<lambda>c. word_char c \<or> c \<in> set ''<=>:'') s"
    by (cases f) (auto dest!: formatComparison_Some simp: list_all_iff)
next
  assume "Order_ToSQLStmt d = Some t"
  then show "t \<in> {''creation_date ASC'', ''creation_date DESC'', ''last_update ASC'', ''last_update DESC''}"
    by (auto simp: Order_ToSQLStmt_def validOrderByOptions_def split: if_splits)
qed (simp add: formatComparison_def)

lemma clauses_carry_no_sql_witness:
  "list_all (\<lambda>c. word_char c \<or> c \<in> set ''<=>:'') ''user_id=:user_id''"
  using clauses_carry_no_sql [of "EqualFilter ''user_id''" "''user_id=:user_id''" undefined undefined "[]" "[]"]
  by (simp add: formatComparison_def validateIdentifier_def word_char_def letter_or_underscore_def)

section \<open>Pages\<close>

lemma normalized_direction: "NormalizeOrderDirection x = (d, True) \<Longrightarrow> d = OrderAsc \<or> d = OrderDesc"
  by (auto simp: NormalizeOrderDirection_def Let_def split: if_splits)

lemma normalized_order:
  "NormalizeOrderDirection x = (d, True) \<Longrightarrow> col \<in> set validOrderByOptions \<Longrightarrow>
   Order_ToSQLStmt \<lparr>or_By = col, or_Direction = d\<rparr> \<noteq> None"
  by (auto simp: Order_ToSQLStmt_def dest!: normalized_direction)

lemma clamped: "1 \<le> ClampPageLimit limit" "ClampPageLimit limit \<le> 100"
  by (auto simp: ClampPageLimit_def DefaultPageLimit_def MaxPageLimit_def)

lemma mset_order_rows [simp]: "mset (order_rows created updated ord rows) = mset rows"
  by (simp add: order_rows_def Let_def split: option.split)

lemma length_order_rows [simp]: "length (order_rows created updated ord rows) = length rows"
  by (metis mset_order_rows size_mset)

lemma paged_cut:
  assumes "0 < pg_Limit p" and "0 \<le> pg_Offset p"
  shows "co_Items (paged (Some p) (cut_page (Some (p\<lparr>pg_Limit := pg_Limit p + 1\<rparr>)) rows)) =
           take (nat (pg_Limit p)) (drop (nat (pg_Offset p)) rows)"
    and "co_MoreItems (paged (Some p) (cut_page (Some (p\<lparr>pg_Limit := pg_Limit p + 1\<rparr>)) rows)) \<longleftrightarrow>
           pg_Offset p + pg_Limit p < int (length rows)"
proof -
  let ?l = "nat (pg_Limit p)" and ?xs = "drop (nat (pg_Offset p)) rows"
  have lim: "nat (pg_Limit p + 1) = Suc ?l" "pg_Limit p = int ?l" using assms by auto
  define ys where "ys = take (Suc ?l) ?xs"
  have cut: "cut_page (Some (p\<lparr>pg_Limit := pg_Limit p + 1\<rparr>)) rows = ys"
    by (simp add: cut_page_def lim(1) ys_def)
  have "length ys = Suc ?l \<longleftrightarrow> ?l < length ?xs" by (auto simp: ys_def)
  then have more: "int (length ys) = pg_Limit p + 1 \<longleftrightarrow> ?l < length ?xs"
    using lim(2) by linarith
  have ys: "(if ?l < length ?xs then butlast ys else ys) = take ?l ?xs"
    by (auto simp: ys_def butlast_take)
  show "co_Items (paged (Some p) (cut_page (Some (p\<lparr>pg_Limit := pg_Limit p + 1\<rparr>)) rows)) = take ?l ?xs"
    unfolding cut using ys by (simp add: paged_def more)
  have "?l < length ?xs \<longleftrightarrow> pg_Offset p + pg_Limit p < int (length rows)"
    using assms by auto
  then show "co_MoreItems (paged (Some p) (cut_page (Some (p\<lparr>pg_Limit := pg_Limit p + 1\<rparr>)) rows)) \<longleftrightarrow>
      pg_Offset p + pg_Limit p < int (length rows)"
    unfolding cut by (simp add: paged_def more)
qed

lemma concat_pages:
  "concat (map (\<lambda>k. take l (drop (k * l) rows)) [0..<n]) = take (n * l) rows"
proof (induction n)
  case (Suc n)
  have "take (Suc n * l) rows = take (n * l) rows @ take l (drop (n * l) rows)"
    using take_add [of "n * l" l rows] by (simp add: add.commute)
  then show ?case using Suc by simp
qed simp

text \<open>
  The query of an \<open>All\<close> method, on a database that works: it gives the page at its offset and says
  rightly whether there are more rows.
\<close>

lemma list_query_page:
  fixes created updated :: "'r \<Rightarrow> int" and tab :: "'d world \<Rightarrow> 'r list" and sel :: "'r \<Rightarrow> bool"
  assumes "w_faults w = []" and "0 < pg_Limit p" and "0 \<le> pg_Offset p"
    and "Order_ToSQLStmt d \<noteq> None" and "list_all (\<lambda>f. Filter_ToSQLStmt f \<noteq> None) fs"
  defines "q \<equiv> \<lparr>qu_Order = Some d, qu_Filters = fs, qu_Pagination = Some p\<rparr>"
    and "all \<equiv> order_rows created updated (Some d) (filter sel (tab w))"
  obtains rows where "sql_list created updated tab (one_more q) sel w = (Inr rows, w)"
    and "co_Items (paged (Some p) rows) = take (nat (pg_Limit p)) (drop (nat (pg_Offset p)) all)"
    and "co_MoreItems (paged (Some p) rows) \<longleftrightarrow> pg_Offset p + pg_Limit p < int (length all)"
proof -
  have "sql_list created updated tab (one_more q) sel w =
      (Inr (cut_page (Some (p\<lparr>pg_Limit := pg_Limit p + 1\<rparr>)) all), w)"
    using assms by (subst sql_list_quiet) (simp_all add: one_more_def q_def all_def)
  then show thesis using that paged_cut [OF assms(2,3)] by blast
qed



end
