(* ===== verification/Referential_Integrity.thy ===== *)
theory Referential_Integrity
  imports Tables Hex_Types
begin

text \<open>
  The entries that record which resource depends on which:
  \<open>app/pkg/adapters/storage/postgres/referentialintegritydbout\<close>, its infrastructure in
  \<open>app/pkg/infra/storage/referentialintegritydb\<close> and the use case
  \<open>app/pkg/usecases/referentialintegrity\<close>.
\<close>

section \<open>Data\<close>

definition KindAccount :: string where "KindAccount = ''account''"
definition KindApplication :: string where "KindApplication = ''application''"
definition KindHSMModule :: string where "KindHSMModule = ''hardware_security_module''"
definition KindHSMSlot :: string where "KindHSMSlot = ''hardware_security_module_slot''"
definition KindUser :: string where "KindUser = ''user''"
definition KindAdmin :: string where "KindAdmin = ''admin''"

lemmas kind_defs = KindAccount_def KindApplication_def KindHSMModule_def KindHSMSlot_def KindUser_def KindAdmin_def

record ReferentialIntegrityEntry =
  re_ID :: string
  re_CreationDate :: int
  re_LastUpdate :: int
  re_ResourceID :: string
  re_ResourceKind :: string
  re_ParentResourceID :: string
  re_ParentResourceKind :: string

section \<open>The output adapter\<close>

definition mapTypeToDB :: "string \<Rightarrow> go_error + string" where
  "mapTypeToDB resourceKind =
     (if resourceKind = KindAccount then Inr ''account''
      else if resourceKind = KindApplication then Inr ''application''
      else if resourceKind = KindHSMModule then Inr ''hardware_security_module''
      else if resourceKind = KindHSMSlot then Inr ''hardware_security_module_slot''
      else if resourceKind = KindUser then Inr ''user''
      else Inl Internal)"

definition mapTypeFromDB :: "string \<Rightarrow> go_error + string" where
  "mapTypeFromDB resourceKind =
     (if resourceKind = ''account'' then Inr KindAccount
      else if resourceKind = ''application'' then Inr KindApplication
      else if resourceKind = ''hardware_security_module'' then Inr KindHSMModule
      else if resourceKind = ''hardware_security_module_slot'' then Inr KindHSMSlot
      else if resourceKind = ''user'' then Inr KindUser
      else Inl Internal)"

definition entry_mapToCreateDB :: "ReferentialIntegrityEntry \<Rightarrow> go_error + ReferentialIntegrityEntryDB" where
  "entry_mapToCreateDB entry =
     (if length (re_ID entry) = 0 then Inl Internal
      else if length (re_ResourceID entry) = 0 then Inl Internal
      else if length (re_ResourceKind entry) = 0 then Inl Internal
      else if length (re_ParentResourceID entry) = 0 then Inl Internal
      else if length (re_ParentResourceKind entry) = 0 then Inl Internal
      else case mapTypeToDB (re_ResourceKind entry) of
        Inl mapErr \<Rightarrow> Inl mapErr
      | Inr resourceKind \<Rightarrow>
          (case mapTypeToDB (re_ParentResourceKind entry) of
             Inl mapErr \<Rightarrow> Inl mapErr
           | Inr parentResourceKind \<Rightarrow>
               Inr \<lparr>ri_ID = re_ID entry, ri_ResourceID = re_ResourceID entry, ri_ResourceKind = resourceKind,
                    ri_ParentResourceID = re_ParentResourceID entry,
                    ri_ParentResourceKind = parentResourceKind,
                    ri_CreationDate = re_CreationDate entry, ri_LastUpdate = re_LastUpdate entry\<rparr>))"

definition entry_mapFromDB :: "ReferentialIntegrityEntryDB \<Rightarrow> go_error + ReferentialIntegrityEntry" where
  "entry_mapFromDB db =
     (if length (ri_ID db) = 0 then Inl Internal
      else if length (ri_ResourceID db) = 0 then Inl Internal
      else if length (ri_ResourceKind db) = 0 then Inl Internal
      else if length (ri_ParentResourceID db) = 0 then Inl Internal
      else if length (ri_ParentResourceKind db) = 0 then Inl Internal
      else case mapTypeFromDB (ri_ResourceKind db) of
        Inl mapErr \<Rightarrow> Inl mapErr
      | Inr resourceKind \<Rightarrow>
          (case mapTypeFromDB (ri_ParentResourceKind db) of
             Inl mapErr \<Rightarrow> Inl mapErr
           | Inr parentResourceKind \<Rightarrow>
               Inr \<lparr>re_ID = ri_ID db, re_CreationDate = ri_CreationDate db, re_LastUpdate = ri_LastUpdate db,
                    re_ResourceID = ri_ResourceID db, re_ResourceKind = resourceKind,
                    re_ParentResourceID = ri_ParentResourceID db,
                    re_ParentResourceKind = parentResourceKind\<rparr>))"

definition entry_infra_Get :: "string \<Rightarrow> ('d world, ReferentialIntegrityEntryDB list) prog" where
  "entry_infra_Get ident = sql_select w_entries (\<lambda>r. ri_ID r = ident)"

definition entry_infra_Add ::
    "ReferentialIntegrityEntryDB \<Rightarrow> ('d world, ReferentialIntegrityEntryDB) prog" where
  "entry_infra_Add db =
     bindP (sql_insert w_entries put_entries entry_clash db) (\<lambda>_.
     bindP (entry_infra_Get (ri_ID db)) (\<lambda>result.
     if length result = 0 then throwP ps_NewEntryNotAddedError else returnP (result ! 0)))"

definition entry_infra_Remove :: "string \<Rightarrow> ('d world, nat) prog" where
  "entry_infra_Remove ident = sql_delete w_entries put_entries (\<lambda>r. ri_ID r = ident)"

definition entry_infra_RemoveAllFromResource :: "string \<Rightarrow> string \<Rightarrow> ('d world, nat) prog" where
  "entry_infra_RemoveAllFromResource resourceID resourceKind =
     sql_delete w_entries put_entries (\<lambda>r. ri_ResourceID r = resourceID \<and> ri_ResourceKind r = resourceKind)"

text \<open>A filter is the row with the values to compare with, and the query.\<close>

record entry_filter =
  ef_Values :: ReferentialIntegrityEntryDB
  ef_Query :: query

definition entry_column :: "string \<Rightarrow> ReferentialIntegrityEntryDB \<Rightarrow> string" where
  "entry_column col r =
     (if col = ''resource_id'' then ri_ResourceID r
      else if col = ''resource_kind'' then ri_ResourceKind r
      else if col = ''parent_resource_id'' then ri_ParentResourceID r
      else if col = ''parent_resource_kind'' then ri_ParentResourceKind r
      else ri_ID r)"

definition entry_Filter :: entry_filter where
  "entry_Filter =
     \<lparr>ef_Values = \<lparr>ri_ID = [], ri_ResourceID = [], ri_ResourceKind = [], ri_ParentResourceID = [],
        ri_ParentResourceKind = [], ri_CreationDate = 0, ri_LastUpdate = 0\<rparr>, ef_Query = no_query\<rparr>"

definition entry_FilterByParent :: "string \<Rightarrow> string \<Rightarrow> entry_filter \<Rightarrow> entry_filter" where
  "entry_FilterByParent pid pkind f =
     f\<lparr>ef_Values := (ef_Values f)\<lparr>ri_ParentResourceID := pid, ri_ParentResourceKind := pkind\<rparr>,
       ef_Query := (ef_Query f)\<lparr>qu_Filters := qu_Filters (ef_Query f) @
         [EqualFilter ''parent_resource_id'', EqualFilter ''parent_resource_kind'']\<rparr>\<rparr>"

definition entry_FilterByResource :: "string \<Rightarrow> string \<Rightarrow> entry_filter \<Rightarrow> entry_filter" where
  "entry_FilterByResource rid rkind f =
     f\<lparr>ef_Values := (ef_Values f)\<lparr>ri_ResourceID := rid, ri_ResourceKind := rkind\<rparr>,
       ef_Query := (ef_Query f)\<lparr>qu_Filters := qu_Filters (ef_Query f) @
         [EqualFilter ''resource_id'', EqualFilter ''resource_kind'']\<rparr>\<rparr>"

definition entry_OrderBy :: "string \<Rightarrow> string \<Rightarrow> entry_filter \<Rightarrow> entry_filter" where
  "entry_OrderBy col direction f =
     f\<lparr>ef_Query := (ef_Query f)\<lparr>qu_Order := Some \<lparr>or_By = col, or_Direction = direction\<rparr>\<rparr>\<rparr>"

definition entry_Paged :: "int \<Rightarrow> int \<Rightarrow> entry_filter \<Rightarrow> entry_filter" where
  "entry_Paged limit offset f =
     f\<lparr>ef_Query := (ef_Query f)\<lparr>qu_Pagination := Some \<lparr>pg_Limit = limit, pg_Offset = offset\<rparr>\<rparr>\<rparr>"

definition entry_infra_All :: "entry_filter \<Rightarrow> ('d world, ReferentialIntegrityEntryDB list) prog" where
  "entry_infra_All f =
     sql_list ri_CreationDate ri_LastUpdate w_entries (ef_Query f)
       (selects entry_column (ef_Values f) (qu_Filters (ef_Query f)))"

definition entry_Add :: "ReferentialIntegrityEntry \<Rightarrow> ('d world, ReferentialIntegrityEntry) prog" where
  "entry_Add data =
     bindP (onErrP (liftP (entry_mapToCreateDB data)) InternalFromErr) (\<lambda>db.
     bindP (onErrP (entry_infra_Add db) mapPersistenceErrorToSignerError) (\<lambda>entryDB.
     onErrP (liftP (entry_mapFromDB entryDB)) InternalFromErr))"

definition entry_Get :: "string \<Rightarrow> ('d world, ReferentialIntegrityEntry) prog" where
  "entry_Get ident =
     bindP (onErrP (entry_infra_Get ident) mapPersistenceErrorToSignerError) (\<lambda>storageData.
     liftP (single_row entry_mapFromDB storageData))"

definition entry_Remove :: "string \<Rightarrow> ('d world, ReferentialIntegrityEntry) prog" where
  "entry_Remove ident =
     bindP (entry_Get ident) (\<lambda>storageData.
     bindP (onErrP (entry_infra_Remove ident) mapPersistenceErrorToSignerError) (\<lambda>_.
     returnP storageData))"

definition entry_All :: "entry_filter \<Rightarrow> ('d world, ReferentialIntegrityEntry collection) prog" where
  "entry_All f =
     bindP (onErrP (entry_infra_All (f\<lparr>ef_Query := one_more (ef_Query f)\<rparr>)) mapPersistenceErrorToSignerError)
       (\<lambda>storageData. liftP (mapped_page entry_mapFromDB (qu_Pagination (ef_Query f)) storageData))"

definition entry_RemoveAllFromResource ::
    "string \<Rightarrow> string \<Rightarrow> ('d world, ReferentialIntegrityEntry collection) prog" where
  "entry_RemoveAllFromResource resourceID resourceKind =
     bindP (entry_All (entry_FilterByResource resourceID resourceKind entry_Filter)) (\<lambda>storageData.
     bindP (onErrP (entry_infra_RemoveAllFromResource resourceID resourceKind)
              mapPersistenceErrorToSignerError) (\<lambda>_.
     returnP storageData))"

section \<open>The use case\<close>

definition ri_invalid :: go_error where
  "ri_invalid =
     SetHumanReadableMessage ''input data is not valid'' (InvalidArgumentFromErr (PlainError ''govalidator''))"

definition CreateEntry ::
    "env \<Rightarrow> string \<Rightarrow> string \<Rightarrow> string \<Rightarrow> string \<Rightarrow> ('d world, ReferentialIntegrityEntry) prog" where
  "CreateEntry en resourceID resourceKind parentResourceID parentResourceKind =
     bindP (checkP (e_validate en [(''required'', resourceID), (''required'', resourceKind),
       (''required'', parentResourceID), (''required'', parentResourceKind)]) ri_invalid) (\<lambda>_.
     bindP (timeNow en) (\<lambda>currentTime.
     bindP (newUUID en) (\<lambda>ident.
     onErrP (entry_Add
       \<lparr>re_ID = ident, re_CreationDate = currentTime, re_LastUpdate = currentTime,
        re_ResourceID = resourceID, re_ResourceKind = resourceKind,
        re_ParentResourceID = parentResourceID, re_ParentResourceKind = parentResourceKind\<rparr>)
       (\<lambda>err. if IsAlreadyExists err then AlreadyExistsFromErr err else InternalFromErr err))))"

definition GetEntry :: "env \<Rightarrow> string \<Rightarrow> ('d world, ReferentialIntegrityEntry) prog" where
  "GetEntry en ident =
     bindP (checkP (e_validate en [(''required,maxstringlength(64)'', ident)]) ri_invalid) (\<lambda>_.
     onErrP (entry_Get ident) (\<lambda>err. if IsNotFound err then NotFoundFromErr err else InternalFromErr err))"

record Resource =
  rs_ResourceID :: string
  rs_ResourceKind :: string

record ListEntriesInput =
  le_Resource :: "Resource option"
  le_Parent :: "Resource option"
  le_PageLimit :: int
  le_PageOffset :: int
  le_OrderDirection :: string

definition resource_fields :: "Resource option \<Rightarrow> (string \<times> string) list" where
  "resource_fields r =
     (case r of None \<Rightarrow> [] | Some x \<Rightarrow> [(''required'', rs_ResourceID x), (''required'', rs_ResourceKind x)])"

definition ListEntries ::
    "env \<Rightarrow> ListEntriesInput \<Rightarrow> ('d world, ReferentialIntegrityEntry collection) prog" where
  "ListEntries en input =
     bindP (checkP (e_validate en (resource_fields (le_Resource input) @ resource_fields (le_Parent input) @
       [(''natural'', Int256_String (le_PageLimit input)), (''natural'', Int256_String (le_PageOffset input))]))
       ri_invalid) (\<lambda>_.
     case NormalizeOrderDirection (DefaultString (le_OrderDirection input) OrderDesc) of
       (direction, validDirection) \<Rightarrow>
         bindP (checkP validDirection (invalid_direction (le_OrderDirection input))) (\<lambda>_.
         let f = entry_Paged (ClampPageLimit (le_PageLimit input)) (le_PageOffset input)
               (entry_OrderBy ''creation_date'' direction entry_Filter);
             f = (case le_Resource input of None \<Rightarrow> f
                  | Some r \<Rightarrow> entry_FilterByResource (rs_ResourceID r) (rs_ResourceKind r) f);
             f = (case le_Parent input of None \<Rightarrow> f
                  | Some r \<Rightarrow> entry_FilterByParent (rs_ResourceID r) (rs_ResourceKind r) f)
         in onErrP (entry_All f) InternalFromErr))"

definition DeleteEntry :: "env \<Rightarrow> string \<Rightarrow> ('d world, ReferentialIntegrityEntry) prog" where
  "DeleteEntry en ident =
     bindP (checkP (e_validate en [(''required,maxstringlength(64)'', ident)]) ri_invalid) (\<lambda>_.
     onErrP (entry_Remove ident) (\<lambda>err. if IsNotFound err then NotFoundFromErr err else InternalFromErr err))"

definition ListMyChildrenEntries ::
    "env \<Rightarrow> string \<Rightarrow> string \<Rightarrow> ('d world, ReferentialIntegrityEntry collection) prog" where
  "ListMyChildrenEntries en parentResourceID parentResourceKind =
     bindP (checkP (e_validate en [(''required'', parentResourceID), (''required'', parentResourceKind)])
       ri_invalid) (\<lambda>_.
     onErrP (entry_All (entry_FilterByParent parentResourceID parentResourceKind
       (entry_OrderBy ''creation_date'' OrderDesc entry_Filter))) InternalFromErr)"

definition DeleteMyEntriesIfAny :: "env \<Rightarrow> string \<Rightarrow> string \<Rightarrow> ('d world, unit) prog" where
  "DeleteMyEntriesIfAny en resourceID resourceKind =
     bindP (checkP (e_validate en [(''required'', resourceID), (''required'', resourceKind)]) ri_invalid) (\<lambda>_.
     bindP (onErrP (entry_RemoveAllFromResource resourceID resourceKind) InternalFromErr) (\<lambda>_.
     returnP ()))"

text \<open>The entry that is returned is the empty one, not the one found.\<close>

definition GetEntryByResourceAndParent ::
    "env \<Rightarrow> string \<Rightarrow> string \<Rightarrow> string \<Rightarrow> string \<Rightarrow> ('d world, ReferentialIntegrityEntry) prog" where
  "GetEntryByResourceAndParent en resourceID resourceKind parentResourceID parentResourceKind =
     bindP (checkP (e_validate en [(''required'', resourceID), (''required'', resourceKind),
       (''required'', parentResourceID), (''required'', parentResourceKind)]) ri_invalid) (\<lambda>_.
     bindP (onErrP (entry_All (entry_FilterByResource resourceID resourceKind
       (entry_FilterByParent parentResourceID parentResourceKind entry_Filter))) InternalFromErr) (\<lambda>allOutput.
     if length (co_Items allOutput) < 1 then throwP NotFound
     else returnP \<lparr>re_ID = [], re_CreationDate = 0, re_LastUpdate = 0, re_ResourceID = [], re_ResourceKind = [],
                   re_ParentResourceID = [], re_ParentResourceKind = []\<rparr>))"

text \<open>
  What the \<open>removeAll...Dependencies\<close> functions of the use cases do once they have the internal
  identifier of the resource: refuse when an entry names it as a parent, drop its own entries
  otherwise.
\<close>

definition depending :: "string \<Rightarrow> go_error" where
  "depending what =
     SetHumanReadableMessage (what @ '' can't be removed, there are elements depending on it'') PreconditionFailed"

definition removeEntries :: "env \<Rightarrow> string \<Rightarrow> string \<Rightarrow> string \<Rightarrow> ('d world, unit) prog" where
  "removeEntries en internalResourceID kind what =
     bindP (ListMyChildrenEntries en internalResourceID kind) (\<lambda>children.
     bindP (checkP (length (co_Items children) = 0) (depending what)) (\<lambda>_.
     DeleteMyEntriesIfAny en internalResourceID kind))"

section \<open>Reading\<close>

lemma keeps_still_entry_Get [keeps_intros]: "keeps (still w0) (entry_Get ident)"
  unfolding entry_Get_def entry_infra_Get_def by (intro keeps_intros)

lemma keeps_still_entry_All [keeps_intros]: "keeps (still w0) (entry_All f)"
  unfolding entry_All_def entry_infra_All_def by (intro keeps_intros)

lemma keeps_still_GetEntry [keeps_intros]: "keeps (still w0) (GetEntry en ident)"
  unfolding GetEntry_def by (intro keeps_intros)

lemma keeps_still_ListMyChildrenEntries [keeps_intros]: "keeps (still w0) (ListMyChildrenEntries en p k)"
  unfolding ListMyChildrenEntries_def by (intro keeps_intros)

lemma keeps_still_ListEntries [keeps_intros]: "keeps (still w0) (ListEntries en input)"
  unfolding ListEntries_def Let_def by (intro keeps_intros)

lemma by_parent [simp]:
  "ef_Query (entry_FilterByParent p k f) =
     (ef_Query f)\<lparr>qu_Filters := qu_Filters (ef_Query f) @
       [EqualFilter ''parent_resource_id'', EqualFilter ''parent_resource_kind'']\<rparr>"
  "ef_Values (entry_FilterByParent p k f) =
     (ef_Values f)\<lparr>ri_ParentResourceID := p, ri_ParentResourceKind := k\<rparr>"
  by (simp_all add: entry_FilterByParent_def)

lemma by_resource [simp]:
  "ef_Query (entry_FilterByResource p k f) =
     (ef_Query f)\<lparr>qu_Filters := qu_Filters (ef_Query f) @
       [EqualFilter ''resource_id'', EqualFilter ''resource_kind'']\<rparr>"
  "ef_Values (entry_FilterByResource p k f) =
     (ef_Values f)\<lparr>ri_ResourceID := p, ri_ResourceKind := k\<rparr>"
  by (simp_all add: entry_FilterByResource_def)

lemma order_by [simp]:
  "ef_Query (entry_OrderBy col d f) = (ef_Query f)\<lparr>qu_Order := Some \<lparr>or_By = col, or_Direction = d\<rparr>\<rparr>"
  "ef_Values (entry_OrderBy col d f) = ef_Values f"
  by (simp_all add: entry_OrderBy_def)

lemma entry_Filter_simps [simp]:
  "qu_Filters (ef_Query entry_Filter) = []" "qu_Order (ef_Query entry_Filter) = None"
  "qu_Pagination (ef_Query entry_Filter) = None"
  by (simp_all add: entry_Filter_def no_query_def)

lemma literal_columns [simp]:
  "formatComparison ''parent_resource_id'' ''='' = Some ''parent_resource_id=:parent_resource_id''"
  "formatComparison ''parent_resource_kind'' ''='' = Some ''parent_resource_kind=:parent_resource_kind''"
  "formatComparison ''resource_id'' ''='' = Some ''resource_id=:resource_id''"
  "formatComparison ''resource_kind'' ''='' = Some ''resource_kind=:resource_kind''"
  "Order_ToSQLStmt \<lparr>or_By = ''creation_date'', or_Direction = OrderDesc\<rparr> = Some ''creation_date DESC''"
  by (simp_all add: formatComparison_def validateIdentifier_def word_char_def letter_or_underscore_def
      Order_ToSQLStmt_def validOrderByOptions_def OrderAsc_def OrderDesc_def)

lemma one_more_simps [simp]:
  "qu_Filters (one_more q) = qu_Filters q" "qu_Order (one_more q) = qu_Order q"
  "qu_Pagination (one_more q) = map_option (\<lambda>p. p\<lparr>pg_Limit := pg_Limit p + 1\<rparr>) (qu_Pagination q)"
  by (simp_all add: one_more_def)

lemma mapped_page_items: "mapped_page f page rows = Inr c \<Longrightarrow> length (co_Items c) = length (co_Items (paged page rows))"
  by (auto simp: mapped_page_def with_items_def mapSliceFromDB_Inr dest: map_eq_imp_length_eq split: sum.splits)

lemma order_rows_Nil [simp]: "order_rows created updated ord rows = [] \<longleftrightarrow> rows = []"
  by (auto simp: order_rows_def Let_def split: option.splits) (metis length_0_conv length_sort)+

lemma ListMyChildrenEntries_Inr:
  assumes "w_faults w = []" and run: "ListMyChildrenEntries en pid pkind w = (Inr c, w')"
  shows "w' = w \<and> (co_Items c = [] \<longleftrightarrow>
    (\<forall>e\<in>set (w_entries w). \<not> (ri_ParentResourceID e = pid \<and> ri_ParentResourceKind e = pkind)))"
proof
  show "w' = w" by (rule still_eq [OF keeps_still_ListMyChildrenEntries assms])
  let ?f = "entry_FilterByParent pid pkind (entry_OrderBy ''creation_date'' OrderDesc entry_Filter)"
  let ?sel = "selects entry_column (ef_Values ?f) (qu_Filters (ef_Query ?f))"
  obtain rows where rows: "entry_infra_All (?f\<lparr>ef_Query := one_more (ef_Query ?f)\<rparr>) w = (Inr rows, w')"
    and page: "mapped_page entry_mapFromDB None rows = Inr c"
    using run by (auto simp: ListMyChildrenEntries_def entry_All_def prog_ok)
  have "rows = order_rows ri_CreationDate ri_LastUpdate (Some \<lparr>or_By = ''creation_date'', or_Direction = OrderDesc\<rparr>)
      (filter ?sel (w_entries w))"
    using rows assms(1) by (auto simp: entry_infra_All_def sql_list_quiet cut_page_def)
  moreover have "?sel e \<longleftrightarrow> ri_ParentResourceID e = pid \<and> ri_ParentResourceKind e = pkind" for e
    by (simp add: selects_def entry_column_def)
  moreover have "co_Items c = [] \<longleftrightarrow> rows = []"
    using mapped_page_items [OF page] by (simp add: paged_def NewUnlimitedQueryStandardCollectionPage_def flip: length_0_conv)
  ultimately show "co_Items c = [] \<longleftrightarrow>
      (\<forall>e\<in>set (w_entries w). \<not> (ri_ParentResourceID e = pid \<and> ri_ParentResourceKind e = pkind))"
    by (simp add: filter_empty_conv)
qed

section \<open>Writing\<close>

definition valid_kind :: "string \<Rightarrow> bool" where
  "valid_kind k \<longleftrightarrow> k \<in> {KindAccount, KindApplication, KindHSMModule, KindHSMSlot, KindUser}"

lemma valid_kind_maps:
  assumes "valid_kind k" shows "mapTypeToDB k = Inr k" and "mapTypeFromDB k = Inr k" and "k \<noteq> []"
  using assms by (auto simp: valid_kind_def mapTypeToDB_def mapTypeFromDB_def kind_defs)

text \<open>The row of an entry, and the world once the identifier and the time of one were drawn.\<close>

definition new_entry :: "env \<Rightarrow> 'd world \<Rightarrow> string \<Rightarrow> string \<Rightarrow> string \<Rightarrow> string \<Rightarrow> ReferentialIntegrityEntryDB" where
  "new_entry en w r k p pk =
     \<lparr>ri_ID = e_uuid en (w_uuids w), ri_ResourceID = r, ri_ResourceKind = k, ri_ParentResourceID = p,
      ri_ParentResourceKind = pk, ri_CreationDate = e_clock en (w_ticks w),
      ri_LastUpdate = e_clock en (w_ticks w)\<rparr>"

definition drawn :: "'d world \<Rightarrow> 'd world" where
  "drawn w = w\<lparr>w_ticks := Suc (w_ticks w), w_uuids := Suc (w_uuids w)\<rparr>"

lemma drawn_simps [simp]:
  "w_entries (drawn w) = w_entries w" "w_applications (drawn w) = w_applications w"
  "w_users (drawn w) = w_users w" "w_accounts (drawn w) = w_accounts w"
  "w_faults (drawn w) = w_faults w" "w_uuids (drawn w) = Suc (w_uuids w)"
  "w_modules (drawn w) = w_modules w" "w_slots (drawn w) = w_slots w" "w_admins (drawn w) = w_admins w"
  "w_devices (drawn w) = w_devices w"
  by (simp_all add: drawn_def)

lemma entry_infra_Add_quiet:
  assumes "w_faults w = []"
  shows "entry_infra_Add row w =
     (if \<exists>x\<in>set (w_entries w). entry_clash x row then (Inl ps_NewAlreadyExistsError, w)
      else (Inr row, put_entries (w_entries w @ [row]) w))"
proof (cases "\<exists>x\<in>set (w_entries w). entry_clash x row")
  case False
  then have "filter (\<lambda>r. ri_ID r = ri_ID row) (w_entries w) = []"
    by (auto simp: entry_clash_def filter_empty_conv)
  then show ?thesis
    using False assms
    by (simp add: entry_infra_Add_def entry_infra_Get_def bindP_def quiet_simps returnP_def)
qed (use assms in \<open>simp add: entry_infra_Add_def bindP_def quiet_simps\<close>)

lemma CreateEntry_quiet:
  assumes "w_faults w = []" and "r \<noteq> []" "p \<noteq> []" "e_uuid en (w_uuids w) \<noteq> []"
    and "valid_kind k" "valid_kind pk"
    and "e_validate en [(''required'', r), (''required'', k), (''required'', p), (''required'', pk)]"
  shows "CreateEntry en r k p pk w =
     (if \<exists>x\<in>set (w_entries w). entry_clash x (new_entry en w r k p pk)
      then (Inl (AlreadyExistsFromErr (AlreadyExistsFromErr ps_NewAlreadyExistsError)), drawn w)
      else (Inr \<lparr>re_ID = e_uuid en (w_uuids w), re_CreationDate = e_clock en (w_ticks w),
                 re_LastUpdate = e_clock en (w_ticks w), re_ResourceID = r, re_ResourceKind = k,
                 re_ParentResourceID = p, re_ParentResourceKind = pk\<rparr>,
            put_entries (w_entries w @ [new_entry en w r k p pk]) (drawn w)))"
  using assms valid_kind_maps [OF assms(5)] valid_kind_maps [OF assms(6)]
  by (simp add: CreateEntry_def entry_Add_def prog_defs newUUID_def timeNow_def entry_mapToCreateDB_def
      entry_mapFromDB_def entry_infra_Add_quiet new_entry_def mapPersistenceErrorToSignerError_def
      ps_IsAlreadyExists_def ps_NewAlreadyExistsError_def IsAlreadyExists_def AlreadyExistsFromErr_def
      public_is_def drawn_def)

lemma CreateEntry_invalid:
  assumes "\<not> e_validate en [(''required'', r), (''required'', k), (''required'', p), (''required'', pk)]"
  shows "CreateEntry en r k p pk w = (Inl ri_invalid, w)"
  using assms by (simp add: CreateEntry_def prog_defs)

lemma DeleteMyEntriesIfAny_cases:
  assumes "w_faults w = []" and run: "DeleteMyEntriesIfAny en r k w = (res, w')"
  shows "(w' = w \<and> (\<exists>e. res = Inl e)) \<or>
     (res = Inr () \<and> w' = put_entries (filter (\<lambda>x. \<not> (ri_ResourceID x = r \<and> ri_ResourceKind x = k)) (w_entries w)) w)"
proof (cases "e_validate en [(''required'', r), (''required'', k)]")
  case True
  let ?all = "entry_All (entry_FilterByResource r k entry_Filter)"
  obtain x where x: "?all w = (x, w)"
    using still_snd [OF keeps_still_entry_All assms(1)] by (metis prod.collapse)
  show ?thesis
    using run True x assms(1)
    by (cases x) (auto simp: DeleteMyEntriesIfAny_def entry_RemoveAllFromResource_def
        entry_infra_RemoveAllFromResource_def prog_defs quiet_simps)
qed (use run in \<open>auto simp: DeleteMyEntriesIfAny_def prog_defs\<close>)

text \<open>The entries by which other resources depend on one, and its own entries.\<close>

definition depends_on :: "string \<Rightarrow> string \<Rightarrow> ReferentialIntegrityEntryDB \<Rightarrow> bool" where
  "depends_on internal kind e \<longleftrightarrow> ri_ParentResourceID e = internal \<and> ri_ParentResourceKind e = kind"

definition entry_of :: "string \<Rightarrow> string \<Rightarrow> ReferentialIntegrityEntryDB \<Rightarrow> bool" where
  "entry_of internal kind e \<longleftrightarrow> ri_ResourceID e = internal \<and> ri_ResourceKind e = kind"

lemma removeEntries_Inr:
  assumes quiet: "w_faults w = []" and run: "removeEntries en internal kind what w = (Inr u, w')"
  shows "(\<forall>e\<in>set (w_entries w). \<not> depends_on internal kind e) \<and>
    w' = put_entries (filter (\<lambda>e. \<not> entry_of internal kind e) (w_entries w)) w"
proof -
  obtain c w2 where children: "ListMyChildrenEntries en internal kind w = (Inr c, w2)"
    and none: "co_Items c = []" and del: "DeleteMyEntriesIfAny en internal kind w2 = (Inr u, w')"
    using run by (auto simp: removeEntries_def prog_ok)
  have kids: "w2 = w" "\<forall>e\<in>set (w_entries w). \<not> depends_on internal kind e"
    using ListMyChildrenEntries_Inr [OF quiet children] none by (auto simp: depends_on_def)
  then show ?thesis using DeleteMyEntriesIfAny_cases [OF _ del] quiet by (auto simp: entry_of_def)
qed

text \<open>The check reads only, so a refusal leaves the world as it is.\<close>

lemma removeEntries_refused:
  assumes quiet: "w_faults w = []" and dep: "x \<in> set (w_entries w)" "depends_on internal kind x"
  shows "\<exists>e. removeEntries en internal kind what w = (Inl e, w)"
proof -
  obtain c where c: "ListMyChildrenEntries en internal kind w = (c, w)"
    using still_snd [OF keeps_still_ListMyChildrenEntries quiet] by (metis prod.collapse)
  show ?thesis
  proof (cases c)
    case (Inr children)
    then have "co_Items children \<noteq> []"
      using ListMyChildrenEntries_Inr [OF quiet, of en _ _ children w] c dep by (auto simp: depends_on_def)
    then show ?thesis using c Inr by (simp add: removeEntries_def prog_defs)
  qed (use c in \<open>simp add: removeEntries_def prog_defs\<close>)
qed

lemma removeEntries_Inl:
  assumes quiet: "w_faults w = []" and run: "removeEntries en internal kind what w = (Inl e, w')"
  shows "w' = w"
proof -
  obtain c where c: "ListMyChildrenEntries en internal kind w = (c, w)"
    using still_snd [OF keeps_still_ListMyChildrenEntries quiet] by (metis prod.collapse)
  show ?thesis
  proof (cases c)
    case (Inr children)
    then show ?thesis
      using run c DeleteMyEntriesIfAny_cases [OF quiet, of en internal kind "Inl e" w']
      by (cases "co_Items children = []") (auto simp: removeEntries_def prog_defs)
  qed (use run c in \<open>simp add: removeEntries_def prog_defs\<close>)
qed

end
