(* ===== verification/Applications.thy ===== *)
theory Applications
  imports Referential_Integrity Query_Laws
begin

text \<open>
  Applications: \<open>app/pkg/infra/storage/applicationdb\<close>,
  \<open>app/pkg/adapters/storage/postgres/applicationdbout\<close> and \<open>app/pkg/usecases/application\<close>.
\<close>

section \<open>Data\<close>

record Application =
  App_ID :: string
  App_InternalResourceID :: string
  App_DefaultChainID :: int
  App_Description :: "string option"
  App_CreationDate :: int
  App_LastUpdate :: int
  App_ResourceVersion :: string

record CreateApplicationInput =
  ca_ID :: "string option"
  ca_ChainID :: int
  ca_Description :: "string option"

record EditApplicationInput =
  ea_ID :: string
  ea_ResourceVersion :: string
  ea_ChainID :: "int option"
  ea_Description :: "string option"

record ListApplicationsInput =
  la_PageLimit :: int
  la_PageOffset :: int
  la_OrderBy :: string
  la_OrderDirection :: string

section \<open>Infrastructure\<close>

definition application_infra_Get :: "string \<Rightarrow> ('d world, ApplicationDB list) prog" where
  "application_infra_Get ident = sql_select w_applications (\<lambda>r. ap_ID r = ident)"

definition application_infra_Add :: "env \<Rightarrow> ApplicationDB \<Rightarrow> ('d world, ApplicationDB) prog" where
  "application_infra_Add en db =
     bindP (newUUID en) (\<lambda>version.
     bindP (sql_insert w_applications put_applications application_clash (db\<lparr>ap_ResourceVersion := version\<rparr>)) (\<lambda>_.
     bindP (application_infra_Get (ap_ID db)) (\<lambda>result.
     if length result = 0 then throwP ps_NewEntryNotAddedError else returnP (result ! 0))))"

definition application_infra_All :: "query \<Rightarrow> ('d world, ApplicationDB list) prog" where
  "application_infra_All q = sql_list ap_CreationDate ap_LastUpdate w_applications q (\<lambda>_. True)"

definition application_infra_Exists :: "string \<Rightarrow> ('d world, unit) prog" where
  "application_infra_Exists ident =
     bindP (sql_select w_applications (\<lambda>r. ap_ID r = ident)) (\<lambda>existsResult.
     checkP (existsResult \<noteq> []) ps_NewNotFoundError)"

definition application_infra_Edit :: "env \<Rightarrow> ApplicationDB \<Rightarrow> ('d world, nat) prog" where
  "application_infra_Edit en db =
     bindP (application_infra_Exists (ap_ID db)) (\<lambda>_.
     bindP (newUUID en) (\<lambda>newResourceVersion.
     sql_update w_applications put_applications
       (\<lambda>r. ap_ID r = ap_ID db \<and> ap_ResourceVersion r = ap_ResourceVersion db)
       (\<lambda>r. r\<lparr>ap_DefaultChainID := ap_DefaultChainID db, ap_Description := ap_Description db,
              ap_LastUpdate := ap_LastUpdate db, ap_ResourceVersion := newResourceVersion\<rparr>)))"

definition application_infra_Remove :: "string \<Rightarrow> ('d world, nat) prog" where
  "application_infra_Remove ident = sql_delete w_applications put_applications (\<lambda>r. ap_ID r = ident)"

section \<open>The output adapter\<close>

definition application_mapToCreateDB :: "Application \<Rightarrow> go_error + ApplicationDB" where
  "application_mapToCreateDB app =
     (if length (App_ID app) = 0 then Inl Internal
      else if length (App_InternalResourceID app) = 0 then Inl Internal
      else Inr \<lparr>ap_ID = App_ID app, ap_InternalResourceID = App_InternalResourceID app,
                ap_DefaultChainID = Int256_String (App_DefaultChainID app),
                ap_Description = App_Description app, ap_CreationDate = App_CreationDate app,
                ap_LastUpdate = App_LastUpdate app, ap_ResourceVersion = []\<rparr>)"

definition application_mapToUpdateDB :: "Application \<Rightarrow> go_error + ApplicationDB" where
  "application_mapToUpdateDB app =
     (if length (App_ID app) = 0 then Inl Internal
      else Inr \<lparr>ap_ID = App_ID app, ap_InternalResourceID = [],
                ap_DefaultChainID = Int256_String (App_DefaultChainID app),
                ap_Description = App_Description app, ap_CreationDate = 0,
                ap_LastUpdate = App_LastUpdate app, ap_ResourceVersion = App_ResourceVersion app\<rparr>)"

definition application_mapFromDB :: "ApplicationDB \<Rightarrow> go_error + Application" where
  "application_mapFromDB db =
     (if length (ap_ID db) = 0 then Inl Internal
      else if length (ap_InternalResourceID db) = 0 then Inl Internal
      else case NewInt256FromString (ap_DefaultChainID db) of
        Inl err \<Rightarrow> Inl Internal
      | Inr defaultChainID \<Rightarrow>
          Inr \<lparr>App_ID = ap_ID db, App_InternalResourceID = ap_InternalResourceID db,
               App_DefaultChainID = defaultChainID,
               App_Description = Some (case ap_Description db of None \<Rightarrow> [] | Some d \<Rightarrow> d),
               App_CreationDate = ap_CreationDate db, App_LastUpdate = ap_LastUpdate db,
               App_ResourceVersion = ap_ResourceVersion db\<rparr>)"

definition application_Add :: "env \<Rightarrow> Application \<Rightarrow> ('d world, Application) prog" where
  "application_Add en data =
     bindP (onErrP (liftP (application_mapToCreateDB data)) InternalFromErr) (\<lambda>db.
     bindP (onErrP (application_infra_Add en db) mapPersistenceErrorToSignerError) (\<lambda>storageData.
     onErrP (liftP (application_mapFromDB storageData)) InternalFromErr))"

definition application_All :: "query \<Rightarrow> ('d world, Application collection) prog" where
  "application_All q =
     bindP (onErrP (application_infra_All (one_more q)) mapPersistenceErrorToSignerError) (\<lambda>storageData.
     liftP (mapped_page application_mapFromDB (qu_Pagination q) storageData))"

definition application_Get :: "string \<Rightarrow> ('d world, Application) prog" where
  "application_Get ident =
     bindP (onErrP (application_infra_Get ident) mapPersistenceErrorToSignerError) (\<lambda>storageData.
     liftP (single_row application_mapFromDB storageData))"

definition application_Edit :: "env \<Rightarrow> Application \<Rightarrow> ('d world, Application) prog" where
  "application_Edit en data =
     bindP (onErrP (liftP (application_mapToUpdateDB data)) InternalFromErr) (\<lambda>db.
     bindP (onErrP (application_infra_Edit en db) mapPersistenceErrorToSignerError) (\<lambda>rowsAffected.
     if rowsAffected = 0 then throwP NotFound
     else if 1 < rowsAffected then throwP Internal
     else onErrP (application_Get (App_ID data)) InternalFromErr))"

definition application_Exists :: "string \<Rightarrow> ('d world, unit) prog" where
  "application_Exists ident = onErrP (application_infra_Exists ident) mapPersistenceErrorToSignerError"

definition application_Remove :: "string \<Rightarrow> ('d world, Application) prog" where
  "application_Remove ident =
     bindP (application_Get ident) (\<lambda>storageData.
     bindP (onErrP (application_infra_Remove ident) mapPersistenceErrorToSignerError) (\<lambda>_.
     returnP storageData))"

definition query_Sort :: "string \<Rightarrow> string \<Rightarrow> query \<Rightarrow> query" where
  "query_Sort col direction q = q\<lparr>qu_Order := Some \<lparr>or_By = col, or_Direction = direction\<rparr>\<rparr>"

definition query_Paged :: "int \<Rightarrow> int \<Rightarrow> query \<Rightarrow> query" where
  "query_Paged limit offset q = q\<lparr>qu_Pagination := Some \<lparr>pg_Limit = limit, pg_Offset = offset\<rparr>\<rparr>"

section \<open>The use case\<close>

definition invalid_data :: "string \<Rightarrow> go_error" where
  "invalid_data msg = SetHumanReadableMessage msg (InvalidArgumentFromErr (PlainError ''govalidator''))"

definition bracketed :: "string \<Rightarrow> string" where
  "bracketed s = ''['' @ s @ '']''"

text \<open>The tag of an identifier of the type \<open>entities.StandardID\<close>.\<close>

definition standard_id :: "string \<Rightarrow> string \<times> string" where
  "standard_id ident = (''required,maxstringlength(64)'', ident)"

definition createToApplication :: "env \<Rightarrow> CreateApplicationInput \<Rightarrow> ('d world, Application) prog" where
  "createToApplication en input =
     bindP (timeNow en) (\<lambda>now.
     bindP (case ca_ID input of None \<Rightarrow> newUUID en | Some ident \<Rightarrow> returnP ident) (\<lambda>ident.
     returnP \<lparr>App_ID = ident, App_InternalResourceID = [], App_DefaultChainID = ca_ChainID input,
              App_Description = ca_Description input, App_CreationDate = now, App_LastUpdate = now,
              App_ResourceVersion = []\<rparr>))"

definition mapEditedValues :: "env \<Rightarrow> EditApplicationInput \<Rightarrow> ('d world, Application) prog" where
  "mapEditedValues en input =
     bindP (timeNow en) (\<lambda>now.
     returnP \<lparr>App_ID = ea_ID input, App_InternalResourceID = [],
              App_DefaultChainID = (case ea_ChainID input of None \<Rightarrow> 0 | Some c \<Rightarrow> c),
              App_Description = ea_Description input, App_CreationDate = 0, App_LastUpdate = now,
              App_ResourceVersion = ea_ResourceVersion input\<rparr>)"

definition CreateApplication :: "env \<Rightarrow> CreateApplicationInput \<Rightarrow> ('d world, Application) prog" where
  "CreateApplication en input =
     bindP (checkP (e_validate en
       ((case ca_ID input of None \<Rightarrow> [] | Some i \<Rightarrow> [(''optional'', i)]) @
        [(''required,chainID'', Int256_String (ca_ChainID input))] @
        (case ca_Description input of None \<Rightarrow> [] | Some d \<Rightarrow> [(''optional'', d)])))
       (invalid_data ''couldn't validate input data'')) (\<lambda>_.
     bindP (createToApplication en input) (\<lambda>appToCreate.
     bindP (newUUID en) (\<lambda>internalResourceID.
     let appToCreate = appToCreate\<lparr>App_InternalResourceID := internalResourceID\<rparr> in
     onErrP (application_Add en appToCreate) (\<lambda>err.
       if IsAlreadyExists err then
         SetHumanReadableMessage (''application '' @ bracketed (App_ID appToCreate) @ '' already exists'')
           (AlreadyExistsFromErr err)
       else InternalFromErr err))))"

text \<open>The page and the order of a list request; ordering by creation is the default.\<close>

definition list_query :: "string \<Rightarrow> string \<Rightarrow> int \<Rightarrow> int \<Rightarrow> query" where
  "list_query direction orderBy limit offset =
     query_Paged (ClampPageLimit limit) offset
       (query_Sort (if orderBy = OrderByLastUpdate then ''last_update'' else ''creation_date'') direction no_query)"

definition ListApplications ::
    "env \<Rightarrow> ListApplicationsInput \<Rightarrow> ('d world, Application collection) prog" where
  "ListApplications en input =
     bindP (checkP (e_validate en [(''natural'', Int256_String (la_PageLimit input)),
         (''natural'', Int256_String (la_PageOffset input))])
       (invalid_data ''couldn't validate input data'')) (\<lambda>_.
     case NormalizeOrderDirection (DefaultString (la_OrderDirection input) OrderDesc) of
       (direction, validDirection) \<Rightarrow>
         bindP (checkP validDirection (invalid_direction (la_OrderDirection input))) (\<lambda>_.
         onErrP (application_All
           (list_query direction (la_OrderBy input) (la_PageLimit input) (la_PageOffset input)))
           InternalFromErr))"

definition application_not_found :: "string \<Rightarrow> go_error \<Rightarrow> go_error" where
  "application_not_found ident err =
     (if IsNotFound err then
        SetHumanReadableMessage (''application '' @ bracketed ident @ '' not found'') (NotFoundFromErr err)
      else InternalFromErr err)"

definition GetApplication :: "env \<Rightarrow> string \<Rightarrow> ('d world, Application) prog" where
  "GetApplication en ident =
     bindP (checkP (e_validate en [standard_id ident]) (invalid_data ''couldn't validate input data'')) (\<lambda>_.
     onErrP (application_Get ident) (application_not_found ident))"

definition EditApplication :: "env \<Rightarrow> EditApplicationInput \<Rightarrow> ('d world, Application) prog" where
  "EditApplication en input =
     bindP (checkP (e_validate en
       ([(''required'', ea_ID input), (''required'', ea_ResourceVersion input)] @
        (case ea_ChainID input of None \<Rightarrow> [] | Some c \<Rightarrow> [(''chainID'', Int256_String c)])))
       (invalid_data ''couldn't validate input data'')) (\<lambda>_.
     bindP (mapEditedValues en input) (\<lambda>app.
     onErrP (application_Edit en app) (application_not_found (ea_ID input))))"

definition removeAllDependencies :: "env \<Rightarrow> string \<Rightarrow> ('d world, unit) prog" where
  "removeAllDependencies en ident =
     bindP (GetApplication en ident) (\<lambda>app.
     removeEntries en (App_InternalResourceID app) KindApplication (''application '' @ CHR 0x27 # ident @ [CHR 0x27]))"

definition DeleteApplication :: "env \<Rightarrow> string \<Rightarrow> ('d world, Application) prog" where
  "DeleteApplication en ident =
     bindP (checkP (e_validate en [standard_id ident]) (invalid_data ''couldn't validate input data'')) (\<lambda>_.
     bindP (removeAllDependencies en ident) (\<lambda>_.
     onErrP (application_Remove ident) (application_not_found ident)))"

section \<open>Chain identifiers in the database\<close>

lemma dec_val_snoc: "dec_val (s @ [c]) = dec_val s * 10 + (of_char c - 48)"
  by (simp add: dec_val_def)

lemma dec_digits_val: "dec_val (dec_digits n) = n"
proof (induction n rule: dec_digits.induct)
  case (1 n)
  show ?case
  proof (cases "n < 10")
    case True
    then show ?thesis by (subst dec_digits.simps) (simp add: dec_val_def)
  next
    case False
    then show ?thesis
      using 1 by (subst dec_digits.simps) (simp add: dec_val_snoc)
  qed
qed

lemma dec_digit_char: "n < 10 \<Longrightarrow> dec_digit (char_of (48 + n :: nat))"
  by (simp add: dec_digit_def Let_def)

lemma dec_digits_digits: "list_all dec_digit (dec_digits n)" "dec_digits n \<noteq> []"
proof (induction n rule: dec_digits.induct)
  case (1 n)
  { case 1 then show ?case
      using "1.IH"(1) by (subst dec_digits.simps) (simp add: dec_digit_char) }
  { case 2 then show ?case by (subst dec_digits.simps) simp }
qed

lemma digit_no_sign: "dec_digit c \<Longrightarrow> c \<noteq> CHR ''-'' \<and> c \<noteq> CHR ''+'' \<and> c \<noteq> CHR ''x'' \<and> c \<noteq> CHR ''X''"
  by (auto simp: dec_digit_def)

lemma big_set_dec: "big_set_string False (dec_digits n) = Some (int n)"
proof -
  obtain c cs where cs: "dec_digits n = c # cs" using dec_digits_digits(2) [of n] by (cases "dec_digits n") auto
  then have "c \<noteq> CHR ''-'' \<and> c \<noteq> CHR ''+''" using dec_digits_digits(1) [of n] digit_no_sign by auto
  then show ?thesis
    using cs dec_digits_digits [of n] dec_digits_val [of n] by (simp add: big_set_string_def Let_def)
qed

lemma dec_digits_no_prefix: "take 2 (dec_digits n) \<noteq> ''0x'' \<and> take 2 (dec_digits n) \<noteq> ''0X''"
  using dec_digits_digits(1) [of n] digit_no_sign by (cases "dec_digits n"; cases "tl (dec_digits n)") auto

lemma Int256_String_parse:
  "NewInt256FromString (Int256_String i) = (if 256 < BitLen i then Inl (HexTooLong (Int256_String i)) else Inr i)"
proof (cases "i < 0")
  case True
  obtain c cs where cs: "dec_digits (nat (- i)) = c # cs"
    using dec_digits_digits(2) by (cases "dec_digits (nat (- i))") auto
  then show ?thesis
    using True dec_digits_digits [of "nat (- i)"] dec_digits_val [of "nat (- i)"]
    by (simp add: NewInt256FromString_def Int256_String_def big_set_string_def Let_def)
next
  case False
  then show ?thesis
    using big_set_dec [of "nat i"] dec_digits_no_prefix [of "nat i"] dec_digits_digits(2) [of "nat i"]
    by (simp add: NewInt256FromString_def Int256_String_def)
qed

section \<open>Reading\<close>

lemma keeps_still_application_Get [keeps_intros]: "keeps (still w0) (application_Get ident)"
  unfolding application_Get_def application_infra_Get_def by (intro keeps_intros)

lemma keeps_still_GetApplication [keeps_intros]: "keeps (still w0) (GetApplication en ident)"
  unfolding GetApplication_def by (intro keeps_intros)

lemma keeps_still_ListApplications [keeps_intros]: "keeps (still w0) (ListApplications en input)"
  unfolding ListApplications_def application_All_def application_infra_All_def by (intro keeps_intros)

lemma application_Get_quiet:
  "w_faults w = [] \<Longrightarrow> application_Get ident w =
     (single_row application_mapFromDB (filter (\<lambda>r. ap_ID r = ident) (w_applications w)), w)"
  by (simp add: application_Get_def application_infra_Get_def prog_defs quiet_simps)

lemma single_row_Inr:
  "single_row f rows = Inr x \<Longrightarrow> \<exists>r. rows = [r] \<and> f r = Inr x"
  by (cases rows) (auto simp: single_row_def split: if_splits sum.splits)

lemma single_row_one: "single_row f [r] = (case f r of Inl err \<Rightarrow> Inl (InternalFromErr err) | Inr x \<Rightarrow> Inr x)"
  by (simp add: single_row_def)

lemma application_mapFromDB_Inr:
  "application_mapFromDB db = Inr a \<Longrightarrow>
     App_ID a = ap_ID db \<and> App_InternalResourceID a = ap_InternalResourceID db \<and> ap_InternalResourceID db \<noteq> [] \<and>
     ap_ID db \<noteq> [] \<and> NewInt256FromString (ap_DefaultChainID db) = Inr (App_DefaultChainID a) \<and>
     App_Description a = Some (case ap_Description db of None \<Rightarrow> [] | Some d \<Rightarrow> d) \<and>
     App_ResourceVersion a = ap_ResourceVersion db"
  unfolding application_mapFromDB_def
  by (cases "ap_ID db"; cases "ap_InternalResourceID db"; cases "NewInt256FromString (ap_DefaultChainID db)") auto

lemma GetApplication_Inr:
  assumes "w_faults w = []" and run: "GetApplication en ident w = (Inr a, w')"
  shows "w' = w \<and> (\<exists>r. filter (\<lambda>r. ap_ID r = ident) (w_applications w) = [r] \<and> application_mapFromDB r = Inr a)"
proof -
  have "application_Get ident w = (Inr a, w')"
    using run by (simp add: GetApplication_def prog_ok)
  then have "single_row application_mapFromDB (filter (\<lambda>r. ap_ID r = ident) (w_applications w)) = Inr a" "w' = w"
    unfolding application_Get_quiet [OF assms(1)] by auto
  then show ?thesis using single_row_Inr by metis
qed

section \<open>Unique keys\<close>

lemma keeps_keys_entry_use_cases [keeps_intros]:
  "keeps keys_ok (CreateEntry en r k p pk)" "keeps keys_ok (DeleteMyEntriesIfAny en r k)"
  "keeps keys_ok (ListMyChildrenEntries en r k)"
  unfolding CreateEntry_def entry_Add_def entry_infra_Add_def entry_infra_Get_def DeleteMyEntriesIfAny_def
    entry_RemoveAllFromResource_def entry_infra_RemoveAllFromResource_def entry_All_def entry_infra_All_def
    ListMyChildrenEntries_def
  by (intro keeps_intros)+

lemma keeps_keys_application_use_cases [keeps_intros]:
  "keeps keys_ok (CreateApplication en ci)" "keeps keys_ok (GetApplication en ident)"
  "keeps keys_ok (EditApplication en ei)" "keeps keys_ok (DeleteApplication en ident)"
  unfolding CreateApplication_def createToApplication_def application_Add_def application_infra_Add_def
    application_infra_Get_def GetApplication_def application_Get_def EditApplication_def mapEditedValues_def
    application_Edit_def application_infra_Edit_def application_infra_Exists_def DeleteApplication_def
    removeAllDependencies_def removeEntries_def application_Remove_def application_infra_Remove_def Let_def
  by (intro keeps_intros; simp)+

end
