(* ===== verification/Application_Laws.thy ===== *)
theory Application_Laws
  imports Applications
begin

text \<open>
  What the application use case does to a database that works: creation and lookup, the optimistic
  lock of an edit, and the refusal to delete what others depend on.
\<close>

section \<open>The effect of each operation\<close>

lemma application_infra_Add_quiet:
  assumes "w_faults w = []"
  shows "application_infra_Add en db w =
     (let row = db\<lparr>ap_ResourceVersion := e_uuid en (w_uuids w)\<rparr>; w1 = w\<lparr>w_uuids := Suc (w_uuids w)\<rparr> in
      if \<exists>x\<in>set (w_applications w). application_clash x row then (Inl ps_NewAlreadyExistsError, w1)
      else (Inr row, put_applications (w_applications w @ [row]) w1))"
proof -
  let ?row = "db\<lparr>ap_ResourceVersion := e_uuid en (w_uuids w)\<rparr>"
  have "filter (\<lambda>r. ap_ID r = ap_ID db) (w_applications w) = []"
    if "\<not> (\<exists>x\<in>set (w_applications w). application_clash x ?row)"
    using that by (auto simp: application_clash_def filter_empty_conv)
  then show ?thesis
    using assms by (auto simp: application_infra_Add_def application_infra_Get_def bindP_def newUUID_def
        quiet_simps returnP_def Let_def)
qed

lemma application_Add_Inr:
  assumes "w_faults w = []" and "application_Add en app w = (Inr a, w')"
  obtains row where "w' = put_applications (w_applications w @ [row]) (w\<lparr>w_uuids := Suc (w_uuids w)\<rparr>)"
    and "\<forall>x\<in>set (w_applications w). \<not> application_clash x row"
    and "application_mapFromDB row = Inr a"
    and "ap_ID row = App_ID app" and "ap_DefaultChainID row = Int256_String (App_DefaultChainID app)"
    and "ap_Description row = App_Description app" and "ap_InternalResourceID row = App_InternalResourceID app"
proof -
  obtain db row where db: "application_mapToCreateDB app = Inr db"
    and add: "application_infra_Add en db w = (Inr row, w')" and a: "application_mapFromDB row = Inr a"
    using assms(2) by (auto simp: application_Add_def prog_ok)
  from db have db: "ap_ID db = App_ID app" "ap_DefaultChainID db = Int256_String (App_DefaultChainID app)"
    "ap_Description db = App_Description app" "ap_InternalResourceID db = App_InternalResourceID app"
    by (auto simp: application_mapToCreateDB_def split: if_splits)
  show thesis
    using add db a by (intro that [of row])
      (auto simp: application_infra_Add_quiet [OF assms(1)] Let_def split: if_splits)
qed

lemma CreateApplication_Inr:
  assumes "w_faults w = []" and run: "CreateApplication en input w = (Inr a, w')"
  obtains row n m where "w' = w\<lparr>w_applications := w_applications w @ [row], w_uuids := n, w_ticks := m\<rparr>"
    and "\<forall>x\<in>set (w_applications w). \<not> application_clash x row"
    and "application_mapFromDB row = Inr a"
    and "ap_DefaultChainID row = Int256_String (ca_ChainID input)"
    and "ap_Description row = ca_Description input"
    and "\<And>i. ca_ID input = Some i \<Longrightarrow> ap_ID row = i"
    and "w_uuids w \<le> n" and "\<exists>j<n. ap_InternalResourceID row = e_uuid en j"
proof -
  obtain app w1 where mk: "createToApplication en input w = (Inr app, w1)"
    and add: "application_Add en (app\<lparr>App_InternalResourceID := e_uuid en (w_uuids w1)\<rparr>)
      (w1\<lparr>w_uuids := Suc (w_uuids w1)\<rparr>) = (Inr a, w')"
    using run by (auto simp: CreateApplication_def prog_ok newUUID_def Let_def)
  from mk have app: "App_DefaultChainID app = ca_ChainID input" "App_Description app = ca_Description input"
    "\<And>i. ca_ID input = Some i \<Longrightarrow> App_ID app = i"
    and w1: "w1 = w\<lparr>w_uuids := w_uuids w1, w_ticks := Suc (w_ticks w)\<rparr>" "w_uuids w \<le> w_uuids w1"
    by (auto simp: createToApplication_def prog_ok timeNow_def newUUID_def split: option.splits)
  have "w_faults (w1\<lparr>w_uuids := Suc (w_uuids w1)\<rparr>) = []" using assms(1) w1(1) by (cases w1, cases w) simp
  from application_Add_Inr [OF this add] obtain row where
    row: "w' = put_applications (w_applications w1 @ [row]) (w1\<lparr>w_uuids := Suc (Suc (w_uuids w1))\<rparr>)"
    "\<forall>x\<in>set (w_applications w1). \<not> application_clash x row" "application_mapFromDB row = Inr a"
    "ap_ID row = App_ID app" "ap_DefaultChainID row = Int256_String (App_DefaultChainID app)"
    "ap_Description row = App_Description app" "ap_InternalResourceID row = e_uuid en (w_uuids w1)"
    by auto
  have same: "w_applications w1 = w_applications w" by (subst w1(1)) simp
  have "w' = w\<lparr>w_applications := w_applications w @ [row], w_uuids := Suc (Suc (w_uuids w1)),
      w_ticks := Suc (w_ticks w)\<rparr>"
    using row(1) same by (subst (asm) (2) w1(1)) simp
  then show thesis
    using that row(2-) app w1(2) same by (metis le_Suc_eq lessI less_SucI)
qed

text \<open>
  A created application is the one a lookup of its identifier returns, with the chain of the
  request; its identifier was free, and the lookup of every other identifier is as before.
\<close>

theorem createApplication_then_get:
  assumes quiet: "w_faults w = []" and run: "CreateApplication en input w = (Inr a, w')"
    and valid: "e_validate en [standard_id (App_ID a)]"
  shows "GetApplication en (App_ID a) w' = (Inr a, w') \<and> App_DefaultChainID a = ca_ChainID input \<and>
    (\<forall>r\<in>set (w_applications w). ap_ID r \<noteq> App_ID a) \<and>
    (\<forall>ident. ident \<noteq> App_ID a \<longrightarrow> fst (GetApplication en ident w') = fst (GetApplication en ident w))"
proof -
  obtain row n m where w': "w' = w\<lparr>w_applications := w_applications w @ [row], w_uuids := n, w_ticks := m\<rparr>"
    and free: "\<forall>x\<in>set (w_applications w). \<not> application_clash x row"
    and a: "application_mapFromDB row = Inr a"
    and chain: "ap_DefaultChainID row = Int256_String (ca_ChainID input)"
    by (rule CreateApplication_Inr [OF quiet run]) blast
  note row = application_mapFromDB_Inr [OF a]
  have quiet': "w_faults w' = []" using quiet by (simp add: w')
  have new: "\<forall>r\<in>set (w_applications w). ap_ID r \<noteq> App_ID a"
    using free row by (auto simp: application_clash_def)
  then have "filter (\<lambda>r. ap_ID r = App_ID a) (w_applications w') = [row]"
    using row by (simp add: w' filter_empty_conv)
  then have "application_Get (App_ID a) w' = (Inr a, w')"
    unfolding application_Get_quiet [OF quiet'] by (simp add: single_row_one a)
  then have "GetApplication en (App_ID a) w' = (Inr a, w')"
    using valid by (simp add: GetApplication_def prog_defs)
  moreover have "App_DefaultChainID a = ca_ChainID input"
    using row chain by (simp add: Int256_String_parse split: if_splits)
  moreover have "fst (GetApplication en ident w') = fst (GetApplication en ident w)" if "ident \<noteq> App_ID a" for ident
    using that row by (simp add: GetApplication_def prog_defs application_Get_quiet quiet' quiet split: sum.split)
      (simp add: w')
  ultimately show ?thesis using new by blast
qed

section \<open>Concrete runs\<close>

definition sample_env :: env where
  "sample_env =
     \<lparr>e_uuid = (\<lambda>n. CHR ''u'' # dec_digits n), e_clock = (\<lambda>n. int n), e_validate = (\<lambda>_. True),
      e_keccak = (\<lambda>_. replicate 32 0),
      e_roles = [\<lparr>role_ID = ''signer-admin'', role_Scope = ''admin''\<rparr>,
                 \<lparr>role_ID = ''transaction-signer'', role_Scope = ''application''\<rparr>]\<rparr>"

definition sample_application :: Application where
  "sample_application =
     \<lparr>App_ID = ''app'', App_InternalResourceID = ''u0'', App_DefaultChainID = 5, App_Description = Some ''d'',
      App_CreationDate = 0, App_LastUpdate = 0, App_ResourceVersion = ''u1''\<rparr>"

definition sample_world :: "unit world" where
  "sample_world = (empty_world ())\<lparr>w_uuids := 2, w_ticks := 1, w_applications :=
     [\<lparr>ap_ID = ''app'', ap_InternalResourceID = ''u0'', ap_DefaultChainID = ''5'', ap_Description = Some ''d'',
       ap_CreationDate = 0, ap_LastUpdate = 0, ap_ResourceVersion = ''u1''\<rparr>]\<rparr>"

lemma sample_created:
  "CreateApplication sample_env \<lparr>ca_ID = Some ''app'', ca_ChainID = 5, ca_Description = Some ''d''\<rparr> (empty_world ()) =
     (Inr sample_application, sample_world)"
  by code_simp

lemma createApplication_then_get_witness:
  "GetApplication sample_env ''app'' sample_world = (Inr sample_application, sample_world)"
  using createApplication_then_get [OF _ sample_created]
  by (simp add: empty_world_def sample_application_def sample_env_def)

section \<open>Editing\<close>

definition edited_row :: "ApplicationDB \<Rightarrow> string \<Rightarrow> ApplicationDB \<Rightarrow> ApplicationDB" where
  "edited_row db version r =
     r\<lparr>ap_DefaultChainID := ap_DefaultChainID db, ap_Description := ap_Description db,
       ap_LastUpdate := ap_LastUpdate db, ap_ResourceVersion := version\<rparr>"

lemma edited_row_simps [simp]:
  "ap_ID (edited_row db version r) = ap_ID r"
  "ap_InternalResourceID (edited_row db version r) = ap_InternalResourceID r"
  "ap_ResourceVersion (edited_row db version r) = version"
  "ap_Description (edited_row db version r) = ap_Description db"
  "ap_DefaultChainID (edited_row db version r) = ap_DefaultChainID db"
  by (simp_all add: edited_row_def)

definition same_version :: "string \<Rightarrow> string \<Rightarrow> ApplicationDB \<Rightarrow> bool" where
  "same_version ident version r \<longleftrightarrow> ap_ID r = ident \<and> ap_ResourceVersion r = version"

lemma application_infra_Edit_quiet:
  assumes "w_faults w = []"
  shows "application_infra_Edit en db w =
    (if filter (\<lambda>r. ap_ID r = ap_ID db) (w_applications w) = [] then (Inl ps_NewNotFoundError, w)
     else (Inr (length (filter (same_version (ap_ID db) (ap_ResourceVersion db)) (w_applications w))),
       w\<lparr>w_applications := map (\<lambda>r. if same_version (ap_ID db) (ap_ResourceVersion db) r
            then edited_row db (e_uuid en (w_uuids w)) r else r) (w_applications w),
         w_uuids := Suc (w_uuids w)\<rparr>))"
  using assms
  by (simp add: application_infra_Edit_def application_infra_Exists_def prog_defs quiet_simps newUUID_def
      same_version_def [abs_def] edited_row_def)

text \<open>The row that an edit asks for, in a world where it is the time to write it.\<close>

definition update_row :: "env \<Rightarrow> 'd world \<Rightarrow> EditApplicationInput \<Rightarrow> ApplicationDB" where
  "update_row en w input =
     \<lparr>ap_ID = ea_ID input, ap_InternalResourceID = [],
      ap_DefaultChainID = Int256_String (case ea_ChainID input of None \<Rightarrow> 0 | Some c \<Rightarrow> c),
      ap_Description = ea_Description input, ap_CreationDate = 0,
      ap_LastUpdate = e_clock en (w_ticks w), ap_ResourceVersion = ea_ResourceVersion input\<rparr>"

lemma update_row_simps [simp]:
  "ap_ID (update_row en w input) = ea_ID input"
  "ap_ResourceVersion (update_row en w input) = ea_ResourceVersion input"
  "ap_Description (update_row en w input) = ea_Description input"
  "ap_DefaultChainID (update_row en w input) =
     Int256_String (case ea_ChainID input of None \<Rightarrow> 0 | Some c \<Rightarrow> c)"
  by (simp_all add: update_row_def)

lemma EditApplication_Inr:
  assumes quiet: "w_faults w = []" and run: "EditApplication en input w = (Inr a, w')"
  defines "sel \<equiv> same_version (ea_ID input) (ea_ResourceVersion input)"
    and "f \<equiv> edited_row (update_row en w input) (e_uuid en (w_uuids w))"
  shows "w' = w\<lparr>w_applications := map (\<lambda>r. if sel r then f r else r) (w_applications w),
                w_uuids := Suc (w_uuids w), w_ticks := Suc (w_ticks w)\<rparr> \<and>
         filter sel (w_applications w) \<noteq> [] \<and> application_Get (ea_ID input) w' = (Inr a, w')"
proof -
  let ?w1 = "w\<lparr>w_ticks := Suc (w_ticks w)\<rparr>"
  obtain n w2 where edit: "application_infra_Edit en (update_row en w input) ?w1 = (Inr n, w2)" and "n \<noteq> 0"
    and got: "application_Get (ea_ID input) w2 = (Inr a, w')"
    using run by (auto simp: EditApplication_def application_Edit_def mapEditedValues_def prog_ok timeNow_def
        application_mapToUpdateDB_def update_row_def split: if_splits)
  have w2: "w2 = w\<lparr>w_applications := map (\<lambda>r. if sel r then f r else r) (w_applications w),
      w_uuids := Suc (w_uuids w), w_ticks := Suc (w_ticks w)\<rparr>" and "filter sel (w_applications w) \<noteq> []"
    using edit quiet \<open>n \<noteq> 0\<close>
    by (auto simp: application_infra_Edit_quiet sel_def f_def split: if_splits)
  moreover have "w_faults w2 = []" using quiet by (simp add: w2)
  then have "w' = w2" by (rule still_eq [OF keeps_still_application_Get _ got])
  ultimately show ?thesis using got by blast
qed

text \<open>An edit whose version is not the stored one changes no row.\<close>

lemma EditApplication_stale:
  assumes quiet: "w_faults w = []"
    and stale: "filter (same_version (ea_ID input) (ea_ResourceVersion input)) (w_applications w) = []"
  shows "\<exists>e w'. EditApplication en input w = (Inl e, w') \<and> w_applications w' = w_applications w"
proof -
  have "\<not> (\<exists>a. fst (EditApplication en input w) = Inr a)"
    using EditApplication_Inr [OF quiet] stale by (metis prod.collapse)
  then obtain e w' where run: "EditApplication en input w = (Inl e, w')"
    by (metis prod.collapse sum.exhaust_sel sum.collapse(1))
  have same: "map (\<lambda>r. if same_version (ea_ID input) (ea_ResourceVersion input) r then h r else r) (w_applications w) =
      w_applications w" for h
    using stale by (auto simp: filter_empty_conv intro: map_idI)
  have "w_applications (snd (EditApplication en input w)) = w_applications w"
    using quiet stale same
    by (simp add: EditApplication_def application_Edit_def mapEditedValues_def prog_defs timeNow_def
        application_mapToUpdateDB_def application_infra_Edit_quiet update_row_def)
  then show ?thesis using run by simp
qed

text \<open>
  C30: Editing is under an optimistic lock.  An edit goes through only on the version that is stored;
  it changes no other application, draws a new version, and a second edit that was prepared on the
  same version is refused and changes nothing.
\<close>

theorem edit_is_locked:
  assumes quiet: "w_faults w = []" and keys: "keys_ok w"
    and run: "EditApplication en input w = (Inr a, w')"
    and fresh: "e_uuid en (w_uuids w) \<noteq> ea_ResourceVersion input"
    and other: "ea_ID input' = ea_ID input" "ea_ResourceVersion input' = ea_ResourceVersion input"
  shows "(\<exists>r\<in>set (w_applications w). ap_ID r = ea_ID input \<and> ap_ResourceVersion r = ea_ResourceVersion input) \<and>
    App_ResourceVersion a = e_uuid en (w_uuids w) \<and>
    (\<forall>r. ap_ID r \<noteq> ea_ID input \<longrightarrow> (r \<in> set (w_applications w') \<longleftrightarrow> r \<in> set (w_applications w))) \<and>
    (\<exists>e w''. EditApplication en input' w' = (Inl e, w'') \<and> w_applications w'' = w_applications w')"
proof -
  let ?sel = "same_version (ea_ID input) (ea_ResourceVersion input)"
  let ?f = "edited_row (update_row en w input) (e_uuid en (w_uuids w))"
  have w': "w' = w\<lparr>w_applications := map (\<lambda>r. if ?sel r then ?f r else r) (w_applications w),
      w_uuids := Suc (w_uuids w), w_ticks := Suc (w_ticks w)\<rparr>"
    and "filter ?sel (w_applications w) \<noteq> []" and got: "application_Get (ea_ID input) w' = (Inr a, w')"
    using EditApplication_Inr [OF quiet run] by blast+
  then obtain r where r: "r \<in> set (w_applications w)" "?sel r" by (auto simp: filter_empty_conv)
  have quiet': "w_faults w' = []" using quiet by (simp add: w')
  have "filter (\<lambda>x. ap_ID x = ea_ID input) (w_applications w) = [r]"
    using r keys by (intro applications.select_key) (auto simp: keys_ok_def same_version_def application_clash_def)
  then have "filter (\<lambda>x. ap_ID x = ea_ID input) (w_applications w') = [?f r]"
    using r by (simp add: w' filter_map o_def if_distrib [of ap_ID] cong: filter_cong)
  then have "application_mapFromDB (?f r) = Inr a"
    using got unfolding application_Get_quiet [OF quiet'] by (simp add: single_row_one split: sum.splits)
  then have "App_ResourceVersion a = e_uuid en (w_uuids w)" using application_mapFromDB_Inr by fastforce
  moreover have "filter ?sel (w_applications w') = []"
    using fresh by (auto simp: w' filter_empty_conv same_version_def)
  then have "\<exists>e w''. EditApplication en input' w' = (Inl e, w'') \<and> w_applications w'' = w_applications w'"
    using EditApplication_stale [OF quiet', of input'] other by simp
  moreover have "x \<in> set (w_applications w') \<longleftrightarrow> x \<in> set (w_applications w)" if "ap_ID x \<noteq> ea_ID input" for x
    using that by (auto simp: w' same_version_def image_iff)
  ultimately show ?thesis using r by (auto simp: same_version_def)
qed

text \<open>A second world, after an edit that leaves out the chain and the description.\<close>

definition sample_edit :: EditApplicationInput where
  "sample_edit = \<lparr>ea_ID = ''app'', ea_ResourceVersion = ''u1'', ea_ChainID = None, ea_Description = None\<rparr>"

definition sample_edited :: Application where
  "sample_edited =
     \<lparr>App_ID = ''app'', App_InternalResourceID = ''u0'', App_DefaultChainID = 0, App_Description = Some [],
      App_CreationDate = 0, App_LastUpdate = 1, App_ResourceVersion = ''u2''\<rparr>"

definition sample_edited_world :: "unit world" where
  "sample_edited_world = (empty_world ())\<lparr>w_uuids := 3, w_ticks := 2, w_applications :=
     [\<lparr>ap_ID = ''app'', ap_InternalResourceID = ''u0'', ap_DefaultChainID = ''0'', ap_Description = None,
       ap_CreationDate = 0, ap_LastUpdate = 1, ap_ResourceVersion = ''u2''\<rparr>]\<rparr>"

lemma sample_edit_run:
  "EditApplication sample_env sample_edit sample_world = (Inr sample_edited, sample_edited_world)"
  by code_simp

lemma sample_world_quiet: "w_faults sample_world = []" "keys_ok sample_world"
  by (simp_all add: sample_world_def empty_world_def keys_ok_def distinct_rows_def)

lemma edit_is_locked_witness:
  "\<exists>e w''. EditApplication sample_env sample_edit sample_edited_world = (Inl e, w'') \<and>
     w_applications w'' = w_applications sample_edited_world"
proof -
  have "e_uuid sample_env (w_uuids sample_world) \<noteq> ea_ResourceVersion sample_edit" by code_simp
  then show ?thesis
    using edit_is_locked [OF sample_world_quiet sample_edit_run, of sample_edit] by blast
qed

text \<open>
  An edit that leaves the chain identifier out does not leave it as it is: the stored chain
  becomes zero, a value creation and edits with a chain reject, and a description left out becomes
  empty.
\<close>

theorem edit_resets_omitted_fields:
  assumes quiet: "w_faults w = []" and run: "EditApplication en input w = (Inr a, w')" and keys: "keys_ok w"
  shows "(ea_ChainID input = None \<longrightarrow> App_DefaultChainID a = 0) \<and>
         (ea_Description input = None \<longrightarrow> App_Description a = Some [])"
proof -
  let ?sel = "same_version (ea_ID input) (ea_ResourceVersion input)"
  let ?f = "edited_row (update_row en w input) (e_uuid en (w_uuids w))"
  have w': "w' = w\<lparr>w_applications := map (\<lambda>r. if ?sel r then ?f r else r) (w_applications w),
      w_uuids := Suc (w_uuids w), w_ticks := Suc (w_ticks w)\<rparr>"
    and "filter ?sel (w_applications w) \<noteq> []" and got: "application_Get (ea_ID input) w' = (Inr a, w')"
    using EditApplication_Inr [OF quiet run] by blast+
  then obtain r where r: "r \<in> set (w_applications w)" "?sel r" by (auto simp: filter_empty_conv)
  have quiet': "w_faults w' = []" using quiet by (simp add: w')
  have "filter (\<lambda>x. ap_ID x = ea_ID input) (w_applications w) = [r]"
    using r keys by (intro applications.select_key) (auto simp: keys_ok_def same_version_def application_clash_def)
  then have "filter (\<lambda>x. ap_ID x = ea_ID input) (w_applications w') = [?f r]"
    using r by (simp add: w' filter_map o_def if_distrib [of ap_ID] cong: filter_cong)
  then have a: "application_mapFromDB (?f r) = Inr a"
    using got unfolding application_Get_quiet [OF quiet'] by (simp add: single_row_one split: sum.splits)
  show ?thesis
    using application_mapFromDB_Inr [OF a] by (auto simp: Int256_String_parse split: if_splits)
qed

lemma edit_resets_omitted_fields_witness: "App_DefaultChainID sample_edited = 0"
  using edit_resets_omitted_fields [OF sample_world_quiet(1) sample_edit_run sample_world_quiet(2)]
  by (simp add: sample_edit_def)

section \<open>Deleting\<close>

lemma removeAllDependencies_Inr:
  assumes quiet: "w_faults w = []" and run: "removeAllDependencies en ident w = (Inr u, w')"
  obtains r a where "filter (\<lambda>r. ap_ID r = ident) (w_applications w) = [r]" and "application_mapFromDB r = Inr a"
    and "\<forall>e\<in>set (w_entries w). \<not> depends_on (ap_InternalResourceID r) KindApplication e"
    and "w' = put_entries (filter (\<lambda>e. \<not> entry_of (ap_InternalResourceID r) KindApplication e) (w_entries w)) w"
proof -
  obtain a w1 where get: "GetApplication en ident w = (Inr a, w1)"
    and rem: "removeEntries en (App_InternalResourceID a) KindApplication
      (''application '' @ CHR 0x27 # ident @ [CHR 0x27]) w1 = (Inr u, w')"
    using run by (auto simp: removeAllDependencies_def prog_ok)
  obtain r where r: "w1 = w" "filter (\<lambda>r. ap_ID r = ident) (w_applications w) = [r]" "application_mapFromDB r = Inr a"
    using GetApplication_Inr [OF quiet get] by blast
  have "App_InternalResourceID a = ap_InternalResourceID r" using application_mapFromDB_Inr [OF r(3)] by blast
  then show thesis using that r removeEntries_Inr [OF _ rem] quiet by simp
qed

lemma DeleteApplication_Inr:
  assumes quiet: "w_faults w = []" and run: "DeleteApplication en ident w = (Inr a, w')"
  obtains r where "filter (\<lambda>r. ap_ID r = ident) (w_applications w) = [r]" and "application_mapFromDB r = Inr a"
    and "\<forall>e\<in>set (w_entries w). \<not> depends_on (ap_InternalResourceID r) KindApplication e"
    and "w' = w\<lparr>w_entries := filter (\<lambda>e. \<not> entry_of (ap_InternalResourceID r) KindApplication e) (w_entries w),
              w_applications := filter (\<lambda>r. ap_ID r \<noteq> ident) (w_applications w)\<rparr>"
proof -
  obtain u w1 where dep: "removeAllDependencies en ident w = (Inr u, w1)"
    and rem: "application_Remove ident w1 = (Inr a, w')"
    using run by (auto simp: DeleteApplication_def prog_ok)
  obtain r a' where r: "filter (\<lambda>r. ap_ID r = ident) (w_applications w) = [r]" "application_mapFromDB r = Inr a'"
    "\<forall>e\<in>set (w_entries w). \<not> depends_on (ap_InternalResourceID r) KindApplication e"
    and w1: "w1 = put_entries (filter (\<lambda>e. \<not> entry_of (ap_InternalResourceID r) KindApplication e) (w_entries w)) w"
    by (rule removeAllDependencies_Inr [OF quiet dep])
  have "w_faults w1 = []" using quiet by (simp add: w1)
  moreover have "filter (\<lambda>r. ap_ID r = ident) (w_applications w1) = [r]" using r by (simp add: w1)
  ultimately have "a = a' \<and> w' = put_applications (filter (\<lambda>r. ap_ID r \<noteq> ident) (w_applications w1)) w1"
    using rem r(2) by (auto simp: application_Remove_def application_infra_Remove_def prog_ok quiet_simps
        application_Get_quiet single_row_one)
  then show thesis using that [OF r(1) _ r(3)] r(2) by (simp add: w1)
qed

text \<open>The dependency check reads only, so a refusal leaves the world as it is.\<close>

lemma ListMyChildrenEntries_ok:
  assumes "w_faults w = []" and "e_validate en [(''required'', pid), (''required'', pkind)]"
    and "\<forall>x\<in>set (w_entries w). \<exists>y. entry_mapFromDB x = Inr y"
  shows "\<exists>c. ListMyChildrenEntries en pid pkind w = (Inr c, w)"
proof -
  obtain f where f: "\<And>x. x \<in> set (w_entries w) \<Longrightarrow> entry_mapFromDB x = Inr (f x)" using assms(3) by metis
  have "mapSliceFromDB entry_mapFromDB (order_rows cr up ord (filter sel (w_entries w))) =
      Inr (map f (order_rows cr up ord (filter sel (w_entries w))))" for cr up ord sel
    by (rule mapSliceFromDB_total) (metis f filter_is_subset mset_order_rows set_mset_mset subsetD)
  then show ?thesis using assms(1,2)
    by (simp add: ListMyChildrenEntries_def entry_All_def entry_infra_All_def prog_defs sql_list_quiet
        cut_page_def mapped_page_def paged_def NewUnlimitedQueryStandardCollectionPage_def)
qed

text \<open>
  An application that something depends on is not deleted: the request is refused and nothing
  changes, and when the entries are readable the refusal is \<open>PRECONDITION_FAILED\<close>.
\<close>

theorem deleteApplication_refused:
  assumes quiet: "w_faults w = []" and row: "filter (\<lambda>r. ap_ID r = ident) (w_applications w) = [r]"
    and dep: "x \<in> set (w_entries w)" "depends_on (ap_InternalResourceID r) KindApplication x"
  shows "\<exists>e. DeleteApplication en ident w = (Inl e, w) \<and>
    ((\<forall>fs. e_validate en fs) \<and> (\<exists>a. application_mapFromDB r = Inr a) \<and>
     (\<forall>x\<in>set (w_entries w). \<exists>y. entry_mapFromDB x = Inr y) \<longrightarrow> IsPreconditionFailed e)"
proof (cases "e_validate en [standard_id ident]")
  case False
  then show ?thesis by (auto simp: DeleteApplication_def prog_defs)
next
  case True
  obtain g where g: "GetApplication en ident w = (g, w)"
    using still_snd [OF keeps_still_GetApplication quiet] by (metis prod.collapse)
  show ?thesis
  proof (cases g)
    case (Inl e)
    have "\<not> (\<exists>a. application_mapFromDB r = Inr a)"
      using g Inl row True quiet by (auto simp: GetApplication_def prog_defs application_Get_quiet single_row_one)
    then show ?thesis using g Inl True by (auto simp: DeleteApplication_def removeAllDependencies_def removeEntries_def prog_defs)
  next
    case (Inr a)
    then have a: "App_InternalResourceID a = ap_InternalResourceID r"
      using GetApplication_Inr [OF quiet, of en ident a w] g row application_mapFromDB_Inr by auto
    let ?kids = "ListMyChildrenEntries en (App_InternalResourceID a) KindApplication"
    obtain c where c: "?kids w = (c, w)"
      using still_snd [OF keeps_still_ListMyChildrenEntries quiet] by (metis prod.collapse)
    show ?thesis
    proof (cases c)
      case (Inl e)
      then have "\<not> ((\<forall>fs. e_validate en fs) \<and> (\<forall>x\<in>set (w_entries w). \<exists>y. entry_mapFromDB x = Inr y))"
        using c ListMyChildrenEntries_ok [OF quiet, of en "App_InternalResourceID a" KindApplication] by auto
      then show ?thesis using c Inl g \<open>g = Inr a\<close> True
        by (auto simp: DeleteApplication_def removeAllDependencies_def removeEntries_def prog_defs)
    next
      case (Inr children)
      then have "co_Items children \<noteq> []"
        using ListMyChildrenEntries_Inr [OF quiet, of en _ _ children w] c dep a by (auto simp: depends_on_def)
      then show ?thesis using c Inr g \<open>g = Inr a\<close> True
        by (auto simp: DeleteApplication_def removeAllDependencies_def removeEntries_def prog_defs depending_def PreconditionFailed_def
            IsPreconditionFailed_def public_is_def)
    qed
  qed
qed

definition sample_entry :: ReferentialIntegrityEntryDB where
  "sample_entry = \<lparr>ri_ID = ''u3'', ri_ResourceID = ''u2'', ri_ResourceKind = ''user'', ri_ParentResourceID = ''u0'',
     ri_ParentResourceKind = ''application'', ri_CreationDate = 1, ri_LastUpdate = 1\<rparr>"

lemma deleteApplication_refused_witness:
  "\<exists>e. DeleteApplication sample_env ''app'' (sample_world\<lparr>w_entries := [sample_entry]\<rparr>) =
         (Inl e, sample_world\<lparr>w_entries := [sample_entry]\<rparr>) \<and> IsPreconditionFailed e"
proof -
  let ?w = "sample_world\<lparr>w_entries := [sample_entry]\<rparr>"
  let ?r = "hd (w_applications sample_world)"
  have r: "filter (\<lambda>r. ap_ID r = ''app'') (w_applications ?w) = [?r]"
    by (simp add: sample_world_def)
  have "depends_on (ap_InternalResourceID ?r) KindApplication sample_entry"
    by (simp add: depends_on_def sample_world_def sample_entry_def KindApplication_def)
  moreover have "w_faults ?w = []" by (simp add: sample_world_def empty_world_def)
  moreover have "\<exists>y. entry_mapFromDB sample_entry = Inr y"
    by (simp add: entry_mapFromDB_def sample_entry_def mapTypeFromDB_def)
  moreover have "application_mapFromDB ?r = Inr sample_application" by code_simp
  moreover have "\<forall>fs. e_validate sample_env fs" by (simp add: sample_env_def)
  ultimately show ?thesis
    using deleteApplication_refused [OF _ r, of sample_entry sample_env] by auto
qed

end
