(* ===== verification/Hsm_Modules.thy ===== *)
theory Hsm_Modules
  imports Applications
begin

text \<open>
  HSM modules: \<open>app/pkg/infra/storage/hsmmoduledb\<close>,
  \<open>app/pkg/adapters/storage/postgres/hsmdbout\<close> and \<open>app/pkg/usecases/hsmmodule\<close>.
\<close>

section \<open>Data\<close>

definition SoftHSMModuleKind :: string where "SoftHSMModuleKind = ''SoftHSM''"

definition AKVModuleKind :: string where "AKVModuleKind = ''AKV''"

definition LKVModuleKind :: string where "LKVModuleKind = ''LocalKeyVault''"

lemmas module_kind_defs = SoftHSMModuleKind_def AKVModuleKind_def LKVModuleKind_def

text \<open>The three configurations are pointers to empty structs.\<close>

record HSMModuleConfiguration =
  SoftHSMConfiguration :: "unit option"
  AKVConfiguration :: "unit option"
  LKVConfiguration :: "unit option"

record HSMModule =
  Mod_ID :: string
  Mod_InternalResourceID :: string
  Mod_Description :: "string option"
  Mod_Configuration :: HSMModuleConfiguration
  Mod_Kind :: string
  Mod_CreationDate :: int
  Mod_LastUpdate :: int
  Mod_ResourceVersion :: string

record CreateHSMModuleInput =
  cm_ID :: "string option"
  cm_Description :: "string option"
  cm_Configuration :: HSMModuleConfiguration
  cm_ModuleKind :: string

record ListHSMModulesInput =
  lm_PageLimit :: int
  lm_PageOffset :: int
  lm_OrderBy :: string
  lm_OrderDirection :: string

section \<open>Infrastructure\<close>

definition module_infra_Get :: "string \<Rightarrow> ('d world, HardwareSecurityModuleDB list) prog" where
  "module_infra_Get ident = sql_select w_modules (\<lambda>r. hm_ID r = ident)"

definition module_infra_Add :: "env \<Rightarrow> HardwareSecurityModuleDB \<Rightarrow> ('d world, HardwareSecurityModuleDB) prog" where
  "module_infra_Add en db =
     bindP (newUUID en) (\<lambda>version.
     bindP (sql_insert w_modules put_modules module_clash (db\<lparr>hm_ResourceVersion := version\<rparr>)) (\<lambda>_.
     bindP (module_infra_Get (hm_ID db)) (\<lambda>result.
     if length result = 0 then throwP ps_NewEntryNotAddedError else returnP (result ! 0))))"

definition module_infra_Exists :: "string \<Rightarrow> ('d world, unit) prog" where
  "module_infra_Exists ident =
     bindP (sql_select w_modules (\<lambda>r. hm_ID r = ident)) (\<lambda>existsResult.
     checkP (existsResult \<noteq> []) ps_NewNotFoundError)"

definition module_infra_Edit :: "env \<Rightarrow> HardwareSecurityModuleDB \<Rightarrow> ('d world, nat) prog" where
  "module_infra_Edit en db =
     bindP (module_infra_Exists (hm_ID db)) (\<lambda>_.
     bindP (newUUID en) (\<lambda>newResourceVersion.
     sql_update w_modules put_modules
       (\<lambda>r. hm_ID r = hm_ID db \<and> hm_ResourceVersion r = hm_ResourceVersion db)
       (\<lambda>r. r\<lparr>hm_Configuration := hm_Configuration db, hm_Description := hm_Description db,
              hm_LastUpdate := hm_LastUpdate db, hm_ResourceVersion := newResourceVersion\<rparr>)))"

definition module_infra_Remove :: "string \<Rightarrow> ('d world, nat) prog" where
  "module_infra_Remove ident = sql_delete w_modules put_modules (\<lambda>r. hm_ID r = ident)"

definition module_infra_All :: "query \<Rightarrow> ('d world, HardwareSecurityModuleDB list) prog" where
  "module_infra_All q = sql_list hm_CreationDate hm_LastUpdate w_modules q (\<lambda>_. True)"

section \<open>The output adapter\<close>

definition mapDBModuleKindFrom :: "string \<Rightarrow> go_error + string" where
  "mapDBModuleKindFrom moduleKind =
     (if moduleKind = SoftHSMModuleKind then Inr ''SoftHSM''
      else if moduleKind = AKVModuleKind then Inr ''AKV''
      else if moduleKind = LKVModuleKind then Inr ''LocalKeyVault''
      else Inl InvalidArgument)"

definition mapUseCaseModuleKindFrom :: "string \<Rightarrow> go_error + string" where
  "mapUseCaseModuleKindFrom kind =
     (if kind = ''SoftHSM'' then Inr SoftHSMModuleKind
      else if kind = ''AKV'' then Inr AKVModuleKind
      else if kind = ''LocalKeyVault'' then Inr LKVModuleKind
      else Inl Internal)"

definition mapUseCaseConfiguration :: "HardwareSecurityModuleDB \<Rightarrow> HSMModuleConfiguration" where
  "mapUseCaseConfiguration db =
     \<lparr>SoftHSMConfiguration = (if hm_Kind db = SoftHSMModuleKind then Some () else None),
      AKVConfiguration = (if hm_Kind db = AKVModuleKind then Some () else None),
      LKVConfiguration = (if hm_Kind db = LKVModuleKind then Some () else None)\<rparr>"

definition mapConfigurationDBFrom :: "HSMModule \<Rightarrow> string" where
  "mapConfigurationDBFrom module = []"

definition module_mapToCreateDB :: "HSMModule \<Rightarrow> go_error + HardwareSecurityModuleDB" where
  "module_mapToCreateDB module =
     (if length (Mod_ID module) = 0 then Inl Internal
      else if length (Mod_InternalResourceID module) = 0 then Inl Internal
      else case mapDBModuleKindFrom (Mod_Kind module) of
        Inl mapErr \<Rightarrow> Inl mapErr
      | Inr dbModuleKind \<Rightarrow>
          Inr \<lparr>hm_ID = Mod_ID module, hm_InternalResourceID = Mod_InternalResourceID module,
               hm_Kind = dbModuleKind, hm_Configuration = mapConfigurationDBFrom module,
               hm_Description = (case Mod_Description module of None \<Rightarrow> [] | Some d \<Rightarrow> d),
               hm_CreationDate = Mod_CreationDate module, hm_LastUpdate = Mod_LastUpdate module,
               hm_ResourceVersion = []\<rparr>)"

definition module_mapToUpdateDB :: "HSMModule \<Rightarrow> go_error + HardwareSecurityModuleDB" where
  "module_mapToUpdateDB module =
     (if length (Mod_ID module) = 0 then Inl Internal
      else case mapDBModuleKindFrom (Mod_Kind module) of
        Inl mapErr \<Rightarrow> Inl mapErr
      | Inr dbModuleKind \<Rightarrow>
          Inr \<lparr>hm_ID = Mod_ID module, hm_InternalResourceID = Mod_InternalResourceID module,
               hm_Kind = dbModuleKind, hm_Configuration = mapConfigurationDBFrom module,
               hm_Description = (case Mod_Description module of None \<Rightarrow> [] | Some d \<Rightarrow> d),
               hm_CreationDate = Mod_CreationDate module, hm_LastUpdate = Mod_LastUpdate module,
               hm_ResourceVersion = Mod_ResourceVersion module\<rparr>)"

definition module_mapFromDB :: "HardwareSecurityModuleDB \<Rightarrow> go_error + HSMModule" where
  "module_mapFromDB db =
     (if length (hm_ID db) = 0 then Inl Internal
      else if length (hm_InternalResourceID db) = 0 then Inl Internal
      else case mapUseCaseModuleKindFrom (hm_Kind db) of
        Inl mapErr \<Rightarrow> Inl mapErr
      | Inr useCaseHSMType \<Rightarrow>
          Inr \<lparr>Mod_ID = hm_ID db, Mod_InternalResourceID = hm_InternalResourceID db,
               Mod_Description = Some (hm_Description db), Mod_Configuration = mapUseCaseConfiguration db,
               Mod_Kind = useCaseHSMType, Mod_CreationDate = hm_CreationDate db,
               Mod_LastUpdate = hm_LastUpdate db, Mod_ResourceVersion = hm_ResourceVersion db\<rparr>)"

definition module_Add :: "env \<Rightarrow> HSMModule \<Rightarrow> ('d world, HSMModule) prog" where
  "module_Add en data =
     bindP (onErrP (liftP (module_mapToCreateDB data)) InternalFromErr) (\<lambda>db.
     bindP (onErrP (module_infra_Add en db) mapPersistenceErrorToSignerError) (\<lambda>hsmDB.
     onErrP (liftP (module_mapFromDB hsmDB)) InternalFromErr))"

definition module_All :: "query \<Rightarrow> ('d world, HSMModule collection) prog" where
  "module_All q =
     bindP (onErrP (module_infra_All (one_more q)) mapPersistenceErrorToSignerError) (\<lambda>storageData.
     liftP (mapped_page module_mapFromDB (qu_Pagination q) storageData))"

definition module_Get :: "string \<Rightarrow> ('d world, HSMModule) prog" where
  "module_Get ident =
     bindP (onErrP (module_infra_Get ident) mapPersistenceErrorToSignerError) (\<lambda>storageData.
     liftP (single_row module_mapFromDB storageData))"

definition module_Edit :: "env \<Rightarrow> HSMModule \<Rightarrow> ('d world, HSMModule) prog" where
  "module_Edit en data =
     bindP (onErrP (liftP (module_mapToUpdateDB data)) InternalFromErr) (\<lambda>db.
     bindP (onErrP (module_infra_Edit en db) mapPersistenceErrorToSignerError) (\<lambda>rowsAffected.
     if rowsAffected = 0 then throwP NotFound
     else if 1 < rowsAffected then throwP Internal
     else onErrP (module_Get (Mod_ID data)) InternalFromErr))"

definition module_Remove :: "string \<Rightarrow> ('d world, HSMModule) prog" where
  "module_Remove ident =
     bindP (module_Get ident) (\<lambda>storageData.
     bindP (onErrP (module_infra_Remove ident) mapPersistenceErrorToSignerError) (\<lambda>_.
     returnP storageData))"

definition module_Exists :: "string \<Rightarrow> ('d world, unit) prog" where
  "module_Exists ident = onErrP (module_infra_Exists ident) mapPersistenceErrorToSignerError"

section \<open>The use case\<close>

definition CreateHSMModule :: "env \<Rightarrow> CreateHSMModuleInput \<Rightarrow> ('d world, HSMModule) prog" where
  "CreateHSMModule en input =
     bindP (checkP (e_validate en [(''in(SoftHSM|AKV|LocalKeyVault)'', cm_ModuleKind input)])
       (invalid_data ''couldn't validate input data'')) (\<lambda>_.
     bindP (case cm_ID input of None \<Rightarrow> newUUID en | Some ident \<Rightarrow> returnP ident) (\<lambda>ident.
     bindP (timeNow en) (\<lambda>now.
     bindP (newUUID en) (\<lambda>internalResourceID.
     onErrP (module_Add en
       \<lparr>Mod_ID = ident, Mod_InternalResourceID = internalResourceID,
        Mod_Description = cm_Description input, Mod_Configuration = cm_Configuration input,
        Mod_Kind = cm_ModuleKind input, Mod_CreationDate = now, Mod_LastUpdate = now,
        Mod_ResourceVersion = []\<rparr>)
       (\<lambda>addErr.
         if IsAlreadyExists addErr then
           SetHumanReadableMessage (''hsm module '' @ bracketed ident @ '' already exists'')
             (AlreadyExistsFromErr addErr)
         else InternalFromErr addErr)))))"

definition ListHSMModules :: "env \<Rightarrow> ListHSMModulesInput \<Rightarrow> ('d world, HSMModule collection) prog" where
  "ListHSMModules en input =
     bindP (checkP (e_validate en [(''natural'', Int256_String (lm_PageLimit input)),
         (''natural'', Int256_String (lm_PageOffset input))])
       (invalid_data ''couldn't validate input data'')) (\<lambda>_.
     case NormalizeOrderDirection (DefaultString (lm_OrderDirection input) OrderDesc) of
       (direction, validDirection) \<Rightarrow>
         bindP (checkP validDirection (invalid_direction (lm_OrderDirection input))) (\<lambda>_.
         onErrP (module_All
           (list_query direction (lm_OrderBy input) (lm_PageLimit input) (lm_PageOffset input)))
           InternalFromErr))"

definition not_found :: "go_error \<Rightarrow> go_error" where
  "not_found err = (if IsNotFound err then NotFoundFromErr err else InternalFromErr err)"

definition GetHSMModule :: "env \<Rightarrow> string \<Rightarrow> ('d world, HSMModule) prog" where
  "GetHSMModule en ident =
     bindP (checkP (e_validate en [standard_id ident]) (invalid_data ''couldn't validate input data'')) (\<lambda>_.
     onErrP (module_Get ident) not_found)"

definition EditHSMModule :: "env \<Rightarrow> HSMModule \<Rightarrow> ('d world, HSMModule) prog" where
  "EditHSMModule en input =
     bindP (checkP (e_validate en [standard_id (Mod_ID input)]) (invalid_data ''couldn't validate input data'')) (\<lambda>_.
     bindP (timeNow en) (\<lambda>now.
     onErrP (module_Edit en (input\<lparr>Mod_LastUpdate := now\<rparr>)) not_found))"

definition module_removeAllDependencies :: "env \<Rightarrow> string \<Rightarrow> ('d world, unit) prog" where
  "module_removeAllDependencies en ident =
     bindP (GetHSMModule en ident) (\<lambda>module.
     removeEntries en (Mod_InternalResourceID module) KindHSMModule (''HSM '' @ quoted ident))"

definition DeleteHSMModule :: "env \<Rightarrow> string \<Rightarrow> ('d world, HSMModule) prog" where
  "DeleteHSMModule en ident =
     bindP (checkP (e_validate en [standard_id ident]) (invalid_data ''couldn't validate input data'')) (\<lambda>_.
     bindP (module_removeAllDependencies en ident) (\<lambda>_.
     onErrP (module_Remove ident) not_found))"

section \<open>Laws\<close>

lemma keeps_still_GetHSMModule [keeps_intros]: "keeps (still w0) (GetHSMModule en ident)"
  unfolding GetHSMModule_def module_Get_def module_infra_Get_def by (intro keeps_intros)

lemma module_Get_quiet:
  "w_faults w = [] \<Longrightarrow> module_Get ident w =
     (single_row module_mapFromDB (filter (\<lambda>r. hm_ID r = ident) (w_modules w)), w)"
  by (simp add: module_Get_def module_infra_Get_def prog_defs quiet_simps)

lemma GetHSMModule_Inr:
  assumes "w_faults w = []" and run: "GetHSMModule en ident w = (Inr a, w')"
  shows "w' = w \<and> (\<exists>r. filter (\<lambda>r. hm_ID r = ident) (w_modules w) = [r] \<and> module_mapFromDB r = Inr a)"
  using run single_row_Inr [of module_mapFromDB _ a]
  by (auto simp: GetHSMModule_def prog_ok module_Get_quiet [OF assms(1)])

lemma module_mapFromDB_Inr:
  "module_mapFromDB db = Inr a \<Longrightarrow>
     Mod_ID a = hm_ID db \<and> Mod_InternalResourceID a = hm_InternalResourceID db \<and> hm_InternalResourceID db \<noteq> [] \<and>
     hm_ID db \<noteq> [] \<and> Mod_Kind a = hm_Kind db \<and>
     hm_Kind db \<in> {SoftHSMModuleKind, AKVModuleKind, LKVModuleKind} \<and>
     Mod_Configuration a = mapUseCaseConfiguration db \<and> Mod_ResourceVersion a = hm_ResourceVersion db"
  unfolding module_mapFromDB_def
  by (auto simp: mapUseCaseModuleKindFrom_def module_kind_defs split: if_splits)

lemma keeps_keys_module_use_cases [keeps_intros]:
  "keeps keys_ok (CreateHSMModule en ci)" "keeps keys_ok (GetHSMModule en ident)"
  "keeps keys_ok (EditHSMModule en ei)" "keeps keys_ok (DeleteHSMModule en ident)"
  unfolding CreateHSMModule_def module_Add_def module_infra_Add_def module_infra_Get_def GetHSMModule_def
    module_Get_def EditHSMModule_def module_Edit_def module_infra_Edit_def module_infra_Exists_def
    DeleteHSMModule_def module_removeAllDependencies_def removeEntries_def module_Remove_def module_infra_Remove_def
  by (intro keeps_intros; simp)+

text \<open>
  What a module is never changes: an edit keeps the identifiers and the kind of every module, and
  with them the configuration that the kind determines.
\<close>

definition module_core :: "HardwareSecurityModuleDB \<Rightarrow> string \<times> string \<times> string" where
  "module_core r = (hm_ID r, hm_InternalResourceID r, hm_Kind r)"

definition same_modules :: "'d world \<Rightarrow> 'd world \<Rightarrow> bool" where
  "same_modules w0 w \<longleftrightarrow> map module_core (w_modules w) = map module_core (w_modules w0)"

lemma keeps_same_modules_reads:
  "keeps (same_modules w0) (sql_select tab sel)" "keeps (same_modules w0) (newUUID en)"
  "keeps (same_modules w0) (timeNow en)"
proof -
  show "keeps (same_modules w0) (sql_select tab sel)"
    unfolding sql_select_def
    by (rule keeps_bindP [OF keeps_read]) (simp_all add: same_modules_def keeps_def)
qed (simp_all add: keeps_def newUUID_def timeNow_def same_modules_def)

lemma keeps_same_modules_update:
  assumes "\<And>r. module_core (f r) = module_core r"
  shows "keeps (same_modules w0) (sql_update w_modules put_modules sel f)"
proof -
  have "map (module_core \<circ> (\<lambda>r. if sel r then f r else r)) rows = map module_core rows" for rows
    using assms by simp
  then show ?thesis
    unfolding sql_update_def
    by (intro keeps_bindP [OF keeps_read]) (simp_all add: same_modules_def keeps_def del: map_eq_conv)
qed

lemma edit_keeps_module_core: "keeps (same_modules w0) (EditHSMModule en input)"
  unfolding EditHSMModule_def module_Edit_def module_infra_Edit_def module_infra_Exists_def module_Get_def
    module_infra_Get_def
  by (intro keeps_intros keeps_same_modules_reads keeps_same_modules_update) (simp add: module_core_def)

lemma keeps_quiet_module_infra_Edit: "keeps quiet (module_infra_Edit en db)"
  unfolding module_infra_Edit_def module_infra_Exists_def by (intro keeps_intros) simp

lemma edited_module_kind:
  assumes "w_faults w = []" and "EditHSMModule en input w = (Inr m, w')"
  shows "\<exists>r\<in>set (w_modules w). hm_ID r = Mod_ID input \<and> hm_Kind r = Mod_Kind m"
proof -
  obtain n w1 w2 where got: "module_Get (Mod_ID input) w2 = (Inr m, w')"
    and edit: "\<exists>k. module_infra_Edit en n w1 = (Inr k, w2)" and quiet: "w_faults w1 = []"
    using assms by (fastforce simp: EditHSMModule_def module_Edit_def prog_ok timeNow_def split: if_splits)
  then have quiet2: "w_faults w2 = []"
    using keepsD [OF keeps_quiet_module_infra_Edit] unfolding quiet_def by blast
  have "single_row module_mapFromDB (filter (\<lambda>r. hm_ID r = Mod_ID input) (w_modules w2)) = Inr m" and w2: "w' = w2"
    using got unfolding module_Get_quiet [OF quiet2] by auto
  from single_row_Inr [OF this(1)] obtain r
    where "filter (\<lambda>r. hm_ID r = Mod_ID input) (w_modules w') = [r]" and m: "module_mapFromDB r = Inr m"
    unfolding w2 by (elim exE conjE)
  then have r: "r \<in> set (w_modules w')" "hm_ID r = Mod_ID input"
    by (metis (mono_tags, lifting) list.set_intros(1) mem_Collect_eq set_filter)+
  have "same_modules w w'"
    using keepsD [OF edit_keeps_module_core _ assms(2)] by (simp add: same_modules_def)
  then have "module_core r \<in> set (map module_core (w_modules w))"
    using r(1) unfolding same_modules_def by (metis image_eqI set_map)
  then show ?thesis using r module_mapFromDB_Inr [OF m] by (auto simp: module_core_def)
qed

end
