(* ===== verification/Hsm_Slots.thy ===== *)
theory Hsm_Slots
  imports Hsm_Modules
begin

text \<open>
  Slots of HSM modules: \<open>app/pkg/infra/storage/hsmslotdb\<close>,
  \<open>app/pkg/adapters/storage/postgres/hsmslotdbout\<close>, \<open>app/pkg/usecases/hsmslot\<close>, and the resolver of
  connections in \<open>app/pkg/usecases/hsmconnection\<close>.

  The key store of a local key vault, a Go map, is the list of its members; what the code does with
  it does not depend on their order, except the order in which they are listed, which Go leaves open.
\<close>

section \<open>Data\<close>

record SlotConfig =
  cf_AKV :: "AKVConfig list"
  cf_LocalKeyVault :: "(address \<times> string) list option"

record HSMSlot =
  Slot_ID :: string
  Slot_InternalResourceID :: string
  Slot_ApplicationID :: string
  Slot_HSMModuleID :: string
  Slot_Slot :: string
  Slot_Pin :: string
  Slot_Config :: SlotConfig
  Slot_CreationDate :: int
  Slot_LastUpdate :: int
  Slot_ResourceVersion :: string

record CreateHSMSlotInput =
  cs_ID :: "string option"
  cs_ApplicationID :: string
  cs_HSMModuleID :: string
  cs_Slot :: string
  cs_Pin :: string
  cs_Config :: SlotConfig

record EditPinInput =
  ep_ID :: string
  ep_ResourceVersion :: string
  ep_Pin :: string
  ep_HSMModuleID :: string

record EditConfigInput =
  ec_ID :: string
  ec_ResourceVersion :: string
  ec_Config :: SlotConfig
  ec_HSMModuleID :: string

record ListHSMSlotsByApplicationInput =
  lsa_ApplicationID :: string
  lsa_PageLimit :: int
  lsa_PageOffset :: int
  lsa_OrderBy :: string
  lsa_OrderDirection :: string

record ListHSMSlotsByHSMModuleInput =
  lsm_HSMModuleID :: string
  lsm_PageLimit :: int
  lsm_PageOffset :: int
  lsm_OrderBy :: string
  lsm_OrderDirection :: string
  lsm_ApplicationID :: "string option"

record AddLocalKeyInput =
  alk_ID :: string
  alk_PrivateKey :: bytes
  alk_Address :: address

record RemoveLocalKeyInput =
  rlk_ID :: string
  rlk_Address :: address

section \<open>Infrastructure\<close>

definition slot_infra_Get :: "string \<Rightarrow> ('d world, HSMSlotDB list) prog" where
  "slot_infra_Get ident = sql_select w_slots (\<lambda>r. sl_ID r = ident)"

definition slot_infra_Add :: "env \<Rightarrow> HSMSlotDB \<Rightarrow> ('d world, HSMSlotDB) prog" where
  "slot_infra_Add en db =
     bindP (newUUID en) (\<lambda>version.
     bindP (sql_insert w_slots put_slots slot_clash (db\<lparr>sl_ResourceVersion := version\<rparr>)) (\<lambda>_.
     bindP (slot_infra_Get (sl_ID db)) (\<lambda>result.
     if length result = 0 then throwP ps_NewEntryNotAddedError else returnP (result ! 0))))"

definition slot_infra_GetByApplicationID :: "string \<Rightarrow> ('d world, HSMSlotDB list) prog" where
  "slot_infra_GetByApplicationID applicationID = sql_select w_slots (\<lambda>r. sl_ApplicationID r = applicationID)"

definition slot_infra_Exists :: "string \<Rightarrow> ('d world, unit) prog" where
  "slot_infra_Exists ident =
     bindP (sql_select w_slots (\<lambda>r. sl_ID r = ident)) (\<lambda>existsResult.
     checkP (existsResult \<noteq> []) ps_NewNotFoundError)"

text \<open>The row with the values bound to the statement stands for the update structs.\<close>

definition slot_infra_EditPin :: "env \<Rightarrow> HSMSlotDB \<Rightarrow> ('d world, nat) prog" where
  "slot_infra_EditPin en db =
     bindP (slot_infra_Exists (sl_ID db)) (\<lambda>_.
     bindP (newUUID en) (\<lambda>newResourceVersion.
     sql_update w_slots put_slots
       (\<lambda>r. sl_ID r = sl_ID db \<and> sl_ResourceVersion r = sl_ResourceVersion db)
       (\<lambda>r. r\<lparr>sl_Pin := sl_Pin db, sl_LastUpdate := sl_LastUpdate db,
              sl_ResourceVersion := newResourceVersion\<rparr>)))"

definition slot_infra_EditConfig :: "env \<Rightarrow> HSMSlotDB \<Rightarrow> ('d world, nat) prog" where
  "slot_infra_EditConfig en db =
     bindP (slot_infra_Exists (sl_ID db)) (\<lambda>_.
     bindP (newUUID en) (\<lambda>newResourceVersion.
     sql_update w_slots put_slots
       (\<lambda>r. sl_ID r = sl_ID db \<and> sl_ResourceVersion r = sl_ResourceVersion db)
       (\<lambda>r. r\<lparr>sl_Config := sl_Config db, sl_LastUpdate := sl_LastUpdate db,
              sl_ResourceVersion := newResourceVersion\<rparr>)))"

definition slot_infra_Remove :: "string \<Rightarrow> ('d world, nat) prog" where
  "slot_infra_Remove ident = sql_delete w_slots put_slots (\<lambda>r. sl_ID r = ident)"

definition no_slot_config :: slotConfigDB where
  "no_slot_config = \<lparr>sd_AKV = [], sd_LocalKeyVault = None\<rparr>"

definition no_slot :: HSMSlotDB where
  "no_slot =
     \<lparr>sl_ID = [], sl_InternalResourceID = [], sl_ApplicationID = [], sl_HSMModuleID = [], sl_Slot = [],
      sl_Pin = [], sl_Config = no_slot_config, sl_CreationDate = 0, sl_LastUpdate = 0, sl_ResourceVersion = []\<rparr>"

record slot_filter =
  sf_Values :: HSMSlotDB
  sf_Query :: query

definition slot_column :: "string \<Rightarrow> HSMSlotDB \<Rightarrow> string" where
  "slot_column col r =
     (if col = ''application_id'' then sl_ApplicationID r
      else if col = ''hardware_security_module_id'' then sl_HSMModuleID r
      else sl_ID r)"

definition slot_infra_List :: "slot_filter \<Rightarrow> ('d world, HSMSlotDB list) prog" where
  "slot_infra_List f =
     sql_list sl_CreationDate sl_LastUpdate w_slots (sf_Query f)
       (selects slot_column (sf_Values f) (qu_Filters (sf_Query f)))"

section \<open>The output adapter\<close>

definition mapToSlotConfigDB :: "(bytes \<Rightarrow> bytes) \<Rightarrow> SlotConfig \<Rightarrow> slotConfigDB" where
  "mapToSlotConfigDB keccak slotConfig =
     \<lparr>sd_AKV = cf_AKV slotConfig,
      sd_LocalKeyVault = map_option (map (\<lambda>(k, v). (String_of_address keccak k, v))) (cf_LocalKeyVault slotConfig)\<rparr>"

fun key_store_from_DB :: "(string \<times> string) list \<Rightarrow> go_error + (address \<times> string) list" where
  "key_store_from_DB [] = Inr []"
| "key_store_from_DB ((k, v) # kvs) =
     (case NewFromHexString k of
        Inl err \<Rightarrow> Inl (addr_failure err)
      | Inr addr \<Rightarrow>
          (case key_store_from_DB kvs of Inl err \<Rightarrow> Inl err | Inr ks \<Rightarrow> Inr ((addr, v) # ks)))"

definition mapFromSlotConfigDB :: "slotConfigDB \<Rightarrow> go_error + SlotConfig" where
  "mapFromSlotConfigDB configDB =
     (case sd_LocalKeyVault configDB of
        None \<Rightarrow> Inr \<lparr>cf_AKV = sd_AKV configDB, cf_LocalKeyVault = None\<rparr>
      | Some kvs \<Rightarrow>
          (case key_store_from_DB kvs of
             Inl err \<Rightarrow> Inl err
           | Inr ks \<Rightarrow> Inr \<lparr>cf_AKV = sd_AKV configDB, cf_LocalKeyVault = Some ks\<rparr>))"

definition slot_mapToCreateDB :: "(bytes \<Rightarrow> bytes) \<Rightarrow> HSMSlot \<Rightarrow> go_error + HSMSlotDB" where
  "slot_mapToCreateDB keccak slot =
     (if length (Slot_ID slot) = 0 then Inl Internal
      else if length (Slot_InternalResourceID slot) = 0 then Inl Internal
      else if length (Slot_ApplicationID slot) = 0 then Inl Internal
      else if length (Slot_HSMModuleID slot) = 0 then Inl Internal
      else Inr \<lparr>sl_ID = Slot_ID slot, sl_InternalResourceID = Slot_InternalResourceID slot,
                sl_ApplicationID = Slot_ApplicationID slot, sl_HSMModuleID = Slot_HSMModuleID slot,
                sl_Slot = Slot_Slot slot, sl_Pin = Slot_Pin slot,
                sl_Config = mapToSlotConfigDB keccak (Slot_Config slot),
                sl_CreationDate = Slot_CreationDate slot, sl_LastUpdate = Slot_LastUpdate slot,
                sl_ResourceVersion = []\<rparr>)"

definition mapToUpdatePinDB :: "HSMSlot \<Rightarrow> go_error + HSMSlotDB" where
  "mapToUpdatePinDB slot =
     (if length (Slot_ID slot) = 0 then Inl Internal
      else if length (Slot_Pin slot) = 0 then Inl Internal
      else Inr (no_slot\<lparr>sl_ID := Slot_ID slot, sl_ResourceVersion := Slot_ResourceVersion slot,
                        sl_Pin := Slot_Pin slot, sl_LastUpdate := Slot_LastUpdate slot\<rparr>))"

definition mapToUpdateConfigDB :: "(bytes \<Rightarrow> bytes) \<Rightarrow> HSMSlot \<Rightarrow> go_error + HSMSlotDB" where
  "mapToUpdateConfigDB keccak slot =
     (if length (Slot_ID slot) = 0 then Inl Internal
      else Inr (no_slot\<lparr>sl_ID := Slot_ID slot, sl_ResourceVersion := Slot_ResourceVersion slot,
                        sl_Config := mapToSlotConfigDB keccak (Slot_Config slot),
                        sl_LastUpdate := Slot_LastUpdate slot\<rparr>))"

definition slot_mapFromDB :: "HSMSlotDB \<Rightarrow> go_error + HSMSlot" where
  "slot_mapFromDB db =
     (if length (sl_InternalResourceID db) = 0 then Inl Internal
      else case mapFromSlotConfigDB (sl_Config db) of
        Inl err \<Rightarrow> Inl err
      | Inr dbConfigData \<Rightarrow>
          Inr \<lparr>Slot_ID = sl_ID db, Slot_InternalResourceID = sl_InternalResourceID db,
               Slot_ApplicationID = sl_ApplicationID db, Slot_HSMModuleID = sl_HSMModuleID db,
               Slot_Slot = sl_Slot db, Slot_Pin = sl_Pin db, Slot_Config = dbConfigData,
               Slot_CreationDate = sl_CreationDate db, Slot_LastUpdate = sl_LastUpdate db,
               Slot_ResourceVersion = sl_ResourceVersion db\<rparr>)"

text \<open>Unlike the other repositories, these return the error of \<open>mapFromDB\<close> as it is.\<close>

definition slot_Add :: "env \<Rightarrow> HSMSlot \<Rightarrow> ('d world, HSMSlot) prog" where
  "slot_Add en data =
     bindP (onErrP (liftP (slot_mapToCreateDB (e_keccak en) data)) InternalFromErr) (\<lambda>db.
     bindP (onErrP (slot_infra_Add en db) mapPersistenceErrorToSignerError) (\<lambda>storageData.
     liftP (slot_mapFromDB storageData)))"

definition one_slot :: "HSMSlotDB list \<Rightarrow> go_error + HSMSlot" where
  "one_slot storageData =
     (if length storageData = 0 then Inl NotFound
      else if 1 < length storageData then Inl Internal
      else slot_mapFromDB (storageData ! 0))"

definition slot_Get :: "string \<Rightarrow> ('d world, HSMSlot) prog" where
  "slot_Get ident =
     bindP (onErrP (slot_infra_Get ident) mapPersistenceErrorToSignerError) (\<lambda>storageData.
     liftP (one_slot storageData))"

definition slot_GetByApplication :: "string \<Rightarrow> ('d world, HSMSlot) prog" where
  "slot_GetByApplication applicationID =
     bindP (onErrP (slot_infra_GetByApplicationID applicationID) mapPersistenceErrorToSignerError) (\<lambda>storageData.
     liftP (one_slot storageData))"

definition slot_EditPin :: "env \<Rightarrow> HSMSlot \<Rightarrow> ('d world, HSMSlot) prog" where
  "slot_EditPin en data =
     bindP (onErrP (liftP (mapToUpdatePinDB data)) InternalFromErr) (\<lambda>db.
     bindP (onErrP (slot_infra_EditPin en db) mapPersistenceErrorToSignerError) (\<lambda>rowsAffected.
     if rowsAffected = 0 then throwP NotFound
     else if 1 < rowsAffected then throwP Internal
     else onErrP (slot_Get (Slot_ID data)) InternalFromErr))"

definition slot_EditConfig :: "env \<Rightarrow> HSMSlot \<Rightarrow> ('d world, HSMSlot) prog" where
  "slot_EditConfig en data =
     bindP (onErrP (liftP (mapToUpdateConfigDB (e_keccak en) data)) InternalFromErr) (\<lambda>db.
     bindP (onErrP (slot_infra_EditConfig en db) mapPersistenceErrorToSignerError) (\<lambda>rowsAffected.
     if rowsAffected = 0 then throwP NotFound
     else if 1 < rowsAffected then throwP Internal
     else onErrP (slot_Get (Slot_ID data)) InternalFromErr))"

definition slot_Remove :: "string \<Rightarrow> ('d world, HSMSlot) prog" where
  "slot_Remove ident =
     bindP (slot_Get ident) (\<lambda>storageData.
     bindP (onErrP (slot_infra_Remove ident) mapPersistenceErrorToSignerError) (\<lambda>_.
     returnP storageData))"

definition slot_All :: "slot_filter \<Rightarrow> ('d world, HSMSlot collection) prog" where
  "slot_All f =
     bindP (onErrP (slot_infra_List (f\<lparr>sf_Query := one_more (sf_Query f)\<rparr>)) mapPersistenceErrorToSignerError)
       (\<lambda>storageData. liftP (mapped_page slot_mapFromDB (qu_Pagination (sf_Query f)) storageData))"

definition slot_Filter :: slot_filter where
  "slot_Filter = \<lparr>sf_Values = no_slot, sf_Query = no_query\<rparr>"

definition FilterByApplicationID :: "string \<Rightarrow> slot_filter \<Rightarrow> slot_filter" where
  "FilterByApplicationID applicationID f =
     f\<lparr>sf_Values := (sf_Values f)\<lparr>sl_ApplicationID := applicationID\<rparr>,
       sf_Query := (sf_Query f)\<lparr>qu_Filters := qu_Filters (sf_Query f) @ [EqualFilter ''application_id'']\<rparr>\<rparr>"

definition FilterByHSMModuleID :: "string \<Rightarrow> slot_filter \<Rightarrow> slot_filter" where
  "FilterByHSMModuleID hsmID f =
     f\<lparr>sf_Values := (sf_Values f)\<lparr>sl_HSMModuleID := hsmID\<rparr>,
       sf_Query := (sf_Query f)\<lparr>qu_Filters := qu_Filters (sf_Query f) @
         [EqualFilter ''hardware_security_module_id'']\<rparr>\<rparr>"

definition slot_ordered :: "string \<Rightarrow> string \<Rightarrow> int \<Rightarrow> int \<Rightarrow> slot_filter \<Rightarrow> slot_filter" where
  "slot_ordered direction orderBy limit offset f =
     f\<lparr>sf_Query := query_Paged (ClampPageLimit limit) offset
         (query_Sort (if orderBy = OrderByLastUpdate then ''last_update'' else ''creation_date'') direction
           (sf_Query f))\<rparr>"

section \<open>The use case\<close>

definition config_fields :: "SlotConfig \<Rightarrow> (string \<times> string) list" where
  "config_fields c =
     concat (map (\<lambda>k. [(''required'', KeyName k), (''required'', KeyVersion k),
                       (''required'', KeyPublicAddress k)]) (cf_AKV c))"

definition precondition :: "string \<Rightarrow> go_error" where
  "precondition msg = SetHumanReadableMessage msg PreconditionFailed"

definition GetHSMSlot :: "env \<Rightarrow> string \<Rightarrow> ('d world, HSMSlot) prog" where
  "GetHSMSlot en ident =
     bindP (checkP (e_validate en [standard_id ident]) (invalid_data ''couldn't validate input data'')) (\<lambda>_.
     onErrP (slot_Get ident) not_found)"

definition GetHSMSlotByApplication :: "env \<Rightarrow> string \<Rightarrow> ('d world, HSMSlot) prog" where
  "GetHSMSlotByApplication en applicationID =
     bindP (checkP (e_validate en [standard_id applicationID]) (invalid_data ''couldn't validate input data'')) (\<lambda>_.
     onErrP (slot_GetByApplication applicationID) not_found)"

text \<open>The dependencies of a slot; an entry that is there already is no error.\<close>

definition createEntryIfNone :: "env \<Rightarrow> string \<Rightarrow> string \<Rightarrow> string \<Rightarrow> string \<Rightarrow> ('d world, unit) prog" where
  "createEntryIfNone en resourceID resourceKind parentID parentKind =
     bindP (tryP (CreateEntry en resourceID resourceKind parentID parentKind)) (\<lambda>r.
       case r of
         Inl createEntryErr \<Rightarrow> if \<not> IsAlreadyExists createEntryErr then throwP createEntryErr else returnP ()
       | Inr _ \<Rightarrow> returnP ())"

definition missing_parent :: "string \<Rightarrow> go_error \<Rightarrow> go_error" where
  "missing_parent msg err = (if IsNotFound err then precondition msg else err)"

definition addApplicationDependency :: "env \<Rightarrow> HSMSlot \<Rightarrow> ('d world, unit) prog" where
  "addApplicationDependency en data =
     bindP (onErrP (GetApplication en (Slot_ApplicationID data))
       (missing_parent (''can't create HSM slot becauase application '' @ quoted (Slot_ApplicationID data) @
          '' does not exist''))) (\<lambda>app.
     createEntryIfNone en (Slot_InternalResourceID data) KindHSMSlot (App_InternalResourceID app) KindApplication)"

definition addHSMModuleDependency :: "env \<Rightarrow> HSMSlot \<Rightarrow> ('d world, unit) prog" where
  "addHSMModuleDependency en data =
     bindP (onErrP (GetHSMModule en (Slot_HSMModuleID data))
       (missing_parent (''can't create HSM slot becauase HSM module '' @ quoted (Slot_HSMModuleID data) @
          '' does not exist''))) (\<lambda>module.
     createEntryIfNone en (Slot_InternalResourceID data) KindHSMSlot (Mod_InternalResourceID module) KindHSMModule)"

definition createSlot :: "env \<Rightarrow> CreateHSMSlotInput \<Rightarrow> ('d world, HSMSlot) prog" where
  "createSlot en input =
     bindP (timeNow en) (\<lambda>now.
     bindP (case cs_ID input of None \<Rightarrow> newUUID en | Some ident \<Rightarrow> returnP ident) (\<lambda>ident.
     bindP (newUUID en) (\<lambda>internalResourceID.
     let hsmSlot = \<lparr>Slot_ID = ident, Slot_InternalResourceID = internalResourceID,
           Slot_ApplicationID = cs_ApplicationID input, Slot_HSMModuleID = cs_HSMModuleID input,
           Slot_Slot = cs_Slot input, Slot_Pin = cs_Pin input, Slot_Config = cs_Config input,
           Slot_CreationDate = now, Slot_LastUpdate = now, Slot_ResourceVersion = []\<rparr> in
     bindP (addApplicationDependency en hsmSlot) (\<lambda>_.
     bindP (addHSMModuleDependency en hsmSlot) (\<lambda>_.
     onErrP (slot_Add en hsmSlot) (\<lambda>err.
       if IsAlreadyExists err then
         SetHumanReadableMessage (''hsm slot '' @ bracketed (Slot_ID hsmSlot) @ '' already exists'')
           (AlreadyExistsFromErr err)
       else InternalFromErr err))))))"

definition alive_failure :: "go_error \<Rightarrow> go_error" where
  "alive_failure err = (if IsPreconditionFailed err then err else InternalFromErr err)"

definition slot_absent_module :: "string \<Rightarrow> go_error \<Rightarrow> go_error" where
  "slot_absent_module msg err =
     (if IsNotFound err then SetHumanReadableMessage msg (PreconditionFailedFromErr err)
      else InternalFromErr err)"

definition CreateHSMSlot :: "env \<Rightarrow> 'd connector \<Rightarrow> CreateHSMSlotInput \<Rightarrow> ('d world, HSMSlot) prog" where
  "CreateHSMSlot en cn input =
     bindP (checkP (e_validate en
       ((case cs_ID input of None \<Rightarrow> [] | Some i \<Rightarrow> [(''optional'', i)]) @
        [(''required'', cs_ApplicationID input), (''required'', cs_HSMModuleID input),
         (''optional'', cs_Slot input), (''optional'', cs_Pin input)] @ config_fields (cs_Config input)))
       (invalid_data ''couldn't validate input data'')) (\<lambda>_.
     bindP (onErrP (GetHSMModule en (cs_HSMModuleID input))
       (slot_absent_module (''slot '' @ quoted (cs_Slot input) @ '' in HSM '' @ quoted (cs_HSMModuleID input) @
          '' is not reachable''))) (\<lambda>getHSMOutput.
     bindP (if Mod_Kind getHSMOutput = SoftHSMModuleKind then
          bindP (onDevices (Reset cn (Mod_Kind getHSMOutput))) (\<lambda>_.
          bindP (onErrP (onDevices (IsAlive cn (cs_Slot input) (cs_Pin input) (Mod_Kind getHSMOutput)))
            alive_failure) (\<lambda>alive.
          checkP alive (precondition (''slot '' @ cs_Slot input @ '' is not reachable in the HSM module '' @
            quoted (cs_HSMModuleID input)))))
        else returnP ()) (\<lambda>_.
     onErrP (createSlot en input) (\<lambda>createSlotErr.
       if IsAlreadyExists createSlotErr then AlreadyExistsFromErr createSlotErr
       else if IsPreconditionFailed createSlotErr then createSlotErr
       else InternalFromErr createSlotErr))))"

definition assigned_module :: "env \<Rightarrow> HSMSlot \<Rightarrow> ('d world, HSMModule) prog" where
  "assigned_module en slot =
     onErrP (GetHSMModule en (Slot_HSMModuleID slot))
       (slot_absent_module (''HSM '' @ quoted (Slot_HSMModuleID slot) @ '' assigned to this slot does not exist''))"

definition not_in_module :: "string \<Rightarrow> go_error" where
  "not_in_module hsm = SetHumanReadableMessage (''slot doesn't exist in the HSM module '' @ quoted hsm) NotFound"

definition blank_slot :: HSMSlot where
  "blank_slot =
     \<lparr>Slot_ID = [], Slot_InternalResourceID = [], Slot_ApplicationID = [], Slot_HSMModuleID = [], Slot_Slot = [],
      Slot_Pin = [], Slot_Config = \<lparr>cf_AKV = [], cf_LocalKeyVault = None\<rparr>, Slot_CreationDate = 0,
      Slot_LastUpdate = 0, Slot_ResourceVersion = []\<rparr>"

definition EditPin :: "env \<Rightarrow> 'd connector \<Rightarrow> EditPinInput \<Rightarrow> ('d world, HSMSlot) prog" where
  "EditPin en cn input =
     bindP (checkP (e_validate en [standard_id (ep_ID input), (''required'', ep_ResourceVersion input),
         (''required'', ep_Pin input), (''required'', ep_HSMModuleID input)])
       (invalid_data ''couldn't validate input data'')) (\<lambda>_.
     bindP (GetHSMSlot en (ep_ID input)) (\<lambda>slot.
     bindP (checkP (Slot_HSMModuleID slot = ep_HSMModuleID input) (not_in_module (ep_HSMModuleID input))) (\<lambda>_.
     bindP (assigned_module en slot) (\<lambda>module.
     bindP (onErrP (onDevices (IsAlive cn (Slot_Slot slot) (ep_Pin input) (Mod_Kind module))) alive_failure) (\<lambda>alive.
     bindP (checkP alive (precondition (''slot '' @ Slot_Slot slot @ '' is not reachable in the HSM module '' @
         quoted (Mod_ID module) @ '', the new 'Pin' might be incorrect''))) (\<lambda>_.
     bindP (timeNow en) (\<lambda>now.
     onErrP (slot_EditPin en (blank_slot\<lparr>Slot_ID := ep_ID input, Slot_LastUpdate := now,
         Slot_ResourceVersion := ep_ResourceVersion input, Slot_Pin := ep_Pin input\<rparr>)) not_found)))))))"

definition wrong_kind :: "string \<Rightarrow> HSMModule \<Rightarrow> string \<Rightarrow> go_error" where
  "wrong_kind what module kind =
     precondition (''cannot '' @ what @ '': configured HSM '' @ quoted (Mod_ID module) @ '' is not of kind '' @ kind)"

definition EditConfig :: "env \<Rightarrow> EditConfigInput \<Rightarrow> ('d world, HSMSlot) prog" where
  "EditConfig en input =
     bindP (checkP (e_validate en ([standard_id (ec_ID input), (''required'', ec_ResourceVersion input)] @
         config_fields (ec_Config input) @ [(''required'', ec_HSMModuleID input)]))
       (invalid_data ''couldn't validate input data'')) (\<lambda>_.
     bindP (GetHSMSlot en (ec_ID input)) (\<lambda>slot.
     bindP (checkP (Slot_HSMModuleID slot = ec_HSMModuleID input) (not_in_module (ec_HSMModuleID input))) (\<lambda>_.
     bindP (assigned_module en slot) (\<lambda>module.
     bindP (checkP (Mod_Kind module = AKVModuleKind) (wrong_kind ''update config'' module AKVModuleKind)) (\<lambda>_.
     bindP (timeNow en) (\<lambda>now.
     onErrP (slot_EditConfig en (blank_slot\<lparr>Slot_ID := ec_ID input, Slot_LastUpdate := now,
         Slot_ResourceVersion := ec_ResourceVersion input, Slot_HSMModuleID := Mod_ID module,
         Slot_Config := ec_Config input\<rparr>)) not_found))))))"

definition slot_removeAllDependencies :: "env \<Rightarrow> string \<Rightarrow> ('d world, unit) prog" where
  "slot_removeAllDependencies en ident =
     bindP (GetHSMSlot en ident) (\<lambda>slot.
     removeEntries en (Slot_InternalResourceID slot) KindHSMSlot (''HSM slot '' @ quoted ident))"

definition DeleteHSMSlot :: "env \<Rightarrow> string \<Rightarrow> ('d world, HSMSlot) prog" where
  "DeleteHSMSlot en ident =
     bindP (checkP (e_validate en [standard_id ident]) (invalid_data ''couldn't validate input data'')) (\<lambda>_.
     bindP (slot_removeAllDependencies en ident) (\<lambda>_.
     onErrP (slot_Remove ident) not_found))"

definition ListHSMSlotsByApplication ::
    "env \<Rightarrow> ListHSMSlotsByApplicationInput \<Rightarrow> ('d world, HSMSlot collection) prog" where
  "ListHSMSlotsByApplication en input =
     bindP (checkP (e_validate en [standard_id (lsa_ApplicationID input),
         (''natural'', Int256_String (lsa_PageLimit input)), (''natural'', Int256_String (lsa_PageOffset input)),
         (''optional'', lsa_OrderBy input), (''optional'', lsa_OrderDirection input)])
       (invalid_data ''couldn't validate input data'')) (\<lambda>_.
     case NormalizeOrderDirection (DefaultString (lsa_OrderDirection input) OrderDesc) of
       (direction, validDirection) \<Rightarrow>
         bindP (checkP validDirection (invalid_direction (lsa_OrderDirection input))) (\<lambda>_.
         onErrP (slot_All (slot_ordered direction (lsa_OrderBy input) (lsa_PageLimit input) (lsa_PageOffset input)
           (FilterByApplicationID (lsa_ApplicationID input) slot_Filter))) InternalFromErr))"

definition ListHSMSlotsByHSMModule ::
    "env \<Rightarrow> ListHSMSlotsByHSMModuleInput \<Rightarrow> ('d world, HSMSlot collection) prog" where
  "ListHSMSlotsByHSMModule en input =
     bindP (checkP (e_validate en ([standard_id (lsm_HSMModuleID input),
         (''natural'', Int256_String (lsm_PageLimit input)), (''natural'', Int256_String (lsm_PageOffset input)),
         (''optional'', lsm_OrderBy input), (''optional'', lsm_OrderDirection input)] @
         (case lsm_ApplicationID input of None \<Rightarrow> [] | Some a \<Rightarrow> [(''optional'', a)])))
       (invalid_data ''couldn't validate input data'')) (\<lambda>_.
     let filters = FilterByHSMModuleID (lsm_HSMModuleID input) slot_Filter;
         filters = (case lsm_ApplicationID input of None \<Rightarrow> filters | Some a \<Rightarrow> FilterByApplicationID a filters) in
     case NormalizeOrderDirection (DefaultString (lsm_OrderDirection input) OrderDesc) of
       (direction, validDirection) \<Rightarrow>
         bindP (checkP validDirection (invalid_direction (lsm_OrderDirection input))) (\<lambda>_.
         onErrP (slot_All (slot_ordered direction (lsm_OrderBy input) (lsm_PageLimit input) (lsm_PageOffset input)
           filters)) InternalFromErr))"

section \<open>Local keys\<close>

text \<open>The slot and its module, which has to hold local keys.\<close>

definition local_slot :: "env \<Rightarrow> string \<Rightarrow> string \<Rightarrow> ('d world, HSMSlot) prog" where
  "local_slot en ident what =
     bindP (GetHSMSlot en ident) (\<lambda>storedSlot.
     bindP (assigned_module en storedSlot) (\<lambda>storedHSM.
     bindP (checkP (Mod_Kind storedHSM = LKVModuleKind) (wrong_kind what storedHSM LKVModuleKind)) (\<lambda>_.
     returnP storedSlot)))"

definition storedKeys :: "HSMSlot \<Rightarrow> (address \<times> string) list" where
  "storedKeys slot = (case cf_LocalKeyVault (Slot_Config slot) of None \<Rightarrow> [] | Some ks \<Rightarrow> ks)"

definition withKeys :: "(address \<times> string) list \<Rightarrow> HSMSlot \<Rightarrow> HSMSlot" where
  "withKeys ks slot = slot\<lparr>Slot_Config := (Slot_Config slot)\<lparr>cf_LocalKeyVault := Some ks\<rparr>\<rparr>"

definition AddLocalKey :: "env \<Rightarrow> AddLocalKeyInput \<Rightarrow> ('d world, unit) prog" where
  "AddLocalKey en input =
     bindP (checkP (e_validate en [standard_id (alk_ID input),
         (''hexBytes'', HexBytes_Encode (alk_PrivateKey input)),
         (''address'', String_of_address (e_keccak en) (alk_Address input))])
       (invalid_data ''couldn't validate input data'')) (\<lambda>_.
     bindP (local_slot en (alk_ID input) ''add local key'') (\<lambda>storedSlot.
     bindP (checkP (map_of (storedKeys storedSlot) (alk_Address input) = None) AlreadyExists) (\<lambda>_.
     bindP (timeNow en) (\<lambda>now.
     bindP (onErrP (slot_EditConfig en
       (withKeys ((alk_Address input, TrimPrefix (HexBytes_Encode (alk_PrivateKey input)) ''0x'') #
           storedKeys storedSlot) storedSlot\<lparr>Slot_LastUpdate := now\<rparr>)) not_found) (\<lambda>_.
     returnP ())))))"

definition RemoveLocalKey :: "env \<Rightarrow> RemoveLocalKeyInput \<Rightarrow> ('d world, unit) prog" where
  "RemoveLocalKey en input =
     bindP (checkP (e_validate en [standard_id (rlk_ID input),
         (''address'', String_of_address (e_keccak en) (rlk_Address input))])
       (invalid_data ''couldn't validate input data'')) (\<lambda>_.
     bindP (local_slot en (rlk_ID input) ''remove local key'') (\<lambda>storedSlot.
     bindP (checkP (cf_LocalKeyVault (Slot_Config storedSlot) \<noteq> None) NotFound) (\<lambda>_.
     bindP (checkP (map_of (storedKeys storedSlot) (rlk_Address input) \<noteq> None) NotFound) (\<lambda>_.
     bindP (timeNow en) (\<lambda>now.
     bindP (onErrP (slot_EditConfig en
       (withKeys (filter (\<lambda>kv. fst kv \<noteq> rlk_Address input) (storedKeys storedSlot)) storedSlot
         \<lparr>Slot_LastUpdate := now\<rparr>)) not_found) (\<lambda>_.
     returnP ()))))))"

definition ListLocalKeys :: "env \<Rightarrow> string \<Rightarrow> ('d world, address list) prog" where
  "ListLocalKeys en ident =
     bindP (checkP (e_validate en [standard_id ident]) (invalid_data ''couldn't validate input data'')) (\<lambda>_.
     bindP (local_slot en ident ''list local keys'') (\<lambda>storedSlot.
     returnP (map fst (storedKeys storedSlot))))"

section \<open>The resolver of connections\<close>

record HSMConnection =
  conn_Slot :: HSMSlot
  conn_ModuleKind :: string
  conn_ApplicationDefaultChainID :: int

definition getModuleKind :: "string \<Rightarrow> go_error + string" where
  "getModuleKind kind =
     (if kind = SoftHSMModuleKind then Inr ''SoftHSM''
      else if kind = AKVModuleKind then Inr ''AKV''
      else if kind = LKVModuleKind then Inr ''LocalKeyVault''
      else Inl InvalidArgument)"

definition ByApplication :: "env \<Rightarrow> string \<Rightarrow> ('d world, HSMConnection) prog" where
  "ByApplication en applicationID =
     bindP (checkP (e_validate en []) (invalid_data ''couldn't validate input data'')) (\<lambda>_.
     bindP (onErrP (GetApplication en applicationID) InternalFromErr) (\<lambda>app.
     bindP (onErrP (GetHSMSlotByApplication en (App_ID app)) InternalFromErr) (\<lambda>slot.
     bindP (onErrP (GetHSMModule en (Slot_HSMModuleID slot)) InternalFromErr) (\<lambda>module.
     bindP (onErrP (liftP (getModuleKind (Mod_Kind module))) InternalFromErr) (\<lambda>moduleKind.
     returnP \<lparr>conn_Slot = slot, conn_ModuleKind = moduleKind,
              conn_ApplicationDefaultChainID = App_DefaultChainID app\<rparr>)))))"

section \<open>Reading\<close>

lemma keeps_still_slot_reads [keeps_intros]:
  "keeps (still w0) (slot_Get ident)" "keeps (still w0) (slot_GetByApplication app)"
  "keeps (still w0) (GetHSMSlot en ident)" "keeps (still w0) (GetHSMSlotByApplication en app)"
  "keeps (still w0) (assigned_module en slot)" "keeps (still w0) (local_slot en ident what)"
  "keeps (still w0) (ListLocalKeys en ident)" "keeps (still w0) (ByApplication en app)"
  unfolding slot_Get_def slot_infra_Get_def slot_GetByApplication_def slot_infra_GetByApplicationID_def GetHSMSlot_def
    GetHSMSlotByApplication_def assigned_module_def local_slot_def ListLocalKeys_def ByApplication_def
  by (intro keeps_intros)+

lemma slot_Get_quiet:
  "w_faults w = [] \<Longrightarrow> slot_Get ident w = (one_slot (filter (\<lambda>r. sl_ID r = ident) (w_slots w)), w)"
  by (simp add: slot_Get_def slot_infra_Get_def prog_defs quiet_simps)

lemma slot_GetByApplication_quiet:
  "w_faults w = [] \<Longrightarrow> slot_GetByApplication app w =
     (one_slot (filter (\<lambda>r. sl_ApplicationID r = app) (w_slots w)), w)"
  by (simp add: slot_GetByApplication_def slot_infra_GetByApplicationID_def prog_defs quiet_simps)

lemma one_slot_Inr: "one_slot rows = Inr x \<Longrightarrow> \<exists>r. rows = [r] \<and> slot_mapFromDB r = Inr x"
  by (cases rows) (auto simp: one_slot_def split: if_splits)

lemma one_slot_one [simp]: "one_slot [r] = slot_mapFromDB r"
  by (simp add: one_slot_def)

lemma slot_mapFromDB_Inr:
  "slot_mapFromDB db = Inr a \<Longrightarrow>
     Slot_ID a = sl_ID db \<and> Slot_InternalResourceID a = sl_InternalResourceID db \<and>
     Slot_ApplicationID a = sl_ApplicationID db \<and> Slot_HSMModuleID a = sl_HSMModuleID db \<and>
     Slot_Slot a = sl_Slot db \<and> Slot_Pin a = sl_Pin db \<and> Slot_ResourceVersion a = sl_ResourceVersion db \<and>
     mapFromSlotConfigDB (sl_Config db) = Inr (Slot_Config a)"
  by (auto simp: slot_mapFromDB_def split: if_splits sum.splits)

section \<open>Unique keys\<close>

lemma keeps_keys_devices [keeps_intros]: "keeps keys_ok (onDevices m)"
  by (auto simp: keeps_def onDevices_def keys_ok_def split: prod.splits)

lemma keeps_keys_createEntryIfNone [keeps_intros]: "keeps keys_ok (createEntryIfNone en r k p pk)"
  unfolding createEntryIfNone_def by (intro keeps_intros)

lemma keeps_keys_slot_storage [keeps_intros]:
  "keeps keys_ok (slot_Add en data)" "keeps keys_ok (slot_EditPin en data)" "keeps keys_ok (slot_EditConfig en data)"
  "keeps keys_ok (slot_Remove ident)" "keeps keys_ok (slot_Get ident)"
  unfolding slot_Add_def slot_infra_Add_def slot_infra_Get_def slot_EditPin_def slot_infra_EditPin_def
    slot_infra_Exists_def slot_EditConfig_def slot_infra_EditConfig_def slot_Remove_def slot_infra_Remove_def
    slot_Get_def
  by (intro keeps_intros; simp)+

lemma keeps_keys_slot_use_cases [keeps_intros]:
  "keeps keys_ok (CreateHSMSlot en cn ci)" "keeps keys_ok (EditPin en cn pi)" "keeps keys_ok (EditConfig en ei)"
  "keeps keys_ok (DeleteHSMSlot en ident)" "keeps keys_ok (AddLocalKey en ai)" "keeps keys_ok (RemoveLocalKey en ri)"
  unfolding CreateHSMSlot_def createSlot_def addApplicationDependency_def addHSMModuleDependency_def EditPin_def
    EditConfig_def DeleteHSMSlot_def slot_removeAllDependencies_def removeEntries_def AddLocalKey_def RemoveLocalKey_def
    local_slot_def GetHSMSlot_def assigned_module_def Let_def
  by (intro keeps_intros)+

end
