(* ===== verification/Slot_Laws.thy ===== *)
theory Slot_Laws
  imports Hsm_Slots Application_Laws
begin

text \<open>
  What the slot use case does to a database that works: the life of a local key, the stored
  configuration, and the connection that the resolver finds.
\<close>

section \<open>The stored configuration\<close>

lemma key_store_from_DB_Inr:
  "key_store_from_DB kvs = Inr ks \<Longrightarrow> map snd ks = map snd kvs \<and> (\<forall>kv\<in>set ks. length (fst kv) = 20)"
proof (induction kvs arbitrary: ks)
  case (Cons kv kvs)
  obtain k v where kv: "kv = (k, v)" by (cases kv)
  then obtain a ks' where "NewFromHexString k = Inr a" "key_store_from_DB kvs = Inr ks'" "ks = (a, v) # ks'"
    using Cons.prems by (auto split: sum.splits)
  moreover have "length a = 20" if "NewFromHexString k = Inr a" for a
    using that by (auto simp: NewFromHexString_def addressLength_def split: if_splits prod.splits option.splits)
  ultimately show ?case using Cons.IH kv by auto
qed simp

lemma key_store_roundtrip:
  "\<forall>kv\<in>set ks. length (fst kv) = 20 \<Longrightarrow>
   key_store_from_DB (map (\<lambda>(k, v). (String_of_address keccak k, v)) ks) = Inr ks"
  by (induction ks) (auto simp: NewFromHexString_String)

lemma mapFromSlotConfigDB_lengths:
  assumes "mapFromSlotConfigDB db = Inr c" and "cf_LocalKeyVault c = Some ks"
  shows "\<forall>kv\<in>set ks. length (fst kv) = 20"
  using assms key_store_from_DB_Inr by (fastforce simp: mapFromSlotConfigDB_def split: option.splits sum.splits)

lemma slot_config_read_back:
  assumes "\<And>ks. cf_LocalKeyVault c = Some ks \<Longrightarrow> \<forall>kv\<in>set ks. length (fst kv) = 20"
  shows "mapFromSlotConfigDB (mapToSlotConfigDB keccak c) = Inr c"
  using assms key_store_roundtrip
  by (cases "cf_LocalKeyVault c") (auto simp: mapFromSlotConfigDB_def mapToSlotConfigDB_def)

section \<open>Changing the configuration\<close>

definition configured :: "env \<Rightarrow> 'd world \<Rightarrow> HSMSlot \<Rightarrow> HSMSlotDB \<Rightarrow> HSMSlotDB" where
  "configured en w data r =
     r\<lparr>sl_Config := mapToSlotConfigDB (e_keccak en) (Slot_Config data), sl_LastUpdate := Slot_LastUpdate data,
       sl_ResourceVersion := e_uuid en (w_uuids w)\<rparr>"

lemma configured_simps [simp]:
  "sl_ID (configured en w data r) = sl_ID r" "sl_HSMModuleID (configured en w data r) = sl_HSMModuleID r"
  "sl_ApplicationID (configured en w data r) = sl_ApplicationID r"
  "sl_InternalResourceID (configured en w data r) = sl_InternalResourceID r"
  "sl_Config (configured en w data r) = mapToSlotConfigDB (e_keccak en) (Slot_Config data)"
  by (simp_all add: configured_def)

lemma slot_EditConfig_Inr:
  assumes quiet: "w_faults w = []" and run: "slot_EditConfig en data w = (Inr x, w')"
    and row: "filter (\<lambda>r. sl_ID r = Slot_ID data) (w_slots w) = [r]"
  obtains ss where "w' = w\<lparr>w_uuids := Suc (w_uuids w), w_slots := ss\<rparr>"
    and "filter (\<lambda>r. sl_ID r = Slot_ID data) ss = [configured en w data r]"
    and "slot_mapFromDB (configured en w data r) = Inr x"
    and "\<And>i. i \<noteq> Slot_ID data \<Longrightarrow> filter (\<lambda>r. sl_ID r = i) ss = filter (\<lambda>r. sl_ID r = i) (w_slots w)"
proof -
  let ?sel = "\<lambda>r. sl_ID r = Slot_ID data \<and> sl_ResourceVersion r = Slot_ResourceVersion data"
  let ?ss = "map (\<lambda>r. if ?sel r then configured en w data r else r) (w_slots w)"
  let ?w = "w\<lparr>w_uuids := Suc (w_uuids w), w_slots := ?ss\<rparr>"
  have "length (filter ?sel (w_slots w)) \<noteq> 0 \<and> slot_Get (Slot_ID data) ?w = (Inr x, w')"
    using run quiet row
    by (auto simp: slot_EditConfig_def slot_infra_EditConfig_def slot_infra_Exists_def prog_ok quiet_simps newUUID_def
        mapToUpdateConfigDB_def no_slot_def configured_def split: if_splits cong: if_cong)
  then have some: "filter ?sel (w_slots w) \<noteq> []" and got: "slot_Get (Slot_ID data) ?w = (Inr x, w')" by auto
  have "filter ?sel (w_slots w) = filter (\<lambda>r. sl_ResourceVersion r = Slot_ResourceVersion data) [r]"
    by (simp flip: row add: conj_commute)
  then have version: "sl_ResourceVersion r = Slot_ResourceVersion data" using some by (auto split: if_splits)
  have other: "filter (\<lambda>r. sl_ID r = i) ?ss =
      map (\<lambda>r. if ?sel r then configured en w data r else r) (filter (\<lambda>r. sl_ID r = i) (w_slots w))" for i
  proof -
    have "sl_ID (if ?sel r then configured en w data r else r) = sl_ID r" for r by simp
    then show ?thesis by (simp add: filter_map o_def del: if_split)
  qed
  have ident: "sl_ID r = Slot_ID data" using row by (auto dest: filter_eq_ConsD)
  have new: "filter (\<lambda>r. sl_ID r = Slot_ID data) ?ss = [configured en w data r]"
    unfolding other row using version ident by simp
  have "w_faults ?w = []" using quiet by simp
  then have "w' = ?w" and "slot_mapFromDB (configured en w data r) = Inr x"
    using got new by (simp_all add: slot_Get_quiet)
  moreover have "filter (\<lambda>r. sl_ID r = i) ?ss = filter (\<lambda>r. sl_ID r = i) (w_slots w)" if "i \<noteq> Slot_ID data" for i
    using that unfolding other by (intro map_idI) auto
  ultimately show thesis using that new by blast
qed

text \<open>What the operations on local keys find.\<close>

lemma local_slot_Inr:
  assumes quiet: "w_faults w = []" and run: "local_slot en ident what w = (Inr slot, w')"
  obtains r m b where "w' = w" and "filter (\<lambda>r. sl_ID r = ident) (w_slots w) = [r]" and "slot_mapFromDB r = Inr slot"
    and "filter (\<lambda>b. hm_ID b = sl_HSMModuleID r) (w_modules w) = [b]" and "module_mapFromDB b = Inr m"
    and "Mod_Kind m = LKVModuleKind" and "e_validate en [standard_id ident]"
    and "e_validate en [standard_id (sl_HSMModuleID r)]"
proof -
  have w': "w' = w" by (rule still_eq [OF keeps_still_slot_reads(6) quiet run])
  obtain w1 w2 m where get: "slot_Get ident w = (Inr slot, w1)" and v: "e_validate en [standard_id ident]"
    and mod: "GetHSMModule en (Slot_HSMModuleID slot) w1 = (Inr m, w2)" and k: "Mod_Kind m = LKVModuleKind"
    using run by (auto simp: local_slot_def GetHSMSlot_def assigned_module_def prog_ok)
  have one: "one_slot (filter (\<lambda>r. sl_ID r = ident) (w_slots w)) = Inr slot" and w1: "w1 = w"
    using get unfolding slot_Get_quiet [OF quiet] by auto
  from one_slot_Inr [OF one] obtain r where r: "filter (\<lambda>r. sl_ID r = ident) (w_slots w) = [r]" "slot_mapFromDB r = Inr slot"
    by (elim exE conjE)
  have "Slot_HSMModuleID slot = sl_HSMModuleID r" using slot_mapFromDB_Inr [OF r(2)] by blast
  moreover have "e_validate en [standard_id (Slot_HSMModuleID slot)]"
    using mod by (auto simp: GetHSMModule_def prog_ok)
  moreover obtain b where "filter (\<lambda>b. hm_ID b = Slot_HSMModuleID slot) (w_modules w) = [b]" "module_mapFromDB b = Inr m"
    using GetHSMModule_Inr [OF quiet mod [unfolded w1]] by (elim conjE exE)
  ultimately show thesis using that [OF w' r] k v by simp
qed

lemma local_slot_quiet:
  assumes "w_faults w = []" and "filter (\<lambda>r. sl_ID r = ident) (w_slots w) = [r]" and "slot_mapFromDB r = Inr slot"
    and "filter (\<lambda>b. hm_ID b = sl_HSMModuleID r) (w_modules w) = [b]" and "module_mapFromDB b = Inr m"
    and "Mod_Kind m = LKVModuleKind" and "e_validate en [standard_id ident]"
    and "e_validate en [standard_id (sl_HSMModuleID r)]"
  shows "local_slot en ident what w = (Inr slot, w)"
  using assms slot_mapFromDB_Inr [OF assms(3)]
  by (simp add: local_slot_def GetHSMSlot_def assigned_module_def GetHSMModule_def prog_defs slot_Get_quiet
      module_Get_quiet single_row_one)

lemma local_slot_any:
  assumes quiet: "w_faults w = []" and run: "local_slot en ident what w = (Inr slot, w')"
  shows "local_slot en ident what' w = (Inr slot, w)"
proof -
  obtain r m b where "filter (\<lambda>r. sl_ID r = ident) (w_slots w) = [r]" "slot_mapFromDB r = Inr slot"
    "filter (\<lambda>b. hm_ID b = sl_HSMModuleID r) (w_modules w) = [b]" "module_mapFromDB b = Inr m"
    "Mod_Kind m = LKVModuleKind" "e_validate en [standard_id ident]" "e_validate en [standard_id (sl_HSMModuleID r)]"
    by (rule local_slot_Inr [OF quiet run])
  then show ?thesis by (rule local_slot_quiet [OF quiet])
qed

lemma storedKeys_lengths:
  assumes "local_slot en ident what w = (Inr slot, w')" and "w_faults w = []"
  shows "\<forall>kv\<in>set (storedKeys slot). length (fst kv) = 20"
proof -
  obtain r where "slot_mapFromDB r = Inr slot" by (rule local_slot_Inr [OF assms(2,1)])
  then have "mapFromSlotConfigDB (sl_Config r) = Inr (Slot_Config slot)" using slot_mapFromDB_Inr by blast
  from mapFromSlotConfigDB_lengths [OF this] show ?thesis
    by (cases "cf_LocalKeyVault (Slot_Config slot)") (simp_all add: storedKeys_def)
qed

lemma change_keys:
  assumes quiet: "w_faults w = []" and slot: "local_slot en ident what w = (Inr slot, w)"
    and len: "\<forall>kv\<in>set ks. length (fst kv) = 20"
    and run: "slot_EditConfig en (withKeys ks slot\<lparr>Slot_LastUpdate := now\<rparr>) (w\<lparr>w_ticks := t\<rparr>) = (Inr x, w')"
  shows "w_faults w' = [] \<and> local_slot en ident what' w' = (Inr x, w') \<and>
    cf_LocalKeyVault (Slot_Config x) = Some ks \<and> storedKeys x = ks \<and>
    (\<forall>i. i \<noteq> ident \<longrightarrow> filter (\<lambda>r. sl_ID r = i) (w_slots w') = filter (\<lambda>r. sl_ID r = i) (w_slots w))"
proof -
  let ?data = "withKeys ks slot\<lparr>Slot_LastUpdate := now\<rparr>"
  let ?w = "w\<lparr>w_ticks := t\<rparr>"
  obtain r m b where r: "filter (\<lambda>r. sl_ID r = ident) (w_slots w) = [r]" "slot_mapFromDB r = Inr slot"
    and b: "filter (\<lambda>b. hm_ID b = sl_HSMModuleID r) (w_modules w) = [b]" "module_mapFromDB b = Inr m"
      "Mod_Kind m = LKVModuleKind"
    and v: "e_validate en [standard_id ident]" "e_validate en [standard_id (sl_HSMModuleID r)]"
    by (rule local_slot_Inr [OF quiet slot])
  have "sl_ID r = ident" using r(1) by (auto dest: filter_eq_ConsD)
  then have ident: "Slot_ID ?data = ident" using slot_mapFromDB_Inr [OF r(2)] by (simp add: withKeys_def)
  have quiet1: "w_faults ?w = []" and row: "filter (\<lambda>r. sl_ID r = Slot_ID ?data) (w_slots ?w) = [r]"
    using quiet r(1) ident by simp_all
  obtain ss where w': "w' = ?w\<lparr>w_uuids := Suc (w_uuids ?w), w_slots := ss\<rparr>"
    and new: "filter (\<lambda>r. sl_ID r = ident) ss = [configured en ?w ?data r]"
    and x: "slot_mapFromDB (configured en ?w ?data r) = Inr x"
    and other: "\<And>i. i \<noteq> ident \<Longrightarrow> filter (\<lambda>r. sl_ID r = i) ss = filter (\<lambda>r. sl_ID r = i) (w_slots w)"
    by (rule slot_EditConfig_Inr [OF quiet1 run row]) (use ident in simp)
  have "mapFromSlotConfigDB (mapToSlotConfigDB (e_keccak en) (Slot_Config ?data)) = Inr (Slot_Config x)"
    using slot_mapFromDB_Inr [OF x] by simp
  moreover have "mapFromSlotConfigDB (mapToSlotConfigDB (e_keccak en) (Slot_Config ?data)) = Inr (Slot_Config ?data)"
    using len by (intro slot_config_read_back) (simp add: withKeys_def)
  ultimately have config: "Slot_Config x = Slot_Config ?data" by simp
  have quiet': "w_faults w' = []" using quiet by (simp add: w')
  have "local_slot en ident what' w' = (Inr x, w')"
    using new x b v by (intro local_slot_quiet [OF quiet', of _ "configured en ?w ?data r" _ b m]) (simp_all add: w')
  then show ?thesis using config quiet' other by (simp add: withKeys_def storedKeys_def w')
qed

text \<open>A change prepared on the stored version goes through.\<close>

lemma slot_EditConfig_ok:
  assumes quiet: "w_faults w = []" and row: "filter (\<lambda>r. sl_ID r = Slot_ID data) (w_slots w) = [r]"
    and "Slot_ResourceVersion data = sl_ResourceVersion r" and "Slot_ID data \<noteq> []"
    and x: "slot_mapFromDB (configured en w data r) = Inr x"
  shows "\<exists>w'. slot_EditConfig en data w = (Inr x, w')"
proof -
  let ?sel = "\<lambda>r. sl_ID r = Slot_ID data \<and> sl_ResourceVersion r = Slot_ResourceVersion data"
  let ?ss = "map (\<lambda>r. if ?sel r then configured en w data r else r) (w_slots w)"
  let ?w = "w\<lparr>w_uuids := Suc (w_uuids w), w_slots := ?ss\<rparr>"
  have "filter ?sel (w_slots w) = filter (\<lambda>r. sl_ResourceVersion r = Slot_ResourceVersion data) [r]"
    by (simp flip: row add: conj_commute)
  then have one: "filter ?sel (w_slots w) = [r]" using assms(3) by simp
  have ident: "sl_ID r = Slot_ID data" using row by (auto dest: filter_eq_ConsD)
  have "filter (\<lambda>r. sl_ID r = Slot_ID data) ?ss =
      map (\<lambda>r. if ?sel r then configured en w data r else r) (filter (\<lambda>r. sl_ID r = Slot_ID data) (w_slots w))"
  proof -
    have "sl_ID (if ?sel r then configured en w data r else r) = sl_ID r" for r by simp
    then show ?thesis by (simp add: filter_map o_def del: if_split)
  qed
  then have "filter (\<lambda>r. sl_ID r = Slot_ID data) ?ss = [configured en w data r]"
    unfolding row using assms(3) ident by simp
  then have "slot_Get (Slot_ID data) ?w = (Inr x, ?w)"
    using x quiet by (simp add: slot_Get_quiet)
  then have "slot_EditConfig en data w = (Inr x, ?w)"
    using quiet row one assms(4)
    by (simp add: slot_EditConfig_def slot_infra_EditConfig_def slot_infra_Exists_def prog_defs quiet_simps newUUID_def
        mapToUpdateConfigDB_def no_slot_def configured_def cong: if_cong)
  then show ?thesis by blast
qed

lemma change_keys_ok:
  assumes quiet: "w_faults w = []" and slot: "local_slot en ident what w = (Inr slot, w)"
    and len: "\<forall>kv\<in>set ks. length (fst kv) = 20" and "ident \<noteq> []"
  shows "\<exists>x w'. slot_EditConfig en (withKeys ks slot\<lparr>Slot_LastUpdate := now\<rparr>) (w\<lparr>w_ticks := t\<rparr>) = (Inr x, w')"
proof -
  let ?data = "withKeys ks slot\<lparr>Slot_LastUpdate := now\<rparr>"
  let ?w = "w\<lparr>w_ticks := t\<rparr>"
  obtain r where r: "filter (\<lambda>r. sl_ID r = ident) (w_slots w) = [r]" "slot_mapFromDB r = Inr slot"
    by (rule local_slot_Inr [OF quiet slot])
  have "sl_ID r = ident" using r(1) by (auto dest: filter_eq_ConsD)
  then have ident: "Slot_ID ?data = ident" and version: "Slot_ResourceVersion ?data = sl_ResourceVersion r"
    using slot_mapFromDB_Inr [OF r(2)] by (simp_all add: withKeys_def)
  have "mapFromSlotConfigDB (mapToSlotConfigDB (e_keccak en) (Slot_Config ?data)) = Inr (Slot_Config ?data)"
    using len by (intro slot_config_read_back) (simp add: withKeys_def)
  moreover have "sl_InternalResourceID r \<noteq> []" using r(2) by (auto simp: slot_mapFromDB_def split: if_splits)
  ultimately obtain x where x: "slot_mapFromDB (configured en ?w ?data r) = Inr x"
    by (simp add: slot_mapFromDB_def)
  have "w_faults ?w = []" and "filter (\<lambda>r. sl_ID r = Slot_ID ?data) (w_slots ?w) = [r]" and "Slot_ID ?data \<noteq> []"
    using quiet r(1) ident assms(4) by simp_all
  then show ?thesis using slot_EditConfig_ok [OF _ _ version _ x] by blast
qed

section \<open>The life of a local key\<close>

lemma stored_key_reads_back:
  "b \<noteq> [] \<Longrightarrow> NewHexBytesFromString (TrimPrefix (HexBytes_Encode b) ''0x'') = (b, None)"
  by (simp add: TrimPrefix_def HexBytes_Encode_def NewHexBytesFromString_def hex_encode_no_prefix)

lemma AddLocalKey_Inr:
  assumes quiet: "w_faults w = []" and run: "AddLocalKey en input w = (Inr u, w')"
    and len: "length (alk_Address input) = 20"
  obtains slot x where "\<And>what. local_slot en (alk_ID input) what w = (Inr slot, w)"
    and "map_of (storedKeys slot) (alk_Address input) = None"
    and "w_faults w' = []" and "\<And>what. local_slot en (alk_ID input) what w' = (Inr x, w')"
    and "cf_LocalKeyVault (Slot_Config x) = Some (storedKeys x)"
    and "storedKeys x = (alk_Address input, TrimPrefix (HexBytes_Encode (alk_PrivateKey input)) ''0x'') # storedKeys slot"
proof -
  let ?ks = "\<lambda>slot. (alk_Address input, TrimPrefix (HexBytes_Encode (alk_PrivateKey input)) ''0x'') # storedKeys slot"
  obtain slot x w1 where loc: "local_slot en (alk_ID input) ''add local key'' w = (Inr slot, w1)"
    and new: "map_of (storedKeys slot) (alk_Address input) = None"
    and edit: "slot_EditConfig en (withKeys (?ks slot) slot\<lparr>Slot_LastUpdate := e_clock en (w_ticks w1)\<rparr>)
      (w1\<lparr>w_ticks := Suc (w_ticks w1)\<rparr>) = (Inr x, w')"
    using run by (auto simp: AddLocalKey_def prog_ok timeNow_def)
  have w1: "w1 = w" by (rule still_eq [OF keeps_still_slot_reads(6) quiet loc])
  have any: "local_slot en (alk_ID input) what w = (Inr slot, w)" for what
    by (rule local_slot_any [OF quiet loc])
  have "\<forall>kv\<in>set (?ks slot). length (fst kv) = 20"
    using storedKeys_lengths [OF loc quiet] len by simp
  note ch = change_keys [OF quiet any this edit [unfolded w1]]
  note rest = ch [THEN conjunct2, THEN conjunct2]
  show thesis
    by (rule that [OF any new ch [THEN conjunct1] ch [THEN conjunct2, THEN conjunct1]])
      (use rest in simp_all)
qed


lemma AddLocalKey_ok:
  assumes quiet: "w_faults w = []" and slot: "local_slot en (alk_ID input) what w = (Inr slot, w)"
    and new: "map_of (storedKeys slot) (alk_Address input) = None" and len: "length (alk_Address input) = 20"
    and valid: "\<forall>fs. e_validate en fs" and "alk_ID input \<noteq> []"
  shows "\<exists>w'. AddLocalKey en input w = (Inr (), w')"
proof -
  let ?ks = "(alk_Address input, TrimPrefix (HexBytes_Encode (alk_PrivateKey input)) ''0x'') # storedKeys slot"
  have loc: "local_slot en (alk_ID input) what' w = (Inr slot, w)" for what' by (rule local_slot_any [OF quiet slot])
  have "\<forall>kv\<in>set ?ks. length (fst kv) = 20" using storedKeys_lengths [OF slot quiet] len by simp
  then obtain x w' where "slot_EditConfig en (withKeys ?ks slot\<lparr>Slot_LastUpdate := e_clock en (w_ticks w)\<rparr>)
      (w\<lparr>w_ticks := Suc (w_ticks w)\<rparr>) = (Inr x, w')"
    using change_keys_ok [OF quiet slot _ assms(6)] by blast
  then show ?thesis using loc new valid by (simp add: AddLocalKey_def prog_defs timeNow_def)
qed

definition sample_slot_world :: "unit world" where
  "sample_slot_world = sample_world\<lparr>w_uuids := 9,
     w_modules := [\<lparr>hm_ID = ''lkv'', hm_InternalResourceID = ''u3'', hm_Kind = ''LocalKeyVault'', hm_Configuration = [],
       hm_Description = [], hm_CreationDate = 0, hm_LastUpdate = 0, hm_ResourceVersion = ''u4''\<rparr>],
     w_slots := [\<lparr>sl_ID = ''slot'', sl_InternalResourceID = ''u5'', sl_ApplicationID = ''app'', sl_HSMModuleID = ''lkv'',
       sl_Slot = [], sl_Pin = [], sl_Config = no_slot_config, sl_CreationDate = 0, sl_LastUpdate = 0,
       sl_ResourceVersion = ''u6''\<rparr>]\<rparr>"

definition sample_slot :: HSMSlot where
  "sample_slot = blank_slot\<lparr>Slot_ID := ''slot'', Slot_InternalResourceID := ''u5'', Slot_ApplicationID := ''app'',
     Slot_HSMModuleID := ''lkv'', Slot_ResourceVersion := ''u6''\<rparr>"

definition sample_key :: AddLocalKeyInput where
  "sample_key = \<lparr>alk_ID = ''slot'', alk_PrivateKey = [1, 2, 3], alk_Address = replicate 20 0xab\<rparr>"

lemma sample_slot_read: "local_slot sample_env ''slot'' [] sample_slot_world = (Inr sample_slot, sample_slot_world)"
  by code_simp

lemma sample_slot_quiet: "w_faults sample_slot_world = []"
  by (simp add: sample_slot_world_def sample_world_def empty_world_def)

lemma sample_key_added: "\<exists>w'. AddLocalKey sample_env sample_key sample_slot_world = (Inr (), w')"
  using sample_slot_read sample_slot_quiet
  by (intro AddLocalKey_ok [of _ _ _ "[]" sample_slot])
    (simp_all add: sample_key_def storedKeys_def sample_slot_def blank_slot_def sample_env_def)


text \<open>
  Removing a local key undoes its addition: it goes through, and the keys listed are those from
  before the addition.
\<close>

theorem removeLocalKey_undoes_add:
  assumes quiet: "w_faults w = []" and run: "AddLocalKey en input w = (Inr u, w')"
    and len: "length (alk_Address input) = 20" and valid: "\<forall>fs. e_validate en fs"
    and ident: "alk_ID input \<noteq> []"
  shows "\<exists>w'' old. RemoveLocalKey en \<lparr>rlk_ID = alk_ID input, rlk_Address = alk_Address input\<rparr> w' = (Inr (), w'') \<and>
    ListLocalKeys en (alk_ID input) w = (Inr old, w) \<and> ListLocalKeys en (alk_ID input) w'' = (Inr old, w'')"
proof -
  let ?rm = "\<lparr>rlk_ID = alk_ID input, rlk_Address = alk_Address input\<rparr>"
  obtain slot x where slot: "\<And>what. local_slot en (alk_ID input) what w = (Inr slot, w)"
    and new: "map_of (storedKeys slot) (alk_Address input) = None" and quiet': "w_faults w' = []"
    and x: "\<And>what. local_slot en (alk_ID input) what w' = (Inr x, w')"
    and cf: "cf_LocalKeyVault (Slot_Config x) = Some (storedKeys x)"
    and ks: "storedKeys x = (alk_Address input, TrimPrefix (HexBytes_Encode (alk_PrivateKey input)) ''0x'') # storedKeys slot"
    by (rule AddLocalKey_Inr [OF quiet run len]) blast
  have "filter (\<lambda>kv. fst kv \<noteq> alk_Address input) (storedKeys slot) = storedKeys slot"
    using new by (force simp: filter_id_conv map_of_eq_None_iff)
  then have rest: "filter (\<lambda>kv. fst kv \<noteq> alk_Address input) (storedKeys x) = storedKeys slot" by (simp add: ks)
  have len': "\<forall>kv\<in>set (storedKeys slot). length (fst kv) = 20" by (rule storedKeys_lengths [OF slot quiet])
  obtain y w'' where edit: "slot_EditConfig en
      (withKeys (storedKeys slot) x\<lparr>Slot_LastUpdate := e_clock en (w_ticks w')\<rparr>) (w'\<lparr>w_ticks := Suc (w_ticks w')\<rparr>) = (Inr y, w'')"
    using change_keys_ok [OF quiet' x len' ident] by blast
  have "RemoveLocalKey en ?rm w' = (Inr (), w'')"
    using x rest cf ks valid edit by (simp add: RemoveLocalKey_def prog_defs timeNow_def)
  moreover have "local_slot en (alk_ID input) what w'' = (Inr y, w'')" and "storedKeys y = storedKeys slot" for what
    using change_keys [OF quiet' x len' edit] by blast+
  ultimately show ?thesis using slot valid by (simp add: ListLocalKeys_def prog_defs)
qed

lemma removeLocalKey_undoes_add_witness:
  "\<exists>(w :: unit world) w' w''. AddLocalKey sample_env sample_key w = (Inr (), w') \<and>
     RemoveLocalKey sample_env \<lparr>rlk_ID = ''slot'', rlk_Address = replicate 20 0xab\<rparr> w' = (Inr (), w'')"
proof -
  obtain w' where w': "AddLocalKey sample_env sample_key sample_slot_world = (Inr (), w')" using sample_key_added by blast
  have "length (alk_Address sample_key) = 20" "\<forall>fs. e_validate sample_env fs" "alk_ID sample_key \<noteq> []"
    by (simp_all add: sample_key_def sample_env_def)
  from removeLocalKey_undoes_add [OF sample_slot_quiet w' this] obtain w''
    where "RemoveLocalKey sample_env \<lparr>rlk_ID = ''slot'', rlk_Address = replicate 20 0xab\<rparr> w' = (Inr (), w'')"
    by (auto simp: sample_key_def)
  with w' show ?thesis by blast
qed

section \<open>The resolver\<close>

lemma GetHSMSlotByApplication_Inr:
  assumes quiet: "w_faults w = []" and run: "GetHSMSlotByApplication en app w = (Inr slot, w')"
  shows "w' = w \<and> (\<exists>r. filter (\<lambda>r. sl_ApplicationID r = app) (w_slots w) = [r] \<and> slot_mapFromDB r = Inr slot)"
proof -
  have one: "one_slot (filter (\<lambda>r. sl_ApplicationID r = app) (w_slots w)) = Inr slot" and w': "w' = w"
    using run by (auto simp: GetHSMSlotByApplication_def prog_ok slot_GetByApplication_quiet [OF quiet])
  show ?thesis using one_slot_Inr [OF one] w' by blast
qed

text \<open>
  The connection of an application is that of the application: the chain is the one it is
  configured with, the slot is the only one assigned to it, and the kind is that of the module the
  slot is in, one of the kinds that have a signature manager.  Looking it up changes nothing.
\<close>

theorem connection_of_application:
  assumes quiet: "w_faults w = []" and run: "ByApplication en ident w = (Inr c, w')"
  shows "w' = w \<and> (\<exists>a r m.
    filter (\<lambda>a. ap_ID a = ident) (w_applications w) = [a] \<and>
    NewInt256FromString (ap_DefaultChainID a) = Inr (conn_ApplicationDefaultChainID c) \<and>
    filter (\<lambda>r. sl_ApplicationID r = ident) (w_slots w) = [r] \<and> slot_mapFromDB r = Inr (conn_Slot c) \<and>
    Slot_ApplicationID (conn_Slot c) = ident \<and>
    filter (\<lambda>m. hm_ID m = sl_HSMModuleID r) (w_modules w) = [m] \<and> conn_ModuleKind c = hm_Kind m) \<and>
    IsModuleSupported (conn_ModuleKind c)"
proof -
  obtain app slot module w1 w2 w3 where app: "GetApplication en ident w = (Inr app, w1)"
    and slot: "GetHSMSlotByApplication en (App_ID app) w1 = (Inr slot, w2)"
    and module: "GetHSMModule en (Slot_HSMModuleID slot) w2 = (Inr module, w3)"
    and kind: "getModuleKind (Mod_Kind module) = Inr (conn_ModuleKind c)" and w': "w' = w3"
    and c: "conn_Slot c = slot" "conn_ApplicationDefaultChainID c = App_DefaultChainID app"
    using run by (auto simp: ByApplication_def prog_ok)
  obtain a where a: "w1 = w" "filter (\<lambda>a. ap_ID a = ident) (w_applications w) = [a]" "application_mapFromDB a = Inr app"
    using GetApplication_Inr [OF quiet app] by blast
  then have ident: "App_ID app = ident" using application_mapFromDB_Inr [OF a(3)] by (auto dest: filter_eq_ConsD)
  obtain r where r: "w2 = w" "filter (\<lambda>r. sl_ApplicationID r = ident) (w_slots w) = [r]" "slot_mapFromDB r = Inr slot"
    using GetHSMSlotByApplication_Inr [OF quiet slot [unfolded a(1)]] unfolding ident by (elim conjE exE)
  note sl = slot_mapFromDB_Inr [OF r(3)]
  have hsm: "Slot_HSMModuleID slot = sl_HSMModuleID r" using sl by blast
  obtain m where m: "w3 = w" "filter (\<lambda>m. hm_ID m = sl_HSMModuleID r) (w_modules w) = [m]" "module_mapFromDB m = Inr module"
    using GetHSMModule_Inr [OF quiet module [unfolded r(1)]] unfolding hsm by (elim conjE exE)
  have "sl_ApplicationID r = ident" using r(2) by (auto dest: filter_eq_ConsD)
  moreover have "conn_ModuleKind c = hm_Kind m \<and> IsModuleSupported (conn_ModuleKind c)"
    using kind module_mapFromDB_Inr [OF m(3)]
    by (auto simp: getModuleKind_def module_kind_defs IsModuleSupported_def supportedSigningModules_def split: if_splits)
  moreover have "NewInt256FromString (ap_DefaultChainID a) = Inr (conn_ApplicationDefaultChainID c)"
    using application_mapFromDB_Inr [OF a(3)] c by simp
  moreover have "slot_mapFromDB r = Inr (conn_Slot c)" "Slot_ApplicationID (conn_Slot c) = sl_ApplicationID r"
    using r(3) c sl by simp_all
  ultimately show ?thesis using a(2) r(2) m(2) by (auto simp: w' m(1))
qed

lemma connection_of_application_witness:
  "conn_ApplicationDefaultChainID \<lparr>conn_Slot = sample_slot, conn_ModuleKind = ''LocalKeyVault'',
     conn_ApplicationDefaultChainID = 5\<rparr> = 5 \<and> IsModuleSupported ''LocalKeyVault''"
proof -
  let ?c = "\<lparr>conn_Slot = sample_slot, conn_ModuleKind = ''LocalKeyVault'', conn_ApplicationDefaultChainID = 5\<rparr>"
  have "ByApplication sample_env ''app'' sample_slot_world = (Inr ?c, sample_slot_world)" by code_simp
  from connection_of_application [OF sample_slot_quiet this] show ?thesis by simp
qed

end
