(* ===== verification/Users.thy ===== *)
theory Users
  imports Hsm_Slots
begin

text \<open>
  Users and their accounts: \<open>app/pkg/infra/storage/userdb\<close> and \<open>accountdb\<close>,
  \<open>app/pkg/adapters/storage/postgres/userdbout\<close> and \<open>accountdbout\<close>, \<open>app/pkg/usecases/user\<close>, and the
  supported roles of \<open>app/pkg/usecases/authorization/role\<close>.
\<close>

section \<open>Data\<close>

record AccountID =
  acc_Address :: address
  acc_UserID :: string
  acc_ApplicationID :: string

record Account =
  Acc_AccountID :: AccountID
  Acc_InternalResourceID :: string
  Acc_CreationDate :: int
  Acc_LastUpdate :: int

record User =
  User_ID :: string
  User_ApplicationID :: string
  User_InternalResourceID :: string
  User_Roles :: "string list"
  User_Description :: "string option"
  User_Accounts :: "Account list"
  User_CreationDate :: int
  User_LastUpdate :: int
  User_ResourceVersion :: string

record ListAccountsInput =
  lac_ApplicationID :: string
  lac_UserID :: "string option"
  lac_Address :: "address option"

record CreateUserInput =
  cu_ID :: "string option"
  cu_ApplicationID :: string
  cu_Description :: "string option"
  cu_Roles :: "string list"

record EditUserInput =
  eu_ID :: string
  eu_ApplicationID :: string
  eu_ResourceVersion :: string
  eu_Description :: "string option"
  eu_Roles :: "string list"

record ListUsersInput =
  lu_ApplicationID :: string
  lu_PageLimit :: int
  lu_PageOffset :: int
  lu_OrderBy :: string
  lu_OrderDirection :: string

section \<open>Infrastructure\<close>

definition account_infra_Get :: "string \<Rightarrow> string \<Rightarrow> string \<Rightarrow> ('d world, AccountDB list) prog" where
  "account_infra_Get addr app user =
     sql_select w_accounts (\<lambda>r. ac_ApplicationID r = app \<and> ac_UserID r = user \<and> ac_Address r = addr)"

definition account_infra_Add :: "AccountDB \<Rightarrow> ('d world, AccountDB) prog" where
  "account_infra_Add db =
     bindP (sql_insert w_accounts put_accounts account_clash db) (\<lambda>_.
     bindP (account_infra_Get (ac_Address db) (ac_ApplicationID db) (ac_UserID db)) (\<lambda>result.
     if length result = 0 then throwP ps_NewEntryNotAddedError else returnP (result ! 0)))"

definition account_infra_Remove :: "string \<Rightarrow> string \<Rightarrow> string \<Rightarrow> ('d world, nat) prog" where
  "account_infra_Remove addr app user =
     sql_delete w_accounts put_accounts
       (\<lambda>r. ac_ApplicationID r = app \<and> ac_UserID r = user \<and> ac_Address r = addr)"

record account_filter =
  af_Values :: AccountDB
  af_Query :: query

definition account_column :: "string \<Rightarrow> AccountDB \<Rightarrow> string" where
  "account_column col r =
     (if col = ''user_id'' then ac_UserID r else if col = ''address'' then ac_Address r else ac_ApplicationID r)"

definition account_infra_List :: "account_filter \<Rightarrow> ('d world, AccountDB list) prog" where
  "account_infra_List f =
     sql_list ac_CreationDate ac_LastUpdate w_accounts (af_Query f)
       (\<lambda>r. ac_ApplicationID r = ac_ApplicationID (af_Values f) \<and>
            selects account_column (af_Values f) (qu_Filters (af_Query f)) r)"

definition account_infra_RemoveAllForAddress :: "string \<Rightarrow> string \<Rightarrow> ('d world, nat) prog" where
  "account_infra_RemoveAllForAddress app addr =
     sql_delete w_accounts put_accounts (\<lambda>r. ac_ApplicationID r = app \<and> ac_Address r = addr)"

definition user_infra_Get :: "string \<Rightarrow> string \<Rightarrow> ('d world, UserDB list) prog" where
  "user_infra_Get app ident = sql_select w_users (\<lambda>r. us_ApplicationID r = app \<and> us_ID r = ident)"

definition user_infra_Add :: "env \<Rightarrow> UserDB \<Rightarrow> ('d world, UserDB) prog" where
  "user_infra_Add en db =
     bindP (newUUID en) (\<lambda>version.
     bindP (sql_insert w_users put_users user_clash (db\<lparr>us_ResourceVersion := version\<rparr>)) (\<lambda>_.
     bindP (user_infra_Get (us_ApplicationID db) (us_ID db)) (\<lambda>result.
     if length result = 0 then throwP ps_NewEntryNotAddedError else returnP (result ! 0))))"

definition user_infra_Exists :: "string \<Rightarrow> string \<Rightarrow> ('d world, unit) prog" where
  "user_infra_Exists app ident =
     bindP (sql_select w_users (\<lambda>r. us_ApplicationID r = app \<and> us_ID r = ident)) (\<lambda>existsResult.
     checkP (existsResult \<noteq> []) ps_NewNotFoundError)"

definition user_infra_Edit :: "env \<Rightarrow> UserDB \<Rightarrow> ('d world, nat) prog" where
  "user_infra_Edit en db =
     bindP (user_infra_Exists (us_ApplicationID db) (us_ID db)) (\<lambda>_.
     bindP (newUUID en) (\<lambda>newResourceVersion.
     sql_update w_users put_users
       (\<lambda>r. us_ApplicationID r = us_ApplicationID db \<and> us_ID r = us_ID db \<and>
            us_ResourceVersion r = us_ResourceVersion db)
       (\<lambda>r. r\<lparr>us_Roles := us_Roles db, us_Description := us_Description db,
              us_LastUpdate := us_LastUpdate db, us_ResourceVersion := newResourceVersion\<rparr>)))"

definition user_infra_Remove :: "string \<Rightarrow> string \<Rightarrow> ('d world, nat) prog" where
  "user_infra_Remove app ident =
     sql_delete w_users put_users (\<lambda>r. us_ApplicationID r = app \<and> us_ID r = ident)"

definition user_infra_List :: "string \<Rightarrow> query \<Rightarrow> ('d world, UserDB list) prog" where
  "user_infra_List app q = sql_list us_CreationDate us_LastUpdate w_users q (\<lambda>r. us_ApplicationID r = app)"

section \<open>The output adapters\<close>

definition account_mapToCreateDB :: "(bytes \<Rightarrow> bytes) \<Rightarrow> Account \<Rightarrow> go_error + AccountDB" where
  "account_mapToCreateDB keccak account =
     (let ident = Acc_AccountID account in
      if length (Acc_InternalResourceID account) = 0 then Inl Internal
      else if IsEmpty (acc_Address ident) then Inl Internal
      else if length (acc_UserID ident) = 0 then Inl Internal
      else if length (acc_ApplicationID ident) = 0 then Inl Internal
      else Inr \<lparr>ac_InternalResourceID = Acc_InternalResourceID account,
                ac_Address = String_of_address keccak (acc_Address ident),
                ac_ApplicationID = acc_ApplicationID ident, ac_UserID = acc_UserID ident,
                ac_CreationDate = Acc_CreationDate account, ac_LastUpdate = Acc_LastUpdate account\<rparr>)"

definition account_mapFromDB :: "AccountDB \<Rightarrow> go_error + Account" where
  "account_mapFromDB db =
     (case NewFromHexString (ac_Address db) of
        Inl err \<Rightarrow> Inl (InternalFromErr (addr_failure err))
      | Inr addr \<Rightarrow>
          if length (ac_InternalResourceID db) = 0 then Inl Internal
          else if IsEmpty addr then Inl Internal
          else if length (ac_UserID db) = 0 then Inl Internal
          else if length (ac_ApplicationID db) = 0 then Inl Internal
          else Inr \<lparr>Acc_AccountID = \<lparr>acc_Address = addr, acc_UserID = ac_UserID db,
                      acc_ApplicationID = ac_ApplicationID db\<rparr>,
                    Acc_InternalResourceID = ac_InternalResourceID db,
                    Acc_CreationDate = ac_CreationDate db, Acc_LastUpdate = ac_LastUpdate db\<rparr>)"

definition account_Add :: "env \<Rightarrow> Account \<Rightarrow> ('d world, Account) prog" where
  "account_Add en data =
     bindP (onErrP (liftP (account_mapToCreateDB (e_keccak en) data)) InternalFromErr) (\<lambda>db.
     bindP (onErrP (account_infra_Add db) mapPersistenceErrorToSignerError) (\<lambda>storageData.
     onErrP (liftP (account_mapFromDB storageData)) InternalFromErr))"

definition account_Get :: "env \<Rightarrow> AccountID \<Rightarrow> ('d world, Account) prog" where
  "account_Get en ident =
     bindP (onErrP (account_infra_Get (String_of_address (e_keccak en) (acc_Address ident))
       (acc_ApplicationID ident) (acc_UserID ident)) mapPersistenceErrorToSignerError) (\<lambda>storageData.
     liftP (single_row account_mapFromDB storageData))"

definition account_All :: "account_filter \<Rightarrow> ('d world, Account collection) prog" where
  "account_All f =
     bindP (onErrP (account_infra_List f) mapPersistenceErrorToSignerError) (\<lambda>storageData.
     liftP (mapped_page account_mapFromDB None storageData))"

definition account_Remove :: "env \<Rightarrow> AccountID \<Rightarrow> ('d world, Account) prog" where
  "account_Remove en ident =
     bindP (account_Get en ident) (\<lambda>storageData.
     bindP (onErrP (account_infra_Remove (String_of_address (e_keccak en) (acc_Address ident))
       (acc_ApplicationID ident) (acc_UserID ident)) mapPersistenceErrorToSignerError) (\<lambda>_.
     returnP storageData))"

definition account_Filter :: "string \<Rightarrow> account_filter" where
  "account_Filter app =
     \<lparr>af_Values = \<lparr>ac_InternalResourceID = [], ac_Address = [], ac_ApplicationID = app, ac_UserID = [],
        ac_CreationDate = 0, ac_LastUpdate = 0\<rparr>, af_Query = no_query\<rparr>"

definition FilterByUserID :: "string \<Rightarrow> account_filter \<Rightarrow> account_filter" where
  "FilterByUserID user f =
     f\<lparr>af_Values := (af_Values f)\<lparr>ac_UserID := user\<rparr>,
       af_Query := (af_Query f)\<lparr>qu_Filters := qu_Filters (af_Query f) @ [EqualFilter ''user_id'']\<rparr>\<rparr>"

definition FilterByAddress :: "string \<Rightarrow> account_filter \<Rightarrow> account_filter" where
  "FilterByAddress addr f =
     f\<lparr>af_Values := (af_Values f)\<lparr>ac_Address := addr\<rparr>,
       af_Query := (af_Query f)\<lparr>qu_Filters := qu_Filters (af_Query f) @ [EqualFilter ''address'']\<rparr>\<rparr>"

definition account_RemoveAllForAddress :: "env \<Rightarrow> string \<Rightarrow> address \<Rightarrow> ('d world, Account collection) prog" where
  "account_RemoveAllForAddress en app addr =
     bindP (account_All (FilterByAddress (String_of_address (e_keccak en) addr) (account_Filter app))) (\<lambda>accounts.
     bindP (onErrP (account_infra_RemoveAllForAddress app (String_of_address (e_keccak en) addr))
       mapPersistenceErrorToSignerError) (\<lambda>_.
     returnP accounts))"

definition user_mapToCreateDB :: "User \<Rightarrow> go_error + UserDB" where
  "user_mapToCreateDB user =
     (if length (User_ID user) = 0 then Inl Internal
      else if length (User_InternalResourceID user) = 0 then Inl Internal
      else if length (User_ApplicationID user) = 0 then Inl Internal
      else if length (User_Roles user) = 0 then Inl Internal
      else Inr \<lparr>us_ID = User_ID user, us_ApplicationID = User_ApplicationID user,
                us_InternalResourceID = User_InternalResourceID user, us_Roles = User_Roles user,
                us_Description = (case User_Description user of None \<Rightarrow> [] | Some d \<Rightarrow> d),
                us_CreationDate = User_CreationDate user, us_LastUpdate = User_LastUpdate user,
                us_ResourceVersion = []\<rparr>)"

definition user_mapToUpdateDB :: "User \<Rightarrow> go_error + UserDB" where
  "user_mapToUpdateDB user =
     (if length (User_ID user) = 0 then Inl Internal
      else if length (User_ApplicationID user) = 0 then Inl Internal
      else if length (User_Roles user) = 0 then Inl Internal
      else Inr \<lparr>us_ID = User_ID user, us_ApplicationID = User_ApplicationID user,
                us_InternalResourceID = User_InternalResourceID user, us_Roles = User_Roles user,
                us_Description = (case User_Description user of None \<Rightarrow> [] | Some d \<Rightarrow> d),
                us_CreationDate = User_CreationDate user, us_LastUpdate = User_LastUpdate user,
                us_ResourceVersion = User_ResourceVersion user\<rparr>)"

definition user_mapFromDB :: "UserDB \<Rightarrow> go_error + User" where
  "user_mapFromDB db =
     (if length (us_InternalResourceID db) = 0 then Inl Internal
      else Inr \<lparr>User_ID = us_ID db, User_ApplicationID = us_ApplicationID db,
                User_InternalResourceID = us_InternalResourceID db, User_Roles = us_Roles db,
                User_Description = Some (us_Description db), User_Accounts = [],
                User_CreationDate = us_CreationDate db, User_LastUpdate = us_LastUpdate db,
                User_ResourceVersion = us_ResourceVersion db\<rparr>)"

definition user_Add :: "env \<Rightarrow> User \<Rightarrow> ('d world, User) prog" where
  "user_Add en data =
     bindP (onErrP (liftP (user_mapToCreateDB data)) InternalFromErr) (\<lambda>db.
     bindP (onErrP (user_infra_Add en db) mapPersistenceErrorToSignerError) (\<lambda>storageData.
     onErrP (liftP (user_mapFromDB storageData)) InternalFromErr))"

definition user_Get :: "string \<Rightarrow> string \<Rightarrow> ('d world, User) prog" where
  "user_Get app ident =
     bindP (onErrP (user_infra_Get app ident) mapPersistenceErrorToSignerError) (\<lambda>storageData.
     liftP (single_row user_mapFromDB storageData))"

definition user_Edit :: "env \<Rightarrow> User \<Rightarrow> ('d world, User) prog" where
  "user_Edit en data =
     bindP (onErrP (liftP (user_mapToUpdateDB data)) InternalFromErr) (\<lambda>db.
     bindP (onErrP (user_infra_Edit en db) mapPersistenceErrorToSignerError) (\<lambda>rowsAffected.
     if rowsAffected = 0 then throwP NotFound
     else if 1 < rowsAffected then throwP Internal
     else onErrP (user_Get (User_ApplicationID data) (User_ID data)) InternalFromErr))"

definition user_Remove :: "string \<Rightarrow> string \<Rightarrow> ('d world, User) prog" where
  "user_Remove app ident =
     bindP (user_Get app ident) (\<lambda>storageData.
     bindP (onErrP (user_infra_Remove app ident) mapPersistenceErrorToSignerError) (\<lambda>_.
     returnP storageData))"

definition user_All :: "string \<Rightarrow> query \<Rightarrow> ('d world, User collection) prog" where
  "user_All app q =
     bindP (onErrP (user_infra_List app (one_more q)) mapPersistenceErrorToSignerError) (\<lambda>storageData.
     liftP (mapped_page user_mapFromDB (qu_Pagination q) storageData))"

section \<open>Roles\<close>

definition ScopeApplication :: string where "ScopeApplication = ''application''"

definition IsApplicationScoped :: "Role \<Rightarrow> bool" where
  "IsApplicationScoped r = (role_Scope r = ScopeApplication)"

text \<open>\<open>supportedRoles\<close> is a map filled in the order of the file: the last role of a name counts.\<close>

definition supportedRole :: "env \<Rightarrow> string \<Rightarrow> Role option" where
  "supportedRole en roleID = map_of (rev (map (\<lambda>r. (role_ID r, r)) (e_roles en))) roleID"

definition rejected_role :: "string \<Rightarrow> go_error" where
  "rejected_role msg = SetHumanReadableMessage msg InvalidArgument"

fun validateApplicationScopedRoles :: "env \<Rightarrow> string list \<Rightarrow> ('d world, unit) prog" where
  "validateApplicationScopedRoles en [] = returnP ()"
| "validateApplicationScopedRoles en (roleID # roles) =
     (case supportedRole en roleID of
        None \<Rightarrow> throwP (rejected_role (''the role '' @ quoted roleID @ '' is not supported''))
      | Some r \<Rightarrow>
          if \<not> IsApplicationScoped r then
            throwP (rejected_role (''the role '' @ quoted roleID @ '' cannot be assigned to an application user''))
          else validateApplicationScopedRoles en roles)"

section \<open>Reading accounts and users\<close>

text \<open>The fields of a slice under a tag: how many there are, and each.\<close>

definition list_fields :: "string \<Rightarrow> string list \<Rightarrow> (string \<times> string) list" where
  "list_fields tag xs = (tag, Int256_String (int (length xs))) # map (\<lambda>x. (tag, x)) xs"

definition account_fields :: "env \<Rightarrow> AccountID \<Rightarrow> (string \<times> string) list" where
  "account_fields en ident =
     [(''address'', String_of_address (e_keccak en) (acc_Address ident)), (''required'', acc_UserID ident),
      (''required'', acc_ApplicationID ident)]"

text \<open>The verb \<open>%s\<close> on an \<open>AccountID\<close>.\<close>

definition account_text :: "env \<Rightarrow> AccountID \<Rightarrow> string" where
  "account_text en ident =
     ''{'' @ String_of_address (e_keccak en) (acc_Address ident) @ '' '' @ acc_UserID ident @ '' '' @
     acc_ApplicationID ident @ ''}''"

definition invalid_fields :: go_error where
  "invalid_fields = invalid_data ''couldn't validate input data''"

definition ListAccounts :: "env \<Rightarrow> ListAccountsInput \<Rightarrow> ('d world, Account collection) prog" where
  "ListAccounts en input =
     bindP (checkP (e_validate en ([(''required'', lac_ApplicationID input)] @
         (case lac_UserID input of None \<Rightarrow> [] | Some u \<Rightarrow> [(''optional'', u)]) @
         (case lac_Address input of None \<Rightarrow> [] | Some a \<Rightarrow> [(''optional'', String_of_address (e_keccak en) a)])))
       invalid_fields) (\<lambda>_.
     let filters = account_Filter (lac_ApplicationID input);
         filters = (case lac_UserID input of None \<Rightarrow> filters | Some u \<Rightarrow> FilterByUserID u filters);
         filters = (case lac_Address input of None \<Rightarrow> filters
                    | Some a \<Rightarrow> FilterByAddress (String_of_address (e_keccak en) a) filters)
     in onErrP (account_All filters) InternalFromErr)"

definition account_missing :: "env \<Rightarrow> AccountID \<Rightarrow> go_error \<Rightarrow> go_error" where
  "account_missing en ident err =
     (if IsNotFound err then
        SetHumanReadableMessage (''account '' @ bracketed (account_text en ident) @ '' not found'') (NotFoundFromErr err)
      else InternalFromErr err)"

definition GetAccount :: "env \<Rightarrow> AccountID \<Rightarrow> ('d world, Account) prog" where
  "GetAccount en ident =
     bindP (checkP (e_validate en (account_fields en ident)) invalid_fields) (\<lambda>_.
     onErrP (account_Get en ident) (account_missing en ident))"

definition accounts_of :: "env \<Rightarrow> string \<Rightarrow> string \<Rightarrow> ('d world, Account list) prog" where
  "accounts_of en app user =
     bindP (onErrP (ListAccounts en \<lparr>lac_ApplicationID = app, lac_UserID = Some user, lac_Address = None\<rparr>)
       InternalFromErr) (\<lambda>userAccounts. returnP (co_Items userAccounts))"

definition GetUser :: "env \<Rightarrow> string \<Rightarrow> string \<Rightarrow> ('d world, User) prog" where
  "GetUser en app ident =
     bindP (checkP (e_validate en [standard_id ident, (''required'', app)]) invalid_fields) (\<lambda>_.
     bindP (onErrP (user_Get app ident) not_found) (\<lambda>user.
     bindP (accounts_of en (User_ApplicationID user) (User_ID user)) (\<lambda>accounts.
     returnP (user\<lparr>User_Accounts := accounts\<rparr>))))"

definition ListUsers :: "env \<Rightarrow> ListUsersInput \<Rightarrow> ('d world, User collection) prog" where
  "ListUsers en input =
     bindP (checkP (e_validate en [(''required'', lu_ApplicationID input),
         (''natural'', Int256_String (lu_PageLimit input)), (''natural'', Int256_String (lu_PageOffset input))])
       invalid_fields) (\<lambda>_.
     case NormalizeOrderDirection (DefaultString (lu_OrderDirection input) OrderDesc) of
       (direction, validDirection) \<Rightarrow>
         bindP (checkP validDirection (invalid_direction (lu_OrderDirection input))) (\<lambda>_.
         bindP (onErrP (user_All (lu_ApplicationID input)
           (list_query direction (lu_OrderBy input) (lu_PageLimit input) (lu_PageOffset input)))
           InternalFromErr) (\<lambda>userCollection.
         bindP (mapP (\<lambda>user.
           bindP (accounts_of en (User_ApplicationID user) (User_ID user)) (\<lambda>accounts.
           returnP (user\<lparr>User_Accounts := accounts\<rparr>))) (co_Items userCollection)) (\<lambda>items.
         returnP (userCollection\<lparr>co_Items := items\<rparr>)))))"

section \<open>Users\<close>

definition addUserToApplicationDependency :: "env \<Rightarrow> User \<Rightarrow> ('d world, unit) prog" where
  "addUserToApplicationDependency en data =
     bindP (onErrP (GetApplication en (User_ApplicationID data))
       (missing_parent (''user can't be created because the application '' @ quoted (User_ApplicationID data) @
          '' does not exist''))) (\<lambda>app.
     createEntryIfNone en (User_InternalResourceID data) KindUser (App_InternalResourceID app) KindApplication)"

definition storage_failure :: "go_error \<Rightarrow> go_error" where
  "storage_failure err = (if IsAlreadyExists err then AlreadyExistsFromErr err else InternalFromErr err)"

definition CreateUser :: "env \<Rightarrow> CreateUserInput \<Rightarrow> ('d world, User) prog" where
  "CreateUser en input =
     bindP (checkP (e_validate en
       ((case cu_ID input of None \<Rightarrow> [] | Some i \<Rightarrow> [(''optional'', i)]) @
        [(''required'', cu_ApplicationID input)] @
        (case cu_Description input of None \<Rightarrow> [] | Some d \<Rightarrow> [(''optional'', d)]) @
        list_fields ''required'' (cu_Roles input))) (invalid_data ''couldn't validate input user'')) (\<lambda>_.
     bindP (case cu_ID input of None \<Rightarrow> newUUID en | Some ident \<Rightarrow> returnP ident) (\<lambda>ident.
     bindP (timeNow en) (\<lambda>now.
     bindP (validateApplicationScopedRoles en (cu_Roles input)) (\<lambda>_.
     bindP (newUUID en) (\<lambda>internalResourceID.
     let user = \<lparr>User_ID = ident, User_ApplicationID = cu_ApplicationID input,
           User_InternalResourceID = internalResourceID, User_Roles = cu_Roles input,
           User_Description = cu_Description input, User_Accounts = [], User_CreationDate = now,
           User_LastUpdate = now, User_ResourceVersion = []\<rparr> in
     bindP (addUserToApplicationDependency en user) (\<lambda>_.
     bindP (onErrP (user_Add en user) storage_failure) (\<lambda>addedUser.
     returnP (addedUser\<lparr>User_Accounts := []\<rparr>))))))))"

definition EditUser :: "env \<Rightarrow> EditUserInput \<Rightarrow> ('d world, User) prog" where
  "EditUser en input =
     bindP (checkP (e_validate en
       ([standard_id (eu_ID input), (''required'', eu_ApplicationID input), (''required'', eu_ResourceVersion input)] @
        (case eu_Description input of None \<Rightarrow> [] | Some d \<Rightarrow> [(''optional'', d)]) @
        list_fields ''optional'' (eu_Roles input))) invalid_fields) (\<lambda>_.
     bindP (checkP (\<not> length (eu_Roles input) < 1) InvalidArgument) (\<lambda>_.
     bindP (validateApplicationScopedRoles en (eu_Roles input)) (\<lambda>_.
     bindP (timeNow en) (\<lambda>now.
     bindP (onErrP (user_Edit en
       \<lparr>User_ID = eu_ID input, User_ApplicationID = eu_ApplicationID input, User_InternalResourceID = [],
        User_Roles = eu_Roles input, User_Description = eu_Description input, User_Accounts = [],
        User_CreationDate = 0, User_LastUpdate = now, User_ResourceVersion = eu_ResourceVersion input\<rparr>)
       not_found) (\<lambda>editedUser.
     bindP (accounts_of en (eu_ApplicationID input) (eu_ID input)) (\<lambda>accounts.
     returnP (editedUser\<lparr>User_Accounts := accounts\<rparr>)))))))"

definition removeAllUserDependencies :: "env \<Rightarrow> string \<Rightarrow> string \<Rightarrow> ('d world, unit) prog" where
  "removeAllUserDependencies en app ident =
     bindP (GetUser en app ident) (\<lambda>user.
     removeEntries en (User_InternalResourceID user) KindUser (''user '' @ quoted (app @ '':'' @ ident)))"

definition DeleteUser :: "env \<Rightarrow> string \<Rightarrow> string \<Rightarrow> ('d world, User) prog" where
  "DeleteUser en app ident =
     bindP (checkP (e_validate en [standard_id ident, (''required'', app)]) invalid_fields) (\<lambda>_.
     bindP (removeAllUserDependencies en app ident) (\<lambda>_.
     onErrP (user_Remove app ident) not_found))"

section \<open>Accounts\<close>

definition addAccountToUserDependency :: "env \<Rightarrow> Account \<Rightarrow> ('d world, unit) prog" where
  "addAccountToUserDependency en data =
     bindP (onErrP (GetUser en (acc_ApplicationID (Acc_AccountID data)) (acc_UserID (Acc_AccountID data)))
       (missing_parent (''can't create account '' @
          quoted (String_of_address (e_keccak en) (acc_Address (Acc_AccountID data))) @ '' because user '' @
          quoted (acc_UserID (Acc_AccountID data)) @ '' does not exist''))) (\<lambda>user.
     createEntryIfNone en (Acc_InternalResourceID data) KindAccount (User_InternalResourceID user) KindUser)"

definition CreateAccount :: "env \<Rightarrow> AccountID \<Rightarrow> ('d world, Account) prog" where
  "CreateAccount en ident =
     bindP (checkP (e_validate en (account_fields en ident)) (invalid_data ''couldn't validate input account'')) (\<lambda>_.
     bindP (timeNow en) (\<lambda>created.
     bindP (timeNow en) (\<lambda>updated.
     bindP (newUUID en) (\<lambda>internalResourceID.
     let account = \<lparr>Acc_AccountID = ident, Acc_InternalResourceID = internalResourceID,
           Acc_CreationDate = created, Acc_LastUpdate = updated\<rparr> in
     bindP (addAccountToUserDependency en account) (\<lambda>_.
     onErrP (account_Add en account) (\<lambda>err.
       if IsAlreadyExists err then
         SetHumanReadableMessage (''addedAccount '' @ bracketed (account_text en ident) @ '' already exists'')
           (AlreadyExistsFromErr err)
       else InternalFromErr err))))))"

definition removeAllAccountDependencies :: "env \<Rightarrow> AccountID \<Rightarrow> ('d world, unit) prog" where
  "removeAllAccountDependencies en ident =
     bindP (GetAccount en ident) (\<lambda>account.
     removeEntries en (Acc_InternalResourceID account) KindAccount
       (''acount '' @ quoted (acc_ApplicationID ident @ '':'' @ acc_UserID ident @ '':'' @
          String_of_address (e_keccak en) (acc_Address ident))))"

definition DeleteAccount :: "env \<Rightarrow> AccountID \<Rightarrow> ('d world, Account) prog" where
  "DeleteAccount en ident =
     bindP (checkP (e_validate en (account_fields en ident)) invalid_fields) (\<lambda>_.
     bindP (removeAllAccountDependencies en ident) (\<lambda>_.
     onErrP (account_Remove en ident) (account_missing en ident)))"

text \<open>The connection data that the two calls below pass on: neither passes the configuration of the slot.\<close>

definition connection_data :: "HSMConnection \<Rightarrow> SlotConnectionData" where
  "connection_data conn =
     \<lparr>sc_Slot = Slot_Slot (conn_Slot conn), sc_Pin = Slot_Pin (conn_Slot conn), sc_AKV = [],
      sc_LocalKeyVault = None, sc_ModuleKind = conn_ModuleKind conn\<rparr>"

definition DeleteAllAccountsForAddress ::
    "env \<Rightarrow> 'd connector \<Rightarrow> string \<Rightarrow> address \<Rightarrow> ('d world, Account list) prog" where
  "DeleteAllAccountsForAddress en cn app addr =
     bindP (checkP (e_validate en [(''address'', String_of_address (e_keccak en) addr), (''required'', app)])
       invalid_fields) (\<lambda>_.
     bindP (ByApplication en app) (\<lambda>conn.
     bindP (onErrP (if conn_ModuleKind conn = LKVModuleKind
            then RemoveLocalKey en \<lparr>rlk_ID = Slot_ID (conn_Slot conn), rlk_Address = addr\<rparr>
            else bindP (onDevices (RemoveAddress cn (connection_data conn) addr)) (\<lambda>_. returnP ())) not_found) (\<lambda>_.
     bindP (onErrP (account_RemoveAllForAddress en app addr) InternalFromErr) (\<lambda>accounts.
     returnP (co_Items accounts)))))"

fun akv_addresses :: "AKVConfig list \<Rightarrow> go_error + address list" where
  "akv_addresses [] = Inr []"
| "akv_addresses (c # cs) =
     (case NewFromHexString (KeyPublicAddress c) of
        Inl err \<Rightarrow> Inl (InternalFromErr (addr_failure err))
      | Inr addr \<Rightarrow> (case akv_addresses cs of Inl err \<Rightarrow> Inl err | Inr addrs \<Rightarrow> Inr (addr # addrs)))"

definition addressesBackedByModule ::
    "env \<Rightarrow> 'd connector \<Rightarrow> HSMConnection \<Rightarrow> ('d world, address list) prog" where
  "addressesBackedByModule en cn conn =
     (if conn_ModuleKind conn = SoftHSMModuleKind then
        onErrP (onDevices (ListAddresses cn (connection_data conn))) InternalFromErr
      else if conn_ModuleKind conn = LKVModuleKind then
        onErrP (ListLocalKeys en (Slot_ID (conn_Slot conn))) InternalFromErr
      else if conn_ModuleKind conn = AKVModuleKind then
        liftP (akv_addresses (cf_AKV (Slot_Config (conn_Slot conn))))
      else throwP Internal)"

definition containsAddress :: "address list \<Rightarrow> address \<Rightarrow> bool" where
  "containsAddress items addr = list_ex (\<lambda>item. item = addr) items"

definition areAddressesValid :: "address list \<Rightarrow> address list \<Rightarrow> bool" where
  "areAddressesValid items addresses = list_all (containsAddress items) addresses"

definition user_missing :: "string \<Rightarrow> string \<Rightarrow> go_error \<Rightarrow> go_error" where
  "user_missing app user err =
     (if IsNotFound err then
        SetHumanReadableMessage (''could not find user '' @ bracketed user @ '' on application '' @ bracketed app)
          (NotFoundFromErr err)
      else InternalFromErr err)"

text \<open>The loop of \<open>EnableAccounts\<close>: it tries every address and returns those that were not added.\<close>

fun create_accounts :: "env \<Rightarrow> string \<Rightarrow> string \<Rightarrow> address list \<Rightarrow> ('d world, address list) prog" where
  "create_accounts en app user [] = returnP []"
| "create_accounts en app user (addr # addrs) =
     bindP (tryP (CreateAccount en \<lparr>acc_Address = addr, acc_UserID = user, acc_ApplicationID = app\<rparr>)) (\<lambda>r.
     bindP (create_accounts en app user addrs) (\<lambda>notAdded.
     returnP (case r of
         Inl createAccountErr \<Rightarrow> if \<not> IsAlreadyExists createAccountErr then addr # notAdded else notAdded
       | Inr _ \<Rightarrow> notAdded)))"

definition not_in_HSM :: "env \<Rightarrow> address list \<Rightarrow> go_error" where
  "not_in_HSM en addrs =
     precondition (''one or more accounts '' @
       quoted (bracketed (concat (case map (String_of_address (e_keccak en)) addrs of
          [] \<Rightarrow> [] | a # as \<Rightarrow> a # map (\<lambda>s. '' '' @ s) as))) @ '' do not exist in the HSM'')"

definition EnableAccounts ::
    "env \<Rightarrow> 'd connector \<Rightarrow> string \<Rightarrow> string \<Rightarrow> address list \<Rightarrow> ('d world, User) prog" where
  "EnableAccounts en cn app user addresses =
     bindP (checkP (e_validate en ([(''required'', user), (''required'', app)] @
         list_fields ''address'' (map (String_of_address (e_keccak en)) addresses))) invalid_fields) (\<lambda>_.
     bindP (checkP (length addresses \<noteq> 0)
       (SetHumanReadableMessage ''at least one address is required'' InvalidArgument)) (\<lambda>_.
     bindP (onErrP (user_Get app user) (user_missing app user)) (\<lambda>storedUser.
     bindP (ByApplication en app) (\<lambda>conn.
     bindP (addressesBackedByModule en cn conn) (\<lambda>knownAddresses.
     bindP (checkP (areAddressesValid knownAddresses addresses) (not_in_HSM en addresses)) (\<lambda>_.
     bindP (create_accounts en app user addresses) (\<lambda>accountsNotAdded.
     bindP (checkP (accountsNotAdded = []) Internal) (\<lambda>_.
     bindP (accounts_of en app user) (\<lambda>accounts.
     returnP (storedUser\<lparr>User_Accounts := accounts\<rparr>))))))))))"

definition DisableAccount :: "env \<Rightarrow> string \<Rightarrow> string \<Rightarrow> address \<Rightarrow> ('d world, User) prog" where
  "DisableAccount en app user addr =
     bindP (checkP (e_validate en [(''required'', user), (''required'', app),
         (''address'', String_of_address (e_keccak en) addr)]) invalid_fields) (\<lambda>_.
     bindP (onErrP (DeleteAccount en \<lparr>acc_Address = addr, acc_UserID = user, acc_ApplicationID = app\<rparr>)
       (\<lambda>err. if IsNotFound err then
          SetHumanReadableMessage (''account '' @ bracketed (String_of_address (e_keccak en) addr) @
            '' not found for user '' @ bracketed user) (NotFoundFromErr err)
        else InternalFromErr err)) (\<lambda>_.
     bindP (onErrP (user_Get app user) (user_missing app user)) (\<lambda>storedUser.
     bindP (accounts_of en app user) (\<lambda>accounts.
     returnP (storedUser\<lparr>User_Accounts := accounts\<rparr>)))))"

end
