(* ===== verification/Resources.thy ===== *)
theory Resources
  imports Users
begin

text \<open>
  What deleting a resource does, proved once in the locale \<open>resource\<close>: the use cases of applications,
  modules, slots, users and accounts all fetch the resource, refuse when something depends on it,
  drop its entries, and remove its row.
\<close>

section \<open>The contract\<close>

locale resource = table tab put clash
  for tab :: "'d world \<Rightarrow> 'r list" and put and clash +
  fixes sel :: "env \<Rightarrow> 'i \<Rightarrow> 'r \<Rightarrow> bool"
    and pick :: "'r list \<Rightarrow> go_error + 'x"
    and row_internal :: "'r \<Rightarrow> string"
    and internal :: "'x \<Rightarrow> string"
    and kind :: string
    and fetch :: "env \<Rightarrow> 'i \<Rightarrow> ('d world, 'x) prog"
    and repository_get :: "env \<Rightarrow> 'i \<Rightarrow> ('d world, 'x) prog"
    and valid :: "env \<Rightarrow> 'i \<Rightarrow> bool"
    and invalid :: go_error
    and what :: "env \<Rightarrow> 'i \<Rightarrow> string"
    and missing :: "env \<Rightarrow> 'i \<Rightarrow> go_error \<Rightarrow> go_error"
    and delete :: "env \<Rightarrow> 'i \<Rightarrow> ('d world, 'x) prog"
  assumes get_quiet: "w_faults w = [] \<Longrightarrow> repository_get en i w = (pick (filter (sel en i) (tab w)), w)"
    and fetch_reads: "keeps (still w0) (fetch en i)"
    and fetch_row: "w_faults w = [] \<Longrightarrow> fetch en i w = (Inr x, w') \<Longrightarrow>
      \<exists>r y. filter (sel en i) (tab w) = [r] \<and> pick [r] = Inr y \<and> internal x = row_internal r"
    and put_faults: "w_faults (put rs w) = w_faults w"
    and tab_entries: "tab (put_entries es w) = tab w"
    and delete_is: "delete en i =
      bindP (checkP (valid en i) invalid) (\<lambda>_.
      bindP (bindP (fetch en i) (\<lambda>x. removeEntries en (internal x) kind (what en i))) (\<lambda>_.
      onErrP (bindP (repository_get en i) (\<lambda>x.
        bindP (onErrP (sql_delete tab put (sel en i)) mapPersistenceErrorToSignerError) (\<lambda>_. returnP x)))
        (missing en i)))"
begin

text \<open>
  On a database that works a deletion either changes nothing and fails, or removes the row, on which
  nothing depends, and its entries.
\<close>

lemma delete_cases:
  assumes quiet: "w_faults w = []" and run: "delete en i w = (res, w')"
  shows "(w' = w \<and> (\<exists>e. res = Inl e)) \<or>
    (\<exists>r x. filter (sel en i) (tab w) = [r] \<and> res = Inr x \<and>
      (\<forall>e\<in>set (w_entries w). \<not> depends_on (row_internal r) kind e) \<and>
      w' = put (filter (\<lambda>r. \<not> sel en i r) (tab w))
        (put_entries (filter (\<lambda>e. \<not> entry_of (row_internal r) kind e) (w_entries w)) w))"
proof -
  let ?remove = "bindP (fetch en i) (\<lambda>x. removeEntries en (internal x) kind (what en i))"
  obtain a where a: "fetch en i w = (a, w)"
    using still_snd [OF fetch_reads quiet] by (metis prod.collapse)
  have failed: "w' = w \<and> (\<exists>e. res = Inl e)" if "\<not> valid en i \<or> (\<exists>e. ?remove w = (Inl e, w))"
    using that run by (auto simp: delete_is prog_defs split: if_splits sum.splits)
  show ?thesis
  proof (cases "valid en i \<and> (\<exists>u w1. ?remove w = (Inr u, w1))")
    case False
    have "\<exists>e. ?remove w = (Inl e, w)" if none: "\<not> (\<exists>u w1. ?remove w = (Inr u, w1))"
    proof (cases a)
      case (Inl e)
      then show ?thesis using a by (simp add: bindP_def)
    next
      case (Inr x)
      let ?rm = "removeEntries en (internal x) kind (what en i)"
      obtain r1 w1 where r1: "?rm w = (r1, w1)" by (cases "?rm w")
      then have "?remove w = (r1, w1)" using a Inr by (simp add: bindP_def)
      then obtain e where e: "?rm w = (Inl e, w1)" using none r1 by (cases r1) auto
      then have "w1 = w" by (rule removeEntries_Inl [OF quiet])
      then show ?thesis using a Inr e by (simp add: bindP_def)
    qed
    then show ?thesis using False failed by blast
  next
    case True
    then obtain x u w1 where x: "fetch en i w = (Inr x, w)"
      and rmrun: "removeEntries en (internal x) kind (what en i) w = (Inr u, w1)"
      using a by (auto simp: prog_ok)
    obtain r y where r: "filter (sel en i) (tab w) = [r]" "pick [r] = Inr y" "internal x = row_internal r"
      using fetch_row [OF quiet x] by blast
    note rm = removeEntries_Inr [OF quiet rmrun, unfolded r(3)]
    have w1: "w_faults w1 = []" "tab w1 = tab w" using rm quiet tab_entries by auto
    let ?tail = "onErrP (bindP (repository_get en i) (\<lambda>x.
        bindP (onErrP (sql_delete tab put (sel en i)) mapPersistenceErrorToSignerError) (\<lambda>_. returnP x)))
        (missing en i)"
    have "?tail w1 = (Inr y, put (filter (\<lambda>r. \<not> sel en i r) (tab w)) w1)"
      using w1 r by (simp add: onErrP_def bindP_def get_quiet sql_delete_quiet returnP_def)
    moreover have "delete en i w = ?tail w1"
      using True x rmrun unfolding delete_is by (simp add: bindP_def checkP_def returnP_def)
    ultimately have "res = Inr y \<and> w' = put (filter (\<lambda>r. \<not> sel en i r) (tab w)) w1"
      using run by simp
    then show ?thesis using r rm by blast
  qed
qed

end

section \<open>Reading users and accounts\<close>

lemma keeps_still_user_reads [keeps_intros]:
  "keeps (still w0) (user_Get app ident)" "keeps (still w0) (account_Get en aid)"
  "keeps (still w0) (account_All f)" "keeps (still w0) (ListAccounts en li)"
  "keeps (still w0) (accounts_of en app ident)" "keeps (still w0) (GetUser en app ident)"
  "keeps (still w0) (GetAccount en aid)" "keeps (still w0) (ListUsers en lu)"
  unfolding user_Get_def user_infra_Get_def account_Get_def account_infra_Get_def account_All_def
    account_infra_List_def ListAccounts_def accounts_of_def GetUser_def GetAccount_def ListUsers_def user_All_def
    user_infra_List_def Let_def
  by (intro keeps_intros)+

lemma user_Get_quiet:
  "w_faults w = [] \<Longrightarrow> user_Get app ident w =
     (single_row user_mapFromDB (filter (\<lambda>r. us_ApplicationID r = app \<and> us_ID r = ident) (w_users w)), w)"
  by (simp add: user_Get_def user_infra_Get_def prog_defs quiet_simps)

definition account_row :: "env \<Rightarrow> AccountID \<Rightarrow> AccountDB \<Rightarrow> bool" where
  "account_row en ident r \<longleftrightarrow> ac_ApplicationID r = acc_ApplicationID ident \<and> ac_UserID r = acc_UserID ident \<and>
     ac_Address r = String_of_address (e_keccak en) (acc_Address ident)"

lemma account_Get_quiet:
  "w_faults w = [] \<Longrightarrow> account_Get en ident w =
     (single_row account_mapFromDB (filter (account_row en ident) (w_accounts w)), w)"
  by (simp add: account_Get_def account_infra_Get_def prog_defs quiet_simps account_row_def [abs_def])

lemma user_mapFromDB_Inr:
  "user_mapFromDB db = Inr u \<Longrightarrow>
     User_ID u = us_ID db \<and> User_ApplicationID u = us_ApplicationID db \<and> User_Roles u = us_Roles db \<and>
     User_InternalResourceID u = us_InternalResourceID db \<and> User_ResourceVersion u = us_ResourceVersion db"
  by (auto simp: user_mapFromDB_def split: if_splits)

lemma account_mapFromDB_Inr:
  "account_mapFromDB db = Inr a \<Longrightarrow>
     acc_UserID (Acc_AccountID a) = ac_UserID db \<and> acc_ApplicationID (Acc_AccountID a) = ac_ApplicationID db \<and>
     Acc_InternalResourceID a = ac_InternalResourceID db \<and>
     NewFromHexString (ac_Address db) = Inr (acc_Address (Acc_AccountID a))"
  by (auto simp: account_mapFromDB_def split: if_splits sum.splits)

lemma GetUser_Inr:
  assumes quiet: "w_faults w = []" and run: "GetUser en app ident w = (Inr u, w')"
  shows "w' = w \<and> (\<exists>r y. filter (\<lambda>r. us_ApplicationID r = app \<and> us_ID r = ident) (w_users w) = [r] \<and>
    user_mapFromDB r = Inr y \<and> u = y\<lparr>User_Accounts := User_Accounts u\<rparr>)"
proof -
  obtain y w1 w2 acc where get: "user_Get app ident w = (Inr y, w1)" and u: "u = y\<lparr>User_Accounts := acc\<rparr>"
    using run by (auto simp: GetUser_def prog_ok)
  have one: "single_row user_mapFromDB (filter (\<lambda>r. us_ApplicationID r = app \<and> us_ID r = ident) (w_users w)) = Inr y"
    using get unfolding user_Get_quiet [OF quiet] by auto
  have "w' = w" by (rule still_eq [OF keeps_still_user_reads(6) quiet run])
  then show ?thesis using single_row_Inr [OF one] u by auto
qed

lemma GetAccount_Inr:
  assumes quiet: "w_faults w = []" and run: "GetAccount en ident w = (Inr a, w')"
  shows "w' = w \<and> (\<exists>r. filter (account_row en ident) (w_accounts w) = [r] \<and> account_mapFromDB r = Inr a)"
proof -
  have one: "single_row account_mapFromDB (filter (account_row en ident) (w_accounts w)) = Inr a" and w': "w' = w"
    using run by (auto simp: GetAccount_def prog_ok account_Get_quiet [OF quiet])
  show ?thesis using single_row_Inr [OF one] w' by blast
qed

lemma GetHSMSlot_Inr:
  assumes quiet: "w_faults w = []" and run: "GetHSMSlot en ident w = (Inr a, w')"
  shows "w' = w \<and> (\<exists>r. filter (\<lambda>r. sl_ID r = ident) (w_slots w) = [r] \<and> slot_mapFromDB r = Inr a)"
proof -
  have one: "one_slot (filter (\<lambda>r. sl_ID r = ident) (w_slots w)) = Inr a" and w': "w' = w"
    using run by (auto simp: GetHSMSlot_def prog_ok slot_Get_quiet [OF quiet])
  show ?thesis using one_slot_Inr [OF one] w' by blast
qed

section \<open>The five resources\<close>

interpretation application_resource: resource w_applications "\<lambda>rs. w_applications_update (\<lambda>_. rs)" application_clash
  "\<lambda>en i r. ap_ID r = i" "single_row application_mapFromDB" ap_InternalResourceID App_InternalResourceID KindApplication
  GetApplication "\<lambda>en. application_Get" "\<lambda>en i. e_validate en [standard_id i]" "invalid_data ''couldn't validate input data''"
  "\<lambda>en i. ''application '' @ CHR 0x27 # i @ [CHR 0x27]" "\<lambda>en. application_not_found" DeleteApplication
proof unfold_locales
  show "\<exists>r y. filter (\<lambda>r. ap_ID r = i) (w_applications w) = [r] \<and> single_row application_mapFromDB [r] = Inr y \<and>
      App_InternalResourceID x = ap_InternalResourceID r"
    if "w_faults w = []" "GetApplication en i w = (Inr x, w')" for w en i x w'
    using GetApplication_Inr [OF that] application_mapFromDB_Inr by (fastforce simp: single_row_one)
qed (simp_all add: application_Get_quiet keeps_still_GetApplication DeleteApplication_def removeAllDependencies_def
    application_Remove_def application_infra_Remove_def)

interpretation module_resource: resource w_modules "\<lambda>rs. w_modules_update (\<lambda>_. rs)" module_clash
  "\<lambda>en i r. hm_ID r = i" "single_row module_mapFromDB" hm_InternalResourceID Mod_InternalResourceID KindHSMModule
  GetHSMModule "\<lambda>en. module_Get" "\<lambda>en i. e_validate en [standard_id i]" "invalid_data ''couldn't validate input data''"
  "\<lambda>en i. ''HSM '' @ quoted i" "\<lambda>en i. not_found" DeleteHSMModule
proof unfold_locales
  show "\<exists>r y. filter (\<lambda>r. hm_ID r = i) (w_modules w) = [r] \<and> single_row module_mapFromDB [r] = Inr y \<and>
      Mod_InternalResourceID x = hm_InternalResourceID r"
    if "w_faults w = []" "GetHSMModule en i w = (Inr x, w')" for w en i x w'
    using GetHSMModule_Inr [OF that] module_mapFromDB_Inr by (fastforce simp: single_row_one)
qed (simp_all add: module_Get_quiet keeps_still_GetHSMModule DeleteHSMModule_def module_removeAllDependencies_def
    module_Remove_def module_infra_Remove_def)

interpretation slot_resource: resource w_slots "\<lambda>rs. w_slots_update (\<lambda>_. rs)" slot_clash
  "\<lambda>en i r. sl_ID r = i" one_slot sl_InternalResourceID Slot_InternalResourceID KindHSMSlot
  GetHSMSlot "\<lambda>en. slot_Get" "\<lambda>en i. e_validate en [standard_id i]" "invalid_data ''couldn't validate input data''"
  "\<lambda>en i. ''HSM slot '' @ quoted i" "\<lambda>en i. not_found" DeleteHSMSlot
proof unfold_locales
  show "\<exists>r y. filter (\<lambda>r. sl_ID r = i) (w_slots w) = [r] \<and> one_slot [r] = Inr y \<and>
      Slot_InternalResourceID x = sl_InternalResourceID r"
    if "w_faults w = []" "GetHSMSlot en i w = (Inr x, w')" for w en i x w'
    using GetHSMSlot_Inr [OF that] slot_mapFromDB_Inr by fastforce
qed (simp_all add: slot_Get_quiet keeps_still_slot_reads DeleteHSMSlot_def slot_removeAllDependencies_def
    slot_Remove_def slot_infra_Remove_def)

text \<open>A user is identified by its application and its identifier.\<close>

interpretation user_resource: resource w_users "\<lambda>rs. w_users_update (\<lambda>_. rs)" user_clash
  "\<lambda>en i r. us_ApplicationID r = fst i \<and> us_ID r = snd i" "single_row user_mapFromDB" us_InternalResourceID
  User_InternalResourceID KindUser
  "\<lambda>en i. GetUser en (fst i) (snd i)" "\<lambda>en i. user_Get (fst i) (snd i)"
  "\<lambda>en i. e_validate en [standard_id (snd i), (''required'', fst i)]" invalid_fields
  "\<lambda>en i. ''user '' @ quoted (fst i @ '':'' @ snd i)" "\<lambda>en i. not_found" "\<lambda>en i. DeleteUser en (fst i) (snd i)"
proof unfold_locales
  show "\<exists>r y. filter (\<lambda>r. us_ApplicationID r = fst i \<and> us_ID r = snd i) (w_users w) = [r] \<and>
      single_row user_mapFromDB [r] = Inr y \<and> User_InternalResourceID x = us_InternalResourceID r"
    if quiet: "w_faults w = []" and run: "GetUser en (fst i) (snd i) w = (Inr x, w')" for w en x w' and i :: "string \<times> string"
  proof -
    obtain r y where r: "filter (\<lambda>r. us_ApplicationID r = fst i \<and> us_ID r = snd i) (w_users w) = [r]"
      "user_mapFromDB r = Inr y" "x = y\<lparr>User_Accounts := User_Accounts x\<rparr>"
      using GetUser_Inr [OF quiet run] by (elim conjE exE)
    then have "User_InternalResourceID x = us_InternalResourceID r"
      using user_mapFromDB_Inr [OF r(2)] by (metis User.select_convs(3) User.surjective User.update_convs(6))
    then show ?thesis using r by (simp add: single_row_one)
  qed
qed (simp_all add: user_Get_quiet keeps_still_user_reads DeleteUser_def removeAllUserDependencies_def user_Remove_def
    user_infra_Remove_def)

interpretation account_resource: resource w_accounts "\<lambda>rs. w_accounts_update (\<lambda>_. rs)" account_clash
  account_row "single_row account_mapFromDB" ac_InternalResourceID Acc_InternalResourceID KindAccount
  GetAccount account_Get "\<lambda>en i. e_validate en (account_fields en i)" invalid_fields
  "\<lambda>en i. ''acount '' @ quoted (acc_ApplicationID i @ '':'' @ acc_UserID i @ '':'' @
     String_of_address (e_keccak en) (acc_Address i))" account_missing DeleteAccount
proof unfold_locales
  show "\<exists>r y. filter (account_row en i) (w_accounts w) = [r] \<and> single_row account_mapFromDB [r] = Inr y \<and>
      Acc_InternalResourceID x = ac_InternalResourceID r"
    if "w_faults w = []" "GetAccount en i w = (Inr x, w')" for w en i x w'
    using GetAccount_Inr [OF that] account_mapFromDB_Inr by (fastforce simp: single_row_one)
qed (simp_all add: account_Get_quiet keeps_still_user_reads DeleteAccount_def removeAllAccountDependencies_def
    account_Remove_def account_infra_Remove_def account_row_def [abs_def])

end
