(* ===== verification/Integrity.thy ===== *)
theory Integrity
  imports Resources
begin

text \<open>
  The invariant of the configuration: every user has its application, every account its user, every
  slot its application and its module, each through an entry of the referential integrity table, and
  the operations of the use cases keep it on a database that works.  The second invariant concerns
  roles: no user ever holds a role of another scope, whatever the database does.
\<close>

section \<open>The invariant\<close>

type_synonym link = "string \<times> string \<times> string \<times> string"

definition link_of :: "ReferentialIntegrityEntryDB \<Rightarrow> link" where
  "link_of e = (ri_ResourceID e, ri_ResourceKind e, ri_ParentResourceID e, ri_ParentResourceKind e)"

definition links :: "'d world \<Rightarrow> link set" where
  "links w = link_of ` set (w_entries w)"

text \<open>
  Children with the key of their parent and their internal identifier, parents with their key and
  theirs: every child has a parent it is linked to.
\<close>

definition all_linked :: "('k \<times> string) set \<Rightarrow> string \<Rightarrow> ('k \<times> string) set \<Rightarrow> string \<Rightarrow> link set \<Rightarrow> bool" where
  "all_linked children kind parents parentKind ls \<longleftrightarrow>
     (\<forall>(k, i) \<in> children. \<exists>p. (k, p) \<in> parents \<and> (i, kind, p, parentKind) \<in> ls)"

definition application_keys :: "'d world \<Rightarrow> (string \<times> string) set" where
  "application_keys w = (\<lambda>r. (ap_ID r, ap_InternalResourceID r)) ` set (w_applications w)"

definition module_keys :: "'d world \<Rightarrow> (string \<times> string) set" where
  "module_keys w = (\<lambda>r. (hm_ID r, hm_InternalResourceID r)) ` set (w_modules w)"

definition user_keys :: "'d world \<Rightarrow> ((string \<times> string) \<times> string) set" where
  "user_keys w = (\<lambda>r. ((us_ApplicationID r, us_ID r), us_InternalResourceID r)) ` set (w_users w)"

definition user_parents :: "'d world \<Rightarrow> (string \<times> string) set" where
  "user_parents w = (\<lambda>r. (us_ApplicationID r, us_InternalResourceID r)) ` set (w_users w)"

definition account_parents :: "'d world \<Rightarrow> ((string \<times> string) \<times> string) set" where
  "account_parents w = (\<lambda>r. ((ac_ApplicationID r, ac_UserID r), ac_InternalResourceID r)) ` set (w_accounts w)"

definition slot_applications :: "'d world \<Rightarrow> (string \<times> string) set" where
  "slot_applications w = (\<lambda>r. (sl_ApplicationID r, sl_InternalResourceID r)) ` set (w_slots w)"

definition slot_modules :: "'d world \<Rightarrow> (string \<times> string) set" where
  "slot_modules w = (\<lambda>r. (sl_HSMModuleID r, sl_InternalResourceID r)) ` set (w_slots w)"

lemmas key_defs = application_keys_def module_keys_def user_keys_def user_parents_def account_parents_def
  slot_applications_def slot_modules_def links_def

definition links_ok :: "env \<Rightarrow> 'd world \<Rightarrow> bool" where
  "links_ok en w \<longleftrightarrow>
     (\<forall>e\<in>set (w_entries w). \<exists>j<w_uuids w. ri_ID e = e_uuid en j) \<and>
     all_linked (user_parents w) KindUser (application_keys w) KindApplication (links w) \<and>
     all_linked (account_parents w) KindAccount (user_keys w) KindUser (links w) \<and>
     all_linked (slot_applications w) KindHSMSlot (application_keys w) KindApplication (links w) \<and>
     all_linked (slot_modules w) KindHSMSlot (module_keys w) KindHSMModule (links w)"

definition integrity :: "env \<Rightarrow> 'd world \<Rightarrow> bool" where
  "integrity en w \<longleftrightarrow> quiet w \<and> keys_ok w \<and> links_ok en w"

lemma all_linked_mono:
  "all_linked C k P pk L \<Longrightarrow> C' \<subseteq> C \<Longrightarrow> P \<subseteq> P' \<Longrightarrow> L \<subseteq> L' \<Longrightarrow> all_linked C' k P' pk L'"
  unfolding all_linked_def by fast

lemma all_linked_insert:
  "all_linked C k P pk L \<Longrightarrow> (q, p) \<in> P \<Longrightarrow> (i, k, p, pk) \<in> L \<Longrightarrow> all_linked (insert (q, i) C) k P pk L"
  unfolding all_linked_def by fast

text \<open>Removing a resource on which nothing depends, with the entries of its own.\<close>

lemma all_linked_remove:
  assumes "all_linked C k P pk L"
    and "\<And>r rk. (r, rk, i0, k0) \<notin> L"
    and "C' \<subseteq> C" and "k = k0 \<Longrightarrow> i0 \<notin> snd ` C'"
    and "\<And>q p. (q, p) \<in> P \<Longrightarrow> pk \<noteq> k0 \<or> p \<noteq> i0 \<Longrightarrow> (q, p) \<in> P'"
    and "L' = {(r, rk, p, pk) \<in> L. \<not> (r = i0 \<and> rk = k0)}"
  shows "all_linked C' k P' pk L'"
  unfolding all_linked_def
proof (clarify)
  fix q i assume qi: "(q, i) \<in> C'"
  then obtain p where p: "(q, p) \<in> P" "(i, k, p, pk) \<in> L"
    using assms(1, 3) unfolding all_linked_def by blast
  have "pk \<noteq> k0 \<or> p \<noteq> i0" using p(2) assms(2) by blast
  moreover have "\<not> (i = i0 \<and> k = k0)" using qi assms(4) by force
  ultimately show "\<exists>p. (q, p) \<in> P' \<and> (i, k, p, pk) \<in> L'" using p assms(5, 6) by blast
qed

lemma links_removed:
  assumes "w_entries w' = filter (\<lambda>e. \<not> entry_of i k e) (w_entries w)"
  shows "links w' = {(r, rk, p, pk) \<in> links w. \<not> (r = i \<and> rk = k)}"
  using assms by (auto simp: links_def link_of_def entry_of_def)

lemma links_none:
  "\<forall>e\<in>set (w_entries w). \<not> depends_on i k e \<Longrightarrow> (r, rk, i, k) \<notin> links w"
  by (auto simp: links_def link_of_def depends_on_def)

section \<open>Statements\<close>

lemma integrity_empty: "integrity en (empty_world dev)"
  by (simp add: integrity_def quiet_def keys_ok_def distinct_rows_def links_ok_def all_linked_def empty_world_def
      key_defs)

lemma links_ok_grow:
  assumes "links_ok en w" and "\<forall>e\<in>set (w_entries w'). \<exists>j<w_uuids w'. ri_ID e = e_uuid en j" and "links w \<subseteq> links w'"
    and "user_parents w' \<subseteq> user_parents w" "account_parents w' \<subseteq> account_parents w"
    and "slot_applications w' \<subseteq> slot_applications w" "slot_modules w' \<subseteq> slot_modules w"
    and "application_keys w \<subseteq> application_keys w'" "module_keys w \<subseteq> module_keys w'" "user_keys w \<subseteq> user_keys w'"
  shows "links_ok en w'"
  using assms(1, 2) unfolding links_ok_def
  by (intro conjI; elim conjE)
    (assumption | erule all_linked_mono [OF _ assms(4) assms(8) assms(3)] all_linked_mono [OF _ assms(5) assms(10) assms(3)]
      all_linked_mono [OF _ assms(6) assms(8) assms(3)] all_linked_mono [OF _ assms(7) assms(9) assms(3)])+

lemma links_ok_mono:
  assumes "links_ok en w" and "w_entries w' = w_entries w" "w_uuids w \<le> w_uuids w'"
    and "user_parents w' \<subseteq> user_parents w" "account_parents w' \<subseteq> account_parents w"
    and "slot_applications w' \<subseteq> slot_applications w" "slot_modules w' \<subseteq> slot_modules w"
    and "application_keys w \<subseteq> application_keys w'" "module_keys w \<subseteq> module_keys w'" "user_keys w \<subseteq> user_keys w'"
  shows "links_ok en w'"
proof -
  have "links w \<subseteq> links w'" using assms(2) by (simp add: links_def)
  moreover have "\<forall>e\<in>set (w_entries w'). \<exists>j<w_uuids w'. ri_ID e = e_uuid en j"
    using assms(1-3) unfolding links_ok_def by (metis less_le_trans)
  ultimately show ?thesis using links_ok_grow [OF assms(1) _ _ assms(4-10)] by blast
qed

lemma keys_of_updates [simp]:
  "user_parents (put_entries es w) = user_parents w" "account_parents (put_entries es w) = account_parents w"
  "slot_applications (put_entries es w) = slot_applications w" "slot_modules (put_entries es w) = slot_modules w"
  "application_keys (put_entries es w) = application_keys w" "module_keys (put_entries es w) = module_keys w"
  "user_keys (put_entries es w) = user_keys w"
  "user_parents (drawn w) = user_parents w" "account_parents (drawn w) = account_parents w"
  "slot_applications (drawn w) = slot_applications w" "slot_modules (drawn w) = slot_modules w"
  "application_keys (drawn w) = application_keys w" "module_keys (drawn w) = module_keys w"
  "user_keys (drawn w) = user_keys w" "links (drawn w) = links w"
  by (simp_all add: key_defs)

lemma keeps_reads:
  assumes "\<And>w0. keeps (still w0) m" and "\<And>w. P w \<Longrightarrow> quiet w"
  shows "keeps P m"
  unfolding keeps_def
proof (intro allI impI)
  fix w assume "P w"
  then have "w_faults w = []" using assms(2) by (simp add: quiet_def)
  then show "P (snd (m w))" using still_snd [OF assms(1)] \<open>P w\<close> by metis
qed

lemma integrity_quiet: "integrity en w \<Longrightarrow> quiet w"
  by (simp add: integrity_def)

lemma keeps_integrity_reads [keeps_intros]:
  "keeps (integrity en) (sql_select tab sel)" "keeps (integrity en) (sql_list created updated tab q sel)"
proof -
  show "keeps (integrity en) (sql_select tab sel)"
    by (rule keeps_reads [OF keeps_still_select]) (rule integrity_quiet)
  show "keeps (integrity en) (sql_list created updated tab q sel)"
    by (rule keeps_reads [OF keeps_still_list]) (rule integrity_quiet)
qed

text \<open>A step that keeps the tables as they are, and one that changes them.\<close>

lemma keeps_integrity_write:
  fixes m :: "('d world, 'a) prog"
  assumes "keeps keys_ok m" "keeps quiet m"
    and "\<And>w w' r. integrity en w \<Longrightarrow> m w = (r, w') \<Longrightarrow> links_ok en w'"
  shows "keeps (integrity en) m"
  unfolding keeps_def
proof (intro allI impI)
  fix w :: "'d world"
  assume i: "integrity en w"
  obtain r w' where run: "m w = (r, w')" by (cases "m w")
  have "quiet w'" "keys_ok w'"
    using i keepsD [OF assms(2) _ run] keepsD [OF assms(1) _ run] by (auto simp: integrity_def)
  then show "integrity en (snd (m w))" using assms(3) [OF i run] run by (simp add: integrity_def)
qed

lemma keeps_keys_onDevices: "keeps keys_ok (onDevices m)"
  by (auto simp: keeps_def onDevices_def keys_ok_def split: prod.splits)

lemma keeps_integrity_draws [keeps_intros]:
  "keeps (integrity en) (newUUID en')" "keeps (integrity en) (timeNow en')" "keeps (integrity en) (onDevices m)"
proof -
  show "keeps (integrity en) (newUUID en')"
    by (rule keeps_integrity_write [OF keeps_keys_reads(3) keeps_quiet_reads(3)])
      (auto simp: newUUID_def integrity_def key_defs elim!: links_ok_mono)
  show "keeps (integrity en) (timeNow en')"
    by (rule keeps_integrity_write [OF keeps_keys_reads(4) keeps_quiet_reads(4)])
      (auto simp: timeNow_def integrity_def key_defs elim!: links_ok_mono)
  show "keeps (integrity en) (onDevices m)"
    by (rule keeps_integrity_write [OF keeps_keys_onDevices keeps_quiet_reads(5)])
      (auto simp: onDevices_def integrity_def key_defs split: prod.splits elim!: links_ok_mono)
qed

lemma keeps_integrity_insert_parent [keeps_intros]:
  "keeps (integrity en) (sql_insert w_applications put_applications application_clash r)"
  "keeps (integrity en) (sql_insert w_modules put_modules module_clash r')"
  "keeps (integrity en) (sql_insert w_admins put_admins admin_clash r'')"
proof -
  show "keeps (integrity en) (sql_insert w_applications put_applications application_clash r)"
    by (rule keeps_integrity_write [OF keeps_keys_applications(1) keeps_quiet_writes(1)])
      (auto simp: integrity_def quiet_def quiet_simps key_defs split: if_splits elim!: links_ok_mono)
  show "keeps (integrity en) (sql_insert w_modules put_modules module_clash r')"
    by (rule keeps_integrity_write [OF keeps_keys_modules(1) keeps_quiet_writes(1)])
      (auto simp: integrity_def quiet_def quiet_simps key_defs split: if_splits elim!: links_ok_mono)
  show "keeps (integrity en) (sql_insert w_admins put_admins admin_clash r'')"
    by (rule keeps_integrity_write [OF keeps_keys_admins(1) keeps_quiet_writes(1)])
      (auto simp: integrity_def quiet_def quiet_simps key_defs split: if_splits elim!: links_ok_mono)
qed

lemma keeps_integrity_delete_accounts [keeps_intros]:
  "keeps (integrity en) (sql_delete w_accounts put_accounts sel)"
  by (rule keeps_integrity_write [OF keeps_keys_accounts(2) keeps_quiet_writes(3)])
    (auto simp: integrity_def quiet_def quiet_simps key_defs split: if_splits elim!: links_ok_mono)

lemma keeps_integrity_admins [keeps_intros]:
  "keeps (integrity en) (sql_delete w_admins put_admins sel)"
  "(\<And>r. ad_ID (f r) = ad_ID r) \<Longrightarrow> (\<And>r. ad_InternalResourceID (f r) = ad_InternalResourceID r) \<Longrightarrow>
     keeps (integrity en) (sql_update w_admins put_admins sel f)"
proof -
  show "keeps (integrity en) (sql_delete w_admins put_admins sel)"
    by (rule keeps_integrity_write [OF keeps_keys_admins(2) keeps_quiet_writes(3)])
      (auto simp: integrity_def quiet_def quiet_simps key_defs split: if_splits elim!: links_ok_mono)
  assume "\<And>r. ad_ID (f r) = ad_ID r" "\<And>r. ad_InternalResourceID (f r) = ad_InternalResourceID r"
  from keeps_keys_admin_update [OF this] show "keeps (integrity en) (sql_update w_admins put_admins sel f)"
    by (rule keeps_integrity_write [OF _ keeps_quiet_writes(2)])
      (auto simp: integrity_def quiet_def quiet_simps key_defs split: if_splits elim!: links_ok_mono)
qed

lemma image_map_same: "(\<And>x. g (f x) = g x) \<Longrightarrow> g ` set (map (\<lambda>r. if sel r then f r else r) rows) = g ` set rows"
  unfolding set_map image_image by (rule image_cong) simp_all

lemma keeps_integrity_update_application [keeps_intros]:
  assumes "\<And>r. ap_ID (f r) = ap_ID r" and "\<And>r. ap_InternalResourceID (f r) = ap_InternalResourceID r"
  shows "keeps (integrity en) (sql_update w_applications put_applications sel f)"
  by (rule keeps_integrity_write [OF keeps_keys_application_update [OF assms] keeps_quiet_writes(2)])
    (auto simp: integrity_def quiet_def quiet_simps key_defs image_map_same assms simp del: set_map split: if_splits elim!: links_ok_mono)

lemma keeps_integrity_update_module [keeps_intros]:
  assumes "\<And>r. hm_ID (f r) = hm_ID r" and "\<And>r. hm_InternalResourceID (f r) = hm_InternalResourceID r"
  shows "keeps (integrity en) (sql_update w_modules put_modules sel f)"
  by (rule keeps_integrity_write [OF keeps_keys_module_update [OF assms] keeps_quiet_writes(2)])
    (auto simp: integrity_def quiet_def quiet_simps key_defs image_map_same assms simp del: set_map split: if_splits elim!: links_ok_mono)

lemma keeps_integrity_update_user [keeps_intros]:
  assumes "\<And>r. us_ID (f r) = us_ID r" and "\<And>r. us_ApplicationID (f r) = us_ApplicationID r"
    and "\<And>r. us_InternalResourceID (f r) = us_InternalResourceID r"
  shows "keeps (integrity en) (sql_update w_users put_users sel f)"
  by (rule keeps_integrity_write [OF keeps_keys_user_update [OF assms] keeps_quiet_writes(2)])
    (auto simp: integrity_def quiet_def quiet_simps key_defs image_map_same assms simp del: set_map split: if_splits elim!: links_ok_mono)

lemma keeps_integrity_update_slot [keeps_intros]:
  assumes "\<And>r. sl_ID (f r) = sl_ID r" and "\<And>r. sl_InternalResourceID (f r) = sl_InternalResourceID r"
    and "\<And>r. sl_HSMModuleID (f r) = sl_HSMModuleID r" and "\<And>r. sl_Slot (f r) = sl_Slot r"
    and "\<And>r. sl_ApplicationID (f r) = sl_ApplicationID r"
  shows "keeps (integrity en) (sql_update w_slots put_slots sel f)"
  by (rule keeps_integrity_write [OF keeps_keys_slot_update [OF assms] keeps_quiet_writes(2)])
    (auto simp: integrity_def quiet_def quiet_simps key_defs image_map_same assms simp del: set_map split: if_splits elim!: links_ok_mono)

section \<open>Entries\<close>

text \<open>Worlds that differ from one in drawn identifiers, readings of the clock and added entries.\<close>

definition grown :: "'d world \<Rightarrow> 'd world \<Rightarrow> bool" where
  "grown w w' \<longleftrightarrow> application_keys w' = application_keys w \<and> module_keys w' = module_keys w \<and>
     user_keys w' = user_keys w \<and> links w \<subseteq> links w'"

lemma grown_refl: "grown w w"
  by (simp add: grown_def)

lemma grown_trans: "grown w w' \<Longrightarrow> grown w' w'' \<Longrightarrow> grown w w''"
  by (auto simp: grown_def)

lemma ri_invalid_not_exists: "\<not> IsAlreadyExists ri_invalid"
  by (simp add: ri_invalid_def IsAlreadyExists_def public_is_def InvalidArgumentFromErr_def)

lemma CreateEntry_cases:
  assumes quiet: "w_faults w = []" and kinds: "valid_kind k" "valid_kind pk"
    and run: "CreateEntry en r k p pk w = (res, w')"
  shows "(w' = w \<or> w' = drawn w) \<and> (\<exists>e. res = Inl e \<and>
      (IsAlreadyExists e \<longrightarrow> (\<exists>x\<in>set (w_entries w). entry_clash x (new_entry en w r k p pk)))) \<or>
    w' = put_entries (w_entries w @ [new_entry en w r k p pk]) (drawn w)"
proof (cases "e_validate en [(''required'', r), (''required'', k), (''required'', p), (''required'', pk)]")
  case False
  then show ?thesis using run
    by (auto simp: CreateEntry_invalid ri_invalid_not_exists)
next
  case True
  show ?thesis
  proof (cases "r = [] \<or> p = [] \<or> e_uuid en (w_uuids w) = []")
    case True': True
    have "entry_mapToCreateDB \<lparr>re_ID = e_uuid en (w_uuids w), re_CreationDate = e_clock en (w_ticks w),
        re_LastUpdate = e_clock en (w_ticks w), re_ResourceID = r, re_ResourceKind = k, re_ParentResourceID = p,
        re_ParentResourceKind = pk\<rparr> = Inl Internal"
      using True' kinds valid_kind_maps [OF kinds(1)] by (auto simp: entry_mapToCreateDB_def)
    then have "CreateEntry en r k p pk w = (Inl (InternalFromErr (InternalFromErr Internal)), drawn w)"
      using True by (simp add: CreateEntry_def entry_Add_def prog_defs newUUID_def timeNow_def drawn_def
          IsAlreadyExists_def public_is_def InternalFromErr_def)
    then show ?thesis using run by (simp add: IsAlreadyExists_def public_is_def InternalFromErr_def)
  next
    case False
    then show ?thesis using run CreateEntry_quiet [OF quiet _ _ _ kinds True]
      by (auto split: if_splits)
  qed
qed

lemma links_ok_new_entry:
  assumes "links_ok en w"
  shows "links_ok en (put_entries (w_entries w @ [new_entry en w r k p pk]) (drawn w))"
proof -
  let ?w = "put_entries (w_entries w @ [new_entry en w r k p pk]) (drawn w)"
  have "\<forall>e\<in>set (w_entries ?w). \<exists>j<w_uuids ?w. ri_ID e = e_uuid en j"
    using assms unfolding links_ok_def by (auto simp: new_entry_def) (metis less_SucI)
  moreover have "links w \<subseteq> links ?w" by (auto simp: links_def)
  ultimately show ?thesis by (rule links_ok_grow [OF assms]) simp_all
qed

text \<open>
  Identifiers never repeat; \<open>createEntryIfNone\<close> takes an entry with the identifier it drew for the
  entry it wants to create, and no entry would be created if the identifier were one that is stored.
\<close>

lemma clash_is_link:
  assumes "links_ok en w" "inj (e_uuid en)" "x \<in> set (w_entries w)" "entry_clash x (new_entry en w r k p pk)"
  shows "(r, k, p, pk) \<in> links w"
proof -
  obtain j where "j < w_uuids w" "ri_ID x = e_uuid en j" using assms(1, 3) unfolding links_ok_def by blast
  then have "ri_ID x \<noteq> e_uuid en (w_uuids w)" using assms(2) by (metis injD nat_neq_iff)
  then have "link_of x = (r, k, p, pk)"
    using assms(4) by (auto simp: entry_clash_def new_entry_def link_of_def)
  then show ?thesis using assms(3) unfolding links_def by force
qed

lemma createEntryIfNone_step:
  assumes i: "integrity en w" and inj: "inj (e_uuid en)" and kinds: "valid_kind k" "valid_kind pk"
    and run: "createEntryIfNone en r k p pk w = (res, w')"
  shows "integrity en w' \<and> grown w w' \<and> (\<forall>u. res = Inr u \<longrightarrow> (r, k, p, pk) \<in> links w')"
proof -
  have quiet: "w_faults w = []" and lk: "links_ok en w" using i by (auto simp: integrity_def quiet_def)
  obtain x where c: "CreateEntry en r k p pk w = (x, w')"
    and res: "res = (case x of Inl e \<Rightarrow> if \<not> IsAlreadyExists e then Inl e else Inr () | Inr _ \<Rightarrow> Inr ())"
    using run by (auto simp: createEntryIfNone_def prog_defs split: prod.splits sum.splits if_splits)
  have "keeps keys_ok (CreateEntry en r k p pk)" by (rule keeps_keys_entry_use_cases)
  then have keys: "keys_ok w'" using i c unfolding integrity_def by (metis keepsD)
  from CreateEntry_cases [OF quiet kinds c] show ?thesis
  proof (elim disjE conjE exE)
    fix e assume "w' = w" "x = Inl e" "IsAlreadyExists e \<longrightarrow> (\<exists>x\<in>set (w_entries w). entry_clash x (new_entry en w r k p pk))"
    then show ?thesis using i res clash_is_link [OF lk inj] grown_refl by (auto split: if_splits)
  next
    fix e assume w': "w' = drawn w" "x = Inl e" "IsAlreadyExists e \<longrightarrow> (\<exists>x\<in>set (w_entries w). entry_clash x (new_entry en w r k p pk))"
    have "links_ok en w'" unfolding w' by (rule links_ok_mono [OF lk]) simp_all
    then show ?thesis using w' keys quiet res clash_is_link [OF lk inj]
      by (auto simp: integrity_def quiet_def grown_def split: if_splits)
  next
    assume w': "w' = put_entries (w_entries w @ [new_entry en w r k p pk]) (drawn w)"
    have "(r, k, p, pk) \<in> links w'" by (simp add: w' links_def new_entry_def link_of_def)
    moreover have "links w \<subseteq> links w'" by (auto simp: w' links_def)
    moreover have "links_ok en w'" unfolding w' by (rule links_ok_new_entry [OF lk])
    ultimately show ?thesis using keys quiet by (auto simp: integrity_def quiet_def grown_def w')
  qed
qed

text \<open>A parent that was fetched is in its table, and a fetch changes nothing.\<close>

context resource
begin

lemma fetch_found:
  "runs (\<lambda>w. integrity en w \<and> Q w) (onErrP (fetch en i) h)
     (\<lambda>x w. integrity en w \<and> Q w \<and> (\<exists>r\<in>set (tab w). sel en i r \<and> internal x = row_internal r)) (\<lambda>_. integrity en)"
proof (rule runs_onErrP, rule runsI)
  fix w x w' assume w: "integrity en w \<and> Q w" and run: "fetch en i w = (Inr x, w')"
  then have quiet: "w_faults w = []" by (auto simp: integrity_def quiet_def)
  have "w' = w" by (rule still_eq [OF fetch_reads quiet run])
  moreover obtain r y where "filter (sel en i) (tab w) = [r]" "internal x = row_internal r"
    using fetch_row [OF quiet run] by (elim conjE exE)
  moreover from this have "r \<in> set (tab w)" "sel en i r" by (auto dest: filter_eq_ConsD)
  ultimately show "integrity en w' \<and> Q w' \<and> (\<exists>r\<in>set (tab w'). sel en i r \<and> internal x = row_internal r)"
    using w by auto
next
  fix w e w' assume w: "integrity en w \<and> Q w" and run: "fetch en i w = (Inl e, w')"
  then have "w' = w" by (intro still_eq [OF fetch_reads _ run]) (auto simp: integrity_def quiet_def)
  then show "integrity en w'" using w by auto
qed

end

definition has_parent :: "('d world \<Rightarrow> ('k \<times> string) set) \<Rightarrow> 'k \<Rightarrow> string \<Rightarrow> string \<Rightarrow> string \<Rightarrow> 'd world \<Rightarrow> bool" where
  "has_parent keys q c k pk w \<longleftrightarrow> (\<exists>p. (q, p) \<in> keys w \<and> (c, k, p, pk) \<in> links w)"

lemma has_parent_grown:
  "has_parent keys q c k pk w \<Longrightarrow> grown w w' \<Longrightarrow> keys w' = keys w \<Longrightarrow> has_parent keys q c k pk w'"
  by (auto simp: has_parent_def grown_def)

lemma runs_dependency:
  assumes fetch: "runs (\<lambda>w. integrity en w \<and> Q w) m (\<lambda>x w. integrity en w \<and> Q w \<and> (q, g x) \<in> keys w) (\<lambda>_. integrity en)"
    and keys: "\<And>w w'. grown w w' \<Longrightarrow> keys w' = keys w" and Q: "\<And>w w'. Q w \<Longrightarrow> grown w w' \<Longrightarrow> Q w'"
    and inj: "inj (e_uuid en)" and kinds: "valid_kind k" "valid_kind pk"
  shows "runs (\<lambda>w. integrity en w \<and> Q w) (bindP m (\<lambda>x. createEntryIfNone en c k (g x) pk))
    (\<lambda>_ w. integrity en w \<and> Q w \<and> has_parent keys q c k pk w) (\<lambda>_. integrity en)"
proof (rule runs_bindP [OF fetch], rule runsI)
  fix x w u w' assume w: "integrity en w \<and> Q w \<and> (q, g x) \<in> keys w"
    and run: "createEntryIfNone en c k (g x) pk w = (Inr u, w')"
  then have "integrity en w' \<and> grown w w' \<and> (c, k, g x, pk) \<in> links w'"
    using createEntryIfNone_step [OF _ inj kinds run] by auto
  then show "integrity en w' \<and> Q w' \<and> has_parent keys q c k pk w'"
    using w keys Q unfolding has_parent_def by metis
next
  fix x w e w' assume "integrity en w \<and> Q w \<and> (q, g x) \<in> keys w"
    and "createEntryIfNone en c k (g x) pk w = (Inl e, w')"
  then show "integrity en w'" using createEntryIfNone_step [OF _ inj kinds] by blast
qed

lemma grown_keys:
  "grown w w' \<Longrightarrow> application_keys w' = application_keys w" "grown w w' \<Longrightarrow> module_keys w' = module_keys w"
  "grown w w' \<Longrightarrow> user_keys w' = user_keys w"
  by (simp_all add: grown_def)

lemma kinds_valid [simp]:
  "valid_kind KindAccount" "valid_kind KindApplication" "valid_kind KindHSMModule" "valid_kind KindHSMSlot"
  "valid_kind KindUser"
  by (simp_all add: valid_kind_def)

lemma keyI:
  "r \<in> set (w_applications w) \<Longrightarrow> (ap_ID r, ap_InternalResourceID r) \<in> application_keys w"
  "m \<in> set (w_modules w) \<Longrightarrow> (hm_ID m, hm_InternalResourceID m) \<in> module_keys w"
  "v \<in> set (w_users w) \<Longrightarrow> ((us_ApplicationID v, us_ID v), us_InternalResourceID v) \<in> user_keys w"
  by (auto simp: key_defs)

lemma runs_addUser:
  assumes "inj (e_uuid en)"
  shows "runs (integrity en) (addUserToApplicationDependency en u)
    (\<lambda>_ w. integrity en w \<and> has_parent application_keys (User_ApplicationID u) (User_InternalResourceID u) KindUser KindApplication w)
    (\<lambda>_. integrity en)"
proof -
  have "runs (\<lambda>w. integrity en w \<and> True) (addUserToApplicationDependency en u)
    (\<lambda>_ w. integrity en w \<and> True \<and> has_parent application_keys (User_ApplicationID u) (User_InternalResourceID u) KindUser KindApplication w)
    (\<lambda>_. integrity en)"
    unfolding addUserToApplicationDependency_def
    by (rule runs_dependency [OF runs_conseq [OF application_resource.fetch_found] grown_keys(1) _ assms])
      (auto dest: keyI(1))
  then show ?thesis by simp
qed

lemma runs_addAccount:
  assumes "inj (e_uuid en)"
  shows "runs (integrity en) (addAccountToUserDependency en a)
    (\<lambda>_ w. integrity en w \<and> has_parent user_keys (acc_ApplicationID (Acc_AccountID a), acc_UserID (Acc_AccountID a))
      (Acc_InternalResourceID a) KindAccount KindUser w) (\<lambda>_. integrity en)"
proof -
  have "runs (\<lambda>w. integrity en w \<and> True) (addAccountToUserDependency en a)
    (\<lambda>_ w. integrity en w \<and> True \<and> has_parent user_keys (acc_ApplicationID (Acc_AccountID a), acc_UserID (Acc_AccountID a))
      (Acc_InternalResourceID a) KindAccount KindUser w) (\<lambda>_. integrity en)"
    unfolding addAccountToUserDependency_def
    by (rule runs_dependency [OF runs_conseq [OF user_resource.fetch_found
          [where i = "(acc_ApplicationID (Acc_AccountID a), acc_UserID (Acc_AccountID a))", simplified]] grown_keys(3) _ assms])
      (auto dest: keyI(3))
  then show ?thesis by simp
qed

text \<open>A slot has two parents; the second entry leaves the first.\<close>

definition slot_linked :: "string \<Rightarrow> string \<Rightarrow> string \<Rightarrow> 'd world \<Rightarrow> bool" where
  "slot_linked app hsm i w \<longleftrightarrow> has_parent application_keys app i KindHSMSlot KindApplication w \<and>
     has_parent module_keys hsm i KindHSMSlot KindHSMModule w"

lemma runs_addSlot:
  assumes "inj (e_uuid en)"
  shows "runs (integrity en) (bindP (addApplicationDependency en s) (\<lambda>_. addHSMModuleDependency en s))
    (\<lambda>_ w. integrity en w \<and> slot_linked (Slot_ApplicationID s) (Slot_HSMModuleID s) (Slot_InternalResourceID s) w)
    (\<lambda>_. integrity en)"
proof (rule runs_bindP)
  let ?app = "has_parent application_keys (Slot_ApplicationID s) (Slot_InternalResourceID s) KindHSMSlot KindApplication"
  have "runs (\<lambda>w. integrity en w \<and> True) (addApplicationDependency en s) (\<lambda>_ w. integrity en w \<and> True \<and> ?app w) (\<lambda>_. integrity en)"
    unfolding addApplicationDependency_def
    by (rule runs_dependency [OF runs_conseq [OF application_resource.fetch_found] grown_keys(1) _ assms]) (auto dest: keyI(1))
  then show "runs (integrity en) (addApplicationDependency en s) (\<lambda>_ w. integrity en w \<and> ?app w) (\<lambda>_. integrity en)" by simp
  show "runs (\<lambda>w. integrity en w \<and> ?app w) (addHSMModuleDependency en s)
      (\<lambda>_ w. integrity en w \<and> slot_linked (Slot_ApplicationID s) (Slot_HSMModuleID s) (Slot_InternalResourceID s) w) (\<lambda>_. integrity en)"
    unfolding addHSMModuleDependency_def slot_linked_def
    by (rule runs_dependency [OF runs_conseq [OF module_resource.fetch_found [where Q = ?app]] grown_keys(2) _ assms])
      (auto dest: keyI(2) has_parent_grown [OF _ _ grown_keys(1)])
qed

section \<open>Inserting children\<close>

text \<open>A new child is in the parents relation of its table and leaves the others as they are.\<close>

lemma all_linked_more:
  assumes "all_linked C k P pk L" "P \<subseteq> P'"
    and new: "\<And>q i. (q, i) \<in> C' \<Longrightarrow> (q, i) \<notin> C \<Longrightarrow> \<exists>p. (q, p) \<in> P \<and> (i, k, p, pk) \<in> L"
  shows "all_linked C' k P' pk L"
  unfolding all_linked_def
proof (clarify)
  fix q i assume "(q, i) \<in> C'"
  then have "\<exists>p. (q, p) \<in> P \<and> (i, k, p, pk) \<in> L"
    using assms(1) new unfolding all_linked_def by (cases "(q, i) \<in> C") auto
  then show "\<exists>p. (q, p) \<in> P' \<and> (i, k, p, pk) \<in> L" using assms(2) by blast
qed

lemma links_ok_child:
  assumes "links_ok en w" and same: "w_entries w' = w_entries w" "w_uuids w' = w_uuids w"
    and "application_keys w \<subseteq> application_keys w'" "module_keys w \<subseteq> module_keys w'" "user_keys w \<subseteq> user_keys w'"
    and "\<And>q i. (q, i) \<in> user_parents w' - user_parents w \<Longrightarrow> has_parent application_keys q i KindUser KindApplication w"
    and "\<And>q i. (q, i) \<in> account_parents w' - account_parents w \<Longrightarrow> has_parent user_keys q i KindAccount KindUser w"
    and "\<And>q i. (q, i) \<in> slot_applications w' - slot_applications w \<Longrightarrow> has_parent application_keys q i KindHSMSlot KindApplication w"
    and "\<And>q i. (q, i) \<in> slot_modules w' - slot_modules w \<Longrightarrow> has_parent module_keys q i KindHSMSlot KindHSMModule w"
  shows "links_ok en w'"
proof -
  have links: "links w' = links w" using same by (simp add: links_def)
  show ?thesis
    using assms(1) unfolding links_ok_def links same
    by (intro conjI; elim conjE)
      (assumption | erule all_linked_more, use assms(4-) in \<open>auto simp: has_parent_def\<close>)+
qed

lemma has_parent_simps [simp]:
  "has_parent application_keys q i k pk (w\<lparr>w_uuids := n\<rparr>) = has_parent application_keys q i k pk w"
  "has_parent module_keys q i k pk (w\<lparr>w_uuids := n\<rparr>) = has_parent module_keys q i k pk w"
  "has_parent user_keys q' i k pk (w\<lparr>w_uuids := n\<rparr>) = has_parent user_keys q' i k pk w"
  by (simp_all add: has_parent_def key_defs)

lemma integrity_uuids: "integrity en w \<Longrightarrow> integrity en (w\<lparr>w_uuids := Suc (w_uuids w)\<rparr>)"
  using keeps_integrity_draws(1) [of en en] by (auto simp: keeps_def newUUID_def)

lemma runs_newUUID:
  "(\<And>w n. Q (w\<lparr>w_uuids := n\<rparr>) = Q w) \<Longrightarrow>
     runs (\<lambda>w. integrity en w \<and> Q w) (newUUID en') (\<lambda>_ w. integrity en w \<and> Q w) E"
  by (intro runsI conjI) (auto simp: newUUID_def integrity_uuids)

lemma runs_write:
  assumes "keeps keys_ok m" "keeps quiet m"
    and "\<And>w w' r. integrity en w \<Longrightarrow> w_faults w = [] \<Longrightarrow> Q w \<Longrightarrow> m w = (r, w') \<Longrightarrow> links_ok en w'"
  shows "runs (\<lambda>w. integrity en w \<and> Q w) m (\<lambda>_. integrity en) (\<lambda>_. integrity en)"
proof -
  have "integrity en w'" if w: "integrity en w" "Q w" and run: "m w = (r, w')" for w r w'
  proof -
    have "quiet w'" "keys_ok w'"
      using w keepsD [OF assms(2) _ run] keepsD [OF assms(1) _ run] by (simp_all add: integrity_def)
    moreover have "w_faults w = []" using w by (simp add: integrity_def quiet_def)
    ultimately show ?thesis using assms(3) [OF w(1) _ w(2) run] by (simp add: integrity_def)
  qed
  then show ?thesis by (intro runsI) blast+
qed

lemma runs_insert_user:
  "runs (\<lambda>w. integrity en w \<and> has_parent application_keys (us_ApplicationID r) (us_InternalResourceID r) KindUser KindApplication w)
     (sql_insert w_users put_users user_clash r) (\<lambda>_. integrity en) (\<lambda>_. integrity en)"
  by (rule runs_write [OF keeps_keys_users(1) keeps_quiet_writes(1)])
    (auto simp: quiet_simps integrity_def key_defs split: if_splits elim!: links_ok_child)

lemma runs_insert_account:
  "runs (\<lambda>w. integrity en w \<and>
      has_parent user_keys (ac_ApplicationID r, ac_UserID r) (ac_InternalResourceID r) KindAccount KindUser w)
     (sql_insert w_accounts put_accounts account_clash r) (\<lambda>_. integrity en) (\<lambda>_. integrity en)"
  by (rule runs_write [OF keeps_keys_accounts(1) keeps_quiet_writes(1)])
    (auto simp: quiet_simps integrity_def key_defs split: if_splits elim!: links_ok_child)

lemma runs_insert_slot:
  "runs (\<lambda>w. integrity en w \<and> slot_linked (sl_ApplicationID r) (sl_HSMModuleID r) (sl_InternalResourceID r) w)
     (sql_insert w_slots put_slots slot_clash r) (\<lambda>_. integrity en) (\<lambda>_. integrity en)"
  by (rule runs_write [OF keeps_keys_slots(1) keeps_quiet_writes(1)])
    (auto simp: quiet_simps integrity_def slot_linked_def key_defs split: if_splits elim!: links_ok_child)

text \<open>The additions of the repositories.\<close>

lemma runs_user_Add:
  "runs (\<lambda>w. integrity en w \<and>
      has_parent application_keys (User_ApplicationID u) (User_InternalResourceID u) KindUser KindApplication w)
     (user_Add en u) (\<lambda>_. integrity en) (\<lambda>_. integrity en)"
  unfolding user_Add_def user_infra_Add_def
proof (intro runs_bindP runs_onErrP)
  show "runs (\<lambda>w. integrity en w \<and>
      has_parent application_keys (User_ApplicationID u) (User_InternalResourceID u) KindUser KindApplication w)
    (liftP (user_mapToCreateDB u)) (\<lambda>db w. integrity en w \<and>
      has_parent application_keys (us_ApplicationID db) (us_InternalResourceID db) KindUser KindApplication w) (\<lambda>_. integrity en)"
    by (rule runs_liftP) (auto simp: user_mapToCreateDB_def split: if_splits)
  fix db :: UserDB
  show "runs (\<lambda>w. integrity en w \<and>
      has_parent application_keys (us_ApplicationID db) (us_InternalResourceID db) KindUser KindApplication w) (newUUID en)
    (\<lambda>_ w. integrity en w \<and>
      has_parent application_keys (us_ApplicationID db) (us_InternalResourceID db) KindUser KindApplication w) (\<lambda>_. integrity en)"
    by (rule runs_newUUID) simp
  fix version
  show "runs (\<lambda>w. integrity en w \<and>
      has_parent application_keys (us_ApplicationID db) (us_InternalResourceID db) KindUser KindApplication w)
    (sql_insert w_users put_users user_clash (db\<lparr>us_ResourceVersion := version\<rparr>)) (\<lambda>_. integrity en) (\<lambda>_. integrity en)"
    using runs_insert_user [of en "db\<lparr>us_ResourceVersion := version\<rparr>"] by simp
qed (rule keeps_runs [THEN iffD1]; (unfold user_infra_Get_def)?; intro keeps_intros)+

lemma runs_account_Add:
  "runs (\<lambda>w. integrity en w \<and> has_parent user_keys (acc_ApplicationID (Acc_AccountID a), acc_UserID (Acc_AccountID a))
      (Acc_InternalResourceID a) KindAccount KindUser w)
     (account_Add en a) (\<lambda>_. integrity en) (\<lambda>_. integrity en)"
  unfolding account_Add_def account_infra_Add_def
proof (intro runs_bindP runs_onErrP)
  show "runs (\<lambda>w. integrity en w \<and> has_parent user_keys (acc_ApplicationID (Acc_AccountID a), acc_UserID (Acc_AccountID a))
      (Acc_InternalResourceID a) KindAccount KindUser w)
    (liftP (account_mapToCreateDB (e_keccak en) a)) (\<lambda>db w. integrity en w \<and>
      has_parent user_keys (ac_ApplicationID db, ac_UserID db) (ac_InternalResourceID db) KindAccount KindUser w) (\<lambda>_. integrity en)"
    by (rule runs_liftP) (auto simp: account_mapToCreateDB_def Let_def split: if_splits)
  fix db
  show "runs (\<lambda>w. integrity en w \<and>
      has_parent user_keys (ac_ApplicationID db, ac_UserID db) (ac_InternalResourceID db) KindAccount KindUser w)
    (sql_insert w_accounts put_accounts account_clash db) (\<lambda>_. integrity en) (\<lambda>_. integrity en)"
    by (rule runs_insert_account)
qed (rule keeps_runs [THEN iffD1]; (unfold account_infra_Get_def)?; intro keeps_intros)+

lemma slot_linked_uuids [simp]: "slot_linked app hsm i (w\<lparr>w_uuids := n\<rparr>) = slot_linked app hsm i w"
  by (simp add: slot_linked_def)

lemma runs_slot_Add:
  "runs (\<lambda>w. integrity en w \<and> slot_linked (Slot_ApplicationID s) (Slot_HSMModuleID s) (Slot_InternalResourceID s) w)
     (slot_Add en s) (\<lambda>_. integrity en) (\<lambda>_. integrity en)"
  unfolding slot_Add_def slot_infra_Add_def
proof (intro runs_bindP runs_onErrP)
  show "runs (\<lambda>w. integrity en w \<and> slot_linked (Slot_ApplicationID s) (Slot_HSMModuleID s) (Slot_InternalResourceID s) w)
    (liftP (slot_mapToCreateDB (e_keccak en) s)) (\<lambda>db w. integrity en w \<and>
      slot_linked (sl_ApplicationID db) (sl_HSMModuleID db) (sl_InternalResourceID db) w) (\<lambda>_. integrity en)"
    by (rule runs_liftP) (auto simp: slot_mapToCreateDB_def split: if_splits)
  fix db :: HSMSlotDB
  show "runs (\<lambda>w. integrity en w \<and> slot_linked (sl_ApplicationID db) (sl_HSMModuleID db) (sl_InternalResourceID db) w)
    (newUUID en) (\<lambda>_ w. integrity en w \<and>
      slot_linked (sl_ApplicationID db) (sl_HSMModuleID db) (sl_InternalResourceID db) w) (\<lambda>_. integrity en)"
    by (rule runs_newUUID) simp
  fix version
  show "runs (\<lambda>w. integrity en w \<and> slot_linked (sl_ApplicationID db) (sl_HSMModuleID db) (sl_InternalResourceID db) w)
    (sql_insert w_slots put_slots slot_clash (db\<lparr>sl_ResourceVersion := version\<rparr>)) (\<lambda>_. integrity en) (\<lambda>_. integrity en)"
    using runs_insert_slot [of en "db\<lparr>sl_ResourceVersion := version\<rparr>"] by simp
qed (rule keeps_runs [THEN iffD1]; (unfold slot_infra_Get_def)?; intro keeps_intros)+

section \<open>The operations\<close>

lemma keeps_integrity_still:
  "(\<And>w0. keeps (still w0) m) \<Longrightarrow> keeps (integrity en) m"
  by (rule keeps_reads) (auto simp: integrity_def)

lemma keeps_integrity_fetches [keeps_intros]:
  "keeps (integrity en) (GetApplication en' i)" "keeps (integrity en) (GetHSMModule en' i)" "keeps (integrity en) (GetHSMSlot en' i)"
  "keeps (integrity en) (GetUser en' app i)" "keeps (integrity en) (GetAccount en' ai)" "keeps (integrity en) (user_Get app i)"
  "keeps (integrity en) (account_All af)" "keeps (integrity en) (accounts_of en' app i)" "keeps (integrity en) (slot_Get i)"
  "keeps (integrity en) (assigned_module en' sl)" "keeps (integrity en) (local_slot en' i what)"
  "keeps (integrity en) (ListLocalKeys en' i)" "keeps (integrity en) (ByApplication en' i)"
  by (intro keeps_integrity_still keeps_intros)+

lemma keeps_integrity_applications [keeps_intros]:
  "keeps (integrity en) (CreateApplication en ci)" "keeps (integrity en) (EditApplication en ei)"
  unfolding CreateApplication_def createToApplication_def application_Add_def application_infra_Add_def
    application_infra_Get_def application_Get_def EditApplication_def mapEditedValues_def
    application_Edit_def application_infra_Edit_def application_infra_Exists_def Let_def
  by (intro keeps_intros; simp)+

lemma keeps_integrity_modules [keeps_intros]:
  "keeps (integrity en) (CreateHSMModule en ci)" "keeps (integrity en) (EditHSMModule en ei)"
  unfolding CreateHSMModule_def module_Add_def module_infra_Add_def module_infra_Get_def
    module_Get_def EditHSMModule_def module_Edit_def module_infra_Edit_def module_infra_Exists_def
  by (intro keeps_intros; simp)+

lemma keeps_integrity_slot_edits [keeps_intros]:
  "keeps (integrity en) (slot_EditPin en sl)" "keeps (integrity en) (slot_EditConfig en sl)"
  "keeps (integrity en) (EditPin en cn pi)" "keeps (integrity en) (EditConfig en ei)"
  "keeps (integrity en) (AddLocalKey en ai)" "keeps (integrity en) (RemoveLocalKey en ri)"
  unfolding slot_EditPin_def slot_EditConfig_def slot_infra_EditPin_def slot_infra_EditConfig_def
    slot_infra_Exists_def EditPin_def EditConfig_def AddLocalKey_def RemoveLocalKey_def Let_def
  by (intro keeps_intros; simp)+

lemma keeps_roles [keeps_intros]: "keeps P (validateApplicationScopedRoles en roles)"
  by (induction roles) (auto intro!: keeps_intros split: option.splits)

lemma keeps_integrity_EditUser [keeps_intros]: "keeps (integrity en) (EditUser en ei)"
  unfolding EditUser_def user_Edit_def user_infra_Edit_def user_infra_Exists_def
  by (intro keeps_intros; simp)

lemma keeps_integrity_DeleteAllAccountsForAddress [keeps_intros]:
  "keeps (integrity en) (DeleteAllAccountsForAddress en cn app addr)"
  unfolding DeleteAllAccountsForAddress_def account_RemoveAllForAddress_def account_infra_RemoveAllForAddress_def
  by (intro keeps_intros)

lemma bindP_assoc: "bindP (bindP m f) g = bindP m (\<lambda>x. bindP (f x) g)"
  by (rule ext) (auto simp: bindP_def split: prod.splits sum.splits)

text \<open>Creating a child: its entry, then its row.\<close>

lemma keeps_integrity_creations:
  assumes inj: "inj (e_uuid en)"
  shows "keeps (integrity en) (CreateUser en ui)" "keeps (integrity en) (CreateAccount en ai)"
    "keeps (integrity en) (CreateHSMSlot en cn ci)"
proof -
  have user: "keeps (integrity en) (bindP (addUserToApplicationDependency en u) (\<lambda>_. bindP (onErrP (user_Add en u) h) (\<lambda>x. returnP (f x))))" for u h f
    unfolding keeps_runs
    by (rule runs_bindP [OF runs_addUser [OF inj]], rule runs_bindP [OF runs_onErrP [OF runs_user_Add]], rule runs_returnP)
  have acct: "keeps (integrity en) (bindP (addAccountToUserDependency en a) (\<lambda>_. onErrP (account_Add en a) h))" for a h
    unfolding keeps_runs
    by (rule runs_bindP [OF runs_addAccount [OF inj]], rule runs_onErrP [OF runs_account_Add])
  have "keeps (integrity en) (bindP (bindP (addApplicationDependency en s) (\<lambda>_. addHSMModuleDependency en s)) (\<lambda>_. onErrP (slot_Add en s) h))" for s h
    unfolding keeps_runs
    by (rule runs_bindP [OF runs_addSlot [OF inj]], rule runs_onErrP [OF runs_slot_Add])
  then have slot: "keeps (integrity en) (bindP (addApplicationDependency en s) (\<lambda>_. bindP (addHSMModuleDependency en s) (\<lambda>_. onErrP (slot_Add en s) h)))" for s h
    unfolding bindP_assoc .
  show "keeps (integrity en) (CreateUser en ui)" unfolding CreateUser_def Let_def by (intro user keeps_intros)
  show "keeps (integrity en) (CreateAccount en ai)" unfolding CreateAccount_def Let_def by (intro acct keeps_intros)
  show "keeps (integrity en) (CreateHSMSlot en cn ci)" unfolding CreateHSMSlot_def createSlot_def Let_def
    by (intro slot keeps_intros)
qed

lemma keeps_integrity_EnableAccounts:
  assumes inj: "inj (e_uuid en)"
  shows "keeps (integrity en) (EnableAccounts en cn app user addrs)"
proof -
  have "keeps (integrity en) (create_accounts en app user as)" for as
    by (induction as) (auto intro!: keeps_intros keeps_integrity_creations [OF inj])
  moreover have "keeps (integrity en) (addressesBackedByModule en cn conn)" for conn
    unfolding addressesBackedByModule_def by (intro keeps_intros)
  ultimately show ?thesis unfolding EnableAccounts_def by (intro keeps_intros)
qed

section \<open>Deletions\<close>

context table
begin

text \<open>After the removal of one row, the others are there, and none has a key of the removed one.\<close>

lemma survivors:
  assumes "distinct_rows clash rows" and "filter sel rows = [r]" and "\<And>x. internal x = internal r \<Longrightarrow> clash x r"
  shows "internal r \<notin> internal ` set (filter (\<lambda>x. \<not> sel x) rows)"
    and "x \<in> set rows \<Longrightarrow> internal x \<noteq> internal r \<Longrightarrow> x \<in> set (filter (\<lambda>x. \<not> sel x) rows)"
proof -
  have r: "r \<in> set rows" "sel r" using assms(2) by (auto dest: filter_eq_ConsD)
  show "internal r \<notin> internal ` set (filter (\<lambda>x. \<not> sel x) rows)"
  proof
    assume "internal r \<in> internal ` set (filter (\<lambda>x. \<not> sel x) rows)"
    then obtain x where "x \<in> set rows" "\<not> sel x" "internal x = internal r" by auto
    then have "x = r" using distinct_clash [OF assms(1) _ r(1)] assms(3) by blast
    then show False using \<open>\<not> sel x\<close> r(2) by simp
  qed
  assume "x \<in> set rows" "internal x \<noteq> internal r"
  moreover have "x \<in> set (filter sel rows) \<Longrightarrow> x = r" using assms(2) by simp
  ultimately show "x \<in> set (filter (\<lambda>x. \<not> sel x) rows)" by auto
qed

end

lemma links_ok_remove:
  assumes "links_ok en w" and none: "\<forall>e\<in>set (w_entries w). \<not> depends_on i k e"
    and ents: "w_entries w' = filter (\<lambda>e. \<not> entry_of i k e) (w_entries w)" and uuids: "w_uuids w' = w_uuids w"
    and "user_parents w' \<subseteq> user_parents w" "account_parents w' \<subseteq> account_parents w"
    and "slot_applications w' \<subseteq> slot_applications w" "slot_modules w' \<subseteq> slot_modules w"
    and "\<And>q p. (q, p) \<in> application_keys w \<Longrightarrow> KindApplication \<noteq> k \<or> p \<noteq> i \<Longrightarrow> (q, p) \<in> application_keys w'"
    and "\<And>q p. (q, p) \<in> module_keys w \<Longrightarrow> KindHSMModule \<noteq> k \<or> p \<noteq> i \<Longrightarrow> (q, p) \<in> module_keys w'"
    and "\<And>q p. (q, p) \<in> user_keys w \<Longrightarrow> KindUser \<noteq> k \<or> p \<noteq> i \<Longrightarrow> (q, p) \<in> user_keys w'"
    and "KindUser = k \<Longrightarrow> i \<notin> snd ` user_parents w'" and "KindAccount = k \<Longrightarrow> i \<notin> snd ` account_parents w'"
    and "KindHSMSlot = k \<Longrightarrow> i \<notin> snd ` slot_applications w'" and "KindHSMSlot = k \<Longrightarrow> i \<notin> snd ` slot_modules w'"
  shows "links_ok en w'"
  using assms(1) unfolding links_ok_def
  by (intro conjI; elim conjE)
    (simp add: ents uuids |
     erule all_linked_remove [OF _ links_none [OF none] assms(5) assms(12) assms(9) links_removed [OF ents]]
       all_linked_remove [OF _ links_none [OF none] assms(6) assms(13) assms(11) links_removed [OF ents]]
       all_linked_remove [OF _ links_none [OF none] assms(7) assms(14) assms(9) links_removed [OF ents]]
       all_linked_remove [OF _ links_none [OF none] assms(8) assms(15) assms(10) links_removed [OF ents]])+

lemma kinds_distinct [simp]:
  "KindApplication \<noteq> KindUser" "KindApplication \<noteq> KindAccount" "KindApplication \<noteq> KindHSMSlot" "KindApplication \<noteq> KindHSMModule"
  "KindUser \<noteq> KindApplication" "KindUser \<noteq> KindAccount" "KindUser \<noteq> KindHSMSlot" "KindUser \<noteq> KindHSMModule"
  "KindAccount \<noteq> KindApplication" "KindAccount \<noteq> KindUser" "KindAccount \<noteq> KindHSMSlot" "KindAccount \<noteq> KindHSMModule"
  "KindHSMSlot \<noteq> KindApplication" "KindHSMSlot \<noteq> KindUser" "KindHSMSlot \<noteq> KindAccount" "KindHSMSlot \<noteq> KindHSMModule"
  "KindHSMModule \<noteq> KindApplication" "KindHSMModule \<noteq> KindUser" "KindHSMModule \<noteq> KindAccount" "KindHSMModule \<noteq> KindHSMSlot"
  by (simp_all add: kind_defs)

context resource
begin

text \<open>What remains to be shown of a deletion: that a world without the row and its entries is linked.\<close>

lemma keeps_integrity_delete:
  assumes keys: "keeps keys_ok (delete en i)"
    and step: "\<And>w r. integrity en' w \<Longrightarrow> filter (sel en i) (tab w) = [r] \<Longrightarrow>
      \<forall>e\<in>set (w_entries w). \<not> depends_on (row_internal r) kind e \<Longrightarrow>
      links_ok en' (put (filter (\<lambda>r. \<not> sel en i r) (tab w))
        (put_entries (filter (\<lambda>e. \<not> entry_of (row_internal r) kind e) (w_entries w)) w))"
  shows "keeps (integrity en') (delete en i)"
proof (rule keeps_integrity_write [OF keys])
  show "keeps quiet (delete en i)"
    unfolding keeps_def
  proof (intro allI impI)
    fix w :: "'d world" assume "quiet w"
    then show "quiet (snd (delete en i w))"
      using delete_cases [of w en i "fst (delete en i w)" "snd (delete en i w)"]
      by (auto simp: quiet_def put_faults)
  qed
  fix w w' :: "'d world" and res
  assume w: "integrity en' w" and run: "delete en i w = (res, w')"
  then have "w_faults w = []" by (simp add: integrity_def quiet_def)
  from delete_cases [OF this run] show "links_ok en' w'"
    using w step by (auto simp: integrity_def)
qed

end

lemma distinct_of_integrity:
  assumes "integrity en w"
  shows "links_ok en w" "distinct_rows application_clash (w_applications w)" "distinct_rows user_clash (w_users w)"
    "distinct_rows account_clash (w_accounts w)" "distinct_rows module_clash (w_modules w)"
    "distinct_rows slot_clash (w_slots w)"
  using assms by (simp_all add: integrity_def keys_ok_def)

lemma keeps_integrity_deletions [keeps_intros]:
  "keeps (integrity en :: 'd world \<Rightarrow> bool) (DeleteApplication en' ident)" "keeps (integrity en :: 'd world \<Rightarrow> bool) (DeleteHSMModule en' ident)"
  "keeps (integrity en :: 'd world \<Rightarrow> bool) (DeleteHSMSlot en' ident)"
proof -
  show "keeps (integrity en :: 'd world \<Rightarrow> bool) (DeleteApplication en' ident)"
  proof (rule application_resource.keeps_integrity_delete [OF keeps_keys_application_use_cases(4)])
    fix w :: "'d world" and r
    assume i: "integrity en w" and r: "filter (\<lambda>r. ap_ID r = ident) (w_applications w) = [r]"
      and none: "\<forall>e\<in>set (w_entries w). \<not> depends_on (ap_InternalResourceID r) KindApplication e"
    note left = applications.survivors [OF distinct_of_integrity(2) [OF i] r, of ap_InternalResourceID]
    show "links_ok en (put_applications (filter (\<lambda>r. ap_ID r \<noteq> ident) (w_applications w))
        (put_entries (filter (\<lambda>e. \<not> entry_of (ap_InternalResourceID r) KindApplication e) (w_entries w)) w))"
      by (rule links_ok_remove [OF distinct_of_integrity(1) [OF i] none])
        (use left in \<open>auto simp: key_defs application_clash_def\<close>)
  qed
  show "keeps (integrity en :: 'd world \<Rightarrow> bool) (DeleteHSMModule en' ident)"
  proof (rule module_resource.keeps_integrity_delete [OF keeps_keys_module_use_cases(4)])
    fix w :: "'d world" and r
    assume i: "integrity en w" and r: "filter (\<lambda>r. hm_ID r = ident) (w_modules w) = [r]"
      and none: "\<forall>e\<in>set (w_entries w). \<not> depends_on (hm_InternalResourceID r) KindHSMModule e"
    note left = modules.survivors [OF distinct_of_integrity(5) [OF i] r, of hm_InternalResourceID]
    show "links_ok en (put_modules (filter (\<lambda>r. hm_ID r \<noteq> ident) (w_modules w))
        (put_entries (filter (\<lambda>e. \<not> entry_of (hm_InternalResourceID r) KindHSMModule e) (w_entries w)) w))"
      by (rule links_ok_remove [OF distinct_of_integrity(1) [OF i] none])
        (use left in \<open>auto simp: key_defs module_clash_def\<close>)
  qed
  show "keeps (integrity en :: 'd world \<Rightarrow> bool) (DeleteHSMSlot en' ident)"
  proof (rule slot_resource.keeps_integrity_delete [OF keeps_keys_slot_use_cases(4)])
    fix w :: "'d world" and r
    assume i: "integrity en w" and r: "filter (\<lambda>r. sl_ID r = ident) (w_slots w) = [r]"
      and none: "\<forall>e\<in>set (w_entries w). \<not> depends_on (sl_InternalResourceID r) KindHSMSlot e"
    note left = slots.survivors [OF distinct_of_integrity(6) [OF i] r, of sl_InternalResourceID]
    show "links_ok en (put_slots (filter (\<lambda>r. sl_ID r \<noteq> ident) (w_slots w))
        (put_entries (filter (\<lambda>e. \<not> entry_of (sl_InternalResourceID r) KindHSMSlot e) (w_entries w)) w))"
      by (rule links_ok_remove [OF distinct_of_integrity(1) [OF i] none])
        (use left in \<open>auto simp: key_defs slot_clash_def\<close>)
  qed
qed

lemma keeps_keys_user_use_cases [keeps_intros]:
  "keeps keys_ok (GetUser en app ident)" "keeps keys_ok (GetAccount en ai)"
  "keeps keys_ok (DeleteUser en app ident)" "keeps keys_ok (DeleteAccount en ai)"
  unfolding GetUser_def GetAccount_def DeleteUser_def DeleteAccount_def removeAllUserDependencies_def
    removeAllAccountDependencies_def removeEntries_def user_Remove_def account_Remove_def user_infra_Remove_def
    account_infra_Remove_def user_Get_def user_infra_Get_def account_Get_def account_infra_Get_def accounts_of_def
    ListAccounts_def account_All_def account_infra_List_def Let_def
  by (intro keeps_intros)+

lemma keeps_integrity_user_deletions [keeps_intros]:
  "keeps (integrity en :: 'd world \<Rightarrow> bool) (DeleteUser en' app ident)" "keeps (integrity en :: 'd world \<Rightarrow> bool) (DeleteAccount en' ai)"
proof -
  show "keeps (integrity en :: 'd world \<Rightarrow> bool) (DeleteUser en' app ident)"
  proof (rule user_resource.keeps_integrity_delete [where i = "(app, ident)", simplified, OF keeps_keys_user_use_cases(3)])
    fix w :: "'d world" and r
    assume i: "integrity en w" and r: "filter (\<lambda>r. us_ApplicationID r = app \<and> us_ID r = ident) (w_users w) = [r]"
      and none: "\<forall>e\<in>set (w_entries w). \<not> depends_on (us_InternalResourceID r) KindUser e"
    note left = users.survivors [OF distinct_of_integrity(3) [OF i] r, of us_InternalResourceID]
    show "links_ok en (put_users (filter (\<lambda>r. us_ApplicationID r = app \<longrightarrow> us_ID r \<noteq> ident) (w_users w))
        (put_entries (filter (\<lambda>e. \<not> entry_of (us_InternalResourceID r) KindUser e) (w_entries w)) w))"
      by (rule links_ok_remove [OF distinct_of_integrity(1) [OF i] none])
        (use left in \<open>auto simp: key_defs user_clash_def\<close>)
  qed
  show "keeps (integrity en :: 'd world \<Rightarrow> bool) (DeleteAccount en' ai)"
  proof (rule account_resource.keeps_integrity_delete [OF keeps_keys_user_use_cases(4)])
    fix w :: "'d world" and r
    assume i: "integrity en w" and r: "filter (account_row en' ai) (w_accounts w) = [r]"
      and none: "\<forall>e\<in>set (w_entries w). \<not> depends_on (ac_InternalResourceID r) KindAccount e"
    note left = accounts.survivors [OF distinct_of_integrity(4) [OF i] r, of ac_InternalResourceID]
    show "links_ok en (put_accounts (filter (\<lambda>r. \<not> account_row en' ai r) (w_accounts w))
        (put_entries (filter (\<lambda>e. \<not> entry_of (ac_InternalResourceID r) KindAccount e) (w_entries w)) w))"
      by (rule links_ok_remove [OF distinct_of_integrity(1) [OF i] none])
        (use left in \<open>auto simp: key_defs account_clash_def\<close>)
  qed
qed

lemma keeps_integrity_DisableAccount [keeps_intros]: "keeps (integrity en) (DisableAccount en' app user addr)"
  unfolding DisableAccount_def by (intro keeps_intros)

section \<open>The operations as steps\<close>

text \<open>
  One rule per operation of the use cases that writes.  A step carries its result, so that the rules
  say of every run, also of one that fails, where it ends.
\<close>

inductive api_step :: "env \<Rightarrow> 'd connector \<Rightarrow> 'd world \<Rightarrow> 'd world \<Rightarrow> bool" for en cn where
  create_application: "CreateApplication en ca w = (ra, w') \<Longrightarrow> api_step en cn w w'"
| edit_application: "EditApplication en ea w = (ra, w') \<Longrightarrow> api_step en cn w w'"
| delete_application: "DeleteApplication en ident w = (ra, w') \<Longrightarrow> api_step en cn w w'"
| create_module: "CreateHSMModule en cm w = (rm, w') \<Longrightarrow> api_step en cn w w'"
| edit_module: "EditHSMModule en em w = (rm, w') \<Longrightarrow> api_step en cn w w'"
| delete_module: "DeleteHSMModule en ident w = (rm, w') \<Longrightarrow> api_step en cn w w'"
| create_slot: "CreateHSMSlot en cn cs w = (rs, w') \<Longrightarrow> api_step en cn w w'"
| edit_pin: "EditPin en cn ep w = (rs, w') \<Longrightarrow> api_step en cn w w'"
| edit_config: "EditConfig en ec w = (rs, w') \<Longrightarrow> api_step en cn w w'"
| delete_slot: "DeleteHSMSlot en ident w = (rs, w') \<Longrightarrow> api_step en cn w w'"
| add_local_key: "AddLocalKey en ak w = (ru, w') \<Longrightarrow> api_step en cn w w'"
| remove_local_key: "RemoveLocalKey en rk w = (ru, w') \<Longrightarrow> api_step en cn w w'"
| create_user: "CreateUser en cu w = (rv, w') \<Longrightarrow> api_step en cn w w'"
| edit_user: "EditUser en eu w = (rv, w') \<Longrightarrow> api_step en cn w w'"
| delete_user: "DeleteUser en app ident w = (rv, w') \<Longrightarrow> api_step en cn w w'"
| enable_accounts: "EnableAccounts en cn app user addrs w = (rv, w') \<Longrightarrow> api_step en cn w w'"
| disable_account: "DisableAccount en app user addr w = (rv, w') \<Longrightarrow> api_step en cn w w'"
| create_account: "CreateAccount en ai w = (rc, w') \<Longrightarrow> api_step en cn w w'"
| delete_account: "DeleteAccount en ai w = (rc, w') \<Longrightarrow> api_step en cn w w'"
| delete_accounts: "DeleteAllAccountsForAddress en cn app addr w = (rl, w') \<Longrightarrow> api_step en cn w w'"

text \<open>An invariant of all operations is one of all steps.\<close>

lemma api_step_keeps:
  assumes "api_step en cn w w'" and "P w"
    and "\<And>x. keeps P (CreateApplication en x)" "\<And>x. keeps P (EditApplication en x)" "\<And>x. keeps P (DeleteApplication en x)"
    and "\<And>x. keeps P (CreateHSMModule en x)" "\<And>x. keeps P (EditHSMModule en x)" "\<And>x. keeps P (DeleteHSMModule en x)"
    and "\<And>x. keeps P (CreateHSMSlot en cn x)" "\<And>x. keeps P (EditPin en cn x)" "\<And>x. keeps P (EditConfig en x)"
    and "\<And>x. keeps P (DeleteHSMSlot en x)" "\<And>x. keeps P (AddLocalKey en x)" "\<And>x. keeps P (RemoveLocalKey en x)"
    and "\<And>x. keeps P (CreateUser en x)" "\<And>x. keeps P (EditUser en x)" "\<And>a x. keeps P (DeleteUser en a x)"
    and "\<And>a x as. keeps P (EnableAccounts en cn a x as)" "\<And>a x as. keeps P (DisableAccount en a x as)"
    and "\<And>x. keeps P (CreateAccount en x)" "\<And>x. keeps P (DeleteAccount en x)"
    and "\<And>a x. keeps P (DeleteAllAccountsForAddress en cn a x)"
  shows "P w'"
  using assms(1, 2)
  by cases (use keepsD assms(3-) in metis)+

definition reachable :: "env \<Rightarrow> 'd connector \<Rightarrow> 'd \<Rightarrow> 'd world \<Rightarrow> bool" where
  "reachable en cn dev w \<longleftrightarrow> (api_step en cn)\<^sup>*\<^sup>* (empty_world dev) w"

lemma reachable_invariant:
  assumes "reachable en cn dev w" and "P (empty_world dev)"
    and step: "\<And>w w'. api_step en cn w w' \<Longrightarrow> P w \<Longrightarrow> P w'"
  shows "P w"
  using assms(1) unfolding reachable_def
  by (induction rule: rtranclp_induct) (auto intro: assms(2) step)

lemma reachable_integrity:
  assumes "reachable en cn dev w" and inj: "inj (e_uuid en)"
  shows "integrity en w"
  using assms(1)
proof (rule reachable_invariant)
  show "integrity en (empty_world dev)"
    by (simp add: integrity_def quiet_def keys_ok_def distinct_rows_def links_ok_def all_linked_def empty_world_def key_defs)
  fix w w' :: "'a world"
  assume "api_step en cn w w'" "integrity en w"
  then show "integrity en w'"
    by (rule api_step_keeps)
      (intro keeps_intros keeps_integrity_creations [OF inj] keeps_integrity_EnableAccounts [OF inj])+
qed

end
