(* ===== verification/Transactions.thy ===== *)
theory Transactions
  imports Integrity Application_Laws
begin

text \<open>
  Transactions: \<open>app/pkg/usecases/transactionalmanager/transactional_manager_usecase.go\<close>, the part of
  \<open>app/pkg/commons/persistence/sql/sql_fw.go\<close> that begins and ends a transaction, its adapter
  \<open>transactionaldb_output_adapter.go\<close>, and the decorators \<open>hsm_slot_usecase_transactional_decorator.go\<close> and
  \<open>hsm_module_usecase_transactional_decorator.go\<close>.  The theorems show that a transaction is all or
  nothing, whatever its function does and even when it panics, that decorating twice is decorating
  once, and where a nested call loses a panic.
\<close>

section \<open>The connection and its transaction\<close>

text \<open>
  A context says whether it carries a transaction and a registry of callbacks.  A session is one
  connection: the tables its statements see, the tables at the begin of a transaction that is still
  open, and the callbacks registered so far, which \<open>call\<close> interprets.  A function returns a response
  and an error, each of which may be nil, or panics.
\<close>

record go_context =
  cx_Tx :: bool
  cx_Holder :: bool

record ('d, 'c) session =
  se_World :: "'d world"
  se_Begun :: "'d world option"
  se_Callbacks :: "'c list"

datatype 'a outcome = Returned "'a option" "go_error option" | Panicked

type_synonym ('d, 'c, 'a) code = "go_context \<Rightarrow> ('d, 'c) session \<Rightarrow> 'a outcome \<times> ('d, 'c) session"

text \<open>The world with the tables of another: only the database goes back.\<close>

definition restored :: "'d world \<Rightarrow> 'd world \<Rightarrow> 'd world" where
  "restored w0 w =
     w\<lparr>w_applications := w_applications w0, w_users := w_users w0, w_accounts := w_accounts w0,
       w_modules := w_modules w0, w_slots := w_slots w0, w_admins := w_admins w0, w_entries := w_entries w0\<rparr>"

definition fw_BeginTransaction ::
    "go_context \<Rightarrow> ('d, 'c) session \<Rightarrow> (go_error + go_context) \<times> ('d, 'c) session" where
  "fw_BeginTransaction cx s =
     (if cx_Tx cx then (Inl ps_NewCanNotBeginTransactionError, s)
      else case run_statement (se_World s) of
          (Inl _, w) \<Rightarrow> (Inl ps_NewCanNotBeginTransactionError, s\<lparr>se_World := w\<rparr>)
        | (Inr _, w) \<Rightarrow> (Inr (cx\<lparr>cx_Tx := True\<rparr>), s\<lparr>se_World := w, se_Begun := Some w\<rparr>))"

text \<open>
  A rollback or a commit of a transaction that has ended is an error.  A rollback that fails commits
  nothing, and the changes of a transaction whose commit fails are to be taken as discarded.
\<close>

definition fw_RollbackTransaction ::
    "go_context \<Rightarrow> ('d, 'c) session \<Rightarrow> go_error option \<times> ('d, 'c) session" where
  "fw_RollbackTransaction cx s =
     (if \<not> cx_Tx cx then (Some ps_NewCanNotRollbackTransactionError, s)
      else case se_Begun s of
          None \<Rightarrow> (Some ps_NewCanNotRollbackTransactionError, s)
        | Some w0 \<Rightarrow>
            (case run_statement (se_World s) of
               (Inl _, w) \<Rightarrow> (Some ps_NewCanNotRollbackTransactionError, s\<lparr>se_World := restored w0 w, se_Begun := None\<rparr>)
             | (Inr _, w) \<Rightarrow> (None, s\<lparr>se_World := restored w0 w, se_Begun := None\<rparr>)))"

definition fw_CommitTransaction ::
    "go_context \<Rightarrow> ('d, 'c) session \<Rightarrow> go_error option \<times> ('d, 'c) session" where
  "fw_CommitTransaction cx s =
     (if \<not> cx_Tx cx then (Some ps_NewCanNotCommitTransactionError, s)
      else case se_Begun s of
          None \<Rightarrow> (Some ps_NewCanNotCommitTransactionError, s)
        | Some w0 \<Rightarrow>
            (case run_statement (se_World s) of
               (Inl _, w) \<Rightarrow> (Some ps_NewCanNotCommitTransactionError, s\<lparr>se_World := restored w0 w, se_Begun := None\<rparr>)
             | (Inr _, w) \<Rightarrow> (None, s\<lparr>se_World := w, se_Begun := None\<rparr>)))"

definition fw_GetTransaction :: "go_context \<Rightarrow> go_error + unit" where
  "fw_GetTransaction cx = (if cx_Tx cx then Inr () else Inl ps_NewTxNotInContextError)"

text \<open>The output adapter turns every error of the framework into an internal one.\<close>

definition BeginTransaction ::
    "go_context \<Rightarrow> ('d, 'c) session \<Rightarrow> (go_error + go_context) \<times> ('d, 'c) session" where
  "BeginTransaction cx s =
     (case fw_BeginTransaction cx s of
        (Inl err, s') \<Rightarrow> (Inl (InternalFromErr err), s')
      | (Inr txCtx, s') \<Rightarrow> (Inr txCtx, s'))"

definition RollbackTransaction ::
    "go_context \<Rightarrow> ('d, 'c) session \<Rightarrow> go_error option \<times> ('d, 'c) session" where
  "RollbackTransaction cx s =
     (case fw_RollbackTransaction cx s of
        (Some err, s') \<Rightarrow> (Some (InternalFromErr err), s')
      | (None, s') \<Rightarrow> (None, s'))"

definition CommitTransaction ::
    "go_context \<Rightarrow> ('d, 'c) session \<Rightarrow> go_error option \<times> ('d, 'c) session" where
  "CommitTransaction cx s =
     (case fw_CommitTransaction cx s of
        (Some err, s') \<Rightarrow> (Some (InternalFromErr err), s')
      | (None, s') \<Rightarrow> (None, s'))"

definition GetTransaction :: "go_context \<Rightarrow> go_error + unit" where
  "GetTransaction cx = (case fw_GetTransaction cx of Inl err \<Rightarrow> Inl (InternalFromErr err) | Inr tx \<Rightarrow> Inr tx)"

lemmas begin_defs = BeginTransaction_def fw_BeginTransaction_def
lemmas rollback_defs = RollbackTransaction_def fw_RollbackTransaction_def
lemmas commit_defs = CommitTransaction_def fw_CommitTransaction_def
lemmas get_defs = GetTransaction_def fw_GetTransaction_def

section \<open>The transactional manager\<close>

definition RegisterAfterCommitIfTransactionInProgress ::
    "go_context \<Rightarrow> 'c \<Rightarrow> ('d, 'c) session \<Rightarrow> bool \<times> ('d, 'c) session" where
  "RegisterAfterCommitIfTransactionInProgress cx c s =
     (if cx_Holder cx then (True, s\<lparr>se_Callbacks := se_Callbacks s @ [c]\<rparr>) else (False, s))"

text \<open>The loop over the snapshot of the callbacks: it stops at the first that fails or panics.\<close>

fun run_callbacks ::
    "('c \<Rightarrow> ('d, 'c, unit) code) \<Rightarrow> go_context \<Rightarrow> 'c list \<Rightarrow> ('d, 'c) session \<Rightarrow> unit outcome \<times> ('d, 'c) session" where
  "run_callbacks call cx [] s = (Returned None None, s)"
| "run_callbacks call cx (c # cs) s =
     (case call c cx s of
        (Returned _ None, s') \<Rightarrow> run_callbacks call cx cs s'
      | (Returned _ (Some failureFunc), s') \<Rightarrow> (Returned None (Some failureFunc), s')
      | (Panicked, s') \<Rightarrow> (Panicked, s'))"

text \<open>The deferred function of the outermost call, with the response assigned so far.\<close>

definition recovered ::
    "go_context \<Rightarrow> 'a option \<Rightarrow> ('d, 'c) session \<Rightarrow> 'a outcome \<times> ('d, 'c) session" where
  "recovered txCtx response s =
     (case RollbackTransaction txCtx s of
        (None, s') \<Rightarrow> (Returned response (Some Internal), s')
      | (Some rollbackTransactionErr, s') \<Rightarrow> (Returned response (Some rollbackTransactionErr), s'))"

definition after_commit ::
    "('c \<Rightarrow> ('d, 'c, unit) code) \<Rightarrow> go_context \<Rightarrow> 'a option \<Rightarrow> ('d, 'c) session \<Rightarrow> 'a outcome \<times> ('d, 'c) session" where
  "after_commit call txCtx response s =
     (case run_callbacks call txCtx (se_Callbacks s) s of
        (Returned _ None, s') \<Rightarrow> (Returned response None, s')
      | (Returned _ (Some failureFunc), s') \<Rightarrow> (Returned None (Some failureFunc), s')
      | (Panicked, s') \<Rightarrow> recovered txCtx response s')"

definition ExecuteInTransaction ::
    "('c \<Rightarrow> ('d, 'c, unit) code) \<Rightarrow> ('d, 'c, 'a) code \<Rightarrow> ('d, 'c, 'a) code" where
  "ExecuteInTransaction call transactionalFunc cx s =
     (case GetTransaction cx of
        Inr _ \<Rightarrow>
          (case transactionalFunc cx s of
             (Panicked, s') \<Rightarrow> (Returned None None, s')
           | (Returned response failure, s') \<Rightarrow> (Returned response failure, s'))
      | Inl _ \<Rightarrow>
          (case BeginTransaction cx s of
             (Inl errBeginTransaction, s') \<Rightarrow> (Returned None (Some errBeginTransaction), s')
           | (Inr beginTransactionCtx, s1) \<Rightarrow>
               let txCtx = beginTransactionCtx\<lparr>cx_Holder := True\<rparr>; s2 = s1\<lparr>se_Callbacks := []\<rparr> in
               (case GetTransaction txCtx of
                  Inl err \<Rightarrow> (Returned None (Some (InternalFromErr err)), s2)
                | Inr _ \<Rightarrow>
                    (case transactionalFunc txCtx s2 of
                       (Panicked, s3) \<Rightarrow> recovered txCtx None s3
                     | (Returned response (Some failure), s3) \<Rightarrow>
                         (Returned None (Some failure), snd (RollbackTransaction txCtx s3))
                     | (Returned response None, s3) \<Rightarrow>
                         (case CommitTransaction txCtx s3 of
                            (Some commitTransactionErr, s4) \<Rightarrow> (Returned None (Some commitTransactionErr), s4)
                          | (None, s4) \<Rightarrow> after_commit call txCtx response s4)))))"

section \<open>The decorators\<close>

text \<open>A use case as a function of a transaction: its statements run on the connection of the context.\<close>

definition use_case :: "('d world, 'a) prog \<Rightarrow> ('d, 'c, 'a) code" where
  "use_case m cx s =
     (case m (se_World s) of
        (Inl err, w) \<Rightarrow> (Returned None (Some err), s\<lparr>se_World := w\<rparr>)
      | (Inr x, w) \<Rightarrow> (Returned (Some x) None, s\<lparr>se_World := w\<rparr>))"

text \<open>The conversion of the response to its type panics on a nil response without an error.\<close>

definition decorated ::
    "('c \<Rightarrow> ('d, 'c, unit) code) \<Rightarrow> ('d, 'c, 'a) code \<Rightarrow> ('d, 'c, 'a) code" where
  "decorated call body cx s =
     (case ExecuteInTransaction call body cx s of
        (Returned _ (Some failure), s') \<Rightarrow> (Returned None (Some failure), s')
      | (Returned (Some returnValue) None, s') \<Rightarrow> (Returned (Some returnValue) None, s')
      | (Returned None None, s') \<Rightarrow> (Panicked, s')
      | (Panicked, s') \<Rightarrow> (Panicked, s'))"

definition tx_CreateHSMSlot where
  "tx_CreateHSMSlot call en cn input = decorated call (use_case (CreateHSMSlot en cn input))"

definition tx_GetHSMSlot where
  "tx_GetHSMSlot call en ident = decorated call (use_case (GetHSMSlot en ident))"

definition tx_EditPin where
  "tx_EditPin call en cn input = decorated call (use_case (EditPin en cn input))"

definition tx_EditConfig where
  "tx_EditConfig call en input = decorated call (use_case (EditConfig en input))"

definition tx_DeleteHSMSlot where
  "tx_DeleteHSMSlot call en ident = decorated call (use_case (DeleteHSMSlot en ident))"

definition tx_ListHSMSlotsByApplication where
  "tx_ListHSMSlotsByApplication call en input = decorated call (use_case (ListHSMSlotsByApplication en input))"

definition tx_ListHSMSlotsByHSMModule where
  "tx_ListHSMSlotsByHSMModule call en input = decorated call (use_case (ListHSMSlotsByHSMModule en input))"

definition tx_CreateHSMModule where
  "tx_CreateHSMModule call en input = decorated call (use_case (CreateHSMModule en input))"

definition tx_ListHSMModules where
  "tx_ListHSMModules call en input = decorated call (use_case (ListHSMModules en input))"

definition tx_GetHSMModule where
  "tx_GetHSMModule call en ident = decorated call (use_case (GetHSMModule en ident))"

definition tx_EditHSMModule where
  "tx_EditHSMModule call en input = decorated call (use_case (EditHSMModule en input))"

definition tx_DeleteHSMModule where
  "tx_DeleteHSMModule call en ident = decorated call (use_case (DeleteHSMModule en ident))"

section \<open>Atomicity\<close>

definition tables where
  "tables w = (w_applications w, w_users w, w_accounts w, w_modules w, w_slots w, w_admins w, w_entries w)"

lemma tables_restored [simp]: "tables (restored w0 w) = tables w0"
  by (simp add: tables_def restored_def)

lemma run_statement_tables: "run_statement w = (r, w') \<Longrightarrow> tables w' = tables w"
  by (auto simp: run_statement_def tables_def split: list.splits)

lemma begin_cases:
  assumes "BeginTransaction cx s = (r, s')"
  shows "tables (se_World s') = tables (se_World s)"
    and "r = Inr cx' \<Longrightarrow> \<not> cx_Tx cx \<and> cx' = cx\<lparr>cx_Tx := True\<rparr> \<and> se_Begun s' = Some (se_World s')"
    and "r = Inl e \<Longrightarrow> se_Begun s' = se_Begun s"
  using assms run_statement_tables [of "se_World s"]
  by (fastforce simp: begin_defs split: if_splits prod.splits sum.splits)+

lemma rollback_open:
  assumes "cx_Tx cx" "se_Begun s = Some w0"
  shows "se_Begun (snd (RollbackTransaction cx s)) = None"
    and "tables (se_World (snd (RollbackTransaction cx s))) = tables w0"
  using assms by (auto simp: rollback_defs split: prod.splits sum.splits)

lemma rollback_closed:
  "se_Begun s = None \<Longrightarrow> RollbackTransaction cx s = (Some (InternalFromErr ps_NewCanNotRollbackTransactionError), s)"
  by (auto simp: rollback_defs)

lemma commit_open:
  assumes "cx_Tx cx" "se_Begun s = Some w0" "CommitTransaction cx s = (r, s')"
  shows "se_Begun s' = None" and "tables (se_World s') = (if r = None then tables (se_World s) else tables w0)"
    and "se_Callbacks s' = se_Callbacks s"
  using assms run_statement_tables [of "se_World s"]
  by (fastforce simp: commit_defs split: if_splits prod.splits sum.splits)+

text \<open>Functions that leave it to the manager to end the transaction.\<close>

definition leaves_open :: "('d, 'c, 'a) code \<Rightarrow> bool" where
  "leaves_open body \<longleftrightarrow> (\<forall>cx s. se_Begun (snd (body cx s)) = se_Begun s)"

lemma leaves_openD: "leaves_open body \<Longrightarrow> body cx s = (r, s') \<Longrightarrow> se_Begun s' = se_Begun s"
  by (metis leaves_open_def snd_conv)

lemma leaves_open_use_case: "leaves_open (use_case m)"
  by (auto simp: leaves_open_def use_case_def split: prod.splits sum.splits)

lemma run_callbacks_open:
  "\<forall>c. leaves_open (call c) \<Longrightarrow> se_Begun (snd (run_callbacks call cx cs s)) = se_Begun s"
proof (induction cs arbitrary: s)
  case (Cons c cs)
  obtain r s' where r: "call c cx s = (r, s')" by (cases "call c cx s")
  then have "se_Begun s' = se_Begun s" using Cons.prems leaves_openD by blast
  then show ?case using r Cons.IH [OF Cons.prems, of s'] by (auto split: outcome.splits option.splits)
qed simp

abbreviation inside :: "go_context \<Rightarrow> go_context" where
  "inside cx \<equiv> cx\<lparr>cx_Tx := True, cx_Holder := True\<rparr>"

lemma outermost:
  assumes top: "\<not> cx_Tx cx" and "BeginTransaction cx s = (Inr cx', s1)"
  shows "ExecuteInTransaction call body cx s =
    (case body (inside cx) (s1\<lparr>se_Callbacks := []\<rparr>) of
       (Panicked, s3) \<Rightarrow> recovered (inside cx) None s3
     | (Returned response (Some failure), s3) \<Rightarrow>
         (Returned None (Some failure), snd (RollbackTransaction (inside cx) s3))
     | (Returned response None, s3) \<Rightarrow>
         (case CommitTransaction (inside cx) s3 of
            (Some e, s4) \<Rightarrow> (Returned None (Some e), s4)
          | (None, s4) \<Rightarrow> after_commit call (inside cx) response s4))"
  using begin_cases(2) [OF assms(2) refl] top by (simp add: ExecuteInTransaction_def get_defs assms(2) Let_def)

lemma recovered_open:
  assumes "se_Begun s = Some w0"
  shows "\<exists>e s'. recovered (inside cx) response s = (Returned response (Some e), s') \<and>
    se_Begun s' = None \<and> tables (se_World s') = tables w0"
  using rollback_open [of "inside cx" s w0] assms
  by (cases "RollbackTransaction (inside cx) s") (auto simp: recovered_def split: option.splits)

lemma commit_None:
  "cx_Tx cx \<Longrightarrow> CommitTransaction cx s = (None, s') \<Longrightarrow>
    \<exists>w. s' = s\<lparr>se_World := w, se_Begun := None\<rparr> \<and> tables w = tables (se_World s)"
  using run_statement_tables [of "se_World s"]
  by (auto simp: commit_defs split: if_splits prod.splits sum.splits option.splits)

text \<open>
  C19: A transaction is all or nothing.  An outermost call either gives an error and leaves every table
  as it was, or the function returned without an error and the commit succeeded; then the tables are
  those the function left, the callbacks run in the order of their registration, and a failure or a
  panic of a callback is an error to the caller that undoes nothing.  The call never panics and never
  leaves the transaction open.
\<close>

theorem transaction_is_atomic:
  assumes top: "\<not> cx_Tx cx" "se_Begun s = None"
    and body: "leaves_open body" and callbacks: "\<forall>c. leaves_open (call c)"
    and run: "ExecuteInTransaction call body cx s = (out, s')"
  shows "se_Begun s' = None \<and> out \<noteq> Panicked \<and>
    ((\<exists>e. out = Returned None (Some e) \<and> tables (se_World s') = tables (se_World s)) \<or>
     (\<exists>s1 s2 s3 response w. tables (se_World s1) = tables (se_World s) \<and> se_Callbacks s1 = [] \<and>
        body (inside cx) s1 = (Returned response None, s2) \<and>
        s3 = s2\<lparr>se_World := w, se_Begun := None\<rparr> \<and> tables w = tables (se_World s2) \<and>
        (case run_callbacks call (inside cx) (se_Callbacks s2) s3 of
           (Returned _ None, s4) \<Rightarrow> (out, s') = (Returned response None, s4)
         | (Returned _ (Some e), s4) \<Rightarrow> (out, s') = (Returned None (Some e), s4)
         | (Panicked, s4) \<Rightarrow> (out, s') = (Returned response (Some (InternalFromErr ps_NewCanNotRollbackTransactionError)), s4))))"
proof -
  have failed: ?thesis
    if "(out, s') = (Returned None (Some e), s4)" "se_Begun s4 = None" "tables (se_World s4) = tables (se_World s)" for e s4
    using that by simp
  obtain b s1 where started: "BeginTransaction cx s = (b, s1)" by (cases "BeginTransaction cx s")
  note same = begin_cases(1) [OF started]
  show ?thesis
  proof (cases b)
    case (Inl e)
    then show ?thesis using run started begin_cases [OF started] top
      by (intro failed [of e s1]) (auto simp: ExecuteInTransaction_def get_defs)
  next
    case (Inr cx')
    let ?s1 = "s1\<lparr>se_Callbacks := []\<rparr>"
    have opened: "se_Begun ?s1 = Some (se_World s1)" using begin_cases(2) [OF started Inr] by simp
    note go = outermost [OF top(1) started [unfolded Inr], of call body]
    obtain r s2 where r: "body (inside cx) ?s1 = (r, s2)" by (cases "body (inside cx) ?s1")
    have opened2: "se_Begun s2 = Some (se_World s1)" using leaves_openD [OF body r] opened by simp
    show ?thesis
    proof (cases r)
      case Panicked
      have "(out, s') = recovered (inside cx) None s2" using run go r Panicked by simp
      then obtain e s4 where rec: "(out, s') = (Returned None (Some e), s4)" "se_Begun s4 = None"
          "tables (se_World s4) = tables (se_World s1)"
        by (metis recovered_open [OF opened2])
      show ?thesis by (rule failed [OF rec(1, 2)]) (simp add: rec(3) same)
    next
      case (Returned response failure)
      show ?thesis
      proof (cases failure)
        case (Some e)
        then have "(out, s') = (Returned None (Some e), snd (RollbackTransaction (inside cx) s2))"
          using run go r Returned by simp
        then show ?thesis by (rule failed) (use rollback_open [of "inside cx", OF _ opened2] same in simp_all)
      next
        case None
        obtain c s3 where c: "CommitTransaction (inside cx) s2 = (c, s3)" by (cases "CommitTransaction (inside cx) s2")
        note committed = commit_open [OF _ opened2 c]
        show ?thesis
        proof (cases c)
          case (Some e)
          then have "(out, s') = (Returned None (Some e), s3)" using run go r c Returned None by simp
          then show ?thesis by (rule failed) (use committed Some same in simp_all)
        next
          case c': None
          obtain w where s3: "s3 = s2\<lparr>se_World := w, se_Begun := None\<rparr>" "tables w = tables (se_World s2)"
            using commit_None [OF _ c [unfolded c']] by auto
          obtain k s4 where k: "run_callbacks call (inside cx) (se_Callbacks s3) s3 = (k, s4)"
            by (cases "run_callbacks call (inside cx) (se_Callbacks s3) s3")
          have closed: "se_Begun s4 = None" using run_callbacks_open [OF callbacks] k s3(1) by (metis session.select_convs(2) session.surjective session.update_convs(2) snd_conv)
          have out: "(out, s') = after_commit call (inside cx) response s3" using run go r c c' Returned None by simp
          then show ?thesis
            using s3 k closed same r Returned None rollback_closed [OF closed, of "inside cx"]
            by (intro conjI disjI2 exI [of _ ?s1] exI [of _ s2] exI [of _ s3] exI [of _ response] exI [of _ w])
              (auto simp: after_commit_def recovered_def split: outcome.splits option.splits)
        qed
      qed
    qed
  qed
qed

definition sample_session :: "(unit, unit) session" where
  "sample_session = \<lparr>se_World = empty_world (), se_Begun = None, se_Callbacks = []\<rparr>"

definition sample_context :: go_context where
  "sample_context = \<lparr>cx_Tx = False, cx_Holder = False\<rparr>"

lemma transaction_is_atomic_witness:
  "fst (ExecuteInTransaction (\<lambda>_ _ s. (Returned None None, s)) (use_case (application_Get ''app'')) sample_context
     sample_session) \<noteq> Panicked"
  using transaction_is_atomic [of sample_context sample_session "use_case (application_Get ''app'')"
      "\<lambda>_ _ s. (Returned None None, s)", OF _ _ leaves_open_use_case _ prod.collapse [symmetric]]
  by (simp add: sample_context_def sample_session_def leaves_open_def)

section \<open>Nested calls\<close>

text \<open>Functions that return a response or an error, and not both or none; they may panic.\<close>

definition answers :: "('d, 'c, 'a) code \<Rightarrow> bool" where
  "answers body \<longleftrightarrow>
     (\<forall>cx s. case fst (body cx s) of Panicked \<Rightarrow> True | Returned r f \<Rightarrow> (r = None) = (f \<noteq> None))"

lemma answers_use_case: "answers (use_case m)"
  by (auto simp: answers_def use_case_def split: prod.splits sum.splits)

lemma answers_cases:
  assumes "answers body"
  obtains (response) x s' where "body cx s = (Returned (Some x) None, s')"
    | (error) e s' where "body cx s = (Returned None (Some e), s')"
    | (panic) s' where "body cx s = (Panicked, s')"
proof -
  obtain r s' where r: "body cx s = (r, s')" by (cases "body cx s")
  have "case r of Panicked \<Rightarrow> True | Returned x f \<Rightarrow> (x = None) = (f \<noteq> None)"
    using assms r unfolding answers_def by (metis fst_conv)
  then show thesis using r that by (cases r) auto
qed

lemma decorated_inside: "answers body \<Longrightarrow> decorated call body (inside cx) s = body (inside cx) s"
  by (erule answers_cases [of body "inside cx" s])
    (simp_all add: decorated_def ExecuteInTransaction_def get_defs)

text \<open>
  Decorating twice is decorating once: a decorated operation called from another one runs in the
  transaction of the caller, begins and ends none, and gives its response, its error or its panic as if
  it were not decorated.
\<close>

theorem nested_decoration_is_transparent:
  assumes "answers body"
  shows "decorated call (decorated call body) = decorated call body"
proof (intro ext)
  fix cx s
  show "decorated call (decorated call body) cx s = decorated call body cx s"
  proof (cases "cx_Tx cx")
    case True
    then show ?thesis using assms
      by (elim answers_cases [of body cx s]) (simp_all add: decorated_def ExecuteInTransaction_def get_defs)
  next
    case False
    then have "ExecuteInTransaction call (decorated call body) cx s = ExecuteInTransaction call body cx s"
    proof (cases "BeginTransaction cx s")
      case (Pair b s1)
      then show ?thesis
      proof (cases b)
        case (Inr cx')
        show ?thesis unfolding outermost [OF False Pair [unfolded Inr]] decorated_inside [OF assms] ..
      qed (simp add: ExecuteInTransaction_def get_defs False)
    qed
    then show ?thesis unfolding decorated_def [of call body] decorated_def [of call "decorated call body"] by simp
  qed
qed

lemma nested_decoration_is_transparent_witness:
  "decorated (\<lambda>_ _ s. (Returned None None, s)) (tx_GetHSMSlot (\<lambda>_ _ s. (Returned None None, s)) sample_env ''slot'') =
     (tx_GetHSMSlot (\<lambda>_ _ s. (Returned None None, s)) sample_env ''slot'' :: (unit, unit, HSMSlot) code)"
  unfolding tx_GetHSMSlot_def by (rule nested_decoration_is_transparent [OF answers_use_case])

text \<open>
  C36: A nested call loses a panic.  Called outermost, a function that panics is rolled back and the
  caller gets an error; nested in another call the same panic becomes a nil response without an error,
  and the outer call commits what the function did before it panicked.
\<close>

theorem nested_panic_is_committed:
  fixes body :: "('d, 'c, 'a) code"
  assumes top: "\<not> cx_Tx cx" and quiet: "w_faults (se_World s) = []"
    and panics: "body (inside cx) (s\<lparr>se_Begun := Some (se_World s), se_Callbacks := []\<rparr>) = (Panicked, s2)"
    and open2: "se_Begun s2 = Some (se_World s)" "se_Callbacks s2 = []" "w_faults (se_World s2) = []"
  shows "ExecuteInTransaction call body cx s =
      (Returned None (Some Internal), s2\<lparr>se_World := restored (se_World s) (se_World s2), se_Begun := None\<rparr>) \<and>
    ExecuteInTransaction call (ExecuteInTransaction call body) cx s =
      (Returned None None, s2\<lparr>se_Begun := None\<rparr>)"
proof -
  have started: "BeginTransaction cx s = (Inr (cx\<lparr>cx_Tx := True\<rparr>), s\<lparr>se_Begun := Some (se_World s)\<rparr>)"
    using top quiet by (simp add: begin_defs run_statement_def)
  have panics': "body (inside cx) (s\<lparr>se_Begun := Some (se_World s)\<rparr>\<lparr>se_Callbacks := []\<rparr>) = (Panicked, s2)"
    using panics by simp
  have "ExecuteInTransaction call body cx s =
      (Returned None (Some Internal), s2\<lparr>se_World := restored (se_World s) (se_World s2), se_Begun := None\<rparr>)"
    unfolding outermost [OF top started] panics'
    by (simp add: recovered_def rollback_defs open2 run_statement_def)
  moreover have "ExecuteInTransaction call body (inside cx) (s\<lparr>se_Begun := Some (se_World s)\<rparr>\<lparr>se_Callbacks := []\<rparr>) = (Returned None None, s2)"
    using panics by (simp add: ExecuteInTransaction_def get_defs)
  then have "ExecuteInTransaction call (ExecuteInTransaction call body) cx s = (Returned None None, s2\<lparr>se_Begun := None\<rparr>)"
    unfolding outermost [OF top started]
    by (simp add: commit_defs after_commit_def open2 run_statement_def)
  ultimately show ?thesis ..
qed

text \<open>A function that stores an application and panics.\<close>

definition sample_panic :: "(unit, unit, unit) code" where
  "sample_panic cx s = (Panicked, s\<lparr>se_World := sample_world\<rparr>)"

lemma nested_panic_is_committed_witness:
  "w_applications (se_World (snd (ExecuteInTransaction (\<lambda>_ _ s. (Returned None None, s)) sample_panic sample_context
     sample_session))) = [] \<and>
   w_applications (se_World (snd (ExecuteInTransaction (\<lambda>_ _ s. (Returned None None, s))
     (ExecuteInTransaction (\<lambda>_ _ s. (Returned None None, s)) sample_panic) sample_context sample_session))) =
   w_applications sample_world"
proof -
  have quiet: "w_faults (se_World sample_session) = []" "w_faults sample_world = []"
    by (simp_all add: sample_session_def empty_world_def sample_world_def)
  have "sample_panic (inside sample_context) (sample_session\<lparr>se_Begun := Some (se_World sample_session), se_Callbacks := []\<rparr>) =
      (Panicked, sample_session\<lparr>se_Begun := Some (se_World sample_session), se_Callbacks := [], se_World := sample_world\<rparr>)"
    by (simp add: sample_panic_def)
  from nested_panic_is_committed [of sample_context sample_session sample_panic, OF _ quiet(1) this, of "\<lambda>_ _ s. (Returned None None, s)"] show ?thesis
    by (simp add: quiet sample_context_def restored_def) (simp add: sample_session_def empty_world_def)
qed

section \<open>The operations on slots and modules\<close>

lemma decorated_use_case:
  fixes m :: "('d world, 'a) prog"
  assumes top: "\<not> cx_Tx cx" "se_Begun s = None" and run: "decorated call (use_case m) cx s = (out, s')"
  shows "se_Begun s' = None \<and> (case out of
      Returned (Some x) None \<Rightarrow> \<exists>w1 w2. tables w1 = tables (se_World s) \<and> m w1 = (Inr x, w2) \<and> tables (se_World s') = tables w2
    | Returned None (Some e) \<Rightarrow> tables (se_World s') = tables (se_World s)
    | _ \<Rightarrow> False)"
proof -
  obtain b s1 where started: "BeginTransaction cx s = (b, s1)" by (cases "BeginTransaction cx s")
  note same = begin_cases(1) [OF started]
  show ?thesis
  proof (cases b)
    case (Inl e)
    then show ?thesis using run started begin_cases [OF started] top
      by (auto simp: decorated_def ExecuteInTransaction_def get_defs)
  next
    case (Inr cx')
    have opened: "se_Begun s1 = Some (se_World s1)" using begin_cases(2) [OF started Inr] by simp
    note go = run [unfolded decorated_def outermost [OF top(1) started [unfolded Inr]]]
    obtain r w2 where m: "m (se_World s1) = (r, w2)" by (cases "m (se_World s1)")
    let ?s2 = "s1\<lparr>se_Callbacks := [], se_World := w2\<rparr>"
    have opened2: "se_Begun ?s2 = Some (se_World s1)" by (simp add: opened)
    show ?thesis
    proof (cases r)
      case (Inl e)
      then show ?thesis using go m rollback_open [of "inside cx", OF _ opened2] same by (auto simp: use_case_def)
    next
      case r: (Inr x)
      obtain c s3 where c: "CommitTransaction (inside cx) ?s2 = (c, s3)" by (cases "CommitTransaction (inside cx) ?s2")
      note commit = commit_open [OF _ opened2 c]
      show ?thesis
      proof (cases c)
        case None
        then have "out = Returned (Some x) None" "se_Begun s' = None" "tables (se_World s') = tables w2"
          using go m r c commit by (auto simp: use_case_def after_commit_def)
        then show ?thesis using m r same by auto
      next
        case (Some e)
        then show ?thesis using go m r c same commit by (auto simp: use_case_def)
      qed
    qed
  qed
qed

text \<open>
  An outermost operation gives its response with the tables its use case leaves, or its error with the
  tables as they were, and it does not panic.
\<close>

definition all_or_nothing :: "('d, 'c, 'a) code \<Rightarrow> ('d world, 'a) prog \<Rightarrow> bool" where
  "all_or_nothing operation m \<longleftrightarrow>
     (\<forall>cx s. \<not> cx_Tx cx \<and> se_Begun s = None \<longrightarrow>
        (case operation cx s of
           (Returned (Some x) None, s') \<Rightarrow>
             \<exists>w1 w2. tables w1 = tables (se_World s) \<and> m w1 = (Inr x, w2) \<and> tables (se_World s') = tables w2
         | (Returned None (Some e), s') \<Rightarrow> tables (se_World s') = tables (se_World s)
         | _ \<Rightarrow> False))"

lemma all_or_nothing_decorated:
  fixes call :: "'c \<Rightarrow> ('d, 'c, unit) code" and m :: "('d world, 'a) prog"
  shows "all_or_nothing (decorated call (use_case m)) m"
  unfolding all_or_nothing_def
proof (intro allI impI, elim conjE)
  fix cx :: go_context and s :: "('d, 'c) session" assume top: "\<not> cx_Tx cx" "se_Begun s = None"
  obtain out s' where run: "decorated call (use_case m) cx s = (out, s')" by (cases "decorated call (use_case m) cx s")
  then show "case decorated call (use_case m) cx s of
        (Returned (Some x) None, s') \<Rightarrow>
          \<exists>w1 w2. tables w1 = tables (se_World s) \<and> m w1 = (Inr x, w2) \<and> tables (se_World s') = tables w2
      | (Returned None (Some e), s') \<Rightarrow> tables (se_World s') = tables (se_World s)
      | _ \<Rightarrow> False"
    using decorated_use_case [OF top run] by (auto split: outcome.splits option.splits)
qed


end
