(* ===== verification/Administrators.thy ===== *)
theory Administrators
  imports Integrity Application_Laws
begin

text \<open>
  Administrators: \<open>app/pkg/infra/storage/admindb\<close>, \<open>app/pkg/adapters/storage/postgres/admindbout\<close> and
  \<open>app/pkg/usecases/admin\<close>, with the property that the last administrator is never removed.
\<close>

section \<open>Data\<close>

record Admin =
  Adm_ID :: string
  Adm_InternalResourceID :: string
  Adm_Description :: "string option"
  Adm_Roles :: "string list"
  Adm_CreationDate :: int
  Adm_LastUpdate :: int
  Adm_ResourceVersion :: string

record CreateAdminInput =
  cad_ID :: string
  cad_Description :: "string option"

record EditAdminInput =
  ead_ID :: string
  ead_ResourceVersion :: string
  ead_Description :: "string option"

record ListAdminsInput =
  lad_PageLimit :: int
  lad_PageOffset :: int
  lad_OrderBy :: string
  lad_OrderDirection :: string

section \<open>Infrastructure\<close>

definition admin_infra_Get :: "string \<Rightarrow> ('d world, AdminDB list) prog" where
  "admin_infra_Get ident = sql_select w_admins (\<lambda>r. ad_ID r = ident)"

definition admin_infra_Add :: "env \<Rightarrow> AdminDB \<Rightarrow> ('d world, AdminDB) prog" where
  "admin_infra_Add en db =
     bindP (newUUID en) (\<lambda>version.
     bindP (sql_insert w_admins put_admins admin_clash (db\<lparr>ad_ResourceVersion := version\<rparr>)) (\<lambda>_.
     bindP (admin_infra_Get (ad_ID db)) (\<lambda>result.
     if length result = 0 then throwP ps_NewEntryNotAddedError else returnP (result ! 0))))"

definition admin_infra_Exists :: "string \<Rightarrow> ('d world, unit) prog" where
  "admin_infra_Exists ident =
     bindP (sql_select w_admins (\<lambda>r. ad_ID r = ident)) (\<lambda>existsResult.
     checkP (existsResult \<noteq> []) ps_NewNotFoundError)"

definition admin_infra_Edit :: "env \<Rightarrow> AdminDB \<Rightarrow> ('d world, nat) prog" where
  "admin_infra_Edit en db =
     bindP (admin_infra_Exists (ad_ID db)) (\<lambda>_.
     bindP (newUUID en) (\<lambda>newResourceVersion.
     sql_update w_admins put_admins
       (\<lambda>r. ad_ID r = ad_ID db \<and> ad_ResourceVersion r = ad_ResourceVersion db)
       (\<lambda>r. r\<lparr>ad_Roles := ad_Roles db, ad_Description := ad_Description db,
              ad_LastUpdate := ad_LastUpdate db, ad_ResourceVersion := newResourceVersion\<rparr>)))"

definition admin_infra_Remove :: "string \<Rightarrow> ('d world, nat) prog" where
  "admin_infra_Remove ident = sql_delete w_admins put_admins (\<lambda>r. ad_ID r = ident)"

definition admin_infra_List :: "query \<Rightarrow> ('d world, AdminDB list) prog" where
  "admin_infra_List q = sql_list ad_CreationDate ad_LastUpdate w_admins q (\<lambda>_. True)"

section \<open>The output adapter\<close>

definition admin_mapToCreateDB :: "Admin \<Rightarrow> go_error + AdminDB" where
  "admin_mapToCreateDB adm =
     (if length (Adm_ID adm) = 0 then Inl Internal
      else if length (Adm_InternalResourceID adm) = 0 then Inl Internal
      else if length (Adm_Roles adm) = 0 then Inl Internal
      else Inr \<lparr>ad_ID = Adm_ID adm, ad_InternalResourceID = Adm_InternalResourceID adm, ad_Roles = Adm_Roles adm,
                ad_Description = (case Adm_Description adm of None \<Rightarrow> [] | Some d \<Rightarrow> d),
                ad_CreationDate = Adm_CreationDate adm, ad_LastUpdate = Adm_LastUpdate adm,
                ad_ResourceVersion = []\<rparr>)"

definition admin_mapToUpdateDB :: "Admin \<Rightarrow> go_error + AdminDB" where
  "admin_mapToUpdateDB adm =
     (if length (Adm_ID adm) = 0 then Inl Internal
      else if length (Adm_Roles adm) = 0 then Inl Internal
      else Inr \<lparr>ad_ID = Adm_ID adm, ad_InternalResourceID = [], ad_Roles = Adm_Roles adm,
                ad_Description = (case Adm_Description adm of None \<Rightarrow> [] | Some d \<Rightarrow> d),
                ad_CreationDate = Adm_CreationDate adm, ad_LastUpdate = Adm_LastUpdate adm,
                ad_ResourceVersion = Adm_ResourceVersion adm\<rparr>)"

text \<open>The JSON text of the roles, which is kept as the list it encodes, is never empty.\<close>

definition admin_mapFromDB :: "AdminDB \<Rightarrow> go_error + Admin" where
  "admin_mapFromDB db =
     (if length (ad_ID db) = 0 then Inl Internal
      else if length (ad_InternalResourceID db) = 0 then Inl Internal
      else Inr \<lparr>Adm_ID = ad_ID db, Adm_InternalResourceID = ad_InternalResourceID db,
                Adm_Description = Some (ad_Description db), Adm_Roles = ad_Roles db,
                Adm_CreationDate = ad_CreationDate db, Adm_LastUpdate = ad_LastUpdate db,
                Adm_ResourceVersion = ad_ResourceVersion db\<rparr>)"

definition admin_Add :: "env \<Rightarrow> Admin \<Rightarrow> ('d world, Admin) prog" where
  "admin_Add en data =
     bindP (onErrP (liftP (admin_mapToCreateDB data)) InternalFromErr) (\<lambda>db.
     bindP (onErrP (admin_infra_Add en db) mapPersistenceErrorToSignerError) (\<lambda>storageData.
     onErrP (liftP (admin_mapFromDB storageData)) InternalFromErr))"

definition admin_Get :: "string \<Rightarrow> ('d world, Admin) prog" where
  "admin_Get ident =
     bindP (onErrP (admin_infra_Get ident) mapPersistenceErrorToSignerError) (\<lambda>storageData.
     liftP (single_row admin_mapFromDB storageData))"

definition admin_Edit :: "env \<Rightarrow> Admin \<Rightarrow> ('d world, Admin) prog" where
  "admin_Edit en data =
     bindP (onErrP (liftP (admin_mapToUpdateDB data)) InternalFromErr) (\<lambda>db.
     bindP (onErrP (admin_infra_Edit en db) mapPersistenceErrorToSignerError) (\<lambda>rowsAffected.
     if rowsAffected = 0 then throwP NotFound
     else if 1 < rowsAffected then throwP Internal
     else onErrP (admin_Get (Adm_ID data)) InternalFromErr))"

definition admin_Remove :: "string \<Rightarrow> ('d world, Admin) prog" where
  "admin_Remove ident =
     bindP (admin_Get ident) (\<lambda>storageData.
     bindP (onErrP (admin_infra_Remove ident) mapPersistenceErrorToSignerError) (\<lambda>_.
     returnP storageData))"

definition admin_All :: "query \<Rightarrow> ('d world, Admin collection) prog" where
  "admin_All q =
     bindP (onErrP (admin_infra_List (one_more q)) mapPersistenceErrorToSignerError) (\<lambda>storageData.
     liftP (mapped_page admin_mapFromDB (qu_Pagination q) storageData))"

section \<open>The use case\<close>

definition signerAdminRole :: string where "signerAdminRole = ''signer-admin''"

definition invalid_admin_data :: go_error where
  "invalid_admin_data = invalid_data ''couldn't validate input data''"

definition CreateAdmin :: "env \<Rightarrow> CreateAdminInput \<Rightarrow> ('d world, Admin) prog" where
  "CreateAdmin en input =
     bindP (checkP (e_validate en [standard_id (cad_ID input)]) invalid_admin_data) (\<lambda>_.
     bindP (if length (cad_ID input) = 0 then newUUID en else returnP (cad_ID input)) (\<lambda>ident.
     bindP (timeNow en) (\<lambda>now.
     bindP (newUUID en) (\<lambda>internalResourceID.
     onErrP (admin_Add en
       \<lparr>Adm_ID = ident, Adm_InternalResourceID = internalResourceID, Adm_Description = cad_Description input,
        Adm_Roles = [signerAdminRole], Adm_CreationDate = now, Adm_LastUpdate = now, Adm_ResourceVersion = []\<rparr>)
       (\<lambda>err. if IsAlreadyExists err then
            SetHumanReadableMessage (''admin '' @ bracketed ident @ '' already exists'') (AlreadyExistsFromErr err)
          else InternalFromErr err)))))"

definition ListAdmins :: "env \<Rightarrow> ListAdminsInput \<Rightarrow> ('d world, Admin collection) prog" where
  "ListAdmins en input =
     bindP (checkP (e_validate en [(''natural'', Int256_String (lad_PageLimit input)),
         (''natural'', Int256_String (lad_PageOffset input))]) invalid_admin_data) (\<lambda>_.
     case NormalizeOrderDirection (DefaultString (lad_OrderDirection input) OrderDesc) of
       (direction, validDirection) \<Rightarrow>
         bindP (checkP validDirection (invalid_direction (lad_OrderDirection input))) (\<lambda>_.
         onErrP (admin_All
           (list_query direction (lad_OrderBy input) (lad_PageLimit input) (lad_PageOffset input)))
           InternalFromErr))"

definition admin_not_found :: "string \<Rightarrow> go_error \<Rightarrow> go_error" where
  "admin_not_found ident err =
     (if IsNotFound err then
        SetHumanReadableMessage (''admin '' @ bracketed ident @ '' not found'') (NotFoundFromErr err)
      else InternalFromErr err)"

definition GetAdmin :: "env \<Rightarrow> string \<Rightarrow> ('d world, Admin) prog" where
  "GetAdmin en ident =
     bindP (checkP (e_validate en [standard_id ident]) invalid_admin_data) (\<lambda>_.
     onErrP (admin_Get ident) (admin_not_found ident))"

definition EditAdmin :: "env \<Rightarrow> EditAdminInput \<Rightarrow> ('d world, Admin) prog" where
  "EditAdmin en input =
     bindP (checkP (e_validate en [standard_id (ead_ID input)]) invalid_admin_data) (\<lambda>_.
     bindP (timeNow en) (\<lambda>now.
     onErrP (admin_Edit en
       \<lparr>Adm_ID = ead_ID input, Adm_InternalResourceID = [], Adm_Description = ead_Description input,
        Adm_Roles = [signerAdminRole], Adm_CreationDate = 0, Adm_LastUpdate = now,
        Adm_ResourceVersion = ead_ResourceVersion input\<rparr>)
       (admin_not_found (ead_ID input))))"

definition admin_removeAllDependencies :: "env \<Rightarrow> string \<Rightarrow> ('d world, unit) prog" where
  "admin_removeAllDependencies en ident =
     bindP (GetAdmin en ident) (\<lambda>adm.
     removeEntries en (Adm_InternalResourceID adm) KindAdmin (''admin '' @ quoted ident))"

definition not_deletable :: go_error where
  "not_deletable = SetHumanReadableMessage ''not possible to delete admin'' PreconditionFailed"

text \<open>The zero value of \<open>ListAdminsInput\<close>.\<close>

definition all_admins :: ListAdminsInput where
  "all_admins = \<lparr>lad_PageLimit = 0, lad_PageOffset = 0, lad_OrderBy = [], lad_OrderDirection = []\<rparr>"

definition DeleteAdmin :: "env \<Rightarrow> string \<Rightarrow> ('d world, Admin) prog" where
  "DeleteAdmin en ident =
     bindP (checkP (e_validate en [standard_id ident]) invalid_admin_data) (\<lambda>_.
     bindP (ListAdmins en all_admins) (\<lambda>listAdminsOutput.
     bindP (checkP (\<not> length (co_Items listAdminsOutput) \<le> 1) not_deletable) (\<lambda>_.
     bindP (admin_removeAllDependencies en ident) (\<lambda>_.
     onErrP (admin_Remove ident) (admin_not_found ident)))))"

section \<open>An administrator remains\<close>

text \<open>The table of administrators: unique keys, the one role, and at least so many rows.\<close>

definition staffed :: "nat \<Rightarrow> AdminDB list \<Rightarrow> bool" where
  "staffed n rows \<longleftrightarrow> distinct_rows admin_clash rows \<and> n \<le> length rows \<and> list_all (\<lambda>r. ad_Roles r = [signerAdminRole]) rows"

text \<open>A property of the table of administrators alone, which only its own statements can change.\<close>

definition on_admins :: "(AdminDB list \<Rightarrow> bool) \<Rightarrow> 'd world \<Rightarrow> bool" where
  "on_admins Q w \<longleftrightarrow> Q (w_admins w)"

lemma on_admins_other [simp]:
  "on_admins Q (w\<lparr>w_faults := bs\<rparr>) = on_admins Q w" "on_admins Q (w\<lparr>w_uuids := n\<rparr>) = on_admins Q w"
  "on_admins Q (w\<lparr>w_ticks := n\<rparr>) = on_admins Q w" "on_admins Q (put_entries es w) = on_admins Q w"
  by (simp_all add: on_admins_def)

lemma keeps_on_admins [keeps_intros]:
  "keeps (on_admins Q) run_statement" "keeps (on_admins Q) (sql_select tab sel)"
  "keeps (on_admins Q) (sql_list created updated tab q sel')" "keeps (on_admins Q) (newUUID en)" "keeps (on_admins Q) (timeNow en)"
  "keeps (on_admins Q) (sql_delete w_entries put_entries sel'')"
proof -
  have read: "keeps (on_admins Q) run_statement" by (rule keeps_read) simp
  then show "keeps (on_admins Q) run_statement" .
  show "keeps (on_admins Q) (sql_select tab sel)" unfolding sql_select_def
    by (rule keeps_bindP [OF read]) (simp add: keeps_def)
  show "keeps (on_admins Q) (sql_list created updated tab q sel')" unfolding sql_list_def
    by (intro keeps_bindP [OF keeps_checkP] keeps_bindP [OF read]) (simp add: keeps_def)
  show "keeps (on_admins Q) (sql_delete w_entries put_entries sel'')"
    by (rule keeps_other) simp_all
qed (simp_all add: keeps_def newUUID_def timeNow_def)

lemma keeps_admin_reads [keeps_intros]:
  "keeps (on_admins Q) (admin_Get i)" "keeps (on_admins Q) (GetAdmin en i)" "keeps (on_admins Q) (admin_infra_Exists i)"
  "keeps (on_admins Q) (admin_removeAllDependencies en i)"
  unfolding admin_Get_def admin_infra_Get_def GetAdmin_def admin_infra_Exists_def admin_removeAllDependencies_def
    removeEntries_def ListMyChildrenEntries_def DeleteMyEntriesIfAny_def entry_All_def entry_infra_All_def
    entry_RemoveAllFromResource_def entry_infra_RemoveAllFromResource_def Let_def
  by (intro keeps_intros)+

lemma keeps_lifted_value: "(\<And>x. r = Inr x \<Longrightarrow> keeps P (f x)) \<Longrightarrow> keeps P (bindP (onErrP (liftP r) h) f)"
  by (cases r) (simp_all add: keeps_def bindP_def onErrP_def liftP_def)

lemma staffed_mono: "staffed n rows \<Longrightarrow> m \<le> n \<Longrightarrow> staffed m rows"
  by (simp add: staffed_def)

lemma keeps_staffed_insert:
  "ad_Roles r = [signerAdminRole] \<Longrightarrow> keeps (on_admins (staffed n)) (sql_insert w_admins put_admins admin_clash r)"
  unfolding sql_insert_def
  by (rule keeps_bindP [OF keeps_on_admins(1)])
    (auto simp: keeps_def on_admins_def staffed_def distinct_rows_def sorted_wrt_append list_ex_iff)

lemma keeps_staffed_update:
  assumes f: "\<And>r. ad_ID (f r) = ad_ID r" "\<And>r. ad_InternalResourceID (f r) = ad_InternalResourceID r"
    and role: "\<And>r. ad_Roles (f r) = [signerAdminRole]"
  shows "keeps (on_admins (staffed n)) (sql_update w_admins put_admins sel f)"
proof -
  have "distinct_rows admin_clash (map (\<lambda>r. if sel r then f r else r) rows) = distinct_rows admin_clash rows" for rows
    by (simp add: distinct_rows_def sorted_wrt_map admin_clash_def f if_distrib [of ad_ID] if_distrib [of ad_InternalResourceID]
        cong: if_cong)
  then have "staffed n rows \<Longrightarrow> staffed n (map (\<lambda>r. if sel r then f r else r) rows)" for rows
    by (auto simp: staffed_def list_all_iff role)
  then show ?thesis unfolding sql_update_def
    by (intro keeps_bindP [OF keeps_on_admins(1)]) (simp add: keeps_def on_admins_def)
qed

lemma keeps_staffed_writes:
  "keeps (on_admins (staffed n)) (CreateAdmin en ca)" "keeps (on_admins (staffed n)) (EditAdmin en ea)"
proof -
  show "keeps (on_admins (staffed n)) (CreateAdmin en ca)"
    unfolding CreateAdmin_def admin_Add_def admin_infra_Add_def admin_infra_Get_def
    by (intro keeps_intros keeps_lifted_value keeps_staffed_insert) (auto simp: admin_mapToCreateDB_def split: if_splits)
  show "keeps (on_admins (staffed n)) (EditAdmin en ea)"
    unfolding EditAdmin_def admin_Edit_def admin_infra_Edit_def
    by (intro keeps_intros keeps_lifted_value keeps_staffed_update) (auto simp: admin_mapToUpdateDB_def split: if_splits)
qed

text \<open>A listing that shows two administrators was made on a table that has them.\<close>

lemma listed_rows:
  assumes "mapped_page f page (cut_page page' rows) = Inr c"
  shows "length (co_Items c) \<le> length rows"
proof -
  obtain items where items: "mapSliceFromDB f (co_Items (paged page (cut_page page' rows))) = Inr items" "co_Items c = items"
    using assms by (auto simp: mapped_page_def with_items_def split: sum.splits)
  have "length items = length (co_Items (paged page (cut_page page' rows)))"
    using items(1) unfolding mapSliceFromDB_Inr by (metis length_map)
  also have "\<dots> \<le> length (cut_page page' rows)"
    by (auto simp: paged_def NewUnlimitedQueryStandardCollectionPage_def split: option.splits)
  also have "\<dots> \<le> length rows" by (auto simp: cut_page_def min_def split: option.splits)
  finally show ?thesis using items(2) by simp
qed

lemma ListAdmins_rows:
  assumes "ListAdmins en input w = (Inr c, w')"
  shows "length (co_Items c) \<le> length (w_admins w')"
proof -
  obtain q rows where list: "admin_infra_List (one_more q) w = (Inr rows, w')"
      and page: "mapped_page admin_mapFromDB (qu_Pagination q) rows = Inr c"
    using assms by (auto simp: ListAdmins_def admin_All_def prog_ok split: prod.splits)
  have "\<exists>ord. rows = cut_page (qu_Pagination (one_more q)) (order_rows ad_CreationDate ad_LastUpdate ord (w_admins w'))"
    using list by (auto simp: admin_infra_List_def sql_list_def prog_ok split: if_splits)
  then obtain ord where "rows = cut_page (qu_Pagination (one_more q)) (order_rows ad_CreationDate ad_LastUpdate ord (w_admins w'))"
    by blast
  then have "length (co_Items c) \<le> length (order_rows ad_CreationDate ad_LastUpdate ord (w_admins w'))"
    using listed_rows page by blast
  then show ?thesis by (simp add: order_rows_def Let_def split: option.splits)
qed

text \<open>One statement removes one administrator at most.\<close>

lemma distinct_filter_key:
  "distinct_rows admin_clash rows \<Longrightarrow> length (filter (\<lambda>r. ad_ID r = i) rows) \<le> 1"
proof (induction rows)
  case (Cons r rows)
  then show ?case
    by (cases "ad_ID r = i") (auto simp: distinct_rows_def admin_clash_def filter_empty_conv)
qed simp

lemma runs_admin_Remove:
  "runs (on_admins (staffed 2)) (admin_Remove i) (\<lambda>_. on_admins (staffed 1)) (\<lambda>_. on_admins (staffed 1))"
proof -
  have "staffed 2 rows \<Longrightarrow> staffed 1 (filter (\<lambda>r. ad_ID r \<noteq> i) rows)" for rows
    using distinct_filter_key [of rows i] sum_length_filter_compl [of "\<lambda>r. ad_ID r = i" rows]
    by (auto simp: staffed_def list_all_iff distinct_rows_def sorted_wrt_filter)
  moreover have "staffed 2 rows \<Longrightarrow> staffed 1 rows" for rows by (simp add: staffed_def)
  ultimately have delete: "runs (on_admins (staffed 2)) (admin_infra_Remove i) (\<lambda>_. on_admins (staffed 1)) (\<lambda>_. on_admins (staffed 1))"
    unfolding admin_infra_Remove_def sql_delete_def
    by (intro runs_bindP [where R = "\<lambda>_. on_admins (staffed 2)"])
      (auto simp: runs_def run_statement_def on_admins_def split: list.splits)
  have get: "runs (on_admins (staffed 2)) (admin_Get i) (\<lambda>_. on_admins (staffed 2)) (\<lambda>_. on_admins (staffed 1))"
    by (rule runs_conseq [OF keeps_admin_reads(1) [where Q = "staffed 2", unfolded keeps_runs]]) (auto simp: on_admins_def simp: staffed_def)
  show ?thesis unfolding admin_Remove_def
    by (intro runs_bindP [OF get] runs_bindP [OF runs_onErrP [OF delete]] runs_returnP) simp
qed

lemma keeps_ListAdmins: "keeps (on_admins Q) (ListAdmins en input)"
  unfolding ListAdmins_def admin_All_def admin_infra_List_def by (intro keeps_intros)

lemma keeps_staffed_delete: "keeps (on_admins (staffed 1) :: 'd world \<Rightarrow> bool) (DeleteAdmin en i)"
  unfolding keeps_runs DeleteAdmin_def
proof (intro runs_bindP)
  let ?E = "\<lambda>_. on_admins (staffed 1) :: 'd world \<Rightarrow> bool"
  show "runs (on_admins (staffed 1)) (checkP (e_validate en [standard_id i]) invalid_admin_data) (\<lambda>_. on_admins (staffed 1)) ?E"
    by (rule runs_checkP) simp_all
  show "runs (on_admins (staffed 1)) (ListAdmins en all_admins)
      (\<lambda>l w. on_admins (staffed 1) w \<and> length (co_Items l) \<le> length (w_admins w)) ?E"
  proof (rule runsI)
    fix w w' :: "'d world" and c
    assume "on_admins (staffed 1) w" "ListAdmins en all_admins w = (Inr c, w')"
    then show "on_admins (staffed 1) w' \<and> length (co_Items c) \<le> length (w_admins w')"
      using ListAdmins_rows keepsD [OF keeps_ListAdmins] by blast
  next
    fix w w' :: "'d world" and e
    assume "on_admins (staffed 1) w" "ListAdmins en all_admins w = (Inl e, w')"
    then show "on_admins (staffed 1) w'" using keepsD [OF keeps_ListAdmins] by blast
  qed
  fix l
  show "runs (\<lambda>w. on_admins (staffed 1) w \<and> length (co_Items l) \<le> length (w_admins w))
      (checkP (\<not> length (co_Items l) \<le> 1) not_deletable) (\<lambda>_. on_admins (staffed 2)) ?E"
    by (rule runs_checkP) (auto simp: on_admins_def staffed_def)
  show "runs (on_admins (staffed 2)) (admin_removeAllDependencies en i) (\<lambda>_. on_admins (staffed 2)) ?E"
    by (rule runs_conseq [OF keeps_admin_reads(4) [where Q = "staffed 2", unfolded keeps_runs]]) (auto simp: on_admins_def simp: staffed_def)
  show "runs (on_admins (staffed 2)) (onErrP (admin_Remove i) (admin_not_found i)) (\<lambda>_. on_admins (staffed 1)) ?E"
    by (rule runs_onErrP [OF runs_admin_Remove])
qed

section \<open>The operations as steps\<close>

inductive admin_step :: "env \<Rightarrow> 'd world \<Rightarrow> 'd world \<Rightarrow> bool" for en where
  create_admin: "CreateAdmin en ca w = (r, w') \<Longrightarrow> admin_step en w w'"
| edit_admin: "EditAdmin en ea w = (r, w') \<Longrightarrow> admin_step en w w'"
| delete_admin: "DeleteAdmin en i w = (r, w') \<Longrightarrow> admin_step en w w'"

text \<open>
  C27: Once there is an administrator there always is one: no sequence of creations, edits and deletions,
  on a database that may fail at any statement, removes the last one or gives an administrator any role
  but \<open>signer-admin\<close>.
\<close>

theorem an_administrator_remains:
  assumes steps: "(admin_step en)\<^sup>*\<^sup>* w w'" and before: "w_admins w \<noteq> []" "distinct_rows admin_clash (w_admins w)"
    and roles: "\<forall>r\<in>set (w_admins w). ad_Roles r = [''signer-admin'']"
  shows "w_admins w' \<noteq> [] \<and> (\<forall>r\<in>set (w_admins w'). ad_Roles r = [''signer-admin''])"
proof -
  have "on_admins (staffed 1) w'"
    using steps
  proof (induction rule: rtranclp_induct)
    case base
    show ?case using before roles by (cases "w_admins w") (auto simp: on_admins_def staffed_def signerAdminRole_def list_all_iff)
  next
    case (step w1 w2)
    from step.hyps(2) step.IH show ?case
      by cases (blast intro: keepsD keeps_staffed_writes keeps_staffed_delete)+
  qed
  then show ?thesis by (auto simp: on_admins_def staffed_def signerAdminRole_def list_all_iff)
qed

definition sample_admin_world :: "unit world" where
  "sample_admin_world = (empty_world ())\<lparr>w_admins := [\<lparr>ad_ID = ''root'', ad_InternalResourceID = ''u0'',
     ad_Roles = [''signer-admin''], ad_Description = [], ad_CreationDate = 0, ad_LastUpdate = 0,
     ad_ResourceVersion = ''u1''\<rparr>], w_uuids := 2, w_ticks := 1\<rparr>"

lemma an_administrator_remains_witness:
  "w_admins (snd (DeleteAdmin sample_env ''root'' sample_admin_world)) \<noteq> []"
proof -
  have "(admin_step sample_env)\<^sup>*\<^sup>* sample_admin_world (snd (DeleteAdmin sample_env ''root'' sample_admin_world))"
    by (rule r_into_rtranclp, rule delete_admin) (rule prod.collapse [symmetric])
  from an_administrator_remains [OF this] show ?thesis
    by (simp add: sample_admin_world_def distinct_rows_def)
qed

end
