(* ===== verification/Reachability.thy ===== *)
theory Reachability
  imports Integrity Application_Laws Sign_Tx
begin

text \<open>
  What holds of every configuration that the operations can lead to: the references between its
  resources, and the roles of its users.
\<close>

section \<open>Properties of users and entries\<close>

lemma keeps_lifted: "(\<And>x. r = Inr x \<Longrightarrow> keeps P (f x)) \<Longrightarrow> keeps P (bindP (onErrP (liftP r) h) f)"
  by (cases r) (simp_all add: keeps_def bindP_def onErrP_def liftP_def)

text \<open>An entry as the use case writes it: nothing is empty, and the parent is a resource that has children.\<close>

definition parent_kind :: "string \<Rightarrow> bool" where
  "parent_kind k \<longleftrightarrow> k = KindApplication \<or> k = KindHSMModule \<or> k = KindUser"

definition sound_entry :: "ReferentialIntegrityEntryDB \<Rightarrow> bool" where
  "sound_entry e \<longleftrightarrow> ri_ID e \<noteq> [] \<and> ri_ResourceID e \<noteq> [] \<and> ri_ParentResourceID e \<noteq> [] \<and>
     valid_kind (ri_ResourceKind e) \<and> parent_kind (ri_ParentResourceKind e)"

lemma parent_kind_valid: "parent_kind k \<Longrightarrow> valid_kind k"
  by (auto simp: parent_kind_def valid_kind_def)

lemma parent_kinds [simp]: "parent_kind KindApplication" "parent_kind KindHSMModule" "parent_kind KindUser"
  by (simp_all add: parent_kind_def)

lemma mapTypeToDB_Inr: "mapTypeToDB k = Inr k' \<Longrightarrow> k' = k \<and> valid_kind k"
  by (auto simp: mapTypeToDB_def valid_kind_def kind_defs split: if_splits)

lemma entry_mapToCreateDB_sound:
  "entry_mapToCreateDB e = Inr db \<Longrightarrow> parent_kind (re_ParentResourceKind e) \<Longrightarrow> sound_entry db"
  by (auto simp: entry_mapToCreateDB_def sound_entry_def dest!: mapTypeToDB_Inr split: if_splits sum.splits)

lemma entry_mapFromDB_sound: "sound_entry e \<Longrightarrow> \<exists>x. entry_mapFromDB e = Inr x"
  using valid_kind_maps parent_kind_valid by (auto simp: sound_entry_def entry_mapFromDB_def)

text \<open>
  A property that does not look at the failures, the drawn identifiers, the clock and the devices is
  kept by every operation that only reads.
\<close>

locale steady =
  fixes P :: "'d world \<Rightarrow> bool"
  assumes P_faults: "P w \<Longrightarrow> P (w\<lparr>w_faults := bs\<rparr>)"
    and P_uuids: "P w \<Longrightarrow> P (w\<lparr>w_uuids := n\<rparr>)"
    and P_ticks: "P w \<Longrightarrow> P (w\<lparr>w_ticks := n\<rparr>)"
    and P_devices: "P w \<Longrightarrow> P (w\<lparr>w_devices := d\<rparr>)"
begin

lemma keeps_statement: "keeps P run_statement"
  by (rule keeps_read) (rule P_faults)

lemma keeps_steady_reads:
  "keeps P (sql_select tab sel)" "keeps P (sql_list created updated tab q sel)" "keeps P (newUUID en)"
  "keeps P (timeNow en)" "keeps P (onDevices m)"
proof -
  show "keeps P (sql_select tab sel)" unfolding sql_select_def
    by (rule keeps_bindP [OF keeps_statement]) (simp add: keeps_def)
  show "keeps P (sql_list created updated tab q sel)" unfolding sql_list_def
    by (intro keeps_bindP [OF keeps_checkP] keeps_bindP [OF keeps_statement]) (simp add: keeps_def)
  show "keeps P (newUUID en)" "keeps P (timeNow en)" "keeps P (onDevices m)"
    by (auto simp: keeps_def newUUID_def timeNow_def onDevices_def P_uuids P_ticks P_devices split: prod.splits)
qed

lemma keeps_gets:
  "keeps P (GetApplication en i)" "keeps P (GetHSMModule en i)" "keeps P (GetHSMSlot en i)" "keeps P (ByApplication en i)"
  "keeps P (user_Get app i)" "keeps P (accounts_of en app i)" "keeps P (GetUser en app i)" "keeps P (GetAccount en ai)"
  "keeps P (assigned_module en sl)" "keeps P (local_slot en i what)" "keeps P (ListLocalKeys en i)"
  unfolding GetApplication_def application_Get_def application_infra_Get_def GetHSMModule_def module_Get_def
    module_infra_Get_def GetHSMSlot_def slot_Get_def slot_infra_Get_def ByApplication_def GetHSMSlotByApplication_def
    slot_GetByApplication_def slot_infra_GetByApplicationID_def user_Get_def user_infra_Get_def accounts_of_def
    ListAccounts_def account_All_def account_infra_List_def GetUser_def GetAccount_def account_Get_def
    account_infra_Get_def assigned_module_def local_slot_def ListLocalKeys_def Let_def
  by (intro keeps_intros keeps_steady_reads)+

lemma keeps_addressesBackedByModule: "keeps P (addressesBackedByModule en cn conn)"
  unfolding addressesBackedByModule_def by (intro keeps_intros keeps_steady_reads keeps_gets)

end

text \<open>
  A property of users and entries that the removal of rows and the addition of sound entries keep is
  kept by every operation but those that write users, also on a database that fails.
\<close>

locale configuration = steady +
  assumes P_applications: "P w \<Longrightarrow> P (put_applications as w)"
    and P_modules: "P w \<Longrightarrow> P (put_modules ms w)"
    and P_slots: "P w \<Longrightarrow> P (put_slots ss w)"
    and P_accounts: "P w \<Longrightarrow> P (put_accounts cs w)"
    and P_users_filter: "P w \<Longrightarrow> P (put_users (filter selu (w_users w)) w)"
    and P_entries_filter: "P w \<Longrightarrow> P (put_entries (filter sele (w_entries w)) w)"
    and P_entries_new: "P w \<Longrightarrow> sound_entry e \<Longrightarrow> P (put_entries (w_entries w @ [e]) w)"
begin

lemma keeps_plain:
  "keeps P (sql_insert w_applications put_applications application_clash ra)"
  "keeps P (sql_update w_applications put_applications sela fa)"
  "keeps P (sql_delete w_applications put_applications sela)"
  "keeps P (sql_insert w_modules put_modules module_clash rm)"
  "keeps P (sql_update w_modules put_modules selm fm)"
  "keeps P (sql_delete w_modules put_modules selm)"
  "keeps P (sql_insert w_slots put_slots slot_clash rs)"
  "keeps P (sql_update w_slots put_slots sels fs)"
  "keeps P (sql_delete w_slots put_slots sels)"
  "keeps P (sql_insert w_accounts put_accounts account_clash rc)"
  "keeps P (sql_delete w_accounts put_accounts selc)"
  "keeps P (sql_delete w_entries put_entries sele)"
  "keeps P (sql_delete w_users put_users selu)"
proof -
  show "keeps P (sql_delete w_users put_users selu)" "keeps P (sql_delete w_entries put_entries sele)" unfolding sql_delete_def
    by (rule keeps_bindP [OF keeps_statement]; simp add: keeps_def P_users_filter P_entries_filter)+
qed (rule keeps_other; simp add: P_faults P_applications P_modules P_slots P_accounts)+

lemmas rules = keeps_intros keeps_steady_reads keeps_plain

lemma keeps_insert_entry: "sound_entry e \<Longrightarrow> keeps P (sql_insert w_entries put_entries entry_clash e)"
  unfolding sql_insert_def
  by (rule keeps_bindP [OF keeps_statement]) (simp add: keeps_def P_entries_new)

lemma keeps_removeEntries: "keeps P (removeEntries en i k what)"
  unfolding removeEntries_def DeleteMyEntriesIfAny_def entry_RemoveAllFromResource_def
    entry_infra_RemoveAllFromResource_def entry_All_def entry_infra_All_def ListMyChildrenEntries_def
  by (intro rules)

lemma keeps_createEntry: "parent_kind pk \<Longrightarrow> keeps P (createEntryIfNone en r k p pk)"
  unfolding createEntryIfNone_def CreateEntry_def entry_Add_def entry_infra_Add_def entry_infra_Get_def
  by (intro rules keeps_lifted keeps_insert_entry) (simp add: entry_mapToCreateDB_sound)

lemma keeps_child:
  "keeps P (createEntryIfNone en r k p KindApplication)" "keeps P (createEntryIfNone en r k p KindHSMModule)"
  "keeps P (createEntryIfNone en r k p KindUser)"
  by (simp_all add: keeps_createEntry)

lemmas keeps_entries = keeps_child keeps_removeEntries

lemma keeps_applications:
  "keeps P (CreateApplication en ci)" "keeps P (EditApplication en ei)" "keeps P (DeleteApplication en i)"
  unfolding CreateApplication_def createToApplication_def application_Add_def application_infra_Add_def
    application_infra_Get_def application_Get_def EditApplication_def mapEditedValues_def
    application_Edit_def application_infra_Edit_def application_infra_Exists_def DeleteApplication_def
    removeAllDependencies_def application_Remove_def application_infra_Remove_def Let_def
  by (intro rules keeps_gets keeps_entries)+

lemma keeps_modules:
  "keeps P (CreateHSMModule en ci)" "keeps P (EditHSMModule en ei)" "keeps P (DeleteHSMModule en i)"
  unfolding CreateHSMModule_def module_Add_def module_infra_Add_def module_infra_Get_def
    module_Get_def EditHSMModule_def module_Edit_def module_infra_Edit_def module_infra_Exists_def
    DeleteHSMModule_def module_removeAllDependencies_def module_Remove_def module_infra_Remove_def
  by (intro rules keeps_gets keeps_entries)+

lemma keeps_slots:
  "keeps P (CreateHSMSlot en cn ci)" "keeps P (EditPin en cn pi)" "keeps P (EditConfig en ei)"
  "keeps P (DeleteHSMSlot en i)" "keeps P (AddLocalKey en ai)" "keeps P (RemoveLocalKey en ri)"
  unfolding CreateHSMSlot_def createSlot_def addApplicationDependency_def addHSMModuleDependency_def slot_Add_def
    slot_infra_Add_def slot_infra_Get_def slot_Get_def slot_EditPin_def slot_EditConfig_def slot_infra_EditPin_def
    slot_infra_EditConfig_def slot_infra_Exists_def EditPin_def EditConfig_def AddLocalKey_def RemoveLocalKey_def
    DeleteHSMSlot_def slot_removeAllDependencies_def slot_Remove_def slot_infra_Remove_def Let_def
  by (intro rules keeps_gets keeps_entries)+

lemma keeps_CreateAccount: "keeps P (CreateAccount en ai)"
  unfolding CreateAccount_def addAccountToUserDependency_def account_Add_def account_infra_Add_def
    account_infra_Get_def Let_def
  by (intro rules keeps_gets keeps_entries)

lemma keeps_accounts:
  "keeps P (DeleteAccount en ai)" "keeps P (DisableAccount en app user addr)"
  "keeps P (DeleteAllAccountsForAddress en cn app addr)" "keeps P (DeleteUser en app i)"
  unfolding DeleteAccount_def DisableAccount_def DeleteAllAccountsForAddress_def DeleteUser_def removeAllAccountDependencies_def
    removeAllUserDependencies_def account_Remove_def account_infra_Remove_def account_RemoveAllForAddress_def
    account_infra_RemoveAllForAddress_def account_All_def account_infra_List_def account_Get_def account_infra_Get_def
    user_Remove_def user_infra_Remove_def
  by (intro rules keeps_gets keeps_entries keeps_slots)+

lemma keeps_EnableAccounts: "keeps P (EnableAccounts en cn app user addrs)"
proof -
  have "keeps P (create_accounts en app user as)" for as
    by (induction as) (auto intro!: rules keeps_CreateAccount)
  then show ?thesis unfolding EnableAccounts_def by (intro rules keeps_gets keeps_addressesBackedByModule)
qed

end

section \<open>The roles of users\<close>

definition application_scoped :: "env \<Rightarrow> string list \<Rightarrow> bool" where
  "application_scoped en roles = list_all (\<lambda>i. case supportedRole en i of None \<Rightarrow> False | Some r \<Rightarrow> IsApplicationScoped r) roles"

definition scoped_users :: "env \<Rightarrow> 'd world \<Rightarrow> bool" where
  "scoped_users en w = list_all (\<lambda>u. application_scoped en (us_Roles u)) (w_users w)"

interpretation scoped: configuration "scoped_users en" for en
  by unfold_locales (auto simp: scoped_users_def list_all_iff)

lemma validate_cases:
  "application_scoped en roles \<Longrightarrow> validateApplicationScopedRoles en roles = returnP ()"
  "\<not> application_scoped en roles \<Longrightarrow> \<exists>msg. validateApplicationScopedRoles en roles = throwP (rejected_role msg)"
  by (induction roles) (auto simp: application_scoped_def split: option.splits)

lemma keeps_validated:
  fixes f :: "unit \<Rightarrow> ('d world, 'a) prog"
  assumes "application_scoped en roles \<Longrightarrow> keeps P (f ())"
  shows "keeps P (bindP (validateApplicationScopedRoles en roles) f)"
proof (cases "application_scoped en roles")
  case False
  then obtain msg where "validateApplicationScopedRoles en roles = (throwP (rejected_role msg) :: ('d world, unit) prog)"
    using validate_cases(2) by blast
  then show ?thesis by (simp add: keeps_throwP)
qed (simp add: validate_cases(1) assms)

lemma keeps_scoped_insert:
  "application_scoped en (us_Roles db) \<Longrightarrow> keeps (scoped_users en) (sql_insert w_users put_users clash db)"
  unfolding sql_insert_def
  by (rule keeps_bindP [OF scoped.keeps_statement]) (simp add: keeps_def scoped_users_def)

lemma keeps_scoped_update:
  "(\<And>r. application_scoped en (us_Roles (f r))) \<Longrightarrow> keeps (scoped_users en) (sql_update w_users put_users sel f)"
  unfolding sql_update_def
  by (rule keeps_bindP [OF scoped.keeps_statement]) (simp add: keeps_def scoped_users_def list_all_iff ball_Un)

lemma keeps_scoped_user_Add:
  "application_scoped en (User_Roles data) \<Longrightarrow> keeps (scoped_users en) (user_Add en' data)"
  unfolding user_Add_def user_infra_Add_def user_infra_Get_def
  by (rule keeps_lifted, intro scoped.rules keeps_scoped_insert)
    (auto simp: user_mapToCreateDB_def split: if_splits)

lemma keeps_scoped_user_Edit:
  "application_scoped en (User_Roles data) \<Longrightarrow> keeps (scoped_users en) (user_Edit en' data)"
  unfolding user_Edit_def user_infra_Edit_def user_infra_Exists_def
  by (rule keeps_lifted, intro scoped.rules scoped.keeps_gets keeps_scoped_update)
    (auto simp: user_mapToUpdateDB_def split: if_splits)

lemma keeps_scoped_users: "keeps (scoped_users en) (CreateUser en cu)" "keeps (scoped_users en) (EditUser en eu)"
proof -
  show "keeps (scoped_users en) (CreateUser en cu)"
    unfolding CreateUser_def addUserToApplicationDependency_def Let_def
    by (intro keeps_validated scoped.rules scoped.keeps_gets scoped.keeps_entries keeps_scoped_user_Add) simp_all
  show "keeps (scoped_users en) (EditUser en eu)"
    unfolding EditUser_def
    by (intro keeps_validated scoped.rules scoped.keeps_gets keeps_scoped_user_Edit) simp_all
qed

lemma scoped_step: "api_step en cn w w' \<Longrightarrow> scoped_users en w \<Longrightarrow> scoped_users en w'"
  by (erule api_step_keeps)
    (rule keeps_scoped_users scoped.keeps_applications scoped.keeps_modules scoped.keeps_slots scoped.keeps_CreateAccount
      scoped.keeps_accounts scoped.keeps_EnableAccounts | assumption)+

section \<open>The properties of the configuration\<close>

definition linked :: "'d world \<Rightarrow> link \<Rightarrow> bool" where
  "linked w l \<longleftrightarrow> (\<exists>e\<in>set (w_entries w). link_of e = l)"

lemma in_links: "l \<in> links w \<longleftrightarrow> linked w l"
  by (auto simp: links_def linked_def)

lemma linked_depends: "linked w (x, k, p, pk) \<Longrightarrow> \<exists>e\<in>set (w_entries w). depends_on p pk e"
  by (auto simp: linked_def link_of_def depends_on_def)

lemma integrity_parents:
  assumes "integrity en w"
  shows "u \<in> set (w_users w) \<Longrightarrow> \<exists>a\<in>set (w_applications w). ap_ID a = us_ApplicationID u \<and>
        linked w (us_InternalResourceID u, KindUser, ap_InternalResourceID a, KindApplication)"
    and "c \<in> set (w_accounts w) \<Longrightarrow> \<exists>u\<in>set (w_users w). us_ApplicationID u = ac_ApplicationID c \<and> us_ID u = ac_UserID c \<and>
        linked w (ac_InternalResourceID c, KindAccount, us_InternalResourceID u, KindUser)"
    and "s \<in> set (w_slots w) \<Longrightarrow> \<exists>a\<in>set (w_applications w). ap_ID a = sl_ApplicationID s \<and>
        linked w (sl_InternalResourceID s, KindHSMSlot, ap_InternalResourceID a, KindApplication)"
    and "s \<in> set (w_slots w) \<Longrightarrow> \<exists>m\<in>set (w_modules w). hm_ID m = sl_HSMModuleID s \<and>
        linked w (sl_InternalResourceID s, KindHSMSlot, hm_InternalResourceID m, KindHSMModule)"
  using assms unfolding integrity_def links_ok_def all_linked_def in_links
  by (fastforce simp: user_parents_def account_parents_def slot_applications_def slot_modules_def application_keys_def
      module_keys_def user_keys_def)+

definition sample_user_input :: CreateUserInput where
  "sample_user_input = \<lparr>cu_ID = Some ''bob'', cu_ApplicationID = ''app'', cu_Description = None,
     cu_Roles = [''transaction-signer'']\<rparr>"

definition sample_user_world :: "unit world" where
  "sample_user_world = sample_world\<lparr>w_uuids := 5, w_ticks := 3,
     w_users := [\<lparr>us_ID = ''bob'', us_ApplicationID = ''app'', us_InternalResourceID = ''u2'',
       us_Roles = [''transaction-signer''], us_Description = [], us_CreationDate = 1, us_LastUpdate = 1,
       us_ResourceVersion = ''u4''\<rparr>],
     w_entries := [\<lparr>ri_ID = ''u3'', ri_ResourceID = ''u2'', ri_ResourceKind = ''user'',
       ri_ParentResourceID = ''u0'', ri_ParentResourceKind = ''application'', ri_CreationDate = 2,
       ri_LastUpdate = 2\<rparr>]\<rparr>"

lemma sample_user_created: "snd (CreateUser sample_env sample_user_input sample_world) = sample_user_world"
  by code_simp

lemma sample_steps:
  "api_step sample_env sample_connector (empty_world ()) sample_world"
  "api_step sample_env sample_connector sample_world sample_user_world"
  using create_application [OF sample_created] create_user sample_user_created by (metis prod.collapse)+

lemma sample_reachable: "reachable sample_env sample_connector () sample_user_world"
  unfolding reachable_def using sample_steps by (meson r_into_rtranclp rtranclp_trans)

lemma sample_uuids: "e_uuid sample_env n = CHR ''u'' # dec_digits n"
  by (simp add: sample_env_def)

lemma sample_inj: "inj (e_uuid sample_env)"
  by (rule injI) (metis sample_uuids dec_digits_val list.inject)

context resource
begin

lemma delete_refused:
  assumes quiet: "w_faults w = []" and row: "x \<in> set (tab w)" "sel en i x"
    and entry: "e \<in> set (w_entries w)" "depends_on (row_internal x) kind e"
  shows "\<exists>err. delete en i w = (Inl err, w)"
proof -
  obtain res w' where run: "delete en i w = (res, w')" by (cases "delete en i w")
  have "x \<in> set (filter (sel en i) (tab w))" using row by simp
  with delete_cases [OF quiet run] show ?thesis using entry run by (metis empty_iff empty_set set_ConsD)
qed

end

text \<open>
  C18: In every configuration that the operations lead to, on a database that works and with a
  generator that never repeats an identifier, each user belongs to a stored application, each account
  to a stored user, each slot to a stored application and a stored module, and each of these
  references has its entry in the referential integrity table; the unique indexes hold.
\<close>

theorem references_resolve:
  assumes reach: "reachable en cn dev w" and inj: "inj (e_uuid en)"
  shows "(\<forall>u\<in>set (w_users w). \<exists>a\<in>set (w_applications w). ap_ID a = us_ApplicationID u \<and>
        linked w (us_InternalResourceID u, KindUser, ap_InternalResourceID a, KindApplication)) \<and>
    (\<forall>c\<in>set (w_accounts w). \<exists>u\<in>set (w_users w). us_ApplicationID u = ac_ApplicationID c \<and> us_ID u = ac_UserID c \<and>
        linked w (ac_InternalResourceID c, KindAccount, us_InternalResourceID u, KindUser)) \<and>
    (\<forall>s\<in>set (w_slots w).
       (\<exists>a\<in>set (w_applications w). ap_ID a = sl_ApplicationID s \<and>
        linked w (sl_InternalResourceID s, KindHSMSlot, ap_InternalResourceID a, KindApplication)) \<and>
       (\<exists>m\<in>set (w_modules w). hm_ID m = sl_HSMModuleID s \<and>
        linked w (sl_InternalResourceID s, KindHSMSlot, hm_InternalResourceID m, KindHSMModule))) \<and>
    keys_ok w"
  using reachable_integrity [OF reach inj] integrity_parents integrity_def by blast

lemma references_resolve_witness:
  "\<exists>a\<in>set (w_applications sample_user_world). ap_ID a = ''app'' \<and>
     linked sample_user_world (''u2'', KindUser, ap_InternalResourceID a, KindApplication)"
  using references_resolve [OF sample_reachable sample_inj] by (simp add: sample_user_world_def)

text \<open>
  C25: No operation removes a resource that another one refers to: in every such configuration the
  deletion of an application with a user or a slot, of a module with a slot and of a user with an
  account fails and changes nothing.
\<close>

theorem parents_are_not_deleted:
  assumes reach: "reachable en cn dev w" and inj: "inj (e_uuid en)"
  shows "(u \<in> set (w_users w) \<longrightarrow> (\<exists>e. DeleteApplication en (us_ApplicationID u) w = (Inl e, w))) \<and>
    (s \<in> set (w_slots w) \<longrightarrow> (\<exists>e. DeleteApplication en (sl_ApplicationID s) w = (Inl e, w)) \<and>
       (\<exists>e. DeleteHSMModule en (sl_HSMModuleID s) w = (Inl e, w))) \<and>
    (c \<in> set (w_accounts w) \<longrightarrow> (\<exists>e. DeleteUser en (ac_ApplicationID c) (ac_UserID c) w = (Inl e, w)))"
proof -
  have i: "integrity en w" by (rule reachable_integrity [OF reach inj])
  then have quiet: "w_faults w = []" by (simp add: integrity_def quiet_def)
  show ?thesis
  proof (intro conjI impI)
    assume "u \<in> set (w_users w)"
    then show "\<exists>e. DeleteApplication en (us_ApplicationID u) w = (Inl e, w)"
      using integrity_parents(1) [OF i] application_resource.delete_refused [OF quiet] by (metis linked_depends fst_conv snd_conv)
  next
    assume "s \<in> set (w_slots w)"
    then show "\<exists>e. DeleteApplication en (sl_ApplicationID s) w = (Inl e, w)"
      "\<exists>e. DeleteHSMModule en (sl_HSMModuleID s) w = (Inl e, w)"
      using integrity_parents(3) [OF i] application_resource.delete_refused [OF quiet]
        integrity_parents(4) [OF i] module_resource.delete_refused [OF quiet] by (metis linked_depends)+
  next
    assume "c \<in> set (w_accounts w)"
    then show "\<exists>e. DeleteUser en (ac_ApplicationID c) (ac_UserID c) w = (Inl e, w)"
      using integrity_parents(2) [OF i] user_resource.delete_refused [OF quiet, where i = "(ac_ApplicationID c, ac_UserID c)"]
      by (metis linked_depends fst_conv snd_conv)
  qed
qed

lemma parents_are_not_deleted_witness: "\<exists>e. DeleteApplication sample_env ''app'' sample_user_world = (Inl e, sample_user_world)"
  using parents_are_not_deleted [OF sample_reachable sample_inj, of "hd (w_users sample_user_world)" undefined undefined]
  by (simp add: sample_user_world_def)

lemma supportedRole_Some: "supportedRole en i = Some r \<Longrightarrow> r \<in> set (e_roles en) \<and> role_ID r = i"
  by (auto simp: supportedRole_def dest!: map_of_SomeD)

lemma scoped_steps: "(api_step en cn)\<^sup>*\<^sup>* w w' \<Longrightarrow> scoped_users en w \<Longrightarrow> scoped_users en w'"
  by (induction rule: rtranclp_induct) (blast intro: scoped_step)+

text \<open>
  C29: No sequence of operations, on a database that may fail at any statement, gives a user a role that
  is not one of the supported roles of the scope of applications: the roles of administrators are out
  of the reach of the interface.
\<close>

theorem roles_stay_application_scoped:
  assumes steps: "(api_step en cn)\<^sup>*\<^sup>* w w'" and before: "\<forall>u\<in>set (w_users w). application_scoped en (us_Roles u)"
  shows "\<forall>u\<in>set (w_users w'). \<forall>i\<in>set (us_Roles u).
           \<exists>r\<in>set (e_roles en). role_ID r = i \<and> role_Scope r = ''application''"
proof -
  have "scoped_users en w'"
    using scoped_steps [OF steps] before by (simp add: scoped_users_def list_all_iff)
  then show ?thesis
    using supportedRole_Some
    by (fastforce simp: scoped_users_def application_scoped_def list_all_iff IsApplicationScoped_def ScopeApplication_def
        split: option.splits)
qed

lemma roles_stay_application_scoped_witness:
  "\<exists>r\<in>set (e_roles sample_env). role_ID r = ''transaction-signer'' \<and> role_Scope r = ''application''"
  using roles_stay_application_scoped [OF r_into_rtranclp [where r = "api_step sample_env sample_connector", OF sample_steps(2)]]
  by (simp add: sample_user_world_def sample_world_def empty_world_def)

section \<open>A failed creation\<close>

lemma createEntryIfNone_fresh:
  assumes "w_faults w = []" "\<forall>n. e_uuid en n \<noteq> []" "\<forall>fs. e_validate en fs" and "r \<noteq> []" "p \<noteq> []"
    and "valid_kind k" "valid_kind pk" and "e_uuid en (w_uuids w) \<notin> ri_ID ` set (w_entries w)"
    and "r \<notin> ri_ResourceID ` set (w_entries w)"
  shows "createEntryIfNone en r k p pk w = (Inr (), put_entries (w_entries w @ [new_entry en w r k p pk]) (drawn w))"
proof -
  have "\<not> (\<exists>x\<in>set (w_entries w). entry_clash x (new_entry en w r k p pk))"
    using assms(8, 9) by (auto simp: entry_clash_def new_entry_def image_iff)
  then show ?thesis
    using CreateEntry_quiet [of w r p en k pk] assms by (simp add: createEntryIfNone_def prog_defs)
qed

lemma user_Add_taken:
  assumes "w_faults w = []" and "u \<in> set (w_users w)" "us_ApplicationID u = User_ApplicationID d" "us_ID u = User_ID d"
    and "User_ID d \<noteq> []" "User_ApplicationID d \<noteq> []" "User_InternalResourceID d \<noteq> []" "User_Roles d \<noteq> []"
  shows "user_Add en d w =
    (Inl (AlreadyExistsFromErr ps_NewAlreadyExistsError), w\<lparr>w_uuids := Suc (w_uuids w)\<rparr>)"
  using assms
  by (auto simp: user_Add_def user_mapToCreateDB_def user_infra_Add_def prog_defs newUUID_def quiet_simps user_clash_def
      mapPersistenceErrorToSignerError_def ps_IsAlreadyExists_def ps_NewAlreadyExistsError_def)

lemma GetApplication_quiet:
  "w_faults w = [] \<Longrightarrow> \<forall>fs. e_validate en fs \<Longrightarrow> filter (\<lambda>r. ap_ID r = i) (w_applications w) = [a] \<Longrightarrow>
   application_mapFromDB a = Inr x \<Longrightarrow> GetApplication en i w = (Inr x, w)"
  by (simp add: GetApplication_def prog_defs application_Get_quiet single_row_one)

text \<open>
  The creation of a user whose identifier is taken fails and leaves the entry of the user that was
  not created: no user has the resource of this entry, and while it is stored the application cannot
  be deleted, whatever becomes of its users.
\<close>

theorem duplicate_user_blocks_application:
  fixes w :: "'d world"
  assumes quiet: "w_faults w = []" and valid: "\<forall>fs. e_validate en fs" and uuids: "\<forall>n. e_uuid en n \<noteq> []"
    and fresh: "\<forall>n\<ge>w_uuids w. e_uuid en n \<notin> ri_ID ` set (w_entries w) \<union> ri_ResourceID ` set (w_entries w) \<union>
      us_InternalResourceID ` set (w_users w)"
    and app: "filter (\<lambda>r. ap_ID r = cu_ApplicationID input) (w_applications w) = [a]" "application_mapFromDB a = Inr x"
    and taken: "u \<in> set (w_users w)" "us_ApplicationID u = cu_ApplicationID input" "cu_ID input = Some (us_ID u)"
    and named: "us_ID u \<noteq> []" "us_ApplicationID u \<noteq> []"
    and roles: "application_scoped en (cu_Roles input)" "cu_Roles input \<noteq> []"
  shows "\<exists>err w' e. CreateUser en input w = (Inl err, w') \<and> IsAlreadyExists err \<and> w_users w' = w_users w \<and>
    w_faults w' = [] \<and> w_applications w' = w_applications w \<and> w_entries w' = w_entries w @ [e] \<and> ri_ResourceID e \<notin> us_InternalResourceID ` set (w_users w) \<and>
    (\<forall>w''::'d world. w_faults w'' = [] \<and> w_applications w'' = w_applications w \<and> e \<in> set (w_entries w'') \<longrightarrow>
       (\<exists>err. DeleteApplication en (cu_ApplicationID input) w'' = (Inl err, w'')))"
proof -
  let ?i = "e_uuid en (w_uuids w)" and ?w1 = "w\<lparr>w_ticks := Suc (w_ticks w), w_uuids := Suc (w_uuids w)\<rparr>"
  let ?e = "new_entry en ?w1 ?i KindUser (ap_InternalResourceID a) KindApplication"
  let ?w2 = "put_entries (w_entries w @ [?e]) (drawn ?w1)"
  have x: "App_InternalResourceID x = ap_InternalResourceID a" "ap_InternalResourceID a \<noteq> []"
    using app(2) by (auto simp: application_mapFromDB_def split: if_splits sum.splits option.splits)
  have entry: "createEntryIfNone en ?i KindUser (App_InternalResourceID x) KindApplication ?w1 = (Inr (), ?w2)"
    using createEntryIfNone_fresh [of ?w1 en ?i "ap_InternalResourceID a" KindUser KindApplication] fresh quiet valid uuids x
    by (simp add: le_Suc_eq)
  have got: "GetApplication en (cu_ApplicationID input) ?w1 = (Inr x, ?w1)"
    by (rule GetApplication_quiet [OF _ valid]) (use quiet app in simp_all)
  have "CreateUser en input w = (Inl (AlreadyExistsFromErr (AlreadyExistsFromErr ps_NewAlreadyExistsError)),
      ?w2\<lparr>w_uuids := Suc (w_uuids ?w2)\<rparr>)"
    using valid taken named roles quiet uuids entry got user_Add_taken [of ?w2 u]
    by (simp add: CreateUser_def addUserToApplicationDependency_def prog_defs validate_cases timeNow_def newUUID_def
        storage_failure_def IsAlreadyExists_def public_is_def AlreadyExistsFromErr_def)
  moreover have "\<exists>err. DeleteApplication en (cu_ApplicationID input) w'' = (Inl err, w'')"
    if "w_faults w'' = []" "w_applications w'' = w_applications w" "?e \<in> set (w_entries w'')" for w'' :: "'d world"
  proof (rule application_resource.delete_refused [OF that(1), where e = ?e and x = a])
    show "a \<in> set (w_applications w'')" "ap_ID a = cu_ApplicationID input" using app(1) that(2) by (auto dest: filter_eq_ConsD)
  qed (use that in \<open>simp_all add: depends_on_def new_entry_def\<close>)
  ultimately show ?thesis using fresh quiet by (auto simp: IsAlreadyExists_def public_is_def AlreadyExistsFromErr_def new_entry_def)
qed

lemma duplicate_user_blocks_application_witness:
  "\<exists>err w'. CreateUser sample_env sample_user_input sample_user_world = (Inl err, w') \<and> IsAlreadyExists err \<and>
     (\<exists>err. DeleteApplication sample_env ''app'' (w'\<lparr>w_users := []\<rparr>) = (Inl err, w'\<lparr>w_users := []\<rparr>))"
proof -
  have "e_uuid sample_env 2 = ''u2''" "e_uuid sample_env 3 = ''u3''" by code_simp+
  then have fresh: "e_uuid sample_env n \<noteq> ''u2''" "e_uuid sample_env n \<noteq> ''u3''" if "5 \<le> n" for n
    using injD [OF sample_inj, of n 2] injD [OF sample_inj, of n 3] that by auto
  have mapped: "application_mapFromDB (hd (w_applications sample_user_world)) = Inr sample_application"
    "application_scoped sample_env (cu_Roles sample_user_input)"
    by code_simp+
  obtain err e and w' :: "unit world" where run: "CreateUser sample_env sample_user_input sample_user_world = (Inl err, w')"
      "IsAlreadyExists err" "w_faults w' = []" "w_applications w' = w_applications sample_user_world"
      "w_entries w' = w_entries sample_user_world @ [e]"
    and blocked: "\<forall>w''::unit world. w_faults w'' = [] \<and> w_applications w'' = w_applications sample_user_world \<and>
       e \<in> set (w_entries w'') \<longrightarrow>
       (\<exists>err. DeleteApplication sample_env (cu_ApplicationID sample_user_input) w'' = (Inl err, w''))"
    using duplicate_user_blocks_application [of sample_user_world sample_env sample_user_input, OF _ _ _ _ _ mapped(1) _ _ _ _ _ mapped(2),
        of "hd (w_users sample_user_world)"] fresh
    by (auto simp: sample_user_world_def sample_world_def empty_world_def sample_user_input_def sample_env_def)
  have "\<exists>err. DeleteApplication sample_env (cu_ApplicationID sample_user_input) (w'\<lparr>w_users := []\<rparr>) = (Inl err, w'\<lparr>w_users := []\<rparr>)"
    using run by (intro blocked [rule_format]) simp
  then show ?thesis using run by (auto simp: sample_user_input_def)
qed

end
