(* ===== verification/Authorization.thy ===== *)
theory Authorization
  imports Administrators Reachability
begin

text \<open>
  Authorization: the files of roles, permissions and actions
  (\<open>app/pkg/adapters/storage/infile/pipinfile\<close> and \<open>roleinfile\<close>, with the contents of
  \<open>app/include/rbac\<close>), the policy decision point (\<open>app/pkg/usecases/authorization/pdp\<close>) with its
  adapters (\<open>app/pkg/adapters/usecaseadapters/pip\<close>), and the enforcement point of the RPC interface
  (\<open>app/pkg/infra/middleware/authorization/pep\<close>).
\<close>

section \<open>The files\<close>

text \<open>What \<open>gopkg.in/yaml.v3\<close> reads from the four files.\<close>

record file_Permission =
  pe_ID :: string
  pe_Actions :: "string list"

record file_Role =
  fr_ID :: string
  fr_Scope :: string
  fr_Permissions :: "string list"

record rbac_files =
  rb_ActionsManual :: "string list"
  rb_ActionsGenerated :: "string list"
  rb_Permissions :: "file_Permission list"
  rb_Roles :: "file_Role list"

definition mergeActions :: "string list \<Rightarrow> string list \<Rightarrow> string list" where
  "mergeActions actionsOne actionsTwo = actionsOne @ actionsTwo"

definition validatePermissions :: "file_Permission list \<Rightarrow> string list \<Rightarrow> go_error + unit" where
  "validatePermissions permissions actions =
     (if list_all (\<lambda>p. list_all (\<lambda>a. a \<in> set actions) (pe_Actions p)) permissions then Inr () else Inl Internal)"

text \<open>A map that a loop fills: the last entry of a key counts.\<close>

definition filled :: "('k \<times> 'v) list \<Rightarrow> 'k \<Rightarrow> 'v option" where
  "filled entries k = map_of (rev entries) k"

fun granted_actions :: "(string \<Rightarrow> string list option) \<Rightarrow> string list \<Rightarrow> string list \<Rightarrow> go_error + string list" where
  "granted_actions permissions acc [] = Inr acc"
| "granted_actions permissions acc (p # ps) =
     (case permissions p of
        None \<Rightarrow> Inl Internal
      | Some actionsForPermission \<Rightarrow> granted_actions permissions (mergeActions acc actionsForPermission) ps)"

fun role_entries :: "(string \<Rightarrow> string list option) \<Rightarrow> file_Role list \<Rightarrow> go_error + (string \<times> string list) list" where
  "role_entries permissions [] = Inr []"
| "role_entries permissions (r # rs) =
     (case granted_actions permissions [] (fr_Permissions r) of
        Inl err \<Rightarrow> Inl err
      | Inr actions \<Rightarrow>
          (case role_entries permissions rs of Inl err \<Rightarrow> Inl err | Inr entries \<Rightarrow> Inr ((fr_ID r, actions) # entries)))"

definition loadRolesAndActions :: "rbac_files \<Rightarrow> go_error + (string \<Rightarrow> string list option)" where
  "loadRolesAndActions fs =
     (case validatePermissions (rb_Permissions fs) (mergeActions (rb_ActionsManual fs) (rb_ActionsGenerated fs)) of
        Inl err \<Rightarrow> Inl err
      | Inr _ \<Rightarrow>
          (case role_entries (filled (map (\<lambda>p. (pe_ID p, pe_Actions p)) (rb_Permissions fs))) (rb_Roles fs) of
             Inl err \<Rightarrow> Inl err
           | Inr entries \<Rightarrow> Inr (filled entries)))"

text \<open>The roles as the use cases see them.\<close>

definition ScopeAdmin :: string where "ScopeAdmin = ''admin''"

definition loadRoles :: "rbac_files \<Rightarrow> go_error + file_Role list" where
  "loadRoles fs =
     (if list_all (\<lambda>r. fr_Scope r = ScopeAdmin \<or> fr_Scope r = ScopeApplication) (rb_Roles fs) then Inr (rb_Roles fs)
      else Inl Internal)"

definition ListRoles :: "file_Role list \<Rightarrow> Role list" where
  "ListRoles roles = map (\<lambda>r. \<lparr>role_ID = fr_ID r, role_Scope = fr_Scope r\<rparr>) roles"

section \<open>The files of the distribution\<close>

text \<open>The lists of actions that occur in several of the files; two of them list a pair in the other order.\<close>

definition admin_resource_actions :: "string list" where
  "admin_resource_actions = [''admin.applications.create'', ''admin.applications.describe'', ''admin.applications.edit'',
      ''admin.applications.list'', ''admin.applications.remove'', ''admin.modules.create'',
      ''admin.modules.describe'', ''admin.modules.edit'', ''admin.modules.list'',
      ''admin.modules.remove'', ''admin.slots.create'', ''admin.slots.describe'', ''admin.slots.list'',
      ''admin.slots.remove'']"

definition admin_user_actions :: "string list" where
  "admin_user_actions = [''admin.users.create'', ''admin.users.describe'', ''admin.users.edit'', ''admin.users.list'',
      ''admin.users.remove'']"

definition application_actions :: "string list" where
  "application_actions = [''application.accounts.create'', ''application.accounts.remove'', ''application.users.create'',
      ''application.users.describe'', ''application.users.edit'', ''application.users.list'',
      ''application.users.remove'']"

definition sign_actions :: "string list" where
  "sign_actions = [''rpc.method.eth_signTransaction'', ''rpc.method.eth_signTypedData'']"

definition shipped_manual :: "string list" where
  "shipped_manual = [''rpc.method.eth_generateAccount'', ''rpc.method.eth_importAccount'',
      ''rpc.method.eth_removeAccount'', ''rpc.method.eth_accounts''] @ sign_actions"

definition shipped_generated :: "string list" where
  "shipped_generated = admin_resource_actions @ [''admin.slots.updateConfig'', ''admin.slots.updatePin''] @
     admin_user_actions @ application_actions"

definition shipped_permissions :: "file_Permission list" where
  "shipped_permissions =
     [\<lparr>pe_ID = ''allow-admin-actions'', pe_Actions = admin_resource_actions @
        [''admin.slots.updatePin'', ''admin.slots.updateConfig''] @ admin_user_actions @ application_actions\<rparr>,
      \<lparr>pe_ID = ''allow-application-admin-actions'', pe_Actions = application_actions @
        [''rpc.method.eth_generateAccount'', ''rpc.method.eth_removeAccount'', ''rpc.method.eth_importAccount'',
         ''rpc.method.eth_accounts'']\<rparr>,
      \<lparr>pe_ID = ''allow-user-transaction-sign-actions'', pe_Actions = sign_actions\<rparr>]"

definition shipped_roles :: "file_Role list" where
  "shipped_roles =
     [\<lparr>fr_ID = ''signer-admin'', fr_Scope = ''admin'', fr_Permissions = [''allow-admin-actions'']\<rparr>,
      \<lparr>fr_ID = ''application-admin'', fr_Scope = ''application'', fr_Permissions = [''allow-application-admin-actions'']\<rparr>,
      \<lparr>fr_ID = ''transaction-signer'', fr_Scope = ''application'', fr_Permissions = [''allow-user-transaction-sign-actions'']\<rparr>]"

definition shipped :: rbac_files where
  "shipped = \<lparr>rb_ActionsManual = shipped_manual, rb_ActionsGenerated = shipped_generated,
     rb_Permissions = shipped_permissions, rb_Roles = shipped_roles\<rparr>"

section \<open>The decision point\<close>

fun merged_actions :: "(string \<Rightarrow> string list option) \<Rightarrow> string list \<Rightarrow> string list \<Rightarrow> go_error + string list" where
  "merged_actions roleActionMap acc [] = Inr acc"
| "merged_actions roleActionMap acc (r # rs) =
     (case roleActionMap r of
        None \<Rightarrow> Inl InvalidArgument
      | Some acts \<Rightarrow> merged_actions roleActionMap (acc @ acts) rs)"

definition ListActions :: "(string \<Rightarrow> string list option) \<Rightarrow> string list \<Rightarrow> go_error + string list" where
  "ListActions roleActionMap roles =
     (if length roles < 1 then Inl InvalidArgument else merged_actions roleActionMap [] roles)"

record AuthorizeUserInput =
  au_UserID :: string
  au_ApplicationID :: "string option"
  au_ActionID :: string

definition GetUserRoles :: "env \<Rightarrow> string \<Rightarrow> string \<Rightarrow> ('d world, string list) prog" where
  "GetUserRoles en app ident = bindP (GetUser en app ident) (\<lambda>u. returnP (User_Roles u))"

definition GetAdminRoles :: "env \<Rightarrow> string \<Rightarrow> ('d world, string list) prog" where
  "GetAdminRoles en ident = bindP (GetAdmin en ident) (\<lambda>a. returnP (Adm_Roles a))"

definition adminActionPrefix :: string where "adminActionPrefix = ''admin.''"

definition not_authorized :: "string \<Rightarrow> go_error" where
  "not_authorized user = SetHumanReadableMessage (''action not authorized for user '' @ bracketed user) PreconditionFailed"

definition AuthorizeUser ::
    "env \<Rightarrow> (string \<Rightarrow> string list option) \<Rightarrow> AuthorizeUserInput \<Rightarrow> ('d world, unit) prog" where
  "AuthorizeUser en roleActionMap input =
     bindP (checkP (e_validate en []) (invalid_data ''couldn't validate input data'')) (\<lambda>_.
     bindP (case au_ApplicationID input of
              None \<Rightarrow> GetAdminRoles en (au_UserID input)
            | Some app \<Rightarrow>
                if app = [] then GetAdminRoles en (au_UserID input)
                else bindP (checkP (\<not> HasPrefix (au_ActionID input) adminActionPrefix) (not_authorized (au_UserID input))) (\<lambda>_.
                  GetUserRoles en app (au_UserID input))) (\<lambda>roles.
     bindP (liftP (ListActions roleActionMap roles)) (\<lambda>actions.
     checkP (au_ActionID input \<in> set actions) (not_authorized (au_UserID input)))))"

definition AuthorizeUserAccount :: "env \<Rightarrow> AccountID \<Rightarrow> ('d world, unit) prog" where
  "AuthorizeUserAccount en ident =
     bindP (checkP (e_validate en (account_fields en ident)) (invalid_data ''couldn't validate input data'')) (\<lambda>_.
     bindP (GetAccount en ident) (\<lambda>_. returnP ()))"

section \<open>The enforcement point\<close>

text \<open>
  A request as the middleware sees it: the user, the application and the action in its context, and its
  body with the parameters decoded by \<open>encoding/json\<close> as a list and as an object; \<open>None\<close> where the
  value is missing or cannot be decoded.
\<close>

record AuthorizeAccountRPCParams =
  pa_From :: string
  pa_Address :: string

record rpc_body =
  bo_Array :: "AuthorizeAccountRPCParams list option"
  bo_Object :: "AuthorizeAccountRPCParams option"

record rpc_request =
  rq_User :: "string option"
  rq_Application :: "string option"
  rq_Action :: "string option"
  rq_Body :: "rpc_body option"

datatype refusal = Forbidden | BadRequest

definition SignTransactionMethod :: string where "SignTransactionMethod = ''eth_signTransaction''"
definition SignTypedDataMethod :: string where "SignTypedDataMethod = ''eth_signTypedData''"

definition accountSigningMethods :: "(string \<times> bool) list" where
  "accountSigningMethods = [(SignTransactionMethod, False), (SignTypedDataMethod, True)]"

text \<open>The loop over the map, whose order Go leaves open, is the one over any list of its entries.\<close>

fun accountSigningField :: "(string \<times> bool) list \<Rightarrow> string \<Rightarrow> bool \<times> bool" where
  "accountSigningField [] actionID = (False, False)"
| "accountSigningField ((method, usesAddress) # rest) actionID =
     (if actionID = method \<or> HasSuffix actionID (CHR ''.'' # method) then (usesAddress, True)
      else accountSigningField rest actionID)"

definition signerAddress :: "bool \<Rightarrow> AuthorizeAccountRPCParams \<Rightarrow> string" where
  "signerAddress usesAddressParam p = (if usesAddressParam then pa_Address p else pa_From p)"

definition getAddressFromParamsArray :: "rpc_body \<Rightarrow> bool \<Rightarrow> address option" where
  "getAddressFromParamsArray body usesAddressParam =
     (case bo_Array body of
        None \<Rightarrow> None
      | Some [] \<Rightarrow> None
      | Some (p # _) \<Rightarrow> (case NewFromHexString (signerAddress usesAddressParam p) of Inl _ \<Rightarrow> None | Inr a \<Rightarrow> Some a))"

definition getAddressFromParamsObject :: "rpc_body \<Rightarrow> bool \<Rightarrow> address option" where
  "getAddressFromParamsObject body usesAddressParam =
     (case bo_Object body of
        None \<Rightarrow> None
      | Some p \<Rightarrow> (case NewFromHexString (signerAddress usesAddressParam p) of Inl _ \<Rightarrow> None | Inr a \<Rightarrow> Some a))"

text \<open>A handler in front of the next one: it refuses the request or lets it pass.\<close>

type_synonym 'd middleware = "rpc_request \<Rightarrow> 'd world \<Rightarrow> (refusal + unit) \<times> 'd world"

definition enforced :: "('d world, unit) prog \<Rightarrow> 'd world \<Rightarrow> (refusal + unit) \<times> 'd world" where
  "enforced m w = (case m w of (Inl _, w') \<Rightarrow> (Inl Forbidden, w') | (Inr _, w') \<Rightarrow> (Inr (), w'))"

definition pep_AuthorizeUser :: "env \<Rightarrow> (string \<Rightarrow> string list option) \<Rightarrow> 'd middleware" where
  "pep_AuthorizeUser en roleActionMap rq w =
     (case rq_User rq of None \<Rightarrow> (Inl Forbidden, w) | Some user \<Rightarrow>
      case rq_Action rq of None \<Rightarrow> (Inl Forbidden, w) | Some actionID \<Rightarrow>
        enforced (AuthorizeUser en roleActionMap
          \<lparr>au_UserID = user, au_ApplicationID = rq_Application rq, au_ActionID = actionID\<rparr>) w)"

definition pep_AuthorizeAccount :: "env \<Rightarrow> 'd middleware" where
  "pep_AuthorizeAccount en rq w =
     (case rq_User rq of None \<Rightarrow> (Inl Forbidden, w) | Some user \<Rightarrow>
      case rq_Application rq of None \<Rightarrow> (Inl Forbidden, w) | Some application \<Rightarrow>
      case rq_Action rq of None \<Rightarrow> (Inl Forbidden, w) | Some actionID \<Rightarrow>
      case accountSigningField accountSigningMethods actionID of (usesAddressParam, requiresAuthorization) \<Rightarrow>
      if \<not> requiresAuthorization then (Inr (), w) else
      case rq_Body rq of None \<Rightarrow> (Inl BadRequest, w) | Some body \<Rightarrow>
      case (case getAddressFromParamsArray body usesAddressParam of
              Some addr \<Rightarrow> Some addr | None \<Rightarrow> getAddressFromParamsObject body usesAddressParam) of
        None \<Rightarrow> (Inl BadRequest, w)
      | Some addr \<Rightarrow>
          enforced (AuthorizeUserAccount en \<lparr>acc_Address = addr, acc_UserID = user, acc_ApplicationID = application\<rparr>) w)"

text \<open>The chain of the RPC interface.\<close>

definition rpc_authorization :: "env \<Rightarrow> (string \<Rightarrow> string list option) \<Rightarrow> 'd middleware" where
  "rpc_authorization en roleActionMap rq w =
     (case pep_AuthorizeUser en roleActionMap rq w of
        (Inl refused, w') \<Rightarrow> (Inl refused, w')
      | (Inr _, w') \<Rightarrow> pep_AuthorizeAccount en rq w')"

section \<open>Loading\<close>

lemma granted_actions_Inr:
  "granted_actions permissions acc ps = Inr as \<Longrightarrow>
     set as = set acc \<union> (\<Union>p\<in>set ps. case permissions p of None \<Rightarrow> {} | Some xs \<Rightarrow> set xs)"
  by (induction ps arbitrary: acc) (auto simp: mergeActions_def split: option.splits)

lemma role_entries_Inr:
  "role_entries permissions rs = Inr es \<Longrightarrow> (i, as) \<in> set es \<Longrightarrow>
     \<exists>r\<in>set rs. fr_ID r = i \<and> granted_actions permissions [] (fr_Permissions r) = Inr as"
  by (induction rs arbitrary: es) (auto split: sum.splits)

lemma filled_in: "filled es k = Some v \<Longrightarrow> (k, v) \<in> set es"
  by (auto simp: filled_def dest: map_of_SomeD)

text \<open>
  C0: A policy that loads grants a role nothing but listed actions: each action of a role is one of a
  permission of a role entry of that name, and is listed among the manual or the generated actions.
\<close>

theorem loaded_grants_are_listed:
  assumes load: "loadRolesAndActions fs = Inr m" and grant: "m i = Some as" "a \<in> set as"
  shows "a \<in> set (rb_ActionsManual fs) \<union> set (rb_ActionsGenerated fs) \<and>
    (\<exists>r\<in>set (rb_Roles fs). fr_ID r = i \<and>
       (\<exists>p\<in>set (rb_Permissions fs). pe_ID p \<in> set (fr_Permissions r) \<and> a \<in> set (pe_Actions p)))"
proof -
  let ?permissions = "filled (map (\<lambda>p. (pe_ID p, pe_Actions p)) (rb_Permissions fs))"
  obtain es where valid: "validatePermissions (rb_Permissions fs) (mergeActions (rb_ActionsManual fs) (rb_ActionsGenerated fs)) = Inr ()"
      and es: "role_entries ?permissions (rb_Roles fs) = Inr es" "m = filled es"
    using load by (auto simp: loadRolesAndActions_def split: sum.splits)
  have "(i, as) \<in> set es" using grant(1) es(2) by (simp add: filled_in)
  then obtain r where r: "r \<in> set (rb_Roles fs)" "fr_ID r = i" "granted_actions ?permissions [] (fr_Permissions r) = Inr as"
    using role_entries_Inr [OF es(1)] by blast
  obtain q xs where q: "q \<in> set (fr_Permissions r)" "?permissions q = Some xs" "a \<in> set xs"
    using granted_actions_Inr [OF r(3)] grant(2) by (auto split: option.splits)
  then obtain p where p: "p \<in> set (rb_Permissions fs)" "pe_ID p = q" "pe_Actions p = xs"
    using filled_in [OF q(2)] by auto
  then show ?thesis using r q valid by (auto simp: validatePermissions_def mergeActions_def list_all_iff split: if_splits)
qed

definition shipped_map :: "string \<Rightarrow> string list option" where
  "shipped_map = (case loadRolesAndActions shipped of Inl _ \<Rightarrow> (\<lambda>_. None) | Inr m \<Rightarrow> m)"

lemma shipped_checks:
  "(case loadRolesAndActions shipped of Inl _ \<Rightarrow> False | Inr _ \<Rightarrow> True)"
  "list_all (\<lambda>r. case shipped_map (fr_ID r) of None \<Rightarrow> False | Some as \<Rightarrow>
     list_all (\<lambda>a. if fr_Scope r = ScopeApplication then \<not> HasPrefix a adminActionPrefix else \<not> HasPrefix a ''rpc.'') as) shipped_roles"
  by code_simp+

lemma shipped_loads: "loadRolesAndActions shipped = Inr shipped_map"
  using shipped_checks(1) by (auto simp: shipped_map_def split: sum.splits)

lemma shipped_signer: "shipped_map ''transaction-signer'' = Some sign_actions"
  by code_simp

lemma loaded_grants_are_listed_witness:
  "''rpc.method.eth_signTransaction'' \<in> set shipped_manual \<union> set shipped_generated"
  using loaded_grants_are_listed [OF shipped_loads shipped_signer, of "''rpc.method.eth_signTransaction''"]
  by (simp add: shipped_def sign_actions_def)

text \<open>
  C0: With the files of the distribution no role of the scope of applications grants an action of
  administrators, and no role of administrators grants a call of the RPC interface: who configures the
  signer cannot sign with it.
\<close>

theorem shipped_roles_are_separated:
  assumes load: "loadRolesAndActions shipped = Inr m" and role: "r \<in> set (rb_Roles shipped)" "m (fr_ID r) = Some as"
    and action: "a \<in> set as"
  shows "if fr_Scope r = ''application'' then \<not> HasPrefix a ''admin.'' else \<not> HasPrefix a ''rpc.''"
proof -
  have "m = shipped_map" using load shipped_loads by simp
  then show ?thesis
    using shipped_checks(2) role action
    by (auto simp: list_all_iff shipped_def ScopeApplication_def adminActionPrefix_def dest!: bspec split: if_splits)
qed

lemma shipped_roles_are_separated_witness: "\<not> HasPrefix ''rpc.method.eth_signTransaction'' ''admin.''"
  using shipped_roles_are_separated [OF shipped_loads, of "shipped_roles ! 2"] shipped_signer
  by (simp add: shipped_def shipped_roles_def sign_actions_def)

text \<open>
  Even without the guard of the decision point on the names of actions, no user of an application
  can come to hold an action of administrators: with the files of the distribution, whatever the
  operations do and whatever statements of the database fail, no role of a stored user grants one.
\<close>

theorem users_hold_no_admin_action:
  assumes steps: "(api_step en cn)\<^sup>*\<^sup>* w w'" and before: "\<forall>u\<in>set (w_users w). application_scoped en (us_Roles u)"
    and files: "loadRolesAndActions shipped = Inr m" "loadRoles shipped = Inr roles" "e_roles en = ListRoles roles"
    and u: "u \<in> set (w_users w')" "r \<in> set (us_Roles u)" "m r = Some acts" "a \<in> set acts"
  shows "\<not> HasPrefix a ''admin.''"
proof -
  have "scoped_users en w'" using scoped_steps [OF steps] before by (simp add: scoped_users_def list_all_iff)
  then obtain x where x: "supportedRole en r = Some x" "IsApplicationScoped x"
    using u(1, 2) by (fastforce simp: scoped_users_def application_scoped_def list_all_iff split: option.splits)
  then have "x \<in> set (ListRoles shipped_roles)" "role_ID x = r"
    using supportedRole_Some [OF x(1)] files(2, 3) by (auto simp: loadRoles_def shipped_def split: if_splits)
  then obtain fr where "fr \<in> set shipped_roles" "fr_ID fr = r" "fr_Scope fr = ScopeApplication"
    using x(2) by (auto simp: ListRoles_def IsApplicationScoped_def)
  moreover have "m = shipped_map" using files(1) shipped_loads by simp
  ultimately show ?thesis
    using shipped_checks(2) u(3, 4) by (fastforce simp: list_all_iff adminActionPrefix_def)
qed

lemma users_hold_no_admin_action_witness: "\<not> HasPrefix ''rpc.method.eth_signTypedData'' ''admin.''"
proof -
  let ?en = "sample_env\<lparr>e_roles := ListRoles shipped_roles\<rparr>"
  have loaded: "loadRoles shipped = Inr shipped_roles"
    by (simp add: loadRoles_def shipped_def shipped_roles_def ScopeAdmin_def ScopeApplication_def)
  have scoped: "\<forall>u\<in>set (w_users sample_user_world). application_scoped ?en (us_Roles u)"
    by (simp add: sample_user_world_def application_scoped_def supportedRole_def ListRoles_def shipped_roles_def
        IsApplicationScoped_def ScopeApplication_def)
  show ?thesis
    using users_hold_no_admin_action [OF rtranclp.rtrancl_refl [of "api_step ?en sample_connector"] scoped shipped_loads loaded,
        of "hd (w_users sample_user_world)" "''transaction-signer''"] shipped_signer
    by (simp add: sample_user_world_def sign_actions_def)
qed

section \<open>Decisions\<close>

lemma merged_actions_Inr:
  "merged_actions m acc roles = Inr as \<Longrightarrow> a \<in> set as \<Longrightarrow>
     a \<in> set acc \<or> (\<exists>r\<in>set roles. \<exists>acts. m r = Some acts \<and> a \<in> set acts)"
  by (induction roles arbitrary: acc) (fastforce split: option.splits)+

lemma ListActions_Inr:
  "ListActions m roles = Inr as \<Longrightarrow> a \<in> set as \<Longrightarrow> \<exists>r\<in>set roles. \<exists>acts. m r = Some acts \<and> a \<in> set acts"
  using merged_actions_Inr [of m "[]" roles as a] by (simp add: ListActions_def split: if_splits)

lemma single_row_found:
  "single_row f (filter sel rows) = Inr x \<Longrightarrow> \<exists>r\<in>set rows. sel r \<and> f r = Inr x"
  by (drule single_row_Inr) (auto dest: filter_eq_ConsD)

lemma GetUserRoles_Inr:
  assumes quiet: "w_faults w = []" and run: "GetUserRoles en app i w = (Inr roles, w')"
  shows "w' = w \<and> (\<exists>u\<in>set (w_users w). us_ApplicationID u = app \<and> us_ID u = i \<and> us_Roles u = roles)"
proof -
  obtain u where u: "GetUser en app i w = (Inr u, w')" "User_Roles u = roles"
    using run by (auto simp: GetUserRoles_def prog_ok)
  obtain r y where r: "filter (\<lambda>r. us_ApplicationID r = app \<and> us_ID r = i) (w_users w) = [r]" "user_mapFromDB r = Inr y"
      "u = y\<lparr>User_Accounts := User_Accounts u\<rparr>" "w' = w"
    using GetUser_Inr [OF quiet u(1)] by blast
  have "User_Roles u = us_Roles r"
    using user_mapFromDB_Inr [OF r(2)] by (subst r(3)) simp
  moreover have "r \<in> set (w_users w)" "us_ApplicationID r = app" "us_ID r = i" using r(1) by (auto dest: filter_eq_ConsD)
  ultimately show ?thesis using r(4) u(2) by metis
qed

lemma GetAdminRoles_Inr:
  assumes quiet: "w_faults w = []" and run: "GetAdminRoles en i w = (Inr roles, w')"
  shows "w' = w \<and> (\<exists>a\<in>set (w_admins w). ad_ID a = i \<and> ad_Roles a = roles)"
proof -
  have "admin_Get i w = (single_row admin_mapFromDB (filter (\<lambda>r. ad_ID r = i) (w_admins w)), w)"
    using quiet by (simp add: admin_Get_def admin_infra_Get_def prog_defs quiet_simps)
  then obtain a where a: "single_row admin_mapFromDB (filter (\<lambda>r. ad_ID r = i) (w_admins w)) = Inr a" "Adm_Roles a = roles" "w' = w"
    using run by (auto simp: GetAdminRoles_def GetAdmin_def prog_ok)
  then show ?thesis using single_row_found [OF a(1)] by (auto simp: admin_mapFromDB_def split: if_splits)
qed

text \<open>Who may do what: a user of the application, or an administrator where there is none, by a role.\<close>

definition entitled :: "(string \<Rightarrow> string list option) \<Rightarrow> 'd world \<Rightarrow> string \<Rightarrow> string option \<Rightarrow> string \<Rightarrow> bool" where
  "entitled m w user app action =
     (if app = None \<or> app = Some [] then
        list_ex (\<lambda>a. ad_ID a = user \<and> list_ex (\<lambda>r. case m r of None \<Rightarrow> False | Some acts \<Rightarrow> action \<in> set acts) (ad_Roles a)) (w_admins w)
      else \<not> HasPrefix action ''admin.'' \<and>
        list_ex (\<lambda>u. Some (us_ApplicationID u) = app \<and> us_ID u = user \<and>
          list_ex (\<lambda>r. case m r of None \<Rightarrow> False | Some acts \<Rightarrow> action \<in> set acts) (us_Roles u)) (w_users w))"

lemma AuthorizeUser_Inr:
  assumes quiet: "w_faults w = []" and run: "AuthorizeUser en m input w = (Inr u, w')"
  shows "w' = w \<and> entitled m w (au_UserID input) (au_ApplicationID input) (au_ActionID input)"
proof -
  let ?app = "au_ApplicationID input" and ?a = "au_ActionID input"
  let ?roles = "case ?app of None \<Rightarrow> GetAdminRoles en (au_UserID input)
      | Some app \<Rightarrow> if app = [] then GetAdminRoles en (au_UserID input)
          else bindP (checkP (\<not> HasPrefix ?a adminActionPrefix) (not_authorized (au_UserID input))) (\<lambda>_.
            GetUserRoles en app (au_UserID input))"
  obtain roles as where roles: "?roles w = (Inr roles, w')" and as: "ListActions m roles = Inr as" "?a \<in> set as"
    using run unfolding AuthorizeUser_def by (auto simp: prog_ok)
  obtain r acts where r: "r \<in> set roles" "m r = Some acts" "?a \<in> set acts" using ListActions_Inr [OF as] by blast
  show ?thesis
  proof (cases "?app = None \<or> ?app = Some []")
    case True
    then have "GetAdminRoles en (au_UserID input) w = (Inr roles, w')" using roles by auto
    from GetAdminRoles_Inr [OF quiet this] show ?thesis using True r by (auto simp: entitled_def list_ex_iff intro!: bexI)
  next
    case False
    then obtain app where app: "?app = Some app" "app \<noteq> []" by (cases ?app) auto
    then have "\<not> HasPrefix ?a adminActionPrefix" "GetUserRoles en app (au_UserID input) w = (Inr roles, w')"
      using roles by (auto simp: prog_ok)
    with GetUserRoles_Inr [OF quiet this(2)] show ?thesis using app r
      by (auto simp: entitled_def list_ex_iff adminActionPrefix_def intro!: bexI)
  qed
qed

text \<open>
  C24: A decision in favour of a request has a reason: a request for an application is authorized only if
  a user of that application is stored under the name of the requester and one of its roles grants the
  action, which is never one of administrators; a request without application only if an administrator
  of that name is stored and its role grants the action.  The decision changes nothing.
\<close>

theorem authorized_is_entitled:
  assumes "w_faults w = []" and "AuthorizeUser en m input w = (Inr (), w')"
  shows "w' = w \<and> entitled m w (au_UserID input) (au_ApplicationID input) (au_ActionID input)"
  by (rule AuthorizeUser_Inr [OF assms])

definition sample_map :: "string \<Rightarrow> string list option" where
  "sample_map r = (if r = ''transaction-signer'' then Some sign_actions
     else if r = ''signer-admin'' then Some [''admin.users.list''] else None)"

lemma authorized_is_entitled_witness:
  "entitled sample_map sample_admin_world ''root'' None ''admin.users.list''"
proof -
  have "AuthorizeUser sample_env sample_map
      \<lparr>au_UserID = ''root'', au_ApplicationID = None, au_ActionID = ''admin.users.list''\<rparr> sample_admin_world =
    (Inr (), sample_admin_world)"
    by code_simp
  from authorized_is_entitled [OF _ this] show ?thesis by (simp add: sample_admin_world_def empty_world_def)
qed

section \<open>Signing\<close>

definition signing_address :: "bool \<Rightarrow> rpc_body \<Rightarrow> address option" where
  "signing_address usesAddressParam body =
     (case getAddressFromParamsArray body usesAddressParam of
        Some addr \<Rightarrow> Some addr | None \<Rightarrow> getAddressFromParamsObject body usesAddressParam)"

lemma enforced_Inr: "enforced m w = (Inr u, w') \<Longrightarrow> \<exists>v. m w = (Inr v, w')"
  by (auto simp: enforced_def split: prod.splits sum.splits)

text \<open>
  The field an action signs with does not depend on the order in which the map is read: no action ends
  in both methods.
\<close>

lemma suffix_of_two:
  "HasSuffix s p \<Longrightarrow> HasSuffix s q \<Longrightarrow> length p \<le> length q \<Longrightarrow> drop (length q - length p) q = p"
proof -
  assume p: "HasSuffix s p" and q: "HasSuffix s q" and l: "length p \<le> length q"
  have n: "length q - length p + (length s - length q) = length s - length p"
    using q l by (simp add: HasSuffix_def)
  have "drop (length q - length p) q = drop (length q - length p) (drop (length s - length q) s)"
    using q by (simp add: HasSuffix_def)
  then have "drop (length q - length p) q = drop (length s - length p) s" unfolding drop_drop n .
  then show ?thesis using p by (simp add: HasSuffix_def)
qed

lemma signing_field_any_order:
  "accountSigningField (rev accountSigningMethods) a = accountSigningField accountSigningMethods a"
proof -
  have "\<not> (HasSuffix a (CHR ''.'' # SignTypedDataMethod) \<and> HasSuffix a (CHR ''.'' # SignTransactionMethod))"
    using suffix_of_two [of a "CHR ''.'' # SignTypedDataMethod" "CHR ''.'' # SignTransactionMethod"]
    by (auto simp: SignTransactionMethod_def SignTypedDataMethod_def)
  then show ?thesis
    by (auto simp: accountSigningMethods_def SignTransactionMethod_def SignTypedDataMethod_def HasSuffix_def)
qed

lemma signing_field:
  "accountSigningField accountSigningMethods a =
     (if a = SignTransactionMethod \<or> HasSuffix a (CHR ''.'' # SignTransactionMethod) then (False, True)
      else if a = SignTypedDataMethod \<or> HasSuffix a (CHR ''.'' # SignTypedDataMethod) then (True, True)
      else (False, False))"
  by (simp add: accountSigningMethods_def)

lemma pep_AuthorizeAccount_Inr:
  assumes quiet: "w_faults w = []" and run: "pep_AuthorizeAccount en rq w = (Inr u, w')"
    and action: "rq_Action rq = Some a" and signs: "accountSigningField accountSigningMethods a = (usesAddress, True)"
  shows "\<exists>user app body addr. rq_User rq = Some user \<and> rq_Application rq = Some app \<and> rq_Body rq = Some body \<and>
    signing_address usesAddress body = Some addr \<and> w' = w \<and>
    (\<exists>r\<in>set (w_accounts w). account_row en \<lparr>acc_Address = addr, acc_UserID = user, acc_ApplicationID = app\<rparr> r)"
proof -
  obtain user app body addr where rq: "rq_User rq = Some user" "rq_Application rq = Some app" "rq_Body rq = Some body"
      "signing_address usesAddress body = Some addr"
      and m: "enforced (AuthorizeUserAccount en \<lparr>acc_Address = addr, acc_UserID = user, acc_ApplicationID = app\<rparr>) w = (Inr u, w')"
    using run action signs unfolding pep_AuthorizeAccount_def signing_address_def
    by (auto split: option.splits)
  obtain v where "AuthorizeUserAccount en \<lparr>acc_Address = addr, acc_UserID = user, acc_ApplicationID = app\<rparr> w = (Inr v, w')"
    using enforced_Inr [OF m] by blast
  then obtain x where "GetAccount en \<lparr>acc_Address = addr, acc_UserID = user, acc_ApplicationID = app\<rparr> w = (Inr x, w')"
    by (auto simp: AuthorizeUserAccount_def prog_ok)
  from GetAccount_Inr [OF quiet this] show ?thesis using rq by (fastforce dest: filter_eq_ConsD)
qed

lemma rpc_authorization_Inr:
  assumes quiet: "w_faults w = []" and pass: "rpc_authorization en m rq w = (Inr (), w')"
    and action: "rq_Action rq = Some a"
    and sign: "(a = ''rpc.method.eth_signTransaction'' \<and> \<not> typed) \<or> (a = ''rpc.method.eth_signTypedData'' \<and> typed)"
  shows "w' = w \<and> (\<exists>user app body addr. rq_User rq = Some user \<and> rq_Application rq = Some app \<and> rq_Body rq = Some body \<and>
    entitled m w user (Some app) a \<and> signing_address typed body = Some addr \<and>
    (\<exists>r\<in>set (w_accounts w). ac_ApplicationID r = app \<and> ac_UserID r = user \<and>
       ac_Address r = String_of_address (e_keccak en) addr))"
proof -
  obtain w1 where user: "pep_AuthorizeUser en m rq w = (Inr (), w1)" and account: "pep_AuthorizeAccount en rq w1 = (Inr (), w')"
    using pass by (auto simp: rpc_authorization_def split: prod.splits sum.splits)
  obtain name where name: "rq_User rq = Some name"
      and "enforced (AuthorizeUser en m \<lparr>au_UserID = name, au_ApplicationID = rq_Application rq, au_ActionID = a\<rparr>) w = (Inr (), w1)"
    using user action by (auto simp: pep_AuthorizeUser_def split: option.splits)
  then have w1: "w1 = w" and granted: "entitled m w name (rq_Application rq) a"
    using enforced_Inr AuthorizeUser_Inr [OF quiet] by fastforce+
  have "accountSigningField accountSigningMethods a = (typed, True)"
    using sign unfolding signing_field
    by (elim disjE conjE) (simp_all add: SignTransactionMethod_def SignTypedDataMethod_def HasSuffix_def)
  from pep_AuthorizeAccount_Inr [OF quiet account [unfolded w1] action this] show ?thesis
    using granted name by (auto simp: account_row_def)
qed

text \<open>
  Nobody signs with the account of another: a request to sign passes the enforcement point of the
  RPC interface only if it names a user and an application, the user is stored in that application with
  a role that grants the action, and the account of the address in the field that this method signs
  with - \<open>from\<close> for transactions, \<open>address\<close> for typed data - is enabled for that very user.
\<close>

theorem signing_needs_own_account:
  assumes quiet: "w_faults w = []" and pass: "rpc_authorization en m rq w = (Inr (), w')"
    and action: "rq_Action rq = Some a"
    and sign: "(a = ''rpc.method.eth_signTransaction'' \<and> \<not> typed) \<or> (a = ''rpc.method.eth_signTypedData'' \<and> typed)"
  shows "w' = w \<and> (\<exists>user app body addr. rq_User rq = Some user \<and> rq_Application rq = Some app \<and> rq_Body rq = Some body \<and>
    entitled m w user (Some app) a \<and> signing_address typed body = Some addr \<and>
    (\<exists>r\<in>set (w_accounts w). ac_ApplicationID r = app \<and> ac_UserID r = user \<and>
       ac_Address r = String_of_address (e_keccak en) addr))"
  by (rule rpc_authorization_Inr [OF assms])

definition sample_signing_world :: "unit world" where
  "sample_signing_world = sample_user_world\<lparr>w_accounts :=
     [\<lparr>ac_InternalResourceID = ''u7'', ac_Address = ''0x0101010101010101010101010101010101010101'',
       ac_ApplicationID = ''app'', ac_UserID = ''bob'', ac_CreationDate = 3, ac_LastUpdate = 3\<rparr>]\<rparr>"

definition sample_signing_body :: rpc_body where
  "sample_signing_body = \<lparr>bo_Array = Some [\<lparr>pa_From = ''0x0101010101010101010101010101010101010101'', pa_Address = []\<rparr>],
     bo_Object = None\<rparr>"

definition sample_signing :: rpc_request where
  "sample_signing = \<lparr>rq_User = Some ''bob'', rq_Application = Some ''app'',
     rq_Action = Some ''rpc.method.eth_signTransaction'', rq_Body = Some sample_signing_body\<rparr>"

lemma sample_signing_passes:
  "rpc_authorization sample_env sample_map sample_signing sample_signing_world = (Inr (), sample_signing_world)"
  by code_simp

lemma signing_needs_own_account_witness:
  "entitled sample_map sample_signing_world ''bob'' (Some ''app'') ''rpc.method.eth_signTransaction''"
  using signing_needs_own_account [OF _ sample_signing_passes, of "''rpc.method.eth_signTransaction''" False]
  by (auto simp: sample_signing_world_def sample_user_world_def sample_world_def empty_world_def sample_signing_def)

end
