(* ===== verification/Retirement.thy ===== *)
theory Retirement
  imports Reachability "HOL-Library.Code_Target_Nat"
begin

text \<open>
  What can always be taken back: slots and accounts, which nothing depends on, can be deleted in every
  configuration the operations lead to.  For this every entry of the referential integrity table is
  shown to be sound, whatever operations ran and whatever statements failed before.
\<close>

section \<open>Properties of the entries alone\<close>

locale entries_only = configuration +
  assumes P_users: "P w \<Longrightarrow> P (put_users us w)"
begin

lemma keeps_user_rows:
  "keeps P (sql_insert w_users put_users user_clash r)" "keeps P (sql_update w_users put_users sel f)"
  by (rule keeps_other; simp add: P_faults P_users)+

lemma keeps_users: "keeps P (CreateUser en cu)" "keeps P (EditUser en eu)"
proof -
  have checked: "keeps P (validateApplicationScopedRoles en roles)" for en roles
    by (cases "application_scoped en roles") (use validate_cases keeps_throwP keeps_returnP in metis)+
  show "keeps P (CreateUser en cu)" "keeps P (EditUser en eu)"
    unfolding CreateUser_def addUserToApplicationDependency_def EditUser_def user_Add_def user_infra_Add_def
      user_infra_Get_def user_Edit_def user_infra_Edit_def user_infra_Exists_def Let_def
    by (intro checked rules keeps_gets keeps_entries keeps_user_rows)+
qed

lemma keeps_step: "api_step en cn w w' \<Longrightarrow> P w \<Longrightarrow> P w'"
  by (erule api_step_keeps)
    (rule keeps_users keeps_applications keeps_modules keeps_slots keeps_CreateAccount keeps_accounts
      keeps_EnableAccounts | assumption)+

end

definition sound_entries :: "'d world \<Rightarrow> bool" where
  "sound_entries w = list_all sound_entry (w_entries w)"

interpretation sound: entries_only sound_entries
  by unfold_locales (auto simp: sound_entries_def list_all_iff)

lemma reachable_sound: "reachable en cn dev w \<Longrightarrow> sound_entries w"
  by (erule reachable_invariant) (simp add: sound_entries_def empty_world_def, rule sound.keeps_step)

lemma sound_leaf:
  assumes "sound_entries w" and "\<not> parent_kind k" and "e \<in> set (w_entries w)"
  shows "\<not> depends_on i k e"
  using assms by (auto simp: sound_entries_def list_all_iff sound_entry_def depends_on_def)

section \<open>Removing the entries of a resource\<close>

lemma entry_All_sound:
  assumes quiet: "w_faults w = []" and sound: "sound_entries w" and all: "qu_Pagination (ef_Query f) = None"
    and clauses: "list_all (\<lambda>f. Filter_ToSQLStmt f \<noteq> None) (qu_Filters (ef_Query f))"
      "case qu_Order (ef_Query f) of None \<Rightarrow> True | Some d \<Rightarrow> Order_ToSQLStmt d \<noteq> None"
  shows "\<exists>c. entry_All f w = (Inr c, w)"
proof -
  obtain rows where rows: "entry_infra_All (f\<lparr>ef_Query := one_more (ef_Query f)\<rparr>) w = (Inr rows, w)"
      "set rows \<subseteq> set (w_entries w)"
  proof -
    let ?sel = "selects entry_column (ef_Values f) (qu_Filters (ef_Query f))"
    let ?rows = "order_rows ri_CreationDate ri_LastUpdate (qu_Order (ef_Query f)) (filter ?sel (w_entries w))"
    have "entry_infra_All (f\<lparr>ef_Query := one_more (ef_Query f)\<rparr>) w = (Inr ?rows, w)"
      using assms by (simp add: entry_infra_All_def sql_list_quiet one_more_def cut_page_def split: option.splits)
    moreover have "set ?rows \<subseteq> set (w_entries w)"
      by (auto simp: order_rows_def Let_def split: option.splits)
    ultimately show thesis by (rule that)
  qed
  have "\<exists>x. entry_mapFromDB r = Inr x" if "r \<in> set rows" for r
    using that rows(2) sound entry_mapFromDB_sound by (auto simp: sound_entries_def list_all_iff)
  then obtain g where "\<And>r. r \<in> set rows \<Longrightarrow> entry_mapFromDB r = Inr (g r)" by metis
  then have "mapSliceFromDB entry_mapFromDB rows = Inr (map g rows)" by (rule mapSliceFromDB_total)
  then show ?thesis using rows(1)
    by (simp add: entry_All_def all mapped_page_def paged_def NewUnlimitedQueryStandardCollectionPage_def prog_defs)
qed

text \<open>What \<open>govalidator\<close> says of fields that are required: they must not be empty.\<close>

definition accepts_required :: "env \<Rightarrow> bool" where
  "accepts_required en \<longleftrightarrow> (\<forall>i k. i \<noteq> [] \<and> k \<noteq> [] \<longrightarrow> e_validate en [(''required'', i), (''required'', k)])"

lemma removeEntries_ok:
  assumes quiet: "w_faults w = []" and sound: "sound_entries w" and req: "accepts_required en"
    and "i \<noteq> []" "k \<noteq> []" and free: "\<forall>e\<in>set (w_entries w). \<not> depends_on i k e"
  shows "\<exists>w'. removeEntries en i k what w = (Inr (), w')"
proof -
  have valid: "e_validate en [(''required'', i), (''required'', k)]"
    using assms(3-5) by (auto simp: accepts_required_def)
  obtain c where c: "entry_All (entry_FilterByParent i k (entry_OrderBy ''creation_date'' OrderDesc entry_Filter)) w = (Inr c, w)"
    using entry_All_sound [OF quiet sound, of "entry_FilterByParent i k (entry_OrderBy ''creation_date'' OrderDesc entry_Filter)"]
    by auto
  then have children: "ListMyChildrenEntries en i k w = (Inr c, w)"
    using valid by (simp add: ListMyChildrenEntries_def prog_defs)
  then have none: "co_Items c = []"
    using ListMyChildrenEntries_Inr [OF quiet children] free by (auto simp: depends_on_def)
  obtain d where d: "entry_All (entry_FilterByResource i k entry_Filter) w = (Inr d, w)"
    using entry_All_sound [OF quiet sound, of "entry_FilterByResource i k entry_Filter"] by auto
  then show ?thesis
    using children none valid quiet
    by (simp add: removeEntries_def DeleteMyEntriesIfAny_def entry_RemoveAllFromResource_def
        entry_infra_RemoveAllFromResource_def prog_defs quiet_simps)
qed

context resource
begin

lemma leaf_deleted:
  assumes quiet: "w_faults w = []" and sound: "sound_entries w" and req: "accepts_required en"
    and leaf: "\<not> parent_kind kind" "kind \<noteq> []" and valid: "valid en i"
    and got: "fetch en i w = (Inr x, w1)" and named: "internal x \<noteq> []"
  shows "\<exists>y r w'. delete en i w = (Inr y, w') \<and> filter (sel en i) (tab w) = [r] \<and>
    w' = put (filter (\<lambda>r. \<not> sel en i r) (tab w))
      (put_entries (filter (\<lambda>e. \<not> entry_of (row_internal r) kind e) (w_entries w)) w)"
proof -
  obtain r y where r: "filter (sel en i) (tab w) = [r]" "pick [r] = Inr y" "internal x = row_internal r"
    using fetch_row [OF quiet got] by blast
  have "w1 = w" by (rule still_eq [OF fetch_reads quiet got])
  then have got': "fetch en i w = (Inr x, w)" using got by simp
  obtain w2 where rem: "removeEntries en (internal x) kind (what en i) w = (Inr (), w2)"
    using removeEntries_ok [OF quiet sound req named leaf(2)] sound_leaf [OF sound leaf(1)] by blast
  obtain res w' where run: "delete en i w = (res, w')" by (cases "delete en i w")
  have w2: "w_faults w2 = []" "tab w2 = tab w"
    using removeEntries_Inr [OF quiet rem] quiet tab_entries by auto
  have "res = Inr y"
    using run got' rem valid w2 r
    by (simp add: delete_is bindP_def checkP_def returnP_def onErrP_def get_quiet sql_delete_quiet)
  then show ?thesis using delete_cases [OF quiet run] run r by auto
qed

end


definition sample_account :: AccountID where
  "sample_account = \<lparr>acc_Address = replicate 20 1, acc_UserID = ''bob'', acc_ApplicationID = ''app''\<rparr>"

lemma sample_address_text:
  "String_of_address (e_keccak sample_env) (replicate 20 1) = ''0x0101010101010101010101010101010101010101''"
  by code_simp

lemma sample_account_read:
  "case GetAccount sample_env sample_account (snd (CreateAccount sample_env sample_account sample_user_world)) of
     (Inl _, _) \<Rightarrow> False | (Inr _, _) \<Rightarrow> True"
  by code_simp


end
