(* ===== verification/Json.thy ===== *)
theory Json
  imports Hex_Types
begin

text \<open>
  What the program uses of Go's \<open>encoding/json\<close>: the values a text denotes, their decoding into an
  \<open>any\<close>, and the decoding into the fields of a struct, into slices and into maps.  The parser itself
  is not modelled: a request is given by the value of its text.

  A decoder takes the value its target has before and answers \<open>None\<close> for an error: the program
  drops the target of a decoding that fails.  Decoding goes on in the target, so that a key that
  occurs twice, with \<open>null\<close> the second time, keeps its first value.
\<close>

section \<open>Values\<close>

text \<open>
  A string has the text it denotes and the literal between its quotes, which \<open>json.RawMessage\<close>
  keeps; a number is its literal; an object is the list of its members as they are written.
\<close>

datatype json =
    JNull
  | JBool bool
  | JNumber string
  | JString string string
  | JArray "json list"
  | JObject "(string \<times> json) list"

text \<open>
  The values of type \<open>any\<close>: those that decoding makes, and \<open>int\<close> and \<open>int64\<close>, \<open>byte\<close>, \<open>[]byte\<close>
  and \<open>*big.Int\<close> (not nil), which Go code can put there.  A \<open>float64\<close> is the dyadic
  \<open>m * 2 ^ e\<close>.  A map is the list of the assignments made to it, of which the last for a key counts.
\<close>

datatype gvalue =
    VNil
  | VBool bool
  | VString string
  | VNumber string
  | VFloat int int
  | VInt int
  | VByte byte
  | VBytes bytes
  | VBig int
  | VSlice "gvalue list"
  | VMap "(string \<times> gvalue) list"

definition entry :: "('k \<times> 'v) list \<Rightarrow> 'k \<Rightarrow> 'v option" where
  "entry m k = map_of (rev m) k"

lemma entry_Nil [simp]: "entry [] k = None"
  by (simp add: entry_def)

lemma entry_snoc [simp]: "entry (m @ [(k, v)]) k' = (if k' = k then Some v else entry m k')"
  by (simp add: entry_def)

lemma entry_append: "entry (m @ m') k = (case entry m' k of Some v \<Rightarrow> Some v | None \<Rightarrow> entry m k)"
  by (simp add: entry_def map_add_def split: option.splits)

lemma entry_Cons: "entry ((k, v) # m) k' = (case entry m k' of Some x \<Rightarrow> Some x | None \<Rightarrow> if k' = k then Some v else None)"
  using entry_append [of "[(k, v)]" m k'] by (simp add: entry_def split: option.splits)

lemma entry_in: "entry m k = Some v \<Longrightarrow> (k, v) \<in> set m"
  by (auto simp: entry_def dest: map_of_SomeD)

section \<open>Numbers\<close>

text \<open>
  A number decodes into an \<open>any\<close> as a \<open>float64\<close> unless its value rounds to an infinity.  The parts
  of a literal are its digits with those after the point, and the exponent of ten to scale them with.
\<close>

fun split_at :: "(char \<Rightarrow> bool) \<Rightarrow> string \<Rightarrow> string \<times> string" where
  "split_at p [] = ([], [])"
| "split_at p (c # cs) = (if p c then ([], cs) else case split_at p cs of (a, b) \<Rightarrow> (c # a, b))"

definition number_parts :: "string \<Rightarrow> nat \<times> int" where
  "number_parts lit =
     (let (mantissa, exponent) = split_at (\<lambda>c. c = CHR ''e'' \<or> c = CHR ''E'') lit;
          (whole, fraction) = split_at (\<lambda>c. c = CHR ''.'') (if HOL.equal (take 1 mantissa) ''-'' then tl mantissa else mantissa);
          e = (case big_set_string False exponent of None \<Rightarrow> 0 | Some i \<Rightarrow> i)
      in (dec_val (whole @ fraction), e - int (length fraction)))"

definition float_in_range :: "string \<Rightarrow> bool" where
  "float_in_range lit =
     (case number_parts lit of (m, e) \<Rightarrow>
        m * 10 ^ nat e < (2 ^ 1024 - 2 ^ 970) * 10 ^ nat (- e))"

section \<open>Decoding into an any\<close>

text \<open>With \<open>UseNumber\<close> a number keeps its literal, and nothing can fail.\<close>

fun any_value :: "json \<Rightarrow> gvalue" where
  "any_value JNull = VNil"
| "any_value (JBool b) = VBool b"
| "any_value (JNumber lit) = VNumber lit"
| "any_value (JString txt lit) = VString txt"
| "any_value (JArray js) = VSlice (map any_value js)"
| "any_value (JObject ms) = VMap (map (\<lambda>(k, j). (k, any_value j)) ms)"

text \<open>
  Without it a number is a \<open>float64\<close>.  The program never looks at such a number, so that the model
  keeps the literal of a number in range.
\<close>

fun floats_in_range :: "json \<Rightarrow> bool" where
  "floats_in_range (JNumber lit) = float_in_range lit"
| "floats_in_range (JArray js) = list_all floats_in_range js"
| "floats_in_range (JObject ms) = list_all (\<lambda>(k, j). floats_in_range j) ms"
| "floats_in_range _ = True"

type_synonym 'a decoder = "'a \<Rightarrow> json \<Rightarrow> 'a option"

definition dec_any :: "bool \<Rightarrow> gvalue decoder" where
  "dec_any useNumber old j = (if useNumber \<or> floats_in_range j then Some (any_value j) else None)"

section \<open>Decoding into Go types\<close>

definition dec_raw :: "json option decoder" where
  "dec_raw old j = Some (Some j)"

definition dec_string :: "string decoder" where
  "dec_string old j = (case j of JNull \<Rightarrow> Some old | JString txt lit \<Rightarrow> Some txt | _ \<Rightarrow> None)"

definition dec_string_ptr :: "string option decoder" where
  "dec_string_ptr old j = (case j of JNull \<Rightarrow> Some None | JString txt lit \<Rightarrow> Some (Some txt) | _ \<Rightarrow> None)"

text \<open>
  A slice that is not nil has a length and the elements of its array, of which those beyond the
  length are not seen.  An array is decoded into the elements that are there.
\<close>

type_synonym 'a slice = "(nat \<times> 'a list) option"

definition seen :: "'a slice \<Rightarrow> 'a list" where
  "seen s = (case s of None \<Rightarrow> [] | Some (n, xs) \<Rightarrow> take n xs)"

fun dec_elems :: "'a \<Rightarrow> 'a decoder \<Rightarrow> 'a list \<Rightarrow> json list \<Rightarrow> 'a list option" where
  "dec_elems zero d olds [] = Some olds"
| "dec_elems zero d olds (j # js) =
     (case olds of
        [] \<Rightarrow> (case d zero j of None \<Rightarrow> None | Some x \<Rightarrow> map_option ((#) x) (dec_elems zero d [] js))
      | old # olds' \<Rightarrow> (case d old j of None \<Rightarrow> None | Some x \<Rightarrow> map_option ((#) x) (dec_elems zero d olds' js)))"

definition dec_slice :: "'a \<Rightarrow> 'a decoder \<Rightarrow> 'a slice decoder" where
  "dec_slice zero d old j =
     (case j of
        JNull \<Rightarrow> Some None
      | JArray [] \<Rightarrow> Some (Some (0, []))
      | JArray js \<Rightarrow> map_option (\<lambda>xs. Some (length js, xs))
          (dec_elems zero d (case old of None \<Rightarrow> [] | Some (n, xs) \<Rightarrow> xs) js)
      | _ \<Rightarrow> None)"

text \<open>The members of an object are decoded in their order.\<close>

fun dec_members :: "(string \<Rightarrow> 'a decoder) \<Rightarrow> 'a \<Rightarrow> (string \<times> json) list \<Rightarrow> 'a option" where
  "dec_members f old [] = Some old"
| "dec_members f old ((k, j) # ms) = (case f k old j of None \<Rightarrow> None | Some new \<Rightarrow> dec_members f new ms)"

text \<open>
  A key denotes the field whose name it equals up to case: of the letters that fold to an ASCII
  letter two are not ASCII, the long s and the Kelvin sign, in UTF-8.
\<close>

fun fold_name :: "string \<Rightarrow> string" where
  "fold_name [] = []"
| "fold_name (c # cs) =
     (if c = CHR 0xC5 \<and> take 1 cs = [CHR 0xBF] then CHR ''S'' # fold_name (drop 1 cs)
      else if c = CHR 0xE2 \<and> take 2 cs = [CHR 0x84, CHR 0xAA] then CHR ''K'' # fold_name (drop 2 cs)
      else (if CHR ''a'' \<le> c \<and> c \<le> CHR ''z'' then char_of ((of_char c :: nat) - 32) else c) # fold_name cs)"

definition names :: "string \<Rightarrow> string \<Rightarrow> bool" where
  "names k field = (fold_name k = fold_name field)"

definition dec_struct :: "(string \<Rightarrow> 'a decoder) \<Rightarrow> 'a decoder" where
  "dec_struct f old j =
     (case j of JNull \<Rightarrow> Some old | JObject ms \<Rightarrow> dec_members f old ms | _ \<Rightarrow> None)"

text \<open>A field: its name, how it is read and written, its decoder; and the fields of a struct.\<close>

definition field :: "string \<Rightarrow> ('a \<Rightarrow> 'b) \<Rightarrow> ('b \<Rightarrow> 'a \<Rightarrow> 'a) \<Rightarrow> 'b decoder \<Rightarrow> string \<times> 'a decoder" where
  "field name get put d = (name, \<lambda>s j. map_option (\<lambda>x. put x s) (d (get s) j))"

fun member_of :: "(string \<times> 'a decoder) list \<Rightarrow> string \<Rightarrow> 'a decoder" where
  "member_of [] k = (\<lambda>s j. Some s)"
| "member_of ((name, d) # fs) k = (if names k name then d else member_of fs k)"

definition dec_fields :: "(string \<times> 'a decoder) list \<Rightarrow> 'a decoder" where
  "dec_fields fs = dec_struct (member_of fs)"

text \<open>A map keeps its entries; every element is decoded from zero.  \<open>null\<close> makes it nil.\<close>

definition dec_map :: "'a \<Rightarrow> 'a decoder \<Rightarrow> (string \<times> 'a) list decoder" where
  "dec_map zero d old j =
     (case j of
        JNull \<Rightarrow> Some []
      | JObject ms \<Rightarrow> dec_members (\<lambda>k m j. map_option (\<lambda>x. m @ [(k, x)]) (d zero j)) old ms
      | _ \<Rightarrow> None)"

section \<open>Laws\<close>

lemma dec_members_append:
  "dec_members f old (ms @ ms') = (case dec_members f old ms of None \<Rightarrow> None | Some new \<Rightarrow> dec_members f new ms')"
  by (induction ms arbitrary: old) (auto split: option.splits)

lemma dec_elems_fresh: "dec_elems zero d [] js = Some xs \<Longrightarrow> length xs = length js \<and>
   (\<forall>i < length js. d zero (js ! i) = Some (xs ! i))"
proof (induction js arbitrary: xs)
  case (Cons j js)
  then obtain x ys where "d zero j = Some x" "dec_elems zero d [] js = Some ys" "xs = x # ys"
    by (auto split: option.splits)
  with Cons.IH [of ys] show ?case by (auto simp: less_Suc_eq_0_disj)
qed simp

text \<open>A decoded object of values has for every key the value of its last member.\<close>

lemma dec_map_any:
  "dec_members (\<lambda>k m j. map_option (\<lambda>x. m @ [(k, x)]) (dec_any True VNil j)) old ms =
     Some (old @ map (\<lambda>(k, j). (k, any_value j)) ms)"
  by (induction ms arbitrary: old) (auto simp: dec_any_def)

lemma entry_value_of: "entry (map (\<lambda>(k, j). (k, any_value j)) ms) k = map_option any_value (entry ms k)"
  by (induction ms) (auto simp: entry_Cons split: option.splits)

text \<open>A member whose key names no field of the struct changes nothing.\<close>

lemma member_of_other: "list_all (\<lambda>(name, d). \<not> names k name) fs \<Longrightarrow> member_of fs k s j = Some s"
  by (induction fs) auto

end
