(* ===== verification/Eip712.thy ===== *)
theory Eip712
  imports Json Address Go_Errors "HOL-Library.List_Lexorder"
begin

text \<open>
  EIP-712 typed data, \<open>src/app/pkg/usecases/eip712/eip712.go\<close>: the data and its decoding, the
  validation, and the digest.

  The types are a Go map, given as the list of the assignments made to it; a definition that is
  \<open>null\<close> is the nil slice \<open>None\<close>, which counts as missing everywhere except in the validation.
  The encoding of the fields follows the types and the data at once and need not end: it is a
  function of a number of steps, of which every field takes one on the way down, and \<open>None\<close> says that
  they do not suffice.  A run of Go is the result for all large enough numbers, and a run
  with no such number exhausts the stack.
\<close>

section \<open>Data\<close>

record Type =
  ty_Name :: string
  ty_Type :: string

type_synonym Types = "(string \<times> Type list option) list"

record EIP712Domain =
  do_Name :: string
  do_Version :: string
  do_ChainId :: "int option"
  do_VerifyingContract :: string
  do_Salt :: string

type_synonym EIP712Message = "(string \<times> gvalue) list"

record TypedData =
  td_Types :: Types
  td_PrimaryType :: string
  td_Domain :: EIP712Domain
  td_Message :: EIP712Message

definition zero_type :: Type where
  "zero_type = \<lparr>ty_Name = [], ty_Type = []\<rparr>"

definition zero_domain :: EIP712Domain where
  "zero_domain = \<lparr>do_Name = [], do_Version = [], do_ChainId = None, do_VerifyingContract = [], do_Salt = []\<rparr>"

definition zero_typed_data :: TypedData where
  "zero_typed_data = \<lparr>td_Types = [], td_PrimaryType = [], td_Domain = zero_domain, td_Message = []\<rparr>"

section \<open>Decoding\<close>

definition dec_Type :: "Type decoder" where
  "dec_Type = dec_fields
     [field ''name'' ty_Name (\<lambda>x. ty_Name_update (\<lambda>_. x)) dec_string,
      field ''type'' ty_Type (\<lambda>x. ty_Type_update (\<lambda>_. x)) dec_string]"

definition dec_definition :: "Type list option decoder" where
  "dec_definition old j = map_option (map_option (\<lambda>(n, xs). take n xs)) (dec_slice zero_type dec_Type None j)"

definition dec_Types :: "Types decoder" where
  "dec_Types = dec_map None dec_definition"

definition parse_chain_id :: "json \<Rightarrow> int option" where
  "parse_chain_id raw =
     (case raw of
        JString txt s \<Rightarrow>
          if HasPrefix s ''0x'' \<or> HasPrefix s ''0X'' then big_set_string True (drop 2 s)
          else big_set_string False s
      | JNumber lit \<Rightarrow> big_set_string False lit
      | _ \<Rightarrow> None)"

text \<open>
  The auxiliary struct shadows the chain id of the domain with the value as it is written; its other
  fields are those of the domain.
\<close>

definition aux_field :: "string \<Rightarrow> (EIP712Domain \<Rightarrow> string) \<Rightarrow> (string \<Rightarrow> EIP712Domain \<Rightarrow> EIP712Domain) \<Rightarrow>
    string \<times> (json option \<times> EIP712Domain) decoder" where
  "aux_field name get put = field name (\<lambda>s. get (snd s)) (\<lambda>x s. (fst s, put x (snd s))) dec_string"

definition dec_aux :: "(json option \<times> EIP712Domain) decoder" where
  "dec_aux = dec_fields
     [(''chainId'', \<lambda>s j. Some (if j = JNull then None else Some j, snd s)),
      aux_field ''name'' do_Name (\<lambda>x. do_Name_update (\<lambda>_. x)),
      aux_field ''version'' do_Version (\<lambda>x. do_Version_update (\<lambda>_. x)),
      aux_field ''verifyingContract'' do_VerifyingContract (\<lambda>x. do_VerifyingContract_update (\<lambda>_. x)),
      aux_field ''salt'' do_Salt (\<lambda>x. do_Salt_update (\<lambda>_. x))]"

definition Domain_UnmarshalJSON :: "EIP712Domain decoder" where
  "Domain_UnmarshalJSON d j =
     (case dec_aux (None, d) j of
        None \<Rightarrow> None
      | Some (None, d') \<Rightarrow> Some d'
      | Some (Some raw, d') \<Rightarrow>
          (case parse_chain_id raw of None \<Rightarrow> None | Some i \<Rightarrow> Some (d'\<lparr>do_ChainId := Some i\<rparr>)))"

definition dec_TypedData :: "TypedData decoder" where
  "dec_TypedData = dec_fields
     [field ''types'' td_Types (\<lambda>x. td_Types_update (\<lambda>_. x)) dec_Types,
      field ''primaryType'' td_PrimaryType (\<lambda>x. td_PrimaryType_update (\<lambda>_. x)) dec_string,
      field ''domain'' td_Domain (\<lambda>x. td_Domain_update (\<lambda>_. x)) Domain_UnmarshalJSON,
      field ''message'' td_Message (\<lambda>x. td_Message_update (\<lambda>_. x)) (dec_map VNil (dec_any True))]"

definition toFieldMap :: "EIP712Domain \<Rightarrow> (string \<times> gvalue) list" where
  "toFieldMap d =
     map (\<lambda>(key, val, set). (key, val)) (filter (\<lambda>(key, val, set). set)
       [(''name'', VString (do_Name d), do_Name d \<noteq> []),
        (''version'', VString (do_Version d), do_Version d \<noteq> []),
        (''chainId'', VBig (case do_ChainId d of None \<Rightarrow> 0 | Some i \<Rightarrow> i), do_ChainId d \<noteq> None),
        (''verifyingContract'', VString (do_VerifyingContract d), do_VerifyingContract d \<noteq> []),
        (''salt'', VString (do_Salt d), do_Salt d \<noteq> [])])"

definition Validate :: "TypedData \<Rightarrow> go_error option" where
  "Validate d =
     (if td_PrimaryType d = [] then Some (PlainError ''typed data primaryType must not be empty'')
      else if td_Types d = [] then Some (PlainError ''typed data types must not be empty'')
      else if entry (td_Types d) (td_PrimaryType d) = None
        then Some (PlainError ''typed data types missing a definition for primaryType'')
      else if entry (td_Types d) ''EIP712Domain'' = None
        then Some (PlainError ''typed data types missing the EIP712Domain definition'')
      else None)"

section \<open>The type hash\<close>

text \<open>\<open>t[name]\<close>, nil where it is missing, and the loop over it.\<close>

definition defined :: "Types \<Rightarrow> string \<Rightarrow> Type list option" where
  "defined t name = (case entry t name of Some fs \<Rightarrow> fs | None \<Rightarrow> None)"

definition struct_fields :: "Types \<Rightarrow> string \<Rightarrow> Type list" where
  "struct_fields t name = (case defined t name of Some fs \<Rightarrow> fs | None \<Rightarrow> [])"

definition base_type :: "string \<Rightarrow> string" where
  "base_type ty = takeWhile (\<lambda>c. c \<noteq> CHR ''['') ty"

lemma defined_in: "defined t name = Some fs \<Longrightarrow> name \<in> fst ` set t"
  by (force simp: defined_def dest: entry_in split: option.splits)

text \<open>The set of dependencies is a list without duplicates.\<close>

function findDependencies :: "Types \<Rightarrow> string \<Rightarrow> string list \<Rightarrow> string list"
  and findInFields :: "Types \<Rightarrow> Type list \<Rightarrow> string list \<Rightarrow> string list" where
  "findDependencies t primaryType deps =
     (if primaryType \<in> set deps then deps
      else case defined t primaryType of
             None \<Rightarrow> deps
           | Some fs \<Rightarrow> findInFields t fs (primaryType # deps))"
| "findInFields t [] deps = deps"
| "findInFields t (f # fs) deps =
     findInFields t fs
       (if defined t (base_type (ty_Type f)) \<noteq> None
        then findDependencies t (base_type (ty_Type f)) deps else deps)"
  by pat_completeness auto

termination
proof (relation "measures [\<lambda>x. case x of Inl (t, p, deps) \<Rightarrow> card (fst ` set t - set deps)
                                        | Inr (t, fs, deps) \<Rightarrow> card (fst ` set t - set deps),
                           \<lambda>x. case x of Inl _ \<Rightarrow> 0 | Inr (t, fs, deps) \<Rightarrow> Suc (length fs)]", goal_cases)
  case (2 t p deps fs)
  then have "fst ` set t - set (p # deps) \<subset> fst ` set t - set deps"
    using defined_in [of t p fs] by auto
  then show ?case by (simp add: psubset_card_mono)
next
  case (4 t f fs deps)
  have "findDependencies_findInFields_dom (Inl (t, p, deps)) \<Longrightarrow> set deps \<subseteq> set (findDependencies t p deps)"
    and "findDependencies_findInFields_dom (Inr (t, fs, deps)) \<Longrightarrow> set deps \<subseteq> set (findInFields t fs deps)" for t p fs deps
  proof (induction rule: findDependencies_findInFields.pinduct)
    case (1 t p deps)
    then show ?case by (auto simp: findDependencies.psimps split: option.splits)
  next
    case (2 t deps)
    then show ?case by (simp add: findInFields.psimps)
  next
    case (3 t f fs deps)
    then show ?case by (auto simp: findInFields.psimps split: if_splits)
  qed
  note extends = this(1)
  have "set deps \<subseteq> set (if defined t (base_type (ty_Type f)) \<noteq> None
        then findDependencies t (base_type (ty_Type f)) deps else deps)"
    using 4 extends by auto
  then have "fst ` set t - set (if defined t (base_type (ty_Type f)) \<noteq> None
        then findDependencies t (base_type (ty_Type f)) deps else deps) \<subseteq> fst ` set t - set deps"
    by blast
  then show ?case by (simp add: card_mono order_le_less [symmetric] del: if_split)
qed auto

declare findDependencies.simps [simp del]

definition Dependencies :: "Types \<Rightarrow> string \<Rightarrow> string list" where
  "Dependencies t primaryType = findDependencies t primaryType []"

fun encode_members :: "Type list \<Rightarrow> string" where
  "encode_members [] = []"
| "encode_members [f] = ty_Type f @ '' '' @ ty_Name f"
| "encode_members (f # fs) = ty_Type f @ '' '' @ ty_Name f @ '','' @ encode_members fs"

definition encode_definition :: "Types \<Rightarrow> string \<Rightarrow> string" where
  "encode_definition t dep = dep @ ''('' @ encode_members (struct_fields t dep) @ '')''"

text \<open>The range over the map of \<open>Dependencies\<close> gives them in any order; the text does not depend on it.\<close>

definition encode_type_of :: "Types \<Rightarrow> string \<Rightarrow> string list \<Rightarrow> string" where
  "encode_type_of t primaryType list =
     (let deps = sort list;
          deps = (if primaryType \<in> set deps then primaryType # remove1 primaryType deps else deps)
      in concat (map (encode_definition t) deps))"

definition EncodeType :: "Types \<Rightarrow> string \<Rightarrow> string" where
  "EncodeType t primaryType = encode_type_of t primaryType (Dependencies t primaryType)"

definition TypeHash :: "(bytes \<Rightarrow> bytes) \<Rightarrow> Types \<Rightarrow> string \<Rightarrow> bytes" where
  "TypeHash keccak t primaryType = keccak (bytes_of_string (EncodeType t primaryType))"

section \<open>Values\<close>

definition encodeAddress :: "gvalue \<Rightarrow> go_error + bytes" where
  "encodeAddress v =
     (case v of
        VString s \<Rightarrow>
          (case hex_decode (TrimPrefix s ''0x'') of
             (_, Some err) \<Rightarrow> Inl (PlainError ''encoding/hex'')
           | (b, None) \<Rightarrow>
               if length b \<noteq> 20 then Inl (PlainError ''invalid address length'')
               else Inr (replicate 12 0 @ b))
      | _ \<Rightarrow> Inl (PlainError ''address must be a string''))"

text \<open>\<open>int64(v)\<close> cuts off the fraction.\<close>

definition float_trunc :: "int \<Rightarrow> int \<Rightarrow> int" where
  "float_trunc m e = (if 0 \<le> e then m * 2 ^ nat e else sgn m * (\<bar>m\<bar> div 2 ^ nat (- e)))"

definition float_at_least :: "int \<Rightarrow> int \<Rightarrow> int \<Rightarrow> bool" where
  "float_at_least b m e = (if 0 \<le> e then b \<le> m * 2 ^ nat e else b * 2 ^ nat (- e) \<le> m)"

definition integer_of :: "gvalue \<Rightarrow> go_error + int" where
  "integer_of v =
     (let parsed = (\<lambda>r. case r of None \<Rightarrow> Inl (PlainError ''invalid integer value'') | Some i \<Rightarrow> Inr i) in
      case v of
        VString s \<Rightarrow>
          if HasPrefix s ''0x'' \<or> HasPrefix s ''0X'' then parsed (big_set_string True (drop 2 s))
          else parsed (big_set_string False s)
      | VNumber lit \<Rightarrow> parsed (big_set_string False lit)
      | VFloat m e \<Rightarrow>
          if float_at_least (2 ^ 53) m e then Inl (PlainError ''integer value at or above 2^53 exceeds float64 precision'')
          else Inr (float_trunc m e)
      | VInt i \<Rightarrow> Inr i
      | VBig i \<Rightarrow> Inr i
      | _ \<Rightarrow> Inl (PlainError ''unsupported integer type''))"

definition encodeInteger :: "gvalue \<Rightarrow> go_error + bytes" where
  "encodeInteger v =
     (case integer_of v of
        Inl err \<Rightarrow> Inl err
      | Inr bi \<Rightarrow>
          (let b = be_bytes (nat \<bar>bi\<bar>) in
           if bi < 0 then Inl (PlainError ''negative integers not supported in this simplified implementation'')
           else if 32 < length b then Inl (PlainError ''integer overflow'')
           else Inr (replicate (32 - length b) 0 @ b)))"

definition decodeBytes :: "gvalue \<Rightarrow> go_error + bytes" where
  "decodeBytes v =
     (case v of
        VString s \<Rightarrow>
          (case hex_decode (if HasPrefix s ''0x'' then drop 2 s else s) of
             (_, Some err) \<Rightarrow> Inl (PlainError ''encoding/hex'')
           | (b, None) \<Rightarrow> Inr b)
      | VBytes b \<Rightarrow> Inr b
      | _ \<Rightarrow> Inl (PlainError ''bytes must be a string or []byte''))"

text \<open>The fields that are neither structs nor arrays.\<close>

definition encode_atomic :: "(bytes \<Rightarrow> bytes) \<Rightarrow> string \<Rightarrow> gvalue \<Rightarrow> go_error + bytes" where
  "encode_atomic keccak fieldType v =
     (if fieldType = ''address'' then encodeAddress v
      else if fieldType = ''string'' then
        (case v of VString s \<Rightarrow> Inr (keccak (bytes_of_string s))
         | _ \<Rightarrow> Inl (PlainError ''string field requires a string value''))
      else if fieldType = ''bytes'' then
        (case decodeBytes v of Inl err \<Rightarrow> Inl err | Inr b \<Rightarrow> Inr (keccak b))
      else if fieldType = ''bool'' then
        (case v of VBool b \<Rightarrow> Inr (replicate 31 0 @ [if b then 1 else 0])
         | _ \<Rightarrow> Inl (PlainError ''bool field requires a bool value''))
      else if HasPrefix fieldType ''uint'' \<or> HasPrefix fieldType ''int'' then encodeInteger v
      else if HasPrefix fieldType ''bytes'' \<and> 5 < length fieldType then
        (case decodeBytes v of Inl err \<Rightarrow> Inl err | Inr b \<Rightarrow> Inr (copy_zeroed 32 b))
      else Inl (PlainError ''unsupported type''))"

text \<open>
  A value for a struct that is not a map is written as JSON and read back into one: this works for
  nil alone, which gives the nil map.
\<close>

definition struct_value :: "gvalue \<Rightarrow> go_error + (string \<times> gvalue) list" where
  "struct_value v =
     (case v of
        VMap m \<Rightarrow> Inr m
      | VNil \<Rightarrow> Inr []
      | _ \<Rightarrow> Inl (PlainError ''json: cannot unmarshal into Go value of type map''))"

definition elements :: "gvalue \<Rightarrow> gvalue list option" where
  "elements v = (case v of VSlice vs \<Rightarrow> Some vs | VBytes bs \<Rightarrow> Some (map VByte bs) | _ \<Rightarrow> None)"

text \<open>
  \<open>fieldType[:strings.LastIndex(fieldType, "[")]\<close>: a type that ends in a bracket and opens none cuts at
  \<open>-1\<close>, which is a panic.
\<close>

definition element_type :: "string \<Rightarrow> string option" where
  "element_type fieldType =
     (if CHR ''['' \<in> set fieldType
      then Some (rev (tl (dropWhile (\<lambda>c. c \<noteq> CHR ''['') (rev fieldType)))) else None)"

definition slice_bounds_panic :: go_error where
  "slice_bounds_panic = PlainError ''slice bounds out of range [:-1]''"

section \<open>The encoding\<close>

type_synonym 'a run = "(go_error + 'a) option"

definition andThen :: "'a run \<Rightarrow> ('a \<Rightarrow> 'b run) \<Rightarrow> 'b run" where
  "andThen m f = (case m of None \<Rightarrow> None | Some (Inl err) \<Rightarrow> Some (Inl err) | Some (Inr x) \<Rightarrow> f x)"

lemma andThen_cong [fundef_cong]:
  "m = m' \<Longrightarrow> (\<And>x. m' = Some (Inr x) \<Longrightarrow> f x = g x) \<Longrightarrow> andThen m f = andThen m' g"
  by (auto simp: andThen_def split: option.splits sum.splits)

definition field_value :: "(string \<times> gvalue) list \<Rightarrow> string \<Rightarrow> gvalue" where
  "field_value data name = (case entry data name of None \<Rightarrow> VNil | Some v \<Rightarrow> v)"

function (sequential) EncodeField :: "(bytes \<Rightarrow> bytes) \<Rightarrow> Types \<Rightarrow> nat \<Rightarrow> string \<Rightarrow> gvalue \<Rightarrow> bytes run"
  and HashStruct :: "(bytes \<Rightarrow> bytes) \<Rightarrow> Types \<Rightarrow> nat \<Rightarrow> string \<Rightarrow> (string \<times> gvalue) list \<Rightarrow> bytes run"
  and EncodeData :: "(bytes \<Rightarrow> bytes) \<Rightarrow> Types \<Rightarrow> nat \<Rightarrow> string \<Rightarrow> (string \<times> gvalue) list \<Rightarrow> bytes run"
  and encode_fields :: "(bytes \<Rightarrow> bytes) \<Rightarrow> Types \<Rightarrow> nat \<Rightarrow> Type list \<Rightarrow> (string \<times> gvalue) list \<Rightarrow> bytes run"
  and encode_elements :: "(bytes \<Rightarrow> bytes) \<Rightarrow> Types \<Rightarrow> nat \<Rightarrow> string \<Rightarrow> gvalue list \<Rightarrow> bytes run" where
  "EncodeField keccak t 0 fieldType v = None"
| "EncodeField keccak t (Suc n) fieldType v =
     (if defined t fieldType \<noteq> None then
        (case struct_value v of Inl err \<Rightarrow> Some (Inl err) | Inr m \<Rightarrow> HashStruct keccak t n fieldType m)
      else if HasSuffix fieldType '']'' then
        (case element_type fieldType of
           None \<Rightarrow> Some (Inl slice_bounds_panic)
         | Some subType \<Rightarrow>
             (case elements v of
                None \<Rightarrow> Some (Inl (PlainError ''expected slice/array''))
              | Some vs \<Rightarrow> andThen (encode_elements keccak t n subType vs) (\<lambda>enc. Some (Inr (keccak enc)))))
      else Some (encode_atomic keccak fieldType v))"
| "HashStruct keccak t n primaryType data =
     andThen (EncodeData keccak t n primaryType data) (\<lambda>enc. Some (Inr (keccak enc)))"
| "EncodeData keccak t n primaryType data =
     andThen (encode_fields keccak t n (struct_fields t primaryType) data) (\<lambda>enc.
       Some (Inr (TypeHash keccak t primaryType @ enc)))"
| "encode_fields keccak t n [] data = Some (Inr [])"
| "encode_fields keccak t n (f # fs) data =
     andThen (EncodeField keccak t n (ty_Type f) (field_value data (ty_Name f))) (\<lambda>encoded.
     andThen (encode_fields keccak t n fs data) (\<lambda>rest. Some (Inr (encoded @ rest))))"
| "encode_elements keccak t n subType [] = Some (Inr [])"
| "encode_elements keccak t n subType (v # vs) =
     andThen (EncodeField keccak t n subType v) (\<lambda>encoded.
     andThen (encode_elements keccak t n subType vs) (\<lambda>rest. Some (Inr (encoded @ rest))))"
  by pat_completeness auto

termination
  by (relation "measures
    [\<lambda>x. case x of
       Inl (Inl (k, t, n, _)) \<Rightarrow> n | Inl (Inr (k, t, n, _)) \<Rightarrow> n
     | Inr (Inl (k, t, n, _)) \<Rightarrow> n | Inr (Inr (Inl (k, t, n, _))) \<Rightarrow> n
     | Inr (Inr (Inr (k, t, n, _))) \<Rightarrow> n,
     \<lambda>x. case x of
       Inl (Inl _) \<Rightarrow> 0 | Inl (Inr _) \<Rightarrow> 3 | Inr (Inl _) \<Rightarrow> 2
     | Inr (Inr (Inl _)) \<Rightarrow> 1 | Inr (Inr (Inr _)) \<Rightarrow> 1,
     \<lambda>x. case x of
       Inr (Inr (Inl (k, t, n, fs, _))) \<Rightarrow> length fs
     | Inr (Inr (Inr (k, t, n, s, vs))) \<Rightarrow> length vs | _ \<Rightarrow> 0]") auto

definition HashTypedData :: "(bytes \<Rightarrow> bytes) \<Rightarrow> nat \<Rightarrow> TypedData \<Rightarrow> (bytes \<times> bytes) run" where
  "HashTypedData keccak n data =
     andThen (HashStruct keccak (td_Types data) n ''EIP712Domain'' (toFieldMap (td_Domain data))) (\<lambda>domainSeparator.
     andThen (HashStruct keccak (td_Types data) n (td_PrimaryType data) (td_Message data)) (\<lambda>dataHash.
     Some (Inr (dataHash, keccak ([0x19, 0x01] @ domainSeparator @ dataHash)))))"

end
