(* ===== verification/Eip712_Laws.thy ===== *)
theory Eip712_Laws
  imports Eip712 "HOL-Library.Sublist"
begin

text \<open>
  Facts about the digest of typed data: which types the text of a type names, when the encoding ends,
  what its length is, and what an equal digest says about two messages.
\<close>

section \<open>The dependencies of a type\<close>

definition refers :: "Types \<Rightarrow> (string \<times> string) set" where
  "refers t = {(p, q). defined t q \<noteq> None \<and> (\<exists>f \<in> set (struct_fields t p). base_type (ty_Type f) = q)}"

lemma find_closed:
  "set deps \<subseteq> set (findDependencies t p deps) \<and>
   (defined t p \<noteq> None \<longrightarrow> p \<in> set (findDependencies t p deps)) \<and>
   refers t `` (set (findDependencies t p deps) - set deps) \<subseteq> set (findDependencies t p deps) \<and>
   set (findDependencies t p deps) \<subseteq> set deps \<union> {x. defined t x \<noteq> None \<and> (p, x) \<in> (refers t)\<^sup>*} \<and>
   (distinct deps \<longrightarrow> distinct (findDependencies t p deps))"
  "set deps \<subseteq> set (findInFields t fs deps) \<and>
   (\<forall>f \<in> set fs. defined t (base_type (ty_Type f)) \<noteq> None \<longrightarrow> base_type (ty_Type f) \<in> set (findInFields t fs deps)) \<and>
   refers t `` (set (findInFields t fs deps) - set deps) \<subseteq> set (findInFields t fs deps) \<and>
   set (findInFields t fs deps) \<subseteq>
     set deps \<union> {x. defined t x \<noteq> None \<and> (\<exists>f \<in> set fs. defined t (base_type (ty_Type f)) \<noteq> None \<and>
        (base_type (ty_Type f), x) \<in> (refers t)\<^sup>*)} \<and>
   (distinct deps \<longrightarrow> distinct (findInFields t fs deps))"
proof (induction t p deps and t fs deps rule: findDependencies_findInFields.induct)
  case (1 t p deps)
  show ?case
  proof (cases "p \<in> set deps \<or> defined t p = None")
    case True
    then show ?thesis by (auto simp: findDependencies.simps)
  next
    case False
    then obtain fs where fs: "defined t p = Some fs" by auto
    have eq: "findDependencies t p deps = findInFields t fs (p # deps)"
      using False fs by (simp add: findDependencies.simps)
    have ih: "set (p # deps) \<subseteq> set (findInFields t fs (p # deps))"
      "\<forall>f \<in> set fs. defined t (base_type (ty_Type f)) \<noteq> None \<longrightarrow>
         base_type (ty_Type f) \<in> set (findInFields t fs (p # deps))"
      "refers t `` (set (findInFields t fs (p # deps)) - set (p # deps)) \<subseteq> set (findInFields t fs (p # deps))"
      "set (findInFields t fs (p # deps)) \<subseteq> set (p # deps) \<union> {x. defined t x \<noteq> None \<and>
         (\<exists>f \<in> set fs. defined t (base_type (ty_Type f)) \<noteq> None \<and> (base_type (ty_Type f), x) \<in> (refers t)\<^sup>*)}"
      "distinct (p # deps) \<longrightarrow> distinct (findInFields t fs (p # deps))"
      using 1 False fs by auto
    have refs: "refers t `` {p} = {q. defined t q \<noteq> None \<and> (\<exists>f \<in> set fs. base_type (ty_Type f) = q)}"
      using fs by (auto simp: refers_def struct_fields_def)
    have "(p, x) \<in> (refers t)\<^sup>*" if "f \<in> set fs" "defined t (base_type (ty_Type f)) \<noteq> None"
        "(base_type (ty_Type f), x) \<in> (refers t)\<^sup>*" for f x
      using that refs by (auto intro: converse_rtrancl_into_rtrancl)
    with ih(4) have "set (findInFields t fs (p # deps)) \<subseteq> set deps \<union> {x. defined t x \<noteq> None \<and> (p, x) \<in> (refers t)\<^sup>*}"
      using fs by auto
    moreover have "refers t `` (set (findInFields t fs (p # deps)) - set deps) \<subseteq> set (findInFields t fs (p # deps))"
    proof -
      have "set (findInFields t fs (p # deps)) - set deps \<subseteq> {p} \<union> (set (findInFields t fs (p # deps)) - set (p # deps))"
        by auto
      then have "refers t `` (set (findInFields t fs (p # deps)) - set deps) \<subseteq>
          refers t `` {p} \<union> refers t `` (set (findInFields t fs (p # deps)) - set (p # deps))" by blast
      moreover have "refers t `` {p} \<subseteq> set (findInFields t fs (p # deps))" using ih(2) refs by auto
      ultimately show ?thesis using ih(3) by blast
    qed
    ultimately show ?thesis using ih(1,5) False unfolding eq by auto
  qed
next
  case (2 t deps)
  show ?case by simp
next
  case (3 t f fs deps)
  let ?b = "base_type (ty_Type f)"
  define mid where "mid = (if defined t ?b \<noteq> None then findDependencies t ?b deps else deps)"
  have mid: "set deps \<subseteq> set mid" "defined t ?b \<noteq> None \<longrightarrow> ?b \<in> set mid"
      "refers t `` (set mid - set deps) \<subseteq> set mid"
      "set mid \<subseteq> set deps \<union> {x. defined t x \<noteq> None \<and> defined t ?b \<noteq> None \<and> (?b, x) \<in> (refers t)\<^sup>*}"
      "distinct deps \<longrightarrow> distinct mid"
    using 3(1) by (auto simp: mid_def)
  note ih = 3(2) [folded mid_def]
  have eq: "findInFields t (f # fs) deps = findInFields t fs mid" by (simp add: mid_def)
  have "refers t `` (set (findInFields t fs mid) - set deps) \<subseteq> set (findInFields t fs mid)"
  proof -
    have "set (findInFields t fs mid) - set deps \<subseteq> (set mid - set deps) \<union> (set (findInFields t fs mid) - set mid)"
      by auto
    then have "refers t `` (set (findInFields t fs mid) - set deps) \<subseteq>
        refers t `` (set mid - set deps) \<union> refers t `` (set (findInFields t fs mid) - set mid)" by blast
    with mid(3) ih show ?thesis by blast
  qed
  moreover have "set (findInFields t fs mid) \<subseteq> set deps \<union> {x. defined t x \<noteq> None \<and>
      (\<exists>f \<in> set (f # fs). defined t (base_type (ty_Type f)) \<noteq> None \<and> (base_type (ty_Type f), x) \<in> (refers t)\<^sup>*)}"
    using mid(4) ih by auto
  ultimately show ?case using mid ih unfolding eq by auto
qed

lemma Dependencies_reach:
  assumes "defined t p \<noteq> None"
  shows "set (Dependencies t p) = (refers t)\<^sup>* `` {p}" "distinct (Dependencies t p)"
proof -
  note c = find_closed(1) [of "[]" t p, folded Dependencies_def]
  show "distinct (Dependencies t p)" using c by simp
  have "x \<in> set (Dependencies t p)" if "(p, x) \<in> (refers t)\<^sup>*" for x
    using that by (induction rule: rtrancl_induct) (use c assms in auto)
  with c show "set (Dependencies t p) = (refers t)\<^sup>* `` {p}" by auto
qed

lemma Dependencies_undefined: "defined t p = None \<Longrightarrow> Dependencies t p = []"
  by (simp add: Dependencies_def findDependencies.simps)

lemma finite_reach: "defined t p \<noteq> None \<Longrightarrow> finite ((refers t)\<^sup>* `` {p})"
  using Dependencies_reach(1) [of t p] by (metis finite_set)

text \<open>
  C9: the text that is hashed for a type is the one EIP-712 prescribes: the definition of the type
  itself and then those of all types reachable through its fields, in the order of their names,
  whatever order the map of the dependencies is read in.
\<close>

theorem encodeType_is_canonical:
  assumes "defined t p \<noteq> None" and "distinct list" and "set list = set (Dependencies t p)"
  shows "encode_type_of t p list =
     concat (map (encode_definition t) (p # sorted_list_of_set ((refers t)\<^sup>* `` {p} - {p})))"
proof -
  let ?S = "(refers t)\<^sup>* `` {p}"
  have set: "set list = ?S" using assms Dependencies_reach(1) by simp
  have s: "sort list = sorted_list_of_set ?S"
    using assms(2) set by (metis sorted_list_of_set_sort_remdups distinct_remdups_id)
  have "p \<in> ?S" by simp
  then have "remove1 p (sorted_list_of_set ?S) = sorted_list_of_set (?S - {p})"
    using finite_reach [OF assms(1)] by (simp add: sorted_list_of_set_remove)
  moreover have "p \<in> set (sort list)" using set by simp
  ultimately show ?thesis by (simp add: encode_type_of_def Let_def s del: set_sort)
qed

definition mail_types :: Types where
  "mail_types =
     [(''EIP712Domain'', Some [\<lparr>ty_Name = ''name'', ty_Type = ''string''\<rparr>, \<lparr>ty_Name = ''chainId'', ty_Type = ''uint256''\<rparr>]),
      (''Person'', Some [\<lparr>ty_Name = ''name'', ty_Type = ''string''\<rparr>, \<lparr>ty_Name = ''wallet'', ty_Type = ''address''\<rparr>]),
      (''Mail'', Some [\<lparr>ty_Name = ''from'', ty_Type = ''Person''\<rparr>, \<lparr>ty_Name = ''to'', ty_Type = ''Person[]''\<rparr>,
         \<lparr>ty_Name = ''contents'', ty_Type = ''string''\<rparr>])]"

lemma mail_dependencies: "Dependencies mail_types ''Mail'' = [''Person'', ''Mail'']"
  by code_simp

lemma mail_type_text:
  "EncodeType mail_types ''Mail'' =
     ''Mail(Person from,Person[] to,string contents)Person(string name,address wallet)''"
  by code_simp

lemma encodeType_is_canonical_witness:
  "encode_type_of mail_types ''Mail'' [''Mail'', ''Person''] =
     concat (map (encode_definition mail_types)
       (''Mail'' # sorted_list_of_set ((refers mail_types)\<^sup>* `` {''Mail''} - {''Mail''})))"
proof (rule encodeType_is_canonical)
  show "defined mail_types ''Mail'' \<noteq> None"
    by (simp add: defined_def mail_types_def entry_Cons)
qed (auto simp: mail_dependencies)

section \<open>Steps\<close>

lemma andThen_Some: "andThen m f = Some r \<longleftrightarrow>
   (\<exists>err. m = Some (Inl err) \<and> r = Inl err) \<or> (\<exists>x. m = Some (Inr x) \<and> f x = Some r)"
  by (auto simp: andThen_def split: option.splits sum.splits)

lemma andThen_None: "andThen m f = None \<longleftrightarrow> m = None \<or> (\<exists>x. m = Some (Inr x) \<and> f x = None)"
  by (auto simp: andThen_def split: option.splits sum.splits)

lemma andThen_ends: "m \<noteq> None \<Longrightarrow> (\<And>x. f x \<noteq> None) \<Longrightarrow> andThen m f \<noteq> None"
  by (auto simp: andThen_None)

lemma andThen_Inr: "andThen m f = Some (Inr y) \<longleftrightarrow> (\<exists>x. m = Some (Inr x) \<and> f x = Some (Inr y))"
  by (auto simp: andThen_def split: option.splits sum.splits)

text \<open>The list loops and the struct in terms of the field encoder alone.\<close>

lemma encode_elements_mono:
  assumes "\<And>ty v r. EncodeField k t n ty v = Some r \<Longrightarrow> EncodeField k t m ty v = Some r"
  shows "encode_elements k t n ty vs = Some r \<Longrightarrow> encode_elements k t m ty vs = Some r"
  by (induction vs arbitrary: r) (auto simp: andThen_Some dest: assms)

lemma encode_fields_mono:
  assumes "\<And>ty v r. EncodeField k t n ty v = Some r \<Longrightarrow> EncodeField k t m ty v = Some r"
  shows "encode_fields k t n fs data = Some r \<Longrightarrow> encode_fields k t m fs data = Some r"
  by (induction fs arbitrary: r) (auto simp: andThen_Some dest: assms)

lemma HashStruct_mono:
  assumes "\<And>ty v r. EncodeField k t n ty v = Some r \<Longrightarrow> EncodeField k t m ty v = Some r"
  shows "HashStruct k t n p data = Some r \<Longrightarrow> HashStruct k t m p data = Some r"
proof -
  have "encode_fields k t n fs data = Some r \<Longrightarrow> encode_fields k t m fs data = Some r" for fs data r
    using assms by (rule encode_fields_mono)
  then show "HashStruct k t n p data = Some r \<Longrightarrow> HashStruct k t m p data = Some r"
    by (auto simp: andThen_Some)
qed

text \<open>More steps never change a result.\<close>

lemma EncodeField_mono:
  "EncodeField k t n ty v = Some r \<Longrightarrow> n \<le> m \<Longrightarrow> EncodeField k t m ty v = Some r"
proof (induction n arbitrary: m ty v r)
  case (Suc n)
  then obtain m' where m: "m = Suc m'" "n \<le> m'" by (cases m) auto
  then have ih: "EncodeField k t n ty v = Some r \<Longrightarrow> EncodeField k t m' ty v = Some r" for ty v r
    using Suc.IH by blast
  show ?case
    using Suc.prems(1) encode_elements_mono [OF ih] HashStruct_mono [OF ih] unfolding m(1)
    by (auto simp: andThen_Some simp del: HashStruct.simps split: if_splits option.splits sum.splits)
qed simp

lemma HashTypedData_mono:
  "HashTypedData k n d = Some r \<Longrightarrow> n \<le> m \<Longrightarrow> HashTypedData k m d = Some r"
  using HashStruct_mono [where n = n and m = m, OF EncodeField_mono]
  by (auto simp: HashTypedData_def andThen_Some simp del: HashStruct.simps)

section \<open>Termination\<close>

text \<open>
  Only a value that is missing can be followed without becoming smaller: for nil a struct goes on with
  the fields that are structs themselves.
\<close>

definition embeds :: "Types \<Rightarrow> (string \<times> string) set" where
  "embeds t = {(p, q). defined t q \<noteq> None \<and> (\<exists>f \<in> set (struct_fields t p). ty_Type f = q)}"

fun value_depth :: "gvalue \<Rightarrow> nat" where
  "value_depth (VSlice vs) = Suc (foldr max (map value_depth vs) 0)"
| "value_depth (VMap m) = Suc (foldr max (map (\<lambda>(k, v). value_depth v) m) 0)"
| "value_depth (VBytes bs) = 1"
| "value_depth v = 0"

lemma member_depth: "x \<in> set xs \<Longrightarrow> x < Suc (foldr max xs 0)"
  by (induction xs) (auto simp: less_Suc_eq_le le_max_iff_disj)

lemma value_depth_element:
  assumes "elements v = Some vs" "x \<in> set vs"
  shows "value_depth x < value_depth v"
proof (cases v)
  case (VSlice xs)
  then show ?thesis
    using assms member_depth [of "value_depth x" "map value_depth xs"] by (simp add: elements_def)
next
  case (VBytes bs)
  then have "vs = map VByte bs" using assms by (simp add: elements_def)
  then show ?thesis using assms VBytes by auto
qed (use assms in \<open>simp_all add: elements_def\<close>)

lemma value_depth_field: "value_depth (field_value m name) < value_depth (VMap m)"
proof (cases "entry m name")
  case (Some v)
  then have "value_depth v \<in> set (map (\<lambda>(k, v). value_depth v) m)"
    using entry_in [OF Some] by force
  from member_depth [OF this] show ?thesis using Some by (simp add: field_value_def)
qed (simp add: field_value_def)

lemma encode_fields_ends:
  "(\<And>f. f \<in> set fs \<Longrightarrow> EncodeField k t n (ty_Type f) (field_value data (ty_Name f)) \<noteq> None) \<Longrightarrow>
     encode_fields k t n fs data \<noteq> None"
  by (induction fs) (auto simp: andThen_None)

lemma encode_elements_ends:
  "(\<And>v. v \<in> set vs \<Longrightarrow> EncodeField k t n ty v \<noteq> None) \<Longrightarrow> encode_elements k t n ty vs \<noteq> None"
  by (induction vs) (auto simp: andThen_None)

definition steps_needed :: "Types \<Rightarrow> (string \<Rightarrow> nat) \<Rightarrow> nat \<Rightarrow> string \<Rightarrow> gvalue \<Rightarrow> nat" where
  "steps_needed t rank R ty v =
     (if v = VNil then (if defined t ty = None then 1 else rank ty + 2) else value_depth v + R + 2)"

lemma encode_fields_steps:
  assumes ih: "\<And>ty v. steps_needed t rank R ty v \<le> n \<Longrightarrow> EncodeField k t n ty v \<noteq> None"
    and rank: "\<And>p q. (p, q) \<in> embeds t \<Longrightarrow> rank q < rank p" "\<And>p. rank p \<le> R"
    and steps: "value_depth (VMap data) + R + 1 \<le> n"
  shows "encode_fields k t n fs data \<noteq> None"
proof (rule encode_fields_ends, rule ih)
  fix f
  have "rank (ty_Type f) \<le> R" by (rule rank(2))
  then show "steps_needed t rank R (ty_Type f) (field_value data (ty_Name f)) \<le> n"
    using steps value_depth_field [of data "ty_Name f"] by (auto simp: steps_needed_def)
qed

lemma EncodeField_ends:
  assumes rank: "\<And>p q. (p, q) \<in> embeds t \<Longrightarrow> rank q < rank p" "\<And>p. rank p \<le> R"
  shows "steps_needed t rank R ty v \<le> n \<Longrightarrow> EncodeField k t n ty v \<noteq> None"
proof (induction n arbitrary: ty v)
  case 0 then show ?case by (auto simp: steps_needed_def split: if_splits)
next
  case (Suc n)
  have struct: "encode_fields k t n (struct_fields t ty) data \<noteq> None"
    if v: "struct_value v = Inr data" and d: "defined t ty \<noteq> None" for data
  proof (cases "v = VNil")
    case True
    then have data: "data = []" using v by (simp add: struct_value_def)
    have "EncodeField k t n (ty_Type f) VNil \<noteq> None" if "f \<in> set (struct_fields t ty)" for f
    proof (rule Suc.IH)
      have "defined t (ty_Type f) \<noteq> None \<Longrightarrow> rank (ty_Type f) < rank ty"
        using that by (intro rank(1)) (auto simp: embeds_def)
      then show "steps_needed t rank R (ty_Type f) VNil \<le> n"
        using Suc.prems True d by (auto simp: steps_needed_def split: if_splits)
    qed
    then show ?thesis using data by (intro encode_fields_ends) (simp add: field_value_def)
  next
    case False
    then have "v = VMap data" using v by (simp add: struct_value_def split: gvalue.splits)
    then show ?thesis using Suc.prems False
      by (intro encode_fields_steps [OF Suc.IH rank]) (auto simp: steps_needed_def)
  qed
  have array: "encode_elements k t n sub vs \<noteq> None" if "elements v = Some vs" for vs sub
  proof (rule encode_elements_ends, rule Suc.IH)
    fix x assume "x \<in> set vs"
    then have "value_depth x < value_depth v" using that by (intro value_depth_element)
    moreover have "v \<noteq> VNil" using that by (auto simp: elements_def)
    moreover have "rank sub \<le> R" by (rule rank(2))
    ultimately show "steps_needed t rank R sub x \<le> n"
      using Suc.prems by (auto simp: steps_needed_def)
  qed
  have hashed: "HashStruct k t n ty m \<noteq> None" if "defined t ty \<noteq> None" "struct_value v = Inr m" for m
    unfolding HashStruct.simps EncodeData.simps
    by (intro andThen_ends struct that) simp_all
  have listed: "andThen (encode_elements k t n sub vs) (\<lambda>enc. Some (Inr (k enc))) \<noteq> None"
    if "elements v = Some vs" for vs sub
    using that by (intro andThen_ends array) simp_all
  show ?case
  proof (cases "defined t ty = None")
    case True
    with listed show ?thesis by (auto split: option.splits)
  next
    case False
    with hashed show ?thesis by (auto simp del: HashStruct.simps split: sum.splits)
  qed
qed

lemma acyclic_rank:
  assumes "acyclic (embeds t)"
  obtains rank where "\<And>p q. (p, q) \<in> embeds t \<Longrightarrow> rank q < (rank p :: nat)" "\<And>p. rank p \<le> length t"
proof
  let ?r = "\<lambda>p. card ((embeds t)\<^sup>+ `` {p})"
  have names: "(embeds t)\<^sup>+ `` {p} \<subseteq> fst ` set t" for p
  proof -
    have "q \<in> fst ` set t" if "(p, q) \<in> (embeds t)\<^sup>+" for q
      using that by (induction rule: trancl_induct) (auto simp: embeds_def dest: defined_in)
    then show ?thesis by auto
  qed
  then have fin: "finite ((embeds t)\<^sup>+ `` {p})" for p by (rule finite_subset) simp
  show "?r p \<le> length t" for p
  proof -
    have "?r p \<le> card (fst ` set t)" using names by (intro card_mono) auto
    also have "\<dots> \<le> length t" by (metis card_image_le card_length finite_set le_trans)
    finally show ?thesis .
  qed
  show "?r q < ?r p" if "(p, q) \<in> embeds t" for p q
  proof (rule psubset_card_mono [OF fin])
    have "(embeds t)\<^sup>+ `` {q} \<subseteq> (embeds t)\<^sup>+ `` {p}"
      using that by (auto intro: trancl_into_trancl2)
    moreover have "q \<in> (embeds t)\<^sup>+ `` {p}" "q \<notin> (embeds t)\<^sup>+ `` {q}"
      using that assms by (auto simp: acyclic_def)
    ultimately show "(embeds t)\<^sup>+ `` {q} \<subset> (embeds t)\<^sup>+ `` {p}" by blast
  qed
qed

text \<open>
  C10: the digest of typed data is computed in a bounded number of steps when no struct has a field,
  or a field of a field, that is a struct of its own type: as many levels as the message has and
  the chain of types can add.
\<close>

theorem hashing_terminates:
  assumes "acyclic (embeds (td_Types d))"
    and "value_depth (VMap (td_Message d)) + length (td_Types d) + 1 \<le> n"
  shows "HashTypedData k n d \<noteq> None"
proof -
  obtain rank where rank: "\<And>p q. (p, q) \<in> embeds (td_Types d) \<Longrightarrow> rank q < (rank p :: nat)"
      "\<And>p. rank p \<le> length (td_Types d)"
    using acyclic_rank [OF assms(1)] by metis
  have ends: "encode_fields k (td_Types d) n fs data \<noteq> None"
    if steps: "value_depth (VMap data) + length (td_Types d) + 1 \<le> n" for fs data
  proof (rule encode_fields_steps)
    show "EncodeField k (td_Types d) n ty v \<noteq> None"
      if "steps_needed (td_Types d) rank (length (td_Types d)) ty v \<le> n" for ty v
      using rank that by (rule EncodeField_ends)
  qed (use rank steps in auto)
  have "value_depth (VMap (toFieldMap (td_Domain d))) \<le> value_depth (VMap (td_Message d))"
    by (simp add: toFieldMap_def)
  then show ?thesis using assms(2)
    by (auto simp: HashTypedData_def andThen_None ends)
qed

section \<open>Types that contain themselves\<close>

lemma nil_struct_loops:
  assumes "\<And>p. p \<in> C \<Longrightarrow> \<exists>f fs. defined t p = Some (f # fs) \<and> ty_Type f \<in> C"
  shows "p \<in> C \<Longrightarrow> EncodeField k t n p VNil = None"
proof (induction n arbitrary: p)
  case (Suc n)
  obtain f fs where f: "defined t p = Some (f # fs)" "ty_Type f \<in> C" using assms Suc.prems by blast
  then have "EncodeField k t n (ty_Type f) VNil = None" using Suc.IH by blast
  then show ?case using f
    by (simp add: struct_value_def struct_fields_def field_value_def andThen_def)
qed simp


text \<open>A list whose end is null, as its sender would write it.\<close>

definition linked_list :: TypedData where
  "linked_list = \<lparr>td_Types = [(''EIP712Domain'', Some []),
       (''Node'', Some [\<lparr>ty_Name = ''next'', ty_Type = ''Node''\<rparr>, \<lparr>ty_Name = ''item'', ty_Type = ''uint256''\<rparr>])],
     td_PrimaryType = ''Node'', td_Domain = zero_domain,
     td_Message = [(''next'', VNil), (''item'', VNumber ''7'')]\<rparr>"


text \<open>The relation of a given set of types can be computed.\<close>

definition embeds_list :: "Types \<Rightarrow> (string \<times> string) list" where
  "embeds_list t = filter (\<lambda>(p, q). defined t q \<noteq> None)
     (concat (map (\<lambda>(p, d). case d of None \<Rightarrow> [] | Some fs \<Rightarrow> map (\<lambda>f. (p, ty_Type f)) fs) t))"

lemma embeds_listed: "embeds t \<subseteq> set (embeds_list t)"
proof (clarsimp simp: embeds_def)
  fix p d f assume d: "defined t (ty_Type f) = Some d" and f: "f \<in> set (struct_fields t p)"
  then obtain fs where "entry t p = Some (Some fs)" "f \<in> set fs"
    by (auto simp: struct_fields_def defined_def split: option.splits)
  from entry_in [OF this(1)] this(2) d show "(p, ty_Type f) \<in> set (embeds_list t)"
    by (force simp: embeds_list_def)
qed

lemma mail_embeds: "embeds_list mail_types = [(''Mail'', ''Person'')]"
  by code_simp

lemma hashing_terminates_witness:
  "HashTypedData (\<lambda>b. b) 9
     (linked_list\<lparr>td_Types := mail_types, td_PrimaryType := ''Mail'', td_Message := []\<rparr>) \<noteq> None"
proof (rule hashing_terminates)
  have "embeds mail_types \<subseteq> set [(''Mail'', ''Person'')]"
    using embeds_listed [of mail_types] by (simp only: mail_embeds)
  moreover have "acyclic (set [(''Mail'', ''Person'')])"
    by (simp add: acyclic_insert wf_acyclic)
  ultimately have "acyclic (embeds mail_types)" by (metis acyclic_subset)
  then show "acyclic (embeds (td_Types
      (linked_list\<lparr>td_Types := mail_types, td_PrimaryType := ''Mail'', td_Message := []\<rparr>)))" by simp
qed (simp add: linked_list_def mail_types_def)

section \<open>What an equal digest says\<close>

definition collision :: "(bytes \<Rightarrow> bytes) \<Rightarrow> bool" where
  "collision keccak \<longleftrightarrow> (\<exists>x y. x \<noteq> y \<and> keccak x = keccak y)"

text \<open>What the holder of a key agrees to with a value, by its type.\<close>

datatype meaning =
    MMissing
  | MText bytes
  | MBytes bytes
  | MBool bool
  | MInt int
  | MArray "meaning list"
  | MStruct "(string \<times> meaning) list"

definition atomic_meaning :: "string \<Rightarrow> gvalue \<Rightarrow> meaning" where
  "atomic_meaning ty v =
     (if ty = ''address'' then (case encodeAddress v of Inl _ \<Rightarrow> MMissing | Inr b \<Rightarrow> MBytes b)
      else if ty = ''string'' then (case v of VString s \<Rightarrow> MText (bytes_of_string s) | _ \<Rightarrow> MMissing)
      else if ty = ''bytes'' then (case decodeBytes v of Inl _ \<Rightarrow> MMissing | Inr b \<Rightarrow> MBytes b)
      else if ty = ''bool'' then (case v of VBool b \<Rightarrow> MBool b | _ \<Rightarrow> MMissing)
      else if HasPrefix ty ''uint'' \<or> HasPrefix ty ''int'' then
        (case integer_of v of Inl _ \<Rightarrow> MMissing | Inr i \<Rightarrow> MInt i)
      else (case decodeBytes v of Inl _ \<Rightarrow> MMissing | Inr b \<Rightarrow> MBytes (copy_zeroed 32 b)))"

fun meaning_of :: "Types \<Rightarrow> nat \<Rightarrow> string \<Rightarrow> gvalue \<Rightarrow> meaning" where
  "meaning_of t 0 ty v = MMissing"
| "meaning_of t (Suc n) ty v =
     (if defined t ty \<noteq> None then
        (case struct_value v of
           Inl _ \<Rightarrow> MMissing
         | Inr m \<Rightarrow> MStruct (map (\<lambda>f. (ty_Name f, meaning_of t n (ty_Type f) (field_value m (ty_Name f)))) (struct_fields t ty)))
      else if HasSuffix ty '']'' then
        (case element_type ty of
           None \<Rightarrow> MMissing
         | Some sub \<Rightarrow> (case elements v of None \<Rightarrow> MMissing | Some vs \<Rightarrow> MArray (map (meaning_of t n sub) vs)))
      else atomic_meaning ty v)"

lemma length_encodeInteger: "encodeInteger v = Inr e \<Longrightarrow> length e = 32"
  by (auto simp: encodeInteger_def Let_def split: sum.splits if_splits)

lemma length_encodeAddress: "encodeAddress v = Inr e \<Longrightarrow> length e = 32"
  by (auto simp: encodeAddress_def split: gvalue.splits prod.splits option.splits if_splits)

lemma length_encode_atomic:
  assumes "\<forall>x. length (k x) = 32" "encode_atomic k ty v = Inr e"
  shows "length e = 32"
  using assms(2) length_encodeInteger length_encodeAddress
  by (auto simp: encode_atomic_def assms(1) split: if_splits sum.splits gvalue.splits)

text \<open>Every field takes 32 bytes.\<close>

lemma length_EncodeField:
  assumes "\<forall>x. length (k x) = 32"
  shows "EncodeField k t n ty v = Some (Inr e) \<Longrightarrow> length e = 32"
  using length_encode_atomic [OF assms]
  by (cases n) (auto simp: andThen_Inr assms split: if_splits sum.splits option.splits)

lemma encodeInteger_inject: "encodeInteger v = Inr e \<Longrightarrow> encodeInteger v' = Inr e \<Longrightarrow> integer_of v = integer_of v'"
proof -
  have *: "\<exists>i. integer_of v = Inr i \<and> i = int (be_nat e)" if "encodeInteger v = Inr e" for v
    using that by (auto simp: encodeInteger_def Let_def split: sum.splits if_splits)
  show "encodeInteger v = Inr e \<Longrightarrow> encodeInteger v' = Inr e \<Longrightarrow> integer_of v = integer_of v'"
    using * [of v] * [of v'] by auto
qed

lemma collisionI: "k x = k y \<Longrightarrow> x = y \<or> collision k"
  by (auto simp: collision_def)

lemma atomic_determined:
  assumes "encode_atomic k ty v = Inr e" "encode_atomic k ty v' = Inr e"
  shows "collision k \<or> atomic_meaning ty v = atomic_meaning ty v'"
proof -
  have int: "encodeInteger v = Inr e \<Longrightarrow> encodeInteger v' = Inr e \<Longrightarrow> integer_of v = integer_of v'"
    by (rule encodeInteger_inject)
  show ?thesis
    using assms int unfolding encode_atomic_def atomic_meaning_def
    by (auto split: if_splits gvalue.splits sum.splits dest: collisionI)
qed

definition determines :: "(bytes \<Rightarrow> bytes) \<Rightarrow> Types \<Rightarrow> nat \<Rightarrow> bool" where
  "determines k t n \<longleftrightarrow>
     (\<forall>ty v v' e. EncodeField k t n ty v = Some (Inr e) \<longrightarrow> EncodeField k t n ty v' = Some (Inr e) \<longrightarrow>
        collision k \<or> meaning_of t n ty v = meaning_of t n ty v')"

lemma determinesD:
  "determines k t n \<Longrightarrow> EncodeField k t n ty v = Some (Inr e) \<Longrightarrow> EncodeField k t n ty v' = Some (Inr e) \<Longrightarrow>
     collision k \<or> meaning_of t n ty v = meaning_of t n ty v'"
  by (simp add: determines_def)

lemma elements_determined:
  assumes k: "\<forall>x. length (k x) = 32"
    and ih: "determines k t n"
  shows "encode_elements k t n ty vs = Some (Inr e) \<Longrightarrow> encode_elements k t n ty vs' = Some (Inr e) \<Longrightarrow>
     collision k \<or> map (meaning_of t n ty) vs = map (meaning_of t n ty) vs'"
proof (induction vs arbitrary: vs' e)
  case Nil
  then have "e = []" by simp
  then show ?case using Nil length_EncodeField [OF k, of t n ty]
    by (cases vs') (force simp: andThen_Inr)+
next
  case (Cons v vs)
  then obtain a rest where v: "EncodeField k t n ty v = Some (Inr a)" "encode_elements k t n ty vs = Some (Inr rest)"
      "e = a @ rest" by (auto simp: andThen_Inr)
  have a: "length a = 32" using length_EncodeField [OF k v(1)] .
  then obtain v' ws where vs': "vs' = v' # ws" using Cons.prems(2) v(3) by (cases vs') auto
  then obtain a' rest' where v': "EncodeField k t n ty v' = Some (Inr a')" "encode_elements k t n ty ws = Some (Inr rest')"
      "e = a' @ rest'" using Cons.prems(2) by (auto simp: andThen_Inr)
  have "a = a' \<and> rest = rest'" using a length_EncodeField [OF k v'(1)] v(3) v'(3) by simp
  then show ?case using determinesD [OF ih v(1), of v'] Cons.IH [of rest ws] v v' vs' by auto
qed

lemma fields_determined:
  assumes k: "\<forall>x. length (k x) = 32"
    and ih: "determines k t n"
  shows "encode_fields k t n fs m = Some (Inr e) \<Longrightarrow> encode_fields k t n fs m' = Some (Inr e) \<Longrightarrow>
     collision k \<or> (\<forall>f \<in> set fs. meaning_of t n (ty_Type f) (field_value m (ty_Name f)) =
       meaning_of t n (ty_Type f) (field_value m' (ty_Name f)))"
proof (induction fs arbitrary: e)
  case (Cons f fs)
  let ?v = "field_value m (ty_Name f)" and ?v' = "field_value m' (ty_Name f)"
  obtain a rest where v: "EncodeField k t n (ty_Type f) ?v = Some (Inr a)" "encode_fields k t n fs m = Some (Inr rest)"
      "e = a @ rest" using Cons.prems(1) by (auto simp: andThen_Inr)
  obtain a' rest' where v': "EncodeField k t n (ty_Type f) ?v' = Some (Inr a')"
      "encode_fields k t n fs m' = Some (Inr rest')" "e = a' @ rest'"
    using Cons.prems(2) by (auto simp: andThen_Inr)
  have "a = a' \<and> rest = rest'"
    using length_EncodeField [OF k v(1)] length_EncodeField [OF k v'(1)] v(3) v'(3) by simp
  then show ?case using determinesD [OF ih v(1), of ?v'] Cons.IH [of rest] v v' by auto
qed simp

lemma HashStruct_determined:
  assumes k: "\<forall>x. length (k x) = 32"
    and ih: "determines k t n"
    and h: "HashStruct k t n p m = Some (Inr e)" "HashStruct k t n p m' = Some (Inr e)"
  shows "collision k \<or> (\<forall>f \<in> set (struct_fields t p). meaning_of t n (ty_Type f) (field_value m (ty_Name f)) =
       meaning_of t n (ty_Type f) (field_value m' (ty_Name f)))"
proof -
  obtain b where b: "encode_fields k t n (struct_fields t p) m = Some (Inr b)" "e = k (TypeHash k t p @ b)"
    using h(1) by (auto simp: andThen_Inr)
  obtain b' where b': "encode_fields k t n (struct_fields t p) m' = Some (Inr b')" "e = k (TypeHash k t p @ b')"
    using h(2) by (auto simp: andThen_Inr)
  have "TypeHash k t p @ b = TypeHash k t p @ b' \<or> collision k"
    using b(2) b'(2) by (intro collisionI) simp
  then show ?thesis using fields_determined [OF k ih b(1)] b'(1) by auto
qed

text \<open>Two values with the same encoding for a type mean the same, or the hash function has a collision.\<close>

lemma EncodeField_determined:
  assumes k: "\<forall>x. length (k x) = 32"
  shows "EncodeField k t n ty v = Some (Inr e) \<Longrightarrow> EncodeField k t n ty v' = Some (Inr e) \<Longrightarrow>
     collision k \<or> meaning_of t n ty v = meaning_of t n ty v'"
proof (induction n arbitrary: ty v v' e)
  case (Suc n)
  have ih: "determines k t n" using Suc.IH by (auto simp: determines_def)
  show ?case
  proof (cases "defined t ty = None")
    case False
    then obtain m m' where "struct_value v = Inr m" "struct_value v' = Inr m'"
        "HashStruct k t n ty m = Some (Inr e)" "HashStruct k t n ty m' = Some (Inr e)"
      using Suc.prems by (auto simp del: HashStruct.simps split: sum.splits)
    then show ?thesis using HashStruct_determined [OF k ih, of ty m e m'] False by auto
  next
    case atomic: True
    show ?thesis
    proof (cases "HasSuffix ty '']''")
      case False
      then show ?thesis using Suc.prems atomic atomic_determined [of k ty v e v'] by auto
    next
      case True
      then obtain sub where sub: "element_type ty = Some sub"
        using Suc.prems(1) atomic by (auto split: option.splits)
      obtain vs b where vs: "elements v = Some vs" "encode_elements k t n sub vs = Some (Inr b)" "e = k b"
        using Suc.prems(1) atomic True sub by (auto simp: andThen_Inr split: option.splits)
      obtain vs' b' where vs': "elements v' = Some vs'" "encode_elements k t n sub vs' = Some (Inr b')" "e = k b'"
        using Suc.prems(2) atomic True sub by (auto simp: andThen_Inr split: option.splits)
      have "b = b' \<or> collision k" using vs(3) vs'(3) by (intro collisionI) simp
      then show ?thesis
        using elements_determined [OF k ih vs(2), of vs'] vs(1) vs' atomic True sub by auto
    qed
  qed
qed simp


definition note_types :: Types where
  "note_types = [(''EIP712Domain'', Some [\<lparr>ty_Name = ''chainId'', ty_Type = ''uint256''\<rparr>]),
     (''Note'', Some [\<lparr>ty_Name = ''item'', ty_Type = ''uint256''\<rparr>])]"

definition note_data :: "gvalue \<Rightarrow> TypedData" where
  "note_data v = \<lparr>td_Types = note_types, td_PrimaryType = ''Note'', td_Domain = zero_domain\<lparr>do_ChainId := Some 5\<rparr>,
     td_Message = [(''item'', v)]\<rparr>"

lemma note_defined:
  "defined note_types ''EIP712Domain'' = Some [\<lparr>ty_Name = ''chainId'', ty_Type = ''uint256''\<rparr>]"
  "defined note_types ''Note'' = Some [\<lparr>ty_Name = ''item'', ty_Type = ''uint256''\<rparr>]"
  "defined note_types ''uint256'' = None"
  by (simp_all add: defined_def note_types_def entry_Cons)

lemma uint256_word:
  "encode_atomic k ''uint256'' v = encodeInteger v" "\<not> HasSuffix ''uint256'' '']''"
  by (simp_all add: encode_atomic_def HasPrefix_def HasSuffix_def)

lemma be_bytes_small: "0 < i \<Longrightarrow> i < 256 \<Longrightarrow> be_bytes i = [word_of_nat i]"
  by (subst be_bytes.simps) simp

lemma integer_7: "integer_of (VNumber ''7'') = Inr 7" "integer_of (VString ''0x07'') = Inr 7"
  by code_simp+

lemma note_hash:
  assumes "integer_of v = Inr 7"
  shows "HashTypedData k (Suc 0) (note_data v) = Some (Inr
    (k (TypeHash k note_types ''Note'' @ be_fixed 32 7),
     k ([0x19, 0x01] @ k (TypeHash k note_types ''EIP712Domain'' @ be_fixed 32 5) @
       k (TypeHash k note_types ''Note'' @ be_fixed 32 7))))"
proof -
  have i: "encodeInteger v = Inr (be_fixed 32 7)" "encodeInteger (VBig 5) = Inr (be_fixed 32 5)"
    using assms by (simp_all add: encodeInteger_def integer_of_def Let_def be_bytes_small be_fixed_pad)
  show ?thesis
    by (simp add: HashTypedData_def note_data_def struct_fields_def note_defined andThen_def field_value_def
        entry_Cons toFieldMap_def zero_domain_def uint256_word i)
qed


section \<open>What the encoding lets through\<close>

text \<open>
  A value for one of the types bytes1 to bytes32 is not held to the length of its type: what goes
  beyond 32 bytes is cut off, and shorter values are filled up with zeros.
\<close>

lemma bytesN_ignores_length:
  assumes "HasPrefix ty ''bytes''" "5 < length ty" "length b = 32"
    and "decodeBytes v = Inr b" "decodeBytes v' = Inr (b @ excess)"
  shows "encode_atomic k ty v = encode_atomic k ty v'"
proof -
  have "ty \<noteq> ''address'' \<and> ty \<noteq> ''string'' \<and> ty \<noteq> ''bytes'' \<and> ty \<noteq> ''bool'' \<and>
      \<not> HasPrefix ty ''uint'' \<and> \<not> HasPrefix ty ''int''"
  proof -
    have "take (length ''bytes'') ty = ''bytes''" using assms(1) by (simp only: HasPrefix_def)
    then have "ty = ''bytes'' @ drop (length ''bytes'') ty" by (metis append_take_drop_id)
    then obtain c where "ty = ''bytes'' @ c" ..
    then show ?thesis using assms(2) by (auto simp: HasPrefix_def)
  qed
  then show ?thesis using assms by (simp add: encode_atomic_def copy_zeroed_def)
qed

text \<open>
  The integer types are not held to their width.
\<close>

lemma uint8_holds_256: "encode_atomic k ''uint8'' (VInt 256) = Inr (be_fixed 32 256)"
proof -
  have "be_bytes (256 :: nat) = [1, 0]" by (simp add: be_bytes.simps)
  then show ?thesis
    by (simp add: encode_atomic_def HasPrefix_def encodeInteger_def integer_of_def Let_def be_fixed_pad)
qed

text \<open>
  the validation does not keep a degenerate structure from being hashed, as it means to: where the
  definition of the primary type is given as null, every message has the same digest.
\<close>

theorem null_definition_signs_nothing:
  assumes "entry (td_Types d) (td_PrimaryType d) = Some None" and "td_PrimaryType d \<noteq> []"
    and "entry (td_Types d) ''EIP712Domain'' \<noteq> None"
  shows "Validate (d\<lparr>td_Message := m\<rparr>) = None \<and>
    HashTypedData k n (d\<lparr>td_Message := m\<rparr>) = HashTypedData k n d"
proof -
  have "td_Types d \<noteq> []" using assms(1) by auto
  moreover have "struct_fields (td_Types d) (td_PrimaryType d) = []"
    using assms(1) by (simp add: struct_fields_def defined_def)
  ultimately show ?thesis using assms by (auto simp: Validate_def HashTypedData_def)
qed

lemma null_definition_signs_nothing_witness:
  "Validate (\<lparr>td_Types = [(''EIP712Domain'', Some []), (''Note'', None)], td_PrimaryType = ''Note'',
     td_Domain = zero_domain, td_Message = [(''item'', VInt 7)]\<rparr>) = None"
  using null_definition_signs_nothing [of "\<lparr>td_Types = [(''EIP712Domain'', Some []), (''Note'', None)],
     td_PrimaryType = ''Note'', td_Domain = zero_domain, td_Message = []\<rparr>" "[(''item'', VInt 7)]"]
  by (simp add: entry_Cons)

end
