(* ===== verification/Eip712_Accepts.thy ===== *)
theory Eip712_Accepts
  imports Eip712_Laws
begin

text \<open>
  Which data can be signed: the values of a type, in terms of the values alone, and the theorem that the
  encoding succeeds for them and for no others.
\<close>

definition hex_text :: "string \<Rightarrow> bool" where
  "hex_text s = (list_all IsHexCharacter s \<and> even (length s))"

definition unprefixed :: "string \<Rightarrow> string" where
  "unprefixed s = TrimPrefix s ''0x''"

definition is_bytes :: "gvalue \<Rightarrow> bool" where
  "is_bytes v = (case v of VString s \<Rightarrow> hex_text (unprefixed s) | VBytes b \<Rightarrow> True | _ \<Rightarrow> False)"

definition atomic_value :: "string \<Rightarrow> gvalue \<Rightarrow> bool" where
  "atomic_value ty v =
     (if ty = ''address'' then
        (case v of VString s \<Rightarrow> hex_text (unprefixed s) \<and> length (unprefixed s) = 40 | _ \<Rightarrow> False)
      else if ty = ''string'' then (case v of VString s \<Rightarrow> True | _ \<Rightarrow> False)
      else if ty = ''bytes'' then is_bytes v
      else if ty = ''bool'' then (case v of VBool b \<Rightarrow> True | _ \<Rightarrow> False)
      else if HasPrefix ty ''uint'' \<or> HasPrefix ty ''int'' then
        (case integer_of v of Inl _ \<Rightarrow> False | Inr i \<Rightarrow> 0 \<le> i \<and> i < 2 ^ 256)
      else HasPrefix ty ''bytes'' \<and> 5 < length ty \<and> is_bytes v)"

fun conforms :: "Types \<Rightarrow> nat \<Rightarrow> string \<Rightarrow> gvalue \<Rightarrow> bool" where
  "conforms t 0 ty v = False"
| "conforms t (Suc n) ty v =
     (if defined t ty \<noteq> None then
        (case v of
           VMap m \<Rightarrow> list_all (\<lambda>f. conforms t n (ty_Type f) (field_value m (ty_Name f))) (struct_fields t ty)
         | VNil \<Rightarrow> list_all (\<lambda>f. conforms t n (ty_Type f) VNil) (struct_fields t ty)
         | _ \<Rightarrow> False)
      else if HasSuffix ty '']'' then
        (case element_type ty of
           None \<Rightarrow> False
         | Some sub \<Rightarrow> (case elements v of None \<Rightarrow> False | Some vs \<Rightarrow> list_all (conforms t n sub) vs))
      else atomic_value ty v)"

lemma hex_decode_accepts: "snd (hex_decode s) = None \<longleftrightarrow> hex_text s"
  by (simp add: hex_decode_ok_iff hex_text_def)

lemma prefix_unprefixed: "(if HasPrefix s ''0x'' then drop 2 s else s) = unprefixed s"
proof -
  have "Suc (Suc 0) \<le> length s" if "take (Suc (Suc 0)) s = ''0x''"
    using arg_cong [OF that, of length] by simp
  then show ?thesis by (auto simp: HasPrefix_def unprefixed_def TrimPrefix_def numeral_2_eq_2)
qed

lemma decodeBytes_accepts: "(\<exists>b. decodeBytes v = Inr b) \<longleftrightarrow> is_bytes v"
  by (cases v) (auto simp: decodeBytes_def is_bytes_def prefix_unprefixed hex_decode_accepts [symmetric]
      split: prod.splits option.splits)

lemma encodeAddress_accepts:
  "(\<exists>e. encodeAddress v = Inr e) \<longleftrightarrow>
     (case v of VString s \<Rightarrow> hex_text (unprefixed s) \<and> length (unprefixed s) = 40 | _ \<Rightarrow> False)"
proof (cases v)
  case (VString s)
  obtain b err where d: "hex_decode (unprefixed s) = (b, err)" by fastforce
  have "length (unprefixed s) = 40 \<longleftrightarrow> length b = 20" if "err = None"
    using hex_decode_length [of "unprefixed s" b] d that by auto
  then show ?thesis
    using VString d by (auto simp: encodeAddress_def unprefixed_def [symmetric] hex_decode_accepts [symmetric] split: option.splits)
qed (simp_all add: encodeAddress_def)

lemma be_bytes_fits: "0 \<le> i \<Longrightarrow> 32 < length (be_bytes (nat i)) \<longleftrightarrow> \<not> i < 2 ^ 256"
proof -
  have "(256 :: nat) ^ 32 = 2 ^ 256" by simp
  then have "length (be_bytes (nat i)) \<le> 32 \<longleftrightarrow> nat i < 2 ^ 256" by (simp only: length_be_bytes_iff)
  then show "0 \<le> i \<Longrightarrow> ?thesis" by auto
qed

lemma encodeInteger_accepts:
  "(\<exists>e. encodeInteger v = Inr e) \<longleftrightarrow>
     (case integer_of v of Inl _ \<Rightarrow> False | Inr i \<Rightarrow> 0 \<le> i \<and> i < 2 ^ 256)"
proof (cases "integer_of v")
  case (Inr i)
  then show ?thesis using be_bytes_fits [of i] by (auto simp: encodeInteger_def Let_def)
qed (simp add: encodeInteger_def)

lemma Ex_if: "(\<exists>e. (if b then x else y) = Inr e) \<longleftrightarrow> (if b then \<exists>e. x = Inr e else \<exists>e. y = Inr e)"
  by simp

lemma Ex_decoded: "(\<exists>e. (case decodeBytes v of Inl err \<Rightarrow> Inl err | Inr b \<Rightarrow> Inr (f b)) = Inr e) \<longleftrightarrow> is_bytes v"
  by (auto simp: decodeBytes_accepts [symmetric] split: sum.splits)

lemma Ex_text:
  "(\<exists>e. (case v of VString s \<Rightarrow> Inr (f s) | _ \<Rightarrow> Inl err) = Inr e) \<longleftrightarrow> (case v of VString s \<Rightarrow> True | _ \<Rightarrow> False)"
  "(\<exists>e. (case v of VBool b \<Rightarrow> Inr (g b) | _ \<Rightarrow> Inl err) = Inr e) \<longleftrightarrow> (case v of VBool b \<Rightarrow> True | _ \<Rightarrow> False)"
  by (cases v; simp)+

lemma encode_atomic_accepts: "(\<exists>e. encode_atomic k ty v = Inr e) \<longleftrightarrow> atomic_value ty v"
  unfolding encode_atomic_def atomic_value_def Ex_if Ex_decoded Ex_text encodeAddress_accepts encodeInteger_accepts
  by (simp only: sum.distinct conj_assoc if_bool_eq_disj simp_thms)

lemma encode_fields_accepts:
  assumes "\<And>ty v. (\<exists>e. EncodeField k t n ty v = Some (Inr e)) \<longleftrightarrow> conforms t n ty v"
  shows "(\<exists>e. encode_fields k t n fs m = Some (Inr e)) \<longleftrightarrow>
     list_all (\<lambda>f. conforms t n (ty_Type f) (field_value m (ty_Name f))) fs"
  using assms by (induction fs) (auto simp: andThen_Inr)

lemma encode_elements_accepts:
  assumes "\<And>ty v. (\<exists>e. EncodeField k t n ty v = Some (Inr e)) \<longleftrightarrow> conforms t n ty v"
  shows "(\<exists>e. encode_elements k t n ty vs = Some (Inr e)) \<longleftrightarrow> list_all (conforms t n ty) vs"
  using assms by (induction vs) (auto simp: andThen_Inr)

lemma HashStruct_encodes: "(\<exists>e. HashStruct k t n p m = Some (Inr e)) \<longleftrightarrow> (\<exists>e. encode_fields k t n (struct_fields t p) m = Some (Inr e))"
  by (auto simp: andThen_Inr)

lemma EncodeField_accepts: "(\<exists>e. EncodeField k t n ty v = Some (Inr e)) \<longleftrightarrow> conforms t n ty v"
proof (induction n arbitrary: ty v)
  case (Suc n)
  note struct = HashStruct_encodes [of k t n ty] encode_fields_accepts [OF Suc, of "struct_fields t ty"]
  show ?case
  proof (cases "defined t ty = None")
    case False
    then show ?thesis
      by (auto simp: struct struct_value_def field_value_def entry_def simp del: HashStruct.simps split: gvalue.splits)
  next
    case True
    then show ?thesis
      using encode_elements_accepts [OF Suc] encode_atomic_accepts [of k ty v]
      by (auto simp: andThen_Inr split: option.splits)
  qed
qed simp


end
