(* ===== verification/Sign_Typed.thy ===== *)
theory Sign_Typed
  imports Sign_Tx Eip712_Laws
begin

text \<open>
  Signing typed data: \<open>SignTypedData\<close> and \<open>sign\<close> of
  \<open>src/app/pkg/usecases/hsmconnector/hsm_connector.go\<close>, over the digest of the theory of EIP-712.  The
  number of steps for the digest is the first argument; a run that needs more is the error
  \<open>stack_exhausted\<close>, by which no other error is meant.
\<close>

record SignTypedDataInput =
  st_Slot :: SlotConnectionData
  st_ChainID :: int
  st_Address :: address
  st_TypedData :: TypedData

record SignTypedDataOutput =
  st_SignedData :: string
  st_TypedHash :: string

definition stack_exhausted :: go_error where
  "stack_exhausted = PlainError ''goroutine stack exceeds the limit''"

definition lift_run :: "'a run \<Rightarrow> ('w, 'a) prog" where
  "lift_run r = (case r of None \<Rightarrow> throwP stack_exhausted | Some x \<Rightarrow> liftP x)"

definition sign :: "'w connector \<Rightarrow> SlotConnectionData \<Rightarrow> address \<Rightarrow> bytes \<Rightarrow> ('w, EthereumSignature) prog" where
  "sign cn slot from data =
     bindP (onErrP (factory_Create (cn_factory cn) (sc_ModuleKind slot)) InternalFromErr) (\<lambda>m.
     bindP (onErrP (dsm_Sign m (sign_input slot from data)) (\<lambda>err.
       if sm_IsInvalidSlotError err then slot_unreachable (sc_Slot slot) err
       else InternalFromErr err)) (\<lambda>rawSig.
     bindP (liftP (assembleRecoverableSignature (cn_crypto cn) rawSig from data)) (\<lambda>signatureWithV.
     returnP \<lparr>sig_V = int (be_nat (take 1 signatureWithV)),
              sig_R = int (be_nat (take 32 (drop 1 signatureWithV))),
              sig_S = int (be_nat (take 32 (drop 33 signatureWithV)))\<rparr>)))"

definition chain_mismatch :: "int \<Rightarrow> int \<Rightarrow> go_error" where
  "chain_mismatch domain request =
     SetHumanReadableMessage (''chainId mismatch: domain specifies '' @ Int256_String domain @
       '' but request has '' @ Int256_String request) InvalidArgument"

definition SignTypedData :: "nat \<Rightarrow> 'w connector \<Rightarrow> SignTypedDataInput \<Rightarrow> ('w, SignTypedDataOutput) prog" where
  "SignTypedData n cn input =
     bindP (checkP (cn_validate cn (slot_fields (st_Slot input) @
        [(''required'', HexInt256_Encode (st_ChainID input)),
         (''address'', String_of_address (c_keccak (cn_crypto cn)) (st_Address input))])) invalid_input) (\<lambda>_.
     bindP (checkP (\<not> IsEmpty (st_Address input))
        (SetHumanReadableMessage (''field '' @ quoted ''address'' @ '' cannot be empty'') InvalidArgument)) (\<lambda>_.
     bindP (case do_ChainId (td_Domain (st_TypedData input)) of
              None \<Rightarrow> returnP ()
            | Some i \<Rightarrow> checkP (i = st_ChainID input) (chain_mismatch i (st_ChainID input))) (\<lambda>_.
     bindP (case Validate (st_TypedData input) of
              None \<Rightarrow> returnP ()
            | Some err \<Rightarrow> throwP (SetHumanReadableMessage ''invalid typed data'' (InvalidArgumentFromErr err))) (\<lambda>_.
     bindP (lift_run (HashTypedData (c_keccak (cn_crypto cn)) n (st_TypedData input)))
       (\<lambda>(typedDataHash, prefixedDataHash).
     bindP (sign cn (st_Slot input) (st_Address input) prefixedDataHash) (\<lambda>ethereumSignature.
     case ToHex ethereumSignature of
       None \<Rightarrow> throwP slice_bounds_panic
     | Some hex \<Rightarrow> returnP \<lparr>st_SignedData = hex, st_TypedHash = hex_encode typedDataHash\<rparr>))))))"

section \<open>Facts\<close>

lemma ToHex_eq:
  assumes "r < 256 ^ 32" "s < 256 ^ 32"
  shows "ToHex \<lparr>sig_V = int (unat v), sig_R = int r, sig_S = int s\<rparr> =
    Some (''0x'' @ hex_encode (be_fixed 32 r @ be_fixed 32 s @ [v]))"
proof -
  have len: "length (be_bytes r) \<le> 32" "length (be_bytes s) \<le> 32"
    using assms by (simp_all add: length_be_bytes_le)
  have last: "(if be_bytes (unat v) \<noteq> [] then last (be_bytes (unat v)) else 0) = v"
  proof (cases "v = 0")
    case False
    then have "be_bytes (0 * 256 + unat v) = [v]" by (subst be_bytes_snoc) simp
    then show ?thesis by simp
  qed simp
  have "take (64 - length (be_bytes s)) (replicate (32 - length (be_bytes r)) 0 @ be_bytes r @ replicate 32 0) =
      replicate (32 - length (be_bytes r)) 0 @ be_bytes r @ replicate (32 - length (be_bytes s)) 0"
    using len by simp
  then show ?thesis
    using len last by (simp add: ToHex_def Let_def be_fixed_pad [OF assms(1)] be_fixed_pad [OF assms(2)])
qed

lemma sign_ok:
  assumes "sign cn slot from data w = (Inr sig, w')"
  shows "\<exists>v r s. sig = \<lparr>sig_V = int (unat (word_of_nat (27 + v) :: byte)), sig_R = int r, sig_S = int s\<rparr> \<and>
    recovers_to (cn_crypto cn) from data v r s \<and> r < 256 ^ 32 \<and> s < 256 ^ 32"
proof -
  obtain rawSig b where b: "assembleRecoverableSignature (cn_crypto cn) rawSig from data = Inr b"
    and sig: "sig = \<lparr>sig_V = int (be_nat (take 1 b)), sig_R = int (be_nat (take 32 (drop 1 b))),
      sig_S = int (be_nat (take 32 (drop 33 b)))\<rparr>"
    using assms by (auto simp: sign_def prog_ok)
  obtain v r s where "b = word_of_nat (27 + v) # be_fixed 32 r @ be_fixed 32 s"
      "recovers_to (cn_crypto cn) from data v r s" "r < 256 ^ 32" "s < 256 ^ 32"
    using assemble_ok [OF b] by blast
  then show ?thesis using sig
    by (intro exI [of _ v] exI [of _ r] exI [of _ s]) (simp del: be_fixed.simps of_nat_add)
qed

text \<open>
  C3: a signature over typed data leaves the connector only for data that passes the validation and
  whose domain, where it names a chain, names the chain of the application; it is a low-S signature
  from which the address of the request is recovered over the EIP-712 digest of this very data, in
  the form r, s, v with v 27 or 28.
\<close>

theorem signTypedData_sound:
  assumes "SignTypedData n cn input w = (Inr out, w')"
  shows "st_Address input \<noteq> ZeroAddress \<and> Validate (st_TypedData input) = None \<and>
    do_ChainId (td_Domain (st_TypedData input)) \<in> {None, Some (st_ChainID input)} \<and>
    (\<exists>h digest v r s.
       HashTypedData (c_keccak (cn_crypto cn)) n (st_TypedData input) = Some (Inr (h, digest)) \<and>
       recovers_to (cn_crypto cn) (st_Address input) digest v r s \<and>
       st_SignedData out = ''0x'' @ hex_encode (be_fixed 32 r @ be_fixed 32 s @ [word_of_nat (27 + v)]) \<and>
       st_TypedHash out = hex_encode h)"
proof -
  obtain h digest sig where parts: "\<not> IsEmpty (st_Address input)" "Validate (st_TypedData input) = None"
      "do_ChainId (td_Domain (st_TypedData input)) \<in> {None, Some (st_ChainID input)}"
      "HashTypedData (c_keccak (cn_crypto cn)) n (st_TypedData input) = Some (Inr (h, digest))"
      "ToHex sig = Some (st_SignedData out)" "st_TypedHash out = hex_encode h"
    and sig: "\<exists>w w'. sign cn (st_Slot input) (st_Address input) digest w = (Inr sig, w')"
    using assms by (auto simp: SignTypedData_def lift_run_def prog_ok split: option.splits) blast+
  from sig obtain v r s where
      "sig = \<lparr>sig_V = int (unat (word_of_nat (27 + v) :: byte)), sig_R = int r, sig_S = int s\<rparr>"
      "recovers_to (cn_crypto cn) (st_Address input) digest v r s" "r < 256 ^ 32" "s < 256 ^ 32"
    using sign_ok by metis
  moreover from this have "st_SignedData out = ''0x'' @ hex_encode (be_fixed 32 r @ be_fixed 32 s @ [word_of_nat (27 + v)])"
    using parts(5) ToHex_eq [of r s "word_of_nat (27 + v)"] by simp
  ultimately show ?thesis using parts by (auto simp: IsEmpty_def simp del: of_nat_add be_fixed.simps)
qed

definition note_input :: SignTypedDataInput where
  "note_input = \<lparr>st_Slot = in_Slot (sample_input None None), st_ChainID = 5, st_Address = replicate 20 1,
     st_TypedData = note_data (VNumber ''7'')\<rparr>"

lemma note_signed: "\<exists>out. SignTypedData 1 sample_connector note_input () = (Inr out, ())"
proof -
  have run: "sign sample_connector (in_Slot (sample_input None None)) (replicate 20 1) h () =
     (Inr \<lparr>sig_V = 27, sig_R = 5, sig_S = 10\<rparr>, ())" for h
    by (simp add: sign_def sample_connector_def factory_Create_def sample_input_def sample_dsm_def prog_defs sample_assemble)
  have hex: "ToHex \<lparr>sig_V = 27, sig_R = 5, sig_S = 10\<rparr> =
      Some (''0x'' @ hex_encode (be_fixed 32 5 @ be_fixed 32 10 @ [27]))"
    using ToHex_eq [of 5 10 27] by simp
  have "Validate (note_data (VNumber ''7'')) = None"
    by (simp add: Validate_def note_data_def note_types_def entry_Cons)
  moreover have "replicate 20 (1 :: byte) \<noteq> ZeroAddress"
    by (simp add: ZeroAddress_def addressLength_def)
  moreover have "do_ChainId (td_Domain (note_data v)) = Some 5" for v
    by (simp add: note_data_def)
  ultimately show ?thesis
    by (simp add: SignTypedData_def note_input_def run hex lift_run_def note_hash [OF integer_7(1)] IsEmpty_def prog_defs)
qed

lemma signTypedData_sound_witness:
  "\<exists>out v r s. SignTypedData 1 sample_connector note_input () = (Inr out, ()) \<and> Validate (note_data (VNumber ''7'')) = None \<and>
     recovers_to sample_crypto (replicate 20 1) (replicate 32 1) v r s"
proof -
  have k: "c_keccak (cn_crypto sample_connector) x = replicate 32 1" for x
    by (simp add: sample_connector_def sample_crypto_def)
  obtain out where out: "SignTypedData 1 sample_connector note_input () = (Inr out, ())"
    using note_signed by blast
  from signTypedData_sound [OF out] out show ?thesis
    by (auto simp: note_input_def note_hash [OF integer_7(1)] k) (auto simp: sample_connector_def)
qed

end
