(* ===== verification/Rpc_Params.thy ===== *)
theory Rpc_Params
  imports Sign_Typed
begin

text \<open>
  The parameters of the JSON-RPC methods, \<open>src/app/pkg/infra/rpcinfra/rpc_api_adapter_types.go\<close> and
  \<open>ProcessParams\<close> of \<open>types.go\<close>: an object is decoded into the struct of the method, anything else is
  taken for a list of positions and handed to its \<open>SetParamsFrom\<close>.
\<close>

section \<open>Results\<close>

definition andS :: "'e + 'a \<Rightarrow> ('a \<Rightarrow> 'e + 'b) \<Rightarrow> 'e + 'b" where
  "andS m f = (case m of Inl e \<Rightarrow> Inl e | Inr x \<Rightarrow> f x)"

definition requireS :: "bool \<Rightarrow> 'e \<Rightarrow> 'e + unit" where
  "requireS ok e = (if ok then Inr () else Inl e)"

fun mapS :: "('a \<Rightarrow> 'e + 'b) \<Rightarrow> 'a list \<Rightarrow> 'e + 'b list" where
  "mapS f [] = Inr []"
| "mapS f (x # xs) = andS (f x) (\<lambda>y. andS (mapS f xs) (\<lambda>ys. Inr (y # ys)))"

lemma andS_Inr: "andS m f = Inr y \<longleftrightarrow> (\<exists>x. m = Inr x \<and> f x = Inr y)"
  by (cases m) (simp_all add: andS_def)

lemma requireS_Inr: "requireS ok e = Inr u \<longleftrightarrow> ok"
  by (simp add: requireS_def)

lemmas sum_ok = andS_Inr requireS_Inr

lemma mapS_Inr: "mapS f xs = Inr ys \<longleftrightarrow> list_all2 (\<lambda>x y. f x = Inr y) xs ys"
  by (induction xs arbitrary: ys) (auto simp: sum_ok list_all2_Cons1)

section \<open>Fields of a positional object\<close>

definition bracketed_field :: "string \<Rightarrow> string" where
  "bracketed_field name = ''['' @ name @ '']''"

definition not_a_string :: "string \<Rightarrow> go_error" where
  "not_a_string name = PlainError (bracketed_field name @ '' must be of type string'')"

definition required_string :: "(string \<times> gvalue) list \<Rightarrow> string \<Rightarrow> go_error + string" where
  "required_string m name =
     (case entry m name of
        None \<Rightarrow> Inl (PlainError (''missing required field '' @ bracketed_field name))
      | Some (VString s) \<Rightarrow> Inr s
      | Some _ \<Rightarrow> Inl (not_a_string name))"

definition optional_string :: "(string \<times> gvalue) list \<Rightarrow> string \<Rightarrow> string option \<Rightarrow> go_error + string option" where
  "optional_string m name old =
     (case entry m name of
        None \<Rightarrow> Inr old
      | Some (VString s) \<Rightarrow> Inr (Some s)
      | Some _ \<Rightarrow> Inl (not_a_string name))"

definition single_object :: "gvalue list \<Rightarrow> go_error + (string \<times> gvalue) list" where
  "single_object params =
     (case params of
        [VMap m] \<Rightarrow> Inr m
      | [_] \<Rightarrow> Inl (PlainError ''a single object is expected'')
      | _ \<Rightarrow> Inl (PlainError ''only one object is expected''))"

section \<open>Import and removal of accounts\<close>

record ImportAccountRequestParams =
  ip_ApplicationID :: string
  ip_PrivateKey :: string

definition dec_ImportAccount :: "ImportAccountRequestParams decoder" where
  "dec_ImportAccount = dec_fields
     [field ''ApplicationID'' ip_ApplicationID (\<lambda>x. ip_ApplicationID_update (\<lambda>_. x)) dec_string,
      field ''privateKey'' ip_PrivateKey (\<lambda>x. ip_PrivateKey_update (\<lambda>_. x)) dec_string]"

definition import_SetParamsFrom :: "ImportAccountRequestParams \<Rightarrow> gvalue list \<Rightarrow> go_error + ImportAccountRequestParams" where
  "import_SetParamsFrom p params =
     andS (single_object params) (\<lambda>m. andS (required_string m ''privateKey'') (\<lambda>s. Inr (p\<lparr>ip_PrivateKey := s\<rparr>)))"

definition import_ValidateParams :: "ImportAccountRequestParams \<Rightarrow> go_error + unit" where
  "import_ValidateParams p = requireS (ip_PrivateKey p \<noteq> []) (PlainError ''[privateKey] cannot be nil'')"

record RemoveAccountRequestParams =
  mp_ApplicationID :: string
  mp_Address :: string

definition dec_RemoveAccount :: "RemoveAccountRequestParams decoder" where
  "dec_RemoveAccount = dec_fields
     [field ''ApplicationID'' mp_ApplicationID (\<lambda>x. mp_ApplicationID_update (\<lambda>_. x)) dec_string,
      field ''address'' mp_Address (\<lambda>x. mp_Address_update (\<lambda>_. x)) dec_string]"

definition remove_SetParamsFrom :: "RemoveAccountRequestParams \<Rightarrow> gvalue list \<Rightarrow> go_error + RemoveAccountRequestParams" where
  "remove_SetParamsFrom p params =
     andS (single_object params) (\<lambda>m. andS (required_string m ''address'') (\<lambda>s. Inr (p\<lparr>mp_Address := s\<rparr>)))"

definition remove_ValidateParams :: "RemoveAccountRequestParams \<Rightarrow> go_error + unit" where
  "remove_ValidateParams p = requireS (mp_Address p \<noteq> []) (PlainError ''[address] cannot be nil'')"

section \<open>Transactions\<close>

record ListParamEntry =
  le_Address :: string
  le_StorageKeys :: "string slice"

record SignTXRequestParams =
  tp_ApplicationID :: string
  tp_From :: string
  tp_To :: "string option"
  tp_Gas :: "string option"
  tp_GasPrice :: "string option"
  tp_Value :: "string option"
  tp_Data :: string
  tp_Nonce :: string
  tp_ChainID :: "string option"
  tp_MaxFeePerGas :: "string option"
  tp_MaxPriorityFeePerGas :: "string option"
  tp_AccessList :: "ListParamEntry slice"
  tp_MaxFeePerBlobGas :: "string option"
  tp_BlobVersionedHashes :: "string slice"
  tp_AuthorizationList :: "ListParamEntry slice"

definition zero_entry :: ListParamEntry where
  "zero_entry = \<lparr>le_Address = [], le_StorageKeys = None\<rparr>"

definition zero_sign_tx :: SignTXRequestParams where
  "zero_sign_tx =
     \<lparr>tp_ApplicationID = [], tp_From = [], tp_To = None, tp_Gas = None, tp_GasPrice = None, tp_Value = None,
      tp_Data = [], tp_Nonce = [], tp_ChainID = None, tp_MaxFeePerGas = None, tp_MaxPriorityFeePerGas = None,
      tp_AccessList = None, tp_MaxFeePerBlobGas = None, tp_BlobVersionedHashes = None, tp_AuthorizationList = None\<rparr>"

definition dec_ListParamEntry :: "ListParamEntry decoder" where
  "dec_ListParamEntry = dec_fields
     [field ''address'' le_Address (\<lambda>x. le_Address_update (\<lambda>_. x)) dec_string,
      field ''storageKeys'' le_StorageKeys (\<lambda>x. le_StorageKeys_update (\<lambda>_. x)) (dec_slice [] dec_string)]"

definition dec_SignTX :: "SignTXRequestParams decoder" where
  "dec_SignTX = dec_fields
     [field ''ApplicationID'' tp_ApplicationID (\<lambda>x. tp_ApplicationID_update (\<lambda>_. x)) dec_string,
      field ''from'' tp_From (\<lambda>x. tp_From_update (\<lambda>_. x)) dec_string,
      field ''to'' tp_To (\<lambda>x. tp_To_update (\<lambda>_. x)) dec_string_ptr,
      field ''gas'' tp_Gas (\<lambda>x. tp_Gas_update (\<lambda>_. x)) dec_string_ptr,
      field ''gasPrice'' tp_GasPrice (\<lambda>x. tp_GasPrice_update (\<lambda>_. x)) dec_string_ptr,
      field ''value'' tp_Value (\<lambda>x. tp_Value_update (\<lambda>_. x)) dec_string_ptr,
      field ''data'' tp_Data (\<lambda>x. tp_Data_update (\<lambda>_. x)) dec_string,
      field ''nonce'' tp_Nonce (\<lambda>x. tp_Nonce_update (\<lambda>_. x)) dec_string,
      field ''chainId'' tp_ChainID (\<lambda>x. tp_ChainID_update (\<lambda>_. x)) dec_string_ptr,
      field ''maxFeePerGas'' tp_MaxFeePerGas (\<lambda>x. tp_MaxFeePerGas_update (\<lambda>_. x)) dec_string_ptr,
      field ''maxPriorityFeePerGas'' tp_MaxPriorityFeePerGas (\<lambda>x. tp_MaxPriorityFeePerGas_update (\<lambda>_. x)) dec_string_ptr,
      field ''accessList'' tp_AccessList (\<lambda>x. tp_AccessList_update (\<lambda>_. x)) (dec_slice zero_entry dec_ListParamEntry),
      field ''maxFeePerBlobGas'' tp_MaxFeePerBlobGas (\<lambda>x. tp_MaxFeePerBlobGas_update (\<lambda>_. x)) dec_string_ptr,
      field ''blobVersionedHashes'' tp_BlobVersionedHashes (\<lambda>x. tp_BlobVersionedHashes_update (\<lambda>_. x)) (dec_slice [] dec_string),
      field ''authorizationList'' tp_AuthorizationList (\<lambda>x. tp_AuthorizationList_update (\<lambda>_. x)) (dec_slice zero_entry dec_ListParamEntry)]"

text \<open>A slice made with all its elements.\<close>

definition made :: "'a list \<Rightarrow> 'a slice" where
  "made xs = Some (length xs, xs)"

lemma seen_made [simp]: "seen (made xs) = xs"
  by (simp add: seen_def made_def)

definition string_element :: "go_error \<Rightarrow> gvalue \<Rightarrow> go_error + string" where
  "string_element err v = (case v of VString s \<Rightarrow> Inr s | _ \<Rightarrow> Inl err)"

text \<open>An entry of the access list or of the authorization list; the texts of the errors differ a little.\<close>

definition list_entry :: "string \<Rightarrow> gvalue \<Rightarrow> go_error + ListParamEntry" where
  "list_entry name v =
     (let err = (\<lambda>s. PlainError (bracketed_field name @ s)) in
      case v of
        VMap m \<Rightarrow>
          (case entry m ''address'' of
             None \<Rightarrow> Inl (err '' entry missing required field [address]'')
           | Some (VString addr) \<Rightarrow>
               (case entry m ''storageKeys'' of
                  None \<Rightarrow> Inl (err '' entry missing required field [storageKeys]'')
                | Some (VSlice ks) \<Rightarrow>
                    andS (mapS (string_element (err '' entry field [storageKeys] elements must be of type string'')) ks)
                      (\<lambda>keys. Inr \<lparr>le_Address = addr, le_StorageKeys = made keys\<rparr>)
                | Some _ \<Rightarrow> Inl (err '' entry field [storageKeys] must be an array''))
           | Some _ \<Rightarrow> Inl (err '' entry field [address] must be of type string''))
      | _ \<Rightarrow> Inl (err '' entries must be objects''))"

definition list_param :: "string \<Rightarrow> (gvalue \<Rightarrow> go_error + 'a) \<Rightarrow> (string \<times> gvalue) list \<Rightarrow> 'a slice \<Rightarrow> go_error + 'a slice" where
  "list_param name f m old =
     (case entry m name of
        None \<Rightarrow> Inr old
      | Some (VSlice vs) \<Rightarrow> andS (mapS f vs) (\<lambda>xs. Inr (made xs))
      | Some _ \<Rightarrow> Inl (PlainError (bracketed_field name @ '' must be an array'')))"

definition setAccessListParam :: "SignTXRequestParams \<Rightarrow> (string \<times> gvalue) list \<Rightarrow> go_error + SignTXRequestParams" where
  "setAccessListParam p m =
     andS (list_param ''accessList'' (list_entry ''accessList'') m (tp_AccessList p)) (\<lambda>xs. Inr (p\<lparr>tp_AccessList := xs\<rparr>))"

definition setEIP4844Params :: "SignTXRequestParams \<Rightarrow> (string \<times> gvalue) list \<Rightarrow> go_error + SignTXRequestParams" where
  "setEIP4844Params p m =
     andS (optional_string m ''maxFeePerBlobGas'' (tp_MaxFeePerBlobGas p)) (\<lambda>fee.
     andS (list_param ''blobVersionedHashes''
             (string_element (PlainError ''[blobVersionedHashes] entries must be of type string'')) m
             (tp_BlobVersionedHashes p)) (\<lambda>hashes.
     Inr (p\<lparr>tp_MaxFeePerBlobGas := fee, tp_BlobVersionedHashes := hashes\<rparr>)))"

definition setAuthorizationListParam :: "SignTXRequestParams \<Rightarrow> (string \<times> gvalue) list \<Rightarrow> go_error + SignTXRequestParams" where
  "setAuthorizationListParam p m =
     andS (list_param ''authorizationList'' (list_entry ''authorizationList'') m (tp_AuthorizationList p))
       (\<lambda>xs. Inr (p\<lparr>tp_AuthorizationList := xs\<rparr>))"

text \<open>The fees are compared only if both can be read.\<close>

definition fees_in_order :: "SignTXRequestParams \<Rightarrow> bool" where
  "fees_in_order p =
     (case (tp_MaxFeePerGas p, tp_MaxPriorityFeePerGas p) of
        (Some fee, Some priority) \<Rightarrow>
          (case (NewInt256FromString fee, NewInt256FromString priority) of
             (Inr maxFee, Inr maxPriority) \<Rightarrow> maxPriority \<le> maxFee
           | _ \<Rightarrow> True)
      | _ \<Rightarrow> True)"

definition sign_SetParamsFrom :: "SignTXRequestParams \<Rightarrow> gvalue list \<Rightarrow> go_error + SignTXRequestParams" where
  "sign_SetParamsFrom p params =
     andS (single_object params) (\<lambda>m.
     andS (required_string m ''from'') (\<lambda>from.
     andS (required_string m ''data'') (\<lambda>dat.
     andS (required_string m ''nonce'') (\<lambda>nonce.
     andS (optional_string m ''to'' (tp_To p)) (\<lambda>to.
     andS (optional_string m ''gas'' (tp_Gas p)) (\<lambda>gas.
     andS (optional_string m ''gasPrice'' (tp_GasPrice p)) (\<lambda>gasPrice.
     andS (optional_string m ''value'' (tp_Value p)) (\<lambda>val.
     andS (optional_string m ''chainId'' (tp_ChainID p)) (\<lambda>chainID.
     andS (optional_string m ''maxFeePerGas'' (tp_MaxFeePerGas p)) (\<lambda>maxFee.
     andS (optional_string m ''maxPriorityFeePerGas'' (tp_MaxPriorityFeePerGas p)) (\<lambda>maxPriority.
     let p = p\<lparr>tp_From := from, tp_Data := dat, tp_Nonce := nonce, tp_To := to, tp_Gas := gas,
               tp_GasPrice := gasPrice, tp_Value := val, tp_ChainID := chainID,
               tp_MaxFeePerGas := maxFee, tp_MaxPriorityFeePerGas := maxPriority\<rparr> in
     andS (requireS (fees_in_order p)
             (PlainError ''[maxFeePerGas] must be greater than [maxPriorityFeePerGas]'')) (\<lambda>_.
     andS (setAccessListParam p m) (\<lambda>p.
     andS (setEIP4844Params p m) (\<lambda>p.
     setAuthorizationListParam p m))))))))))))))"

definition sign_ValidateParams :: "SignTXRequestParams \<Rightarrow> go_error + unit" where
  "sign_ValidateParams p =
     andS (requireS (tp_From p \<noteq> []) (PlainError ''[from] cannot be nil'')) (\<lambda>_.
     andS (requireS (tp_Nonce p \<noteq> []) (PlainError ''[nonce] cannot be nil'')) (\<lambda>_.
     requireS (tp_GasPrice p = None \<or> tp_MaxFeePerGas p = None)
       (PlainError ''cannot specify both [gasPrice] and [maxFeePerGas]'')))"

section \<open>Typed data\<close>

record SignTypedDataRequestParams =
  dp_ApplicationID :: string
  dp_Address :: string
  dp_TypedData :: TypedData

record signTypedDataParamsObject =
  ob_Address :: string
  ob_TypedData :: TypedData

definition zero_object :: signTypedDataParamsObject where
  "zero_object = \<lparr>ob_Address = [], ob_TypedData = zero_typed_data\<rparr>"

definition zero_sign_typed :: SignTypedDataRequestParams where
  "zero_sign_typed = \<lparr>dp_ApplicationID = [], dp_Address = [], dp_TypedData = zero_typed_data\<rparr>"

definition dec_ParamsObject :: "signTypedDataParamsObject decoder" where
  "dec_ParamsObject = dec_fields
     [field ''address'' ob_Address (\<lambda>x. ob_Address_update (\<lambda>_. x)) dec_string,
      field ''typedData'' ob_TypedData (\<lambda>x. ob_TypedData_update (\<lambda>_. x)) dec_TypedData]"

definition typed_UnmarshalJSON :: "SignTypedDataRequestParams decoder" where
  "typed_UnmarshalJSON p j =
     (let store = (\<lambda>obj. p\<lparr>dp_Address := ob_Address obj, dp_TypedData := ob_TypedData obj\<rparr>) in
      case j of
        JArray js \<Rightarrow>
          (case dec_slice zero_object dec_ParamsObject None j of
             None \<Rightarrow> None
           | Some s \<Rightarrow> (case seen s of [obj] \<Rightarrow> Some (store obj) | _ \<Rightarrow> None))
      | _ \<Rightarrow> map_option store (dec_ParamsObject zero_object j))"

definition typed_SetParamsFrom :: "SignTypedDataRequestParams \<Rightarrow> gvalue list \<Rightarrow> go_error + SignTypedDataRequestParams" where
  "typed_SetParamsFrom p params =
     andS (single_object params) (\<lambda>_. Inl (PlainError ''could not decode eth_signTypedData params''))"

definition typed_ValidateParams :: "SignTypedDataRequestParams \<Rightarrow> go_error + unit" where
  "typed_ValidateParams p =
     andS (requireS (dp_Address p \<noteq> []) (PlainError ''[address] cannot be nil'')) (\<lambda>_.
     case Validate (dp_TypedData p) of None \<Rightarrow> Inr () | Some err \<Rightarrow> Inl err)"

section \<open>ProcessParams\<close>

text \<open>
  The parameters are the raw value of the request, if it has any.  A decoding that fails may
  leave fields behind, but only one of an object does, which fails as a list as well.
\<close>

definition ProcessParams ::
    "'p decoder \<Rightarrow> ('p \<Rightarrow> gvalue list \<Rightarrow> go_error + 'p) \<Rightarrow> json option \<Rightarrow> 'p \<Rightarrow> RPCError + 'p" where
  "ProcessParams dec setParamsFrom reqParams p =
     (case reqParams of
        None \<Rightarrow> Inl (rpc_NewInvalidParamsFromErr (PlainError ''unexpected end of JSON input''))
      | Some j \<Rightarrow>
          (case dec p j of
             Some p' \<Rightarrow> Inr p'
           | None \<Rightarrow>
               (case dec_slice VNil (dec_any False) (Some (0, [])) j of
                  None \<Rightarrow> Inl (rpc_NewInvalidParamsFromErr (PlainError ''json: cannot unmarshal''))
                | Some posParams \<Rightarrow>
                    (case setParamsFrom p (seen posParams) of
                       Inl err \<Rightarrow> Inl (rpc_NewInvalidParamsFromErr err)
                     | Inr p' \<Rightarrow> Inr p'))))"

end
