(* ===== verification/Rpc_Adapter.thy ===== *)
theory Rpc_Adapter
  imports Rpc_Params Users
begin

text \<open>
  The operations behind the JSON-RPC methods: the input adapter
  \<open>src/app/pkg/adapters/rpcin/rpc_api_input_adapter.go\<close> and the handlers
  \<open>src/app/pkg/infra/rpcinfra/rpc_api_handler.go\<close> in front of it.

  They answer with an \<open>RPCError\<close> instead of an error of a use case; apart from that they are programs
  over the world of the use cases, whose devices the connector drives.
\<close>

section \<open>Programs with RPC errors\<close>

type_synonym ('w, 'a) rpc = "'w \<Rightarrow> (RPCError + 'a) \<times> 'w"

definition returnR :: "'a \<Rightarrow> ('w, 'a) rpc" where
  "returnR x w = (Inr x, w)"

definition failR :: "RPCError \<Rightarrow> ('w, 'a) rpc" where
  "failR e w = (Inl e, w)"

definition bindR :: "('w, 'a) rpc \<Rightarrow> ('a \<Rightarrow> ('w, 'b) rpc) \<Rightarrow> ('w, 'b) rpc" where
  "bindR m f w = (case m w of (Inl e, w') \<Rightarrow> (Inl e, w') | (Inr x, w') \<Rightarrow> f x w')"

definition liftR :: "RPCError + 'a \<Rightarrow> ('w, 'a) rpc" where
  "liftR r w = (r, w)"

text \<open>A use case whose error is translated.\<close>

definition useR :: "(go_error \<Rightarrow> RPCError) \<Rightarrow> ('w, 'a) prog \<Rightarrow> ('w, 'a) rpc" where
  "useR h m w = (case m w of (Inl err, w') \<Rightarrow> (Inl (h err), w') | (Inr x, w') \<Rightarrow> (Inr x, w'))"

lemma bindR_Inr: "bindR m f w = (Inr y, w'') \<longleftrightarrow> (\<exists>x w'. m w = (Inr x, w') \<and> f x w' = (Inr y, w''))"
  by (auto simp: bindR_def split: prod.splits sum.splits)

lemma returnR_eq: "returnR x w = (r, w') \<longleftrightarrow> r = Inr x \<and> w' = w"
  by (auto simp: returnR_def)

lemma failR_eq: "failR e w = (r, w') \<longleftrightarrow> r = Inl e \<and> w' = w"
  by (auto simp: failR_def)

lemma liftR_eq: "liftR r w = (r', w') \<longleftrightarrow> r = r' \<and> w' = w"
  by (auto simp: liftR_def)

lemma useR_Inr: "useR h m w = (Inr x, w') \<longleftrightarrow> m w = (Inr x, w')"
  by (auto simp: useR_def split: prod.splits sum.splits)

lemmas rpc_ok = bindR_Inr returnR_eq failR_eq liftR_eq useR_Inr

lemmas rpc_prog_defs = bindR_def returnR_def failR_def liftR_def useR_def

section \<open>The input adapter\<close>

definition bad_param :: "string \<Rightarrow> RPCError" where
  "bad_param label = rpc_NewInvalidParamsFromErr (PlainError (''invalid '' @ label))"

definition labelS :: "string \<Rightarrow> 'e + 'a \<Rightarrow> RPCError + 'a" where
  "labelS label r = (case r of Inl _ \<Rightarrow> Inl (bad_param label) | Inr x \<Rightarrow> Inr x)"

definition paramS :: "string \<Rightarrow> 'e + 'a \<Rightarrow> RPCError + 'a" where
  "paramS name = labelS (bracketed_field name)"

definition checkedS :: "'a \<times> 'e option \<Rightarrow> 'e + 'a" where
  "checkedS r = (case r of (x, None) \<Rightarrow> Inr x | (x, Some e) \<Rightarrow> Inl e)"

definition optionalS :: "('a \<Rightarrow> 'e + 'b) \<Rightarrow> 'a option \<Rightarrow> 'e + 'b option" where
  "optionalS f v = (case v of None \<Rightarrow> Inr None | Some x \<Rightarrow> andS (f x) (\<lambda>y. Inr (Some y)))"

lemma optionalS_Inr: "optionalS f v = Inr r \<longleftrightarrow>
    (case v of None \<Rightarrow> r = None | Some x \<Rightarrow> (\<exists>y. f x = Inr y \<and> r = Some y))"
  by (auto simp: optionalS_def sum_ok split: option.splits)

lemma paramS_Inr: "paramS name r = Inr x \<longleftrightarrow> r = Inr x"
  by (cases r) (simp_all add: paramS_def labelS_def)

lemma checkedS_Inr: "checkedS r = Inr x \<longleftrightarrow> r = (x, None)"
  by (cases r) (auto simp: checkedS_def split: option.splits)

definition AdaptGenerateAccount :: "env \<Rightarrow> 'd connector \<Rightarrow> string \<Rightarrow> ('d world, string) rpc" where
  "AdaptGenerateAccount en cn applicationID =
     bindR (useR adaptError (ByApplication en applicationID)) (\<lambda>hsmConnection.
     bindR (useR adaptError (onDevices (GenerateAddress cn (connection_data hsmConnection)))) (\<lambda>addr.
     returnR (String_of_address (e_keccak en) addr)))"

definition AdaptImportAccount :: "env \<Rightarrow> 'd connector \<Rightarrow> ImportAccountRequestParams \<Rightarrow> ('d world, string) rpc" where
  "AdaptImportAccount en cn p =
     (if length (ip_PrivateKey p) = 0 then failR rpc_NewInvalidRequest
      else
       bindR (liftR (case NewHexBytesFromString (ip_PrivateKey p) of
                 (_, Some err) \<Rightarrow> Inl (rpc_NewInvalidParamsFromErr (PlainError ''hex''))
               | (privateKey, None) \<Rightarrow> Inr privateKey)) (\<lambda>privateKey.
       bindR (useR adaptError (ByApplication en (ip_ApplicationID p))) (\<lambda>hsmConnection.
       bindR (useR adaptError (onDevices
                (DeriveAddressFromPrivateKey cn privateKey (conn_ModuleKind hsmConnection)))) (\<lambda>addr.
       bindR (useR adaptError (AddLocalKey en
                \<lparr>alk_ID = Slot_ID (conn_Slot hsmConnection), alk_PrivateKey = privateKey, alk_Address = addr\<rparr>)) (\<lambda>_.
       returnR (String_of_address (e_keccak en) addr))))))"

definition AdaptRemoveAccount :: "env \<Rightarrow> 'd connector \<Rightarrow> RemoveAccountRequestParams \<Rightarrow> ('d world, string) rpc" where
  "AdaptRemoveAccount en cn p =
     (case NewFromHexStringChecksum (e_keccak en) (mp_Address p) of
        Inl err \<Rightarrow> failR (rpc_NewInvalidParamsFromErr (addr_failure err))
      | Inr addr \<Rightarrow>
          bindR (useR adaptError (DeleteAllAccountsForAddress en cn (mp_ApplicationID p) addr)) (\<lambda>_.
          returnR (String_of_address (e_keccak en) addr)))"

text \<open>
  The error of the list of local keys is lost: the variable that is translated is the one of the call
  before, which is nil, and nil is an internal error.
\<close>

definition AdaptListAccounts :: "env \<Rightarrow> 'd connector \<Rightarrow> string \<Rightarrow> ('d world, string list) rpc" where
  "AdaptListAccounts en cn applicationID =
     bindR (useR adaptError (ByApplication en applicationID)) (\<lambda>hsmConnection.
     if conn_ModuleKind hsmConnection = LKVModuleKind then
       bindR (useR (\<lambda>listErr. rpc_NewInternal) (ListLocalKeys en (Slot_ID (conn_Slot hsmConnection)))) (\<lambda>addrs.
       returnR (map (String_of_address (e_keccak en)) addrs))
     else
       bindR (useR adaptError (onDevices (ListAddresses cn (connection_data hsmConnection)))) (\<lambda>addrs.
       returnR (map (String_of_address (e_keccak en)) addrs)))"

definition adaptSlotConnectionData :: "string \<Rightarrow> HSMConnection \<Rightarrow> RPCError + SlotConnectionData" where
  "adaptSlotConnectionData moduleKind conn =
     (if \<not> IsModuleSupported moduleKind then Inl rpc_NewInternal
      else
        let slot = conn_Slot conn;
            d = \<lparr>sc_Slot = [], sc_Pin = [], sc_AKV = [], sc_LocalKeyVault = None, sc_ModuleKind = moduleKind\<rparr>;
            d = (if moduleKind = SoftHSMModuleKind
                 then d\<lparr>sc_Slot := Slot_Slot slot, sc_Pin := Slot_Pin slot\<rparr> else d);
            d = (if moduleKind = AKVModuleKind then d\<lparr>sc_AKV := cf_AKV (Slot_Config slot)\<rparr> else d);
            d = (if moduleKind = LKVModuleKind then
                   (case cf_LocalKeyVault (Slot_Config slot) of
                      None \<Rightarrow> d
                    | Some ks \<Rightarrow> d\<lparr>sc_LocalKeyVault := Some (Some (map_of ks))\<rparr>) else d)
        in Inr d)"

definition adaptListEntry :: "string \<Rightarrow> ListParamEntry \<Rightarrow> RPCError + AccessListEntry" where
  "adaptListEntry name e =
     andS (labelS (bracketed_field name @ '' address'') (NewFromHexString (le_Address e))) (\<lambda>addr.
     andS (mapS (\<lambda>k. labelS (bracketed_field name @ '' storageKey'') (NewHexBytes32FromString k)) (seen (le_StorageKeys e))) (\<lambda>keys.
     Inr \<lparr>al_Address = addr, al_StorageKeys = keys\<rparr>))"

definition adaptAccessList :: "SignTXRequestParams \<Rightarrow> RPCError + AccessListEntry list" where
  "adaptAccessList p = mapS (adaptListEntry ''accessList'') (seen (tp_AccessList p))"

definition adaptAuthorizationList :: "SignTXRequestParams \<Rightarrow> RPCError + AccessListEntry list" where
  "adaptAuthorizationList p = mapS (adaptListEntry ''authorizationList'') (seen (tp_AuthorizationList p))"

definition adaptEIP4844Fields :: "SignTXRequestParams \<Rightarrow> SignTxInput \<Rightarrow> RPCError + SignTxInput" where
  "adaptEIP4844Fields p input =
     andS (paramS ''maxFeePerBlobGas'' (optionalS NewHexInt256FromString (tp_MaxFeePerBlobGas p))) (\<lambda>fee.
     andS (mapS (\<lambda>h. paramS ''blobVersionedHashes'' (NewHexBytes32FromString h)) (seen (tp_BlobVersionedHashes p))) (\<lambda>hashes.
     Inr (input\<lparr>in_MaxFeePerBlobGas := fee,
                in_BlobVersionedHashes := (if seen (tp_BlobVersionedHashes p) \<noteq> [] then Some hashes else None)\<rparr>)))"

definition adaptHSMModule :: "string \<Rightarrow> HSMConnection \<Rightarrow> RPCError + SignTxInput" where
  "adaptHSMModule moduleKind conn =
     andS (adaptSlotConnectionData moduleKind conn) (\<lambda>d.
     Inr \<lparr>in_Slot = d, in_From = ZeroAddress, in_To = None, in_Gas = None, in_GasPrice = None, in_Value = None,
          in_Data = [], in_Nonce = 0, in_ChainID = 0, in_MaxFeePerGas = None, in_MaxPriorityFeePerGas = None,
          in_AccessList = None, in_MaxFeePerBlobGas = None, in_BlobVersionedHashes = None,
          in_AuthorizationList = None\<rparr>)"

text \<open>The input of the connector that the adapter builds from the parameters.\<close>

definition sign_tx_input :: "HSMConnection \<Rightarrow> SignTXRequestParams \<Rightarrow> RPCError + SignTxInput" where
  "sign_tx_input conn p =
     andS (adaptHSMModule (conn_ModuleKind conn) conn) (\<lambda>input.
     andS (if 0 < length (tp_Data p) then paramS ''data'' (checkedS (NewHexBytesFromString (tp_Data p)))
           else Inr (in_Data input)) (\<lambda>inputData.
     andS (paramS ''nonce'' (checkedS (NewHexUInt64FromString (tp_Nonce p)))) (\<lambda>nonce.
     andS (paramS ''from'' (NewFromHexString (tp_From p))) (\<lambda>from.
     andS (paramS ''to'' (optionalS NewFromHexString (tp_To p))) (\<lambda>to.
     andS (paramS ''gas'' (optionalS (\<lambda>s. checkedS (NewHexUInt64FromString s)) (tp_Gas p))) (\<lambda>gas.
     andS (paramS ''gasPrice'' (optionalS NewHexInt256FromString (tp_GasPrice p))) (\<lambda>gasPrice.
     andS (paramS ''value'' (optionalS NewHexInt256FromString
             (if tp_Value p = Some [] then None else tp_Value p))) (\<lambda>val.
     andS (paramS ''maxFeePerGas'' (optionalS NewHexInt256FromString (tp_MaxFeePerGas p))) (\<lambda>maxFee.
     andS (paramS ''maxPriorityFeePerGas'' (optionalS NewHexInt256FromString (tp_MaxPriorityFeePerGas p))) (\<lambda>maxPriority.
     andS (if tp_AccessList p \<noteq> None then andS (adaptAccessList p) (\<lambda>al. Inr (Some al)) else Inr None) (\<lambda>accessList.
     andS (adaptEIP4844Fields p (input\<lparr>in_Data := inputData, in_Nonce := nonce, in_From := from, in_To := to,
             in_Gas := gas, in_GasPrice := gasPrice, in_Value := val, in_MaxFeePerGas := maxFee,
             in_MaxPriorityFeePerGas := maxPriority, in_AccessList := accessList\<rparr>)) (\<lambda>input.
     andS (if tp_AuthorizationList p \<noteq> None then andS (adaptAuthorizationList p) (\<lambda>al. Inr (Some al)) else Inr None)
       (\<lambda>authorizationList.
     andS (case tp_ChainID p of
             None \<Rightarrow> Inr (conn_ApplicationDefaultChainID conn)
           | Some s \<Rightarrow> paramS ''chainId'' (NewHexInt256FromString s)) (\<lambda>chainID.
     Inr (input\<lparr>in_AuthorizationList := authorizationList, in_ChainID := chainID\<rparr>)))))))))))))))"

definition AdaptSignTx :: "env \<Rightarrow> 'd connector \<Rightarrow> SignTXRequestParams \<Rightarrow> ('d world, string) rpc" where
  "AdaptSignTx en cn p =
     bindR (useR adaptError (ByApplication en (tp_ApplicationID p))) (\<lambda>hsmConnection.
     bindR (liftR (sign_tx_input hsmConnection p)) (\<lambda>input.
     bindR (useR adaptError (onDevices (SignTx cn input))) (\<lambda>out.
     returnR (out_SignedTx out))))"

definition other_chain :: RPCError where
  "other_chain = rpc_NewInvalidParamsFromErr
     (PlainError ''typed data domain chainId does not match the application default chain'')"

definition AdaptSignTypedData ::
    "nat \<Rightarrow> env \<Rightarrow> 'd connector \<Rightarrow> SignTypedDataRequestParams \<Rightarrow> ('d world, string) rpc" where
  "AdaptSignTypedData n en cn p =
     bindR (useR adaptError (ByApplication en (dp_ApplicationID p))) (\<lambda>hsmConnection.
     let appChainID = conn_ApplicationDefaultChainID hsmConnection in
     bindR (case do_ChainId (td_Domain (dp_TypedData p)) of
              None \<Rightarrow> returnR ()
            | Some i \<Rightarrow> if i \<noteq> appChainID then failR other_chain else returnR ()) (\<lambda>_.
     bindR (liftR (adaptSlotConnectionData (conn_ModuleKind hsmConnection) hsmConnection)) (\<lambda>slotConnectionData.
     bindR (liftR (paramS ''address'' (NewFromHexString (dp_Address p)))) (\<lambda>signer.
     bindR (useR adaptError (onDevices (SignTypedData n cn
        \<lparr>st_Slot = slotConnectionData, st_ChainID = appChainID, st_Address = signer,
         st_TypedData = dp_TypedData p\<rparr>))) (\<lambda>out.
     returnR (st_SignedData out))))))"

section \<open>The handlers\<close>

record RPCRequest =
  rr_RPCVersion :: string
  rr_ID :: gvalue
  rr_Method :: string
  rr_Params :: "json option"

datatype result = Text string | Texts "string list"

record RPCResponse =
  rs_RPCVersion :: string
  rs_ID :: gvalue
  rs_Result :: result

definition respond :: "RPCRequest \<Rightarrow> result \<Rightarrow> RPCResponse" where
  "respond r out = \<lparr>rs_RPCVersion = ''2.0'', rs_ID = rr_ID r, rs_Result = out\<rparr>"

definition no_application :: RPCError where
  "no_application = rpc_NewInternalFromErr (PlainError ''X-Auth-Application-Id not found in context'')"

definition application_of :: "string option \<Rightarrow> RPCError + string" where
  "application_of cx = (case cx of None \<Rightarrow> Inl no_application | Some app \<Rightarrow> Inr app)"

definition validS :: "go_error + unit \<Rightarrow> RPCError + unit" where
  "validS r = (case r of Inl err \<Rightarrow> Inl (rpc_NewInvalidParamsFromErr err) | Inr _ \<Rightarrow> Inr ())"

text \<open>A handler sees the application of the context and the request.\<close>

type_synonym 'd handler = "string option \<Rightarrow> RPCRequest \<Rightarrow> ('d world, RPCResponse) rpc"

definition HandleGenerateAccount :: "env \<Rightarrow> 'd connector \<Rightarrow> 'd handler" where
  "HandleGenerateAccount en cn cx r =
     bindR (liftR (application_of cx)) (\<lambda>applicationID.
     bindR (AdaptGenerateAccount en cn applicationID) (\<lambda>out. returnR (respond r (Text out))))"

definition HandleImportAccount :: "env \<Rightarrow> 'd connector \<Rightarrow> 'd handler" where
  "HandleImportAccount en cn cx r =
     bindR (liftR (ProcessParams dec_ImportAccount import_SetParamsFrom (rr_Params r)
        \<lparr>ip_ApplicationID = [], ip_PrivateKey = []\<rparr>)) (\<lambda>p.
     bindR (liftR (validS (import_ValidateParams p))) (\<lambda>_.
     bindR (liftR (application_of cx)) (\<lambda>applicationID.
     bindR (AdaptImportAccount en cn (p\<lparr>ip_ApplicationID := applicationID\<rparr>)) (\<lambda>out.
     returnR (respond r (Text out))))))"

definition HandleRemoveAccount :: "env \<Rightarrow> 'd connector \<Rightarrow> 'd handler" where
  "HandleRemoveAccount en cn cx r =
     bindR (liftR (ProcessParams dec_RemoveAccount remove_SetParamsFrom (rr_Params r)
        \<lparr>mp_ApplicationID = [], mp_Address = []\<rparr>)) (\<lambda>p.
     bindR (liftR (validS (remove_ValidateParams p))) (\<lambda>_.
     bindR (liftR (application_of cx)) (\<lambda>applicationID.
     bindR (AdaptRemoveAccount en cn (p\<lparr>mp_ApplicationID := applicationID\<rparr>)) (\<lambda>out.
     returnR (respond r (Text out))))))"

definition HandleListAccounts :: "env \<Rightarrow> 'd connector \<Rightarrow> 'd handler" where
  "HandleListAccounts en cn cx r =
     bindR (liftR (application_of cx)) (\<lambda>applicationID.
     bindR (AdaptListAccounts en cn applicationID) (\<lambda>out. returnR (respond r (Texts out))))"

definition HandleSignTX :: "env \<Rightarrow> 'd connector \<Rightarrow> 'd handler" where
  "HandleSignTX en cn cx r =
     bindR (liftR (ProcessParams dec_SignTX sign_SetParamsFrom (rr_Params r) zero_sign_tx)) (\<lambda>p.
     bindR (liftR (validS (sign_ValidateParams p))) (\<lambda>_.
     bindR (liftR (application_of cx)) (\<lambda>applicationID.
     bindR (AdaptSignTx en cn (p\<lparr>tp_ApplicationID := applicationID\<rparr>)) (\<lambda>out.
     returnR (respond r (Text out))))))"

definition HandleSignTypedData :: "nat \<Rightarrow> env \<Rightarrow> 'd connector \<Rightarrow> 'd handler" where
  "HandleSignTypedData n en cn cx r =
     bindR (liftR (ProcessParams typed_UnmarshalJSON typed_SetParamsFrom (rr_Params r) zero_sign_typed)) (\<lambda>p.
     bindR (liftR (validS (typed_ValidateParams p))) (\<lambda>_.
     bindR (liftR (application_of cx)) (\<lambda>applicationID.
     bindR (AdaptSignTypedData n en cn (p\<lparr>dp_ApplicationID := applicationID\<rparr>)) (\<lambda>out.
     returnR (respond r (Text out))))))"

end
