(* ===== verification/Rpc_Server.thy ===== *)
theory Rpc_Server
  imports Rpc_Adapter Authorization
begin

text \<open>
  The JSON-RPC server: the router (\<open>src/app/pkg/infra/rpcinfra/rpc_infra.go\<close>, \<open>rpc_api_publisher.go\<close>,
  \<open>rpc_infra_response_handler.go\<close>) and the middleware in front of it (\<open>src/app/pkg/infra/middleware\<close>:
  \<open>rpc_middleware.go\<close>, \<open>entrypoint/rpcbatchrequestsupport\<close>, \<open>authentication\<close> and, as the theory of
  authorization has it, \<open>authorization\<close>).

  A request has the headers, the name of the route that matches it and the value of its body; a body
  that is no JSON is \<open>None\<close>.
\<close>

section \<open>Requests and replies\<close>

text \<open>
  \<open>HttpBadRequest\<close> is the status 400 without a body, \<open>NoReply\<close> the empty answer to a notification.  The
  HTTP error that an unauthorized reply wraps goes to the log only and is left out.
\<close>

datatype reply = HttpBadRequest | ErrorReply RPCError | ResultReply RPCResponse | NoReply

definition zero_request :: RPCRequest where
  "zero_request = \<lparr>rr_RPCVersion = [], rr_ID = VNil, rr_Method = [], rr_Params = None\<rparr>"

definition dec_RPCRequest :: "RPCRequest decoder" where
  "dec_RPCRequest = dec_fields
     [field ''jsonrpc'' rr_RPCVersion (\<lambda>x. rr_RPCVersion_update (\<lambda>_. x)) dec_string,
      field ''id'' rr_ID (\<lambda>x. rr_ID_update (\<lambda>_. x)) (dec_any False),
      field ''method'' rr_Method (\<lambda>x. rr_Method_update (\<lambda>_. x)) dec_string,
      field ''params'' rr_Params (\<lambda>x. rr_Params_update (\<lambda>_. x)) dec_raw]"

section \<open>The router\<close>

type_synonym 'd handlers = "(string \<times> 'd handler) list"

definition RPCHandler :: "'d handlers \<Rightarrow> string \<Rightarrow> RPCError + 'd handler" where
  "RPCHandler rpcHandlers method =
     (case entry rpcHandlers method of None \<Rightarrow> Inl rpc_NewMethodNotFound | Some h \<Rightarrow> Inr h)"

definition validateMethodName :: "string \<Rightarrow> go_error + unit" where
  "validateMethodName method = (if HasPrefix method ''rpc.'' then Inl Internal else Inr ())"

definition RegisterRPCHandlerFunc :: "'d handlers \<Rightarrow> string \<times> 'd handler \<Rightarrow> go_error + 'd handlers" where
  "RegisterRPCHandlerFunc rpcHandlers mh =
     andS (validateMethodName (fst mh)) (\<lambda>_. Inr (rpcHandlers @ [mh]))"

fun registerAll :: "'d handlers \<Rightarrow> (string \<times> 'd handler) list \<Rightarrow> go_error + 'd handlers" where
  "registerAll rpcHandlers [] = Inr rpcHandlers"
| "registerAll rpcHandlers (mh # rest) =
     andS (RegisterRPCHandlerFunc rpcHandlers mh) (\<lambda>hs. registerAll hs rest)"

definition published :: "nat \<Rightarrow> env \<Rightarrow> 'd connector \<Rightarrow> (string \<times> 'd handler) list" where
  "published n en cn =
     [(''eth_generateAccount'', HandleGenerateAccount en cn),
      (''eth_importAccount'', HandleImportAccount en cn),
      (''eth_removeAccount'', HandleRemoveAccount en cn),
      (''eth_accounts'', HandleListAccounts en cn),
      (SignTransactionMethod, HandleSignTX en cn),
      (SignTypedDataMethod, HandleSignTypedData n en cn)]"

definition ProvideJSONRPCMethods :: "nat \<Rightarrow> env \<Rightarrow> 'd connector \<Rightarrow> go_error + 'd handlers" where
  "ProvideJSONRPCMethods n en cn = registerAll [] (published n en cn)"

definition HandleRPCRequest ::
    "'d handlers \<Rightarrow> string option \<Rightarrow> json option \<Rightarrow> 'd world \<Rightarrow> reply \<times> 'd world" where
  "HandleRPCRequest rpcHandlers cx body w =
     (case body of
        None \<Rightarrow> (HttpBadRequest, w)
      | Some j \<Rightarrow>
          (case dec_RPCRequest zero_request j of
             None \<Rightarrow> (HttpBadRequest, w)
           | Some rpcRequest \<Rightarrow>
               (case RPCHandler rpcHandlers (rr_Method rpcRequest) of
                  Inl notFound \<Rightarrow> (HttpBadRequest, w)
                | Inr handler \<Rightarrow>
                    (case handler cx rpcRequest w of
                       (Inl rpcError, w') \<Rightarrow> (ErrorReply rpcError, w')
                     | (Inr out, w') \<Rightarrow>
                         (if rr_ID rpcRequest = VNil then NoReply else ResultReply out, w')))))"

section \<open>The context of a request\<close>

record AuthHeadersConfiguration =
  UserRequestHeader :: string
  ApplicationRequestHeader :: string

record http_request =
  hr_Header :: "string \<Rightarrow> string"
  hr_Route :: "string option"
  hr_Body :: "json option"

definition headerKey :: "string \<Rightarrow> string \<Rightarrow> string" where
  "headerKey usual configured = (if configured \<noteq> [] then configured else usual)"

definition DefineUser :: "AuthHeadersConfiguration \<Rightarrow> http_request \<Rightarrow> string" where
  "DefineUser cfg r = TrimSpace (hr_Header r (headerKey ''X-Auth-UserId'' (UserRequestHeader cfg)))"

definition DefineApplication :: "AuthHeadersConfiguration \<Rightarrow> http_request \<Rightarrow> string" where
  "DefineApplication cfg r =
     TrimSpace (hr_Header r (headerKey ''X-Auth-ApplicationId'' (ApplicationRequestHeader cfg)))"

definition DefineAction :: "'d handlers \<Rightarrow> http_request \<Rightarrow> reply + string" where
  "DefineAction rpcHandlers r =
     (case hr_Route r of
        None \<Rightarrow> Inl (ErrorReply rpc_NewInternal)
      | Some actionID \<Rightarrow>
          (case hr_Body r of
             None \<Rightarrow> Inl (ErrorReply rpc_NewUnauthorized)
           | Some j \<Rightarrow>
               (case dec_RPCRequest zero_request j of
                  None \<Rightarrow> Inl (ErrorReply rpc_NewUnauthorized)
                | Some rpcRequest \<Rightarrow>
                    if rr_RPCVersion rpcRequest \<noteq> ''2.0'' then Inl (ErrorReply rpc_NewUnauthorized)
                    else Inr (case RPCHandler rpcHandlers (rr_Method rpcRequest) of
                                Inl _ \<Rightarrow> actionID
                              | Inr _ \<Rightarrow> actionID @ ''.'' @ rr_Method rpcRequest))))"

definition ValidateUser :: "string option \<Rightarrow> reply + unit" where
  "ValidateUser cx = (case cx of None \<Rightarrow> Inl (ErrorReply rpc_NewUnauthorized)
     | Some user \<Rightarrow> if user \<noteq> [] then Inr () else Inl (ErrorReply rpc_NewUnauthorized))"

definition ValidateAction :: "string option \<Rightarrow> reply + unit" where
  "ValidateAction cx = (case cx of None \<Rightarrow> Inl (ErrorReply rpc_NewUnauthorized)
     | Some action \<Rightarrow> if action \<noteq> [] then Inr () else Inl (ErrorReply rpc_NewUnauthorized))"

text \<open>The variable of the path is empty for the RPC interface.\<close>

definition ValidateApplication :: "string \<Rightarrow> string option \<Rightarrow> reply + unit" where
  "ValidateApplication applicationPathParam cx =
     (case cx of
        None \<Rightarrow> Inr ()
      | Some application \<Rightarrow>
          if applicationPathParam = [] then Inr ()
          else if application = applicationPathParam then Inr ()
          else Inl (ErrorReply rpc_NewUnauthorized))"

section \<open>What the enforcement point reads\<close>

definition zero_account_params :: AuthorizeAccountRPCParams where
  "zero_account_params = \<lparr>pa_From = [], pa_Address = []\<rparr>"

definition dec_AccountParams :: "AuthorizeAccountRPCParams decoder" where
  "dec_AccountParams = dec_fields
     [field ''from'' pa_From (\<lambda>x. pa_From_update (\<lambda>_. x)) dec_string,
      field ''address'' pa_Address (\<lambda>x. pa_Address_update (\<lambda>_. x)) dec_string]"

record AuthorizeAccountRPCBody =
  ab_Method :: string
  ab_ID :: gvalue
  ab_Params :: "json option"

definition dec_AccountBody :: "AuthorizeAccountRPCBody decoder" where
  "dec_AccountBody = dec_fields
     [field ''method'' ab_Method (\<lambda>x. ab_Method_update (\<lambda>_. x)) dec_string,
      field ''id'' ab_ID (\<lambda>x. ab_ID_update (\<lambda>_. x)) (dec_any False),
      field ''params'' ab_Params (\<lambda>x. ab_Params_update (\<lambda>_. x)) dec_raw]"

text \<open>The parameters read as a list and as an object, and the body as \<open>ReadAndResetCloser\<close> reads it.\<close>

definition params_read :: "json option \<Rightarrow> rpc_body" where
  "params_read params =
     \<lparr>bo_Array = (case params of None \<Rightarrow> None
        | Some p \<Rightarrow> map_option seen (dec_slice zero_account_params dec_AccountParams None p)),
      bo_Object = (case params of None \<Rightarrow> None | Some p \<Rightarrow> dec_AccountParams zero_account_params p)\<rparr>"

definition body_read :: "json option \<Rightarrow> rpc_body option" where
  "body_read body =
     (case body of
        None \<Rightarrow> None
      | Some j \<Rightarrow> map_option (\<lambda>b. params_read (ab_Params b))
          (dec_AccountBody \<lparr>ab_Method = [], ab_ID = VNil, ab_Params = None\<rparr> j))"

section \<open>The chain\<close>

definition refusal_reply :: "refusal \<Rightarrow> reply" where
  "refusal_reply r = (case r of Forbidden \<Rightarrow> ErrorReply rpc_NewUnauthorized | BadRequest \<Rightarrow> HttpBadRequest)"

text \<open>What authentication puts into the context of a request, with the body for the next ones.\<close>

definition authenticate :: "'d handlers \<Rightarrow> AuthHeadersConfiguration \<Rightarrow> http_request \<Rightarrow> reply + rpc_request" where
  "authenticate rpcHandlers cfg r =
     andS (DefineAction rpcHandlers r) (\<lambda>action.
     andS (ValidateAction (Some action)) (\<lambda>_.
     let user = DefineUser cfg r in
     andS (ValidateUser (Some user)) (\<lambda>_.
     let application = DefineApplication cfg r in
     andS (ValidateApplication [] (Some application)) (\<lambda>_.
     Inr \<lparr>rq_User = Some user, rq_Application = Some application, rq_Action = Some action,
          rq_Body = body_read (hr_Body r)\<rparr>))))"

definition serve_one ::
    "env \<Rightarrow> (string \<Rightarrow> string list option) \<Rightarrow> 'd handlers \<Rightarrow> AuthHeadersConfiguration \<Rightarrow> http_request \<Rightarrow>
     'd world \<Rightarrow> reply \<times> 'd world" where
  "serve_one en roleActionMap rpcHandlers cfg r w =
     (case authenticate rpcHandlers cfg r of
        Inl refused \<Rightarrow> (refused, w)
      | Inr rq \<Rightarrow>
          (case rpc_authorization en roleActionMap rq w of
             (Inl refused, w') \<Rightarrow> (refusal_reply refused, w')
           | (Inr _, w') \<Rightarrow> HandleRPCRequest rpcHandlers (rq_Application rq) (hr_Body r) w'))"

section \<open>Batches\<close>

text \<open>
  The text of an element: the request that was decoded, written again.  A number that is the id of a
  request is written as a float, whose text the model leaves as it is; escapes are not written, since
  nothing reads them in a parameter that is used.
\<close>

fun json_of :: "gvalue \<Rightarrow> json" where
  "json_of (VBool b) = JBool b"
| "json_of (VString s) = JString s s"
| "json_of (VNumber lit) = JNumber lit"
| "json_of (VSlice vs) = JArray (map json_of vs)"
| "json_of (VMap m) = JObject (map (\<lambda>(k, v). (k, json_of v)) m)"
| "json_of _ = JNull"

definition marshalled :: "RPCRequest \<Rightarrow> json" where
  "marshalled r = JObject
     [(''jsonrpc'', JString (rr_RPCVersion r) (rr_RPCVersion r)), (''id'', json_of (rr_ID r)),
      (''method'', JString (rr_Method r) (rr_Method r)),
      (''params'', case rr_Params r of None \<Rightarrow> JNull | Some p \<Rightarrow> p)]"

definition maxBatchElements :: nat where
  "maxBatchElements = 100"

fun serve_each :: "(json \<Rightarrow> 'w \<Rightarrow> reply \<times> 'w) \<Rightarrow> json list \<Rightarrow> 'w \<Rightarrow> reply list \<times> 'w" where
  "serve_each srv [] w = ([], w)"
| "serve_each srv (j # js) w =
     (case srv j w of (reply, w') \<Rightarrow> case serve_each srv js w' of (replies, w'') \<Rightarrow> (reply # replies, w''))"

definition FanOutRPCBatchRequest ::
    "(http_request \<Rightarrow> 'w \<Rightarrow> reply \<times> 'w) \<Rightarrow> http_request \<Rightarrow> 'w \<Rightarrow> reply list \<times> 'w" where
  "FanOutRPCBatchRequest next r w =
     (case hr_Body r of
        None \<Rightarrow> ([HttpBadRequest], w)
      | Some j \<Rightarrow>
          (case dec_RPCRequest zero_request j of
             Some _ \<Rightarrow> (case next r w of (reply, w') \<Rightarrow> ([reply], w'))
           | None \<Rightarrow>
               (case dec_slice zero_request dec_RPCRequest None j of
                  None \<Rightarrow> ([HttpBadRequest], w)
                | Some batch \<Rightarrow>
                    if seen batch = [] \<or> maxBatchElements < length (seen batch) then ([HttpBadRequest], w)
                    else serve_each (\<lambda>j. next (r\<lparr>hr_Body := Some j\<rparr>)) (map marshalled (seen batch)) w)))"

definition serve ::
    "env \<Rightarrow> (string \<Rightarrow> string list option) \<Rightarrow> 'd handlers \<Rightarrow> AuthHeadersConfiguration \<Rightarrow> http_request \<Rightarrow>
     'd world \<Rightarrow> reply list \<times> 'd world" where
  "serve en roleActionMap rpcHandlers cfg =
     FanOutRPCBatchRequest (serve_one en roleActionMap rpcHandlers cfg)"

end
