(* ===== verification/Rpc_Signing.thy ===== *)
theory Rpc_Signing
  imports Rpc_Server "HOL-Library.Code_Target_Nat"
begin

text \<open>
  Whose key signs a request: the middleware decides over an address it reads from the body, and the
  handler signs with an address it reads from the same body, by other code.  The theorems say when the
  two are the same, and show the request for which they are not.
\<close>

section \<open>Reading one field\<close>

text \<open>The value that a string field of a struct has after an object was decoded into the struct.\<close>

fun track :: "string \<Rightarrow> string \<Rightarrow> (string \<times> json) list \<Rightarrow> string" where
  "track name old [] = old"
| "track name old ((k, j) # ms) =
     track name (if names k name then (case j of JString txt lit \<Rightarrow> txt | _ \<Rightarrow> old) else old) ms"

definition reads_string :: "string \<Rightarrow> ('a \<Rightarrow> string) \<Rightarrow> (string \<times> 'a decoder) list \<Rightarrow> bool" where
  "reads_string name get fs \<longleftrightarrow>
     (\<forall>k s j s'. member_of fs k s j = Some s' \<longrightarrow>
        (if names k name then dec_string (get s) j = Some (get s') else get s' = get s))"

lemma reads_track:
  assumes "reads_string name get fs"
  shows "dec_members (member_of fs) s ms = Some s' \<Longrightarrow> get s' = track name (get s) ms"
proof (induction ms arbitrary: s)
  case (Cons m ms)
  obtain k j where m: "m = (k, j)" by (cases m)
  obtain s1 where s1: "member_of fs k s j = Some s1" "dec_members (member_of fs) s1 ms = Some s'"
    using Cons.prems m by (auto split: option.splits)
  have "if names k name then dec_string (get s) j = Some (get s1) else get s1 = get s"
    using assms s1(1) unfolding reads_string_def by blast
  then have "get s1 = (if names k name then (case j of JString txt lit \<Rightarrow> txt | _ \<Rightarrow> get s) else get s)"
    by (auto simp: dec_string_def split: json.splits if_splits)
  then show ?case using Cons.IH [OF s1(2)] m by simp
qed simp

lemma track_append: "track name old (ms @ ms') = track name (track name old ms) ms'"
  by (induction name old ms rule: track.induct) simp_all

text \<open>
  If no key but the name itself denotes the field, a string found under the name is the value of the
  field.
\<close>

lemma track_entry:
  "list_all (\<lambda>(k, j). names k name \<longrightarrow> k = name) ms \<Longrightarrow> entry ms name = Some (JString txt lit) \<Longrightarrow>
     track name old ms = txt"
proof (induction ms arbitrary: old rule: rev_induct)
  case (snoc m ms)
  obtain k j where m: "m = (k, j)" by (cases m)
  show ?case
  proof (cases "k = name")
    case True
    then show ?thesis using snoc.prems m by (simp add: track_append names_def)
  next
    case False
    then have "track name old ms = txt" using snoc m by simp
    moreover have "\<not> names k name" using False snoc.prems m by auto
    ultimately show ?thesis using m by (simp add: track_append)
  qed
qed simp

lemma folded_names:
  "fold_name ''from'' = ''FROM''" "fold_name ''address'' = ''ADDRESS''" "fold_name ''ApplicationID'' = ''APPLICATIONID''"
  "fold_name ''to'' = ''TO''" "fold_name ''gas'' = ''GAS''" "fold_name ''gasPrice'' = ''GASPRICE''"
  "fold_name ''value'' = ''VALUE''" "fold_name ''data'' = ''DATA''" "fold_name ''nonce'' = ''NONCE''"
  "fold_name ''chainId'' = ''CHAINID''" "fold_name ''maxFeePerGas'' = ''MAXFEEPERGAS''"
  "fold_name ''maxPriorityFeePerGas'' = ''MAXPRIORITYFEEPERGAS''" "fold_name ''accessList'' = ''ACCESSLIST''"
  "fold_name ''maxFeePerBlobGas'' = ''MAXFEEPERBLOBGAS''" "fold_name ''blobVersionedHashes'' = ''BLOBVERSIONEDHASHES''"
  "fold_name ''authorizationList'' = ''AUTHORIZATIONLIST''" "fold_name ''typedData'' = ''TYPEDDATA''"
  "fold_name ''jsonrpc'' = ''JSONRPC''" "fold_name ''id'' = ''ID''" "fold_name ''method'' = ''METHOD''"
  "fold_name ''params'' = ''PARAMS''"
  by code_simp+

lemma account_reads:
  "dec_AccountParams s (JObject ms) = Some s' \<Longrightarrow> pa_From s' = track ''from'' (pa_From s) ms"
  "dec_AccountParams s (JObject ms) = Some s' \<Longrightarrow> pa_Address s' = track ''address'' (pa_Address s) ms"
  unfolding dec_AccountParams_def dec_fields_def dec_struct_def json.case
  by (erule reads_track [rotated], auto simp: reads_string_def field_def names_def folded_names split: if_splits)+

lemma sign_tx_reads:
  "dec_SignTX s (JObject ms) = Some s' \<Longrightarrow> tp_From s' = track ''from'' (tp_From s) ms"
  unfolding dec_SignTX_def dec_fields_def dec_struct_def json.case
  by (erule reads_track [rotated], auto simp: reads_string_def field_def names_def folded_names split: if_splits)

lemma typed_reads:
  "dec_ParamsObject s (JObject ms) = Some s' \<Longrightarrow> ob_Address s' = track ''address'' (ob_Address s) ms"
  unfolding dec_ParamsObject_def dec_fields_def dec_struct_def json.case
  by (erule reads_track [rotated], auto simp: reads_string_def field_def names_def folded_names split: if_splits)

section \<open>Reading the parameters\<close>

text \<open>Both structs for a request hold the same raw parameters.\<close>

fun track_raw :: "string \<Rightarrow> json option \<Rightarrow> (string \<times> json) list \<Rightarrow> json option" where
  "track_raw name old [] = old"
| "track_raw name old ((k, j) # ms) = track_raw name (if names k name then Some j else old) ms"

lemma request_params:
  "dec_RPCRequest s (JObject ms) = Some s' \<Longrightarrow> rr_Params s' = track_raw ''params'' (rr_Params s) ms"
  unfolding dec_RPCRequest_def dec_fields_def dec_struct_def json.case
  by (induction ms arbitrary: s) (auto simp: field_def names_def folded_names dec_raw_def split: if_splits option.splits)

lemma body_params:
  "dec_AccountBody s (JObject ms) = Some s' \<Longrightarrow> ab_Params s' = track_raw ''params'' (ab_Params s) ms"
  unfolding dec_AccountBody_def dec_fields_def dec_struct_def json.case
  by (induction ms arbitrary: s) (auto simp: field_def names_def folded_names dec_raw_def split: if_splits option.splits)

lemma same_params:
  assumes "dec_RPCRequest zero_request j = Some rpc" "body_read (Some j) = Some body" "rr_Params rpc \<noteq> None"
  shows "body = params_read (rr_Params rpc)"
proof (cases j)
  case (JObject ms)
  then show ?thesis
    using assms request_params [of zero_request ms rpc] body_params
    by (auto simp: body_read_def zero_request_def)
next
  case JNull
  then show ?thesis using assms
    by (auto simp: dec_RPCRequest_def dec_fields_def dec_struct_def zero_request_def)
qed (use assms in \<open>auto simp: dec_RPCRequest_def dec_fields_def dec_struct_def\<close>)

lemma dec_elems_any: "dec_elems VNil (dec_any b) [] js = Some xs \<Longrightarrow> xs = map any_value js"
  by (induction js arbitrary: xs) (auto simp: dec_any_def split: option.splits if_splits)

lemma single_object_Inr: "single_object vs = Inr m \<longleftrightarrow> vs = [VMap m]"
  by (auto simp: single_object_def split: list.splits gvalue.splits)

text \<open>How parameters come to a struct: by decoding, or from the one object of a list.\<close>

lemma ProcessParams_Inr:
  assumes "ProcessParams dec sp params p0 = Inr p"
  shows "\<exists>j. params = Some j \<and> (dec p0 j = Some p \<or>
    (\<exists>js. (j = JArray js \<or> (j = JNull \<and> js = [])) \<and> dec p0 j = None \<and> sp p0 (map any_value js) = Inr p))"
proof -
  obtain j where j: "params = Some j" using assms by (auto simp: ProcessParams_def split: option.splits)
  show ?thesis
  proof (cases "dec p0 j")
    case None
    then obtain ps where ps: "dec_slice VNil (dec_any False) (Some (0, [])) j = Some ps" "sp p0 (seen ps) = Inr p"
      using assms j by (auto simp: ProcessParams_def split: option.splits sum.splits)
    show ?thesis
    proof (cases j)
      case JNull
      then show ?thesis using None ps j by (auto simp: dec_slice_def seen_def)
    next
      case (JArray js)
      then have "seen ps = map any_value js"
        using ps(1) by (cases js) (auto simp: dec_slice_def seen_def simp del: dec_elems.simps dest: dec_elems_any)
      then show ?thesis using JArray None ps j by auto
    qed (use ps in \<open>auto simp: dec_slice_def\<close>)
  qed (use assms j in \<open>simp add: ProcessParams_def\<close>)
qed

section \<open>The address that signs\<close>

lemma required_string_Inr: "required_string m name = Inr s \<longleftrightarrow> entry m name = Some (VString s)"
  by (auto simp: required_string_def split: option.splits gvalue.splits)

lemma setters_keep_from:
  "setAccessListParam p m = Inr p' \<Longrightarrow> tp_From p' = tp_From p"
  "setEIP4844Params p m = Inr p' \<Longrightarrow> tp_From p' = tp_From p"
  "setAuthorizationListParam p m = Inr p' \<Longrightarrow> tp_From p' = tp_From p"
  by (auto simp: setAccessListParam_def setEIP4844Params_def setAuthorizationListParam_def sum_ok)

lemma sign_SetParamsFrom_from:
  assumes "sign_SetParamsFrom p0 vs = Inr p"
  shows "\<exists>m. vs = [VMap m] \<and> entry m ''from'' = Some (VString (tp_From p))"
  using assms unfolding sign_SetParamsFrom_def Let_def
  by (auto simp: sum_ok single_object_Inr required_string_Inr dest!: setters_keep_from)

lemma any_value_map: "any_value j = VMap m \<longleftrightarrow> (\<exists>ms. j = JObject ms \<and> m = map (\<lambda>(k, j). (k, any_value j)) ms)"
  by (cases j) auto

lemma any_value_string: "any_value j = VString s \<longleftrightarrow> (\<exists>lit. j = JString s lit)"
  by (cases j) auto

definition address_in :: "string \<Rightarrow> address option" where
  "address_in s = (case NewFromHexString s of Inl _ \<Rightarrow> None | Inr a \<Rightarrow> Some a)"

text \<open>The address the enforcement point takes, for an object and for a list.\<close>

lemma signing_address_object:
  "signing_address typed (params_read (Some (JObject ms))) = Some addr \<Longrightarrow>
     address_in (track (if typed then ''address'' else ''from'') [] ms) = Some addr"
  using account_reads [of zero_account_params ms]
  by (cases typed) (auto simp: signing_address_def params_read_def dec_slice_def getAddressFromParamsArray_def address_in_def
      getAddressFromParamsObject_def signerAddress_def zero_account_params_def split: option.splits sum.splits)

lemma signing_address_list:
  "signing_address typed (params_read (Some (JArray [JObject ms]))) = Some addr \<Longrightarrow>
     address_in (track (if typed then ''address'' else ''from'') [] ms) = Some addr"
  using account_reads [of zero_account_params ms]
  by (cases typed) (auto simp: signing_address_def params_read_def dec_slice_def getAddressFromParamsArray_def address_in_def
      getAddressFromParamsObject_def signerAddress_def zero_account_params_def seen_def
      dec_AccountParams_def dec_fields_def dec_struct_def split: option.splits sum.splits)

text \<open>Parameters in whose list form no key but \<open>from\<close> itself denotes the sender.\<close>

definition unambiguous :: "json option \<Rightarrow> bool" where
  "unambiguous params =
     (case params of
        Some (JArray (JObject ms # js)) \<Rightarrow> list_all (\<lambda>(k, j). names k ''from'' \<longrightarrow> k = ''from'') ms
      | _ \<Rightarrow> True)"

lemma transaction_sender:
  assumes p: "ProcessParams dec_SignTX sign_SetParamsFrom params zero_sign_tx = Inr p" "tp_From p \<noteq> []"
    and pep: "signing_address False (params_read params) = Some addr" and clear: "unambiguous params"
  shows "address_in (tp_From p) = Some addr"
proof -
  obtain j where j: "params = Some j" and cases: "dec_SignTX zero_sign_tx j = Some p \<or>
      (\<exists>js. (j = JArray js \<or> (j = JNull \<and> js = [])) \<and> dec_SignTX zero_sign_tx j = None \<and>
        sign_SetParamsFrom zero_sign_tx (map any_value js) = Inr p)"
    using ProcessParams_Inr [OF p(1)] by blast
  from cases show ?thesis
  proof
    assume d: "dec_SignTX zero_sign_tx j = Some p"
    then consider ms where "j = JObject ms" | "j = JNull"
      by (cases j) (auto simp: dec_SignTX_def dec_fields_def dec_struct_def)
    then show ?thesis
    proof cases
      case 1
      then show ?thesis
        using sign_tx_reads [of zero_sign_tx ms p] signing_address_object [of False ms addr] d pep j
        by (simp add: zero_sign_tx_def)
    next
      case 2
      then show ?thesis using d p(2)
        by (auto simp: dec_SignTX_def dec_fields_def dec_struct_def zero_sign_tx_def)
    qed
  next
    assume "\<exists>js. (j = JArray js \<or> (j = JNull \<and> js = [])) \<and> dec_SignTX zero_sign_tx j = None \<and>
        sign_SetParamsFrom zero_sign_tx (map any_value js) = Inr p"
    then obtain js where js: "j = JArray js \<or> (j = JNull \<and> js = [])"
        "sign_SetParamsFrom zero_sign_tx (map any_value js) = Inr p" by blast
    obtain m where m: "map any_value js = [VMap m]" "entry m ''from'' = Some (VString (tp_From p))"
      using sign_SetParamsFrom_from [OF js(2)] by auto
    then obtain ms where ms: "js = [JObject ms]" "m = map (\<lambda>(k, j). (k, any_value j)) ms"
      by (auto simp: any_value_map)
    then obtain lit where "entry ms ''from'' = Some (JString (tp_From p) lit)"
      using m(2) by (auto simp: entry_value_of any_value_string)
    moreover have "j = JArray [JObject ms]" using js(1) ms(1) by auto
    ultimately show ?thesis
      using track_entry [of "''from''" ms "tp_From p" lit "[]"] signing_address_list [of False ms addr] clear pep j
      by (simp add: unambiguous_def)
  qed
qed

lemma dec_elems_Nil: "dec_elems zero d [] js = Some [] \<longleftrightarrow> js = []"
  using dec_elems_fresh [of zero d js "[]"] by auto

lemma typed_data_sender:
  assumes p: "ProcessParams typed_UnmarshalJSON typed_SetParamsFrom params zero_sign_typed = Inr p" "dp_Address p \<noteq> []"
    and pep: "signing_address True (params_read params) = Some addr"
  shows "address_in (dp_Address p) = Some addr"
proof -
  obtain j where j: "params = Some j" and cases: "typed_UnmarshalJSON zero_sign_typed j = Some p \<or>
      (\<exists>js. typed_SetParamsFrom zero_sign_typed (map any_value js) = Inr p)"
    using ProcessParams_Inr [OF p(1)] by blast
  have "typed_UnmarshalJSON zero_sign_typed j = Some p"
    using cases by (auto simp: typed_SetParamsFrom_def sum_ok)
  then consider ms obj where "j = JObject ms" "dec_ParamsObject zero_object (JObject ms) = Some obj" "ob_Address obj = dp_Address p"
    | ms obj where "j = JArray [JObject ms]" "dec_ParamsObject zero_object (JObject ms) = Some obj" "ob_Address obj = dp_Address p"
    using p(2)
    by (cases j) (auto simp: typed_UnmarshalJSON_def Let_def dec_slice_def seen_def dec_ParamsObject_def dec_fields_def
        dec_struct_def zero_object_def dec_elems_Nil split: list.splits option.splits json.splits)
  then show ?thesis
    using typed_reads [of zero_object _] signing_address_object [of True _ addr] signing_address_list [of True _ addr] pep j
    by cases (fastforce simp: zero_object_def)+
qed

section \<open>From the request to the signature\<close>

lemma onDevices_Inr: "onDevices m w = (Inr x, w') \<Longrightarrow> \<exists>d d'. m d = (Inr x, d')"
  by (auto simp: onDevices_def split: prod.splits)

lemma sign_tx_input_from:
  "sign_tx_input conn p = Inr input \<Longrightarrow> address_in (tp_From p) = Some (in_From input)"
  unfolding sign_tx_input_def adaptEIP4844Fields_def adaptHSMModule_def
  by (auto simp: sum_ok paramS_Inr address_in_def)

lemma HandleSignTX_Inr:
  assumes "HandleSignTX en cn cx r w = (Inr resp, w')"
  shows "\<exists>p input out d d'. ProcessParams dec_SignTX sign_SetParamsFrom (rr_Params r) zero_sign_tx = Inr p \<and>
    tp_From p \<noteq> [] \<and> address_in (tp_From p) = Some (in_From input) \<and> SignTx cn input d = (Inr out, d') \<and>
    rs_Result resp = Text (out_SignedTx out)"
proof -
  obtain p app conn input out w1 w2 where p: "ProcessParams dec_SignTX sign_SetParamsFrom (rr_Params r) zero_sign_tx = Inr p"
      "validS (sign_ValidateParams p) = Inr ()" "sign_tx_input conn (p\<lparr>tp_ApplicationID := app\<rparr>) = Inr input"
      "onDevices (SignTx cn input) w1 = (Inr out, w2)" "rs_Result resp = Text (out_SignedTx out)"
    using assms by (auto simp: HandleSignTX_def AdaptSignTx_def rpc_ok respond_def)
  have "tp_From p \<noteq> []" using p(2) by (auto simp: validS_def sign_ValidateParams_def sum_ok split: sum.splits)
  then show ?thesis using p sign_tx_input_from [OF p(3)] onDevices_Inr [OF p(4)] by auto
qed

lemma HandleSignTypedData_Inr:
  assumes "HandleSignTypedData n en cn cx r w = (Inr resp, w')"
  shows "\<exists>p input out d d'. ProcessParams typed_UnmarshalJSON typed_SetParamsFrom (rr_Params r) zero_sign_typed = Inr p \<and>
    dp_Address p \<noteq> [] \<and> address_in (dp_Address p) = Some (st_Address input) \<and> st_TypedData input = dp_TypedData p \<and>
    SignTypedData n cn input d = (Inr out, d') \<and> rs_Result resp = Text (st_SignedData out)"
proof -
  obtain p slot chain signer out w1 w2 where p:
      "ProcessParams typed_UnmarshalJSON typed_SetParamsFrom (rr_Params r) zero_sign_typed = Inr p"
      "validS (typed_ValidateParams p) = Inr ()" "paramS ''address'' (NewFromHexString (dp_Address p)) = Inr signer"
      "onDevices (SignTypedData n cn \<lparr>st_Slot = slot, st_ChainID = chain, st_Address = signer,
         st_TypedData = dp_TypedData p\<rparr>) w1 = (Inr out, w2)" "rs_Result resp = Text (st_SignedData out)"
    using assms by (auto simp: HandleSignTypedData_def AdaptSignTypedData_def Let_def rpc_ok respond_def)
  have "dp_Address p \<noteq> []" using p(2) by (auto simp: validS_def typed_ValidateParams_def sum_ok split: sum.splits)
  moreover obtain d d' where "SignTypedData n cn \<lparr>st_Slot = slot, st_ChainID = chain, st_Address = signer,
         st_TypedData = dp_TypedData p\<rparr> d = (Inr out, d')" using onDevices_Inr [OF p(4)] by blast
  moreover have "address_in (dp_Address p) = Some signer" using p(3) by (simp add: paramS_Inr address_in_def)
  ultimately show ?thesis using p
    by (intro exI [of _ p] exI [of _ "\<lparr>st_Slot = slot, st_ChainID = chain, st_Address = signer,
         st_TypedData = dp_TypedData p\<rparr>"] exI [of _ out] exI [of _ d] exI [of _ d']) simp
qed

lemma ProcessParams_Some: "ProcessParams dec sp params p0 = Inr p \<Longrightarrow> params \<noteq> None"
  by (cases params) (simp_all add: ProcessParams_def)

lemma published_all: "ProvideJSONRPCMethods n en cn = Inr (published n en cn)"
  by (simp add: ProvideJSONRPCMethods_def published_def RegisterRPCHandlerFunc_def validateMethodName_def
      HasPrefix_def andS_def SignTransactionMethod_def SignTypedDataMethod_def)

lemma published_signers:
  "RPCHandler (published n en cn) SignTransactionMethod = Inr (HandleSignTX en cn)"
  "RPCHandler (published n en cn) SignTypedDataMethod = Inr (HandleSignTypedData n en cn)"
  by (simp_all add: RPCHandler_def published_def entry_Cons SignTransactionMethod_def SignTypedDataMethod_def)

text \<open>A request that is answered with a result has passed every handler of the chain.\<close>

lemma serve_one_result:
  assumes "serve_one en m hs cfg r w = (ResultReply resp, w')"
    and "hr_Body r = Some j" "dec_RPCRequest zero_request j = Some rpc" "hr_Route r = Some route"
    and "RPCHandler hs (rr_Method rpc) = Inr handler"
  shows "\<exists>w1. rpc_authorization en m
      \<lparr>rq_User = Some (DefineUser cfg r), rq_Application = Some (DefineApplication cfg r),
       rq_Action = Some (route @ ''.'' @ rr_Method rpc), rq_Body = body_read (Some j)\<rparr> w = (Inr (), w1) \<and>
    handler (Some (DefineApplication cfg r)) rpc w1 = (Inr resp, w')"
proof -
  obtain rq where rq: "authenticate hs cfg r = Inr rq"
    using assms(1) by (auto simp: serve_one_def authenticate_def andS_def DefineAction_def assms(2-5)
        ValidateAction_def ValidateUser_def ValidateApplication_def Let_def split: sum.splits if_splits)
  then have eq: "rq = \<lparr>rq_User = Some (DefineUser cfg r), rq_Application = Some (DefineApplication cfg r),
       rq_Action = Some (route @ ''.'' @ rr_Method rpc), rq_Body = body_read (Some j)\<rparr>"
    by (auto simp: authenticate_def sum_ok DefineAction_def assms(2-5) Let_def split: if_splits)
  show ?thesis
    using assms(1) rq unfolding serve_one_def eq
    by (auto simp: HandleRPCRequest_def assms(2-5) refusal_reply_def
        split: prod.splits sum.splits if_splits refusal.splits)
qed

text \<open>
  C1: a signed transaction that leaves the server was signed for the user of the request with an account
  of that user: he is stored in the application with a role that grants the signing of transactions, and
  the address whose key signed - the one in the input of the connector - is an account enabled
  for him.  The hypothesis on the parameters is needed: in the list form no key of the object may
  denote \<open>from\<close> without being \<open>from\<close>.
\<close>

theorem served_transaction_is_own:
  assumes "w_faults w = []" and "ProvideJSONRPCMethods n en cn = Inr hs"
    and "hr_Route r = Some ''rpc.method''" "hr_Body r = Some j" "dec_RPCRequest zero_request j = Some rpc"
    and "rr_Method rpc = ''eth_signTransaction''" and "unambiguous (rr_Params rpc)"
    and "serve_one en m hs cfg r w = (ResultReply resp, w')"
  shows "\<exists>input out d d'. SignTx cn input d = (Inr out, d') \<and> rs_Result resp = Text (out_SignedTx out) \<and>
    entitled m w (DefineUser cfg r) (Some (DefineApplication cfg r)) ''rpc.method.eth_signTransaction'' \<and>
    (\<exists>row \<in> set (w_accounts w). ac_ApplicationID row = DefineApplication cfg r \<and>
       ac_UserID row = DefineUser cfg r \<and> ac_Address row = String_of_address (e_keccak en) (in_From input))"
proof -
  have hs: "hs = published n en cn" using assms(2) published_all [of n en cn] by simp
  have handler: "RPCHandler hs (rr_Method rpc) = Inr (HandleSignTX en cn)"
    using published_signers(1) [of n en cn] assms(6) by (simp add: hs SignTransactionMethod_def)
  let ?rq = "\<lparr>rq_User = Some (DefineUser cfg r), rq_Application = Some (DefineApplication cfg r),
       rq_Action = Some (''rpc.method'' @ ''.'' @ rr_Method rpc), rq_Body = body_read (Some j)\<rparr>"
  obtain w1 where pass: "rpc_authorization en m ?rq w = (Inr (), w1)"
      and run: "HandleSignTX en cn (Some (DefineApplication cfg r)) rpc w1 = (Inr resp, w')"
    using serve_one_result [OF assms(8,4,5,3) handler] by blast
  obtain p input out d d' where h: "ProcessParams dec_SignTX sign_SetParamsFrom (rr_Params rpc) zero_sign_tx = Inr p"
      "tp_From p \<noteq> []" "address_in (tp_From p) = Some (in_From input)" "SignTx cn input d = (Inr out, d')"
      "rs_Result resp = Text (out_SignedTx out)"
    using HandleSignTX_Inr [OF run] by blast
  have act: "rq_Action ?rq = Some ''rpc.method.eth_signTransaction''" using assms(6) by simp
  have "(''rpc.method.eth_signTransaction'' = ''rpc.method.eth_signTransaction'' \<and> \<not> False) \<or>
      (''rpc.method.eth_signTransaction'' = ''rpc.method.eth_signTypedData'' \<and> False)" by simp
  from rpc_authorization_Inr [OF assms(1) pass act this]
  obtain body addr row where pep: "body_read (Some j) = Some body" "signing_address False body = Some addr"
      "entitled m w (DefineUser cfg r) (Some (DefineApplication cfg r)) ''rpc.method.eth_signTransaction''"
      "row \<in> set (w_accounts w)" "ac_ApplicationID row = DefineApplication cfg r" "ac_UserID row = DefineUser cfg r"
      "ac_Address row = String_of_address (e_keccak en) addr" by auto
  have "body = params_read (rr_Params rpc)"
    using same_params [OF assms(5) pep(1) ProcessParams_Some [OF h(1)]] .
  then have "in_From input = addr"
    using transaction_sender [OF h(1,2) _ assms(7), of addr] pep(2) h(3) by simp
  then show ?thesis using h pep by blast
qed

text \<open>
  C2: the same for typed data, without any hypothesis on the parameters: the enforcement point and the
  handler decode them alike.
\<close>

theorem served_typed_data_is_own:
  assumes "w_faults w = []" and "ProvideJSONRPCMethods n en cn = Inr hs"
    and "hr_Route r = Some ''rpc.method''" "hr_Body r = Some j" "dec_RPCRequest zero_request j = Some rpc"
    and "rr_Method rpc = ''eth_signTypedData''"
    and "serve_one en m hs cfg r w = (ResultReply resp, w')"
  shows "\<exists>input out d d'. SignTypedData n cn input d = (Inr out, d') \<and> rs_Result resp = Text (st_SignedData out) \<and>
    entitled m w (DefineUser cfg r) (Some (DefineApplication cfg r)) ''rpc.method.eth_signTypedData'' \<and>
    (\<exists>row \<in> set (w_accounts w). ac_ApplicationID row = DefineApplication cfg r \<and>
       ac_UserID row = DefineUser cfg r \<and> ac_Address row = String_of_address (e_keccak en) (st_Address input))"
proof -
  have hs: "hs = published n en cn" using assms(2) published_all [of n en cn] by simp
  have handler: "RPCHandler hs (rr_Method rpc) = Inr (HandleSignTypedData n en cn)"
    using published_signers(2) [of n en cn] assms(6) by (simp add: hs SignTypedDataMethod_def)
  let ?rq = "\<lparr>rq_User = Some (DefineUser cfg r), rq_Application = Some (DefineApplication cfg r),
       rq_Action = Some (''rpc.method'' @ ''.'' @ rr_Method rpc), rq_Body = body_read (Some j)\<rparr>"
  obtain w1 where pass: "rpc_authorization en m ?rq w = (Inr (), w1)"
      and run: "HandleSignTypedData n en cn (Some (DefineApplication cfg r)) rpc w1 = (Inr resp, w')"
    using serve_one_result [OF assms(7,4,5,3) handler] by blast
  obtain p input out d d' where h: "ProcessParams typed_UnmarshalJSON typed_SetParamsFrom (rr_Params rpc) zero_sign_typed = Inr p"
      "dp_Address p \<noteq> []" "address_in (dp_Address p) = Some (st_Address input)" "SignTypedData n cn input d = (Inr out, d')"
      "rs_Result resp = Text (st_SignedData out)"
    using HandleSignTypedData_Inr [OF run] by blast
  have act: "rq_Action ?rq = Some ''rpc.method.eth_signTypedData''" using assms(6) by simp
  have "(''rpc.method.eth_signTypedData'' = ''rpc.method.eth_signTransaction'' \<and> \<not> True) \<or>
      (''rpc.method.eth_signTypedData'' = ''rpc.method.eth_signTypedData'' \<and> True)" by simp
  from rpc_authorization_Inr [OF assms(1) pass act this]
  obtain body addr row where pep: "body_read (Some j) = Some body" "signing_address True body = Some addr"
      "entitled m w (DefineUser cfg r) (Some (DefineApplication cfg r)) ''rpc.method.eth_signTypedData''"
      "row \<in> set (w_accounts w)" "ac_ApplicationID row = DefineApplication cfg r" "ac_UserID row = DefineUser cfg r"
      "ac_Address row = String_of_address (e_keccak en) addr" by auto
  have "body = params_read (rr_Params rpc)"
    using same_params [OF assms(5) pep(1) ProcessParams_Some [OF h(1)]] .
  then have "st_Address input = addr"
    using typed_data_sender [OF h(1,2), of addr] pep(2) h(3) by simp
  then show ?thesis using h pep by blast
qed

section \<open>Concrete requests\<close>

definition address_text :: "string \<Rightarrow> string" where
  "address_text b = ''0x'' @ concat (replicate 20 b)"

text \<open>A user with one account, in an application whose slot is one of the service of Azure.\<close>

definition server_world :: "string \<Rightarrow> unit world" where
  "server_world b = sample_user_world\<lparr>
     w_accounts := [\<lparr>ac_InternalResourceID = ''u7'', ac_Address = address_text b,
       ac_ApplicationID = ''app'', ac_UserID = ''bob'', ac_CreationDate = 3, ac_LastUpdate = 3\<rparr>],
     w_modules := [\<lparr>hm_ID = ''akv'', hm_InternalResourceID = ''u8'', hm_Kind = ''AKV'', hm_Configuration = [],
       hm_Description = [], hm_CreationDate = 0, hm_LastUpdate = 0, hm_ResourceVersion = ''u9''\<rparr>],
     w_slots := [\<lparr>sl_ID = ''slot'', sl_InternalResourceID = ''u10'', sl_ApplicationID = ''app'', sl_HSMModuleID = ''akv'',
       sl_Slot = [], sl_Pin = [], sl_Config = no_slot_config, sl_CreationDate = 0, sl_LastUpdate = 0,
       sl_ResourceVersion = ''u11''\<rparr>]\<rparr>"

definition server_connection :: HSMConnection where
  "server_connection =
     \<lparr>conn_Slot = blank_slot\<lparr>Slot_ID := ''slot'', Slot_InternalResourceID := ''u10'', Slot_ApplicationID := ''app'',
        Slot_HSMModuleID := ''akv'', Slot_ResourceVersion := ''u11''\<rparr>,
      conn_ModuleKind = ''AKV'', conn_ApplicationDefaultChainID = 5\<rparr>"

definition text_member :: "string \<Rightarrow> string \<Rightarrow> string \<times> json" where
  "text_member k s = (k, JString s s)"

definition request_of :: "string \<Rightarrow> json \<Rightarrow> http_request" where
  "request_of meth params =
     \<lparr>hr_Header = (\<lambda>h. if h = ''X-Auth-UserId'' then ''bob'' else ''app''), hr_Route = Some ''rpc.method'',
      hr_Body = Some (JObject [text_member ''jsonrpc'' ''2.0'', text_member ''id'' ''1'',
        text_member ''method'' meth, (''params'', params)])\<rparr>"

definition usual_headers :: AuthHeadersConfiguration where
  "usual_headers = \<lparr>UserRequestHeader = [], ApplicationRequestHeader = []\<rparr>"

definition transaction_params :: "(string \<times> json) list \<Rightarrow> json" where
  "transaction_params senders = JArray [JObject (senders @
     [text_member ''data'' ''0x01'', text_member ''nonce'' ''0x0'', text_member ''gas'' ''0xc8''])]"

definition decoded :: "string \<Rightarrow> json \<Rightarrow> RPCRequest" where
  "decoded meth params =
     \<lparr>rr_RPCVersion = ''2.0'', rr_ID = VString ''1'', rr_Method = meth, rr_Params = Some params\<rparr>"

lemma request_decoded:
  "\<exists>j. hr_Body (request_of meth params) = Some j \<and> dec_RPCRequest zero_request j = Some (decoded meth params)"
  by (simp add: request_of_def text_member_def dec_RPCRequest_def dec_fields_def dec_struct_def field_def names_def
      folded_names zero_request_def dec_string_def dec_any_def dec_raw_def decoded_def)

lemma request_read: "body_read (hr_Body (request_of meth params)) = Some (params_read (Some params))"
  by (simp add: request_of_def text_member_def body_read_def dec_AccountBody_def dec_fields_def dec_struct_def field_def
      names_def folded_names dec_string_def dec_any_def dec_raw_def)

lemma request_context:
  "DefineUser usual_headers (request_of meth params) = ''bob''"
  "DefineApplication usual_headers (request_of meth params) = ''app''"
  by (simp_all add: DefineUser_def DefineApplication_def usual_headers_def headerKey_def request_of_def) code_simp+

lemma serve_request:
  assumes "RPCHandler hs meth = Inr handler" "meth \<noteq> []"
    and "rpc_authorization en m \<lparr>rq_User = Some ''bob'', rq_Application = Some ''app'',
      rq_Action = Some (''rpc.method.'' @ meth), rq_Body = Some (params_read (Some params))\<rparr> w = (Inr (), w)"
    and "handler (Some ''app'') (decoded meth params) w = (Inr resp, w)"
  shows "serve_one en m hs usual_headers (request_of meth params) w = (ResultReply resp, w)"
proof -
  obtain j where j: "hr_Body (request_of meth params) = Some j" "dec_RPCRequest zero_request j = Some (decoded meth params)"
    using request_decoded by blast
  have r: "hr_Route (request_of meth params) = Some ''rpc.method''" by (simp add: request_of_def)
  have d: "rr_RPCVersion (decoded meth params) = ''2.0''" "rr_Method (decoded meth params) = meth"
    "rr_ID (decoded meth params) = VString ''1''" by (simp_all add: decoded_def)
  show ?thesis
    using assms request_read [of meth params]
    by (simp add: serve_one_def authenticate_def DefineAction_def r j d andS_def ValidateAction_def ValidateUser_def
        ValidateApplication_def request_context Let_def HandleRPCRequest_def)
qed

lemma server_reads:
  "ByApplication sample_env ''app'' (server_world ''01'') = (Inr server_connection, server_world ''01'')"
  "ByApplication sample_env ''app'' (server_world ''02'') = (Inr server_connection, server_world ''02'')"
  by code_simp+

lemma server_devices: "onDevices m (server_world b) = (case m () of (r, d) \<Rightarrow> (r, server_world b))"
  by (simp add: onDevices_def server_world_def sample_user_world_def sample_world_def empty_world_def split: prod.splits)

lemma sent_by: "NewFromHexString (address_text ''01'') = Inr (replicate 20 1)"
  by code_simp

lemma server_sign_input:
  "sign_tx_input server_connection (zero_sign_tx\<lparr>tp_ApplicationID := ''app'', tp_From := address_text ''01'',
     tp_Data := ''0x01'', tp_Nonce := ''0x0'', tp_Gas := Some ''0xc8''\<rparr>) = Inr (sample_input None None)"
proof -
  have "NewHexBytesFromString ''0x01'' = ([1], None)" "NewHexUInt64FromString ''0x0'' = (0, None)"
    "NewHexUInt64FromString ''0xc8'' = (200, None)" by code_simp+
  then show ?thesis
    by (simp add: sign_tx_input_def andS_def adaptHSMModule_def adaptSlotConnectionData_def IsModuleSupported_def
      supportedSigningModules_def SoftHSMModuleKind_def AKVModuleKind_def LKVModuleKind_def blank_slot_def sent_by
      server_connection_def zero_sign_tx_def paramS_def labelS_def checkedS_def optionalS_def adaptEIP4844Fields_def seen_def
      sample_input_def Let_def)
qed

lemma transaction_handled:
  assumes "ByApplication sample_env ''app'' (server_world b) = (Inr server_connection, server_world b)"
    and "ProcessParams dec_SignTX sign_SetParamsFrom (Some params) zero_sign_tx =
      Inr (zero_sign_tx\<lparr>tp_From := address_text ''01'', tp_Data := ''0x01'', tp_Nonce := ''0x0'', tp_Gas := Some ''0xc8''\<rparr>)"
    and "SignTx sample_connector (sample_input None None) () = (Inr out, ())"
  shows "HandleSignTX sample_env sample_connector (Some ''app'') (decoded meth params) (server_world b) =
    (Inr (respond (decoded meth params) (Text (out_SignedTx out))), server_world b)"
proof -
  have "address_text ''01'' \<noteq> []" by (simp add: address_text_def)
  then have "sign_ValidateParams (zero_sign_tx\<lparr>tp_From := address_text ''01'', tp_Data := ''0x01'', tp_Nonce := ''0x0'',
      tp_Gas := Some ''0xc8''\<rparr>) = Inr ()"
    by (simp add: sign_ValidateParams_def andS_def requireS_def zero_sign_tx_def)
  moreover have "rr_Params (decoded meth params) = Some params" by (simp add: decoded_def)
  ultimately show ?thesis
    using assms server_sign_input
    by (simp add: HandleSignTX_def AdaptSignTx_def rpc_prog_defs validS_def application_of_def server_devices
        zero_sign_tx_def)
qed

text \<open>
  The two ways to name the sender: under \<open>from\<close> alone, and a second time under a key that differs in
  the case of a letter.
\<close>

lemma senders_processed:
  "ProcessParams dec_SignTX sign_SetParamsFrom (Some (transaction_params [text_member ''from'' (address_text ''01'')]))
     zero_sign_tx = Inr (zero_sign_tx\<lparr>tp_From := address_text ''01'', tp_Data := ''0x01'', tp_Nonce := ''0x0'',
       tp_Gas := Some ''0xc8''\<rparr>)"
  "ProcessParams dec_SignTX sign_SetParamsFrom (Some (transaction_params
       [text_member ''from'' (address_text ''01''), text_member ''From'' (address_text ''02'')]))
     zero_sign_tx = Inr (zero_sign_tx\<lparr>tp_From := address_text ''01'', tp_Data := ''0x01'', tp_Nonce := ''0x0'',
       tp_Gas := Some ''0xc8''\<rparr>)"
  by code_simp+

lemma senders_authorized:
  "rpc_authorization sample_env sample_map \<lparr>rq_User = Some ''bob'', rq_Application = Some ''app'',
     rq_Action = Some (''rpc.method.'' @ ''eth_signTransaction''), rq_Body = Some (params_read (Some (transaction_params
       [text_member ''from'' (address_text ''01'')])))\<rparr> (server_world ''01'') = (Inr (), server_world ''01'')"
  "rpc_authorization sample_env sample_map \<lparr>rq_User = Some ''bob'', rq_Application = Some ''app'',
     rq_Action = Some (''rpc.method.'' @ ''eth_signTransaction''), rq_Body = Some (params_read (Some (transaction_params
       [text_member ''from'' (address_text ''01''), text_member ''From'' (address_text ''02'')])))\<rparr> (server_world ''02'') =
     (Inr (), server_world ''02'')"
proof -
  have r: "params_read (Some (transaction_params [text_member ''from'' (address_text ''01'')])) =
      \<lparr>bo_Array = Some [\<lparr>pa_From = address_text ''01'', pa_Address = []\<rparr>], bo_Object = None\<rparr>"
    "params_read (Some (transaction_params [text_member ''from'' (address_text ''01''), text_member ''From'' (address_text ''02'')])) =
      \<lparr>bo_Array = Some [\<lparr>pa_From = address_text ''02'', pa_Address = []\<rparr>], bo_Object = None\<rparr>"
    by code_simp+
  show "rpc_authorization sample_env sample_map \<lparr>rq_User = Some ''bob'', rq_Application = Some ''app'',
     rq_Action = Some (''rpc.method.'' @ ''eth_signTransaction''), rq_Body = Some (params_read (Some (transaction_params
       [text_member ''from'' (address_text ''01'')])))\<rparr> (server_world ''01'') = (Inr (), server_world ''01'')"
    unfolding r by code_simp
  show "rpc_authorization sample_env sample_map \<lparr>rq_User = Some ''bob'', rq_Application = Some ''app'',
     rq_Action = Some (''rpc.method.'' @ ''eth_signTransaction''), rq_Body = Some (params_read (Some (transaction_params
       [text_member ''from'' (address_text ''01''), text_member ''From'' (address_text ''02'')])))\<rparr> (server_world ''02'') =
     (Inr (), server_world ''02'')"
    unfolding r by code_simp
qed

text \<open>
  C5: a user signs with the account of another: the enforcement point decodes the parameters into a
  struct, for which \<open>From\<close> is \<open>from\<close> and the last one counts, while the handler looks up \<open>from\<close> in a
  map.  A request with both is authorized for the account under \<open>From\<close>, the user's own, and signed
  with the one under \<open>from\<close>, which is enabled for nobody.
\<close>

theorem foreign_account_signs:
  "\<exists>params resp out.
     serve_one sample_env sample_map (published 1 sample_env sample_connector) usual_headers
       (request_of ''eth_signTransaction'' params) (server_world ''02'') = (ResultReply resp, server_world ''02'') \<and>
     SignTx sample_connector (sample_input None None) () = (Inr out, ()) \<and>
     rs_Result resp = Text (out_SignedTx out) \<and>
     \<not> list_ex (\<lambda>row. ac_Address row = String_of_address (e_keccak sample_env) (in_From (sample_input None None)))
         (w_accounts (server_world ''02''))"
proof -
  let ?params = "transaction_params [text_member ''from'' (address_text ''01''), text_member ''From'' (address_text ''02'')]"
  obtain out where out: "SignTx sample_connector (sample_input None None) () = (Inr out, ())"
    using sample_SignTx_legacy by blast
  have "RPCHandler (published 1 sample_env sample_connector) ''eth_signTransaction'' = Inr (HandleSignTX sample_env sample_connector)"
    using published_signers(1) [of 1 sample_env sample_connector] by (simp add: SignTransactionMethod_def)
  from serve_request [OF this _ senders_authorized(2) transaction_handled [OF server_reads(2) senders_processed(2) out]]
  have "serve_one sample_env sample_map (published 1 sample_env sample_connector) usual_headers
      (request_of ''eth_signTransaction'' ?params) (server_world ''02'') =
      (ResultReply (respond (decoded ''eth_signTransaction'' ?params) (Text (out_SignedTx out))), server_world ''02'')"
    by simp
  moreover have "String_of_address (e_keccak sample_env) (replicate 20 1) = address_text ''01''"
    "address_text ''01'' \<noteq> address_text ''02''" by code_simp+
  then have "\<not> list_ex (\<lambda>row. ac_Address row = String_of_address (e_keccak sample_env) (in_From (sample_input None None)))
         (w_accounts (server_world ''02''))"
    by (simp add: server_world_def sample_input_def)
  ultimately show ?thesis using out
    by (intro exI [of _ ?params] exI [of _ "respond (decoded ''eth_signTransaction'' ?params) (Text (out_SignedTx out))"]
        exI [of _ out]) (simp add: respond_def)
qed

lemma served_transaction_is_own_witness:
  "entitled sample_map (server_world ''01'') ''bob'' (Some ''app'') ''rpc.method.eth_signTransaction''"
proof -
  let ?params = "transaction_params [text_member ''from'' (address_text ''01'')]"
  let ?r = "request_of ''eth_signTransaction'' ?params"
  obtain out where out: "SignTx sample_connector (sample_input None None) () = (Inr out, ())"
    using sample_SignTx_legacy by blast
  have "RPCHandler (published 1 sample_env sample_connector) ''eth_signTransaction'' = Inr (HandleSignTX sample_env sample_connector)"
    using published_signers(1) [of 1 sample_env sample_connector] by (simp add: SignTransactionMethod_def)
  from serve_request [OF this _ senders_authorized(1) transaction_handled [OF server_reads(1) senders_processed(1) out]]
  have run: "serve_one sample_env sample_map (published 1 sample_env sample_connector) usual_headers ?r (server_world ''01'') =
      (ResultReply (respond (decoded ''eth_signTransaction'' ?params) (Text (out_SignedTx out))), server_world ''01'')"
    by simp
  obtain j where j: "hr_Body ?r = Some j" "dec_RPCRequest zero_request j = Some (decoded ''eth_signTransaction'' ?params)"
    using request_decoded by blast
  have "unambiguous (rr_Params (decoded ''eth_signTransaction'' ?params))" by code_simp
  moreover have "w_faults (server_world ''01'') = []"
    by (simp add: server_world_def sample_user_world_def sample_world_def empty_world_def)
  moreover have "hr_Route ?r = Some ''rpc.method''" by (simp add: request_of_def)
  moreover have "rr_Method (decoded ''eth_signTransaction'' ?params) = ''eth_signTransaction''" by (simp add: decoded_def)
  ultimately show ?thesis
    using served_transaction_is_own [OF _ published_all _ j _ _ run] request_context by metis
qed

text \<open>Typed data in the form a client sends it.\<close>

definition field_json :: "string \<Rightarrow> string \<Rightarrow> json" where
  "field_json name ty = JObject [text_member ''name'' name, text_member ''type'' ty]"

definition note_params :: json where
  "note_params = JArray [JObject
     [text_member ''address'' (address_text ''01''),
      (''typedData'', JObject
         [(''types'', JObject [(''EIP712Domain'', JArray [field_json ''chainId'' ''uint256'']),
             (''Note'', JArray [field_json ''item'' ''uint256''])]),
          text_member ''primaryType'' ''Note'', (''domain'', JObject [(''chainId'', JNumber ''5'')]),
          (''message'', JObject [(''item'', JNumber ''7'')])])]]"

lemma note_processed:
  "ProcessParams typed_UnmarshalJSON typed_SetParamsFrom (Some note_params) zero_sign_typed =
     Inr (zero_sign_typed\<lparr>dp_Address := address_text ''01'', dp_TypedData := note_data (VNumber ''7'')\<rparr>)"
  by code_simp

lemma note_authorized:
  "rpc_authorization sample_env sample_map \<lparr>rq_User = Some ''bob'', rq_Application = Some ''app'',
     rq_Action = Some (''rpc.method.'' @ ''eth_signTypedData''), rq_Body = Some (params_read (Some note_params))\<rparr>
     (server_world ''01'') = (Inr (), server_world ''01'')"
proof -
  have r: "params_read (Some note_params) =
      \<lparr>bo_Array = Some [\<lparr>pa_From = [], pa_Address = address_text ''01''\<rparr>], bo_Object = None\<rparr>"
    by code_simp
  show ?thesis unfolding r by code_simp
qed

lemma note_handled:
  assumes "SignTypedData 1 sample_connector note_input () = (Inr out, ())"
  shows "HandleSignTypedData 1 sample_env sample_connector (Some ''app'') (decoded meth note_params) (server_world ''01'') =
    (Inr (respond (decoded meth note_params) (Text (st_SignedData out))), server_world ''01'')"
proof -
  let ?p = "zero_sign_typed\<lparr>dp_ApplicationID := ''app'', dp_Address := address_text ''01'',
      dp_TypedData := note_data (VNumber ''7'')\<rparr>"
  have "address_text ''01'' \<noteq> []" by (simp add: address_text_def)
  moreover have "Validate (note_data (VNumber ''7'')) = None"
    by (simp add: Validate_def note_data_def note_types_def entry_Cons)
  ultimately have v: "typed_ValidateParams (zero_sign_typed\<lparr>dp_Address := address_text ''01'',
      dp_TypedData := note_data (VNumber ''7'')\<rparr>) = Inr ()"
    by (simp add: typed_ValidateParams_def andS_def requireS_def)
  have r: "rr_Params (decoded meth note_params) = Some note_params" by (simp add: decoded_def)
  have c: "adaptSlotConnectionData ''AKV'' server_connection = Inr (in_Slot (sample_input None None))"
    by (simp add: adaptSlotConnectionData_def IsModuleSupported_def supportedSigningModules_def SoftHSMModuleKind_def
        AKVModuleKind_def LKVModuleKind_def blank_slot_def server_connection_def sample_input_def Let_def)
  have k: "conn_ModuleKind server_connection = ''AKV''" "conn_ApplicationDefaultChainID server_connection = 5"
    "do_ChainId (td_Domain (note_data (VNumber ''7''))) = Some 5"
    by (simp_all add: server_connection_def note_data_def)
  have i: "\<lparr>st_Slot = in_Slot (sample_input None None), st_ChainID = 5, st_Address = replicate 20 1,
      st_TypedData = note_data (VNumber ''7'')\<rparr> = note_input"
    by (simp add: note_input_def)
  show ?thesis
    using assms note_processed v
    by (simp add: HandleSignTypedData_def AdaptSignTypedData_def rpc_prog_defs validS_def application_of_def server_devices
        r c k i Let_def paramS_def labelS_def sent_by server_reads(1))
qed

lemma served_typed_data_is_own_witness:
  "entitled sample_map (server_world ''01'') ''bob'' (Some ''app'') ''rpc.method.eth_signTypedData''"
proof -
  let ?r = "request_of ''eth_signTypedData'' note_params"
  obtain out where out: "SignTypedData 1 sample_connector note_input () = (Inr out, ())"
    using note_signed by blast
  have "RPCHandler (published 1 sample_env sample_connector) ''eth_signTypedData'' = Inr (HandleSignTypedData 1 sample_env sample_connector)"
    using published_signers(2) [of 1 sample_env sample_connector] by (simp add: SignTypedDataMethod_def)
  from serve_request [OF this _ note_authorized note_handled [OF out]]
  have run: "serve_one sample_env sample_map (published 1 sample_env sample_connector) usual_headers ?r (server_world ''01'') =
      (ResultReply (respond (decoded ''eth_signTypedData'' note_params) (Text (st_SignedData out))), server_world ''01'')"
    by simp
  obtain j where j: "hr_Body ?r = Some j" "dec_RPCRequest zero_request j = Some (decoded ''eth_signTypedData'' note_params)"
    using request_decoded by blast
  have "w_faults (server_world ''01'') = []"
    by (simp add: server_world_def sample_user_world_def sample_world_def empty_world_def)
  moreover have "hr_Route ?r = Some ''rpc.method''" by (simp add: request_of_def)
  moreover have "rr_Method (decoded ''eth_signTypedData'' note_params) = ''eth_signTypedData''" by (simp add: decoded_def)
  ultimately show ?thesis
    using served_typed_data_is_own [OF _ published_all _ j _ run] request_context by metis
qed

end
