(* ===== verification/Rpc_Batches.thy ===== *)
theory Rpc_Batches
  imports Rpc_Signing
begin

text \<open>
  The forms a call can have: alone or as an element of a batch, with its parameters in an object or in
  a list.  An element of a batch is decoded, written again and served as a request of its own; the
  parameters of a transaction go through other checks as an object than as a list.
\<close>

section \<open>A request written again\<close>

lemma any_value_json_of [simp]: "any_value (json_of (any_value j)) = any_value j"
  by (induction j) (auto simp: comp_def)

lemma floats_json_of [simp]: "floats_in_range (json_of (any_value j)) = floats_in_range j"
  by (induction j) (auto simp: list_all_iff)

lemma dec_members_invariant:
  assumes "\<And>k s j s'. P s \<Longrightarrow> f k s j = Some s' \<Longrightarrow> P s'"
  shows "P s \<Longrightarrow> dec_members f s ms = Some s' \<Longrightarrow> P s'"
  using assms by (induction ms arbitrary: s) (fastforce split: option.splits)+

text \<open>The id of a request that was decoded is a value that JSON has.\<close>

definition readable_id :: "RPCRequest \<Rightarrow> bool" where
  "readable_id r \<longleftrightarrow> (\<exists>i. rr_ID r = any_value i \<and> floats_in_range i)"

lemma readable_zero: "readable_id zero_request"
  by (auto simp: readable_id_def zero_request_def intro: exI [of _ JNull])

definition request_member :: "string \<Rightarrow> RPCRequest decoder" where
  "request_member = member_of
     [field ''jsonrpc'' rr_RPCVersion (\<lambda>x. rr_RPCVersion_update (\<lambda>_. x)) dec_string,
      field ''id'' rr_ID (\<lambda>x. rr_ID_update (\<lambda>_. x)) (dec_any False),
      field ''method'' rr_Method (\<lambda>x. rr_Method_update (\<lambda>_. x)) dec_string,
      field ''params'' rr_Params (\<lambda>x. rr_Params_update (\<lambda>_. x)) dec_raw]"

lemma dec_request: "dec_RPCRequest q (JObject ms) = dec_members request_member q ms" "dec_RPCRequest q JNull = Some q"
  by (simp_all add: dec_RPCRequest_def dec_fields_def dec_struct_def request_member_def)

lemma dec_request_Some: "dec_RPCRequest q0 j = Some q \<Longrightarrow> (j = JNull \<and> q = q0) \<or> (\<exists>ms. j = JObject ms)"
  by (cases j) (simp_all add: dec_RPCRequest_def dec_fields_def dec_struct_def)

lemma member_readable: "readable_id s \<Longrightarrow> request_member k s i = Some s' \<Longrightarrow> readable_id s'"
  by (auto simp: request_member_def field_def readable_id_def dec_any_def split: if_splits)

lemma decoded_readable:
  assumes "dec_RPCRequest zero_request j = Some q"
  shows "readable_id q"
proof (cases "j = JNull")
  case True
  then show ?thesis using assms readable_zero by (simp add: dec_request)
next
  case False
  then obtain ms where "dec_members request_member zero_request ms = Some q"
    using dec_request_Some [OF assms] assms dec_request(1) by metis
  then show ?thesis using dec_members_invariant [of readable_id request_member] member_readable readable_zero by blast
qed

lemma marshalled_read:
  assumes "readable_id q"
  shows "dec_RPCRequest zero_request (marshalled q) =
    Some (q\<lparr>rr_Params := Some (case rr_Params q of None \<Rightarrow> JNull | Some p \<Rightarrow> p)\<rparr>)"
proof -
  obtain i where "rr_ID q = any_value i" "floats_in_range i" using assms by (auto simp: readable_id_def)
  then show ?thesis
    by (simp add: dec_RPCRequest_def marshalled_def dec_fields_def dec_struct_def zero_request_def field_def names_def
        folded_names dec_string_def dec_any_def dec_raw_def split: option.splits)
qed

text \<open>
  An element of a batch is decoded and written again before it is served, and nothing of it is
  lost: what is decoded from the new text is the request that was decoded from the first one, its
  version, its id, its method and its parameters; parameters that are missing become \<open>null\<close>.
\<close>
lemma rewritten_request_is_same:
  assumes "dec_RPCRequest zero_request j = Some q"
  shows "dec_RPCRequest zero_request (marshalled q) =
    Some (q\<lparr>rr_Params := Some (case rr_Params q of None \<Rightarrow> JNull | Some p \<Rightarrow> p)\<rparr>)"
  using marshalled_read [OF decoded_readable [OF assms]] .

section \<open>Batches\<close>

definition batchable :: "json \<Rightarrow> bool" where
  "batchable j = (case dec_RPCRequest zero_request j of None \<Rightarrow> False | Some q \<Rightarrow> rr_Params q \<noteq> None)"

lemma batch_decoded:
  "list_all batchable js \<Longrightarrow>
     \<exists>qs. dec_elems zero_request dec_RPCRequest [] js = Some qs \<and> length qs = length js \<and>
       list_all2 (\<lambda>j q. dec_RPCRequest zero_request j = Some q \<and> rr_Params q \<noteq> None) js qs"
  by (induction js) (auto simp: batchable_def split: option.splits)

text \<open>The enforcement point reads fields that the request has too, so that it fails only where the request does.\<close>

definition body_member :: "string \<Rightarrow> AuthorizeAccountRPCBody decoder" where
  "body_member = member_of
     [field ''method'' ab_Method (\<lambda>x. ab_Method_update (\<lambda>_. x)) dec_string,
      field ''id'' ab_ID (\<lambda>x. ab_ID_update (\<lambda>_. x)) (dec_any False),
      field ''params'' ab_Params (\<lambda>x. ab_Params_update (\<lambda>_. x)) dec_raw]"

lemma dec_body: "dec_AccountBody q (JObject ms) = dec_members body_member q ms" "dec_AccountBody q JNull = Some q"
  by (simp_all add: dec_AccountBody_def dec_fields_def dec_struct_def body_member_def)

lemma body_member_ends: "request_member k q i = Some q' \<Longrightarrow> \<exists>b'. body_member k b i = Some b'"
  by (auto simp: request_member_def body_member_def field_def names_def folded_names dec_any_def dec_raw_def
      dec_string_def split: if_splits json.splits)

lemma body_members_end: "dec_members request_member q ms = Some q' \<Longrightarrow> \<exists>b'. dec_members body_member b ms = Some b'"
proof (induction ms arbitrary: q b)
  case (Cons m ms)
  obtain k i where m: "m = (k, i)" by (cases m)
  obtain q1 where q1: "request_member k q i = Some q1" "dec_members request_member q1 ms = Some q'"
    using Cons.prems m by (auto split: option.splits)
  obtain b1 where "body_member k b i = Some b1" using body_member_ends [OF q1(1)] by blast
  then show ?case using Cons.IH [OF q1(2)] m by simp
qed simp

lemma body_of_request:
  assumes "dec_RPCRequest zero_request j = Some q" "rr_Params q \<noteq> None"
  shows "body_read (Some j) = Some (params_read (rr_Params q))"
proof -
  obtain ms where "j = JObject ms" "dec_members request_member zero_request ms = Some q"
    using dec_request_Some [OF assms(1)] assms dec_request(1) by (auto simp: zero_request_def)
  moreover obtain b where "dec_members body_member \<lparr>ab_Method = [], ab_ID = VNil, ab_Params = None\<rparr> ms = Some b"
    using body_members_end [OF calculation(2)] by blast
  ultimately have "body_read (Some j) = Some (params_read (ab_Params b))" by (simp add: body_read_def dec_body)
  then show ?thesis using same_params assms by metis
qed

lemma serve_rewritten:
  assumes "dec_RPCRequest zero_request j = Some q" "rr_Params q \<noteq> None"
  shows "serve_one en ram hs cfg (r\<lparr>hr_Body := Some (marshalled q)\<rparr>) w = serve_one en ram hs cfg (r\<lparr>hr_Body := Some j\<rparr>) w"
proof -
  have m: "dec_RPCRequest zero_request (marshalled q) = Some q"
    using marshalled_read [OF decoded_readable [OF assms(1)]] assms(2) by auto
  let ?r = "r\<lparr>hr_Body := Some (marshalled q)\<rparr>" and ?r' = "r\<lparr>hr_Body := Some j\<rparr>"
  have "DefineAction hs ?r = DefineAction hs ?r'"
    using m assms(1) by (cases "hr_Route r") (simp_all add: DefineAction_def)
  moreover have "body_read (hr_Body ?r) = body_read (hr_Body ?r')"
    using body_of_request [OF m assms(2)] body_of_request [OF assms] by simp
  moreover have "DefineUser cfg ?r = DefineUser cfg ?r'" "DefineApplication cfg ?r = DefineApplication cfg ?r'"
    by (simp_all add: DefineUser_def DefineApplication_def)
  ultimately have "authenticate hs cfg ?r = authenticate hs cfg ?r'"
    by (simp only: authenticate_def)
  moreover have "HandleRPCRequest hs cx (hr_Body ?r) = HandleRPCRequest hs cx (hr_Body ?r')" for cx
    using m assms(1) by (simp add: HandleRPCRequest_def fun_eq_iff)
  ultimately show ?thesis by (simp only: serve_one_def)
qed

lemma serve_each_rewritten:
  assumes "list_all2 (\<lambda>j q. \<forall>w. srv (marshalled q) w = srv j w) js qs"
  shows "serve_each srv (map marshalled qs) w = serve_each srv js w"
  using assms by (induction arbitrary: w rule: list_all2_induct) (auto split: prod.splits)

text \<open>
  C12: a batch is answered like its elements sent one after the other: each goes through
  authentication, authorization and the handler on its own, in the order of the batch, in the
  state the one before has left, and every one has its reply.
\<close>
theorem batch_is_its_elements:
  assumes "hr_Body r = Some (JArray js)" "js \<noteq> []" "length js \<le> 100" "list_all batchable js"
  shows "serve en ram hs cfg r w =
    serve_each (\<lambda>j. serve_one en ram hs cfg (r\<lparr>hr_Body := Some j\<rparr>)) js w"
proof -
  obtain qs where qs: "dec_elems zero_request dec_RPCRequest [] js = Some qs" "length qs = length js"
    "list_all2 (\<lambda>j q. dec_RPCRequest zero_request j = Some q \<and> rr_Params q \<noteq> None) js qs"
    using batch_decoded [OF assms(4)] by blast
  have one: "dec_RPCRequest zero_request (JArray js) = None"
    by (simp add: dec_RPCRequest_def dec_fields_def dec_struct_def)
  have "dec_slice zero_request dec_RPCRequest None (JArray js) = Some (Some (length js, qs))"
    using qs(1) assms(2) by (cases js) (simp_all add: dec_slice_def del: dec_elems.simps)
  then have "serve en ram hs cfg r w =
      serve_each (\<lambda>j. serve_one en ram hs cfg (r\<lparr>hr_Body := Some j\<rparr>)) (map marshalled qs) w"
    using assms qs(2) one by (auto simp: serve_def FanOutRPCBatchRequest_def seen_def maxBatchElements_def)
  moreover have "list_all2 (\<lambda>j q. \<forall>w. serve_one en ram hs cfg (r\<lparr>hr_Body := Some (marshalled q)\<rparr>) w =
      serve_one en ram hs cfg (r\<lparr>hr_Body := Some j\<rparr>) w) js qs"
    using qs(3) by (rule list_all2_mono) (auto intro: serve_rewritten)
  ultimately show ?thesis by (simp add: serve_each_rewritten)
qed

lemma rewritten_request_is_same_witness:
  "dec_RPCRequest zero_request (marshalled (decoded ''eth_accounts'' JNull)) = Some (decoded ''eth_accounts'' JNull)"
proof -
  obtain j where "dec_RPCRequest zero_request j = Some (decoded ''eth_accounts'' JNull)"
    using request_decoded by blast
  then show ?thesis using rewritten_request_is_same by (fastforce simp: decoded_def)
qed

definition two_calls :: "json list" where
  "two_calls = map (\<lambda>meth. the (hr_Body (request_of meth JNull))) [''eth_generateAccount'', ''eth_accounts'']"

lemma batch_is_its_elements_witness:
  "serve sample_env sample_map (published 1 sample_env sample_connector) usual_headers
     (request_of [] JNull\<lparr>hr_Body := Some (JArray two_calls)\<rparr>) (server_world ''01'') =
   serve_each (\<lambda>j. serve_one sample_env sample_map (published 1 sample_env sample_connector) usual_headers
     (request_of [] JNull\<lparr>hr_Body := Some j\<rparr>)) two_calls (server_world ''01'')"
proof -
  have "batchable (the (hr_Body (request_of meth JNull)))" for meth
    using request_decoded [of meth JNull] by (auto simp: batchable_def decoded_def)
  then have "list_all batchable two_calls" "two_calls \<noteq> []" "length two_calls \<le> 100"
    by (simp_all add: two_calls_def)
  then show ?thesis
    using batch_is_its_elements [of "request_of [] JNull\<lparr>hr_Body := Some (JArray two_calls)\<rparr>" two_calls] by simp
qed

section \<open>Parameters in an object and in a list\<close>

lemma setters_keep_fees:
  "setAccessListParam p m = Inr p' \<Longrightarrow> fees_in_order p' = fees_in_order p"
  "setEIP4844Params p m = Inr p' \<Longrightarrow> fees_in_order p' = fees_in_order p"
  "setAuthorizationListParam p m = Inr p' \<Longrightarrow> fees_in_order p' = fees_in_order p"
  by (auto simp: setAccessListParam_def setEIP4844Params_def setAuthorizationListParam_def sum_ok fees_in_order_def
      cong: option.case_cong)

lemma list_form_checks_fees:
  assumes "ProcessParams dec_SignTX sign_SetParamsFrom (Some (JArray js)) p0 = Inr p"
  shows "fees_in_order p"
proof -
  have "sign_SetParamsFrom p0 (map any_value js) = Inr p"
    using ProcessParams_Inr [OF assms] by (auto simp: dec_SignTX_def dec_fields_def dec_struct_def)
  then show ?thesis
    unfolding sign_SetParamsFrom_def Let_def
    by (auto simp: sum_ok requireS_def split: if_splits dest!: setters_keep_fees)
qed

definition inverted_fees :: "(string \<times> json) list" where
  "inverted_fees =
     [text_member ''from'' (address_text ''01''), text_member ''data'' ''0x01'', text_member ''nonce'' ''0x0'',
      text_member ''maxFeePerGas'' ''0x1'', text_member ''maxPriorityFeePerGas'' ''0x2'']"

text \<open>
  the checks of a transaction depend on the form of its parameters: the same members are refused
  in a list, because the priority fee is above the maximal fee, and accepted as an object, which is
  decoded without the checks of \<open>SetParamsFrom\<close> and passes the validation.
\<close>
theorem object_form_skips_fee_check:
  "(\<exists>err. ProcessParams dec_SignTX sign_SetParamsFrom (Some (JArray [JObject inverted_fees])) zero_sign_tx = Inl err) \<and>
   (\<exists>p. ProcessParams dec_SignTX sign_SetParamsFrom (Some (JObject inverted_fees)) zero_sign_tx = Inr p \<and>
      sign_ValidateParams p = Inr () \<and> \<not> fees_in_order p)"
proof
  let ?p = "zero_sign_tx\<lparr>tp_From := address_text ''01'', tp_Data := ''0x01'', tp_Nonce := ''0x0'',
      tp_MaxFeePerGas := Some ''0x1'', tp_MaxPriorityFeePerGas := Some ''0x2''\<rparr>"
  have p: "ProcessParams dec_SignTX sign_SetParamsFrom (Some (JObject inverted_fees)) zero_sign_tx = Inr ?p"
    "sign_ValidateParams ?p = Inr ()" "\<not> fees_in_order ?p"
    by code_simp+
  then show "\<exists>p. ProcessParams dec_SignTX sign_SetParamsFrom (Some (JObject inverted_fees)) zero_sign_tx = Inr p \<and>
      sign_ValidateParams p = Inr () \<and> \<not> fees_in_order p"
    by blast
  have "(case ProcessParams dec_SignTX sign_SetParamsFrom (Some (JArray [JObject inverted_fees])) zero_sign_tx of
      Inl err \<Rightarrow> True | Inr p \<Rightarrow> False)"
    by code_simp
  then show "\<exists>err. ProcessParams dec_SignTX sign_SetParamsFrom (Some (JArray [JObject inverted_fees])) zero_sign_tx = Inl err"
    by (auto split: sum.splits)
qed

end
