(* ===== verification/Pkcs11_Hsm.thy ===== *)
theory Pkcs11_Hsm
  imports Hsm_Connector
begin

text \<open>
  The signature manager for hardware security modules, \<open>src/app/pkg/signaturemanager/pkcs11hsm\<close>.

  The library of the device is reached over the Go package \<open>miekg/pkcs11\<close> and is a parameter: a
  record of calls on a state \<open>'l\<close>, each of which returns a result or one of the error codes of PKCS#11.
  The numbers are those of the standard.  Messages of errors and of the tracer are left out.  A panic of
  the manager is an error no branch of it looks at; functions deferred run in both cases.
\<close>

section \<open>The library\<close>

type_synonym ('l, 'a) ck_call = "'l \<Rightarrow> (nat + 'a) \<times> 'l"

text \<open>An attribute as it is given to \<open>NewAttribute\<close>, and as it is read back; its value may be nil.\<close>

datatype ck_value = CkNil | CkBool bool | CkUint nat | CkText string | CkBytes bytes

type_synonym ck_template = "(nat \<times> ck_value) list"

type_synonym ck_attribute = "nat \<times> bytes option"

record 'l pkcs11_ctx =
  ck_Initialize :: "('l, unit) ck_call"
  ck_Finalize :: "('l, unit) ck_call"
  ck_OpenSession :: "nat \<Rightarrow> nat \<Rightarrow> ('l, nat) ck_call"
  ck_CloseSession :: "nat \<Rightarrow> ('l, unit) ck_call"
  ck_Login :: "nat \<Rightarrow> nat \<Rightarrow> string \<Rightarrow> ('l, unit) ck_call"
  ck_Logout :: "nat \<Rightarrow> ('l, unit) ck_call"
  ck_GenerateKeyPair :: "nat \<Rightarrow> nat \<Rightarrow> ck_template \<Rightarrow> ck_template \<Rightarrow> ('l, nat \<times> nat) ck_call"
  ck_FindObjectsInit :: "nat \<Rightarrow> ck_template \<Rightarrow> ('l, unit) ck_call"
  ck_FindObjects :: "nat \<Rightarrow> nat \<Rightarrow> ('l, nat list) ck_call"
  ck_FindObjectsFinal :: "nat \<Rightarrow> ('l, unit) ck_call"
  ck_DestroyObject :: "nat \<Rightarrow> nat \<Rightarrow> ('l, unit) ck_call"
  ck_GetAttributeValue :: "nat \<Rightarrow> nat \<Rightarrow> ck_template \<Rightarrow> ('l, ck_attribute list) ck_call"
  ck_SetAttributeValue :: "nat \<Rightarrow> nat \<Rightarrow> ck_template \<Rightarrow> ('l, unit) ck_call"
  ck_SignInit :: "nat \<Rightarrow> nat \<Rightarrow> nat \<Rightarrow> ('l, unit) ck_call"
  ck_Sign :: "nat \<Rightarrow> bytes \<Rightarrow> ('l, bytes) ck_call"
  ck_Now :: "('l, int) ck_call"

text \<open>
  The last field is the clock in milliseconds, which is no call of the library; it is read as if it
  could fail and a failure as the time 0.
\<close>

definition CKF_RW_SESSION :: nat where "CKF_RW_SESSION = 2"
definition CKF_SERIAL_SESSION :: nat where "CKF_SERIAL_SESSION = 4"
definition CKU_USER :: nat where "CKU_USER = 1"
definition CKA_CLASS :: nat where "CKA_CLASS = 0"
definition CKA_TOKEN :: nat where "CKA_TOKEN = 1"
definition CKA_PRIVATE :: nat where "CKA_PRIVATE = 2"
definition CKA_LABEL :: nat where "CKA_LABEL = 3"
definition CKA_KEY_TYPE :: nat where "CKA_KEY_TYPE = 0x100"
definition CKA_ID :: nat where "CKA_ID = 0x102"
definition CKA_SIGN :: nat where "CKA_SIGN = 0x108"
definition CKA_VERIFY :: nat where "CKA_VERIFY = 0x10A"
definition CKA_DERIVE :: nat where "CKA_DERIVE = 0x10C"
definition CKA_EC_PARAMS :: nat where "CKA_EC_PARAMS = 0x180"
definition CKA_EC_POINT :: nat where "CKA_EC_POINT = 0x181"
definition CKO_PUBLIC_KEY :: nat where "CKO_PUBLIC_KEY = 2"
definition CKO_PRIVATE_KEY :: nat where "CKO_PRIVATE_KEY = 3"
definition CKK_EC :: nat where "CKK_EC = 3"
definition CKM_EC_KEY_PAIR_GEN :: nat where "CKM_EC_KEY_PAIR_GEN = 0x1040"
definition CKM_ECDSA :: nat where "CKM_ECDSA = 0x1041"
definition CKR_SLOT_ID_INVALID :: nat where "CKR_SLOT_ID_INVALID = 3"
definition CKR_PIN_INCORRECT :: nat where "CKR_PIN_INCORRECT = 0xA0"
definition CKR_CRYPTOKI_ALREADY_INITIALIZED :: nat where "CKR_CRYPTOKI_ALREADY_INITIALIZED = 0x191"

lemmas ck_attributes = CKA_CLASS_def CKA_TOKEN_def CKA_PRIVATE_def CKA_LABEL_def CKA_KEY_TYPE_def CKA_ID_def
  CKA_SIGN_def CKA_VERIFY_def CKA_DERIVE_def CKA_EC_PARAMS_def CKA_EC_POINT_def CKO_PUBLIC_KEY_def CKO_PRIVATE_KEY_def

section \<open>Errors, calls and deferred functions\<close>

definition pkcsErrTranslator :: "(nat \<times> go_error) list" where
  "pkcsErrTranslator =
     [(CKR_SLOT_ID_INVALID, sm_NewInvalidSlotError), (CKR_PIN_INCORRECT, sm_NewPinIncorrectError),
      (CKR_CRYPTOKI_ALREADY_INITIALIZED, sm_NewAlreadyInitializedError)]"

definition toSignatureManagerErr :: "nat \<Rightarrow> go_error" where
  "toSignatureManagerErr rv =
     (case map_of pkcsErrTranslator rv of Some err \<Rightarrow> err | None \<Rightarrow> sm_NewInternalError)"

text \<open>The error of the library itself, and the two panics.\<close>

definition pkcs11_error :: "nat \<Rightarrow> go_error" where
  "pkcs11_error rv = PlainError ''pkcs11''"

definition nil_address :: go_error where
  "nil_address = PlainError ''invalid memory address or nil pointer dereference''"

definition index_panic :: go_error where
  "index_panic = PlainError ''index out of range''"

text \<open>A call whose error is turned into one of the manager.\<close>

definition callP :: "(nat \<Rightarrow> go_error) \<Rightarrow> ('l, 'a) ck_call \<Rightarrow> ('l, 'a) prog" where
  "callP h c s = (case c s of (Inl rv, s') \<Rightarrow> (Inl (h rv), s') | (Inr x, s') \<Rightarrow> (Inr x, s'))"

definition deferP :: "('l, unit) prog \<Rightarrow> ('l, 'a) prog \<Rightarrow> ('l, 'a) prog" where
  "deferP cleanup m s = (case m s of (r, s') \<Rightarrow> (r, snd (cleanup s')))"

text \<open>A function whose error is a value, and the early return with it.\<close>

definition failP :: "('l, go_error + 'a) prog \<Rightarrow> ('l, 'a) prog" where
  "failP m = bindP m liftP"

definition logOut :: "'l pkcs11_ctx \<Rightarrow> nat \<Rightarrow> ('l, unit) prog" where
  "logOut px session = bindP (tryP (callP pkcs11_error (ck_Logout px session))) (\<lambda>_. returnP ())"

definition closeSession :: "'l pkcs11_ctx \<Rightarrow> nat \<Rightarrow> ('l, unit) prog" where
  "closeSession px session = bindP (tryP (callP pkcs11_error (ck_CloseSession px session))) (\<lambda>_. returnP ())"

text \<open>\<open>strconv.ParseUint(slot, 10, 32)\<close>.\<close>

definition parse_slot :: "string \<Rightarrow> nat option" where
  "parse_slot s = (if s \<noteq> [] \<and> list_all dec_digit s \<and> dec_val s < 2 ^ 32 then Some (dec_val s) else None)"

text \<open>The start of every operation on a slot, and its end.\<close>

definition with_session :: "'l pkcs11_ctx \<Rightarrow> nat \<Rightarrow> nat \<Rightarrow> string \<Rightarrow> (nat \<Rightarrow> ('l, 'a) prog) \<Rightarrow> ('l, 'a) prog" where
  "with_session px slot flags pin body =
     bindP (callP toSignatureManagerErr (ck_OpenSession px slot flags)) (\<lambda>session.
     deferP (closeSession px session)
       (bindP (callP toSignatureManagerErr (ck_Login px session CKU_USER pin)) (\<lambda>_.
        deferP (logOut px session) (body session))))"

definition on_slot :: "'l pkcs11_ctx \<Rightarrow> string \<Rightarrow> nat \<Rightarrow> string \<Rightarrow> (nat \<Rightarrow> ('l, 'a) prog) \<Rightarrow> ('l, 'a) prog" where
  "on_slot px slot flags pin body =
     (case parse_slot slot of
        None \<Rightarrow> throwP sm_NewInvalidSlotError
      | Some n \<Rightarrow> with_session px n flags pin body)"

definition rw_session :: nat where
  "rw_session = CKF_SERIAL_SESSION + CKF_RW_SESSION"

section \<open>Searches\<close>

text \<open>
  The loop over the results ends with an empty answer.  A library that never gives one keeps it
  going: it is a function of a number of rounds, and \<open>endless_search\<close> says that they do not suffice.
\<close>

definition endless_search :: go_error where
  "endless_search = PlainError ''the search goes on''"

definition find_limit :: nat where
  "find_limit = 10000"

fun find_loop :: "'l pkcs11_ctx \<Rightarrow> nat \<Rightarrow> nat \<Rightarrow> nat list \<Rightarrow> ('l, nat list) prog" where
  "find_loop px 0 session objects = throwP endless_search"
| "find_loop px (Suc n) session objects =
     bindP (callP (\<lambda>_. sm_NewInternalError) (ck_FindObjects px session find_limit)) (\<lambda>os.
     if length os = 0 then returnP (objects @ os) else find_loop px n session (objects @ os))"

definition findObjects :: "nat \<Rightarrow> 'l pkcs11_ctx \<Rightarrow> nat \<Rightarrow> ck_template \<Rightarrow> ('l, nat list) prog" where
  "findObjects n px session template =
     bindP (callP (\<lambda>_. sm_NewInternalError) (ck_FindObjectsInit px session template)) (\<lambda>_.
     bindP (find_loop px n session []) (\<lambda>objects.
     bindP (callP (\<lambda>_. sm_NewInternalError) (ck_FindObjectsFinal px session)) (\<lambda>_.
     returnP objects)))"

definition findObject :: "'l pkcs11_ctx \<Rightarrow> nat \<Rightarrow> ck_template \<Rightarrow> ('l, nat) prog" where
  "findObject px session template =
     bindP (callP pkcs11_error (ck_FindObjectsInit px session template)) (\<lambda>_.
     bindP (callP pkcs11_error (ck_FindObjects px session 1)) (\<lambda>os.
     bindP (callP pkcs11_error (ck_FindObjectsFinal px session)) (\<lambda>_.
     case os of [] \<Rightarrow> throwP sm_NewNotFoundError | ob # _ \<Rightarrow> returnP ob)))"

section \<open>Attributes\<close>

definition setLabel :: "'l pkcs11_ctx \<Rightarrow> nat \<Rightarrow> nat \<Rightarrow> string \<Rightarrow> ('l, unit) prog" where
  "setLabel px session ob label =
     callP pkcs11_error (ck_SetAttributeValue px session ob [(CKA_LABEL, CkText label)])"

definition value_bytes :: "ck_attribute \<Rightarrow> bytes" where
  "value_bytes a = (case snd a of None \<Rightarrow> [] | Some b \<Rightarrow> b)"

definition read_attribute :: "'l pkcs11_ctx \<Rightarrow> nat \<Rightarrow> nat \<Rightarrow> nat \<Rightarrow> ('l, nat + ck_attribute list) prog" where
  "read_attribute px session ob kind s =
     (case ck_GetAttributeValue px session ob [(kind, CkNil)] s of (r, s') \<Rightarrow> (Inr r, s'))"

definition getLabel :: "'l pkcs11_ctx \<Rightarrow> nat \<Rightarrow> nat \<Rightarrow> ('l, go_error + string) prog" where
  "getLabel px session ob =
     bindP (read_attribute px session ob CKA_LABEL) (\<lambda>r.
     case r of
       Inl rv \<Rightarrow> returnP (Inl (InternalFromErr (pkcs11_error rv)))
     | Inr [] \<Rightarrow> throwP index_panic
     | Inr (a # _) \<Rightarrow> returnP (Inr (string_of_bytes (value_bytes a))))"

definition getTimestamp :: "'l pkcs11_ctx \<Rightarrow> nat \<Rightarrow> nat \<Rightarrow> ('l, go_error + 64 word) prog" where
  "getTimestamp px session ob =
     bindP (read_attribute px session ob CKA_ID) (\<lambda>r.
     case r of
       Inl rv \<Rightarrow> returnP (Inl (pkcs11_error rv))
     | Inr [] \<Rightarrow> throwP index_panic
     | Inr (a # _) \<Rightarrow>
         returnP (Inr (if length (value_bytes a) = 8 then word_of_nat (be_nat (value_bytes a)) else 0)))"

text \<open>
  \<open>asn1.Unmarshal\<close> into a byte slice: an octet string in DER, with whatever follows it.  A long
  length has no leading zero, is not below 128, and its value stays below \<open>2^31\<close>.
\<close>

definition der_length :: "bytes \<Rightarrow> (nat \<times> bytes) option" where
  "der_length bs =
     (case bs of
        [] \<Rightarrow> None
      | b # rest \<Rightarrow>
          if unat b < 128 then Some (unat b, rest)
          else
            (let n = unat b - 128; ls = take n rest; len = be_nat ls in
             if n = 0 \<or> length rest < n \<or> hd ls = 0 \<or> len < 128 \<or> 2 ^ 31 \<le> len then None
             else Some (len, drop n rest)))"

definition asn1_octets :: "bytes \<Rightarrow> bytes option" where
  "asn1_octets bs =
     (case bs of
        [] \<Rightarrow> None
      | tag # rest \<Rightarrow>
          if tag \<noteq> 0x04 then None
          else (case der_length rest of
                  None \<Rightarrow> None
                | Some (len, body) \<Rightarrow> if length body < len then None else Some (take len body)))"

definition getECPoint :: "'l pkcs11_ctx \<Rightarrow> nat \<Rightarrow> nat \<Rightarrow> ('l, go_error + bytes) prog" where
  "getECPoint px session ob =
     bindP (read_attribute px session ob CKA_EC_POINT) (\<lambda>r.
     returnP (case r of
       Inl rv \<Rightarrow> Inl (pkcs11_error rv)
     | Inr as \<Rightarrow>
         (case find (\<lambda>a. fst a = CKA_EC_POINT) as of
            Some (_, Some ecPoint) \<Rightarrow> Inr ecPoint
          | _ \<Rightarrow> Inl sm_NewKeyGenerationError)))"

definition getDecodedECPoint :: "'l pkcs11_ctx \<Rightarrow> nat \<Rightarrow> nat \<Rightarrow> ('l, go_error + bytes) prog" where
  "getDecodedECPoint px session ob =
     bindP (getECPoint px session ob) (\<lambda>r.
     returnP (case r of
       Inl err \<Rightarrow> Inl err
     | Inr ecPoint \<Rightarrow>
         (case asn1_octets ecPoint of None \<Rightarrow> Inl sm_NewKeyGenerationError | Some ecp \<Rightarrow> Inr ecp)))"

text \<open>\<open>c_parse\<close> is \<open>curves.ParsePubKey\<close> with \<open>SerializeUncompressed\<close>.\<close>

definition getAddress :: "crypto \<Rightarrow> 'l pkcs11_ctx \<Rightarrow> nat \<Rightarrow> nat \<Rightarrow> ('l, go_error + address) prog" where
  "getAddress cr px session publicKey =
     bindP (getDecodedECPoint px session publicKey) (\<lambda>r.
     returnP (case r of
       Inl err \<Rightarrow> Inl sm_NewKeyGenerationError
     | Inr ecp \<Rightarrow>
         (case c_parse cr ecp of
            None \<Rightarrow> Inl sm_NewInternalError
          | Some pubKey \<Rightarrow> DeriveAddressFromPublicKey (c_keccak cr) pubKey)))"

definition calculatePublicKeyLabel :: "crypto \<Rightarrow> address \<Rightarrow> string" where
  "calculatePublicKeyLabel cr addr = String_of_address (c_keccak cr) addr"

definition calculatePrivateKeyLabel :: "crypto \<Rightarrow> address \<Rightarrow> string" where
  "calculatePrivateKeyLabel cr addr = String_of_address (c_keccak cr) addr"

section \<open>Key generation\<close>

text \<open>\<open>UnixNano\<close> of \<open>commons/time\<close> scales milliseconds, on 64 bits.\<close>

definition UnixNano :: "int \<Rightarrow> 64 word" where
  "UnixNano millis = word_of_int millis * 1000000"

definition generateTimestampId :: "'l pkcs11_ctx \<Rightarrow> ('l, bytes) prog" where
  "generateTimestampId px s =
     (case ck_Now px s of (r, s') \<Rightarrow> (Inr (be_fixed 8 (unat (UnixNano (case r of Inl _ \<Rightarrow> 0 | Inr t \<Rightarrow> t)))), s'))"

definition base64_char :: "nat \<Rightarrow> char" where
  "base64_char n = ''ABCDEFGHIJKLMNOPQRSTUVWXYZabcdefghijklmnopqrstuvwxyz0123456789+/'' ! (n mod 64)"

fun StdEncoding :: "bytes \<Rightarrow> string" where
  "StdEncoding [] = []"
| "StdEncoding [a] = (let n = unat a * 65536 in [base64_char (n div 262144), base64_char (n div 4096)] @ ''=='')"
| "StdEncoding [a, b] = (let n = unat a * 65536 + unat b * 256
     in [base64_char (n div 262144), base64_char (n div 4096), base64_char (n div 64)] @ ''='')"
| "StdEncoding (a # b # c # bs) = (let n = unat a * 65536 + unat b * 256 + unat c
     in [base64_char (n div 262144), base64_char (n div 4096), base64_char (n div 64), base64_char n] @ StdEncoding bs)"

definition ellipticCurveParameters :: bytes where
  "ellipticCurveParameters = [0x06, 0x05, 0x2B, 0x81, 0x04, 0x00, 0x0A]"

definition public_template :: "bytes \<Rightarrow> ck_template" where
  "public_template timestamp =
     [(CKA_KEY_TYPE, CkUint CKK_EC), (CKA_CLASS, CkUint CKO_PUBLIC_KEY), (CKA_TOKEN, CkBool True),
      (CKA_VERIFY, CkBool True), (CKA_EC_PARAMS, CkBytes ellipticCurveParameters), (CKA_PRIVATE, CkBool False),
      (CKA_LABEL, CkText (StdEncoding timestamp)), (CKA_ID, CkBytes timestamp)]"

definition private_template :: "bytes \<Rightarrow> ck_template" where
  "private_template timestamp =
     [(CKA_KEY_TYPE, CkUint CKK_EC), (CKA_CLASS, CkUint CKO_PRIVATE_KEY), (CKA_TOKEN, CkBool True),
      (CKA_SIGN, CkBool True), (CKA_DERIVE, CkBool False), (CKA_PRIVATE, CkBool True),
      (CKA_LABEL, CkText (StdEncoding timestamp)), (CKA_ID, CkBytes timestamp)]"

definition generate_in :: "crypto \<Rightarrow> 'l pkcs11_ctx \<Rightarrow> nat \<Rightarrow> ('l, address) prog" where
  "generate_in cr px session =
     bindP (generateTimestampId px) (\<lambda>publicId.
     bindP (generateTimestampId px) (\<lambda>privateId.
     bindP (callP (\<lambda>_. sm_NewKeyGenerationError) (ck_GenerateKeyPair px session CKM_EC_KEY_PAIR_GEN
              (public_template publicId) (private_template privateId))) (\<lambda>(publicKey, privateKey).
     bindP (failP (getAddress cr px session publicKey)) (\<lambda>addr.
     bindP (tryP (setLabel px session publicKey (calculatePublicKeyLabel cr addr))) (\<lambda>_.
     bindP (tryP (setLabel px session privateKey (calculatePrivateKeyLabel cr addr))) (\<lambda>_.
     returnP addr))))))"

definition hsm_GenerateKey :: "crypto \<Rightarrow> 'l pkcs11_ctx \<Rightarrow> string \<Rightarrow> string \<Rightarrow> ('l, address) prog" where
  "hsm_GenerateKey cr px slot pin = on_slot px slot rw_session pin (generate_in cr px)"

section \<open>The other operations\<close>

fun destroy_all :: "'l pkcs11_ctx \<Rightarrow> nat \<Rightarrow> nat list \<Rightarrow> ('l, unit) prog" where
  "destroy_all px session [] = returnP ()"
| "destroy_all px session (ob # obs) =
     bindP (callP toSignatureManagerErr (ck_DestroyObject px session ob)) (\<lambda>_. destroy_all px session obs)"

definition key_template :: "nat \<Rightarrow> string \<Rightarrow> ck_template" where
  "key_template cl label = [(CKA_CLASS, CkUint cl), (CKA_LABEL, CkText label)]"

definition remove_in :: "nat \<Rightarrow> crypto \<Rightarrow> 'l pkcs11_ctx \<Rightarrow> address \<Rightarrow> nat \<Rightarrow> ('l, unit) prog" where
  "remove_in n cr px addr session =
     bindP (onErrP (findObjects n px session (key_template CKO_PRIVATE_KEY (calculatePrivateKeyLabel cr addr)))
       InternalFromErr) (\<lambda>privateKeyObjects.
     bindP (onErrP (findObjects n px session (key_template CKO_PUBLIC_KEY (calculatePublicKeyLabel cr addr)))
       InternalFromErr) (\<lambda>publicKeyObjects.
     bindP (checkP (\<not> (length privateKeyObjects = 0 \<and> length publicKeyObjects = 0)) sm_NewNotFoundError) (\<lambda>_.
     bindP (destroy_all px session privateKeyObjects) (\<lambda>_.
     destroy_all px session publicKeyObjects))))"

definition hsm_RemoveKey :: "nat \<Rightarrow> crypto \<Rightarrow> 'l pkcs11_ctx \<Rightarrow> string \<Rightarrow> string \<Rightarrow> address \<Rightarrow> ('l, unit) prog" where
  "hsm_RemoveKey n cr px slot pin addr = on_slot px slot rw_session pin (remove_in n cr px addr)"

text \<open>
  One round of the loop of \<open>ListKeys\<close>, which yields an entry or goes on to the next object.  The error of
  \<open>getAddress\<close> is dropped and the address, which is nil then, dereferenced.
\<close>

definition list_entry_of :: "crypto \<Rightarrow> 'l pkcs11_ctx \<Rightarrow> nat \<Rightarrow> nat \<Rightarrow> ('l, (address \<times> 64 word) option) prog" where
  "list_entry_of cr px session ob =
     bindP (getLabel px session ob) (\<lambda>l.
     case l of
       Inl _ \<Rightarrow> returnP None
     | Inr label \<Rightarrow>
         bindP (getAddress cr px session ob) (\<lambda>a.
         case a of
           Inl _ \<Rightarrow> throwP nil_address
         | Inr addr \<Rightarrow>
             if calculatePublicKeyLabel cr addr \<noteq> label then returnP None
             else bindP (getTimestamp px session ob) (\<lambda>t.
                  case t of Inl _ \<Rightarrow> returnP None | Inr time \<Rightarrow> returnP (Some (addr, time)))))"

text \<open>
  \<open>sort.Sort\<close> by time keeps the order of equal times for up to twelve keys only; the model always
  does, and no theorem says anything about it.
\<close>

definition ByTime_Addresses :: "(address \<times> 64 word) list \<Rightarrow> address list" where
  "ByTime_Addresses addresses = map fst (sort_key snd addresses)"

definition list_in :: "nat \<Rightarrow> crypto \<Rightarrow> 'l pkcs11_ctx \<Rightarrow> nat \<Rightarrow> ('l, address list) prog" where
  "list_in n cr px session =
     bindP (findObjects n px session [(CKA_CLASS, CkUint CKO_PUBLIC_KEY)]) (\<lambda>objects.
     bindP (mapP (list_entry_of cr px session) objects) (\<lambda>entries.
     returnP (ByTime_Addresses (concat (map (\<lambda>e. case e of None \<Rightarrow> [] | Some x \<Rightarrow> [x]) entries)))))"

definition hsm_ListKeys :: "nat \<Rightarrow> crypto \<Rightarrow> 'l pkcs11_ctx \<Rightarrow> string \<Rightarrow> string \<Rightarrow> ('l, address list) prog" where
  "hsm_ListKeys n cr px slot pin = on_slot px slot CKF_SERIAL_SESSION pin (list_in n cr px)"

definition sign_in :: "crypto \<Rightarrow> 'l pkcs11_ctx \<Rightarrow> address \<Rightarrow> bytes \<Rightarrow> nat \<Rightarrow> ('l, bytes) prog" where
  "sign_in cr px addr payload session =
     bindP (onErrP (findObject px session (key_template CKO_PRIVATE_KEY (calculatePrivateKeyLabel cr addr)))
       (\<lambda>err. if sm_IsNotFoundError err then sm_NewNotFoundError else err)) (\<lambda>privateKey.
     bindP (callP toSignatureManagerErr (ck_SignInit px session CKM_ECDSA privateKey)) (\<lambda>_.
     callP toSignatureManagerErr (ck_Sign px session payload)))"

definition hsm_Sign :: "crypto \<Rightarrow> 'l pkcs11_ctx \<Rightarrow> SignInput \<Rightarrow> ('l, bytes) prog" where
  "hsm_Sign cr px input =
     on_slot px (si_Slot input) rw_session (si_Pin input) (sign_in cr px (si_From input) (si_Data input))"

definition hsm_IsAlive :: "'l pkcs11_ctx \<Rightarrow> string \<Rightarrow> string \<Rightarrow> ('l, bool) prog" where
  "hsm_IsAlive px slot pin = on_slot px slot rw_session pin (\<lambda>_. returnP True)"

definition hsm_Close :: "'l pkcs11_ctx \<Rightarrow> ('l, unit) prog" where
  "hsm_Close px = callP toSignatureManagerErr (ck_Finalize px)"

definition hsm_Open :: "'l pkcs11_ctx \<Rightarrow> ('l, unit) prog" where
  "hsm_Open px = callP toSignatureManagerErr (ck_Initialize px)"

definition PKCS11HSMSignatureManager :: "nat \<Rightarrow> crypto \<Rightarrow> 'l pkcs11_ctx \<Rightarrow> 'l dsm" where
  "PKCS11HSMSignatureManager n cr px =
     \<lparr>dsm_GenerateKey = hsm_GenerateKey cr px,
      dsm_DeriveAddress = (\<lambda>_. throwP sm_NewNotImplementedError),
      dsm_RemoveKey = hsm_RemoveKey n cr px,
      dsm_ListKeys = hsm_ListKeys n cr px,
      dsm_Sign = hsm_Sign cr px,
      dsm_Close = hsm_Close px, dsm_Open = hsm_Open px,
      dsm_IsAlive = hsm_IsAlive px\<rparr>"

end
