(* ===== verification/Pkcs11_Token.thy ===== *)
theory Pkcs11_Token
  imports Pkcs11_Hsm
begin

text \<open>
  What the manager relies on of a PKCS#11 library, as version 2.40 of the standard documents it: the
  state of a token as an application sees it, the effect of the calls the manager makes on that
  state, and \<open>implements\<close>, the hypothesis that a library acts like that.  Nothing here is code of the
  repository.

  Sessions belong to a slot, a login to all sessions of a slot, and it ends with the last of them.
  Private objects are seen after a login only, and a session
  that was not opened for writing changes no object.  A call may fail at any time with a code of the list
  \<open>tk_Faults\<close>, 0 standing for a call that goes through; closing an open session is the one call that is
  taken not to fail.
\<close>

section \<open>The state of a token\<close>

record key_object =
  ob_Slot :: nat
  ob_Class :: nat
  ob_Label :: string
  ob_ID :: bytes
  ob_Point :: "bytes option"
  ob_Secret :: bytes

record ck_session =
  ss_Slot :: nat
  ss_RW :: bool
  ss_Search :: "nat list option"
  ss_Key :: "nat option"

record token =
  tk_Initialized :: bool
  tk_Pins :: "(nat \<times> string) list"
  tk_Sessions :: "(nat \<times> ck_session) list"
  tk_User :: "nat list"
  tk_Objects :: "(nat \<times> key_object) list"
  tk_Next :: nat
  tk_Keys :: "(bytes \<times> bytes) list"
  tk_Clock :: "int list"
  tk_Faults :: "nat list"

definition fresh_session :: "nat \<Rightarrow> nat \<Rightarrow> ck_session" where
  "fresh_session slot flags = \<lparr>ss_Slot = slot, ss_RW = (flags div CKF_RW_SESSION mod 2 = 1), ss_Search = None, ss_Key = None\<rparr>"

definition set_session :: "nat \<Rightarrow> ck_session \<Rightarrow> token \<Rightarrow> token" where
  "set_session h ss t = t\<lparr>tk_Sessions := map (\<lambda>(k, x). (k, if k = h then ss else x)) (tk_Sessions t)\<rparr>"

text \<open>A call that fails if the next fault says so.\<close>

definition faulty :: "(token, 'a) ck_call \<Rightarrow> (token, 'a) ck_call" where
  "faulty c t =
     (case tk_Faults t of
        [] \<Rightarrow> c t
      | rv # rest \<Rightarrow> if rv = 0 then c (t\<lparr>tk_Faults := rest\<rparr>) else (Inl rv, t\<lparr>tk_Faults := rest\<rparr>))"

text \<open>A call on an open session.\<close>

definition on_session :: "nat \<Rightarrow> (ck_session \<Rightarrow> (token, 'a) ck_call) \<Rightarrow> (token, 'a) ck_call" where
  "on_session h c =
     faulty (\<lambda>t. case map_of (tk_Sessions t) h of None \<Rightarrow> (Inl 0xB3, t) | Some ss \<Rightarrow> c ss t)"

section \<open>The calls\<close>

definition tk_Initialize :: "(token, unit) ck_call" where
  "tk_Initialize = faulty (\<lambda>t.
     if tk_Initialized t then (Inl CKR_CRYPTOKI_ALREADY_INITIALIZED, t)
     else (Inr (), t\<lparr>tk_Initialized := True\<rparr>))"

definition tk_Finalize :: "(token, unit) ck_call" where
  "tk_Finalize = faulty (\<lambda>t.
     if \<not> tk_Initialized t then (Inl 0x190, t)
     else (Inr (), t\<lparr>tk_Initialized := False, tk_Sessions := [], tk_User := []\<rparr>))"

definition tk_OpenSession :: "nat \<Rightarrow> nat \<Rightarrow> (token, nat) ck_call" where
  "tk_OpenSession slot flags = faulty (\<lambda>t.
     if \<not> tk_Initialized t then (Inl 0x190, t)
     else if map_of (tk_Pins t) slot = None then (Inl CKR_SLOT_ID_INVALID, t)
     else if flags div CKF_SERIAL_SESSION mod 2 = 0 then (Inl 0xB4, t)
     else (Inr (tk_Next t), t\<lparr>tk_Sessions := (tk_Next t, fresh_session slot flags) # tk_Sessions t, tk_Next := Suc (tk_Next t)\<rparr>))"

definition tk_CloseSession :: "nat \<Rightarrow> (token, unit) ck_call" where
  "tk_CloseSession h t =
     (if map_of (tk_Sessions t) h = None then (Inl 0xB3, t)
      else
        let rest = filter (\<lambda>(k, ss). k \<noteq> h) (tk_Sessions t)
        in (Inr (), t\<lparr>tk_Sessions := rest, tk_User := filter (\<lambda>slot. slot \<in> (ss_Slot \<circ> snd) ` set rest) (tk_User t)\<rparr>))"

definition tk_Login :: "nat \<Rightarrow> nat \<Rightarrow> string \<Rightarrow> (token, unit) ck_call" where
  "tk_Login h user pin = on_session h (\<lambda>ss t.
     if ss_Slot ss \<in> set (tk_User t) then (Inl 0x100, t)
     else if map_of (tk_Pins t) (ss_Slot ss) \<noteq> Some pin then (Inl CKR_PIN_INCORRECT, t)
     else (Inr (), t\<lparr>tk_User := ss_Slot ss # tk_User t\<rparr>))"

definition tk_Logout :: "nat \<Rightarrow> (token, unit) ck_call" where
  "tk_Logout h = on_session h (\<lambda>ss t.
     if ss_Slot ss \<notin> set (tk_User t) then (Inl 0x101, t)
     else (Inr (), t\<lparr>tk_User := removeAll (ss_Slot ss) (tk_User t)\<rparr>))"

definition template_label :: "ck_template \<Rightarrow> string" where
  "template_label tm = (case map_of tm CKA_LABEL of Some (CkText s) \<Rightarrow> s | _ \<Rightarrow> [])"

definition template_id :: "ck_template \<Rightarrow> bytes" where
  "template_id tm = (case map_of tm CKA_ID of Some (CkBytes b) \<Rightarrow> b | _ \<Rightarrow> [])"

text \<open>The pairs that the token will generate, each the private key and the encoded point, are part of its state.\<close>

definition tk_GenerateKeyPair :: "nat \<Rightarrow> nat \<Rightarrow> ck_template \<Rightarrow> ck_template \<Rightarrow> (token, nat \<times> nat) ck_call" where
  "tk_GenerateKeyPair h mechanism pub priv = on_session h (\<lambda>ss t.
     if ss_Slot ss \<notin> set (tk_User t) then (Inl 0x101, t)
     else if \<not> ss_RW ss then (Inl 0xB5, t)
     else if mechanism \<noteq> CKM_EC_KEY_PAIR_GEN then (Inl 0x70, t)
     else (case tk_Keys t of
             [] \<Rightarrow> (Inl 0x30, t)
           | (secret, point) # keys \<Rightarrow>
               (Inr (tk_Next t, Suc (tk_Next t)),
                t\<lparr>tk_Keys := keys, tk_Next := Suc (Suc (tk_Next t)),
                  tk_Objects := tk_Objects t @
                    [(tk_Next t, \<lparr>ob_Slot = ss_Slot ss, ob_Class = CKO_PUBLIC_KEY, ob_Label = template_label pub,
                       ob_ID = template_id pub, ob_Point = Some point, ob_Secret = secret\<rparr>),
                     (Suc (tk_Next t), \<lparr>ob_Slot = ss_Slot ss, ob_Class = CKO_PRIVATE_KEY, ob_Label = template_label priv,
                       ob_ID = template_id priv, ob_Point = None, ob_Secret = secret\<rparr>)]\<rparr>)))"

definition visible :: "token \<Rightarrow> nat \<Rightarrow> key_object \<Rightarrow> bool" where
  "visible t slot ob = (ob_Slot ob = slot \<and> (ob_Class ob = CKO_PRIVATE_KEY \<longrightarrow> slot \<in> set (tk_User t)))"

fun matches :: "ck_template \<Rightarrow> key_object \<Rightarrow> bool" where
  "matches [] ob = True"
| "matches ((kind, val) # tm) ob =
     ((if kind = CKA_CLASS then val = CkUint (ob_Class ob)
       else if kind = CKA_LABEL then val = CkText (ob_Label ob)
       else if kind = CKA_ID then val = CkBytes (ob_ID ob) else False) \<and> matches tm ob)"

definition found :: "token \<Rightarrow> nat \<Rightarrow> ck_template \<Rightarrow> nat list" where
  "found t slot tm = map fst (filter (\<lambda>(h, ob). visible t slot ob \<and> matches tm ob) (tk_Objects t))"

definition tk_FindObjectsInit :: "nat \<Rightarrow> ck_template \<Rightarrow> (token, unit) ck_call" where
  "tk_FindObjectsInit h tm = on_session h (\<lambda>ss t.
     if ss_Search ss \<noteq> None then (Inl 0x90, t)
     else (Inr (), set_session h (ss\<lparr>ss_Search := Some (found t (ss_Slot ss) tm)\<rparr>) t))"

definition tk_FindObjects :: "nat \<Rightarrow> nat \<Rightarrow> (token, nat list) ck_call" where
  "tk_FindObjects h limit = on_session h (\<lambda>ss t.
     case ss_Search ss of
       None \<Rightarrow> (Inl 0x91, t)
     | Some obs \<Rightarrow> (Inr (take limit obs), set_session h (ss\<lparr>ss_Search := Some (drop limit obs)\<rparr>) t))"

definition tk_FindObjectsFinal :: "nat \<Rightarrow> (token, unit) ck_call" where
  "tk_FindObjectsFinal h = on_session h (\<lambda>ss t.
     if ss_Search ss = None then (Inl 0x91, t) else (Inr (), set_session h (ss\<lparr>ss_Search := None\<rparr>) t))"

definition tk_DestroyObject :: "nat \<Rightarrow> nat \<Rightarrow> (token, unit) ck_call" where
  "tk_DestroyObject h ob = on_session h (\<lambda>ss t.
     if \<not> ss_RW ss then (Inl 0xB5, t)
     else case map_of (tk_Objects t) ob of
       None \<Rightarrow> (Inl 0x82, t)
     | Some ko \<Rightarrow>
         if visible t (ss_Slot ss) ko
         then (Inr (), t\<lparr>tk_Objects := filter (\<lambda>(k, x). k \<noteq> ob) (tk_Objects t)\<rparr>) else (Inl 0x82, t))"

definition attribute_of :: "key_object \<Rightarrow> nat \<Rightarrow> bytes option" where
  "attribute_of ob kind =
     (if kind = CKA_LABEL then Some (bytes_of_string (ob_Label ob))
      else if kind = CKA_ID then Some (ob_ID ob)
      else if kind = CKA_EC_POINT then ob_Point ob else None)"

definition tk_GetAttributeValue :: "nat \<Rightarrow> nat \<Rightarrow> ck_template \<Rightarrow> (token, ck_attribute list) ck_call" where
  "tk_GetAttributeValue h ob tm = on_session h (\<lambda>ss t.
     case map_of (tk_Objects t) ob of
       None \<Rightarrow> (Inl 0x82, t)
     | Some ko \<Rightarrow>
         if \<not> visible t (ss_Slot ss) ko then (Inl 0x82, t)
         else if list_all (\<lambda>(kind, _). attribute_of ko kind \<noteq> None) tm
         then (Inr (map (\<lambda>(kind, _). (kind, attribute_of ko kind)) tm), t) else (Inl 0x12, t))"

definition tk_SetAttributeValue :: "nat \<Rightarrow> nat \<Rightarrow> ck_template \<Rightarrow> (token, unit) ck_call" where
  "tk_SetAttributeValue h ob tm = on_session h (\<lambda>ss t.
     if \<not> ss_RW ss then (Inl 0xB5, t)
     else case map_of (tk_Objects t) ob of
       None \<Rightarrow> (Inl 0x82, t)
     | Some ko \<Rightarrow>
         if visible t (ss_Slot ss) ko
         then (Inr (), t\<lparr>tk_Objects := map (\<lambda>(k, x). (k, if k = ob then x\<lparr>ob_Label := template_label tm\<rparr> else x)) (tk_Objects t)\<rparr>)
         else (Inl 0x82, t))"

definition tk_SignInit :: "nat \<Rightarrow> nat \<Rightarrow> nat \<Rightarrow> (token, unit) ck_call" where
  "tk_SignInit h mechanism ob = on_session h (\<lambda>ss t.
     if mechanism \<noteq> CKM_ECDSA then (Inl 0x70, t)
     else case map_of (tk_Objects t) ob of
       None \<Rightarrow> (Inl 0x60, t)
     | Some ko \<Rightarrow>
         if visible t (ss_Slot ss) ko \<and> ob_Class ko = CKO_PRIVATE_KEY
         then (Inr (), set_session h (ss\<lparr>ss_Key := Some ob\<rparr>) t) else (Inl 0x60, t))"

text \<open>The signature function of the device has the private key and the data.\<close>

definition tk_Sign :: "(bytes \<Rightarrow> bytes \<Rightarrow> bytes) \<Rightarrow> nat \<Rightarrow> bytes \<Rightarrow> (token, bytes) ck_call" where
  "tk_Sign ecdsa h payload = on_session h (\<lambda>ss t.
     case ss_Key ss of
       None \<Rightarrow> (Inl 0x91, t)
     | Some ob \<Rightarrow>
         (case map_of (tk_Objects t) ob of
            None \<Rightarrow> (Inl 0x82, t)
          | Some ko \<Rightarrow> (Inr (ecdsa (ob_Secret ko) payload), set_session h (ss\<lparr>ss_Key := None\<rparr>) t)))"

definition tk_Now :: "(token, int) ck_call" where
  "tk_Now t = (case tk_Clock t of [] \<Rightarrow> (Inr 0, t) | millis # rest \<Rightarrow> (Inr millis, t\<lparr>tk_Clock := rest\<rparr>))"

definition token_ctx :: "(bytes \<Rightarrow> bytes \<Rightarrow> bytes) \<Rightarrow> token pkcs11_ctx" where
  "token_ctx ecdsa =
     \<lparr>ck_Initialize = tk_Initialize, ck_Finalize = tk_Finalize, ck_OpenSession = tk_OpenSession,
      ck_CloseSession = tk_CloseSession, ck_Login = tk_Login, ck_Logout = tk_Logout,
      ck_GenerateKeyPair = tk_GenerateKeyPair, ck_FindObjectsInit = tk_FindObjectsInit,
      ck_FindObjects = tk_FindObjects, ck_FindObjectsFinal = tk_FindObjectsFinal,
      ck_DestroyObject = tk_DestroyObject, ck_GetAttributeValue = tk_GetAttributeValue,
      ck_SetAttributeValue = tk_SetAttributeValue, ck_SignInit = tk_SignInit, ck_Sign = tk_Sign ecdsa,
      ck_Now = tk_Now\<rparr>"

section \<open>Libraries that act like that\<close>

text \<open>
  A run of a library, seen through a view of its state, is that of the token; the same relation
  between programs carries over to the operations of the manager.
\<close>

definition follows :: "('l \<Rightarrow> token) \<Rightarrow> ('l \<Rightarrow> 'r \<times> 'l) \<Rightarrow> (token \<Rightarrow> 'r \<times> token) \<Rightarrow> bool" where
  "follows v m m' \<longleftrightarrow> (\<forall>s. map_prod id v (m s) = m' (v s))"

definition implements :: "(bytes \<Rightarrow> bytes \<Rightarrow> bytes) \<Rightarrow> 'l pkcs11_ctx \<Rightarrow> ('l \<Rightarrow> token) \<Rightarrow> bool" where
  "implements ecdsa px v \<longleftrightarrow>
     follows v (ck_Initialize px) tk_Initialize \<and> follows v (ck_Finalize px) tk_Finalize \<and>
     (\<forall>slot flags. follows v (ck_OpenSession px slot flags) (tk_OpenSession slot flags)) \<and>
     (\<forall>h. follows v (ck_CloseSession px h) (tk_CloseSession h)) \<and>
     (\<forall>h user pin. follows v (ck_Login px h user pin) (tk_Login h user pin)) \<and>
     (\<forall>h. follows v (ck_Logout px h) (tk_Logout h)) \<and>
     (\<forall>h m pub priv. follows v (ck_GenerateKeyPair px h m pub priv) (tk_GenerateKeyPair h m pub priv)) \<and>
     (\<forall>h tm. follows v (ck_FindObjectsInit px h tm) (tk_FindObjectsInit h tm)) \<and>
     (\<forall>h limit. follows v (ck_FindObjects px h limit) (tk_FindObjects h limit)) \<and>
     (\<forall>h. follows v (ck_FindObjectsFinal px h) (tk_FindObjectsFinal h)) \<and>
     (\<forall>h ob. follows v (ck_DestroyObject px h ob) (tk_DestroyObject h ob)) \<and>
     (\<forall>h ob tm. follows v (ck_GetAttributeValue px h ob tm) (tk_GetAttributeValue h ob tm)) \<and>
     (\<forall>h ob tm. follows v (ck_SetAttributeValue px h ob tm) (tk_SetAttributeValue h ob tm)) \<and>
     (\<forall>h m ob. follows v (ck_SignInit px h m ob) (tk_SignInit h m ob)) \<and>
     (\<forall>h payload. follows v (ck_Sign px h payload) (tk_Sign ecdsa h payload)) \<and>
     follows v (ck_Now px) tk_Now"

lemma implements_token: "implements ecdsa (token_ctx ecdsa) id"
  by (simp add: implements_def follows_def token_ctx_def prod.map_id0)

lemma follows_run: "follows v m m' \<Longrightarrow> m s = (r, s') \<Longrightarrow> m' (v s) = (r, v s')"
  unfolding follows_def by (metis map_prod_simp id_apply)

lemma followsI: "(\<And>s r s'. m s = (r, s') \<Longrightarrow> m' (v s) = (r, v s')) \<Longrightarrow> follows v m m'"
  unfolding follows_def by (metis map_prod_simp id_apply surj_pair)

lemma follows_returnP: "follows v (returnP x) (returnP x)"
  by (simp add: follows_def returnP_def)

lemma follows_throwP: "follows v (throwP e) (throwP e)"
  by (simp add: follows_def throwP_def)

lemma follows_liftP: "follows v (liftP r) (liftP r)"
  by (simp add: follows_def liftP_def)

lemma follows_checkP: "follows v (checkP b e) (checkP b e)"
  by (simp add: checkP_def follows_returnP follows_throwP)

lemma follows_bindP:
  assumes "follows v m m'" "\<And>x. follows v (f x) (f' x)"
  shows "follows v (bindP m f) (bindP m' f')"
proof (rule followsI)
  fix s r s'
  obtain r1 s1 where m: "m s = (r1, s1)" by (cases "m s")
  moreover have "m' (v s) = (r1, v s1)" using follows_run [OF assms(1) m] .
  moreover assume "bindP m f s = (r, s')"
  ultimately show "bindP m' f' (v s) = (r, v s')"
    by (cases r1) (auto simp: bindP_def dest: follows_run [OF assms(2)])
qed

lemma follows_deferP:
  assumes "follows v d d'" "follows v m m'"
  shows "follows v (deferP d m) (deferP d' m')"
proof (rule followsI)
  fix s r s'
  obtain r1 s1 where m: "m s = (r1, s1)" by (cases "m s")
  obtain r2 s2 where d: "d s1 = (r2, s2)" by (cases "d s1")
  assume "deferP d m s = (r, s')"
  then show "deferP d' m' (v s) = (r, v s')"
    using m d follows_run [OF assms(2) m] follows_run [OF assms(1) d] by (auto simp: deferP_def)
qed

lemma follows_mapped:
  assumes "follows v m m'" "\<And>s. f s = (case m s of (r, s') \<Rightarrow> (g r, s'))" "\<And>s. f' s = (case m' s of (r, s') \<Rightarrow> (g r, s'))"
  shows "follows v f f'"
  using assms by (intro followsI) (auto split: prod.splits dest: follows_run [OF assms(1)])

lemma follows_tryP: "follows v m m' \<Longrightarrow> follows v (tryP m) (tryP m')"
  by (erule follows_mapped) (simp_all add: tryP_def)

lemma follows_onErrP: "follows v m m' \<Longrightarrow> follows v (onErrP m h) (onErrP m' h)"
  by (erule follows_mapped [where g = "\<lambda>r. case r of Inl e \<Rightarrow> Inl (h e) | Inr x \<Rightarrow> Inr x"])
     (auto simp: onErrP_def split: prod.splits sum.splits)

lemma follows_callP: "follows v c c' \<Longrightarrow> follows v (callP h c) (callP h c')"
  by (erule follows_mapped [where g = "\<lambda>r. case r of Inl e \<Rightarrow> Inl (h e) | Inr x \<Rightarrow> Inr x"])
     (auto simp: callP_def split: prod.splits sum.splits)

lemma follows_if: "follows v m m' \<Longrightarrow> follows v k k' \<Longrightarrow> follows v (if b then m else k) (if b then m' else k')"
  by simp

lemma follows_option:
  "follows v m m' \<Longrightarrow> (\<And>x. follows v (f x) (f' x)) \<Longrightarrow>
   follows v (case a of None \<Rightarrow> m | Some x \<Rightarrow> f x) (case a of None \<Rightarrow> m' | Some x \<Rightarrow> f' x)"
  by (cases a) simp_all

lemma follows_sum:
  "(\<And>x. follows v (f x) (f' x)) \<Longrightarrow> (\<And>x. follows v (g x) (g' x)) \<Longrightarrow>
   follows v (case a of Inl x \<Rightarrow> f x | Inr x \<Rightarrow> g x) (case a of Inl x \<Rightarrow> f' x | Inr x \<Rightarrow> g' x)"
  by (cases a) simp_all

lemma follows_list:
  "follows v m m' \<Longrightarrow> (\<And>x xs. follows v (f x xs) (f' x xs)) \<Longrightarrow>
   follows v (case a of [] \<Rightarrow> m | x # xs \<Rightarrow> f x xs) (case a of [] \<Rightarrow> m' | x # xs \<Rightarrow> f' x xs)"
  by (cases a) simp_all

lemma follows_prod: "(\<And>x y. follows v (f x y) (f' x y)) \<Longrightarrow> follows v (case a of (x, y) \<Rightarrow> f x y) (case a of (x, y) \<Rightarrow> f' x y)"
  by (cases a) simp

lemma follows_mapP: "(\<And>x. follows v (f x) (f' x)) \<Longrightarrow> follows v (mapP f xs) (mapP f' xs)"
  by (induction xs) (auto intro!: follows_bindP follows_returnP)

lemmas follows_intros = follows_returnP follows_throwP follows_liftP follows_checkP follows_bindP follows_deferP
  follows_tryP follows_onErrP follows_callP follows_if follows_option follows_sum follows_list follows_prod follows_mapP

end
