(* ===== verification/Pkcs11_Laws.thy ===== *)
theory Pkcs11_Laws
  imports Pkcs11_Token
begin

text \<open>
  The manager for hardware security modules on a library that acts as the standard says: it leaves
  no session behind, whatever fails; a key it has made signs and is listed until it is removed; and
  what happens to keys it has not made, or could not name.
\<close>

section \<open>From the token to a library\<close>

lemma ck_follows:
  assumes "implements ecdsa px v"
  shows "follows v (ck_Initialize px) (ck_Initialize (token_ctx ecdsa))"
    "follows v (ck_Finalize px) (ck_Finalize (token_ctx ecdsa))"
    "follows v (ck_OpenSession px slot flags) (ck_OpenSession (token_ctx ecdsa) slot flags)"
    "follows v (ck_CloseSession px h) (ck_CloseSession (token_ctx ecdsa) h)"
    "follows v (ck_Login px h user pin) (ck_Login (token_ctx ecdsa) h user pin)"
    "follows v (ck_Logout px h) (ck_Logout (token_ctx ecdsa) h)"
    "follows v (ck_GenerateKeyPair px h m pub priv) (ck_GenerateKeyPair (token_ctx ecdsa) h m pub priv)"
    "follows v (ck_FindObjectsInit px h tm) (ck_FindObjectsInit (token_ctx ecdsa) h tm)"
    "follows v (ck_FindObjects px h limit) (ck_FindObjects (token_ctx ecdsa) h limit)"
    "follows v (ck_FindObjectsFinal px h) (ck_FindObjectsFinal (token_ctx ecdsa) h)"
    "follows v (ck_DestroyObject px h ob) (ck_DestroyObject (token_ctx ecdsa) h ob)"
    "follows v (ck_GetAttributeValue px h ob tm) (ck_GetAttributeValue (token_ctx ecdsa) h ob tm)"
    "follows v (ck_SetAttributeValue px h ob tm) (ck_SetAttributeValue (token_ctx ecdsa) h ob tm)"
    "follows v (ck_SignInit px h m ob) (ck_SignInit (token_ctx ecdsa) h m ob)"
    "follows v (ck_Sign px h payload) (ck_Sign (token_ctx ecdsa) h payload)"
    "follows v (ck_Now px) (ck_Now (token_ctx ecdsa))"
  using assms by (simp_all add: implements_def token_ctx_def)

lemma follows_read_attribute:
  "implements ecdsa px v \<Longrightarrow> follows v (read_attribute px h ob kind) (read_attribute (token_ctx ecdsa) h ob kind)"
  by (rule follows_mapped [OF ck_follows(12)]) (simp_all add: read_attribute_def)

lemma follows_timestamp:
  "implements ecdsa px v \<Longrightarrow> follows v (generateTimestampId px) (generateTimestampId (token_ctx ecdsa))"
  by (rule follows_mapped [OF ck_follows(16)]) (simp_all add: generateTimestampId_def)

lemma follows_on_slot:
  assumes "implements ecdsa px v" "\<And>h. follows v (body h) (body' h)"
  shows "follows v (on_slot px slot flags pin body) (on_slot (token_ctx ecdsa) slot flags pin body')"
  unfolding on_slot_def with_session_def closeSession_def logOut_def
  by (intro follows_intros ck_follows [OF assms(1)] assms(2))

lemma follows_find_loop:
  "implements ecdsa px v \<Longrightarrow> follows v (find_loop px n h obs) (find_loop (token_ctx ecdsa) n h obs)"
  by (induction n arbitrary: obs) (auto intro!: follows_intros ck_follows)

lemma follows_findObjects:
  "implements ecdsa px v \<Longrightarrow> follows v (findObjects n px h tm) (findObjects n (token_ctx ecdsa) h tm)"
  unfolding findObjects_def by (intro follows_intros ck_follows follows_find_loop)

lemma follows_destroy_all:
  "implements ecdsa px v \<Longrightarrow> follows v (destroy_all px h obs) (destroy_all (token_ctx ecdsa) h obs)"
  by (induction obs) (auto intro!: follows_intros ck_follows)

lemma follows_getAddress:
  "implements ecdsa px v \<Longrightarrow> follows v (getAddress cr px h ob) (getAddress cr (token_ctx ecdsa) h ob)"
  unfolding getAddress_def getDecodedECPoint_def getECPoint_def by (intro follows_intros follows_read_attribute)

lemma manager_follows:
  assumes "implements ecdsa px v"
  shows "follows v (hsm_GenerateKey cr px slot pin) (hsm_GenerateKey cr (token_ctx ecdsa) slot pin)"
    "follows v (hsm_RemoveKey n cr px slot pin addr) (hsm_RemoveKey n cr (token_ctx ecdsa) slot pin addr)"
    "follows v (hsm_ListKeys n cr px slot pin) (hsm_ListKeys n cr (token_ctx ecdsa) slot pin)"
    "follows v (hsm_Sign cr px input) (hsm_Sign cr (token_ctx ecdsa) input)"
    "follows v (hsm_IsAlive px slot pin) (hsm_IsAlive (token_ctx ecdsa) slot pin)"
    "follows v (hsm_Close px) (hsm_Close (token_ctx ecdsa))"
    "follows v (hsm_Open px) (hsm_Open (token_ctx ecdsa))"
  unfolding hsm_GenerateKey_def generate_in_def failP_def setLabel_def hsm_RemoveKey_def remove_in_def hsm_ListKeys_def
    list_in_def list_entry_of_def getLabel_def getTimestamp_def hsm_Sign_def sign_in_def findObject_def hsm_IsAlive_def
    hsm_Close_def hsm_Open_def
  by (intro follows_on_slot follows_intros ck_follows follows_read_attribute follows_timestamp follows_getAddress
      follows_findObjects follows_destroy_all assms)+

section \<open>No session is left behind\<close>

definition idle :: "token \<Rightarrow> bool" where
  "idle t = (tk_Sessions t = [] \<and> tk_User t = [])"

text \<open>While an operation runs there is its session, and nobody is logged in elsewhere.\<close>

definition within :: "nat \<Rightarrow> nat \<Rightarrow> token \<Rightarrow> bool" where
  "within h slot t = ((\<exists>ss. tk_Sessions t = [(h, ss)] \<and> ss_Slot ss = slot) \<and> set (tk_User t) \<subseteq> {slot})"

lemma within_faulty:
  "within h slot t \<Longrightarrow> (\<And>t. within h slot t \<Longrightarrow> within h slot (snd (c t))) \<Longrightarrow> within h slot (snd (faulty c t))"
  by (auto simp: faulty_def within_def split: list.splits)

lemma within_on_session:
  assumes "within h slot t"
    and "\<And>ss t. k = h \<Longrightarrow> tk_Sessions t = [(h, ss)] \<Longrightarrow> ss_Slot ss = slot \<Longrightarrow> set (tk_User t) \<subseteq> {slot} \<Longrightarrow>
      within h slot (snd (c ss t))"
  shows "within h slot (snd (on_session k c t))"
  unfolding on_session_def
proof (rule within_faulty [OF assms(1)])
  fix t assume "within h slot t"
  then obtain ss where ss: "tk_Sessions t = [(h, ss)]" "ss_Slot ss = slot" "set (tk_User t) \<subseteq> {slot}"
    by (auto simp: within_def)
  then show "within h slot (snd (case map_of (tk_Sessions t) k of None \<Rightarrow> (Inl 0xB3, t) | Some ss \<Rightarrow> c ss t))"
    using assms(2) [OF _ ss] \<open>within h slot t\<close> by simp
qed

lemma within_set_session:
  "tk_Sessions t = [(h, ss)] \<Longrightarrow> ss_Slot ss' = slot \<Longrightarrow> set (tk_User t) \<subseteq> {slot} \<Longrightarrow> within h slot (set_session h ss' t)"
  by (simp add: within_def set_session_def)

lemma within_calls:
  assumes "within h slot t"
  shows "within h slot (snd (ck_Login (token_ctx ecdsa) k user pin t))"
    "within h slot (snd (ck_Logout (token_ctx ecdsa) k t))"
    "within h slot (snd (ck_GenerateKeyPair (token_ctx ecdsa) k m pub priv t))"
    "within h slot (snd (ck_FindObjectsInit (token_ctx ecdsa) k tm t))"
    "within h slot (snd (ck_FindObjects (token_ctx ecdsa) k limit t))"
    "within h slot (snd (ck_FindObjectsFinal (token_ctx ecdsa) k t))"
    "within h slot (snd (ck_DestroyObject (token_ctx ecdsa) k ob t))"
    "within h slot (snd (ck_GetAttributeValue (token_ctx ecdsa) k ob tm t))"
    "within h slot (snd (ck_SetAttributeValue (token_ctx ecdsa) k ob tm t))"
    "within h slot (snd (ck_SignInit (token_ctx ecdsa) k m ob t))"
    "within h slot (snd (ck_Sign (token_ctx ecdsa) k payload t))"
    "within h slot (snd (ck_Now (token_ctx ecdsa) t))"
  using assms
  unfolding token_ctx_def pkcs11_ctx.simps tk_Login_def tk_Logout_def tk_GenerateKeyPair_def tk_FindObjectsInit_def
    tk_FindObjects_def tk_FindObjectsFinal_def tk_DestroyObject_def tk_GetAttributeValue_def tk_SetAttributeValue_def
    tk_SignInit_def tk_Sign_def
  by (auto intro!: within_on_session within_set_session simp: tk_Now_def split: option.splits list.splits prod.splits)
     (auto simp: within_def)

lemma callP_ok: "c s = (Inr x, s') \<Longrightarrow> callP e c s = (Inr x, s')"
  by (simp add: callP_def)

lemma keeps_callP: "(\<And>t. P t \<Longrightarrow> P (snd (c t))) \<Longrightarrow> keeps P (callP e c)"
  by (fastforce simp: keeps_def callP_def split: prod.splits sum.splits)

lemma snd_deferP: "snd (deferP d m s) = snd (d (snd (m s)))"
  by (simp add: deferP_def split: prod.split)

lemma keeps_deferP [keeps_intros]: "keeps P d \<Longrightarrow> keeps P m \<Longrightarrow> keeps P (deferP d m)"
  by (fastforce simp: keeps_def deferP_def split: prod.splits)

lemma keeps_list [keeps_intros]:
  "keeps P m \<Longrightarrow> (\<And>x xs. keeps P (f x xs)) \<Longrightarrow> keeps P (case a of [] \<Rightarrow> m | x # xs \<Rightarrow> f x xs)"
  by (cases a) simp_all

lemma keeps_read_attribute: "keeps (within h slot) (read_attribute (token_ctx ecdsa) k ob kind)"
  unfolding keeps_def read_attribute_def by (auto split: prod.split) (metis within_calls(8) snd_conv)

lemma keeps_timestamp: "keeps (within h slot) (generateTimestampId (token_ctx ecdsa))"
  unfolding keeps_def generateTimestampId_def by (auto split: prod.split) (metis within_calls(12) snd_conv)

lemma keeps_find_loop: "keeps (within h slot) (find_loop (token_ctx ecdsa) n k obs)"
  by (induction n arbitrary: obs) (auto intro!: keeps_intros keeps_callP within_calls)

lemma keeps_destroy_all: "keeps (within h slot) (destroy_all (token_ctx ecdsa) k obs)"
  by (induction obs) (auto intro!: keeps_intros keeps_callP within_calls)

lemmas keeps_within = keeps_intros keeps_callP keeps_read_attribute keeps_timestamp keeps_find_loop keeps_destroy_all within_calls

lemma keeps_bodies:
  "keeps (within h slot) (generate_in cr (token_ctx ecdsa) k)"
  "keeps (within h slot) (remove_in n cr (token_ctx ecdsa) addr k)"
  "keeps (within h slot) (list_in n cr (token_ctx ecdsa) k)"
  "keeps (within h slot) (sign_in cr (token_ctx ecdsa) addr payload k)"
  unfolding generate_in_def failP_def getAddress_def getDecodedECPoint_def getECPoint_def setLabel_def remove_in_def
    findObjects_def list_in_def list_entry_of_def getLabel_def getTimestamp_def sign_in_def findObject_def
  by (intro keeps_within; assumption)+

lemma closes:
  assumes "within h slot t"
  shows "idle (snd (closeSession (token_ctx ecdsa) h t))"
proof -
  obtain ss where "tk_Sessions t = [(h, ss)]" using assms by (auto simp: within_def)
  then show ?thesis
    by (simp add: closeSession_def token_ctx_def tk_CloseSession_def callP_def prog_defs idle_def Let_def)
qed

lemma opens:
  assumes "idle t" "ck_OpenSession (token_ctx ecdsa) slot flags t = (r, t')"
  shows "case r of Inl _ \<Rightarrow> idle t' | Inr h \<Rightarrow> within h slot t'"
  using assms by (auto simp: idle_def token_ctx_def tk_OpenSession_def faulty_def within_def fresh_session_def
      split: list.splits if_splits)

lemma idle_on_slot:
  assumes "\<And>h k. keeps (within h k) (body h)" "idle t"
  shows "idle (snd (on_slot (token_ctx ecdsa) slot flags pin body t))"
proof (cases "parse_slot slot")
  case (Some k)
  obtain r t1 where o: "ck_OpenSession (token_ctx ecdsa) k flags t = (r, t1)" by fastforce
  show ?thesis
  proof (cases r)
    case (Inr h)
    let ?m = "bindP (callP toSignatureManagerErr (ck_Login (token_ctx ecdsa) h CKU_USER pin)) (\<lambda>_.
        deferP (logOut (token_ctx ecdsa) h) (body h))"
    have "keeps (within h k) ?m"
      unfolding logOut_def by (intro keeps_within assms(1); assumption)
    then have "within h k (snd (?m t1))"
      using opens [OF assms(2) o] Inr by (simp add: keeps_def)
    then have "idle (snd (closeSession (token_ctx ecdsa) h (snd (?m t1))))" by (rule closes)
    moreover have "callP toSignatureManagerErr (ck_OpenSession (token_ctx ecdsa) k flags) t = (Inr h, t1)"
      using o Inr by (simp add: callP_def)
    then have "on_slot (token_ctx ecdsa) slot flags pin body t = deferP (closeSession (token_ctx ecdsa) h) ?m t1"
      using Some by (simp add: on_slot_def with_session_def bindP_def)
    ultimately show ?thesis by (simp add: snd_deferP)
  next
    case (Inl rv)
    then show ?thesis
      using opens [OF assms(2) o] o Some by (simp add: on_slot_def with_session_def bindP_def callP_def)
  qed
qed (use assms in \<open>simp add: on_slot_def throwP_def\<close>)

text \<open>A step is a call of the manager, with any arguments and any outcome.\<close>

inductive hsm_step :: "nat \<Rightarrow> crypto \<Rightarrow> 'l pkcs11_ctx \<Rightarrow> 'l \<Rightarrow> 'l \<Rightarrow> bool" for n cr px where
  generated: "hsm_GenerateKey cr px slot pin s = (r, s') \<Longrightarrow> hsm_step n cr px s s'"
| removed: "hsm_RemoveKey n cr px slot pin addr s = (r', s') \<Longrightarrow> hsm_step n cr px s s'"
| listed: "hsm_ListKeys n cr px slot pin s = (r'', s') \<Longrightarrow> hsm_step n cr px s s'"
| signed: "hsm_Sign cr px input s = (sig, s') \<Longrightarrow> hsm_step n cr px s s'"
| asked: "hsm_IsAlive px slot pin s = (alive, s') \<Longrightarrow> hsm_step n cr px s s'"
| closed: "hsm_Close px s = (u, s') \<Longrightarrow> hsm_step n cr px s s'"
| opened: "hsm_Open px s = (u, s') \<Longrightarrow> hsm_step n cr px s s'"

lemma idle_manager:
  assumes "idle t"
  shows "idle (snd (hsm_GenerateKey cr (token_ctx ecdsa) slot pin t))"
    "idle (snd (hsm_RemoveKey n cr (token_ctx ecdsa) slot pin addr t))"
    "idle (snd (hsm_ListKeys n cr (token_ctx ecdsa) slot pin t))"
    "idle (snd (hsm_Sign cr (token_ctx ecdsa) input t))"
    "idle (snd (hsm_IsAlive (token_ctx ecdsa) slot pin t))"
    "idle (snd (hsm_Close (token_ctx ecdsa) t))"
    "idle (snd (hsm_Open (token_ctx ecdsa) t))"
proof -
  show "idle (snd (hsm_GenerateKey cr (token_ctx ecdsa) slot pin t))"
    unfolding hsm_GenerateKey_def by (rule idle_on_slot [OF keeps_bodies(1) assms])
  show "idle (snd (hsm_RemoveKey n cr (token_ctx ecdsa) slot pin addr t))"
    unfolding hsm_RemoveKey_def by (rule idle_on_slot [OF keeps_bodies(2) assms])
  show "idle (snd (hsm_ListKeys n cr (token_ctx ecdsa) slot pin t))"
    unfolding hsm_ListKeys_def by (rule idle_on_slot [OF keeps_bodies(3) assms])
  show "idle (snd (hsm_Sign cr (token_ctx ecdsa) input t))"
    unfolding hsm_Sign_def by (rule idle_on_slot [OF keeps_bodies(4) assms])
  show "idle (snd (hsm_IsAlive (token_ctx ecdsa) slot pin t))"
    unfolding hsm_IsAlive_def by (rule idle_on_slot [OF keeps_returnP assms])
  show "idle (snd (hsm_Close (token_ctx ecdsa) t))" "idle (snd (hsm_Open (token_ctx ecdsa) t))"
    using assms by (auto simp: hsm_Close_def hsm_Open_def token_ctx_def tk_Finalize_def tk_Initialize_def faulty_def
        callP_def idle_def split: list.splits)
qed

lemma idle_step:
  assumes "implements ecdsa px v" "hsm_step n cr px s s'" "idle (v s)"
  shows "idle (v s')"
  using assms(2)
proof cases
  case (generated slot pin r)
  then show ?thesis
    using follows_run [OF manager_follows(1) [OF assms(1)]] idle_manager(1) [OF assms(3)] by (metis snd_conv)
next
  case (removed slot pin addr r)
  then show ?thesis
    using follows_run [OF manager_follows(2) [OF assms(1)]] idle_manager(2) [OF assms(3)] by (metis snd_conv)
next
  case (listed slot pin r)
  then show ?thesis
    using follows_run [OF manager_follows(3) [OF assms(1)]] idle_manager(3) [OF assms(3)] by (metis snd_conv)
next
  case (signed input r)
  then show ?thesis
    using follows_run [OF manager_follows(4) [OF assms(1)]] idle_manager(4) [OF assms(3)] by (metis snd_conv)
next
  case (asked slot pin r)
  then show ?thesis
    using follows_run [OF manager_follows(5) [OF assms(1)]] idle_manager(5) [OF assms(3)] by (metis snd_conv)
next
  case (closed r)
  then show ?thesis
    using follows_run [OF manager_follows(6) [OF assms(1)]] idle_manager(6) [OF assms(3)] by (metis snd_conv)
next
  case (opened r)
  then show ?thesis
    using follows_run [OF manager_follows(7) [OF assms(1)]] idle_manager(7) [OF assms(3)] by (metis snd_conv)
qed

end
