(* ===== verification/Pkcs11_Keys.thy ===== *)
theory Pkcs11_Keys
  imports Pkcs11_Laws
begin

text \<open>
  The operations of the manager for hardware security modules on a token none of whose calls
  fails by itself: what each of them answers, and what it leaves of the keys of the token.
\<close>

section \<open>Tokens ready for an operation\<close>

definition sound :: "token \<Rightarrow> bool" where
  "sound t \<longleftrightarrow> distinct (map fst (tk_Objects t)) \<and> (\<forall>h \<in> fst ` set (tk_Objects t). h < tk_Next t)"

definition ready :: "token \<Rightarrow> nat \<Rightarrow> string \<Rightarrow> bool" where
  "ready t k pin \<longleftrightarrow> idle t \<and> sound t \<and> tk_Initialized t \<and> map_of (tk_Pins t) k = Some pin"

text \<open>What the token is while a session of an operation is open.\<close>

definition entered :: "nat \<Rightarrow> nat \<Rightarrow> token \<Rightarrow> token" where
  "entered k flags t = t\<lparr>tk_Sessions := [(tk_Next t, fresh_session k flags)], tk_User := [k], tk_Next := Suc (tk_Next t)\<rparr>"

definition left :: "token \<Rightarrow> token" where
  "left t = t\<lparr>tk_Sessions := [], tk_User := []\<rparr>"

lemma entered_fields [simp]:
  "tk_Sessions (entered k flags t) = [(tk_Next t, fresh_session k flags)]"
  "tk_User (entered k flags t) = [k]" "tk_Objects (entered k flags t) = tk_Objects t"
  "tk_Faults (entered k flags t) = tk_Faults t" "tk_Keys (entered k flags t) = tk_Keys t"
  "tk_Next (entered k flags t) = Suc (tk_Next t)" "tk_Clock (entered k flags t) = tk_Clock t"
  "tk_Pins (entered k flags t) = tk_Pins t" "tk_Initialized (entered k flags t) = tk_Initialized t"
  by (simp_all add: entered_def)

lemma left_fields [simp]:
  "tk_Sessions (left t) = []" "tk_User (left t) = []" "tk_Objects (left t) = tk_Objects t"
  "tk_Faults (left t) = tk_Faults t" "tk_Keys (left t) = tk_Keys t" "tk_Next (left t) = tk_Next t"
  "tk_Pins (left t) = tk_Pins t" "tk_Initialized (left t) = tk_Initialized t"
  by (simp_all add: left_def)

lemma fresh_fields [simp]:
  "ss_Slot (fresh_session k flags) = k" "ss_Search (fresh_session k flags) = None"
  "ss_Key (fresh_session k flags) = None" "ss_RW (fresh_session k rw_session)"
  by (simp_all add: fresh_session_def rw_session_def CKF_RW_SESSION_def CKF_SERIAL_SESSION_def)

lemma faulty_none: "tk_Faults t = [] \<Longrightarrow> faulty c t = c t"
  by (simp add: faulty_def)

lemma on_session_one:
  "tk_Faults t = [] \<Longrightarrow> tk_Sessions t = [(h, ss)] \<Longrightarrow> on_session h c t = c ss t"
  by (simp add: on_session_def faulty_none)

lemma sessions_same: "tk_Sessions t = [(h, ss)] \<Longrightarrow> t\<lparr>tk_Sessions := [(h, ss)]\<rparr> = t"
  by (cases t) simp

lemma set_session_one: "tk_Sessions t = [(h, ss')] \<Longrightarrow> set_session h ss t = t\<lparr>tk_Sessions := [(h, ss)]\<rparr>"
  by (simp add: set_session_def)

text \<open>The last session ends, logged out before or not.\<close>

lemma leaves:
  assumes "within h k t" "tk_Faults t = []"
  shows "snd (closeSession (token_ctx ecdsa) h (snd (logOut (token_ctx ecdsa) h t))) = left t"
proof -
  obtain ss where ss: "tk_Sessions t = [(h, ss)]" using assms(1) by (auto simp: within_def)
  then show ?thesis
    using assms(2) by (simp add: closeSession_def logOut_def token_ctx_def tk_CloseSession_def tk_Logout_def callP_def
        prog_defs left_def on_session_one Let_def)
qed

lemma on_slot_entered:
  assumes "ready t k pin" "tk_Faults t = []" "parse_slot slot = Some k" "flags = rw_session \<or> flags = CKF_SERIAL_SESSION"
  shows "on_slot (token_ctx ecdsa) slot flags pin body t =
    deferP (closeSession (token_ctx ecdsa) (tk_Next t)) (deferP (logOut (token_ctx ecdsa) (tk_Next t)) (body (tk_Next t)))
      (entered k flags t)"
proof -
  have start: "ck_OpenSession (token_ctx ecdsa) k flags t =
      (Inr (tk_Next t), t\<lparr>tk_Sessions := [(tk_Next t, fresh_session k flags)], tk_Next := Suc (tk_Next t)\<rparr>)"
    using assms by (auto simp: token_ctx_def tk_OpenSession_def faulty_none ready_def idle_def rw_session_def
        CKF_SERIAL_SESSION_def CKF_RW_SESSION_def)
  have login: "ck_Login (token_ctx ecdsa) (tk_Next t) CKU_USER pin
      (t\<lparr>tk_Sessions := [(tk_Next t, fresh_session k flags)], tk_Next := Suc (tk_Next t)\<rparr>) = (Inr (), entered k flags t)"
    using assms(1,2) by (simp add: token_ctx_def tk_Login_def on_session_one ready_def idle_def entered_def)
  show ?thesis
    by (simp add: on_slot_def assms(3) with_session_def bindP_def callP_def start login deferP_def split: prod.splits)
qed

lemma on_slot_ready:
  assumes "ready t k pin" "tk_Faults t = []" "parse_slot slot = Some k" "flags = rw_session \<or> flags = CKF_SERIAL_SESSION"
    and body: "body (tk_Next t) (entered k flags t) = (r, t')" "within (tk_Next t) k t'" "tk_Faults t' = []"
  shows "on_slot (token_ctx ecdsa) slot flags pin body t = (r, left t')"
  using leaves [OF body(2,3)]
  by (simp add: on_slot_entered [OF assms(1-4)] deferP_def body(1) split: prod.splits)

section \<open>What the operations read\<close>

definition point_address :: "crypto \<Rightarrow> bytes \<Rightarrow> address option" where
  "point_address cr point =
     (case asn1_octets point of
        None \<Rightarrow> None
      | Some ecp \<Rightarrow>
          (case c_parse cr ecp of
             None \<Rightarrow> None
           | Some pk \<Rightarrow> (case DeriveAddressFromPublicKey (c_keccak cr) pk of Inl _ \<Rightarrow> None | Inr a \<Rightarrow> Some a)))"

definition key_address :: "crypto \<Rightarrow> key_object \<Rightarrow> address option" where
  "key_address cr ko = (case ob_Point ko of None \<Rightarrow> None | Some point \<Rightarrow> point_address cr point)"

definition key_time :: "key_object \<Rightarrow> 64 word" where
  "key_time ko = (if length (ob_ID ko) = 8 then word_of_nat (be_nat (ob_ID ko)) else 0)"

definition key_entry :: "crypto \<Rightarrow> key_object \<Rightarrow> (address \<times> 64 word) option" where
  "key_entry cr ko =
     (case key_address cr ko of
        None \<Rightarrow> None
      | Some a \<Rightarrow> if calculatePublicKeyLabel cr a = ob_Label ko then Some (a, key_time ko) else None)"

definition in_slot :: "token \<Rightarrow> nat \<Rightarrow> nat \<Rightarrow> (nat \<times> key_object) list" where
  "in_slot t k cl = filter (\<lambda>(h, ko). ob_Slot ko = k \<and> ob_Class ko = cl) (tk_Objects t)"

definition ring :: "token \<Rightarrow> nat \<Rightarrow> string \<Rightarrow> bytes option" where
  "ring t k label = map_option (ob_Secret \<circ> snd) (find (\<lambda>(h, ko). ob_Label ko = label) (in_slot t k CKO_PRIVATE_KEY))"

lemma in_slot_entered [simp]: "in_slot (entered k' flags t) k cl = in_slot t k cl"
  by (simp add: in_slot_def)

lemma in_slot_left [simp]: "in_slot (left t) k cl = in_slot t k cl"
  by (simp add: in_slot_def)

lemma found_class:
  "k \<in> set (tk_User t) \<Longrightarrow> found t k [(CKA_CLASS, CkUint cl)] = map fst (in_slot t k cl)"
  by (simp add: found_def in_slot_def visible_def CKA_CLASS_def case_prod_beta conj_commute eq_commute)

lemma found_key:
  "k \<in> set (tk_User t) \<Longrightarrow>
   found t k (key_template cl label) = map fst (filter (\<lambda>(h, ko). ob_Label ko = label) (in_slot t k cl))"
  by (auto simp: found_def in_slot_def visible_def key_template_def CKA_CLASS_def CKA_LABEL_def case_prod_beta
      intro!: arg_cong [where f = "map fst"] filter_cong)

lemma token_calls:
  "ck_SignInit (token_ctx ecdsa) = tk_SignInit" "ck_Sign (token_ctx ecdsa) = tk_Sign ecdsa"
  "ck_GenerateKeyPair (token_ctx ecdsa) = tk_GenerateKeyPair" "ck_SetAttributeValue (token_ctx ecdsa) = tk_SetAttributeValue"
  "ck_DestroyObject (token_ctx ecdsa) = tk_DestroyObject" "ck_Now (token_ctx ecdsa) = tk_Now"
  by (simp_all add: token_ctx_def)

section \<open>Searches on a quiet token\<close>

lemma search_init:
  "tk_Faults t = [] \<Longrightarrow> tk_Sessions t = [(h, ss)] \<Longrightarrow> ss_Search ss = None \<Longrightarrow>
   callP e (ck_FindObjectsInit (token_ctx ecdsa) h tm) t =
     (Inr (), t\<lparr>tk_Sessions := [(h, ss\<lparr>ss_Search := Some (found t (ss_Slot ss) tm)\<rparr>)]\<rparr>)"
  by (simp add: callP_def token_ctx_def tk_FindObjectsInit_def on_session_one set_session_one)

lemma search_next:
  "tk_Faults t = [] \<Longrightarrow>
   callP e (ck_FindObjects (token_ctx ecdsa) h limit) (t\<lparr>tk_Sessions := [(h, ss\<lparr>ss_Search := Some obs\<rparr>)]\<rparr>) =
     (Inr (take limit obs), t\<lparr>tk_Sessions := [(h, ss\<lparr>ss_Search := Some (drop limit obs)\<rparr>)]\<rparr>)"
  by (simp add: callP_def token_ctx_def tk_FindObjects_def on_session_one set_session_one)

lemma search_final:
  "tk_Faults t = [] \<Longrightarrow> tk_Sessions t = [(h, ss)] \<Longrightarrow> ss_Search ss = None \<Longrightarrow>
   callP e (ck_FindObjectsFinal (token_ctx ecdsa) h) (t\<lparr>tk_Sessions := [(h, ss\<lparr>ss_Search := Some obs\<rparr>)]\<rparr>) = (Inr (), t)"
  by (cases ss) (simp add: callP_def token_ctx_def tk_FindObjectsFinal_def on_session_one set_session_one sessions_same)

lemma find_loop_quiet:
  assumes "tk_Faults t = []" "length obs < n"
  shows "find_loop (token_ctx ecdsa) n h acc (t\<lparr>tk_Sessions := [(h, ss\<lparr>ss_Search := Some obs\<rparr>)]\<rparr>) =
    (Inr (acc @ obs), t\<lparr>tk_Sessions := [(h, ss\<lparr>ss_Search := Some []\<rparr>)]\<rparr>)"
  using assms(2)
proof (induction n arbitrary: obs acc)
  case (Suc n)
  show ?case
  proof (cases "obs = []")
    case True
    then show ?thesis by (simp add: bindP_def search_next [OF assms(1)] returnP_def)
  next
    case False
    then have "length (drop find_limit obs) < n" using Suc.prems by (cases obs) (auto simp: find_limit_def)
    moreover have "take find_limit obs \<noteq> []" using False by (simp add: find_limit_def)
    ultimately show ?thesis using Suc.IH by (simp add: bindP_def search_next [OF assms(1)])
  qed
qed simp

lemma findObjects_quiet:
  assumes "tk_Faults t = []" "tk_Sessions t = [(h, ss)]" "ss_Search ss = None" "length (tk_Objects t) < n"
  shows "findObjects n (token_ctx ecdsa) h tm t = (Inr (found t (ss_Slot ss) tm), t)"
proof -
  have "length (found t (ss_Slot ss) tm) < n"
    using assms(4) by (simp add: found_def le_less_trans [OF length_filter_le])
  then show ?thesis
    by (simp add: findObjects_def bindP_def search_init [OF assms(1-3)] find_loop_quiet [OF assms(1)]
        search_final [OF assms(1-3)] returnP_def)
qed

lemma findObject_quiet:
  assumes "tk_Faults t = []" "tk_Sessions t = [(h, ss)]" "ss_Search ss = None"
  shows "findObject (token_ctx ecdsa) h tm t =
    ((case found t (ss_Slot ss) tm of [] \<Rightarrow> Inl sm_NewNotFoundError | ob # _ \<Rightarrow> Inr ob), t)"
  by (cases "found t (ss_Slot ss) tm")
    (simp_all add: findObject_def bindP_def search_init [OF assms] search_next [OF assms(1)] search_final [OF assms]
      returnP_def throwP_def)

section \<open>Signing\<close>

lemma find_filter: "find P xs = (case filter P xs of [] \<Rightarrow> None | x # _ \<Rightarrow> Some x)"
  by (induction xs) auto

lemma filter_head: "filter P xs = x # ys \<Longrightarrow> x \<in> set xs \<and> P x"
  by (induction xs) (auto split: if_splits)

lemma sign_quiet:
  assumes "tk_Faults t = []" "tk_Sessions t = [(h, ss)]" "ss_Search ss = None" "ss_Key ss = None"
    "ss_Slot ss \<in> set (tk_User t)" "distinct (map fst (tk_Objects t))"
  shows "sign_in cr (token_ctx ecdsa) addr payload h t =
    ((case ring t (ss_Slot ss) (calculatePrivateKeyLabel cr addr) of
        None \<Rightarrow> Inl sm_NewNotFoundError | Some secret \<Rightarrow> Inr (ecdsa secret payload)), t)"
proof (cases "filter (\<lambda>(h, ko). ob_Label ko = calculatePrivateKeyLabel cr addr) (in_slot t (ss_Slot ss) CKO_PRIVATE_KEY)")
  case Nil
  then show ?thesis
    by (simp add: sign_in_def bindP_def onErrP_def findObject_quiet [OF assms(1-3)] found_key [OF assms(5)] ring_def
        find_filter sm_IsNotFoundError_def sm_NewNotFoundError_def)
next
  case (Cons x xs)
  obtain ob ko where x: "x = (ob, ko)" by (cases x)
  have ko: "map_of (tk_Objects t) ob = Some ko" "ob_Slot ko = ss_Slot ss" "ob_Class ko = CKO_PRIVATE_KEY"
    using filter_head [OF Cons] assms(6) by (auto simp: x in_slot_def)
  have "ss\<lparr>ss_Key := None\<rparr> = ss" using assms(4) by (cases ss) simp
  then show ?thesis
    using ko assms(1,2,5)
    by (simp add: sign_in_def bindP_def onErrP_def findObject_quiet [OF assms(1-3)] found_key [OF assms(5)] ring_def
        find_filter Cons x callP_def token_calls tk_SignInit_def tk_Sign_def on_session_one set_session_one visible_def
        sessions_same)
qed

section \<open>Listing\<close>

lemma attribute_quiet:
  assumes "tk_Faults t = []" "tk_Sessions t = [(h, ss)]" "map_of (tk_Objects t) ob = Some ko" "visible t (ss_Slot ss) ko"
  shows "read_attribute (token_ctx ecdsa) h ob kind t =
    (Inr (case attribute_of ko kind of None \<Rightarrow> Inl 0x12 | Some b \<Rightarrow> Inr [(kind, Some b)]), t)"
  using assms by (auto simp: read_attribute_def token_ctx_def tk_GetAttributeValue_def on_session_one split: option.split)

lemma address_quiet:
  assumes "tk_Faults t = []" "tk_Sessions t = [(h, ss)]" "map_of (tk_Objects t) ob = Some ko" "visible t (ss_Slot ss) ko"
  shows "\<exists>e. getAddress cr (token_ctx ecdsa) h ob t = (Inr (case key_address cr ko of None \<Rightarrow> Inl e | Some a \<Rightarrow> Inr a), t)"
proof -
  have point: "attribute_of ko CKA_EC_POINT = ob_Point ko"
    by (simp add: attribute_of_def ck_attributes)
  show ?thesis
    by (simp add: getAddress_def getDecodedECPoint_def getECPoint_def bindP_def attribute_quiet [OF assms] point
        returnP_def key_address_def point_address_def split: option.split sum.split)
qed

lemma entry_quiet:
  assumes "tk_Faults t = []" "tk_Sessions t = [(h, ss)]" "map_of (tk_Objects t) ob = Some ko" "visible t (ss_Slot ss) ko"
  shows "list_entry_of cr (token_ctx ecdsa) h ob t =
    ((if key_address cr ko = None then Inl nil_address else Inr (key_entry cr ko)), t)"
proof -
  have attrs: "attribute_of ko CKA_LABEL = Some (bytes_of_string (ob_Label ko))" "attribute_of ko CKA_ID = Some (ob_ID ko)"
    by (simp_all add: attribute_of_def ck_attributes)
  obtain e where "getAddress cr (token_ctx ecdsa) h ob t =
      (Inr (case key_address cr ko of None \<Rightarrow> Inl e | Some a \<Rightarrow> Inr a), t)" using address_quiet [OF assms] by blast
  then show ?thesis
    by (cases "key_address cr ko")
      (simp_all add: list_entry_of_def getLabel_def getTimestamp_def bindP_def attribute_quiet [OF assms] attrs returnP_def
        throwP_def value_bytes_def key_entry_def key_time_def)
qed

definition entries :: "crypto \<Rightarrow> token \<Rightarrow> nat \<Rightarrow> (address \<times> 64 word) list" where
  "entries cr t k = List.map_filter (key_entry cr \<circ> snd) (in_slot t k CKO_PUBLIC_KEY)"

definition readable :: "crypto \<Rightarrow> token \<Rightarrow> nat \<Rightarrow> bool" where
  "readable cr t k = list_all (\<lambda>(h, ko). key_address cr ko \<noteq> None) (in_slot t k CKO_PUBLIC_KEY)"

lemma entries_loop:
  assumes "tk_Faults t = []" "tk_Sessions t = [(h, ss)]"
    "\<And>ob ko. (ob, ko) \<in> set obs \<Longrightarrow> map_of (tk_Objects t) ob = Some ko \<and> visible t (ss_Slot ss) ko"
  shows "mapP (list_entry_of cr (token_ctx ecdsa) h) (map fst obs) t =
    ((if list_all (\<lambda>(h, ko). key_address cr ko \<noteq> None) obs then Inr (map (key_entry cr \<circ> snd) obs) else Inl nil_address), t)"
  using assms(3)
proof (induction obs)
  case (Cons x obs)
  obtain ob ko where x: "x = (ob, ko)" by (cases x)
  have "list_entry_of cr (token_ctx ecdsa) h ob t =
    ((if key_address cr ko = None then Inl nil_address else Inr (key_entry cr ko)), t)"
    by (rule entry_quiet [OF assms(1,2)]) (use Cons.prems [of ob ko] x in simp_all)
  moreover have "mapP (list_entry_of cr (token_ctx ecdsa) h) (map fst obs) t =
    ((if list_all (\<lambda>(h, ko). key_address cr ko \<noteq> None) obs then Inr (map (key_entry cr \<circ> snd) obs) else Inl nil_address), t)"
    by (rule Cons.IH, rule Cons.prems) simp
  ultimately show ?case by (simp add: x bindP_def returnP_def)
qed (simp add: returnP_def)

lemma list_quiet:
  assumes "tk_Faults t = []" "tk_Sessions t = [(h, ss)]" "ss_Search ss = None" "ss_Slot ss \<in> set (tk_User t)"
    "distinct (map fst (tk_Objects t))" "length (tk_Objects t) < n"
  shows "list_in n cr (token_ctx ecdsa) h t =
    ((if readable cr t (ss_Slot ss) then Inr (ByTime_Addresses (entries cr t (ss_Slot ss))) else Inl nil_address), t)"
proof -
  have flat: "concat (map (\<lambda>e. case e of None \<Rightarrow> [] | Some x \<Rightarrow> [x]) (map f xs)) = List.map_filter f xs"
    for f :: "nat \<times> key_object \<Rightarrow> (address \<times> 64 word) option" and xs
    by (induction xs) (auto simp: List.map_filter_simps split: option.split)
  have "\<And>ob ko. (ob, ko) \<in> set (in_slot t (ss_Slot ss) CKO_PUBLIC_KEY) \<Longrightarrow>
      map_of (tk_Objects t) ob = Some ko \<and> visible t (ss_Slot ss) ko"
    using assms(5) by (auto simp: in_slot_def visible_def CKO_PUBLIC_KEY_def CKO_PRIVATE_KEY_def)
  note loop = entries_loop [OF assms(1,2) this]
  show ?thesis
    by (simp add: list_in_def bindP_def findObjects_quiet [OF assms(1-3,6)] found_class [OF assms(4)] loop returnP_def
        readable_def entries_def flat del: map_map)
qed

section \<open>Removal\<close>

lemma map_of_filter_other: "k' \<noteq> k \<Longrightarrow> map_of (filter (\<lambda>(k'', x). k'' \<noteq> k) xs) k' = map_of xs k'"
  by (induction xs) auto

lemma destroy_quiet:
  assumes "tk_Faults t = []" "tk_Sessions t = [(h, ss)]" "ss_RW ss" "distinct obs"
    "\<And>ob. ob \<in> set obs \<Longrightarrow> \<exists>ko. map_of (tk_Objects t) ob = Some ko \<and> visible t (ss_Slot ss) ko"
  shows "destroy_all (token_ctx ecdsa) h obs t =
    (Inr (), t\<lparr>tk_Objects := filter (\<lambda>(k, x). k \<notin> set obs) (tk_Objects t)\<rparr>)"
  using assms
proof (induction obs arbitrary: t)
  case (Cons ob obs)
  let ?t = "t\<lparr>tk_Objects := filter (\<lambda>(k, x). k \<noteq> ob) (tk_Objects t)\<rparr>"
  obtain ko where "map_of (tk_Objects t) ob = Some ko" "visible t (ss_Slot ss) ko" using Cons.prems(5) by auto
  then have "callP toSignatureManagerErr (ck_DestroyObject (token_ctx ecdsa) h ob) t = (Inr (), ?t)"
    using Cons.prems(1-3) by (simp add: callP_def token_calls tk_DestroyObject_def on_session_one)
  moreover have "destroy_all (token_ctx ecdsa) h obs ?t =
      (Inr (), ?t\<lparr>tk_Objects := filter (\<lambda>(k, x). k \<notin> set obs) (tk_Objects ?t)\<rparr>)"
  proof (rule Cons.IH)
    fix ob' assume ob': "ob' \<in> set obs"
    then have "ob' \<noteq> ob" using Cons.prems(4) by auto
    then have "map_of (filter (\<lambda>(k, x). k \<noteq> ob) (tk_Objects t)) ob' = map_of (tk_Objects t) ob'"
      by (rule map_of_filter_other)
    then show "\<exists>ko. map_of (tk_Objects ?t) ob' = Some ko \<and> visible ?t (ss_Slot ss) ko"
      using Cons.prems(5) [of ob'] ob' by (simp add: visible_def)
  qed (use Cons.prems in simp_all)
  moreover have "filter (\<lambda>(k, x). k \<notin> set obs) (filter (\<lambda>(k, x). k \<noteq> ob) (tk_Objects t)) =
      filter (\<lambda>(k, x). k \<notin> set (ob # obs)) (tk_Objects t)"
    by (simp add: filter_filter, rule filter_cong) auto
  ultimately show ?case by (simp add: bindP_def)
qed (simp add: returnP_def)

definition is_key :: "nat \<Rightarrow> string \<Rightarrow> key_object \<Rightarrow> bool" where
  "is_key k label ko =
     (ob_Slot ko = k \<and> ob_Label ko = label \<and> (ob_Class ko = CKO_PRIVATE_KEY \<or> ob_Class ko = CKO_PUBLIC_KEY))"

definition without :: "nat \<Rightarrow> string \<Rightarrow> token \<Rightarrow> token" where
  "without k label t = t\<lparr>tk_Objects := filter (\<lambda>(h, ko). \<not> is_key k label ko) (tk_Objects t)\<rparr>"

lemma remove_quiet:
  assumes "tk_Faults t = []" "tk_Sessions t = [(h, ss)]" "ss_Search ss = None" "ss_RW ss" "ss_Slot ss \<in> set (tk_User t)"
    "distinct (map fst (tk_Objects t))" "length (tk_Objects t) < n"
  shows "remove_in n cr (token_ctx ecdsa) addr h t =
    (if list_ex (\<lambda>(h, ko). is_key (ss_Slot ss) (String_of_address (c_keccak cr) addr) ko) (tk_Objects t)
     then (Inr (), without (ss_Slot ss) (String_of_address (c_keccak cr) addr) t)
     else (Inl sm_NewNotFoundError, t))"
proof -
  let ?label = "String_of_address (c_keccak cr) addr"
  define keys where "keys cl = found t (ss_Slot ss) (key_template cl ?label)" for cl
  have keys: "keys cl = map fst (filter (\<lambda>(h, ko). ob_Slot ko = ss_Slot ss \<and> ob_Class ko = cl \<and> ob_Label ko = ?label)
      (tk_Objects t))" for cl
    unfolding keys_def found_key [OF assms(5)] in_slot_def filter_filter
    by (rule arg_cong [where f = "map fst"], rule filter_cong) auto
  have obj: "(ob, ko) \<in> set (tk_Objects t) \<longleftrightarrow> map_of (tk_Objects t) ob = Some ko" for ob ko
    using assms(6) by simp
  have mem: "ob \<in> set (keys cl) \<longleftrightarrow>
      (\<exists>ko. map_of (tk_Objects t) ob = Some ko \<and> ob_Slot ko = ss_Slot ss \<and> ob_Class ko = cl \<and> ob_Label ko = ?label)" for ob cl
    unfolding keys by (auto simp: obj image_iff)
  have dist: "distinct (keys cl)" for cl
    unfolding keys using assms(6) by (simp add: distinct_map_filter)
  define obs where "obs = keys CKO_PRIVATE_KEY @ keys CKO_PUBLIC_KEY"
  have split: "bindP (destroy_all px h xs) (\<lambda>_. destroy_all px h ys) = destroy_all px h (xs @ ys)" for px xs ys
    by (induction xs) (simp_all add: bindP_def returnP_def fun_eq_iff split: prod.splits sum.splits)
  have "distinct obs"
    unfolding obs_def using dist by (auto simp: mem CKO_PRIVATE_KEY_def CKO_PUBLIC_KEY_def)
  then have "destroy_all (token_ctx ecdsa) h obs t =
      (Inr (), t\<lparr>tk_Objects := filter (\<lambda>(k, x). k \<notin> set obs) (tk_Objects t)\<rparr>)"
    using assms(5) by (intro destroy_quiet [OF assms(1,2,4)]) (auto simp: obs_def mem visible_def)
  moreover have "filter (\<lambda>(k, x). k \<notin> set obs) (tk_Objects t) =
      filter (\<lambda>(h, ko). \<not> is_key (ss_Slot ss) ?label ko) (tk_Objects t)"
    by (rule filter_cong) (auto simp: obs_def mem is_key_def obj)
  moreover have "obs = [] \<longleftrightarrow> \<not> list_ex (\<lambda>(h, ko). is_key (ss_Slot ss) ?label ko) (tk_Objects t)"
    by (auto simp: obs_def keys filter_empty_conv is_key_def list_ex_iff)
  moreover have "remove_in n cr (token_ctx ecdsa) addr h t =
      (if obs = [] then (Inl sm_NewNotFoundError, t) else destroy_all (token_ctx ecdsa) h obs t)"
    using findObjects_quiet [OF assms(1-3,7), of ecdsa]
    by (simp add: remove_in_def bindP_def [of "onErrP _ _"] bindP_def [of "checkP _ _"] onErrP_def checkP_def throwP_def
        returnP_def calculatePrivateKeyLabel_def calculatePublicKeyLabel_def split obs_def flip: keys_def)
  ultimately show ?thesis by (simp add: without_def)
qed

section \<open>Generation\<close>

lemma timestamp_quiet: "\<exists>i1 c. generateTimestampId (token_ctx ecdsa) t = (Inr i1, t\<lparr>tk_Clock := c\<rparr>) \<and> length i1 = 8"
proof (cases "tk_Clock t")
  case Nil
  then have "\<exists>c. t = t\<lparr>tk_Clock := c\<rparr>" by (cases t) (auto intro: exI [of _ "[]"])
  then show ?thesis using Nil by (simp add: generateTimestampId_def token_calls tk_Now_def)
qed (auto simp: generateTimestampId_def token_calls tk_Now_def)

lemma template_label_one [simp]: "template_label [(CKA_LABEL, CkText label)] = label"
  by (simp add: template_label_def)

lemma label_quiet:
  assumes "tk_Faults t = []" "tk_Sessions t = [(h, ss)]" "ss_RW ss" "map_of (tk_Objects t) ob = Some ko" "visible t (ss_Slot ss) ko"
  shows "tryP (setLabel (token_ctx ecdsa) h ob label) t =
    (Inr (Inr ()), t\<lparr>tk_Objects := map (\<lambda>(k, x). (k, if k = ob then x\<lparr>ob_Label := label\<rparr> else x)) (tk_Objects t)\<rparr>)"
  using assms by (simp add: setLabel_def tryP_def callP_def token_calls tk_SetAttributeValue_def on_session_one cong: if_cong)

definition new_keys :: "nat \<Rightarrow> nat \<Rightarrow> string \<Rightarrow> bytes \<Rightarrow> bytes \<Rightarrow> bytes \<Rightarrow> bytes \<Rightarrow> (nat \<times> key_object) list" where
  "new_keys h k label i1 i2 point secret =
     [(h, \<lparr>ob_Slot = k, ob_Class = CKO_PUBLIC_KEY, ob_Label = label, ob_ID = i1, ob_Point = Some point, ob_Secret = secret\<rparr>),
      (Suc h, \<lparr>ob_Slot = k, ob_Class = CKO_PRIVATE_KEY, ob_Label = label, ob_ID = i2, ob_Point = None, ob_Secret = secret\<rparr>)]"

lemma relabel_old:
  "k \<notin> fst ` set xs \<Longrightarrow> map (\<lambda>(k', x). (k', if k' = k then f x else x)) xs = xs"
  by (induction xs) auto

lemma generate_quiet:
  assumes "tk_Faults t = []" "tk_Sessions t = [(h, ss)]" "ss_RW ss" "ss_Slot ss \<in> set (tk_User t)"
    "\<And>k. k \<in> fst ` set (tk_Objects t) \<Longrightarrow> k < tk_Next t"
  shows "(tk_Keys t = [] \<or> point_address cr (snd (hd (tk_Keys t))) = None) \<and> (\<exists>e. fst (generate_in cr (token_ctx ecdsa) h t) = Inl e) \<or>
    (\<exists>secret point keys i1 i2 c a. tk_Keys t = (secret, point) # keys \<and> length i1 = 8 \<and> point_address cr point = Some a \<and>
      generate_in cr (token_ctx ecdsa) h t = (Inr a, t\<lparr>tk_Clock := c, tk_Keys := keys, tk_Next := Suc (Suc (tk_Next t)),
        tk_Objects := tk_Objects t @ new_keys (tk_Next t) (ss_Slot ss) (String_of_address (c_keccak cr) a) i1 i2 point secret\<rparr>))"
proof -
  obtain i1 c where 1: "generateTimestampId (token_ctx ecdsa) t = (Inr i1, t\<lparr>tk_Clock := c\<rparr>)" "length i1 = 8"
    using timestamp_quiet by blast
  obtain i2 c' where 2: "generateTimestampId (token_ctx ecdsa) (t\<lparr>tk_Clock := c\<rparr>) = (Inr i2, t\<lparr>tk_Clock := c'\<rparr>)"
    using timestamp_quiet [of ecdsa "t\<lparr>tk_Clock := c\<rparr>"] by auto
  show ?thesis
  proof (cases "tk_Keys t")
    case Nil
    then show ?thesis
      using assms by (simp add: generate_in_def bindP_def 1 2 callP_def token_calls tk_GenerateKeyPair_def on_session_one)
  next
    case (Cons key keys)
    obtain secret point where key: "key = (secret, point)" by (cases key)
    let ?n = "tk_Next t" and ?k = "ss_Slot ss"
    define pub where "pub = \<lparr>ob_Slot = ?k, ob_Class = CKO_PUBLIC_KEY, ob_Label = template_label (public_template i1),
        ob_ID = i1, ob_Point = Some point, ob_Secret = secret\<rparr>"
    define priv where "priv = \<lparr>ob_Slot = ?k, ob_Class = CKO_PRIVATE_KEY, ob_Label = template_label (private_template i2),
        ob_ID = i2, ob_Point = None, ob_Secret = secret\<rparr>"
    let ?t = "\<lambda>l l'. t\<lparr>tk_Clock := c', tk_Keys := keys, tk_Next := Suc (Suc ?n),
        tk_Objects := tk_Objects t @ [(?n, pub\<lparr>ob_Label := l\<rparr>), (Suc ?n, priv\<lparr>ob_Label := l'\<rparr>)]\<rparr>"
    let ?l = "template_label (public_template i1)" and ?l' = "template_label (private_template i2)"
    have ids: "template_id (public_template i1) = i1" "template_id (private_template i2) = i2"
      by (simp_all add: template_id_def public_template_def private_template_def ck_attributes)
    have gen: "callP e (ck_GenerateKeyPair (token_ctx ecdsa) h CKM_EC_KEY_PAIR_GEN (public_template i1) (private_template i2))
        (t\<lparr>tk_Clock := c'\<rparr>) = (Inr (?n, Suc ?n), ?t ?l ?l')" for e
      using assms(1-4) by (simp add: callP_def token_calls tk_GenerateKeyPair_def on_session_one Cons key pub_def priv_def ids)
    have old: "?n \<notin> fst ` set (tk_Objects t)" "Suc ?n \<notin> fst ` set (tk_Objects t)" using assms(5) by fastforce+
    then have "map_of (tk_Objects t) ?n = None" "map_of (tk_Objects t) (Suc ?n) = None" by (simp_all add: map_of_eq_None_iff)
    then have objs: "map_of (tk_Objects (?t l l')) ?n = Some (pub\<lparr>ob_Label := l\<rparr>)"
        "map_of (tk_Objects (?t l l')) (Suc ?n) = Some (priv\<lparr>ob_Label := l'\<rparr>)" for l l'
      by (simp_all add: map_add_def)
    have vis: "visible (?t l l') ?k (pub\<lparr>ob_Label := l\<rparr>)" "visible (?t l l') ?k (priv\<lparr>ob_Label := l'\<rparr>)" for l l'
      using assms(4) by (simp_all add: visible_def pub_def priv_def)
    have quiet: "tk_Faults (?t l l') = []" "tk_Sessions (?t l l') = [(h, ss)]" for l l'
      using assms by simp_all
    note addr = address_quiet [OF quiet objs(1) vis(1), of cr ecdsa]
    obtain e where addr: "getAddress cr (token_ctx ecdsa) h ?n (?t ?l ?l') =
        (Inr (case point_address cr point of None \<Rightarrow> Inl e | Some a \<Rightarrow> Inr a), ?t ?l ?l')"
      using address_quiet [OF quiet objs(1) vis(1)] by (fastforce simp: key_address_def pub_def)
    have lab: "tryP (setLabel (token_ctx ecdsa) h ?n x) (?t ?l ?l') = (Inr (Inr ()), ?t x ?l')"
      "tryP (setLabel (token_ctx ecdsa) h (Suc ?n) x) (?t y ?l') = (Inr (Inr ()), ?t y x)" for x y
      using label_quiet [OF quiet assms(3) objs(1) vis(1)] label_quiet [OF quiet assms(3) objs(2) vis(2)] old
      by (simp_all add: relabel_old)
    show ?thesis
    proof (cases "point_address cr point")
      case None
      then have "fst (generate_in cr (token_ctx ecdsa) h t) = Inl e"
        by (simp add: generate_in_def bindP_def 1 2 gen failP_def addr liftP_def returnP_def)
      then show ?thesis using None by (simp add: Cons key)
    next
      case (Some a)
      then have "generate_in cr (token_ctx ecdsa) h t =
          (Inr a, ?t (String_of_address (c_keccak cr) a) (String_of_address (c_keccak cr) a))"
        by (simp add: generate_in_def bindP_def 1 2 gen failP_def addr lab liftP_def returnP_def calculatePublicKeyLabel_def
            calculatePrivateKeyLabel_def)
      then show ?thesis using 1 Some by (auto simp: Cons key new_keys_def pub_def priv_def)
    qed
  qed
qed

section \<open>The operations of the manager\<close>

definition after :: "nat \<Rightarrow> nat \<Rightarrow> token \<Rightarrow> token" where
  "after k flags t = left (entered k flags t)"

lemma after_fields [simp]:
  "tk_Objects (after k flags t) = tk_Objects t" "tk_Faults (after k flags t) = tk_Faults t"
  "ring (after k flags t) = ring t" "entries cr (after k flags t) = entries cr t" "readable cr (after k flags t) = readable cr t"
  "ready (after k flags t) j pin \<longleftrightarrow> sound (after k flags t) \<and> tk_Initialized t \<and> map_of (tk_Pins t) j = Some pin"
  by (auto simp: after_def ring_def entries_def readable_def ready_def idle_def fun_eq_iff)

lemma within_entered: "within (tk_Next t) k (entered k flags t)"
  by (simp add: within_def)

lemma soundD: "sound t \<Longrightarrow> distinct (map fst (tk_Objects t))" "sound t \<Longrightarrow> h \<in> fst ` set (tk_Objects t) \<Longrightarrow> h < tk_Next t"
  by (auto simp: sound_def)

lemma entered_same [simp]:
  "ring (entered j flags t) = ring t" "entries cr (entered j flags t) = entries cr t"
  "readable cr (entered j flags t) = readable cr t"
  by (simp_all add: ring_def entries_def readable_def fun_eq_iff)

lemma Sign_ready:
  assumes "ready t k (si_Pin input)" "tk_Faults t = []" "parse_slot (si_Slot input) = Some k"
  shows "hsm_Sign cr (token_ctx ecdsa) input t =
    ((case ring t k (String_of_address (c_keccak cr) (si_From input)) of
        None \<Rightarrow> Inl sm_NewNotFoundError | Some secret \<Rightarrow> Inr (ecdsa secret (si_Data input))), after k rw_session t)"
  unfolding hsm_Sign_def after_def
proof (rule on_slot_ready [OF assms(1,2,3) disjI1 [OF refl] _ within_entered])
  show "sign_in cr (token_ctx ecdsa) (si_From input) (si_Data input) (tk_Next t) (entered k rw_session t) =
    ((case ring t k (String_of_address (c_keccak cr) (si_From input)) of
        None \<Rightarrow> Inl sm_NewNotFoundError | Some secret \<Rightarrow> Inr (ecdsa secret (si_Data input))), entered k rw_session t)"
    using assms by (subst sign_quiet [where ss = "fresh_session k rw_session"]) (simp_all add: soundD ready_def calculatePrivateKeyLabel_def)
qed (use assms in simp)

lemma ListKeys_ready:
  assumes "ready t k pin" "tk_Faults t = []" "parse_slot slot = Some k" "length (tk_Objects t) < n"
  shows "hsm_ListKeys n cr (token_ctx ecdsa) slot pin t =
    ((if readable cr t k then Inr (ByTime_Addresses (entries cr t k)) else Inl nil_address), after k CKF_SERIAL_SESSION t)"
  unfolding hsm_ListKeys_def after_def
proof (rule on_slot_ready [OF assms(1,2,3) disjI2 [OF refl] _ within_entered])
  show "list_in n cr (token_ctx ecdsa) (tk_Next t) (entered k CKF_SERIAL_SESSION t) =
    ((if readable cr t k then Inr (ByTime_Addresses (entries cr t k)) else Inl nil_address), entered k CKF_SERIAL_SESSION t)"
    using assms by (subst list_quiet [where ss = "fresh_session k CKF_SERIAL_SESSION"]) (simp_all add: soundD ready_def)
qed (use assms in simp)

lemma RemoveKey_ready:
  assumes "ready t k pin" "tk_Faults t = []" "parse_slot slot = Some k" "length (tk_Objects t) < n"
  shows "hsm_RemoveKey n cr (token_ctx ecdsa) slot pin addr t =
    (if list_ex (\<lambda>(h, ko). is_key k (String_of_address (c_keccak cr) addr) ko) (tk_Objects t)
     then (Inr (), without k (String_of_address (c_keccak cr) addr) (after k rw_session t))
     else (Inl sm_NewNotFoundError, after k rw_session t))"
proof -
  have "remove_in n cr (token_ctx ecdsa) addr (tk_Next t) (entered k rw_session t) =
    (if list_ex (\<lambda>(h, ko). is_key k (String_of_address (c_keccak cr) addr) ko) (tk_Objects t)
     then (Inr (), without k (String_of_address (c_keccak cr) addr) (entered k rw_session t))
     else (Inl sm_NewNotFoundError, entered k rw_session t))"
    using assms by (subst remove_quiet [where ss = "fresh_session k rw_session"]) (simp_all add: soundD ready_def)
  then obtain r t' where body: "remove_in n cr (token_ctx ecdsa) addr (tk_Next t) (entered k rw_session t) = (r, t')"
    "(r, left t') = (if list_ex (\<lambda>(h, ko). is_key k (String_of_address (c_keccak cr) addr) ko) (tk_Objects t)
     then (Inr (), without k (String_of_address (c_keccak cr) addr) (after k rw_session t))
     else (Inl sm_NewNotFoundError, after k rw_session t))" "tk_Faults t' = []" "within (tk_Next t) k t'"
    using assms(2) within_entered [of t k rw_session]
    by (auto simp: without_def after_def left_def within_def split: if_splits)
  show ?thesis
    unfolding hsm_RemoveKey_def
    by (subst on_slot_ready [where flags = rw_session and body = "remove_in n cr (token_ctx ecdsa) addr", OF assms(1,2,3) _ body(1,4,3)]) (simp_all add: body(2))
qed

lemma GenerateKey_fst:
  assumes "ready t k pin" "tk_Faults t = []" "parse_slot slot = Some k"
  shows "fst (hsm_GenerateKey cr (token_ctx ecdsa) slot pin t) =
    fst (generate_in cr (token_ctx ecdsa) (tk_Next t) (entered k rw_session t))"
  unfolding hsm_GenerateKey_def
  by (subst on_slot_entered [OF assms]) (simp_all add: deferP_def split: prod.split)

lemma generate_entered:
  assumes "ready t k pin" "tk_Faults t = []"
  shows "(tk_Keys t = [] \<or> point_address cr (snd (hd (tk_Keys t))) = None) \<and>
      (\<exists>e. fst (generate_in cr (token_ctx ecdsa) (tk_Next t) (entered k rw_session t)) = Inl e) \<or>
    (\<exists>secret point keys i1 i2 c a. tk_Keys t = (secret, point) # keys \<and> length i1 = 8 \<and> point_address cr point = Some a \<and>
      generate_in cr (token_ctx ecdsa) (tk_Next t) (entered k rw_session t) =
      (Inr a, entered k rw_session t\<lparr>tk_Clock := c, tk_Keys := keys, tk_Next := Suc (Suc (Suc (tk_Next t))),
        tk_Objects := tk_Objects t @ new_keys (Suc (tk_Next t)) k (String_of_address (c_keccak cr) a) i1 i2 point secret\<rparr>))"
proof -
  have "\<And>h. h \<in> fst ` set (tk_Objects (entered k rw_session t)) \<Longrightarrow> h < tk_Next (entered k rw_session t)"
    using assms(1) by (fastforce simp: ready_def dest: soundD(2))
  from generate_quiet [where ss = "fresh_session k rw_session" and t = "entered k rw_session t" and h = "tk_Next t", OF _ _ _ _ this]
  show ?thesis using assms(2) by simp
qed

lemma GenerateKey_answers:
  assumes "ready t k pin" "tk_Faults t = []" "parse_slot slot = Some k" "tk_Keys t = (secret, point) # keys"
    "point_address cr point = Some a"
  shows "fst (hsm_GenerateKey cr (token_ctx ecdsa) slot pin t) = Inr a"
  using generate_entered [OF assms(1,2), of cr ecdsa] assms(4,5) by (auto simp: GenerateKey_fst [OF assms(1-3)])

lemma GenerateKey_ready:
  assumes "ready t k pin" "tk_Faults t = []" "parse_slot slot = Some k"
    "hsm_GenerateKey cr (token_ctx ecdsa) slot pin t = (Inr a, t')"
  shows "\<exists>secret point keys i1 i2 c. tk_Keys t = (secret, point) # keys \<and> length i1 = 8 \<and> point_address cr point = Some a \<and>
    t' = left (entered k rw_session t\<lparr>tk_Clock := c, tk_Keys := keys, tk_Next := Suc (Suc (Suc (tk_Next t))),
      tk_Objects := tk_Objects t @ new_keys (Suc (tk_Next t)) k (String_of_address (c_keccak cr) a) i1 i2 point secret\<rparr>)"
proof -
  obtain r t1 where body: "generate_in cr (token_ctx ecdsa) (tk_Next t) (entered k rw_session t) = (r, t1)" by fastforce
  have "keeps (within (tk_Next t) k) (generate_in cr (token_ctx ecdsa) (tk_Next t))" by (rule keeps_bodies)
  then have within: "within (tk_Next t) k t1" using within_entered [of t k rw_session] body by (fastforce simp: keeps_def)
  have r: "r = Inr a" using assms(4) GenerateKey_fst [OF assms(1-3), of cr ecdsa] by (simp add: body)
  obtain secret point keys i1 i2 c where key: "tk_Keys t = (secret, point) # keys" "length i1 = 8" "point_address cr point = Some a"
    and t1: "t1 = entered k rw_session t\<lparr>tk_Clock := c, tk_Keys := keys, tk_Next := Suc (Suc (Suc (tk_Next t))),
      tk_Objects := tk_Objects t @ new_keys (Suc (tk_Next t)) k (String_of_address (c_keccak cr) a) i1 i2 point secret\<rparr>"
    using generate_entered [OF assms(1,2), of cr ecdsa] by (auto simp: body r)
  have quiet: "tk_Faults t1 = []" using assms(2) by (simp add: t1)
  have "hsm_GenerateKey cr (token_ctx ecdsa) slot pin t = (r, left t1)"
    unfolding hsm_GenerateKey_def
    by (rule on_slot_ready [where body = "generate_in cr (token_ctx ecdsa)", OF assms(1-3) _ body within quiet]) simp
  then have "t' = left t1" using assms(4) by simp
  then show ?thesis using key unfolding t1 by blast
qed

end
