(* ===== verification/Pkcs11_Life.thy ===== *)
theory Pkcs11_Life
  imports Pkcs11_Keys
begin

text \<open>
  The life of a key of a hardware security module as a client of the manager sees it: generated, listed,
  used and removed; and the keys that are only half there.
\<close>

section \<open>Seen by the client\<close>

abbreviation request :: "string \<Rightarrow> string \<Rightarrow> address \<Rightarrow> bytes \<Rightarrow> SignInput" where
  "request slot pin a payload \<equiv> \<lparr>si_Slot = slot, si_Pin = pin, si_From = a, si_Data = payload,
     si_AKV = [], si_LocalKeyVault = None\<rparr>"

lemma follows_fst: "follows v m m' \<Longrightarrow> fst (m s) = fst (m' (v s))"
  unfolding follows_def by (metis fst_conv fst_map_prod id_apply)

lemma Sign_seen:
  assumes "implements ecdsa px v" "ready (v s) k pin" "tk_Faults (v s) = []" "parse_slot slot = Some k"
  shows "fst (hsm_Sign cr px (request slot pin a payload) s) =
    (case ring (v s) k (String_of_address (c_keccak cr) a) of
       None \<Rightarrow> Inl sm_NewNotFoundError | Some secret \<Rightarrow> Inr (ecdsa secret payload))"
  unfolding follows_fst [OF manager_follows(4) [OF assms(1)]] using assms by (subst Sign_ready) (simp_all cong: option.case_cong)

lemma ListKeys_seen:
  assumes "implements ecdsa px v" "ready (v s) k pin" "tk_Faults (v s) = []" "parse_slot slot = Some k"
    "length (tk_Objects (v s)) < n"
  shows "fst (hsm_ListKeys n cr px slot pin s) =
    (if readable cr (v s) k then Inr (ByTime_Addresses (entries cr (v s) k)) else Inl nil_address)"
  unfolding follows_fst [OF manager_follows(3) [OF assms(1)]] by (subst ListKeys_ready [OF assms(2-5)]) simp

section \<open>Addresses and labels\<close>

lemma String_of_address_inject:
  "length a = addressLength \<Longrightarrow> length b = addressLength \<Longrightarrow>
   String_of_address keccak a = String_of_address keccak b \<longleftrightarrow> a = b"
  by (metis NewFromHexString_String addressLength_def sum.inject(2))

lemma point_address_length: "point_address cr point = Some a \<Longrightarrow> length a = addressLength"
  by (auto simp: point_address_def DeriveAddressFromPublicKey_def NewFromRawBytes_def split: option.splits sum.splits if_splits)

lemma label_length: "length a = addressLength \<Longrightarrow> length (String_of_address keccak a) = 42"
  using String_of_address_digits [of keccak a] by (auto simp: addressLength_def dest!: list_all2_lengthD)

lemma set_ByTime [simp]: "set (ByTime_Addresses xs) = fst ` set xs"
  by (simp add: ByTime_Addresses_def)

lemma set_map_filter: "set (List.map_filter f xs) = {y. \<exists>x \<in> set xs. f x = Some y}"
  by (induction xs) (auto simp: List.map_filter_simps split: option.split)

lemma set_entries: "set (entries cr t k) = {y. \<exists>(h, ko) \<in> set (in_slot t k CKO_PUBLIC_KEY). key_entry cr ko = Some y}"
  by (force simp: entries_def set_map_filter)

lemma key_entry_label: "key_entry cr ko = Some (a, time) \<Longrightarrow> ob_Label ko = String_of_address (c_keccak cr) a \<and> length a = addressLength"
  by (auto simp: key_entry_def key_address_def calculatePublicKeyLabel_def split: option.splits if_splits dest: point_address_length)

section \<open>With a new key\<close>

lemma find_append: "find P (xs @ ys) = (case find P xs of None \<Rightarrow> find P ys | Some x \<Rightarrow> Some x)"
  by (induction xs) auto

lemma in_slot_new:
  "tk_Objects t' = tk_Objects t @ new_keys h k label i1 i2 point secret \<Longrightarrow>
   in_slot t' k cl = in_slot t k cl @ filter (\<lambda>(h, ko). ob_Class ko = cl) (new_keys h k label i1 i2 point secret)"
  by (auto simp: in_slot_def new_keys_def)

lemma ring_new:
  assumes "tk_Objects t' = tk_Objects t @ new_keys h k label i1 i2 point secret"
  shows "ring t' k l = (case ring t k l of None \<Rightarrow> if l = label then Some secret else None | Some x \<Rightarrow> Some x)"
  by (auto simp: ring_def in_slot_new [OF assms] find_append new_keys_def CKO_PUBLIC_KEY_def CKO_PRIVATE_KEY_def split: option.split)

lemma entries_new:
  assumes "tk_Objects t' = tk_Objects t @ new_keys h k (String_of_address (c_keccak cr) a) i1 i2 point secret"
    "point_address cr point = Some a"
  shows "fst ` set (entries cr t' k) = insert a (fst ` set (entries cr t k))" "readable cr t' k = readable cr t k"
  using assms(2)
  by (auto simp: set_entries readable_def in_slot_new [OF assms(1)] new_keys_def CKO_PUBLIC_KEY_def CKO_PRIVATE_KEY_def
      key_entry_def key_address_def calculatePublicKeyLabel_def image_iff)

lemma sound_new:
  assumes "sound t" "tk_Objects t' = tk_Objects t @ new_keys (Suc (tk_Next t)) k label i1 i2 point secret"
    "tk_Next t' = Suc (Suc (Suc (tk_Next t)))"
  shows "sound t'"
  using assms by (fastforce simp: sound_def new_keys_def)

section \<open>Without a key\<close>

lemma in_slot_without: "in_slot (without k label t) k cl =
    (if cl = CKO_PUBLIC_KEY \<or> cl = CKO_PRIVATE_KEY then filter (\<lambda>(h, ko). ob_Label ko \<noteq> label) (in_slot t k cl) else in_slot t k cl)"
  by (auto simp: in_slot_def without_def is_key_def intro!: filter_cong)

lemma find_filter_other: "(\<And>x. P x \<Longrightarrow> Q x) \<Longrightarrow> find P (filter Q xs) = find P xs"
  by (induction xs) auto

lemma ring_without: "ring (without k label t) k l = (if l = label then None else ring t k l)"
proof (cases "l = label")
  case True
  then show ?thesis by (auto simp: ring_def in_slot_without find_None_iff)
next
  case False
  then show ?thesis by (auto simp: ring_def in_slot_without intro!: arg_cong [where f = "map_option _"] find_filter_other)
qed

lemma entries_without:
  assumes "length a = addressLength"
  shows "fst ` set (entries cr (without k (String_of_address (c_keccak cr) a) t) k) = fst ` set (entries cr t k) - {a}"
proof -
  have "set (entries cr (without k (String_of_address (c_keccak cr) a) t) k) = {x \<in> set (entries cr t k). fst x \<noteq> a}"
  proof -
    have "key_entry cr ko = Some x \<Longrightarrow> ob_Label ko \<noteq> String_of_address (c_keccak cr) a \<longleftrightarrow> fst x \<noteq> a" for ko x
      using key_entry_label [of cr ko "fst x" "snd x"] by (auto simp: String_of_address_inject assms)
    then show ?thesis by (fastforce simp: set_entries in_slot_without)
  qed
  then show ?thesis by auto
qed

lemma readable_without: "readable cr t k \<Longrightarrow> readable cr (without k label t) k"
  by (auto simp: readable_def in_slot_without list_all_iff)

lemma sound_without: "sound t \<Longrightarrow> sound (without k label t)"
  by (auto simp: sound_def without_def distinct_map_filter)

section \<open>The states between the calls\<close>

lemma generated:
  assumes "implements ecdsa px v" "ready (v s) k pin" "tk_Faults (v s) = []" "parse_slot slot = Some k"
    "hsm_GenerateKey cr px slot pin s = (Inr a, s')"
  shows "\<exists>h i1 i2 point. point_address cr point = Some a \<and>
    tk_Objects (v s') = tk_Objects (v s) @
      new_keys h k (String_of_address (c_keccak cr) a) i1 i2 point (fst (hd (tk_Keys (v s)))) \<and>
    ready (v s') k pin \<and> tk_Faults (v s') = []"
proof -
  have "hsm_GenerateKey cr (token_ctx ecdsa) slot pin (v s) = (Inr a, v s')"
    by (rule follows_run [OF manager_follows(1) [OF assms(1)] assms(5)])
  from GenerateKey_ready [OF assms(2-4) this]
  obtain secret point keys i1 i2 c where key: "tk_Keys (v s) = (secret, point) # keys" "point_address cr point = Some a"
    and v: "v s' = left (entered k rw_session (v s)\<lparr>tk_Clock := c, tk_Keys := keys, tk_Next := Suc (Suc (Suc (tk_Next (v s)))),
      tk_Objects := tk_Objects (v s) @ new_keys (Suc (tk_Next (v s))) k (String_of_address (c_keccak cr) a) i1 i2 point secret\<rparr>)"
    by blast
  have objs: "tk_Objects (v s') = tk_Objects (v s) @
      new_keys (Suc (tk_Next (v s))) k (String_of_address (c_keccak cr) a) i1 i2 point secret" by (simp add: v)
  have "sound (v s')" using assms(2) by (intro sound_new [OF _ objs]) (simp_all add: ready_def v)
  then have "ready (v s') k pin" using assms(2) by (simp add: ready_def idle_def v)
  moreover have "tk_Faults (v s') = []" using assms(3) by (simp add: v)
  ultimately show ?thesis using key objs by auto
qed

lemma removed:
  assumes "implements ecdsa px v" "ready (v s) k pin" "tk_Faults (v s) = []" "parse_slot slot = Some k"
    "length (tk_Objects (v s)) < n" "hsm_RemoveKey n cr px slot pin a s = (Inr (), s')"
  shows "v s' = without k (String_of_address (c_keccak cr) a) (after k rw_session (v s)) \<and>
    ready (v s') k pin \<and> tk_Faults (v s') = []"
proof -
  have "hsm_RemoveKey n cr (token_ctx ecdsa) slot pin a (v s) = (Inr (), v s')"
    by (rule follows_run [OF manager_follows(2) [OF assms(1)] assms(6)])
  then have v: "v s' = without k (String_of_address (c_keccak cr) a) (after k rw_session (v s))"
    by (simp add: RemoveKey_ready [OF assms(2-5)] split: if_splits)
  have "sound (after k rw_session (v s))" using assms(2) by (fastforce simp: ready_def sound_def after_def)
  then have "sound (v s')" unfolding v by (rule sound_without)
  then show ?thesis using assms(2,3) v by (simp add: ready_def idle_def without_def after_def)
qed

section \<open>A label that is not set\<close>

lemma on_session_next:
  "tk_Faults t = rv # fs \<Longrightarrow> tk_Sessions t = [(h, ss)] \<Longrightarrow>
   on_session h c t = (if rv = 0 then c ss (t\<lparr>tk_Faults := fs\<rparr>) else (Inl rv, t\<lparr>tk_Faults := fs\<rparr>))"
  by (simp add: on_session_def faulty_def)

lemma StdEncoding_8: "length i = 8 \<Longrightarrow> length (StdEncoding i) = 12"
proof -
  assume "length i = 8"
  then obtain a b c d e f g h where "i = [a, b, c, d, e, f, g, h]" by (auto simp: length_Suc_conv eval_nat_numeral)
  then show ?thesis by (simp add: Let_def)
qed

lemma address_next:
  assumes "tk_Faults t = 0 # fs" "tk_Sessions t = [(h, ss)]" "map_of (tk_Objects t) ob = Some ko" "visible t (ss_Slot ss) ko"
    "key_address cr ko = Some a"
  shows "getAddress cr (token_ctx ecdsa) h ob t = (Inr (Inr a), t\<lparr>tk_Faults := fs\<rparr>)"
proof -
  obtain point where point: "ob_Point ko = Some point" "point_address cr point = Some a"
    using assms(5) by (auto simp: key_address_def split: option.splits)
  have "attribute_of ko CKA_EC_POINT = Some point" by (simp add: attribute_of_def ck_attributes point)
  then have "read_attribute (token_ctx ecdsa) h ob CKA_EC_POINT t = (Inr (Inr [(CKA_EC_POINT, Some point)]), t\<lparr>tk_Faults := fs\<rparr>)"
    using assms by (simp add: read_attribute_def token_ctx_def tk_GetAttributeValue_def on_session_next visible_def)
  then show ?thesis
    using point(2) unfolding point_address_def
    by (cases "asn1_octets point"; cases "c_parse cr (the (asn1_octets point))";
        cases "DeriveAddressFromPublicKey (c_keccak cr) (the (c_parse cr (the (asn1_octets point))))")
      (simp_all add: getAddress_def getDecodedECPoint_def getECPoint_def bindP_def returnP_def)
qed

lemma half_labelled:
  assumes "ready t k pin" "tk_Faults t = [0, 0, 0, 0, 0, rv]" "rv \<noteq> 0" "parse_slot slot = Some k"
    "tk_Keys t = (secret, point) # keys" "point_address cr point = Some a"
  shows "\<exists>i1 i2 c l. length l = 12 \<and>
    hsm_GenerateKey cr (token_ctx ecdsa) slot pin t = (Inr a, left (t\<lparr>tk_Clock := c, tk_Keys := keys,
      tk_Next := Suc (Suc (Suc (tk_Next t))), tk_Faults := [],
      tk_Objects := tk_Objects t @
        [(Suc (tk_Next t), \<lparr>ob_Slot = k, ob_Class = CKO_PUBLIC_KEY, ob_Label = String_of_address (c_keccak cr) a,
           ob_ID = i1, ob_Point = Some point, ob_Secret = secret\<rparr>),
         (Suc (Suc (tk_Next t)), \<lparr>ob_Slot = k, ob_Class = CKO_PRIVATE_KEY, ob_Label = l,
           ob_ID = i2, ob_Point = None, ob_Secret = secret\<rparr>)]\<rparr>))"
proof -
  let ?n = "tk_Next t"
  have start: "ck_OpenSession (token_ctx ecdsa) k rw_session t = (Inr ?n, t\<lparr>tk_Faults := [0, 0, 0, 0, rv],
      tk_Sessions := [(?n, fresh_session k rw_session)], tk_Next := Suc ?n\<rparr>)"
    using assms by (simp add: token_ctx_def tk_OpenSession_def faulty_def ready_def idle_def rw_session_def
        CKF_SERIAL_SESSION_def CKF_RW_SESSION_def)
  let ?t = "entered k rw_session (t\<lparr>tk_Faults := [0, 0, 0, rv]\<rparr>)"
  have login: "ck_Login (token_ctx ecdsa) ?n CKU_USER pin (t\<lparr>tk_Faults := [0, 0, 0, 0, rv],
      tk_Sessions := [(?n, fresh_session k rw_session)], tk_Next := Suc ?n\<rparr>) = (Inr (), ?t)"
    using assms(1) by (simp add: token_ctx_def tk_Login_def on_session_next ready_def idle_def entered_def)
  obtain i1 c1 where 1: "generateTimestampId (token_ctx ecdsa) ?t = (Inr i1, ?t\<lparr>tk_Clock := c1\<rparr>)"
    using timestamp_quiet by blast
  obtain i2 c where 2: "generateTimestampId (token_ctx ecdsa) (?t\<lparr>tk_Clock := c1\<rparr>) = (Inr i2, ?t\<lparr>tk_Clock := c\<rparr>)" "length i2 = 8"
    using timestamp_quiet [of ecdsa "?t\<lparr>tk_Clock := c1\<rparr>"] by auto
  define pub where "pub l = \<lparr>ob_Slot = k, ob_Class = CKO_PUBLIC_KEY, ob_Label = l, ob_ID = i1, ob_Point = Some point,
      ob_Secret = secret\<rparr>" for l
  define priv where "priv = \<lparr>ob_Slot = k, ob_Class = CKO_PRIVATE_KEY, ob_Label = StdEncoding i2, ob_ID = i2, ob_Point = None,
      ob_Secret = secret\<rparr>"
  let ?s = "\<lambda>fs l. ?t\<lparr>tk_Clock := c, tk_Keys := keys, tk_Faults := fs, tk_Next := Suc (Suc (Suc ?n)),
      tk_Objects := tk_Objects t @ [(Suc ?n, pub l), (Suc (Suc ?n), priv)]\<rparr>"
  have gen: "callP e (ck_GenerateKeyPair (token_ctx ecdsa) ?n CKM_EC_KEY_PAIR_GEN (public_template i1) (private_template i2))
      (?t\<lparr>tk_Clock := c\<rparr>) = (Inr (Suc ?n, Suc (Suc ?n)), ?s [0, 0, rv] (StdEncoding i1))" for e
    using assms by (simp add: callP_def token_calls tk_GenerateKeyPair_def on_session_next pub_def priv_def
        template_id_def template_label_def public_template_def private_template_def ck_attributes)
  have "Suc ?n \<notin> fst ` set (tk_Objects t)" "Suc (Suc ?n) \<notin> fst ` set (tk_Objects t)"
    using assms(1) by (fastforce simp: ready_def dest: soundD(2))+
  then have old: "map_of (tk_Objects t) (Suc ?n) = None" "map_of (tk_Objects t) (Suc (Suc ?n)) = None"
      "Suc ?n \<notin> fst ` set (tk_Objects t)" by (simp_all add: map_of_eq_None_iff)
  have addr: "getAddress cr (token_ctx ecdsa) ?n (Suc ?n) (?s (0 # fs) l) = (Inr (Inr a), ?s fs l)" for fs l
    by (subst address_next [where fs = fs and ko = "pub l" and ss = "fresh_session k rw_session" and a = a])
      (simp_all add: old map_add_def visible_def pub_def key_address_def assms(6) CKO_PRIVATE_KEY_def CKO_PUBLIC_KEY_def
        entered_def)
  have lab1: "tryP (setLabel (token_ctx ecdsa) ?n (Suc ?n) l) (?s (0 # fs) l') = (Inr (Inr ()), ?s fs l)" for fs l l'
    using old(3) by (simp add: setLabel_def tryP_def callP_def token_calls tk_SetAttributeValue_def on_session_next
        old map_add_def visible_def pub_def CKO_PRIVATE_KEY_def CKO_PUBLIC_KEY_def relabel_old)
  have lab2: "tryP (setLabel (token_ctx ecdsa) ?n (Suc (Suc ?n)) l) (?s [rv] l') = (Inr (Inl (pkcs11_error rv)), ?s [] l')" for l l'
    using assms(3) by (simp add: setLabel_def tryP_def callP_def token_calls tk_SetAttributeValue_def on_session_next)
  let ?l = "String_of_address (c_keccak cr) a"
  have body: "generate_in cr (token_ctx ecdsa) ?n ?t = (Inr a, ?s [] ?l)"
    by (simp add: generate_in_def bindP_def 1 2 gen failP_def addr liftP_def lab1 lab2 returnP_def calculatePublicKeyLabel_def
        calculatePrivateKeyLabel_def)
  have "within ?n k (?s [] ?l)" by (simp add: within_def)
  note leave = leaves [OF this, of ecdsa, simplified]
  have "hsm_GenerateKey cr (token_ctx ecdsa) slot pin t = (Inr a, left (?s [] ?l))"
    using leave by (simp add: hsm_GenerateKey_def on_slot_def assms(4) with_session_def bindP_def callP_def start login deferP_def body
        split: prod.splits)
  moreover have "left (?s [] ?l) = left (t\<lparr>tk_Clock := c, tk_Keys := keys, tk_Next := Suc (Suc (Suc ?n)), tk_Faults := [],
      tk_Objects := tk_Objects t @ [(Suc ?n, pub ?l), (Suc (Suc ?n), priv)]\<rparr>)"
    by (simp add: left_def entered_def)
  ultimately show ?thesis
    using StdEncoding_8 [OF 2(2)] by (auto simp: pub_def priv_def)
qed

section \<open>A token to try it on\<close>

definition demo_crypto :: crypto where
  "demo_crypto = \<lparr>c_keccak = (\<lambda>_. replicate 32 7), c_order = 0, c_recover = (\<lambda>_ _. None), c_parse = Some\<rparr>"

definition demo_point :: bytes where
  "demo_point = [0x04, 0x41, 0x04] @ replicate 64 9"

definition demo_token :: token where
  "demo_token = \<lparr>tk_Initialized = True, tk_Pins = [(3, ''pin'')], tk_Sessions = [], tk_User = [], tk_Objects = [], tk_Next = 1,
     tk_Keys = [([5], demo_point)], tk_Clock = [1000, 2000], tk_Faults = []\<rparr>"

lemma demo_ready: "ready demo_token 3 ''pin''" "tk_Faults demo_token = []"
  by (simp_all add: ready_def idle_def sound_def demo_token_def)

lemma demo_slot: "parse_slot ''3'' = Some 3"
  by (simp add: parse_slot_def dec_digit_def dec_val_def)

lemma demo_address: "point_address demo_crypto demo_point = Some (replicate 20 7)"
  by (simp add: point_address_def demo_point_def demo_crypto_def asn1_octets_def der_length_def
      DeriveAddressFromPublicKey_def NewFromRawBytes_def addressLength_def)

abbreviation demo_generate :: "(go_error + address) \<times> token" where
  "demo_generate \<equiv> hsm_GenerateKey demo_crypto (token_ctx (@)) ''3'' ''pin'' demo_token"

lemma demo_generated: "demo_generate = (Inr (replicate 20 7), snd demo_generate)"
proof -
  have "tk_Keys demo_token = ([5], demo_point) # []" by (simp add: demo_token_def)
  from GenerateKey_answers [OF demo_ready demo_slot this demo_address, of "(@)"]
  show ?thesis by (metis prod.collapse)
qed

section \<open>Properties\<close>











end
