(* ===== verification/Http_Server.thy ===== *)
theory Http_Server
  imports Rpc_Server
begin

text \<open>
  The HTTP server: the middleware in front of the administration interfaces
  (\<open>src/app/pkg/infra/middleware/http_middleware.go\<close>, \<open>authentication\<close>, \<open>authorization\<close>, \<open>recovery\<close>), the
  responses (\<open>infra/httpinfra\<close>) and what the generated handlers share
  (\<open>infra/generated/httpinfra\<close>).

  A request is what the router gives: the name of the route that matches it and the variables of
  its path, with the headers, the query and the value of the first JSON text of its body.  The
  handlers work on any state, since the adapters call use cases over interfaces.
\<close>

section \<open>Requests and answers\<close>

record http_call =
  hc_Header :: "string \<Rightarrow> string"
  hc_Route :: "string option"
  hc_Vars :: "(string \<times> string) list"
  hc_Query :: "(string \<times> string) list"
  hc_Body :: "json option"

definition path_var :: "http_call \<Rightarrow> string \<Rightarrow> string" where
  "path_var r name = (case map_of (hc_Vars r) name of None \<Rightarrow> [] | Some v \<Rightarrow> v)"

text \<open>The first value of a parameter of the query.\<close>

definition query_get :: "http_call \<Rightarrow> string \<Rightarrow> string" where
  "query_get r name = (case map_of (hc_Query r) name of None \<Rightarrow> [] | Some v \<Rightarrow> v)"

definition query_has :: "http_call \<Rightarrow> string \<Rightarrow> bool" where
  "query_has r name = (map_of (hc_Query r) name \<noteq> None)"

text \<open>The details of resources: the pointers that the adapters always set are the values they point to.\<close>

record ResourceMetaDetail =
  md_Id :: string
  md_ResourceVersion :: string
  md_CreationDate :: string
  md_LastUpdate :: string

record UserDetail =
  ud_Meta :: ResourceMetaDetail
  ud_Roles :: "string list"
  ud_Accounts :: "string list"
  ud_Description :: "string option"

record ApplicationDetail =
  apd_Meta :: ResourceMetaDetail
  apd_ChainId :: string
  apd_Description :: "string option"

record ModuleDetail =
  mod_Meta :: ResourceMetaDetail
  mod_HsmKind :: string
  mod_Description :: "string option"

record SlotDetail =
  sld_Meta :: ResourceMetaDetail
  sld_HardwareSecurityModuleId :: string
  sld_ApplicationId :: string
  sld_Slot :: string
  sld_Config :: "AKVConfig list"

record AdminUserDetail =
  aud_Meta :: ResourceMetaDetail
  aud_Roles :: "string list"
  aud_Description :: "string option"

record 'a CollectionPage =
  cp_Items :: "'a list"
  cp_Limit :: "32 word"
  cp_Offset :: "32 word"
  cp_MoreItems :: bool

datatype http_body =
    UserBody UserDetail
  | UsersBody "UserDetail CollectionPage"
  | ApplicationBody ApplicationDetail
  | ApplicationsBody "ApplicationDetail CollectionPage"
  | ModuleBody ModuleDetail
  | ModulesBody "ModuleDetail CollectionPage"
  | SlotBody SlotDetail
  | SlotsBody "SlotDetail CollectionPage"
  | AdminUserBody AdminUserDetail
  | AdminUsersBody "AdminUserDetail CollectionPage"

datatype ResponseType = ResponseTypeOk | ResponseTypeCreated | ResponseTypeAccepted

definition responseMap :: "ResponseType \<Rightarrow> nat" where
  "responseMap t = (case t of ResponseTypeOk \<Rightarrow> 200 | ResponseTypeCreated \<Rightarrow> 201 | ResponseTypeAccepted \<Rightarrow> 202)"

datatype http_reply = HttpFailure HTTPError | HttpSuccess nat http_body

section \<open>Handlers\<close>

text \<open>A handler stops with an error response or a panic.\<close>

datatype http_stop = Refused HTTPError | Crashed

type_synonym ('w, 'a) handling = "'w \<Rightarrow> (http_stop + 'a) \<times> 'w"

type_synonym 'w http_handler = "http_call \<Rightarrow> ('w, nat \<times> http_body) handling"

definition bindH :: "('w, 'a) handling \<Rightarrow> ('a \<Rightarrow> ('w, 'b) handling) \<Rightarrow> ('w, 'b) handling" where
  "bindH m f w = (case m w of (Inl e, w') \<Rightarrow> (Inl e, w') | (Inr x, w') \<Rightarrow> f x w')"

definition checked :: "HTTPError + 'a \<Rightarrow> ('w, 'a) handling" where
  "checked r w = ((case r of Inl e \<Rightarrow> Inl (Refused e) | Inr x \<Rightarrow> Inr x), w)"

definition dereferenced :: "'a option \<Rightarrow> ('w, 'a) handling" where
  "dereferenced p w = ((case p of None \<Rightarrow> Inl Crashed | Some x \<Rightarrow> Inr x), w)"

text \<open>A call of a use case, whose error becomes the response.\<close>

definition called :: "('w, 'a) prog \<Rightarrow> ('w, 'a) handling" where
  "called m w = (case m w of (Inl err, w') \<Rightarrow> (Inl (Refused (NewHTTPErrorFromUseCaseError err)), w') | (Inr x, w') \<Rightarrow> (Inr x, w'))"

definition invalid_request :: "string \<Rightarrow> HTTPError" where
  "invalid_request msg = (NewHTTPError StatusInvalidArgument)\<lparr>http_message := msg\<rparr>"

definition required :: "bool \<Rightarrow> string \<Rightarrow> HTTPError + unit" where
  "required b msg = (if b then Inr () else Inl (invalid_request msg))"

definition check_params :: "string list \<Rightarrow> http_call \<Rightarrow> HTTPError + unit" where
  "check_params supported r =
     (let unsupportedParams = filter (\<lambda>p. p \<notin> set supported) (remdups (map fst (hc_Query r)))
      in required (unsupportedParams = []) (''Unsupported parameters in request ['' @
           concat (case unsupportedParams of [] \<Rightarrow> [] | p # ps \<Rightarrow> p # map (\<lambda>p. CHR '','' # p) ps) @ '']''))"

text \<open>The texts of these errors print the body too, which the model leaves out.\<close>

definition read_body :: "'a \<Rightarrow> 'a decoder \<Rightarrow> ('a \<Rightarrow> HTTPError + unit) \<Rightarrow> http_call \<Rightarrow> HTTPError + 'a" where
  "read_body zero dec validate r =
     (case hc_Body r of
        None \<Rightarrow> Inl (invalid_request ''an error occurred when parsing the JSON request data'')
      | Some j \<Rightarrow>
          (case dec zero j of
             None \<Rightarrow> Inl (invalid_request ''an error occurred when parsing the JSON request data'')
           | Some x \<Rightarrow> andS (validate x) (\<lambda>_. Inr x)))"

text \<open>
  \<open>strconv.ParseInt(src, 10, 32)\<close>, where the empty text is zero, and the \<open>int32\<close> that it gives.
\<close>

definition toInt32 :: "string \<Rightarrow> string \<Rightarrow> HTTPError + int" where
  "toInt32 src fieldName =
     (if src = [] then Inr 0
      else
        (let sign = (case src of c # _ \<Rightarrow> c = CHR ''-'' \<or> c = CHR ''+'' | [] \<Rightarrow> False);
             digits = (if sign then tl src else src);
             v = (if hd src = CHR ''-'' then - int (dec_val digits) else int (dec_val digits)) in
         if digits \<noteq> [] \<and> list_all dec_digit digits \<and> - (2 ^ 31) \<le> v \<and> v < 2 ^ 31 then Inr v
         else Inl (invalid_request (fieldName @ '' field value is not a valid 32 bit number. Received ['' @ src @ '']''))))"

definition page_number :: "http_call \<Rightarrow> string \<Rightarrow> HTTPError + int option" where
  "page_number r name =
     (if query_has r name then andS (toInt32 (query_get r name) name) (\<lambda>v. Inr (Some v)) else Inr None)"

text \<open>The page that a request for a collection asks for.\<close>

record http_page =
  hp_Limit :: "int option"
  hp_Offset :: "int option"
  hp_OrderBy :: string
  hp_OrderDirection :: string

definition read_page :: "http_call \<Rightarrow> HTTPError + http_page" where
  "read_page r =
     andS (page_number r ''limit'') (\<lambda>limit.
     andS (page_number r ''offset'') (\<lambda>offset.
     Inr \<lparr>hp_Limit = limit, hp_Offset = offset, hp_OrderBy = query_get r ''orderBy'',
          hp_OrderDirection = query_get r ''orderDirection''\<rparr>))"

definition or_zero :: "int option \<Rightarrow> int" where
  "or_zero v = (case v of None \<Rightarrow> 0 | Some i \<Rightarrow> i)"

definition adapted_page :: "('a \<Rightarrow> 'b) \<Rightarrow> 'a collection \<Rightarrow> 'b CollectionPage" where
  "adapted_page f c =
     \<lparr>cp_Items = map f (co_Items c), cp_Limit = word_of_int (co_Limit c), cp_Offset = word_of_int (co_Offset c),
      cp_MoreItems = co_MoreItems c\<rparr>"

text \<open>The end of every handler: the response is validated too.\<close>

definition respond_validated :: "HTTPError + unit \<Rightarrow> ResponseType \<Rightarrow> http_body \<Rightarrow> ('w, nat \<times> http_body) handling" where
  "respond_validated valid t body =
     checked (case valid of Inl _ \<Rightarrow> Inl (invalid_request ''the response was not successfully validated'')
              | Inr _ \<Rightarrow> Inr (responseMap t, body))"

section \<open>Parts of resources\<close>

definition dec_ptr :: "'a \<Rightarrow> 'a decoder \<Rightarrow> 'a option decoder" where
  "dec_ptr zero d old j =
     (case j of
        JNull \<Rightarrow> Some None
      | _ \<Rightarrow> map_option Some (d (case old of None \<Rightarrow> zero | Some x \<Rightarrow> x) j))"

record ResourceMetaCreation = mc_Id :: "string option"

definition dec_ResourceMetaCreation :: "ResourceMetaCreation decoder" where
  "dec_ResourceMetaCreation = dec_fields [field ''id'' mc_Id (\<lambda>x. mc_Id_update (\<lambda>_. x)) dec_string_ptr]"

definition validate_MetaCreation :: "ResourceMetaCreation \<Rightarrow> HTTPError + unit" where
  "validate_MetaCreation data =
     required (case mc_Id data of None \<Rightarrow> True | Some i \<Rightarrow> \<not> 64 < length i) ''field [id] exceeds max length of 64''"

record ResourceMetaUpdate = mu_ResourceVersion :: "string option"

definition dec_ResourceMetaUpdate :: "ResourceMetaUpdate decoder" where
  "dec_ResourceMetaUpdate =
     dec_fields [field ''resourceVersion'' mu_ResourceVersion (\<lambda>x. mu_ResourceVersion_update (\<lambda>_. x)) dec_string_ptr]"

definition validate_MetaUpdate :: "ResourceMetaUpdate \<Rightarrow> HTTPError + unit" where
  "validate_MetaUpdate data = required (mu_ResourceVersion data \<noteq> None) ''error validating field [resourceVersion]''"

definition validate_description :: "string option \<Rightarrow> HTTPError + unit" where
  "validate_description d =
     required (case d of None \<Rightarrow> True | Some t \<Rightarrow> \<not> 256 < length t) ''field [description] exceeds max length of 256''"

text \<open>A part of a resource: the error of its own validation is replaced by one that names the part.\<close>

definition validate_part :: "bool \<Rightarrow> string \<Rightarrow> ('a \<Rightarrow> HTTPError + unit) \<Rightarrow> 'a option \<Rightarrow> HTTPError + unit" where
  "validate_part optional name validate p =
     (case p of
        None \<Rightarrow> required optional (''error validating field ['' @ name @ '']'')
      | Some x \<Rightarrow>
          (case validate x of
             Inl _ \<Rightarrow> Inl (invalid_request (''error validating field ['' @ name @ '']''))
           | Inr _ \<Rightarrow> Inr ()))"

section \<open>The middleware\<close>

record http_context =
  cx_User :: string
  cx_Application :: "string option"
  cx_Action :: string

definition http_DefineAction :: "http_call \<Rightarrow> HTTPError + string" where
  "http_DefineAction r =
     (case hc_Route r of
        None \<Rightarrow> Inl (NewNotFoundHTTPError (PlainError ''no route matched while defining the request action''))
      | Some actionID \<Rightarrow> Inr actionID)"

definition http_DefineUser :: "AuthHeadersConfiguration \<Rightarrow> http_call \<Rightarrow> string" where
  "http_DefineUser cfg r = TrimSpace (hc_Header r (headerKey ''X-Auth-UserId'' (UserRequestHeader cfg)))"

definition http_DefineApplication :: "AuthHeadersConfiguration \<Rightarrow> http_call \<Rightarrow> string option" where
  "http_DefineApplication cfg r =
     (let applicationID = hc_Header r (headerKey ''X-Auth-ApplicationId'' (ApplicationRequestHeader cfg))
      in if applicationID = [] then None else Some (TrimSpace applicationID))"

definition denied :: "string \<Rightarrow> HTTPError" where
  "denied msg = (NewHTTPError StatusPermissionDenied)\<lparr>http_message := msg\<rparr>"

definition http_ValidateAction :: "string \<Rightarrow> HTTPError + unit" where
  "http_ValidateAction action = (if action \<noteq> [] then Inr () else Inl (denied ''the action can't be empty''))"

definition http_ValidateUser :: "string \<Rightarrow> HTTPError + unit" where
  "http_ValidateUser user = (if user \<noteq> [] then Inr () else Inl (denied ''the user can't be empty''))"

definition http_ValidateApplication :: "http_call \<Rightarrow> string option \<Rightarrow> HTTPError + unit" where
  "http_ValidateApplication r cx =
     (case cx of
        None \<Rightarrow> Inr ()
      | Some application \<Rightarrow>
          if path_var r ''applicationId'' = [] then Inr ()
          else if application = path_var r ''applicationId'' then Inr ()
          else Inl (NewForbiddenHTTPError (PlainError ''application mismatch'')))"

definition http_authenticate :: "AuthHeadersConfiguration \<Rightarrow> http_call \<Rightarrow> HTTPError + http_context" where
  "http_authenticate cfg r =
     andS (http_DefineAction r) (\<lambda>action.
     andS (http_ValidateAction action) (\<lambda>_.
     let user = http_DefineUser cfg r in
     andS (http_ValidateUser user) (\<lambda>_.
     let application = http_DefineApplication cfg r in
     andS (http_ValidateApplication r application) (\<lambda>_.
     Inr \<lparr>cx_User = user, cx_Application = application, cx_Action = action\<rparr>))))"

text \<open>The enforcement point asks the decision point over a port.\<close>

definition http_AuthorizeUser :: "(AuthorizeUserInput \<Rightarrow> ('w, unit) prog) \<Rightarrow> http_context \<Rightarrow> ('w, unit) handling" where
  "http_AuthorizeUser pdp cx w =
     (case pdp \<lparr>au_UserID = cx_User cx, au_ApplicationID = cx_Application cx, au_ActionID = cx_Action cx\<rparr> w of
        (Inl err, w') \<Rightarrow> (Inl (Refused (NewForbiddenHTTPError err)), w')
      | (Inr _, w') \<Rightarrow> (Inr (), w'))"

definition recovery :: "('w, nat \<times> http_body) handling \<Rightarrow> 'w \<Rightarrow> http_reply \<times> 'w" where
  "recovery next w =
     (case next w of
        (Inl Crashed, w') \<Rightarrow> (HttpFailure (NewHTTPError StatusInternal), w')
      | (Inl (Refused e), w') \<Rightarrow> (HttpFailure e, w')
      | (Inr (code, body), w') \<Rightarrow> (HttpSuccess code body, w'))"

text \<open>The chain in front of the routes, each a name with its handler; names of routes are unique.\<close>

definition serve_http ::
    "AuthHeadersConfiguration \<Rightarrow> (AuthorizeUserInput \<Rightarrow> ('w, unit) prog) \<Rightarrow> (string \<times> 'w http_handler) list \<Rightarrow>
     http_call \<Rightarrow> 'w \<Rightarrow> http_reply \<times> 'w" where
  "serve_http cfg pdp routes r =
     recovery
       (bindH (checked (http_authenticate cfg r)) (\<lambda>cx.
        bindH (http_AuthorizeUser pdp cx) (\<lambda>_.
        case map_of routes (cx_Action cx) of
          None \<Rightarrow> checked (Inl (NewNotFoundHTTPError (PlainError ''no route'')))
        | Some handler \<Rightarrow> handler r)))"

section \<open>Laws\<close>

text \<open>A relation between states that the parts of a handler keep.\<close>

definition keepsH :: "('w \<Rightarrow> bool) \<Rightarrow> ('w, 'a) handling \<Rightarrow> bool" where
  "keepsH P m \<longleftrightarrow> (\<forall>w. P w \<longrightarrow> P (snd (m w)))"

named_theorems keepsH_intros

lemma keepsH_bindH [keepsH_intros]: "keepsH P m \<Longrightarrow> (\<And>x. keepsH P (f x)) \<Longrightarrow> keepsH P (bindH m f)"
  by (fastforce simp: keepsH_def bindH_def split: prod.splits sum.splits)

lemma keepsH_checked [keepsH_intros]: "keepsH P (checked r)"
  by (simp add: keepsH_def checked_def)

lemma keepsH_dereferenced [keepsH_intros]: "keepsH P (dereferenced p)"
  by (simp add: keepsH_def dereferenced_def)

lemma keepsH_respond_validated [keepsH_intros]: "keepsH P (respond_validated v t b)"
  by (simp add: respond_validated_def keepsH_checked)

lemma keepsH_called [keepsH_intros]: "keeps P m \<Longrightarrow> keepsH P (called m)"
  by (fastforce simp: keepsH_def keeps_def called_def split: prod.splits sum.splits)

lemma keepsH_if [keepsH_intros]: "keepsH P m \<Longrightarrow> keepsH P m' \<Longrightarrow> keepsH P (if b then m else m')"
  by simp

end
