(* ===== verification/Http_Users.thy ===== *)
theory Http_Users
  imports Http_Server
begin

text \<open>
  The HTTP interface of the users of an application: the input adapter
  (\<open>src/app/pkg/adapters/httpin/http_application_api_adapter.go\<close>) with the types, the handlers and the
  routes that the generator makes (\<open>src/app/pkg/infra/generated/httpinfra\<close>, the files of the users and
  \<open>api_application_*_generated.go\<close>).

  The use cases are behind an interface, a record of programs over any state.  The instance that the
  program wires is the use case of users without the decorator of transactions.
\<close>

section \<open>The interface of the use cases\<close>

record 'w user_port =
  up_CreateUser :: "CreateUserInput \<Rightarrow> ('w, User) prog"
  up_GetUser :: "string \<Rightarrow> string \<Rightarrow> ('w, User) prog"
  up_EditUser :: "EditUserInput \<Rightarrow> ('w, User) prog"
  up_DeleteUser :: "string \<Rightarrow> string \<Rightarrow> ('w, User) prog"
  up_ListUsers :: "ListUsersInput \<Rightarrow> ('w, User collection) prog"
  up_EnableAccounts :: "string \<Rightarrow> string \<Rightarrow> address list \<Rightarrow> ('w, User) prog"
  up_DisableAccount :: "string \<Rightarrow> string \<Rightarrow> address \<Rightarrow> ('w, User) prog"

definition DefaultUserUseCase :: "env \<Rightarrow> 'd connector \<Rightarrow> 'd world user_port" where
  "DefaultUserUseCase en cn =
     \<lparr>up_CreateUser = CreateUser en, up_GetUser = GetUser en, up_EditUser = EditUser en,
      up_DeleteUser = DeleteUser en, up_ListUsers = ListUsers en, up_EnableAccounts = EnableAccounts en cn,
      up_DisableAccount = DisableAccount en\<rparr>"

section \<open>The bodies of requests\<close>

record UserCreationSpec =
  ucs_Roles :: "string slice option"
  ucs_Description :: "string option"

definition zero_UserCreationSpec :: UserCreationSpec where
  "zero_UserCreationSpec = \<lparr>ucs_Roles = None, ucs_Description = None\<rparr>"

definition dec_UserCreationSpec :: "UserCreationSpec decoder" where
  "dec_UserCreationSpec = dec_fields
     [field ''roles'' ucs_Roles (\<lambda>x. ucs_Roles_update (\<lambda>_. x)) (dec_ptr None (dec_slice [] dec_string)),
      field ''description'' ucs_Description (\<lambda>x. ucs_Description_update (\<lambda>_. x)) dec_string_ptr]"

definition validate_UserCreationSpec :: "UserCreationSpec \<Rightarrow> HTTPError + unit" where
  "validate_UserCreationSpec data =
     andS (required (ucs_Roles data \<noteq> None) ''error validating field [roles]'') (\<lambda>_.
     validate_description (ucs_Description data))"

record UserCreation =
  uc_Meta :: "ResourceMetaCreation option"
  uc_Spec :: "UserCreationSpec option"

definition zero_UserCreation :: UserCreation where
  "zero_UserCreation = \<lparr>uc_Meta = None, uc_Spec = None\<rparr>"

definition dec_UserCreation :: "UserCreation decoder" where
  "dec_UserCreation = dec_fields
     [field ''meta'' uc_Meta (\<lambda>x. uc_Meta_update (\<lambda>_. x)) (dec_ptr \<lparr>mc_Id = None\<rparr> dec_ResourceMetaCreation),
      field ''spec'' uc_Spec (\<lambda>x. uc_Spec_update (\<lambda>_. x)) (dec_ptr zero_UserCreationSpec dec_UserCreationSpec)]"

definition validate_UserCreation :: "UserCreation \<Rightarrow> HTTPError + unit" where
  "validate_UserCreation data =
     andS (validate_part True ''meta'' validate_MetaCreation (uc_Meta data)) (\<lambda>_.
     validate_part False ''spec'' validate_UserCreationSpec (uc_Spec data))"

record UserUpdateSpec =
  uus_Roles :: "string slice option"
  uus_Description :: "string option"

definition zero_UserUpdateSpec :: UserUpdateSpec where
  "zero_UserUpdateSpec = \<lparr>uus_Roles = None, uus_Description = None\<rparr>"

definition dec_UserUpdateSpec :: "UserUpdateSpec decoder" where
  "dec_UserUpdateSpec = dec_fields
     [field ''roles'' uus_Roles (\<lambda>x. uus_Roles_update (\<lambda>_. x)) (dec_ptr None (dec_slice [] dec_string)),
      field ''description'' uus_Description (\<lambda>x. uus_Description_update (\<lambda>_. x)) dec_string_ptr]"

definition validate_UserUpdateSpec :: "UserUpdateSpec \<Rightarrow> HTTPError + unit" where
  "validate_UserUpdateSpec data =
     andS (required (uus_Roles data \<noteq> None) ''error validating field [roles]'') (\<lambda>_.
     validate_description (uus_Description data))"

record UserUpdate =
  uu_Meta :: "ResourceMetaUpdate option"
  uu_Spec :: "UserUpdateSpec option"

definition zero_UserUpdate :: UserUpdate where
  "zero_UserUpdate = \<lparr>uu_Meta = None, uu_Spec = None\<rparr>"

definition dec_UserUpdate :: "UserUpdate decoder" where
  "dec_UserUpdate = dec_fields
     [field ''meta'' uu_Meta (\<lambda>x. uu_Meta_update (\<lambda>_. x)) (dec_ptr \<lparr>mu_ResourceVersion = None\<rparr> dec_ResourceMetaUpdate),
      field ''spec'' uu_Spec (\<lambda>x. uu_Spec_update (\<lambda>_. x)) (dec_ptr zero_UserUpdateSpec dec_UserUpdateSpec)]"

definition validate_UserUpdate :: "UserUpdate \<Rightarrow> HTTPError + unit" where
  "validate_UserUpdate data =
     andS (validate_part False ''meta'' validate_MetaUpdate (uu_Meta data)) (\<lambda>_.
     validate_part True ''spec'' validate_UserUpdateSpec (uu_Spec data))"

record AccountCreationSpec = acs_Accounts :: "string slice option"

definition dec_AccountCreationSpec :: "AccountCreationSpec decoder" where
  "dec_AccountCreationSpec = dec_fields
     [field ''accounts'' acs_Accounts (\<lambda>x. acs_Accounts_update (\<lambda>_. x)) (dec_ptr None (dec_slice [] dec_string))]"

definition validate_AccountCreationSpec :: "AccountCreationSpec \<Rightarrow> HTTPError + unit" where
  "validate_AccountCreationSpec data = required (acs_Accounts data \<noteq> None) ''error validating field [accounts]''"

record AccountCreation = acn_Spec :: "AccountCreationSpec option"

definition dec_AccountCreation :: "AccountCreation decoder" where
  "dec_AccountCreation = dec_fields
     [field ''spec'' acn_Spec (\<lambda>x. acn_Spec_update (\<lambda>_. x)) (dec_ptr \<lparr>acs_Accounts = None\<rparr> dec_AccountCreationSpec)]"

definition validate_AccountCreation :: "AccountCreation \<Rightarrow> HTTPError + unit" where
  "validate_AccountCreation data = validate_part False ''spec'' validate_AccountCreationSpec (acn_Spec data)"

section \<open>The answers\<close>

definition mapUser :: "env \<Rightarrow> User \<Rightarrow> UserDetail" where
  "mapUser en user =
     \<lparr>ud_Meta = \<lparr>md_Id = User_ID user, md_ResourceVersion = User_ResourceVersion user,
        md_CreationDate = Int256_String (User_CreationDate user), md_LastUpdate = Int256_String (User_LastUpdate user)\<rparr>,
      ud_Roles = User_Roles user,
      ud_Accounts = map (\<lambda>acc. String_of_address (e_keccak en) (acc_Address (Acc_AccountID acc))) (User_Accounts user),
      ud_Description = User_Description user\<rparr>"

definition validate_UserDetail :: "UserDetail \<Rightarrow> HTTPError + unit" where
  "validate_UserDetail data = required (ud_Description data \<noteq> None) ''error validating field [spec]''"

text \<open>The items of a collection are validated one by one.\<close>

definition validate_items :: "('a \<Rightarrow> HTTPError + unit) \<Rightarrow> 'a CollectionPage \<Rightarrow> HTTPError + unit" where
  "validate_items validate data =
     required (list_all (\<lambda>item. case validate item of Inl _ \<Rightarrow> False | Inr _ \<Rightarrow> True) (cp_Items data))
       ''error validating field [Items]''"

section \<open>The adapter\<close>

definition invalid_address :: "string \<Rightarrow> HTTPError" where
  "invalid_address addr =
     (NewHTTPError StatusInvalidArgument)\<lparr>http_message := ''address '' @ quoted addr @ '' is not a valid address''\<rparr>"

fun checked_addresses :: "env \<Rightarrow> string list \<Rightarrow> HTTPError + address list" where
  "checked_addresses en [] = Inr []"
| "checked_addresses en (addr # addrs) =
     (case NewFromHexStringChecksum (e_keccak en) addr of
        Inl err \<Rightarrow> Inl (invalid_address addr)
      | Inr a \<Rightarrow> andS (checked_addresses en addrs) (\<lambda>as. Inr (a # as)))"

definition AdaptApplicationAccountsCreate ::
    "env \<Rightarrow> 'w user_port \<Rightarrow> string \<Rightarrow> string \<Rightarrow> AccountCreation \<Rightarrow> ('w, ResponseType \<times> UserDetail) handling" where
  "AdaptApplicationAccountsCreate en up app user data =
     bindH (dereferenced (acn_Spec data)) (\<lambda>spec.
     bindH (dereferenced (acs_Accounts spec)) (\<lambda>accounts.
     bindH (checked (checked_addresses en (seen accounts))) (\<lambda>addresses.
     bindH (called (up_EnableAccounts up app user addresses)) (\<lambda>out.
     checked (Inr (ResponseTypeCreated, mapUser en out))))))"

definition AdaptApplicationAccountsRemove ::
    "env \<Rightarrow> 'w user_port \<Rightarrow> string \<Rightarrow> string \<Rightarrow> string \<Rightarrow> ('w, ResponseType \<times> UserDetail) handling" where
  "AdaptApplicationAccountsRemove en up app user account =
     bindH (checked (case NewFromHexStringChecksum (e_keccak en) account of
        Inl err \<Rightarrow> Inl (invalid_address account) | Inr a \<Rightarrow> Inr a)) (\<lambda>addr.
     bindH (called (up_DisableAccount up app user addr)) (\<lambda>out.
     checked (Inr (ResponseTypeOk, mapUser en out))))"

definition AdaptApplicationUsersCreate ::
    "env \<Rightarrow> 'w user_port \<Rightarrow> string \<Rightarrow> UserCreation \<Rightarrow> ('w, ResponseType \<times> UserDetail) handling" where
  "AdaptApplicationUsersCreate en up app data =
     bindH (called (up_CreateUser up
       \<lparr>cu_ID = (case uc_Meta data of None \<Rightarrow> None | Some m \<Rightarrow> mc_Id m), cu_ApplicationID = app,
        cu_Description = (case uc_Spec data of None \<Rightarrow> None | Some s \<Rightarrow> ucs_Description s),
        cu_Roles = (case uc_Spec data of None \<Rightarrow> [] | Some s \<Rightarrow>
           (case ucs_Roles s of None \<Rightarrow> [] | Some roles \<Rightarrow> seen roles))\<rparr>)) (\<lambda>out.
     checked (Inr (ResponseTypeCreated, mapUser en out)))"

definition AdaptApplicationUsersDescribe ::
    "env \<Rightarrow> 'w user_port \<Rightarrow> string \<Rightarrow> string \<Rightarrow> ('w, ResponseType \<times> UserDetail) handling" where
  "AdaptApplicationUsersDescribe en up app user =
     bindH (called (up_GetUser up app user)) (\<lambda>out.
     checked (Inr (ResponseTypeOk, mapUser en out)))"

definition AdaptApplicationUsersEdit ::
    "env \<Rightarrow> 'w user_port \<Rightarrow> string \<Rightarrow> string \<Rightarrow> UserUpdate \<Rightarrow> ('w, ResponseType \<times> UserDetail) handling" where
  "AdaptApplicationUsersEdit en up app user data =
     bindH (dereferenced (uu_Meta data)) (\<lambda>meta.
     bindH (dereferenced (mu_ResourceVersion meta)) (\<lambda>version.
     bindH (called (up_EditUser up
       \<lparr>eu_ID = user, eu_ApplicationID = app, eu_ResourceVersion = version,
        eu_Description = (case uu_Spec data of None \<Rightarrow> None | Some s \<Rightarrow> uus_Description s),
        eu_Roles = (case uu_Spec data of None \<Rightarrow> [] | Some s \<Rightarrow>
           (case uus_Roles s of None \<Rightarrow> [] | Some roles \<Rightarrow> seen roles))\<rparr>)) (\<lambda>out.
     checked (Inr (ResponseTypeOk, mapUser en out)))))"

definition AdaptApplicationUsersList ::
    "env \<Rightarrow> 'w user_port \<Rightarrow> string \<Rightarrow> http_page \<Rightarrow> ('w, ResponseType \<times> UserDetail CollectionPage) handling" where
  "AdaptApplicationUsersList en up app data =
     bindH (called (up_ListUsers up
       \<lparr>lu_ApplicationID = app, lu_PageLimit = or_zero (hp_Limit data), lu_PageOffset = or_zero (hp_Offset data),
        lu_OrderBy = hp_OrderBy data, lu_OrderDirection = hp_OrderDirection data\<rparr>)) (\<lambda>out.
     checked (Inr (ResponseTypeOk, adapted_page (mapUser en) out)))"

definition AdaptApplicationUsersRemove ::
    "env \<Rightarrow> 'w user_port \<Rightarrow> string \<Rightarrow> string \<Rightarrow> ('w, ResponseType \<times> UserDetail) handling" where
  "AdaptApplicationUsersRemove en up app user =
     bindH (called (up_DeleteUser up app user)) (\<lambda>out.
     checked (Inr (ResponseTypeOk, mapUser en out)))"

section \<open>The handlers\<close>

definition respond_user :: "ResponseType \<times> UserDetail \<Rightarrow> ('w, nat \<times> http_body) handling" where
  "respond_user response = respond_validated (validate_UserDetail (snd response)) (fst response) (UserBody (snd response))"

definition HandleHTTPApplicationAccountsCreate :: "env \<Rightarrow> 'w user_port \<Rightarrow> 'w http_handler" where
  "HandleHTTPApplicationAccountsCreate en up r =
     bindH (checked (check_params [''applicationId'', ''userId'', ''AccountCreation''] r)) (\<lambda>_.
     bindH (checked (read_body \<lparr>acn_Spec = None\<rparr> dec_AccountCreation validate_AccountCreation r)) (\<lambda>accountCreation.
     bindH (AdaptApplicationAccountsCreate en up (path_var r ''applicationId'') (path_var r ''userId'') accountCreation)
       respond_user))"

definition HandleHTTPApplicationAccountsRemove :: "env \<Rightarrow> 'w user_port \<Rightarrow> 'w http_handler" where
  "HandleHTTPApplicationAccountsRemove en up r =
     bindH (checked (check_params [''applicationId'', ''userId'', ''accountId''] r)) (\<lambda>_.
     bindH (AdaptApplicationAccountsRemove en up (path_var r ''applicationId'') (path_var r ''userId'')
       (path_var r ''accountId'')) respond_user)"

definition HandleHTTPApplicationUsersCreate :: "env \<Rightarrow> 'w user_port \<Rightarrow> 'w http_handler" where
  "HandleHTTPApplicationUsersCreate en up r =
     bindH (checked (check_params [''applicationId'', ''UserCreation''] r)) (\<lambda>_.
     bindH (checked (read_body zero_UserCreation dec_UserCreation validate_UserCreation r)) (\<lambda>userCreation.
     bindH (AdaptApplicationUsersCreate en up (path_var r ''applicationId'') userCreation) respond_user))"

definition HandleHTTPApplicationUsersDescribe :: "env \<Rightarrow> 'w user_port \<Rightarrow> 'w http_handler" where
  "HandleHTTPApplicationUsersDescribe en up r =
     bindH (checked (check_params [''applicationId'', ''userId''] r)) (\<lambda>_.
     bindH (AdaptApplicationUsersDescribe en up (path_var r ''applicationId'') (path_var r ''userId'')) respond_user)"

definition HandleHTTPApplicationUsersEdit :: "env \<Rightarrow> 'w user_port \<Rightarrow> 'w http_handler" where
  "HandleHTTPApplicationUsersEdit en up r =
     bindH (checked (check_params [''applicationId'', ''userId'', ''UserUpdate''] r)) (\<lambda>_.
     bindH (checked (read_body zero_UserUpdate dec_UserUpdate validate_UserUpdate r)) (\<lambda>userUpdate.
     bindH (AdaptApplicationUsersEdit en up (path_var r ''applicationId'') (path_var r ''userId'') userUpdate)
       respond_user))"

definition HandleHTTPApplicationUsersList :: "env \<Rightarrow> 'w user_port \<Rightarrow> 'w http_handler" where
  "HandleHTTPApplicationUsersList en up r =
     bindH (checked (check_params [''applicationId'', ''limit'', ''offset'', ''orderBy'', ''orderDirection''] r)) (\<lambda>_.
     bindH (checked (read_page r)) (\<lambda>page.
     bindH (AdaptApplicationUsersList en up (path_var r ''applicationId'') page) (\<lambda>response.
     respond_validated (validate_items validate_UserDetail (snd response)) (fst response) (UsersBody (snd response)))))"

definition HandleHTTPApplicationUsersRemove :: "env \<Rightarrow> 'w user_port \<Rightarrow> 'w http_handler" where
  "HandleHTTPApplicationUsersRemove en up r =
     bindH (checked (check_params [''applicationId'', ''userId''] r)) (\<lambda>_.
     bindH (AdaptApplicationUsersRemove en up (path_var r ''applicationId'') (path_var r ''userId'')) respond_user)"

definition ApplicationAPIRoutes :: "env \<Rightarrow> 'w user_port \<Rightarrow> (string \<times> 'w http_handler) list" where
  "ApplicationAPIRoutes en up =
     [(''application.accounts.create'', HandleHTTPApplicationAccountsCreate en up),
      (''application.accounts.remove'', HandleHTTPApplicationAccountsRemove en up),
      (''application.users.create'', HandleHTTPApplicationUsersCreate en up),
      (''application.users.describe'', HandleHTTPApplicationUsersDescribe en up),
      (''application.users.edit'', HandleHTTPApplicationUsersEdit en up),
      (''application.users.list'', HandleHTTPApplicationUsersList en up),
      (''application.users.remove'', HandleHTTPApplicationUsersRemove en up)]"

end
