(* ===== verification/Http_Admin.thy ===== *)
theory Http_Admin
  imports Http_Users
begin

text \<open>
  The HTTP interface of applications and of administrators: their part of the input adapter
  (\<open>src/app/pkg/adapters/httpin/http_admin_api_adapter.go\<close>) with the types, the handlers and the routes
  that the generator makes (\<open>src/app/pkg/infra/generated/httpinfra\<close>).
\<close>

section \<open>The interfaces of the use cases\<close>

record 'w application_port =
  pt_CreateApplication :: "CreateApplicationInput \<Rightarrow> ('w, Application) prog"
  pt_GetApplication :: "string \<Rightarrow> ('w, Application) prog"
  pt_EditApplication :: "EditApplicationInput \<Rightarrow> ('w, Application) prog"
  pt_DeleteApplication :: "string \<Rightarrow> ('w, Application) prog"
  pt_ListApplications :: "ListApplicationsInput \<Rightarrow> ('w, Application collection) prog"

definition DefaultApplicationUseCase :: "env \<Rightarrow> 'd world application_port" where
  "DefaultApplicationUseCase en =
     \<lparr>pt_CreateApplication = CreateApplication en, pt_GetApplication = GetApplication en,
      pt_EditApplication = EditApplication en, pt_DeleteApplication = DeleteApplication en,
      pt_ListApplications = ListApplications en\<rparr>"

record 'w administrator_port =
  pt_CreateAdmin :: "CreateAdminInput \<Rightarrow> ('w, Admin) prog"
  pt_GetAdmin :: "string \<Rightarrow> ('w, Admin) prog"
  pt_EditAdmin :: "EditAdminInput \<Rightarrow> ('w, Admin) prog"
  pt_DeleteAdmin :: "string \<Rightarrow> ('w, Admin) prog"
  pt_ListAdmins :: "ListAdminsInput \<Rightarrow> ('w, Admin collection) prog"

definition DefaultAdminUseCase :: "env \<Rightarrow> 'd world administrator_port" where
  "DefaultAdminUseCase en =
     \<lparr>pt_CreateAdmin = CreateAdmin en, pt_GetAdmin = GetAdmin en, pt_EditAdmin = EditAdmin en,
      pt_DeleteAdmin = DeleteAdmin en, pt_ListAdmins = ListAdmins en\<rparr>"

section \<open>Applications: the bodies of requests\<close>

record ApplicationCreationSpec =
  acp_ChainId :: "string option"
  acp_Description :: "string option"

definition zero_ApplicationCreationSpec :: ApplicationCreationSpec where
  "zero_ApplicationCreationSpec = \<lparr>acp_ChainId = None, acp_Description = None\<rparr>"

definition dec_ApplicationCreationSpec :: "ApplicationCreationSpec decoder" where
  "dec_ApplicationCreationSpec = dec_fields
     [field ''chainId'' acp_ChainId (\<lambda>x. acp_ChainId_update (\<lambda>_. x)) dec_string_ptr,
      field ''description'' acp_Description (\<lambda>x. acp_Description_update (\<lambda>_. x)) dec_string_ptr]"

definition validate_ApplicationCreationSpec :: "ApplicationCreationSpec \<Rightarrow> HTTPError + unit" where
  "validate_ApplicationCreationSpec data =
     andS (required (acp_ChainId data \<noteq> None) ''error validating field [chainId]'') (\<lambda>_.
     validate_description (acp_Description data))"

record ApplicationCreation =
  apc_Meta :: "ResourceMetaCreation option"
  apc_Spec :: "ApplicationCreationSpec option"

definition zero_ApplicationCreation :: ApplicationCreation where
  "zero_ApplicationCreation = \<lparr>apc_Meta = None, apc_Spec = None\<rparr>"

definition dec_ApplicationCreation :: "ApplicationCreation decoder" where
  "dec_ApplicationCreation = dec_fields
     [field ''meta'' apc_Meta (\<lambda>x. apc_Meta_update (\<lambda>_. x)) (dec_ptr \<lparr>mc_Id = None\<rparr> dec_ResourceMetaCreation),
      field ''spec'' apc_Spec (\<lambda>x. apc_Spec_update (\<lambda>_. x))
        (dec_ptr zero_ApplicationCreationSpec dec_ApplicationCreationSpec)]"

definition validate_ApplicationCreation :: "ApplicationCreation \<Rightarrow> HTTPError + unit" where
  "validate_ApplicationCreation data =
     andS (validate_part True ''meta'' validate_MetaCreation (apc_Meta data)) (\<lambda>_.
     validate_part False ''spec'' validate_ApplicationCreationSpec (apc_Spec data))"

record ApplicationUpdateSpec =
  aup_ChainId :: "string option"
  aup_Description :: "string option"

definition zero_ApplicationUpdateSpec :: ApplicationUpdateSpec where
  "zero_ApplicationUpdateSpec = \<lparr>aup_ChainId = None, aup_Description = None\<rparr>"

definition dec_ApplicationUpdateSpec :: "ApplicationUpdateSpec decoder" where
  "dec_ApplicationUpdateSpec = dec_fields
     [field ''chainId'' aup_ChainId (\<lambda>x. aup_ChainId_update (\<lambda>_. x)) dec_string_ptr,
      field ''description'' aup_Description (\<lambda>x. aup_Description_update (\<lambda>_. x)) dec_string_ptr]"

definition validate_ApplicationUpdateSpec :: "ApplicationUpdateSpec \<Rightarrow> HTTPError + unit" where
  "validate_ApplicationUpdateSpec data =
     andS (required (aup_ChainId data \<noteq> None) ''error validating field [chainId]'') (\<lambda>_.
     validate_description (aup_Description data))"

record ApplicationUpdate =
  apu_Meta :: "ResourceMetaUpdate option"
  apu_Spec :: "ApplicationUpdateSpec option"

definition zero_ApplicationUpdate :: ApplicationUpdate where
  "zero_ApplicationUpdate = \<lparr>apu_Meta = None, apu_Spec = None\<rparr>"

definition dec_ApplicationUpdate :: "ApplicationUpdate decoder" where
  "dec_ApplicationUpdate = dec_fields
     [field ''meta'' apu_Meta (\<lambda>x. apu_Meta_update (\<lambda>_. x)) (dec_ptr \<lparr>mu_ResourceVersion = None\<rparr> dec_ResourceMetaUpdate),
      field ''spec'' apu_Spec (\<lambda>x. apu_Spec_update (\<lambda>_. x)) (dec_ptr zero_ApplicationUpdateSpec dec_ApplicationUpdateSpec)]"

definition validate_ApplicationUpdate :: "ApplicationUpdate \<Rightarrow> HTTPError + unit" where
  "validate_ApplicationUpdate data =
     andS (validate_part False ''meta'' validate_MetaUpdate (apu_Meta data)) (\<lambda>_.
     validate_part True ''spec'' validate_ApplicationUpdateSpec (apu_Spec data))"

section \<open>Applications: the adapter\<close>

definition mapApplicationOut :: "Application \<Rightarrow> ApplicationDetail" where
  "mapApplicationOut app =
     \<lparr>apd_Meta = \<lparr>md_Id = App_ID app, md_ResourceVersion = App_ResourceVersion app,
        md_CreationDate = Int256_String (App_CreationDate app), md_LastUpdate = Int256_String (App_LastUpdate app)\<rparr>,
      apd_ChainId = Int256_String (App_DefaultChainID app), apd_Description = App_Description app\<rparr>"

definition validate_ApplicationDetail :: "ApplicationDetail \<Rightarrow> HTTPError + unit" where
  "validate_ApplicationDetail data = required (apd_Description data \<noteq> None) ''error validating field [spec]''"

definition chain_of :: "string \<Rightarrow> HTTPError + int" where
  "chain_of src = (case NewInt256FromString src of Inl err \<Rightarrow> Inl (NewHTTPError StatusInvalidArgument) | Inr c \<Rightarrow> Inr c)"

definition AdaptAdminApplicationsCreate ::
    "'w application_port \<Rightarrow> ApplicationCreation \<Rightarrow> ('w, ResponseType \<times> ApplicationDetail) handling" where
  "AdaptAdminApplicationsCreate p data =
     bindH (dereferenced (apc_Spec data)) (\<lambda>spec.
     bindH (dereferenced (acp_ChainId spec)) (\<lambda>chain.
     bindH (checked (chain_of chain)) (\<lambda>chainID.
     bindH (called (pt_CreateApplication p
       \<lparr>ca_ID = (case apc_Meta data of None \<Rightarrow> None | Some m \<Rightarrow> mc_Id m), ca_ChainID = chainID,
        ca_Description = acp_Description spec\<rparr>)) (\<lambda>out.
     checked (Inr (ResponseTypeCreated, mapApplicationOut out))))))"

definition AdaptAdminApplicationsDescribe ::
    "'w application_port \<Rightarrow> string \<Rightarrow> ('w, ResponseType \<times> ApplicationDetail) handling" where
  "AdaptAdminApplicationsDescribe p app =
     bindH (called (pt_GetApplication p app)) (\<lambda>out. checked (Inr (ResponseTypeOk, mapApplicationOut out)))"

definition AdaptAdminApplicationsEdit ::
    "'w application_port \<Rightarrow> string \<Rightarrow> ApplicationUpdate \<Rightarrow> ('w, ResponseType \<times> ApplicationDetail) handling" where
  "AdaptAdminApplicationsEdit p app data =
     bindH (dereferenced (apu_Spec data)) (\<lambda>spec.
     bindH (dereferenced (aup_ChainId spec)) (\<lambda>chain.
     bindH (checked (chain_of chain)) (\<lambda>chainID.
     bindH (dereferenced (apu_Meta data)) (\<lambda>meta.
     bindH (dereferenced (mu_ResourceVersion meta)) (\<lambda>version.
     bindH (called (pt_EditApplication p
       \<lparr>ea_ID = app, ea_ResourceVersion = version, ea_ChainID = Some chainID,
        ea_Description = aup_Description spec\<rparr>)) (\<lambda>out.
     checked (Inr (ResponseTypeOk, mapApplicationOut out))))))))"

definition AdaptAdminApplicationsList ::
    "'w application_port \<Rightarrow> http_page \<Rightarrow> ('w, ResponseType \<times> ApplicationDetail CollectionPage) handling" where
  "AdaptAdminApplicationsList p data =
     bindH (called (pt_ListApplications p
       \<lparr>la_PageLimit = or_zero (hp_Limit data), la_PageOffset = or_zero (hp_Offset data),
        la_OrderBy = hp_OrderBy data, la_OrderDirection = hp_OrderDirection data\<rparr>)) (\<lambda>out.
     checked (Inr (ResponseTypeOk, adapted_page mapApplicationOut out)))"

definition AdaptAdminApplicationsRemove ::
    "'w application_port \<Rightarrow> string \<Rightarrow> ('w, ResponseType \<times> ApplicationDetail) handling" where
  "AdaptAdminApplicationsRemove p app =
     bindH (called (pt_DeleteApplication p app)) (\<lambda>out. checked (Inr (ResponseTypeOk, mapApplicationOut out)))"

section \<open>Applications: the handlers\<close>

definition respond_application :: "ResponseType \<times> ApplicationDetail \<Rightarrow> ('w, nat \<times> http_body) handling" where
  "respond_application response =
     respond_validated (validate_ApplicationDetail (snd response)) (fst response) (ApplicationBody (snd response))"

definition HandleHTTPAdminApplicationsCreate :: "'w application_port \<Rightarrow> 'w http_handler" where
  "HandleHTTPAdminApplicationsCreate p r =
     bindH (checked (check_params [''ApplicationCreation''] r)) (\<lambda>_.
     bindH (checked (read_body zero_ApplicationCreation dec_ApplicationCreation validate_ApplicationCreation r)) (\<lambda>data.
     bindH (AdaptAdminApplicationsCreate p data) respond_application))"

definition HandleHTTPAdminApplicationsDescribe :: "'w application_port \<Rightarrow> 'w http_handler" where
  "HandleHTTPAdminApplicationsDescribe p r =
     bindH (checked (check_params [''applicationId''] r)) (\<lambda>_.
     bindH (AdaptAdminApplicationsDescribe p (path_var r ''applicationId'')) respond_application)"

definition HandleHTTPAdminApplicationsEdit :: "'w application_port \<Rightarrow> 'w http_handler" where
  "HandleHTTPAdminApplicationsEdit p r =
     bindH (checked (check_params [''applicationId'', ''ApplicationUpdate''] r)) (\<lambda>_.
     bindH (checked (read_body zero_ApplicationUpdate dec_ApplicationUpdate validate_ApplicationUpdate r)) (\<lambda>data.
     bindH (AdaptAdminApplicationsEdit p (path_var r ''applicationId'') data) respond_application))"

definition HandleHTTPAdminApplicationsList :: "'w application_port \<Rightarrow> 'w http_handler" where
  "HandleHTTPAdminApplicationsList p r =
     bindH (checked (check_params [''limit'', ''offset'', ''orderBy'', ''orderDirection''] r)) (\<lambda>_.
     bindH (checked (read_page r)) (\<lambda>page.
     bindH (AdaptAdminApplicationsList p page) (\<lambda>response.
     respond_validated (validate_items validate_ApplicationDetail (snd response)) (fst response) (ApplicationsBody (snd response)))))"

definition HandleHTTPAdminApplicationsRemove :: "'w application_port \<Rightarrow> 'w http_handler" where
  "HandleHTTPAdminApplicationsRemove p r =
     bindH (checked (check_params [''applicationId''] r)) (\<lambda>_.
     bindH (AdaptAdminApplicationsRemove p (path_var r ''applicationId'')) respond_application)"

definition AdminApplicationRoutes :: "'w application_port \<Rightarrow> (string \<times> 'w http_handler) list" where
  "AdminApplicationRoutes p =
     [(''admin.applications.create'', HandleHTTPAdminApplicationsCreate p),
      (''admin.applications.describe'', HandleHTTPAdminApplicationsDescribe p),
      (''admin.applications.edit'', HandleHTTPAdminApplicationsEdit p),
      (''admin.applications.list'', HandleHTTPAdminApplicationsList p),
      (''admin.applications.remove'', HandleHTTPAdminApplicationsRemove p)]"

section \<open>Administrators: the bodies of requests\<close>

record AdminUserCreationSpec = aus_Description :: "string option"

definition dec_AdminUserCreationSpec :: "AdminUserCreationSpec decoder" where
  "dec_AdminUserCreationSpec = dec_fields
     [field ''description'' aus_Description (\<lambda>x. aus_Description_update (\<lambda>_. x)) dec_string_ptr]"

definition validate_AdminUserCreationSpec :: "AdminUserCreationSpec \<Rightarrow> HTTPError + unit" where
  "validate_AdminUserCreationSpec data = validate_description (aus_Description data)"

record AdminUserCreation =
  auc_Meta :: "ResourceMetaCreation option"
  auc_Spec :: "AdminUserCreationSpec option"

definition zero_AdminUserCreation :: AdminUserCreation where
  "zero_AdminUserCreation = \<lparr>auc_Meta = None, auc_Spec = None\<rparr>"

definition dec_AdminUserCreation :: "AdminUserCreation decoder" where
  "dec_AdminUserCreation = dec_fields
     [field ''meta'' auc_Meta (\<lambda>x. auc_Meta_update (\<lambda>_. x)) (dec_ptr \<lparr>mc_Id = None\<rparr> dec_ResourceMetaCreation),
      field ''spec'' auc_Spec (\<lambda>x. auc_Spec_update (\<lambda>_. x)) (dec_ptr \<lparr>aus_Description = None\<rparr> dec_AdminUserCreationSpec)]"

definition validate_AdminUserCreation :: "AdminUserCreation \<Rightarrow> HTTPError + unit" where
  "validate_AdminUserCreation data =
     andS (validate_part True ''meta'' validate_MetaCreation (auc_Meta data)) (\<lambda>_.
     validate_part True ''spec'' validate_AdminUserCreationSpec (auc_Spec data))"

record AdminUserUpdate =
  auu_Meta :: "ResourceMetaUpdate option"
  auu_Spec :: "AdminUserCreationSpec option"

definition zero_AdminUserUpdate :: AdminUserUpdate where
  "zero_AdminUserUpdate = \<lparr>auu_Meta = None, auu_Spec = None\<rparr>"

definition dec_AdminUserUpdate :: "AdminUserUpdate decoder" where
  "dec_AdminUserUpdate = dec_fields
     [field ''meta'' auu_Meta (\<lambda>x. auu_Meta_update (\<lambda>_. x)) (dec_ptr \<lparr>mu_ResourceVersion = None\<rparr> dec_ResourceMetaUpdate),
      field ''spec'' auu_Spec (\<lambda>x. auu_Spec_update (\<lambda>_. x)) (dec_ptr \<lparr>aus_Description = None\<rparr> dec_AdminUserCreationSpec)]"

definition validate_AdminUserUpdate :: "AdminUserUpdate \<Rightarrow> HTTPError + unit" where
  "validate_AdminUserUpdate data =
     andS (validate_part False ''meta'' validate_MetaUpdate (auu_Meta data)) (\<lambda>_.
     validate_part True ''spec'' validate_AdminUserCreationSpec (auu_Spec data))"

section \<open>Administrators: the adapter\<close>

definition admin_detail :: "Admin \<Rightarrow> AdminUserDetail" where
  "admin_detail out =
     \<lparr>aud_Meta = \<lparr>md_Id = Adm_ID out, md_ResourceVersion = Adm_ResourceVersion out,
        md_CreationDate = Int256_String (Adm_CreationDate out), md_LastUpdate = Int256_String (Adm_LastUpdate out)\<rparr>,
      aud_Roles = Adm_Roles out, aud_Description = Adm_Description out\<rparr>"

definition validate_AdminUserDetail :: "AdminUserDetail \<Rightarrow> HTTPError + unit" where
  "validate_AdminUserDetail data = required (aud_Description data \<noteq> None) ''error validating field [spec]''"

definition AdaptAdminUsersCreate ::
    "'w administrator_port \<Rightarrow> AdminUserCreation \<Rightarrow> ('w, ResponseType \<times> AdminUserDetail) handling" where
  "AdaptAdminUsersCreate p data =
     bindH (called (pt_CreateAdmin p
       \<lparr>cad_ID = (case auc_Meta data of None \<Rightarrow> [] | Some m \<Rightarrow> (case mc_Id m of None \<Rightarrow> [] | Some i \<Rightarrow> i)),
        cad_Description = (case auc_Spec data of None \<Rightarrow> None | Some s \<Rightarrow> aus_Description s)\<rparr>)) (\<lambda>out.
     checked (Inr (ResponseTypeCreated, admin_detail out)))"

definition AdaptAdminUsersDescribe ::
    "'w administrator_port \<Rightarrow> string \<Rightarrow> ('w, ResponseType \<times> AdminUserDetail) handling" where
  "AdaptAdminUsersDescribe p ident =
     bindH (called (pt_GetAdmin p ident)) (\<lambda>out. checked (Inr (ResponseTypeOk, admin_detail out)))"

definition AdaptAdminUsersEdit ::
    "'w administrator_port \<Rightarrow> string \<Rightarrow> AdminUserUpdate \<Rightarrow> ('w, ResponseType \<times> AdminUserDetail) handling" where
  "AdaptAdminUsersEdit p ident data =
     bindH (dereferenced (auu_Meta data)) (\<lambda>meta.
     bindH (dereferenced (mu_ResourceVersion meta)) (\<lambda>version.
     bindH (called (pt_EditAdmin p
       \<lparr>ead_ID = ident, ead_ResourceVersion = version,
        ead_Description = (case auu_Spec data of None \<Rightarrow> None | Some s \<Rightarrow> aus_Description s)\<rparr>)) (\<lambda>out.
     checked (Inr (ResponseTypeOk, admin_detail out)))))"

definition AdaptAdminUsersList ::
    "'w administrator_port \<Rightarrow> http_page \<Rightarrow> ('w, ResponseType \<times> AdminUserDetail CollectionPage) handling" where
  "AdaptAdminUsersList p data =
     bindH (called (pt_ListAdmins p
       \<lparr>lad_PageLimit = or_zero (hp_Limit data), lad_PageOffset = or_zero (hp_Offset data),
        lad_OrderBy = hp_OrderBy data, lad_OrderDirection = hp_OrderDirection data\<rparr>)) (\<lambda>out.
     checked (Inr (ResponseTypeOk, adapted_page admin_detail out)))"

definition AdaptAdminUsersRemove ::
    "'w administrator_port \<Rightarrow> string \<Rightarrow> ('w, ResponseType \<times> AdminUserDetail) handling" where
  "AdaptAdminUsersRemove p ident =
     bindH (called (pt_DeleteAdmin p ident)) (\<lambda>out. checked (Inr (ResponseTypeOk, admin_detail out)))"

section \<open>Administrators: the handlers\<close>

definition respond_admin :: "ResponseType \<times> AdminUserDetail \<Rightarrow> ('w, nat \<times> http_body) handling" where
  "respond_admin response =
     respond_validated (validate_AdminUserDetail (snd response)) (fst response) (AdminUserBody (snd response))"

definition HandleHTTPAdminUsersCreate :: "'w administrator_port \<Rightarrow> 'w http_handler" where
  "HandleHTTPAdminUsersCreate p r =
     bindH (checked (check_params [''AdminUserCreation''] r)) (\<lambda>_.
     bindH (checked (read_body zero_AdminUserCreation dec_AdminUserCreation validate_AdminUserCreation r)) (\<lambda>data.
     bindH (AdaptAdminUsersCreate p data) respond_admin))"

definition HandleHTTPAdminUsersDescribe :: "'w administrator_port \<Rightarrow> 'w http_handler" where
  "HandleHTTPAdminUsersDescribe p r =
     bindH (checked (check_params [''adminUserId''] r)) (\<lambda>_.
     bindH (AdaptAdminUsersDescribe p (path_var r ''adminUserId'')) respond_admin)"

definition HandleHTTPAdminUsersEdit :: "'w administrator_port \<Rightarrow> 'w http_handler" where
  "HandleHTTPAdminUsersEdit p r =
     bindH (checked (check_params [''adminUserId'', ''AdminUserUpdate''] r)) (\<lambda>_.
     bindH (checked (read_body zero_AdminUserUpdate dec_AdminUserUpdate validate_AdminUserUpdate r)) (\<lambda>data.
     bindH (AdaptAdminUsersEdit p (path_var r ''adminUserId'') data) respond_admin))"

definition HandleHTTPAdminUsersList :: "'w administrator_port \<Rightarrow> 'w http_handler" where
  "HandleHTTPAdminUsersList p r =
     bindH (checked (check_params [''limit'', ''offset'', ''orderBy'', ''orderDirection''] r)) (\<lambda>_.
     bindH (checked (read_page r)) (\<lambda>page.
     bindH (AdaptAdminUsersList p page) (\<lambda>response.
     respond_validated (validate_items validate_AdminUserDetail (snd response)) (fst response) (AdminUsersBody (snd response)))))"

definition HandleHTTPAdminUsersRemove :: "'w administrator_port \<Rightarrow> 'w http_handler" where
  "HandleHTTPAdminUsersRemove p r =
     bindH (checked (check_params [''adminUserId''] r)) (\<lambda>_.
     bindH (AdaptAdminUsersRemove p (path_var r ''adminUserId'')) respond_admin)"

definition AdminUserRoutes :: "'w administrator_port \<Rightarrow> (string \<times> 'w http_handler) list" where
  "AdminUserRoutes p =
     [(''admin.users.create'', HandleHTTPAdminUsersCreate p),
      (''admin.users.describe'', HandleHTTPAdminUsersDescribe p),
      (''admin.users.edit'', HandleHTTPAdminUsersEdit p),
      (''admin.users.list'', HandleHTTPAdminUsersList p),
      (''admin.users.remove'', HandleHTTPAdminUsersRemove p)]"

end
