(* ===== verification/Http_Modules.thy ===== *)
theory Http_Modules
  imports Http_Admin
begin

text \<open>
  The HTTP interface of HSM modules and their slots: their part of the input adapter
  (\<open>src/app/pkg/adapters/httpin/http_admin_api_adapter.go\<close>) with the types, the handlers and the routes
  that the generator makes (\<open>src/app/pkg/infra/generated/httpinfra\<close>), and the table of all routes.

  The configuration of a module is decoded as any other struct: the method \<open>UnmarshalJSON\<close> of its type
  returns no \<open>error\<close>, so that \<open>encoding/json\<close> does not call it.
\<close>

section \<open>The interfaces of the use cases\<close>

record 'w module_port =
  pt_CreateHSMModule :: "CreateHSMModuleInput \<Rightarrow> ('w, HSMModule) prog"
  pt_GetHSMModule :: "string \<Rightarrow> ('w, HSMModule) prog"
  pt_EditHSMModule :: "HSMModule \<Rightarrow> ('w, HSMModule) prog"
  pt_DeleteHSMModule :: "string \<Rightarrow> ('w, HSMModule) prog"
  pt_ListHSMModules :: "ListHSMModulesInput \<Rightarrow> ('w, HSMModule collection) prog"

definition DefaultHSMModuleUseCase :: "env \<Rightarrow> 'd world module_port" where
  "DefaultHSMModuleUseCase en =
     \<lparr>pt_CreateHSMModule = CreateHSMModule en, pt_GetHSMModule = GetHSMModule en,
      pt_EditHSMModule = EditHSMModule en, pt_DeleteHSMModule = DeleteHSMModule en,
      pt_ListHSMModules = ListHSMModules en\<rparr>"

record 'w slot_port =
  pt_CreateHSMSlot :: "CreateHSMSlotInput \<Rightarrow> ('w, HSMSlot) prog"
  pt_GetHSMSlot :: "string \<Rightarrow> ('w, HSMSlot) prog"
  pt_DeleteHSMSlot :: "string \<Rightarrow> ('w, HSMSlot) prog"
  pt_EditPin :: "EditPinInput \<Rightarrow> ('w, HSMSlot) prog"
  pt_EditConfig :: "EditConfigInput \<Rightarrow> ('w, HSMSlot) prog"
  pt_ListHSMSlotsByHSMModule :: "ListHSMSlotsByHSMModuleInput \<Rightarrow> ('w, HSMSlot collection) prog"

definition DefaultHSMSlotUseCase :: "env \<Rightarrow> 'd connector \<Rightarrow> 'd world slot_port" where
  "DefaultHSMSlotUseCase en cn =
     \<lparr>pt_CreateHSMSlot = CreateHSMSlot en cn, pt_GetHSMSlot = GetHSMSlot en, pt_DeleteHSMSlot = DeleteHSMSlot en,
      pt_EditPin = EditPin en cn, pt_EditConfig = EditConfig en,
      pt_ListHSMSlotsByHSMModule = ListHSMSlotsByHSMModule en\<rparr>"

section \<open>Modules: the bodies of requests\<close>

definition HsmKindAkv :: string where "HsmKindAkv = ''AKV''"
definition HsmKindLocalkeyvault :: string where "HsmKindLocalkeyvault = ''LocalKeyVault''"
definition HsmKindSofthsm :: string where "HsmKindSofthsm = ''softHSM''"

text \<open>The three types \<open>ModuleKindAkv\<close>, \<open>ModuleKindLocalKeyVault\<close> and \<open>ModuleKindSoftHsm\<close> are alike.\<close>

record ModuleKind = mk_HsmKind :: "string option"

definition dec_ModuleKind :: "ModuleKind option decoder" where
  "dec_ModuleKind = dec_ptr \<lparr>mk_HsmKind = None\<rparr>
     (dec_fields [field ''hsmKind'' mk_HsmKind (\<lambda>x. mk_HsmKind_update (\<lambda>_. x)) dec_string_ptr])"

definition validate_ModuleKind :: "ModuleKind \<Rightarrow> HTTPError + unit" where
  "validate_ModuleKind data = required (mk_HsmKind data \<noteq> None) ''error validating field [hsmKind]''"

record ModuleSpecConfiguration =
  msc_HsmKind :: string
  msc_Akv :: "ModuleKind option"
  msc_LocalKeyVault :: "ModuleKind option"
  msc_SoftHsm :: "ModuleKind option"

definition zero_ModuleSpecConfiguration :: ModuleSpecConfiguration where
  "zero_ModuleSpecConfiguration = \<lparr>msc_HsmKind = [], msc_Akv = None, msc_LocalKeyVault = None, msc_SoftHsm = None\<rparr>"

definition dec_ModuleSpecConfiguration :: "ModuleSpecConfiguration decoder" where
  "dec_ModuleSpecConfiguration = dec_fields
     [field ''hsmkind'' msc_HsmKind (\<lambda>x. msc_HsmKind_update (\<lambda>_. x)) dec_string,
      field ''modulekindakv'' msc_Akv (\<lambda>x. msc_Akv_update (\<lambda>_. x)) dec_ModuleKind,
      field ''modulekindlocalkeyvault'' msc_LocalKeyVault (\<lambda>x. msc_LocalKeyVault_update (\<lambda>_. x)) dec_ModuleKind,
      field ''modulekindsofthsm'' msc_SoftHsm (\<lambda>x. msc_SoftHsm_update (\<lambda>_. x)) dec_ModuleKind]"

text \<open>The errors here print the pointer to the part; they are replaced by the caller.\<close>

definition validate_ModuleSpecConfiguration :: "ModuleSpecConfiguration \<Rightarrow> HTTPError + unit" where
  "validate_ModuleSpecConfiguration data =
     andS (validate_part True [] validate_ModuleKind (msc_Akv data)) (\<lambda>_.
     andS (validate_part True [] validate_ModuleKind (msc_LocalKeyVault data)) (\<lambda>_.
     validate_part True [] validate_ModuleKind (msc_SoftHsm data)))"

record ModuleSpec =
  msp_Configuration :: "ModuleSpecConfiguration option"
  msp_Description :: "string option"

definition zero_ModuleSpec :: ModuleSpec where
  "zero_ModuleSpec = \<lparr>msp_Configuration = None, msp_Description = None\<rparr>"

definition dec_ModuleSpec :: "ModuleSpec decoder" where
  "dec_ModuleSpec = dec_fields
     [field ''configuration'' msp_Configuration (\<lambda>x. msp_Configuration_update (\<lambda>_. x))
        (dec_ptr zero_ModuleSpecConfiguration dec_ModuleSpecConfiguration),
      field ''description'' msp_Description (\<lambda>x. msp_Description_update (\<lambda>_. x)) dec_string_ptr]"

definition validate_ModuleSpec :: "ModuleSpec \<Rightarrow> HTTPError + unit" where
  "validate_ModuleSpec data =
     andS (validate_part True ''configuration'' validate_ModuleSpecConfiguration (msp_Configuration data)) (\<lambda>_.
     required (msp_Description data \<noteq> None) ''error validating field [description]'')"

record ModuleCreation =
  mdc_Meta :: "ResourceMetaCreation option"
  mdc_Spec :: "ModuleSpec option"

definition zero_ModuleCreation :: ModuleCreation where
  "zero_ModuleCreation = \<lparr>mdc_Meta = None, mdc_Spec = None\<rparr>"

definition dec_ModuleCreation :: "ModuleCreation decoder" where
  "dec_ModuleCreation = dec_fields
     [field ''meta'' mdc_Meta (\<lambda>x. mdc_Meta_update (\<lambda>_. x)) (dec_ptr \<lparr>mc_Id = None\<rparr> dec_ResourceMetaCreation),
      field ''spec'' mdc_Spec (\<lambda>x. mdc_Spec_update (\<lambda>_. x)) (dec_ptr zero_ModuleSpec dec_ModuleSpec)]"

definition validate_ModuleCreation :: "ModuleCreation \<Rightarrow> HTTPError + unit" where
  "validate_ModuleCreation data =
     andS (validate_part True ''meta'' validate_MetaCreation (mdc_Meta data)) (\<lambda>_.
     validate_part False ''spec'' validate_ModuleSpec (mdc_Spec data))"

record ModuleUpdate =
  mdu_Meta :: "ResourceMetaUpdate option"
  mdu_Spec :: "ModuleSpec option"

definition zero_ModuleUpdate :: ModuleUpdate where
  "zero_ModuleUpdate = \<lparr>mdu_Meta = None, mdu_Spec = None\<rparr>"

definition dec_ModuleUpdate :: "ModuleUpdate decoder" where
  "dec_ModuleUpdate = dec_fields
     [field ''meta'' mdu_Meta (\<lambda>x. mdu_Meta_update (\<lambda>_. x)) (dec_ptr \<lparr>mu_ResourceVersion = None\<rparr> dec_ResourceMetaUpdate),
      field ''spec'' mdu_Spec (\<lambda>x. mdu_Spec_update (\<lambda>_. x)) (dec_ptr zero_ModuleSpec dec_ModuleSpec)]"

definition validate_ModuleUpdate :: "ModuleUpdate \<Rightarrow> HTTPError + unit" where
  "validate_ModuleUpdate data =
     andS (validate_part False ''meta'' validate_MetaUpdate (mdu_Meta data)) (\<lambda>_.
     validate_part False ''spec'' validate_ModuleSpec (mdu_Spec data))"

section \<open>Modules: the adapter\<close>

definition mapUseCaseHSMKindFrom :: "string \<Rightarrow> HTTPError + string" where
  "mapUseCaseHSMKindFrom configurationKind =
     (if configurationKind = HsmKindSofthsm then Inr SoftHSMModuleKind
      else if configurationKind = HsmKindAkv then Inr AKVModuleKind
      else if configurationKind = HsmKindLocalkeyvault then Inr LKVModuleKind
      else Inl ((NewHTTPError StatusInternal)\<lparr>http_message :=
        ''can't map '' @ quoted configurationKind @ '' to usecase HSM type''\<rparr>))"

definition mapModuleCreationSpecConfigurationTypeFrom :: "string \<Rightarrow> HTTPError + string" where
  "mapModuleCreationSpecConfigurationTypeFrom configurationType =
     (if configurationType = SoftHSMModuleKind then Inr HsmKindSofthsm
      else if configurationType = AKVModuleKind then Inr HsmKindAkv
      else if configurationType = LKVModuleKind then Inr HsmKindLocalkeyvault
      else Inl ((NewHTTPError StatusInternal)\<lparr>http_message :=
        ''cannot map invalid module kind '' @ bracketed configurationType\<rparr>))"

definition mapModule :: "HSMModule \<Rightarrow> HTTPError + ModuleDetail" where
  "mapModule module =
     andS (mapModuleCreationSpecConfigurationTypeFrom (Mod_Kind module)) (\<lambda>kind.
     Inr \<lparr>mod_Meta = \<lparr>md_Id = Mod_ID module, md_ResourceVersion = Mod_ResourceVersion module,
            md_CreationDate = Int256_String (Mod_CreationDate module),
            md_LastUpdate = Int256_String (Mod_LastUpdate module)\<rparr>,
          mod_HsmKind = kind, mod_Description = Mod_Description module\<rparr>)"

text \<open>The module that a use case returns, whose error becomes one without a message.\<close>

definition module_answer :: "HSMModule \<Rightarrow> HTTPError + ResponseType \<times> ModuleDetail" where
  "module_answer module =
     (case mapModule module of Inl err \<Rightarrow> Inl (NewHTTPError StatusInternal) | Inr m \<Rightarrow> Inr (ResponseTypeCreated, m))"

definition validate_ModuleDetail :: "ModuleDetail \<Rightarrow> HTTPError + unit" where
  "validate_ModuleDetail data = required (mod_Description data \<noteq> None) ''error validating field [spec]''"

definition no_configuration :: HSMModuleConfiguration where
  "no_configuration = \<lparr>SoftHSMConfiguration = None, AKVConfiguration = None, LKVConfiguration = None\<rparr>"

definition AdaptAdminModulesCreate ::
    "'w module_port \<Rightarrow> ModuleCreation \<Rightarrow> ('w, ResponseType \<times> ModuleDetail) handling" where
  "AdaptAdminModulesCreate p request =
     (let ident = (case mdc_Meta request of None \<Rightarrow> None | Some m \<Rightarrow> mc_Id m);
          description = (case mdc_Spec request of None \<Rightarrow> None | Some s \<Rightarrow> msp_Description s) in
      bindH (checked (case (case mdc_Spec request of None \<Rightarrow> None | Some s \<Rightarrow> msp_Configuration s) of
          None \<Rightarrow> Inr ([], no_configuration)
        | Some c \<Rightarrow> andS (mapUseCaseHSMKindFrom (msc_HsmKind c)) (\<lambda>moduleKind.
            Inr (moduleKind,
              \<lparr>SoftHSMConfiguration = (if msc_HsmKind c = HsmKindSofthsm then Some () else None),
               AKVConfiguration = (if msc_HsmKind c = HsmKindAkv then Some () else None),
               LKVConfiguration = (if msc_HsmKind c = HsmKindLocalkeyvault then Some () else None)\<rparr>)))) (\<lambda>(moduleKind, configuration).
      bindH (called (pt_CreateHSMModule p
        \<lparr>cm_ID = ident, cm_Description = description, cm_Configuration = configuration, cm_ModuleKind = moduleKind\<rparr>)) (\<lambda>out.
      checked (module_answer out))))"

definition AdaptAdminModulesDescribe :: "'w module_port \<Rightarrow> string \<Rightarrow> ('w, ResponseType \<times> ModuleDetail) handling" where
  "AdaptAdminModulesDescribe p ident =
     bindH (called (pt_GetHSMModule p ident)) (\<lambda>out. checked (module_answer out))"

definition AdaptAdminModulesEdit ::
    "'w module_port \<Rightarrow> string \<Rightarrow> ModuleUpdate \<Rightarrow> ('w, ResponseType \<times> ModuleDetail) handling" where
  "AdaptAdminModulesEdit p ident request =
     (let version = (case mdu_Meta request of None \<Rightarrow> [] | Some m \<Rightarrow>
            (case mu_ResourceVersion m of None \<Rightarrow> [] | Some v \<Rightarrow> v));
          description = (case mdu_Spec request of None \<Rightarrow> None | Some s \<Rightarrow> msp_Description s) in
      bindH (checked (case (case mdu_Spec request of None \<Rightarrow> None | Some s \<Rightarrow> msp_Configuration s) of
          None \<Rightarrow> Inr ([], no_configuration)
        | Some c \<Rightarrow> andS (mapUseCaseHSMKindFrom (msc_HsmKind c)) (\<lambda>moduleKind.
            Inr (moduleKind,
              \<lparr>SoftHSMConfiguration = (if msc_HsmKind c = HsmKindSofthsm then Some () else None),
               AKVConfiguration = (if msc_HsmKind c = HsmKindAkv then Some () else None),
               LKVConfiguration = None\<rparr>)))) (\<lambda>(moduleKind, configuration).
      bindH (called (pt_EditHSMModule p
        \<lparr>Mod_ID = ident, Mod_InternalResourceID = [], Mod_Description = description,
         Mod_Configuration = configuration, Mod_Kind = moduleKind, Mod_CreationDate = 0, Mod_LastUpdate = 0,
         Mod_ResourceVersion = version\<rparr>)) (\<lambda>out.
      checked (module_answer out))))"

fun mapped_modules :: "HSMModule list \<Rightarrow> HTTPError + ModuleDetail list" where
  "mapped_modules [] = Inr []"
| "mapped_modules (item # items) =
     (case mapModule item of
        Inl mapErr \<Rightarrow> Inl (NewHTTPError StatusInternal)
      | Inr m \<Rightarrow> andS (mapped_modules items) (\<lambda>ms. Inr (m # ms)))"

definition AdaptAdminModulesList ::
    "'w module_port \<Rightarrow> http_page \<Rightarrow> ('w, ResponseType \<times> ModuleDetail CollectionPage) handling" where
  "AdaptAdminModulesList p data =
     bindH (called (pt_ListHSMModules p
       \<lparr>lm_PageLimit = or_zero (hp_Limit data), lm_PageOffset = or_zero (hp_Offset data),
        lm_OrderBy = hp_OrderBy data, lm_OrderDirection = hp_OrderDirection data\<rparr>)) (\<lambda>out.
     bindH (checked (mapped_modules (co_Items out))) (\<lambda>items.
     checked (Inr (ResponseTypeOk,
       \<lparr>cp_Items = items, cp_Limit = word_of_int (co_Limit out), cp_Offset = word_of_int (co_Offset out),
        cp_MoreItems = co_MoreItems out\<rparr>))))"

definition AdaptAdminModulesRemove :: "'w module_port \<Rightarrow> string \<Rightarrow> ('w, ResponseType \<times> ModuleDetail) handling" where
  "AdaptAdminModulesRemove p ident =
     bindH (called (pt_DeleteHSMModule p ident)) (\<lambda>out. checked (module_answer out))"

section \<open>Modules: the handlers\<close>

definition respond_module :: "ResponseType \<times> ModuleDetail \<Rightarrow> ('w, nat \<times> http_body) handling" where
  "respond_module response =
     respond_validated (validate_ModuleDetail (snd response)) (fst response) (ModuleBody (snd response))"

definition HandleHTTPAdminModulesCreate :: "'w module_port \<Rightarrow> 'w http_handler" where
  "HandleHTTPAdminModulesCreate p r =
     bindH (checked (check_params [''ModuleCreation''] r)) (\<lambda>_.
     bindH (checked (read_body zero_ModuleCreation dec_ModuleCreation validate_ModuleCreation r)) (\<lambda>data.
     bindH (AdaptAdminModulesCreate p data) respond_module))"

definition HandleHTTPAdminModulesDescribe :: "'w module_port \<Rightarrow> 'w http_handler" where
  "HandleHTTPAdminModulesDescribe p r =
     bindH (checked (check_params [''moduleId''] r)) (\<lambda>_.
     bindH (AdaptAdminModulesDescribe p (path_var r ''moduleId'')) respond_module)"

definition HandleHTTPAdminModulesEdit :: "'w module_port \<Rightarrow> 'w http_handler" where
  "HandleHTTPAdminModulesEdit p r =
     bindH (checked (check_params [''moduleId'', ''ModuleUpdate''] r)) (\<lambda>_.
     bindH (checked (read_body zero_ModuleUpdate dec_ModuleUpdate validate_ModuleUpdate r)) (\<lambda>data.
     bindH (AdaptAdminModulesEdit p (path_var r ''moduleId'') data) respond_module))"

definition HandleHTTPAdminModulesList :: "'w module_port \<Rightarrow> 'w http_handler" where
  "HandleHTTPAdminModulesList p r =
     bindH (checked (check_params [''limit'', ''offset'', ''orderBy'', ''orderDirection''] r)) (\<lambda>_.
     bindH (checked (read_page r)) (\<lambda>page.
     bindH (AdaptAdminModulesList p page) (\<lambda>response.
     respond_validated (validate_items validate_ModuleDetail (snd response)) (fst response) (ModulesBody (snd response)))))"

definition HandleHTTPAdminModulesRemove :: "'w module_port \<Rightarrow> 'w http_handler" where
  "HandleHTTPAdminModulesRemove p r =
     bindH (checked (check_params [''moduleId''] r)) (\<lambda>_.
     bindH (AdaptAdminModulesRemove p (path_var r ''moduleId'')) respond_module)"

definition AdminModuleRoutes :: "'w module_port \<Rightarrow> (string \<times> 'w http_handler) list" where
  "AdminModuleRoutes p =
     [(''admin.modules.create'', HandleHTTPAdminModulesCreate p),
      (''admin.modules.describe'', HandleHTTPAdminModulesDescribe p),
      (''admin.modules.edit'', HandleHTTPAdminModulesEdit p),
      (''admin.modules.list'', HandleHTTPAdminModulesList p),
      (''admin.modules.remove'', HandleHTTPAdminModulesRemove p)]"

section \<open>Slots: the bodies of requests\<close>

record SlotDetailConfig =
  sdc_KeyName :: "string option"
  sdc_KeyVersion :: "string option"
  sdc_KeyPublicAddress :: "string option"

definition zero_SlotDetailConfig :: SlotDetailConfig where
  "zero_SlotDetailConfig = \<lparr>sdc_KeyName = None, sdc_KeyVersion = None, sdc_KeyPublicAddress = None\<rparr>"

definition dec_SlotDetailConfig :: "SlotDetailConfig decoder" where
  "dec_SlotDetailConfig = dec_fields
     [field ''keyName'' sdc_KeyName (\<lambda>x. sdc_KeyName_update (\<lambda>_. x)) dec_string_ptr,
      field ''keyVersion'' sdc_KeyVersion (\<lambda>x. sdc_KeyVersion_update (\<lambda>_. x)) dec_string_ptr,
      field ''keyPublicAddress'' sdc_KeyPublicAddress (\<lambda>x. sdc_KeyPublicAddress_update (\<lambda>_. x)) dec_string_ptr]"

definition dec_configs :: "SlotDetailConfig slice option decoder" where
  "dec_configs = dec_ptr None (dec_slice zero_SlotDetailConfig dec_SlotDetailConfig)"

definition validate_SlotDetailConfig :: "SlotDetailConfig \<Rightarrow> HTTPError + unit" where
  "validate_SlotDetailConfig data =
     andS (required (sdc_KeyName data \<noteq> None) ''error validating field [keyName]'') (\<lambda>_.
     andS (required (sdc_KeyVersion data \<noteq> None) ''error validating field [keyVersion]'') (\<lambda>_.
     required (sdc_KeyPublicAddress data \<noteq> None) ''error validating field [keyPublicAddress]''))"

definition validate_configs :: "bool \<Rightarrow> SlotDetailConfig slice option \<Rightarrow> HTTPError + unit" where
  "validate_configs optional config =
     (case config of
        None \<Rightarrow> required optional ''error validating field [config]''
      | Some items \<Rightarrow> required (list_all (\<lambda>item. case validate_SlotDetailConfig item of Inl _ \<Rightarrow> False | Inr _ \<Rightarrow> True)
          (seen items)) ''error validating field [Config]'')"

record SlotCreationSpec =
  scs_ApplicationId :: "string option"
  scs_Slot :: "string option"
  scs_Pin :: "string option"
  scs_Config :: "SlotDetailConfig slice option"

definition zero_SlotCreationSpec :: SlotCreationSpec where
  "zero_SlotCreationSpec = \<lparr>scs_ApplicationId = None, scs_Slot = None, scs_Pin = None, scs_Config = None\<rparr>"

definition dec_SlotCreationSpec :: "SlotCreationSpec decoder" where
  "dec_SlotCreationSpec = dec_fields
     [field ''applicationId'' scs_ApplicationId (\<lambda>x. scs_ApplicationId_update (\<lambda>_. x)) dec_string_ptr,
      field ''slot'' scs_Slot (\<lambda>x. scs_Slot_update (\<lambda>_. x)) dec_string_ptr,
      field ''pin'' scs_Pin (\<lambda>x. scs_Pin_update (\<lambda>_. x)) dec_string_ptr,
      field ''config'' scs_Config (\<lambda>x. scs_Config_update (\<lambda>_. x)) dec_configs]"

definition validate_SlotCreationSpec :: "SlotCreationSpec \<Rightarrow> HTTPError + unit" where
  "validate_SlotCreationSpec data =
     andS (required (scs_ApplicationId data \<noteq> None) ''error validating field [applicationId]'') (\<lambda>_.
     validate_configs True (scs_Config data))"

record SlotCreation =
  slc_Meta :: "ResourceMetaCreation option"
  slc_Spec :: "SlotCreationSpec option"

definition zero_SlotCreation :: SlotCreation where
  "zero_SlotCreation = \<lparr>slc_Meta = None, slc_Spec = None\<rparr>"

definition dec_SlotCreation :: "SlotCreation decoder" where
  "dec_SlotCreation = dec_fields
     [field ''meta'' slc_Meta (\<lambda>x. slc_Meta_update (\<lambda>_. x)) (dec_ptr \<lparr>mc_Id = None\<rparr> dec_ResourceMetaCreation),
      field ''spec'' slc_Spec (\<lambda>x. slc_Spec_update (\<lambda>_. x)) (dec_ptr zero_SlotCreationSpec dec_SlotCreationSpec)]"

definition validate_SlotCreation :: "SlotCreation \<Rightarrow> HTTPError + unit" where
  "validate_SlotCreation data =
     andS (validate_part True ''meta'' validate_MetaCreation (slc_Meta data)) (\<lambda>_.
     validate_part False ''spec'' validate_SlotCreationSpec (slc_Spec data))"

record SlotUpdatePinSpec = sps_Pin :: "string option"

definition dec_SlotUpdatePinSpec :: "SlotUpdatePinSpec decoder" where
  "dec_SlotUpdatePinSpec = dec_fields [field ''pin'' sps_Pin (\<lambda>x. sps_Pin_update (\<lambda>_. x)) dec_string_ptr]"

definition validate_SlotUpdatePinSpec :: "SlotUpdatePinSpec \<Rightarrow> HTTPError + unit" where
  "validate_SlotUpdatePinSpec data = required (sps_Pin data \<noteq> None) ''error validating field [pin]''"

record SlotUpdatePin =
  spu_Meta :: "ResourceMetaUpdate option"
  spu_Spec :: "SlotUpdatePinSpec option"

definition zero_SlotUpdatePin :: SlotUpdatePin where
  "zero_SlotUpdatePin = \<lparr>spu_Meta = None, spu_Spec = None\<rparr>"

definition dec_SlotUpdatePin :: "SlotUpdatePin decoder" where
  "dec_SlotUpdatePin = dec_fields
     [field ''meta'' spu_Meta (\<lambda>x. spu_Meta_update (\<lambda>_. x)) (dec_ptr \<lparr>mu_ResourceVersion = None\<rparr> dec_ResourceMetaUpdate),
      field ''spec'' spu_Spec (\<lambda>x. spu_Spec_update (\<lambda>_. x)) (dec_ptr \<lparr>sps_Pin = None\<rparr> dec_SlotUpdatePinSpec)]"

definition validate_SlotUpdatePin :: "SlotUpdatePin \<Rightarrow> HTTPError + unit" where
  "validate_SlotUpdatePin data =
     andS (validate_part False ''meta'' validate_MetaUpdate (spu_Meta data)) (\<lambda>_.
     validate_part True ''spec'' validate_SlotUpdatePinSpec (spu_Spec data))"

record SlotUpdateConfigSpec = sgs_Config :: "SlotDetailConfig slice option"

definition dec_SlotUpdateConfigSpec :: "SlotUpdateConfigSpec decoder" where
  "dec_SlotUpdateConfigSpec = dec_fields [field ''config'' sgs_Config (\<lambda>x. sgs_Config_update (\<lambda>_. x)) dec_configs]"

definition validate_SlotUpdateConfigSpec :: "SlotUpdateConfigSpec \<Rightarrow> HTTPError + unit" where
  "validate_SlotUpdateConfigSpec data = validate_configs False (sgs_Config data)"

record SlotUpdateConfig =
  sgu_Meta :: "ResourceMetaUpdate option"
  sgu_Spec :: "SlotUpdateConfigSpec option"

definition zero_SlotUpdateConfig :: SlotUpdateConfig where
  "zero_SlotUpdateConfig = \<lparr>sgu_Meta = None, sgu_Spec = None\<rparr>"

definition dec_SlotUpdateConfig :: "SlotUpdateConfig decoder" where
  "dec_SlotUpdateConfig = dec_fields
     [field ''meta'' sgu_Meta (\<lambda>x. sgu_Meta_update (\<lambda>_. x)) (dec_ptr \<lparr>mu_ResourceVersion = None\<rparr> dec_ResourceMetaUpdate),
      field ''spec'' sgu_Spec (\<lambda>x. sgu_Spec_update (\<lambda>_. x)) (dec_ptr \<lparr>sgs_Config = None\<rparr> dec_SlotUpdateConfigSpec)]"

definition validate_SlotUpdateConfig :: "SlotUpdateConfig \<Rightarrow> HTTPError + unit" where
  "validate_SlotUpdateConfig data =
     andS (validate_part False ''meta'' validate_MetaUpdate (sgu_Meta data)) (\<lambda>_.
     validate_part True ''spec'' validate_SlotUpdateConfigSpec (sgu_Spec data))"

section \<open>Slots: the adapter\<close>

definition mapSlot :: "HSMSlot \<Rightarrow> SlotDetail" where
  "mapSlot slot =
     \<lparr>sld_Meta = \<lparr>md_Id = Slot_ID slot, md_ResourceVersion = Slot_ResourceVersion slot,
        md_CreationDate = Int256_String (Slot_CreationDate slot), md_LastUpdate = Int256_String (Slot_LastUpdate slot)\<rparr>,
      sld_HardwareSecurityModuleId = Slot_HSMModuleID slot, sld_ApplicationId = Slot_ApplicationID slot,
      sld_Slot = Slot_Slot slot, sld_Config = cf_AKV (Slot_Config slot)\<rparr>"

text \<open>The copy of a configuration, which dereferences the fields of its items.\<close>

fun config_items :: "SlotDetailConfig list \<Rightarrow> AKVConfig list option" where
  "config_items [] = Some []"
| "config_items (c # cs) =
     (case (sdc_KeyName c, sdc_KeyVersion c, sdc_KeyPublicAddress c, config_items cs) of
        (Some name, Some version, Some addr, Some items) \<Rightarrow>
          Some (\<lparr>KeyName = name, KeyVersion = version, KeyPublicAddress = addr\<rparr> # items)
      | _ \<Rightarrow> None)"

definition slot_config :: "SlotDetailConfig slice option \<Rightarrow> SlotConfig option" where
  "slot_config config =
     (case config of
        None \<Rightarrow> Some \<lparr>cf_AKV = [], cf_LocalKeyVault = None\<rparr>
      | Some items \<Rightarrow> map_option (\<lambda>akv. \<lparr>cf_AKV = akv, cf_LocalKeyVault = None\<rparr>) (config_items (seen items)))"

definition AdaptAdminSlotsCreate ::
    "'w slot_port \<Rightarrow> string \<Rightarrow> SlotCreation \<Rightarrow> ('w, ResponseType \<times> SlotDetail) handling" where
  "AdaptAdminSlotsCreate p module data =
     (let spec = (case slc_Spec data of None \<Rightarrow> zero_SlotCreationSpec | Some s \<Rightarrow> s) in
      bindH (dereferenced (slot_config (scs_Config spec))) (\<lambda>config.
      bindH (called (pt_CreateHSMSlot p
        \<lparr>cs_ID = (case slc_Meta data of None \<Rightarrow> None | Some m \<Rightarrow> mc_Id m),
         cs_ApplicationID = (case scs_ApplicationId spec of None \<Rightarrow> [] | Some a \<Rightarrow> a), cs_HSMModuleID = module,
         cs_Slot = (case scs_Slot spec of None \<Rightarrow> [] | Some s \<Rightarrow> s),
         cs_Pin = (case scs_Pin spec of None \<Rightarrow> [] | Some x \<Rightarrow> x), cs_Config = config\<rparr>)) (\<lambda>out.
      checked (Inr (ResponseTypeCreated, mapSlot out)))))"

definition AdaptAdminSlotsDescribe :: "'w slot_port \<Rightarrow> string \<Rightarrow> ('w, ResponseType \<times> SlotDetail) handling" where
  "AdaptAdminSlotsDescribe p ident =
     bindH (called (pt_GetHSMSlot p ident)) (\<lambda>out. checked (Inr (ResponseTypeOk, mapSlot out)))"

definition AdaptAdminSlotsList ::
    "'w slot_port \<Rightarrow> string \<Rightarrow> string \<Rightarrow> http_page \<Rightarrow> ('w, ResponseType \<times> SlotDetail CollectionPage) handling" where
  "AdaptAdminSlotsList p module app data =
     bindH (called (pt_ListHSMSlotsByHSMModule p
       \<lparr>lsm_HSMModuleID = module, lsm_PageLimit = or_zero (hp_Limit data), lsm_PageOffset = or_zero (hp_Offset data),
        lsm_OrderBy = hp_OrderBy data, lsm_OrderDirection = hp_OrderDirection data,
        lsm_ApplicationID = (if 0 < length app then Some app else None)\<rparr>)) (\<lambda>out.
     checked (Inr (ResponseTypeOk, adapted_page mapSlot out)))"

definition AdaptAdminSlotsRemove :: "'w slot_port \<Rightarrow> string \<Rightarrow> ('w, ResponseType \<times> SlotDetail) handling" where
  "AdaptAdminSlotsRemove p ident =
     bindH (called (pt_DeleteHSMSlot p ident)) (\<lambda>out. checked (Inr (ResponseTypeOk, mapSlot out)))"

definition AdaptAdminSlotsUpdatePin ::
    "'w slot_port \<Rightarrow> string \<Rightarrow> string \<Rightarrow> SlotUpdatePin \<Rightarrow> ('w, ResponseType \<times> SlotDetail) handling" where
  "AdaptAdminSlotsUpdatePin p module ident data =
     bindH (called (pt_EditPin p
       \<lparr>ep_ID = ident,
        ep_ResourceVersion = (case spu_Meta data of None \<Rightarrow> [] | Some m \<Rightarrow>
          (case mu_ResourceVersion m of None \<Rightarrow> [] | Some v \<Rightarrow> v)),
        ep_Pin = (case spu_Spec data of None \<Rightarrow> [] | Some s \<Rightarrow> (case sps_Pin s of None \<Rightarrow> [] | Some x \<Rightarrow> x)),
        ep_HSMModuleID = module\<rparr>)) (\<lambda>out.
     checked (Inr (ResponseTypeOk, mapSlot out)))"

definition AdaptAdminSlotsUpdateConfig ::
    "'w slot_port \<Rightarrow> string \<Rightarrow> string \<Rightarrow> SlotUpdateConfig \<Rightarrow> ('w, ResponseType \<times> SlotDetail) handling" where
  "AdaptAdminSlotsUpdateConfig p module ident data =
     bindH (dereferenced (slot_config (case sgu_Spec data of None \<Rightarrow> None | Some s \<Rightarrow> sgs_Config s))) (\<lambda>config.
     bindH (called (pt_EditConfig p
       \<lparr>ec_ID = ident,
        ec_ResourceVersion = (case sgu_Meta data of None \<Rightarrow> [] | Some m \<Rightarrow>
          (case mu_ResourceVersion m of None \<Rightarrow> [] | Some v \<Rightarrow> v)),
        ec_Config = config, ec_HSMModuleID = module\<rparr>)) (\<lambda>out.
     checked (Inr (ResponseTypeOk, mapSlot out))))"

section \<open>Slots: the handlers\<close>

text \<open>The parts of a detail are never missing here, so that its validation cannot fail.\<close>

definition respond_slot :: "ResponseType \<times> SlotDetail \<Rightarrow> ('w, nat \<times> http_body) handling" where
  "respond_slot response = respond_validated (Inr ()) (fst response) (SlotBody (snd response))"

definition HandleHTTPAdminSlotsCreate :: "'w slot_port \<Rightarrow> 'w http_handler" where
  "HandleHTTPAdminSlotsCreate p r =
     bindH (checked (check_params [''moduleId'', ''SlotCreation''] r)) (\<lambda>_.
     bindH (checked (read_body zero_SlotCreation dec_SlotCreation validate_SlotCreation r)) (\<lambda>data.
     bindH (AdaptAdminSlotsCreate p (path_var r ''moduleId'') data) respond_slot))"

definition HandleHTTPAdminSlotsDescribe :: "'w slot_port \<Rightarrow> 'w http_handler" where
  "HandleHTTPAdminSlotsDescribe p r =
     bindH (checked (check_params [''moduleId'', ''slotId''] r)) (\<lambda>_.
     bindH (AdaptAdminSlotsDescribe p (path_var r ''slotId'')) respond_slot)"

definition HandleHTTPAdminSlotsList :: "'w slot_port \<Rightarrow> 'w http_handler" where
  "HandleHTTPAdminSlotsList p r =
     bindH (checked (check_params [''moduleId'', ''applicationId'', ''limit'', ''offset'', ''orderBy'', ''orderDirection''] r)) (\<lambda>_.
     bindH (checked (read_page r)) (\<lambda>page.
     bindH (AdaptAdminSlotsList p (path_var r ''moduleId'') (query_get r ''applicationId'') page) (\<lambda>response.
     respond_validated (Inr ()) (fst response) (SlotsBody (snd response)))))"

definition HandleHTTPAdminSlotsRemove :: "'w slot_port \<Rightarrow> 'w http_handler" where
  "HandleHTTPAdminSlotsRemove p r =
     bindH (checked (check_params [''moduleId'', ''slotId''] r)) (\<lambda>_.
     bindH (AdaptAdminSlotsRemove p (path_var r ''slotId'')) respond_slot)"

definition HandleHTTPAdminSlotsUpdateConfig :: "'w slot_port \<Rightarrow> 'w http_handler" where
  "HandleHTTPAdminSlotsUpdateConfig p r =
     bindH (checked (check_params [''moduleId'', ''slotId'', ''SlotUpdateConfig''] r)) (\<lambda>_.
     bindH (checked (read_body zero_SlotUpdateConfig dec_SlotUpdateConfig validate_SlotUpdateConfig r)) (\<lambda>data.
     bindH (AdaptAdminSlotsUpdateConfig p (path_var r ''moduleId'') (path_var r ''slotId'') data) respond_slot))"

definition HandleHTTPAdminSlotsUpdatePin :: "'w slot_port \<Rightarrow> 'w http_handler" where
  "HandleHTTPAdminSlotsUpdatePin p r =
     bindH (checked (check_params [''moduleId'', ''slotId'', ''SlotUpdatePin''] r)) (\<lambda>_.
     bindH (checked (read_body zero_SlotUpdatePin dec_SlotUpdatePin validate_SlotUpdatePin r)) (\<lambda>data.
     bindH (AdaptAdminSlotsUpdatePin p (path_var r ''moduleId'') (path_var r ''slotId'') data) respond_slot))"

definition AdminSlotRoutes :: "'w slot_port \<Rightarrow> (string \<times> 'w http_handler) list" where
  "AdminSlotRoutes p =
     [(''admin.slots.create'', HandleHTTPAdminSlotsCreate p),
      (''admin.slots.describe'', HandleHTTPAdminSlotsDescribe p),
      (''admin.slots.list'', HandleHTTPAdminSlotsList p),
      (''admin.slots.remove'', HandleHTTPAdminSlotsRemove p),
      (''admin.slots.updateConfig'', HandleHTTPAdminSlotsUpdateConfig p),
      (''admin.slots.updatePin'', HandleHTTPAdminSlotsUpdatePin p)]"

section \<open>The routes\<close>

definition http_routes :: "env \<Rightarrow> 'd connector \<Rightarrow> (string \<times> 'd world http_handler) list" where
  "http_routes en cn =
     AdminApplicationRoutes (DefaultApplicationUseCase en) @ AdminModuleRoutes (DefaultHSMModuleUseCase en) @
     AdminSlotRoutes (DefaultHSMSlotUseCase en cn) @ AdminUserRoutes (DefaultAdminUseCase en) @
     ApplicationAPIRoutes en (DefaultUserUseCase en cn)"

end
