(* ===== verification/Http_Laws.thy ===== *)
theory Http_Laws
  imports Http_Modules Reachability
begin

text \<open>
  What the HTTP interface guarantees: which requests are served, what they can change, and which of
  them make a handler panic.
\<close>

section \<open>The chain\<close>

definition decision :: "http_context \<Rightarrow> AuthorizeUserInput" where
  "decision cx = \<lparr>au_UserID = cx_User cx, au_ApplicationID = cx_Application cx, au_ActionID = cx_Action cx\<rparr>"

text \<open>
  A request is refused by authentication, refused by the decision point, or handled by the route of
  its action.
\<close>

lemma serve_http_cases:
  assumes "serve_http cfg pdp routes r w = (reply, w')"
  obtains (unauthenticated) e where "http_authenticate cfg r = Inl e" "w' = w" "reply = HttpFailure e"
    | (unauthorized) cx err where "http_authenticate cfg r = Inr cx" "pdp (decision cx) w = (Inl err, w')"
        "reply = HttpFailure (NewForbiddenHTTPError err)"
    | (unrouted) cx where "http_authenticate cfg r = Inr cx" "pdp (decision cx) w = (Inr (), w')"
        "map_of routes (cx_Action cx) = None" "reply = HttpFailure (NewNotFoundHTTPError (PlainError ''no route''))"
    | (handled) cx w1 h where "http_authenticate cfg r = Inr cx" "pdp (decision cx) w = (Inr (), w1)"
        "map_of routes (cx_Action cx) = Some h" "recovery (h r) w1 = (reply, w')"
proof (cases "http_authenticate cfg r")
  case (Inl e)
  then show thesis using assms that(1) by (simp add: serve_http_def bindH_def checked_def recovery_def)
next
  case (Inr cx)
  obtain d w1 where d: "pdp (decision cx) w = (d, w1)" by fastforce
  show thesis
  proof (cases d)
    case Inl
    then show thesis using assms Inr d that(2)
      by (simp add: serve_http_def bindH_def checked_def recovery_def http_AuthorizeUser_def decision_def)
  next
    case pass: (Inr u)
    then have "recovery (case map_of routes (cx_Action cx) of
        None \<Rightarrow> checked (Inl (NewNotFoundHTTPError (PlainError ''no route''))) | Some h \<Rightarrow> h r) w1 = (reply, w')"
      using assms Inr d by (simp add: serve_http_def bindH_def checked_def recovery_def http_AuthorizeUser_def decision_def)
    then show thesis using Inr d pass that(3, 4)
      by (cases "map_of routes (cx_Action cx)") (simp_all add: recovery_def checked_def)
  qed
qed

lemma recovery_snd: "snd (recovery h w) = snd (h w)"
  by (auto simp: recovery_def split: prod.splits sum.splits http_stop.splits)

lemma authenticated:
  assumes "http_authenticate cfg r = Inr cx"
  shows "hc_Route r = Some (cx_Action cx)" and "cx_Action cx \<noteq> []" and "cx_User cx = http_DefineUser cfg r"
    and "cx_User cx \<noteq> []" and "cx_Application cx = http_DefineApplication cfg r"
    and "cx_Application cx = Some app \<Longrightarrow> path_var r ''applicationId'' \<noteq> [] \<Longrightarrow> path_var r ''applicationId'' = app"
  using assms
  by (auto simp: http_authenticate_def sum_ok http_DefineAction_def http_ValidateAction_def http_ValidateUser_def
      http_ValidateApplication_def Let_def split: option.splits if_splits)

lemma keeps_still_AuthorizeUser: "keeps (still w0) (AuthorizeUser en m input)"
  unfolding AuthorizeUser_def GetAdminRoles_def GetUserRoles_def GetAdmin_def admin_Get_def admin_infra_Get_def
  by (intro keeps_intros)

text \<open>
  C6: Whatever the routes are, only an entitled request has an effect: if a request is answered with
  success or changes anything, then a route matched it, its user is stored - in the application of the
  header, or as an administrator where there is none - with a role that grants the action of the
  route, and the application of the header is the one of the path where the path has one.
\<close>

theorem served_request_is_entitled:
  assumes quiet: "w_faults w = []" and run: "serve_http cfg (AuthorizeUser en m) routes r w = (reply, w')"
    and effect: "w' \<noteq> w \<or> (\<exists>code body. reply = HttpSuccess code body)"
  shows "\<exists>action. hc_Route r = Some action \<and>
    entitled m w (http_DefineUser cfg r) (http_DefineApplication cfg r) action \<and>
    (case http_DefineApplication cfg r of None \<Rightarrow> True | Some app \<Rightarrow> path_var r ''applicationId'' \<in> {[], app})"
  using run
proof (cases rule: serve_http_cases)
  case (unauthorized cx err)
  then have "w' = w" using still_eq [OF keeps_still_AuthorizeUser quiet] by blast
  then show ?thesis using effect unauthorized by simp
next
  case (unrouted cx)
  then have "w' = w" using still_eq [OF keeps_still_AuthorizeUser quiet] by blast
  then show ?thesis using effect unrouted by simp
next
  case (handled cx w1 h)
  then have "entitled m w (cx_User cx) (cx_Application cx) (cx_Action cx)"
    using AuthorizeUser_Inr [OF quiet, of en m "decision cx" "()" w1] by (simp add: decision_def)
  then show ?thesis using authenticated [OF handled(1)] by (auto split: option.splits)
qed (use effect in simp)

section \<open>Applications do not reach each other\<close>

text \<open>What does not belong to an application.\<close>

definition outside :: "string \<Rightarrow> 'd world \<Rightarrow>
    AdminDB list \<times> ApplicationDB list \<times> HardwareSecurityModuleDB list \<times> HSMSlotDB list \<times> UserDB list \<times> AccountDB list" where
  "outside app w = (w_admins w, w_applications w, w_modules w, w_slots w,
     filter (\<lambda>u. us_ApplicationID u \<noteq> app) (w_users w), filter (\<lambda>a. ac_ApplicationID a \<noteq> app) (w_accounts w))"

lemma filter_removed: "(\<And>x. sel x \<Longrightarrow> \<not> Q x) \<Longrightarrow> filter Q (filter (\<lambda>x. \<not> sel x) xs) = filter Q xs"
  by (induction xs) auto

text \<open>A property that does not look at the entries and at the users and accounts of one application.\<close>

locale tenancy = steady +
  fixes app :: string
  assumes P_entries: "P w \<Longrightarrow> P (put_entries es w)"
    and P_users: "P w \<Longrightarrow> filter (\<lambda>u. us_ApplicationID u \<noteq> app) us = filter (\<lambda>u. us_ApplicationID u \<noteq> app) (w_users w) \<Longrightarrow>
      P (put_users us w)"
    and P_accounts: "P w \<Longrightarrow> filter (\<lambda>a. ac_ApplicationID a \<noteq> app) cs = filter (\<lambda>a. ac_ApplicationID a \<noteq> app) (w_accounts w) \<Longrightarrow>
      P (put_accounts cs w)"
begin

lemma keeps_entry_rows:
  "keeps P (sql_insert w_entries put_entries entry_clash e)" "keeps P (sql_delete w_entries put_entries sel)"
  by (rule keeps_other; simp add: P_faults P_entries)+

lemma keeps_user_insert: "us_ApplicationID r = app \<Longrightarrow> keeps P (sql_insert w_users put_users user_clash r)"
  unfolding sql_insert_def by (rule keeps_bindP [OF keeps_statement]) (simp add: keeps_def P_users)

lemma keeps_account_insert: "ac_ApplicationID r = app \<Longrightarrow> keeps P (sql_insert w_accounts put_accounts account_clash r)"
  unfolding sql_insert_def by (rule keeps_bindP [OF keeps_statement]) (simp add: keeps_def P_accounts)

lemma keeps_user_delete: "(\<And>r. sel r \<Longrightarrow> us_ApplicationID r = app) \<Longrightarrow> keeps P (sql_delete w_users put_users sel)"
  unfolding sql_delete_def
  by (rule keeps_bindP [OF keeps_statement]) (simp add: keeps_def P_users filter_removed del: filter_filter)

lemma keeps_account_delete: "(\<And>r. sel r \<Longrightarrow> ac_ApplicationID r = app) \<Longrightarrow> keeps P (sql_delete w_accounts put_accounts sel)"
  unfolding sql_delete_def
  by (rule keeps_bindP [OF keeps_statement]) (simp add: keeps_def P_accounts filter_removed del: filter_filter)

lemma keeps_user_update:
  assumes sel: "\<And>r. sel r \<Longrightarrow> us_ApplicationID r = app" and f: "\<And>r. us_ApplicationID (f r) = us_ApplicationID r"
  shows "keeps P (sql_update w_users put_users sel f)"
proof -
  have "filter (\<lambda>u. us_ApplicationID u \<noteq> app) (map (\<lambda>r. if sel r then f r else r) rows) =
      filter (\<lambda>u. us_ApplicationID u \<noteq> app) rows" for rows
    using sel f by (induction rows) auto
  then show ?thesis unfolding sql_update_def
    by (intro keeps_bindP [OF keeps_statement]) (simp add: keeps_def P_users)
qed

lemmas rules = keeps_intros keeps_steady_reads keeps_gets keeps_entry_rows

lemma keeps_entry_programs: "keeps P (createEntryIfNone en i k p pk)" "keeps P (removeEntries en i k what)"
  unfolding createEntryIfNone_def CreateEntry_def entry_Add_def entry_infra_Add_def entry_infra_Get_def
    removeEntries_def DeleteMyEntriesIfAny_def entry_RemoveAllFromResource_def
    entry_infra_RemoveAllFromResource_def entry_All_def entry_infra_All_def ListMyChildrenEntries_def
  by (intro rules)+

lemma keeps_user_Add: "User_ApplicationID u = app \<Longrightarrow> keeps P (user_Add en u)"
  unfolding user_Add_def user_infra_Add_def user_infra_Get_def
  by (rule keeps_lifted, intro rules keeps_user_insert) (auto simp: user_mapToCreateDB_def split: if_splits)

lemma keeps_user_Edit: "User_ApplicationID u = app \<Longrightarrow> keeps P (user_Edit en u)"
  unfolding user_Edit_def user_infra_Edit_def user_infra_Exists_def
  by (rule keeps_lifted, intro rules keeps_user_update) (auto simp: user_mapToUpdateDB_def split: if_splits)

lemma keeps_account_Add: "acc_ApplicationID (Acc_AccountID a) = app \<Longrightarrow> keeps P (account_Add en a)"
  unfolding account_Add_def account_infra_Add_def account_infra_Get_def
  by (rule keeps_lifted, intro rules keeps_account_insert) (auto simp: account_mapToCreateDB_def Let_def split: if_splits)

lemma keeps_CreateUser: "cu_ApplicationID x = app \<Longrightarrow> keeps P (CreateUser en x)"
  unfolding CreateUser_def addUserToApplicationDependency_def Let_def
  by (intro rules keeps_roles keeps_entry_programs keeps_user_Add) simp

lemma keeps_EditUser: "eu_ApplicationID x = app \<Longrightarrow> keeps P (EditUser en x)"
  unfolding EditUser_def by (intro rules keeps_roles keeps_user_Edit) simp

lemma keeps_DeleteUser: "keeps P (DeleteUser en app i)"
  unfolding DeleteUser_def removeAllUserDependencies_def user_Remove_def user_infra_Remove_def
  by (intro rules keeps_entry_programs keeps_user_delete) simp

lemma keeps_ListUsers: "keeps P (ListUsers en x)"
  unfolding ListUsers_def user_All_def user_infra_List_def by (intro rules)

lemma keeps_CreateAccount: "acc_ApplicationID x = app \<Longrightarrow> keeps P (CreateAccount en x)"
  unfolding CreateAccount_def addAccountToUserDependency_def Let_def
  by (intro rules keeps_entry_programs keeps_account_Add) simp

lemma keeps_EnableAccounts: "keeps P (EnableAccounts en cn app user addrs)"
proof -
  have "keeps P (create_accounts en app user as)" for as
    by (induction as) (auto intro!: rules keeps_CreateAccount)
  then show ?thesis unfolding EnableAccounts_def by (intro rules keeps_addressesBackedByModule)
qed

lemma keeps_DisableAccount: "keeps P (DisableAccount en app user addr)"
  unfolding DisableAccount_def DeleteAccount_def removeAllAccountDependencies_def account_Remove_def
    account_infra_Remove_def account_Get_def account_infra_Get_def
  by (intro rules keeps_entry_programs keeps_account_delete) simp

lemma keeps_AuthorizeUser: "keeps P (AuthorizeUser en m input)"
  unfolding AuthorizeUser_def GetAdminRoles_def GetUserRoles_def GetAdmin_def admin_Get_def admin_infra_Get_def
  by (intro rules)

end

text \<open>What the handlers of the users of an application need of the use cases.\<close>

locale user_contract =
  fixes up :: "'w user_port" and P :: "'w \<Rightarrow> bool" and app :: string
  assumes CreateUser_P: "cu_ApplicationID x = app \<Longrightarrow> keeps P (up_CreateUser up x)"
    and GetUser_P: "keeps P (up_GetUser up app i)"
    and EditUser_P: "eu_ApplicationID y = app \<Longrightarrow> keeps P (up_EditUser up y)"
    and DeleteUser_P: "keeps P (up_DeleteUser up app i)"
    and ListUsers_P: "keeps P (up_ListUsers up z)"
    and EnableAccounts_P: "keeps P (up_EnableAccounts up app i addrs)"
    and DisableAccount_P: "keeps P (up_DisableAccount up app i addr)"
begin

lemmas use_cases = CreateUser_P GetUser_P EditUser_P DeleteUser_P ListUsers_P EnableAccounts_P DisableAccount_P

lemma keepsH_adapters:
  "keepsH P (AdaptApplicationAccountsCreate en up app i d1)" "keepsH P (AdaptApplicationAccountsRemove en up app i d2)"
  "keepsH P (AdaptApplicationUsersCreate en up app d3)" "keepsH P (AdaptApplicationUsersDescribe en up app i)"
  "keepsH P (AdaptApplicationUsersEdit en up app i d4)" "keepsH P (AdaptApplicationUsersList en up app d5)"
  "keepsH P (AdaptApplicationUsersRemove en up app i)"
  unfolding AdaptApplicationAccountsCreate_def AdaptApplicationAccountsRemove_def AdaptApplicationUsersCreate_def
    AdaptApplicationUsersDescribe_def AdaptApplicationUsersEdit_def AdaptApplicationUsersList_def
    AdaptApplicationUsersRemove_def
  by (intro keepsH_intros use_cases; simp)+

lemma keepsH_handlers:
  assumes path: "path_var r ''applicationId'' = app"
  shows "keepsH P (HandleHTTPApplicationAccountsCreate en up r)" "keepsH P (HandleHTTPApplicationAccountsRemove en up r)"
    "keepsH P (HandleHTTPApplicationUsersCreate en up r)" "keepsH P (HandleHTTPApplicationUsersDescribe en up r)"
    "keepsH P (HandleHTTPApplicationUsersEdit en up r)" "keepsH P (HandleHTTPApplicationUsersList en up r)"
    "keepsH P (HandleHTTPApplicationUsersRemove en up r)"
  unfolding HandleHTTPApplicationAccountsCreate_def HandleHTTPApplicationAccountsRemove_def
    HandleHTTPApplicationUsersCreate_def HandleHTTPApplicationUsersDescribe_def HandleHTTPApplicationUsersEdit_def
    HandleHTTPApplicationUsersList_def HandleHTTPApplicationUsersRemove_def respond_user_def path
  by (intro keepsH_intros keepsH_adapters)+

lemma keepsH_routes:
  assumes "(action, h) \<in> set (ApplicationAPIRoutes en up)" and "path_var r ''applicationId'' = app"
  shows "keepsH P (h r)"
  using assms(1) keepsH_handlers [OF assms(2), of en] unfolding ApplicationAPIRoutes_def by auto

end

interpretation other: tenancy "\<lambda>w. outside app w = x" app for app x
  by unfold_locales (auto simp: outside_def)

interpretation tenant_users: user_contract "DefaultUserUseCase en cn" "\<lambda>w. outside app w = x" app for en cn app x
  by unfold_locales (simp_all add: DefaultUserUseCase_def other.keeps_CreateUser other.keeps_EditUser other.keeps_DeleteUser
      other.keeps_ListUsers other.keeps_EnableAccounts other.keeps_DisableAccount other.keeps_gets)

text \<open>The router: a path with a variable matches no path where it would be empty.\<close>

definition routed :: "http_call \<Rightarrow> bool" where
  "routed r = (case hc_Route r of None \<Rightarrow> True | Some action \<Rightarrow>
     \<not> HasPrefix action ''application.'' \<or> path_var r ''applicationId'' \<noteq> [])"

lemma admin_names:
  "list_all (\<lambda>a. HasPrefix a ''admin.'') (map fst (AdminApplicationRoutes p))"
  "list_all (\<lambda>a. HasPrefix a ''admin.'') (map fst (AdminModuleRoutes q))"
  "list_all (\<lambda>a. HasPrefix a ''admin.'') (map fst (AdminSlotRoutes s))"
  "list_all (\<lambda>a. HasPrefix a ''admin.'') (map fst (AdminUserRoutes u))"
  by (simp_all add: AdminApplicationRoutes_def AdminModuleRoutes_def AdminSlotRoutes_def AdminUserRoutes_def HasPrefix_def)

lemma application_names: "list_all (\<lambda>a. HasPrefix a ''application.'') (map fst (ApplicationAPIRoutes en up))"
  by (simp add: ApplicationAPIRoutes_def HasPrefix_def)

lemma route_prefixes:
  assumes "(action, h) \<in> set (http_routes en cn)" and "\<not> HasPrefix action ''admin.''"
  shows "(action, h) \<in> set (ApplicationAPIRoutes en (DefaultUserUseCase en cn))" and "HasPrefix action ''application.''"
proof -
  show h: "(action, h) \<in> set (ApplicationAPIRoutes en (DefaultUserUseCase en cn))"
    using assms admin_names unfolding http_routes_def list_all_iff by fastforce
  show "HasPrefix action ''application.''" using application_names h unfolding list_all_iff by fastforce
qed

lemma authorized_prefix:
  "AuthorizeUser en m input w = (Inr u, w') \<Longrightarrow> au_ApplicationID input = Some app \<Longrightarrow> app \<noteq> [] \<Longrightarrow>
     \<not> HasPrefix (au_ActionID input) ''admin.''"
  by (auto simp: AuthorizeUser_def prog_ok adminActionPrefix_def)

text \<open>
  C7: Applications are separated: a request that names an application in its header changes nothing
  outside it.  Administrators, applications, modules and slots stay as they are, and so do the users
  and the accounts of every other application, whatever the request says, whoever sends it and
  whichever statements of the database fail.
\<close>

theorem tenants_are_separated:
  assumes routed: "routed r" and app: "http_DefineApplication cfg r = Some app" "app \<noteq> []"
    and run: "serve_http cfg (AuthorizeUser en m) (http_routes en cn) r w = (reply, w')"
  shows "outside app w' = outside app w"
  using run
proof (cases rule: serve_http_cases)
  case (unauthorized cx err)
  then show ?thesis using other.keeps_AuthorizeUser [of app "outside app w"] by (fastforce dest: keepsD)
next
  case (unrouted cx)
  then show ?thesis using other.keeps_AuthorizeUser [of app "outside app w"] by (fastforce dest: keepsD)
next
  case (handled cx w1 h)
  have w1: "outside app w1 = outside app w"
    using other.keeps_AuthorizeUser [of app "outside app w"] handled(2) by (fastforce dest: keepsD)
  have "\<not> HasPrefix (cx_Action cx) ''admin.''"
    using authorized_prefix [OF handled(2)] app authenticated(5) [OF handled(1)] by (simp add: decision_def)
  then have h: "(cx_Action cx, h) \<in> set (ApplicationAPIRoutes en (DefaultUserUseCase en cn))"
      and "HasPrefix (cx_Action cx) ''application.''"
    using route_prefixes map_of_SomeD [OF handled(3)] by blast+
  then have "path_var r ''applicationId'' = app"
    using routed authenticated [OF handled(1)] app by (auto simp: routed_def)
  from tenant_users.keepsH_routes [OF h this, of "outside app w"] w1 have "outside app (snd (h r w1)) = outside app w"
    by (simp add: keepsH_def)
  then show ?thesis using handled(4) recovery_snd [of "h r" w1] by simp
qed simp

text \<open>A request of bob, who may create users of his application, and the user that it creates.\<close>

definition sample_post :: http_call where
  "sample_post =
     \<lparr>hc_Header = (\<lambda>h. if h = ''X-Auth-UserId'' then ''bob'' else if h = ''X-Auth-ApplicationId'' then ''app'' else []),
      hc_Route = Some ''application.users.create'', hc_Vars = [(''applicationId'', ''app'')], hc_Query = [],
      hc_Body = Some (JObject [(''meta'', JObject [(''id'', JString ''eve'' ''eve'')]),
        (''spec'', JObject [(''roles'', JArray [JString ''transaction-signer'' ''transaction-signer''])])])\<rparr>"

definition sample_headers :: AuthHeadersConfiguration where
  "sample_headers = \<lparr>UserRequestHeader = [], ApplicationRequestHeader = []\<rparr>"

definition sample_grants :: "string \<Rightarrow> string list option" where
  "sample_grants r = (if r = ''transaction-signer'' then Some [''application.users.create''] else None)"

definition sample_answer :: "http_reply \<times> unit world" where
  "sample_answer = serve_http sample_headers (AuthorizeUser sample_env sample_grants)
     (http_routes sample_env sample_connector) sample_post sample_user_world"

lemma sample_answered:
  "fst sample_answer = HttpSuccess 201 (UserBody
     \<lparr>ud_Meta = \<lparr>md_Id = ''eve'', md_ResourceVersion = ''u7'', md_CreationDate = ''3'', md_LastUpdate = ''3''\<rparr>,
      ud_Roles = [''transaction-signer''], ud_Accounts = [], ud_Description = Some []\<rparr>)"
  by code_simp

lemma sample_post_facts:
  "hc_Route sample_post = Some ''application.users.create''" "routed sample_post"
  "http_DefineApplication sample_headers sample_post = Some ''app''" "http_DefineUser sample_headers sample_post = ''bob''"
  by code_simp+

lemma sample_answer_eq:
  "serve_http sample_headers (AuthorizeUser sample_env sample_grants) (http_routes sample_env sample_connector) sample_post
     sample_user_world = (fst sample_answer, snd sample_answer)"
  by (simp add: sample_answer_def)

lemma tenants_are_separated_witness: "outside ''app'' (snd sample_answer) = outside ''app'' sample_user_world"
  using tenants_are_separated [OF sample_post_facts(2, 3) _ sample_answer_eq] by simp

lemma served_request_is_entitled_witness:
  "entitled sample_grants sample_user_world ''bob'' (Some ''app'') ''application.users.create''"
  using served_request_is_entitled [OF _ sample_answer_eq] sample_answered sample_post_facts
  by (simp add: sample_user_world_def sample_world_def empty_world_def)

end
