(* ===== verification/Http_Panics.thy ===== *)
theory Http_Panics
  imports Http_Modules
begin

text \<open>
  Which requests make a handler of the HTTP interface panic: the adapters dereference the parts of a
  body, most of which validation has made sure of.
\<close>

section \<open>Handlers that do not panic\<close>

definition sturdy :: "('w, 'a) handling \<Rightarrow> bool" where
  "sturdy m \<longleftrightarrow> (\<forall>w. fst (m w) \<noteq> Inl Crashed)"

named_theorems sturdy_intros

lemma sturdy_leaves [sturdy_intros]: "sturdy (checked r)" "sturdy (called m)" "sturdy (respond_validated v t b)"
  by (auto simp: sturdy_def checked_def called_def respond_validated_def split: sum.splits prod.splits)

lemma sturdy_bindH: "sturdy m \<Longrightarrow> (\<And>x. sturdy (f x)) \<Longrightarrow> sturdy (bindH m f)"
  unfolding sturdy_def bindH_def by (simp split: prod.split sum.split) (metis fst_conv)

lemma sturdy_bind_called [sturdy_intros]: "(\<And>x. sturdy (f x)) \<Longrightarrow> sturdy (bindH (called m) f)"
  by (rule sturdy_bindH) (rule sturdy_leaves)

lemma sturdy_bind_checked [sturdy_intros]: "(\<And>x. r = Inr x \<Longrightarrow> sturdy (f x)) \<Longrightarrow> sturdy (bindH (checked r) f)"
  by (cases r) (auto simp: sturdy_def bindH_def checked_def)

lemma sturdy_bind_dereferenced: "(\<And>x. p = Some x \<Longrightarrow> sturdy (f x)) \<Longrightarrow> p \<noteq> None \<Longrightarrow> sturdy (bindH (dereferenced p) f)"
  by (auto simp: sturdy_def bindH_def dereferenced_def)

text \<open>What a body that was read has.\<close>

lemma read_body_Inr: "read_body zero dec validate r = Inr x \<Longrightarrow> validate x = Inr ()"
  by (auto simp: read_body_def sum_ok split: option.splits)

lemma required_Inr: "required b msg = Inr u \<longleftrightarrow> b"
  by (simp add: required_def)

lemma validate_part_Inr:
  "validate_part optional name v p = Inr () \<longleftrightarrow> (case p of None \<Rightarrow> optional | Some x \<Rightarrow> v x = Inr ())"
  by (auto simp: validate_part_def required_Inr split: option.splits sum.splits)

lemmas valid_simps = required_Inr validate_part_Inr sum_ok validate_UserCreation_def validate_UserUpdate_def
  validate_AccountCreation_def validate_AccountCreationSpec_def validate_ApplicationCreation_def
  validate_ApplicationCreationSpec_def validate_ApplicationUpdate_def validate_ApplicationUpdateSpec_def
  validate_AdminUserUpdate_def validate_MetaUpdate_def validate_SlotCreation_def validate_SlotCreationSpec_def
  validate_SlotUpdateConfig_def validate_SlotUpdateConfigSpec_def

lemma config_items_valid:
  "list_all (\<lambda>item. case validate_SlotDetailConfig item of Inl _ \<Rightarrow> False | Inr _ \<Rightarrow> True) cs \<Longrightarrow> config_items cs \<noteq> None"
  by (induction cs) (auto simp: validate_SlotDetailConfig_def sum_ok required_def andS_def split: sum.splits if_splits)

lemma slot_config_valid: "validate_configs optional config = Inr () \<Longrightarrow> slot_config config \<noteq> None"
  using config_items_valid by (auto simp: validate_configs_def slot_config_def required_Inr split: option.splits)


lemmas sturdy_rules = sturdy_bind_checked sturdy_bind_called sturdy_bind_dereferenced sturdy_bindH sturdy_leaves

lemma sturdy_user_handlers:
  "sturdy (HandleHTTPApplicationAccountsCreate en up r)" "sturdy (HandleHTTPApplicationAccountsRemove en up r)"
  "sturdy (HandleHTTPApplicationUsersCreate en up r)" "sturdy (HandleHTTPApplicationUsersDescribe en up r)"
  "sturdy (HandleHTTPApplicationUsersEdit en up r)" "sturdy (HandleHTTPApplicationUsersList en up r)"
  "sturdy (HandleHTTPApplicationUsersRemove en up r)"
  unfolding HandleHTTPApplicationAccountsCreate_def HandleHTTPApplicationAccountsRemove_def
    HandleHTTPApplicationUsersCreate_def HandleHTTPApplicationUsersDescribe_def HandleHTTPApplicationUsersEdit_def
    HandleHTTPApplicationUsersList_def HandleHTTPApplicationUsersRemove_def respond_user_def
    AdaptApplicationAccountsCreate_def AdaptApplicationAccountsRemove_def AdaptApplicationUsersCreate_def
    AdaptApplicationUsersDescribe_def AdaptApplicationUsersEdit_def AdaptApplicationUsersList_def
    AdaptApplicationUsersRemove_def
  by ((rule sturdy_rules | fastforce dest: read_body_Inr simp: valid_simps split: option.splits)+)

lemma sturdy_application_handlers:
  "sturdy (HandleHTTPAdminApplicationsCreate p r)" "sturdy (HandleHTTPAdminApplicationsDescribe p r)"
  "sturdy (HandleHTTPAdminApplicationsList p r)" "sturdy (HandleHTTPAdminApplicationsRemove p r)"
  unfolding HandleHTTPAdminApplicationsCreate_def HandleHTTPAdminApplicationsDescribe_def
    HandleHTTPAdminApplicationsList_def HandleHTTPAdminApplicationsRemove_def respond_application_def
    AdaptAdminApplicationsCreate_def AdaptAdminApplicationsDescribe_def AdaptAdminApplicationsList_def
    AdaptAdminApplicationsRemove_def
  by ((rule sturdy_rules | fastforce dest: read_body_Inr simp: valid_simps split: option.splits)+)

lemma sturdy_admin_handlers:
  "sturdy (HandleHTTPAdminUsersCreate p r)" "sturdy (HandleHTTPAdminUsersDescribe p r)"
  "sturdy (HandleHTTPAdminUsersEdit p r)" "sturdy (HandleHTTPAdminUsersList p r)" "sturdy (HandleHTTPAdminUsersRemove p r)"
  unfolding HandleHTTPAdminUsersCreate_def HandleHTTPAdminUsersDescribe_def HandleHTTPAdminUsersEdit_def
    HandleHTTPAdminUsersList_def HandleHTTPAdminUsersRemove_def respond_admin_def AdaptAdminUsersCreate_def
    AdaptAdminUsersDescribe_def AdaptAdminUsersEdit_def AdaptAdminUsersList_def AdaptAdminUsersRemove_def
  by ((rule sturdy_rules | fastforce dest: read_body_Inr simp: valid_simps split: option.splits)+)

lemma sturdy_module_handlers:
  "sturdy (HandleHTTPAdminModulesCreate p r)" "sturdy (HandleHTTPAdminModulesDescribe p r)"
  "sturdy (HandleHTTPAdminModulesEdit p r)" "sturdy (HandleHTTPAdminModulesList p r)"
  "sturdy (HandleHTTPAdminModulesRemove p r)"
  unfolding HandleHTTPAdminModulesCreate_def HandleHTTPAdminModulesDescribe_def HandleHTTPAdminModulesEdit_def
    HandleHTTPAdminModulesList_def HandleHTTPAdminModulesRemove_def respond_module_def AdaptAdminModulesCreate_def
    AdaptAdminModulesDescribe_def AdaptAdminModulesEdit_def AdaptAdminModulesList_def AdaptAdminModulesRemove_def
    Let_def split_def
  by ((rule sturdy_rules)+)

lemma sturdy_slot_handlers:
  "sturdy (HandleHTTPAdminSlotsCreate p r)" "sturdy (HandleHTTPAdminSlotsDescribe p r)"
  "sturdy (HandleHTTPAdminSlotsList p r)" "sturdy (HandleHTTPAdminSlotsRemove p r)"
  "sturdy (HandleHTTPAdminSlotsUpdateConfig p r)" "sturdy (HandleHTTPAdminSlotsUpdatePin p r)"
  unfolding HandleHTTPAdminSlotsCreate_def HandleHTTPAdminSlotsDescribe_def HandleHTTPAdminSlotsList_def
    HandleHTTPAdminSlotsRemove_def HandleHTTPAdminSlotsUpdateConfig_def HandleHTTPAdminSlotsUpdatePin_def
    respond_slot_def AdaptAdminSlotsCreate_def AdaptAdminSlotsDescribe_def AdaptAdminSlotsList_def
    AdaptAdminSlotsRemove_def AdaptAdminSlotsUpdateConfig_def AdaptAdminSlotsUpdatePin_def Let_def
  by ((rule sturdy_rules | rule slot_config_valid, fastforce dest: read_body_Inr simp: valid_simps slot_config_def
      validate_configs_def split: option.splits)+)

section \<open>The handler that panics\<close>

text \<open>A body for the edit of an application that passes validation and has no spec.\<close>

definition edit_without_spec :: "http_call \<Rightarrow> bool" where
  "edit_without_spec r =
     (check_params [''applicationId'', ''ApplicationUpdate''] r = Inr () \<and>
      (case read_body zero_ApplicationUpdate dec_ApplicationUpdate validate_ApplicationUpdate r of
         Inl _ \<Rightarrow> False | Inr data \<Rightarrow> apu_Spec data = None))"

lemma edit_crashes: "edit_without_spec r \<Longrightarrow> HandleHTTPAdminApplicationsEdit p r w = (Inl Crashed, w)"
  by (auto simp: edit_without_spec_def HandleHTTPAdminApplicationsEdit_def AdaptAdminApplicationsEdit_def bindH_def
      checked_def dereferenced_def split: sum.splits)

lemma edit_sturdy: "\<not> edit_without_spec r \<Longrightarrow> sturdy (HandleHTTPAdminApplicationsEdit p r)"
  unfolding HandleHTTPAdminApplicationsEdit_def AdaptAdminApplicationsEdit_def respond_application_def
  by ((rule sturdy_rules | fastforce dest: read_body_Inr simp: valid_simps edit_without_spec_def split: option.splits)+)

text \<open>Each table of routes, entry by entry.\<close>

lemma sturdyD: "sturdy m \<Longrightarrow> fst (m w) \<noteq> Inl Crashed"
  by (simp add: sturdy_def)

lemma edit_panics: "fst (HandleHTTPAdminApplicationsEdit p r w) = Inl Crashed \<longleftrightarrow> edit_without_spec r"
  using edit_crashes [of r p w] edit_sturdy [of r p] by (cases "edit_without_spec r") (auto simp: sturdy_def)

lemma panics:
  "list_all (\<lambda>(a, h). fst (h r w) = Inl Crashed \<longleftrightarrow> a = ''admin.applications.edit'' \<and> edit_without_spec r) (AdminApplicationRoutes p)"
  "list_all (\<lambda>(a, h). fst (h r w) = Inl Crashed \<longleftrightarrow> a = ''admin.applications.edit'' \<and> edit_without_spec r) (AdminModuleRoutes q)"
  "list_all (\<lambda>(a, h). fst (h r w) = Inl Crashed \<longleftrightarrow> a = ''admin.applications.edit'' \<and> edit_without_spec r) (AdminSlotRoutes s)"
  "list_all (\<lambda>(a, h). fst (h r w) = Inl Crashed \<longleftrightarrow> a = ''admin.applications.edit'' \<and> edit_without_spec r) (AdminUserRoutes u)"
  "list_all (\<lambda>(a, h). fst (h r w) = Inl Crashed \<longleftrightarrow> a = ''admin.applications.edit'' \<and> edit_without_spec r)
     (ApplicationAPIRoutes en up)"
  by (simp_all add: AdminApplicationRoutes_def AdminModuleRoutes_def AdminSlotRoutes_def AdminUserRoutes_def
      ApplicationAPIRoutes_def edit_panics sturdy_user_handlers sturdy_application_handlers sturdy_admin_handlers
      sturdy_module_handlers sturdy_slot_handlers sturdyD)


text \<open>An edit of an application that gives the version only.\<close>

definition sample_put :: http_call where
  "sample_put =
     \<lparr>hc_Header = (\<lambda>_. []), hc_Route = Some ''admin.applications.edit'', hc_Vars = [(''applicationId'', ''app'')],
      hc_Query = [], hc_Body = Some (JObject [(''meta'', JObject [(''resourceVersion'', JString ''u1'' ''u1'')])])\<rparr>"

lemma sample_put_without_spec: "edit_without_spec sample_put"
  by code_simp


end
