(* ===== verification/Swagger_Base64.thy ===== *)
theory Swagger_Base64
  imports Sig_Prelude "HOL-Library.While_Combinator"
begin

unbundle bit_operations_syntax

text \<open>
  The base64 module (webpack module 67526) of the script \<open>swagger-ui-bundle.js\<close> that the
  documentation site serves, with the clean up that \<open>Buffer\<close> performs before it decodes.  The
  whole bundle is one minified line of the repository; only this module of it is modelled.

  A JavaScript string is the list of its UTF-16 code units (\<open>16 word\<close>), a \<open>Uint8Array\<close> a list of
  bytes.  Bitwise operators work on 32 bit integers and read \<open>undefined\<close> as 0; a write outside a
  typed array has no effect; a typed array of a negative size is a \<open>RangeError\<close>.
\<close>

section \<open>Strings and tables\<close>

type_synonym js_string = "16 word list"

datatype js_error = Error string | RangeError

definition js_text :: "string \<Rightarrow> js_string" where
  "js_text s = List.map (\<lambda>c. word_of_nat (of_char c)) s"

definition charCodeAt :: "js_string \<Rightarrow> nat \<Rightarrow> 16 word option" where
  "charCodeAt s i = (if i < length s then Some (s ! i) else None)"

definition equals_sign :: "16 word" where
  "equals_sign = word_of_nat (of_char (CHR ''=''))"

definition alphabet :: js_string where
  "alphabet = js_text ''ABCDEFGHIJKLMNOPQRSTUVWXYZabcdefghijklmnopqrstuvwxyz0123456789+/''"

text \<open>The table \<open>u\<close>; reading it out of range and concatenating gives the text \<open>undefined\<close>.\<close>

definition lookup :: "32 word \<Rightarrow> js_string" where
  "lookup k = (if unat k < length alphabet then [alphabet ! unat k] else js_text ''undefined'')"

text \<open>The table \<open>_\<close>: filled by the loop over the alphabet, then the two URL safe characters.\<close>

definition revLookup :: "16 word \<Rightarrow> 32 word option" where
  "revLookup = (foldl (\<lambda>t j. t(alphabet ! j \<mapsto> word_of_nat j)) (\<lambda>_. None) [0..<64])
     (word_of_nat (of_char (CHR ''-'')) \<mapsto> 62, word_of_nat (of_char (CHR ''_'')) \<mapsto> 63)"

definition code_of :: "js_string \<Rightarrow> nat \<Rightarrow> 32 word" where
  "code_of s i = (case charCodeAt s i of None \<Rightarrow> 0
     | Some c \<Rightarrow> (case revLookup c of None \<Rightarrow> 0 | Some v \<Rightarrow> v))"

fun indexOf :: "js_string \<Rightarrow> 16 word \<Rightarrow> nat option" where
  "indexOf [] c = None"
| "indexOf (x # s) c = (if x = c then Some 0 else (case indexOf s c of None \<Rightarrow> None | Some i \<Rightarrow> Some (Suc i)))"

section \<open>Decoding\<close>

definition getLens :: "js_string \<Rightarrow> js_error + (nat \<times> nat)" where
  "getLens s =
     (let i = length s in
      if i mod 4 > 0 then Inl (Error ''Invalid string. Length must be a multiple of 4'')
      else let u = (case indexOf s equals_sign of None \<Rightarrow> i | Some k \<Rightarrow> k)
           in Inr (u, if u = i then 0 else 4 - u mod 4))"

text \<open>\<open>3 * (u + _) / 4 - _\<close>: the sum is a multiple of 4 whenever \<open>getLens\<close> returns.\<close>

definition byteLength_of :: "nat \<Rightarrow> nat \<Rightarrow> int" where
  "byteLength_of u p = int (3 * (u + p) div 4) - int p"

definition byteLength :: "js_string \<Rightarrow> js_error + int" where
  "byteLength s = (case getLens s of Inl e \<Rightarrow> Inl e | Inr (u, p) \<Rightarrow> Inr (byteLength_of u p))"

definition byte_at :: "nat \<Rightarrow> 32 word \<Rightarrow> byte" where
  "byte_at n i = ucast (signed_drop_bit n i AND 255)"

definition quad :: "js_string \<Rightarrow> nat \<Rightarrow> 32 word" where
  "quad s u = push_bit 18 (code_of s u) OR push_bit 12 (code_of s (u + 1))
     OR push_bit 6 (code_of s (u + 2)) OR code_of s (u + 3)"

text \<open>The loop over the groups of four: the next index, the next write position and the array.\<close>

function decode_quads :: "js_string \<Rightarrow> int \<Rightarrow> nat \<Rightarrow> nat \<Rightarrow> bytes \<Rightarrow> nat \<times> nat \<times> bytes" where
  "decode_quads s limit u k B =
     (if int u < limit
      then let i = quad s u in
        decode_quads s limit (u + 4) (k + 3)
          (B[k := byte_at 16 i, k + 1 := byte_at 8 i, k + 2 := byte_at 0 i])
      else (u, k, B))"
  by pat_completeness auto
termination by (relation "measure (\<lambda>(s, limit, u, k, B). nat (limit - int u))") auto

declare decode_quads.simps [simp del]

definition toByteArray :: "js_string \<Rightarrow> js_error + bytes" where
  "toByteArray s =
     (case getLens s of Inl e \<Rightarrow> Inl e
      | Inr (j, p) \<Rightarrow>
          let n = byteLength_of j p in
          if n < 0 then Inl RangeError
          else
            let limit = (if p > 0 then int j - 4 else int j);
                (u, k, B) = decode_quads s limit 0 0 (replicate (nat n) 0);
                (k, B) =
                  (if p = 2
                   then let i = push_bit 2 (code_of s u) OR signed_drop_bit 4 (code_of s (u + 1))
                        in (k + 1, B[k := byte_at 0 i])
                   else (k, B));
                (k, B) =
                  (if p = 1
                   then let i = push_bit 10 (code_of s u) OR push_bit 4 (code_of s (u + 1))
                                OR signed_drop_bit 2 (code_of s (u + 2))
                        in (k + 2, B[k := byte_at 8 i, k + 1 := byte_at 0 i])
                   else (k, B))
            in Inr B)"

section \<open>Encoding\<close>

text \<open>An element of a \<open>Uint8Array\<close> as the operand of a 32 bit operator.\<close>

definition elem :: "bytes \<Rightarrow> nat \<Rightarrow> 32 word" where
  "elem s i = (if i < length s then ucast (s ! i) else 0)"

definition tripletToBase64 :: "32 word \<Rightarrow> js_string" where
  "tripletToBase64 x = lookup (signed_drop_bit 18 x AND 63) @ lookup (signed_drop_bit 12 x AND 63)
     @ lookup (signed_drop_bit 6 x AND 63) @ lookup (63 AND x)"

definition triplet :: "bytes \<Rightarrow> nat \<Rightarrow> 32 word" where
  "triplet s p = (push_bit 16 (elem s p) AND 16711680) + (push_bit 8 (elem s (p + 1)) AND 65280)
     + (255 AND elem s (p + 2))"

function encodeChunk :: "bytes \<Rightarrow> nat \<Rightarrow> nat \<Rightarrow> js_string" where
  "encodeChunk s p stop =
     (if p < stop then tripletToBase64 (triplet s p) @ encodeChunk s (p + 3) stop else [])"
  by pat_completeness auto
termination by (relation "measure (\<lambda>(s, p, stop). stop - p)") auto

declare encodeChunk.simps [simp del]

definition maxChunkLength :: nat where
  "maxChunkLength = 16383"

function encode_chunks :: "bytes \<Rightarrow> nat \<Rightarrow> nat \<Rightarrow> js_string list" where
  "encode_chunks s p b =
     (if p < b
      then encodeChunk s p (if p + maxChunkLength > b then b else p + maxChunkLength)
             # encode_chunks s (p + maxChunkLength) b
      else [])"
  by pat_completeness auto
termination by (relation "measure (\<lambda>(s, p, b). b - p)") (auto simp: maxChunkLength_def)

declare encode_chunks.simps [simp del]

definition fromByteArray :: "bytes \<Rightarrow> js_string" where
  "fromByteArray s =
     (let len = length s; w = len mod 3; parts = encode_chunks s 0 (len - w) in
      concat (parts @
        (if w = 1
         then let i = elem s (len - 1)
              in [lookup (signed_drop_bit 2 i) @ lookup (push_bit 4 i AND 63) @ js_text ''==''] 
         else if w = 2
         then let i = push_bit 8 (elem s (len - 2)) + elem s (len - 1)
              in [lookup (signed_drop_bit 10 i) @ lookup (signed_drop_bit 4 i AND 63)
                  @ lookup (push_bit 2 i AND 63) @ js_text ''='']
         else [])))"

section \<open>The reference encoding\<close>

text \<open>RFC 4648: groups of three bytes as the four digits of their number in base 64.\<close>

definition digit :: "nat \<Rightarrow> 16 word" where
  "digit n = alphabet ! (n mod 64)"

fun base64 :: "bytes \<Rightarrow> js_string" where
  "base64 [] = []"
| "base64 [a] = [digit (unat a div 4), digit (unat a * 16), equals_sign, equals_sign]"
| "base64 [a, b] = (let n = unat a * 256 + unat b
     in [digit (n div 1024), digit (n div 16), digit (n * 4), equals_sign])"
| "base64 (a # b # c # bs) = (let n = unat a * 65536 + unat b * 256 + unat c
     in [digit (n div 262144), digit (n div 4096), digit (n div 64), digit n] @ base64 bs)"

section \<open>The tables\<close>

lemma length_alphabet [simp]: "length alphabet = 64"
  by (simp add: alphabet_def js_text_def)

lemma foldl_update_at:
  "inj_on f (set js) \<Longrightarrow> k \<in> set js \<Longrightarrow> foldl (\<lambda>t j. t(f j \<mapsto> g j)) m js (f k) = Some (g k)"
  by (induction js rule: rev_induct) (auto simp: inj_on_def)

lemma js_char_inject: "(word_of_nat (of_char c) :: 16 word) = word_of_nat (of_char d) \<longleftrightarrow> c = d"
proof -
  have "unat (word_of_nat (of_char c) :: 16 word) = of_char c" for c
  proof -
    have "of_char c < (65536 :: nat)" using nat_of_char_less_256 [of c] by linarith
    then show ?thesis by (simp add: unat_of_nat)
  qed
  then show ?thesis by (metis of_char_eq_iff)
qed

lemma distinct_alphabet: "distinct alphabet"
proof -
  have "distinct ''ABCDEFGHIJKLMNOPQRSTUVWXYZabcdefghijklmnopqrstuvwxyz0123456789+/''" by simp
  then show ?thesis by (simp only: alphabet_def js_text_def distinct_map) (simp add: inj_on_def js_char_inject del: of_char_Char)
qed

lemma url_safe_not_in_alphabet:
  "word_of_nat (of_char (CHR ''-'')) \<notin> set alphabet" "word_of_nat (of_char (CHR ''_'')) \<notin> set alphabet"
  by code_simp+

lemma revLookup_alphabet: "k < 64 \<Longrightarrow> revLookup (alphabet ! k) = Some (word_of_nat k)"
proof -
  assume k: "k < 64"
  have "inj_on ((!) alphabet) (set [0..<64])"
    using distinct_alphabet by (auto simp: inj_on_def nth_eq_iff_index_eq)
  note at = foldl_update_at [OF this, of k word_of_nat "\<lambda>_. None"]
  have "alphabet ! k \<in> set alphabet" using k by simp
  then have "alphabet ! k \<noteq> word_of_nat (of_char (CHR ''-''))" "alphabet ! k \<noteq> word_of_nat (of_char (CHR ''_''))"
    using url_safe_not_in_alphabet by metis+
  then show ?thesis using at k by (simp add: revLookup_def del: of_char_Char)
qed

lemma equals_sign_not_in_alphabet: "k < 64 \<Longrightarrow> alphabet ! k \<noteq> equals_sign"
proof -
  have "list_all (\<lambda>k. alphabet ! k \<noteq> equals_sign) [0..<64]" by code_simp
  then show "k < 64 \<Longrightarrow> alphabet ! k \<noteq> equals_sign" by (simp add: list_all_iff)
qed

lemma digit_not_equals [simp]: "digit n \<noteq> equals_sign" "equals_sign \<noteq> digit n"
  using equals_sign_not_in_alphabet [of "n mod 64"] by (auto simp: digit_def)

lemma revLookup_digit: "revLookup (digit n) = Some (word_of_nat (n mod 64))"
  by (simp add: digit_def revLookup_alphabet)

lemma code_of_digit: "i < length s \<Longrightarrow> s ! i = digit n \<Longrightarrow> code_of s i = word_of_nat (n mod 64)"
  by (simp add: code_of_def charCodeAt_def revLookup_digit)

section \<open>Shifts and masks as division\<close>

lemma take_bit_signed_drop_bit:
  "n + m \<le> 32 \<Longrightarrow> take_bit m (signed_drop_bit n x) = take_bit m (drop_bit n (x :: 32 word))"
  by (rule bit_word_eqI) (auto simp: bit_simps)

lemma unat_field:
  "n + m \<le> 32 \<Longrightarrow> unat (take_bit m (signed_drop_bit n (x :: 32 word))) = unat x div 2 ^ n mod 2 ^ m"
proof -
  assume "n + m \<le> 32"
  then have "unat (take_bit m (signed_drop_bit n x)) = take_bit m (drop_bit n (unat x))"
    by (simp only: take_bit_signed_drop_bit unsigned_take_bit_eq unat_drop_bit_eq)
  then show ?thesis by (simp add: take_bit_eq_mod drop_bit_eq_div)
qed

lemma take_bit_byte [simp]: "take_bit 32 (unat (b :: byte)) = unat b"
  using unat_byte_less [of b] by (simp add: take_bit_nat_eq_self del: unat_byte_less)

lemma and_63: "(x :: 32 word) AND 63 = take_bit 6 x" "63 AND x = take_bit 6 x"
  using take_bit_eq_mask [of 6 x] by (simp_all add: mask_numeral and.commute)

lemma and_255: "(x :: 32 word) AND 255 = take_bit 8 x" "255 AND x = take_bit 8 x"
  using take_bit_eq_mask [of 8 x] by (simp_all add: mask_numeral and.commute)

lemma signed_drop_bit_0 [simp]: "signed_drop_bit 0 (x :: 32 word) = x"
  by (rule bit_word_eqI) (auto simp: bit_simps)

lemma lookup_field: "n + 6 \<le> 32 \<Longrightarrow> lookup (signed_drop_bit n x AND 63) = [digit (unat x div 2 ^ n)]"
  using unat_field [of n 6 x] by (simp add: lookup_def and_63 digit_def)

lemma lookup_low: "lookup (x AND 63) = [digit (unat x)]" "lookup (63 AND x) = [digit (unat x)]"
  using lookup_field [of 0 x] by (simp_all add: and.commute)

lemma byte_at_div: "n + 8 \<le> 32 \<Longrightarrow> byte_at n x = word_of_nat (unat x div 2 ^ n)"
proof -
  assume "n + 8 \<le> 32"
  then have "unat (byte_at n x) = unat x div 2 ^ n mod 256"
    using unat_field [of n 8 x]
    by (simp add: byte_at_def and_255 unsigned_ucast_eq unsigned_take_bit_eq take_bit_eq_mod)
  then show ?thesis by (simp add: word_unat_eq_iff unat_of_nat)
qed

lemma unat_elem: "i < length s \<Longrightarrow> unat (elem s i) = unat (s ! i)"
  by (simp add: elem_def unsigned_ucast_eq)

lemma unat_elem_less: "unat (elem s i) < 256"
  by (simp add: elem_def unsigned_ucast_eq)

lemma unat_push_bit: "unat (x :: 32 word) * 2 ^ n < 2 ^ 32 \<Longrightarrow> unat (push_bit n x) = unat x * 2 ^ n"
  by (simp only: unsigned_push_bit_eq) (simp add: take_bit_nat_eq_self push_bit_eq_mult)

lemma unat_add: "unat (x :: 32 word) + unat y < 2 ^ 32 \<Longrightarrow> unat (x + y) = unat x + unat y"
  using unat_add_lem [of x y] by simp

lemma take_bit_small: "unat (x :: 32 word) < 2 ^ n \<Longrightarrow> take_bit n x = x"
  by (simp add: word_unat_eq_iff unsigned_take_bit_eq take_bit_nat_eq_self)

lemma mask_high: "unat (x :: 32 word) < 256 \<Longrightarrow> push_bit n x AND push_bit n 255 = push_bit n x"
proof -
  assume "unat x < 256"
  then have "take_bit 8 x = x" using take_bit_small [of x 8] by simp
  then show ?thesis by (simp add: push_bit_and [symmetric] and_255)
qed

lemma unat_or: "(x :: 32 word) AND y = 0 \<Longrightarrow> unat x + unat y < 2 ^ 32 \<Longrightarrow> unat (x OR y) = unat x + unat y"
  using disjunctive_add_eq_or [of x y] unat_add [of x y] by simp

lemma disjoint_low: "unat (y :: 32 word) < 2 ^ n \<Longrightarrow> n \<le> 32 \<Longrightarrow> push_bit n x AND y = 0"
proof -
  assume "unat y < 2 ^ n" "n \<le> 32"
  then have y: "y = take_bit n y" by (simp add: take_bit_small)
  show ?thesis by (subst y) (rule bit_word_eqI, auto simp: bit_simps)
qed

lemma unat_join:
  "unat (x :: 32 word) * 2 ^ n + unat y < 2 ^ 32 \<Longrightarrow> unat y < 2 ^ n \<Longrightarrow> n \<le> 32 \<Longrightarrow>
     unat (push_bit n x OR y) = unat x * 2 ^ n + unat y"
  using unat_or [OF disjoint_low, of y n x] unat_push_bit [of x n] by simp

section \<open>Encoding implements the reference\<close>

lemma base64_append: "length xs mod 3 = 0 \<Longrightarrow> base64 (xs @ ys) = base64 xs @ base64 ys"
  by (induction xs rule: base64.induct) (auto simp: Let_def)

lemma drop_three:
  assumes "p + 2 < length s"
  shows "drop p s = s ! p # s ! (p + 1) # s ! (p + 2) # drop (p + 3) s"
  using assms Cons_nth_drop_Suc [of p s] Cons_nth_drop_Suc [of "Suc p" s]
    Cons_nth_drop_Suc [of "Suc (Suc p)" s] by (simp add: eval_nat_numeral)

lemma unat_triplet:
  assumes "p + 2 < length s"
  shows "unat (triplet s p) = unat (s ! p) * 65536 + unat (s ! (p + 1)) * 256 + unat (s ! (p + 2))"
proof -
  let ?a = "elem s p" and ?b = "elem s (p + 1)" and ?c = "elem s (p + 2)"
  have a: "unat ?a < 256" and b: "unat ?b < 256" and c: "unat ?c < 256"
    by (rule unat_elem_less)+
  have "triplet s p = push_bit 16 ?a + push_bit 8 ?b + ?c"
    using mask_high [OF a, of 16] mask_high [OF b, of 8] mask_high [OF c, of 0]
    by (simp add: triplet_def and.commute)
  moreover have A: "unat (push_bit 16 ?a) = unat ?a * 65536" and B: "unat (push_bit 8 ?b) = unat ?b * 256"
    using unat_push_bit [of ?a 16] unat_push_bit [of ?b 8] a b by simp_all
  have "unat (push_bit 16 ?a + push_bit 8 ?b) = unat ?a * 65536 + unat ?b * 256"
    using unat_add [of "push_bit 16 ?a" "push_bit 8 ?b"] A B a b by simp
  with unat_add [of "push_bit 16 ?a + push_bit 8 ?b" ?c] a b c
  have "unat (push_bit 16 ?a + push_bit 8 ?b + ?c) = unat ?a * 65536 + unat ?b * 256 + unat ?c" by simp
  ultimately show ?thesis using assms by (simp add: unat_elem)
qed

lemma tripletToBase64_digits:
  "tripletToBase64 x = [digit (unat x div 262144), digit (unat x div 4096), digit (unat x div 64), digit (unat x)]"
  using lookup_field [of 18 x] lookup_field [of 12 x] lookup_field [of 6 x]
  by (simp add: tripletToBase64_def lookup_low)

lemma encodeChunk_base64:
  "p + 3 * m \<le> length s \<Longrightarrow> encodeChunk s p (p + 3 * m) = base64 (take (3 * m) (drop p s))"
proof (induction m arbitrary: p)
  case 0 then show ?case by (simp add: encodeChunk.simps)
next
  case (Suc m)
  then have "p + 2 < length s" by simp
  have three: "take (3 * Suc m) (drop p s) = s ! p # s ! (p + 1) # s ! (p + 2) # take (3 * m) (drop (p + 3) s)"
    unfolding drop_three [OF \<open>p + 2 < length s\<close>] by (simp add: eval_nat_numeral)
  have "encodeChunk s p (p + 3 * Suc m) = tripletToBase64 (triplet s p) @ encodeChunk s (p + 3) (p + 3 + 3 * m)"
    by (subst encodeChunk.simps) (simp add: algebra_simps)
  also have "\<dots> = tripletToBase64 (triplet s p) @ base64 (take (3 * m) (drop (p + 3) s))"
    using Suc.IH [of "p + 3"] Suc.prems by simp
  also have "\<dots> = base64 (take (3 * Suc m) (drop p s))"
    unfolding three tripletToBase64_digits unat_triplet [OF \<open>p + 2 < length s\<close>] by (simp add: Let_def)
  finally show ?case .
qed

lemma encode_chunks_base64:
  "p + 3 * m \<le> length s \<Longrightarrow> concat (encode_chunks s p (p + 3 * m)) = base64 (take (3 * m) (drop p s))"
proof (induction m arbitrary: p rule: less_induct)
  case (less m)
  consider "m = 0" | "0 < m" "m \<le> 5461" | k where "m = 5461 + k" "0 < k"
    by (metis le_add_diff_inverse less_imp_le_nat neq0_conv not_le zero_less_diff)
  then show ?case
  proof cases
    case 1 then show ?thesis by (simp add: encode_chunks.simps)
  next
    case 2
    then have "encode_chunks s (p + 16383) (p + 3 * m) = []" by (simp add: encode_chunks.simps)
    with 2 less.prems encodeChunk_base64 [of p m s] show ?thesis
      by (subst encode_chunks.simps) (auto simp: maxChunkLength_def)
  next
    case 3
    have "take (3 * m) (drop p s) = take (3 * 5461) (drop p s) @ take (3 * k) (drop (p + 16383) s)"
      using 3 take_add [of "3 * 5461" "3 * k" "drop p s"] by (simp add: algebra_simps)
    moreover have "length (take (3 * 5461) (drop p s)) mod 3 = 0" using less.prems 3 by simp
    ultimately have "base64 (take (3 * m) (drop p s)) =
        base64 (take (3 * 5461) (drop p s)) @ base64 (take (3 * k) (drop (p + 16383) s))"
      by (simp only: base64_append)
    with less.IH [of k "p + 16383"] encodeChunk_base64 [of p 5461 s] less.prems 3 show ?thesis
      by (subst encode_chunks.simps) (simp add: maxChunkLength_def algebra_simps)
  qed
qed

lemma bit_below: "unat (x :: 32 word) < 2 ^ m \<Longrightarrow> bit x i \<Longrightarrow> i < m"
  using take_bit_small [of x m] bit_take_bit_iff [of m x i] by metis

lemma lookup_small:
  assumes "unat x < 2 ^ (n + 6)" "n \<le> 25"
  shows "lookup (signed_drop_bit n x) = [digit (unat x div 2 ^ n)]"
proof -
  have "take_bit 6 (signed_drop_bit n x) = signed_drop_bit n x"
  proof (rule bit_word_eqI)
    fix k
    show "bit (take_bit 6 (signed_drop_bit n x)) k = bit (signed_drop_bit n x) k"
      using bit_below [OF assms(1), of 31] bit_below [OF assms(1), of "n + k"] assms(2)
      by (auto simp: bit_simps)
  qed
  then have "signed_drop_bit n x AND 63 = signed_drop_bit n x" by (simp only: and_63)
  with lookup_field [of n x] assms(2) show ?thesis by simp
qed

lemma lookup_shifted:
  "unat x * 2 ^ n < 2 ^ 32 \<Longrightarrow> lookup (push_bit n x AND 63) = [digit (unat x * 2 ^ n)]"
  by (simp add: lookup_low unat_push_bit)

lemma js_text_equals: "js_text ''='' = [equals_sign]" "js_text ''=='' = [equals_sign, equals_sign]"
  by (simp_all add: js_text_def equals_sign_def)

lemma fromByteArray_1:
  assumes "length s mod 3 = 1"
  shows "fromByteArray s = concat (encode_chunks s 0 (length s - 1)) @ base64 [s ! (length s - 1)]"
proof -
  let ?i = "elem s (length s - 1)"
  have i: "unat ?i < 256" by (rule unat_elem_less)
  have "length s - 1 < length s" using assms by (cases s) simp_all
  then have "unat ?i = unat (s ! (length s - 1))" by (rule unat_elem)
  with assms lookup_small [of ?i 2] lookup_shifted [of ?i 4] i show ?thesis
    by (simp add: fromByteArray_def Let_def js_text_equals)
qed

lemma fromByteArray_2:
  assumes "length s mod 3 = 2"
  shows "fromByteArray s = concat (encode_chunks s 0 (length s - 2))
    @ base64 [s ! (length s - 2), s ! (length s - 1)]"
proof -
  let ?a = "elem s (length s - 2)" and ?b = "elem s (length s - 1)"
  let ?i = "push_bit 8 ?a + ?b"
  have a: "unat ?a < 256" and b: "unat ?b < 256" by (rule unat_elem_less)+
  have "2 \<le> length s" using assms by (metis mod_less_eq_dividend)
  then have "unat ?a = unat (s ! (length s - 2))" "unat ?b = unat (s ! (length s - 1))"
    by (simp_all add: unat_elem)
  moreover have i: "unat ?i = unat ?a * 256 + unat ?b"
    using unat_push_bit [of ?a 8] unat_add [of "push_bit 8 ?a" ?b] a b by simp
  moreover have "lookup (signed_drop_bit 10 ?i) = [digit ((unat ?a * 256 + unat ?b) div 1024)]"
    using lookup_small [of ?i 10] i a b by simp
  moreover have "lookup (signed_drop_bit 4 ?i AND 63) = [digit ((unat ?a * 256 + unat ?b) div 16)]"
    using lookup_field [of 4 ?i] i by simp
  moreover have "lookup (push_bit 2 ?i AND 63) = [digit ((unat ?a * 256 + unat ?b) * 4)]"
    using lookup_shifted [of ?i 2] a b unfolding i by simp
  ultimately show ?thesis
    using assms by (simp add: fromByteArray_def Let_def js_text_equals)
qed

lemma split_three:
  obtains xs ys m where "bs = xs @ ys" "length xs = 3 * m" "length ys < 3"
proof
  show "bs = take (3 * (length bs div 3)) bs @ drop (3 * (length bs div 3)) bs" by simp
  show "length (take (3 * (length bs div 3)) bs) = 3 * (length bs div 3)" by simp
  show "length (drop (3 * (length bs div 3)) bs) < 3" by (simp add: minus_mult_div_eq_mod)
qed

lemma short_list_cases:
  assumes "length ys < 3"
  obtains "ys = []" | a where "ys = [a]" | a b where "ys = [a, b]"
proof (cases ys rule: remdups_adj.cases)
  case (3 a b zs) with assms that show ?thesis by simp
qed (use that in auto)

lemma fromByteArray_reference: "fromByteArray bs = base64 bs"
proof -
  obtain xs ys m where bs: "bs = xs @ ys" and xs: "length xs = 3 * m" and ys: "length ys < 3"
    by (rule split_three)
  have chunks: "concat (encode_chunks (xs @ ys) 0 (3 * m)) = base64 xs"
    using encode_chunks_base64 [of 0 m "xs @ ys"] xs by simp
  have app: "base64 (xs @ ys) = base64 xs @ base64 ys" using xs by (intro base64_append) simp
  have mod: "length (xs @ ys) mod 3 = length ys" using xs ys by simp
  from ys show ?thesis
  proof (cases ys rule: short_list_cases)
    case 1
    with chunks app xs show ?thesis by (simp add: bs fromByteArray_def Let_def)
  next
    case (2 a)
    with mod have "length (xs @ ys) mod 3 = 1" by simp
    from fromByteArray_1 [OF this] 2 chunks app xs show ?thesis by (simp add: bs nth_append)
  next
    case (3 a b)
    with mod have "length (xs @ ys) mod 3 = 2" by simp
    from fromByteArray_2 [OF this] 3 chunks app xs show ?thesis by (simp add: bs nth_append)
  qed
qed

section \<open>Decoding what was encoded\<close>

lemma unat_quad:
  assumes "code_of s u = word_of_nat (a mod 64)" "code_of s (u + 1) = word_of_nat (b mod 64)"
    "code_of s (u + 2) = word_of_nat (c mod 64)" "code_of s (u + 3) = word_of_nat (d mod 64)"
  shows "unat (quad s u) = a mod 64 * 262144 + b mod 64 * 4096 + c mod 64 * 64 + d mod 64"
proof -
  let ?w = "\<lambda>n. word_of_nat (n mod 64) :: 32 word"
  have u: "unat (?w n) = n mod 64" for n by (simp add: unat_of_nat)
  have bound: "p mod 64 * 262144 + (q mod 64 * 4096 + (r mod 64 * 64 + t mod 64)) < 4294967296"
    "q mod 64 * 4096 + (r mod 64 * 64 + t mod 64) < 262144" for p q r t :: nat
    using mod_less_divisor [of 64 p] mod_less_divisor [of 64 q] mod_less_divisor [of 64 r]
      mod_less_divisor [of 64 t] by linarith+
  have 1: "unat (push_bit 6 (?w c) OR ?w d) = c mod 64 * 64 + d mod 64"
    using unat_join [of "?w c" 6 "?w d"] by (simp add: u)
  have 2: "unat (push_bit 12 (?w b) OR (push_bit 6 (?w c) OR ?w d)) = b mod 64 * 4096 + (c mod 64 * 64 + d mod 64)"
    using unat_join [of "?w b" 12 "push_bit 6 (?w c) OR ?w d"] 1 by (simp add: u)
  have "unat (push_bit 18 (?w a) OR (push_bit 12 (?w b) OR (push_bit 6 (?w c) OR ?w d)))
      = a mod 64 * 262144 + (b mod 64 * 4096 + (c mod 64 * 64 + d mod 64))"
    using unat_join [of "?w a" 18 "push_bit 12 (?w b) OR (push_bit 6 (?w c) OR ?w d)"] bound(1) [of a b c d] bound(2) [of b c d]
    unfolding 2 u by simp
  then show ?thesis unfolding quad_def assms by (simp only: or.assoc add.assoc)
qed

lemma digits_of_number:
  "n < 16777216 \<Longrightarrow> n div 262144 mod 64 * 262144 + n div 4096 mod 64 * 4096 + n div 64 mod 64 * 64 + n mod 64 = (n :: nat)"
proof -
  assume "n < 16777216"
  moreover have "n = n div 64 * 64 + n mod 64" "n div 64 = n div 4096 * 64 + n div 64 mod 64"
    "n div 4096 = n div 262144 * 64 + n div 4096 mod 64"
    using div_mult2_eq [of n 64 64] div_mult2_eq [of n 4096 64] by simp_all
  moreover have "n div 262144 mod 64 = n div 262144"
    using \<open>n < 16777216\<close> by (simp add: less_mult_imp_div_less)
  ultimately show ?thesis by linarith
qed

lemma nth_middle: "length pre = u \<Longrightarrow> k < length mid \<Longrightarrow> (pre @ mid @ suf) ! (u + k) = mid ! k"
  by (simp add: nth_append)

lemma code_of_digits:
  "length pre = u \<Longrightarrow> k < length ds \<Longrightarrow> ds ! k = digit n \<Longrightarrow> code_of (pre @ ds @ suf) (u + k) = word_of_nat (n mod 64)"
  by (rule code_of_digit) (simp_all add: nth_middle)

lemma three_bytes_number:
  "unat a * 65536 + unat b * 256 + unat c < 16777216" for a b c :: byte
  using unat_byte_less [of a] unat_byte_less [of b] unat_byte_less [of c] by linarith

lemma byte_low: "(word_of_nat (x * 256 + unat b) :: byte) = b"
  by (simp only: word_unat_eq_iff unat_of_nat) simp

lemma byte_of_number:
  fixes a b c :: byte
  shows "word_of_nat ((unat a * 65536 + unat b * 256 + unat c) div 65536) = a"
    "word_of_nat ((unat a * 65536 + unat b * 256 + unat c) div 256) = b"
    "word_of_nat (unat a * 65536 + unat b * 256 + unat c) = c"
proof -
  have "(unat a * 65536 + unat b * 256 + unat c) div 65536 = unat a"
    "(unat a * 65536 + unat b * 256 + unat c) div 256 = unat a * 256 + unat b"
    using unat_byte_less [of a] unat_byte_less [of b] unat_byte_less [of c] by linarith+
  then show "word_of_nat ((unat a * 65536 + unat b * 256 + unat c) div 65536) = a"
    "word_of_nat ((unat a * 65536 + unat b * 256 + unat c) div 256) = b"
    "word_of_nat (unat a * 65536 + unat b * 256 + unat c) = c"
    using byte_low [of "unat a" b] byte_low [of "unat a * 256 + unat b" c]
    by (simp_all del: of_nat_add of_nat_mult add: algebra_simps)
qed

lemma quad_bytes:
  assumes "length pre = u"
  shows "byte_at 16 (quad (pre @ base64 (a # b # c # xs) @ suf) u) = a"
    "byte_at 8 (quad (pre @ base64 (a # b # c # xs) @ suf) u) = b"
    "byte_at 0 (quad (pre @ base64 (a # b # c # xs) @ suf) u) = c"
proof -
  let ?s = "pre @ base64 (a # b # c # xs) @ suf"
  define n where "n = unat a * 65536 + unat b * 256 + unat c"
  have ds: "base64 (a # b # c # xs) = [digit (n div 262144), digit (n div 4096), digit (n div 64), digit n] @ base64 xs"
    by (simp add: n_def Let_def)
  have "code_of ?s u = word_of_nat (n div 262144 mod 64)" "code_of ?s (u + 1) = word_of_nat (n div 4096 mod 64)"
    "code_of ?s (u + 2) = word_of_nat (n div 64 mod 64)" "code_of ?s (u + 3) = word_of_nat (n mod 64)"
    using code_of_digits [OF assms, of 0 "base64 (a # b # c # xs)" _ suf]
      code_of_digits [OF assms, of 1 "base64 (a # b # c # xs)" _ suf]
      code_of_digits [OF assms, of 2 "base64 (a # b # c # xs)" _ suf]
      code_of_digits [OF assms, of 3 "base64 (a # b # c # xs)" _ suf] unfolding ds by simp_all
  from unat_quad [OF this] have "unat (quad ?s u) = n"
    using three_bytes_number [of a b c] by (simp only: digits_of_number n_def)
  then show "byte_at 16 (quad ?s u) = a" "byte_at 8 (quad ?s u) = b" "byte_at 0 (quad ?s u) = c"
    using byte_at_div [of 16 "quad ?s u"] byte_at_div [of 8 "quad ?s u"] byte_at_div [of 0 "quad ?s u"]
      byte_of_number [where a = a and b = b and c = c] by (simp_all add: n_def)
qed

lemma update_three:
  "length done = k \<Longrightarrow> (done @ x # y # z # rest)[k := a, k + 1 := b, k + 2 := c] = (done @ [a, b, c]) @ rest"
  by (simp add: list_update_append eval_nat_numeral)

lemma decode_quads_base64:
  "length xs = 3 * m \<Longrightarrow> length pre = u \<Longrightarrow> length done = k \<Longrightarrow> length rest = length xs + r \<Longrightarrow>
     int (u + 4 * m) - 4 < limit \<Longrightarrow> limit \<le> int (u + 4 * m) \<Longrightarrow>
     decode_quads (pre @ base64 xs @ suf) limit u k (done @ rest) =
       (u + 4 * m, k + 3 * m, done @ xs @ drop (3 * m) rest)"
proof (induction m arbitrary: xs pre u "done" k rest)
  case 0 then show ?case by (simp add: decode_quads.simps)
next
  case (Suc m)
  from Suc.prems(1) obtain a b c ys where xs: "xs = a # b # c # ys" and ys: "length ys = 3 * m"
    by (auto simp: length_Suc_conv eval_nat_numeral)
  from Suc.prems(1, 4) obtain x y z rest' where rest: "rest = x # y # z # rest'" and rest': "length rest' = length ys + r"
    by (auto simp: xs length_Suc_conv eval_nat_numeral)
  obtain ds where ds: "base64 xs = ds @ base64 ys" and four: "length ds = 4"
    by (simp add: xs Let_def)
  let ?s = "pre @ base64 xs @ suf"
  have eq: "?s = (pre @ ds) @ base64 ys @ suf" by (simp add: ds)
  have go: "int u < limit" using Suc.prems(5) by simp
  have "decode_quads ?s limit u k (done @ rest) = decode_quads ?s limit (u + 4) (k + 3) ((done @ [a, b, c]) @ rest')"
    using go update_three [OF Suc.prems(3)] quad_bytes [OF Suc.prems(2)]
    by (subst decode_quads.simps) (simp add: xs rest Let_def del: base64.simps)
  also have "\<dots> = (u + 4 * Suc m, k + 3 * Suc m, done @ xs @ drop (3 * m) rest')"
    unfolding eq
    using Suc.IH [of ys "pre @ ds" "u + 4" "done @ [a, b, c]" "k + 3" rest'] ys four rest' Suc.prems
    by (simp add: xs rest)
  also have "drop (3 * m) rest' = drop (3 * Suc m) rest" by (simp add: rest eval_nat_numeral)
  finally show ?case .
qed

lemma indexOf_None: "c \<notin> set s \<Longrightarrow> indexOf s c = None"
  by (induction s) auto

lemma indexOf_append: "c \<notin> set xs \<Longrightarrow> indexOf (xs @ c # ys) c = Some (length xs)"
  by (induction xs) auto

lemma indexOf_Some: "indexOf s c = Some k \<Longrightarrow> k < length s \<and> s ! k = c"
  by (induction s arbitrary: k) (auto split: if_splits option.splits)

lemma indexOf_0: "indexOf s c = Some 0 \<longleftrightarrow> s \<noteq> [] \<and> hd s = c"
  by (cases s) (auto split: option.splits)

lemma base64_triples:
  "length xs = 3 * m \<Longrightarrow> length (base64 xs) = 4 * m \<and> equals_sign \<notin> set (base64 xs)"
proof (induction m arbitrary: xs)
  case (Suc m)
  then obtain a b c ys where xs: "xs = a # b # c # ys" and ys: "length ys = 3 * m"
    by (auto simp: length_Suc_conv eval_nat_numeral)
  from Suc.IH [OF ys] show ?case by (simp add: xs Let_def)
qed simp

lemma unat_signed_drop_bit:
  assumes "unat (x :: 32 word) < 2 ^ 31"
  shows "unat (signed_drop_bit n x) = unat x div 2 ^ n"
proof -
  have "signed_drop_bit n x = drop_bit n x"
  proof (rule bit_word_eqI)
    fix k
    assume "k < LENGTH(32)"
    then show "bit (signed_drop_bit n x) k = bit (drop_bit n x) k"
      using bit_below [OF assms, of 31] bit_below [OF assms, of "n + k"] by (auto simp: bit_simps)
  qed
  then show ?thesis by (simp only: unat_drop_bit_eq) (simp add: drop_bit_eq_div)
qed

lemma unat_code: "unat (word_of_nat (n mod 64) :: 32 word) = n mod 64"
  using mod_less_divisor [of 64 n] by (simp add: unat_of_nat)

lemma decode_one:
  assumes "n < 256"
  shows "unat (push_bit 2 (word_of_nat (n div 4 mod 64)) OR signed_drop_bit 4 (word_of_nat (n * 16 mod 64)) :: 32 word) = n"
proof -
  let ?y = "word_of_nat (n * 16 mod 64) :: 32 word"
  have "n * 16 mod 64 = n mod 4 * 16" using mod_mult_mult2 [of n 16 4] by simp
  then have y: "unat (signed_drop_bit 4 ?y) = n mod 4"
    using unat_signed_drop_bit [of ?y 4] unat_code [of "n * 16"] by simp
  have "n div 4 mod 64 = n div 4" using assms by simp
  then show ?thesis
    using unat_join [of "word_of_nat (n div 4 mod 64)" 2 "signed_drop_bit 4 ?y"] y unat_code [of "n div 4"] assms
    by simp
qed

lemma decode_two:
  assumes "n < 65536"
  shows "unat (push_bit 10 (word_of_nat (n div 1024 mod 64)) OR push_bit 4 (word_of_nat (n div 16 mod 64))
    OR signed_drop_bit 2 (word_of_nat (n * 4 mod 64)) :: 32 word) = n"
proof -
  let ?x = "word_of_nat (n div 1024 mod 64) :: 32 word" and ?y = "word_of_nat (n div 16 mod 64) :: 32 word"
    and ?z = "word_of_nat (n * 4 mod 64) :: 32 word"
  have "n * 4 mod 64 = n mod 16 * 4" using mod_mult_mult2 [of n 4 16] by simp
  then have z: "unat (signed_drop_bit 2 ?z) = n mod 16"
    using unat_signed_drop_bit [of ?z 2] unat_code [of "n * 4"] by simp
  have yz: "unat (push_bit 4 ?y OR signed_drop_bit 2 ?z) = n div 16 mod 64 * 16 + n mod 16"
    using unat_join [of ?y 4 "signed_drop_bit 2 ?z"] unat_code [of "n div 16"] z mod_less_divisor [of 64 "n div 16"]
      mod_less_divisor [of 16 n] by simp
  have n: "n = n div 16 * 16 + n mod 16" "n div 16 = n div 1024 * 64 + n div 16 mod 64" "n div 1024 mod 64 = n div 1024"
    using div_mult2_eq [of n 16 64] assms by (simp_all add: less_mult_imp_div_less)
  have "unat (push_bit 10 ?x OR (push_bit 4 ?y OR signed_drop_bit 2 ?z)) = n div 1024 * 1024 + (n div 16 mod 64 * 16 + n mod 16)"
    using unat_join [of ?x 10 "push_bit 4 ?y OR signed_drop_bit 2 ?z"] unat_code [of "n div 1024"]
      mod_less_divisor [of 64 "n div 16"] mod_less_divisor [of 16 n] assms
    unfolding yz n(3) by simp
  then show ?thesis using n by (simp only: or.assoc)
qed

lemma toByteArray_run:
  "getLens s = Inr (j, p) \<Longrightarrow> byteLength_of j p = int n \<Longrightarrow>
     decode_quads s (if p > 0 then int j - 4 else int j) 0 0 (replicate n 0) = (u, k, B) \<Longrightarrow>
     toByteArray s = Inr
       (if p = 2 then B[k := byte_at 0 (push_bit 2 (code_of s u) OR signed_drop_bit 4 (code_of s (u + 1)))]
        else if p = 1 then
          (let i = push_bit 10 (code_of s u) OR push_bit 4 (code_of s (u + 1)) OR signed_drop_bit 2 (code_of s (u + 2))
           in B[k := byte_at 8 i, k + 1 := byte_at 0 i])
        else B)"
  by (simp add: toByteArray_def Let_def)

lemma toByteArray_base64: "toByteArray (base64 bs) = Inr bs"
proof -
  obtain xs ys m where bs: "bs = xs @ ys" and xs: "length xs = 3 * m" and ys: "length ys < 3"
    by (rule split_three)
  have s: "base64 bs = base64 xs @ base64 ys" unfolding bs using xs by (intro base64_append) simp
  note pre = base64_triples [OF xs]
  let ?run = "\<lambda>suf limit n. decode_quads (base64 xs @ suf) limit 0 0 (replicate n 0)"
  have run: "?run suf limit (3 * m + r) = (4 * m, 3 * m, xs @ replicate r 0)"
    if "int (4 * m) - 4 < limit" "limit \<le> int (4 * m)" for suf limit r
    using decode_quads_base64 [OF xs, of "[]" 0 "[]" 0 "replicate (3 * m + r) 0" r limit suf] that xs by simp
  from ys show ?thesis
  proof (cases ys rule: short_list_cases)
    case 1
    have "getLens (base64 xs) = Inr (4 * m, 0)"
      using pre by (simp add: getLens_def indexOf_None Let_def)
    moreover have "byteLength_of (4 * m) 0 = int (3 * m)" by (simp add: byteLength_of_def)
    ultimately show ?thesis
      using toByteArray_run [of "base64 xs" "4 * m" 0 "3 * m" "4 * m" "3 * m" xs] run [of "int (4 * m)" "[]" 0]
      by (simp add: bs 1)
  next
    case (2 a)
    let ?s = "base64 xs @ base64 [a]"
    let ?i = "push_bit 2 (code_of ?s (4 * m)) OR signed_drop_bit 4 (code_of ?s (4 * m + 1))"
    have "indexOf ((base64 xs @ [digit (unat a div 4), digit (unat a * 16)]) @ equals_sign # [equals_sign]) equals_sign
        = Some (length (base64 xs @ [digit (unat a div 4), digit (unat a * 16)]))"
      using pre by (intro indexOf_append) simp
    moreover have "Suc (Suc (4 * m)) mod 4 = 2" by presburger
    ultimately have lens: "getLens ?s = Inr (4 * m + 2, 2)"
      using pre by (simp add: getLens_def Let_def)
    have "unat ?i = unat a"
      using code_of_digits [of "base64 xs" "4 * m" 0 "base64 [a]" "unat a div 4" "[]"]
        code_of_digits [of "base64 xs" "4 * m" 1 "base64 [a]" "unat a * 16" "[]"] pre decode_one [of "unat a"] by simp
    then have "byte_at 0 ?i = a" using byte_at_div [of 0 ?i] by simp
    moreover have "byteLength_of (4 * m + 2) 2 = int (3 * m + 1)" by (simp add: byteLength_of_def)
    ultimately have "toByteArray ?s = Inr (xs @ [a])"
      using toByteArray_run [OF lens, of "3 * m + 1" "4 * m" "3 * m" "xs @ [0]"]
        run [of "int (4 * m) - 2" "base64 [a]" 1] xs by (simp add: list_update_append del: base64.simps)
    then show ?thesis by (simp only: s) (simp only: bs 2)
  next
    case (3 a b)
    let ?s = "base64 xs @ base64 [a, b]" and ?n = "unat a * 256 + unat b"
    let ?i = "push_bit 10 (code_of ?s (4 * m)) OR push_bit 4 (code_of ?s (4 * m + 1)) OR signed_drop_bit 2 (code_of ?s (4 * m + 2))"
    have ds: "base64 [a, b] = [digit (?n div 1024), digit (?n div 16), digit (?n * 4), equals_sign]"
      by (simp add: Let_def)
    have "indexOf ((base64 xs @ [digit (?n div 1024), digit (?n div 16), digit (?n * 4)]) @ [equals_sign]) equals_sign
        = Some (length (base64 xs @ [digit (?n div 1024), digit (?n div 16), digit (?n * 4)]))"
      using pre by (intro indexOf_append) simp
    moreover have "Suc (Suc (Suc (4 * m))) mod 4 = 3" "(4 * m + 3) mod 4 = 3" by presburger+
    ultimately have lens: "getLens ?s = Inr (4 * m + 3, 1)"
      unfolding ds using pre by (simp add: getLens_def Let_def del: base64.simps)
    have n: "?n < 65536" using unat_byte_less [of a] unat_byte_less [of b] by linarith
    have codes: "code_of ?s (4 * m) = word_of_nat (?n div 1024 mod 64)"
      "code_of ?s (4 * m + 1) = word_of_nat (?n div 16 mod 64)" "code_of ?s (4 * m + 2) = word_of_nat (?n * 4 mod 64)"
      using code_of_digits [of "base64 xs" "4 * m" 0 "base64 [a, b]" "?n div 1024" "[]"]
        code_of_digits [of "base64 xs" "4 * m" 1 "base64 [a, b]" "?n div 16" "[]"]
        code_of_digits [of "base64 xs" "4 * m" 2 "base64 [a, b]" "?n * 4" "[]"] pre unfolding ds by simp_all
    have i: "unat ?i = ?n" unfolding codes by (rule decode_two [OF n])
    have "byte_at 0 ?i = b" using byte_at_div [of 0 ?i] byte_low [of "unat a" b] unfolding i by simp
    moreover have "?n div 256 = unat a" using unat_byte_less [of b] by linarith
    then have "byte_at 8 ?i = a" using byte_at_div [of 8 ?i] unfolding i by simp
    moreover have "byteLength_of (4 * m + 3) 1 = int (3 * m + 2)" by (simp add: byteLength_of_def)
    ultimately have "toByteArray ?s = Inr (xs @ [a, b])"
      using toByteArray_run [OF lens, of "3 * m + 2" "4 * m" "3 * m" "xs @ [0, 0]"]
        run [of "int (4 * m) - 1" "base64 [a, b]" 2] xs
      by (simp add: list_update_append eval_nat_numeral Let_def del: base64.simps)
    then show ?thesis by (simp only: s) (simp only: bs 3)
  qed
qed

section \<open>Lengths and errors\<close>

lemma length_decode_quads: "length (snd (snd (decode_quads s limit u k B))) = length B"
proof (induction s limit u k B rule: decode_quads.induct)
  case (1 s limit u k B)
  then show ?case by (subst decode_quads.simps) (simp add: Let_def)
qed

lemma getLens_Inr:
  assumes "getLens s = Inr (j, p)"
  shows "length s mod 4 = 0" "j \<le> length s" "p \<le> 4" "(j + p) mod 4 = 0"
    "byteLength_of j p < 0 \<longleftrightarrow> s \<noteq> [] \<and> hd s = equals_sign"
proof -
  show len: "length s mod 4 = 0" and j: "j \<le> length s" and p: "p \<le> 4"
    using assms indexOf_Some [of s equals_sign]
    by (auto simp: getLens_def Let_def less_imp_le split: if_splits option.splits)
  show sum: "(j + p) mod 4 = 0" using assms len
    by (auto simp: getLens_def Let_def split: if_splits option.splits) presburger+
  obtain q where q: "j + p = 4 * q" using sum by (metis mod_0_imp_dvd dvdE)
  then have b: "byteLength_of j p = int (3 * q) - int p" by (simp add: byteLength_of_def)
  show "byteLength_of j p < 0 \<longleftrightarrow> s \<noteq> [] \<and> hd s = equals_sign"
  proof (cases "s \<noteq> [] \<and> hd s = equals_sign")
    case True
    then have "indexOf s equals_sign = Some 0" by (simp add: indexOf_0)
    with assms True have "j = 0" "p = 4" by (auto simp: getLens_def Let_def split: if_splits)
    with True show ?thesis by (simp add: byteLength_of_def)
  next
    case False
    then have "indexOf s equals_sign \<noteq> Some 0" by (simp add: indexOf_0)
    with assms have "0 < j \<or> p = 0" by (auto simp: getLens_def Let_def split: if_splits option.splits)
    then have "p \<le> 3 * q" using q p by linarith
    with b False show ?thesis by simp
  qed
qed

lemma toByteArray_Inr_length:
  "getLens s = Inr (j, p) \<Longrightarrow> 0 \<le> byteLength_of j p \<Longrightarrow>
     \<exists>bs. toByteArray s = Inr bs \<and> int (length bs) = byteLength_of j p"
proof -
  assume "getLens s = Inr (j, p)" "0 \<le> byteLength_of j p"
  moreover obtain u k B where "decode_quads s (if p > 0 then int j - 4 else int j) 0 0
      (replicate (nat (byteLength_of j p)) 0) = (u, k, B)" by (metis prod_cases3)
  moreover from this have "length B = nat (byteLength_of j p)"
    using length_decode_quads [of s "if p > 0 then int j - 4 else int j" 0 0 "replicate (nat (byteLength_of j p)) 0"]
    by simp
  ultimately show ?thesis by (auto simp: toByteArray_def Let_def)
qed

lemma toByteArray_error:
  "toByteArray s = Inl e \<longleftrightarrow>
     length s mod 4 \<noteq> 0 \<and> e = Error ''Invalid string. Length must be a multiple of 4''
     \<or> length s mod 4 = 0 \<and> s \<noteq> [] \<and> hd s = equals_sign \<and> e = RangeError"
proof (cases "getLens s")
  case (Inl e')
  then show ?thesis by (auto simp: toByteArray_def getLens_def Let_def split: if_splits)
next
  case (Inr jp)
  obtain j p where jp: "getLens s = Inr (j, p)" using Inr by (cases jp) simp
  show ?thesis
  proof (cases "byteLength_of j p < 0")
    case True
    with jp getLens_Inr [OF jp] show ?thesis by (auto simp: toByteArray_def)
  next
    case False
    with toByteArray_Inr_length [OF jp] getLens_Inr [OF jp] show ?thesis by auto
  qed
qed

section \<open>The clean up of Buffer\<close>

text \<open>The white space that \<open>String.prototype.trim\<close> removes.\<close>

definition white_space :: "16 word \<Rightarrow> bool" where
  "white_space c = (c \<in> set [9, 10, 11, 12, 13, 32, 160, 5760, 8192, 8193, 8194, 8195, 8196, 8197, 8198,
     8199, 8200, 8201, 8202, 8232, 8233, 8239, 8287, 12288, 65279])"

definition trim :: "js_string \<Rightarrow> js_string" where
  "trim s = rev (dropWhile white_space (rev (dropWhile white_space s)))"

text \<open>\<open>INVALID_BASE64_RE\<close>, the complement of \<open>[+/0-9A-Za-z-_]\<close>.\<close>

definition invalid_base64 :: "16 word \<Rightarrow> bool" where
  "invalid_base64 c = (\<not> (c = 43 \<or> c = 47 \<or> 48 \<le> c \<and> c \<le> 57 \<or> 65 \<le> c \<and> c \<le> 90 \<or> 97 \<le> c \<and> c \<le> 122
     \<or> c = 45 \<or> c = 95))"

function pad4 :: "js_string \<Rightarrow> js_string" where
  "pad4 s = (if length s mod 4 \<noteq> 0 then pad4 (s @ [equals_sign]) else s)"
  by pat_completeness auto
termination
  by (relation "measure (\<lambda>s. (4 - length s mod 4) mod 4)") (auto simp: mod_Suc)

declare pad4.simps [simp del]

definition base64clean :: "js_string \<Rightarrow> js_string" where
  "base64clean s =
     (let s = takeWhile (\<lambda>c. c \<noteq> equals_sign) s;
          s = filter (\<lambda>c. \<not> invalid_base64 c) (trim s)
      in if length s < 2 then [] else pad4 s)"

definition base64ToBytes :: "js_string \<Rightarrow> js_error + bytes" where
  "base64ToBytes s = toByteArray (base64clean s)"

lemma below_four: "r < 4 \<Longrightarrow> r = 0 \<or> r = 1 \<or> r = 2 \<or> r = (3 :: nat)"
  by arith

lemma pad4_step: "n mod 4 \<noteq> 0 \<Longrightarrow> (4 - n mod 4) mod 4 = Suc ((4 - Suc n mod 4) mod 4)"
  using below_four [of "n mod 4"] by (auto simp: mod_Suc)

lemma pad4_length: "(n + (4 - n mod 4) mod 4) mod 4 = (0 :: nat)"
proof -
  have "(n mod 4 + (4 - n mod 4) mod 4) mod 4 = 0" using below_four [of "n mod 4"] by auto
  then show ?thesis by (simp add: mod_add_left_eq)
qed

lemma pad4_eq: "pad4 s = s @ replicate ((4 - length s mod 4) mod 4) equals_sign"
proof (induction s rule: pad4.induct)
  case (1 s)
  show ?case
  proof (cases "length s mod 4 = 0")
    case False
    with 1 have "pad4 s = (s @ [equals_sign]) @ replicate ((4 - Suc (length s) mod 4) mod 4) equals_sign"
      by (subst pad4.simps) simp
    also have "\<dots> = s @ replicate ((4 - length s mod 4) mod 4) equals_sign"
      unfolding pad4_step [OF False] by simp
    finally show ?thesis .
  qed (subst pad4.simps, simp)
qed

lemma hd_takeWhile: "takeWhile P s \<noteq> [] \<Longrightarrow> P (hd (takeWhile P s))"
  by (cases s) auto

lemma base64ToBytes_total: "\<exists>bs. base64ToBytes s = Inr bs"
proof -
  let ?c = "filter (\<lambda>c. \<not> invalid_base64 c) (trim (takeWhile (\<lambda>c. c \<noteq> equals_sign) s))"
  have inv: "invalid_base64 equals_sign" by (simp add: invalid_base64_def equals_sign_def)
  have len: "length (pad4 ?c) mod 4 = 0" using pad4_length [of "length ?c"] by (simp add: pad4_eq)
  have "hd (pad4 ?c) \<noteq> equals_sign" if "2 \<le> length ?c"
  proof -
    from that obtain x c where "?c = x # c" by (cases ?c) auto
    moreover from this have "\<not> invalid_base64 x" by (metis filter_eq_ConsD)
    ultimately show ?thesis using inv by (auto simp: pad4_eq)
  qed
  then have "\<not> (\<exists>e. toByteArray (base64clean s) = Inl e)"
    using len by (auto simp: base64clean_def Let_def toByteArray_error)
  then show ?thesis unfolding base64ToBytes_def by (metis sum.exhaust)
qed

lemma digit_clean: "\<not> white_space (digit n) \<and> \<not> invalid_base64 (digit n)"
proof -
  have "list_all (\<lambda>c. \<not> white_space c \<and> \<not> invalid_base64 c) alphabet"
    by (simp add: alphabet_def js_text_def white_space_def invalid_base64_def)
  then show ?thesis using nth_mem [of "n mod 64" alphabet] by (simp add: digit_def list_all_iff)
qed

text \<open>An encoded text is made of digits and the padding to a multiple of four.\<close>

lemma base64_shape:
  "\<exists>ds. base64 bs = List.map digit ds @ replicate ((4 - length ds mod 4) mod 4) equals_sign \<and> (ds = [] \<or> 2 \<le> length ds)"
proof (induction bs rule: base64.induct)
  case 1 show ?case by (intro exI [of _ "[]"]) simp
next
  case (2 a) show ?case by (intro exI [of _ "[unat a div 4, unat a * 16]"]) (simp add: numeral_2_eq_2)
next
  case (3 a b)
  let ?n = "unat a * 256 + unat b"
  show ?case by (intro exI [of _ "[?n div 1024, ?n div 16, ?n * 4]"]) (simp add: Let_def)
next
  case (4 a b c bs)
  let ?n = "unat a * 65536 + unat b * 256 + unat c"
  from 4 obtain ds where "base64 bs = List.map digit ds @ replicate ((4 - length ds mod 4) mod 4) equals_sign" by auto
  then show ?case
    by (intro exI [of _ "[?n div 262144, ?n div 4096, ?n div 64, ?n] @ ds"]) (simp add: Let_def)
qed

lemma base64clean_base64: "base64clean (base64 bs) = base64 bs"
proof -
  obtain ds where ds: "base64 bs = List.map digit ds @ replicate ((4 - length ds mod 4) mod 4) equals_sign"
    "ds = [] \<or> 2 \<le> length ds" using base64_shape [of bs] by blast
  have drop: "dropWhile white_space xs = xs" if "\<forall>x \<in> set xs. \<not> white_space x" for xs
    using that by (cases xs) auto
  have dig: "trim (List.map digit ds) = List.map digit ds"
    unfolding trim_def by (simp add: drop digit_clean)
  have "takeWhile (\<lambda>c. c \<noteq> equals_sign) (base64 bs) = List.map digit ds"
    unfolding ds(1) by (subst takeWhile_append2) auto
  then show ?thesis
    using ds(2) by (auto simp: base64clean_def Let_def dig digit_clean ds(1) pad4_eq filter_id_conv)
qed

lemma byteLength_array:
  "byteLength s = (case toByteArray s of Inr bs \<Rightarrow> Inr (int (length bs)) | Inl RangeError \<Rightarrow> Inr (- 1) | Inl e \<Rightarrow> Inl e)"
proof (cases "getLens s")
  case (Inl e)
  then show ?thesis by (auto simp: byteLength_def toByteArray_def getLens_def Let_def split: if_splits)
next
  case (Inr jp)
  obtain j p where jp: "getLens s = Inr (j, p)" using Inr by (cases jp) simp
  show ?thesis
  proof (cases "byteLength_of j p < 0")
    case True
    then have "s \<noteq> []" "hd s = equals_sign" using getLens_Inr [OF jp] by auto
    then have "indexOf s equals_sign = Some 0" by (simp add: indexOf_0)
    with jp have "byteLength_of j p = - 1" by (auto simp: getLens_def Let_def byteLength_of_def split: if_splits)
    with jp show ?thesis by (simp add: byteLength_def toByteArray_def)
  next
    case False
    with toByteArray_Inr_length [OF jp] jp show ?thesis by (auto simp: byteLength_def)
  qed
qed

section \<open>Properties\<close>

text \<open>C40: The encoder, with its chunks of 16383 bytes and its 32 bit shifts and masks, computes the
  base64 encoding of RFC 4648 of every byte array.\<close>

theorem encoder_is_base64: "fromByteArray bs = base64 bs"
  by (rule fromByteArray_reference)

text \<open>C39: Decoding what the encoder produced gives the bytes back, directly and through the clean up
  of \<open>Buffer\<close>.\<close>

theorem base64_decodes: "toByteArray (fromByteArray bs) = Inr bs \<and> base64ToBytes (fromByteArray bs) = Inr bs"
  by (simp add: fromByteArray_reference toByteArray_base64 base64ToBytes_def base64clean_base64)

text \<open>The announced length of a text is the length of the decoded array; the only exceptions are
  the two errors, and for the second (a text that starts with padding) it is minus one.\<close>

theorem announced_length:
  "byteLength s = (case toByteArray s of Inr bs \<Rightarrow> Inr (int (length bs)) | Inl RangeError \<Rightarrow> Inr (- 1) | Inl e \<Rightarrow> Inl e)"
  by (rule byteLength_array)

text \<open>Decoding throws exactly on texts whose length is no multiple of four and on those that start
  with padding; after the clean up of \<open>Buffer\<close> it never throws.\<close>

theorem decoding_errors:
  "(case toByteArray s of Inl (Error m) \<Rightarrow> length s mod 4 > 0
     | Inl RangeError \<Rightarrow> length s mod 4 = 0 \<and> s \<noteq> [] \<and> hd s = equals_sign
     | Inr bs \<Rightarrow> length s mod 4 = 0 \<and> \<not> (s \<noteq> [] \<and> hd s = equals_sign))
   \<and> (\<exists>bs. base64ToBytes s = Inr bs)"
proof -
  have "(case toByteArray s of Inl (Error m) \<Rightarrow> length s mod 4 > 0
     | Inl RangeError \<Rightarrow> length s mod 4 = 0 \<and> s \<noteq> [] \<and> hd s = equals_sign
     | Inr bs \<Rightarrow> length s mod 4 = 0 \<and> \<not> (s \<noteq> [] \<and> hd s = equals_sign))"
  proof (cases "toByteArray s")
    case (Inl e) with toByteArray_error [of s e] show ?thesis by auto
  next
    case (Inr bs)
    then have "toByteArray s \<noteq> Inl (Error ''Invalid string. Length must be a multiple of 4'')"
      "toByteArray s \<noteq> Inl RangeError" by simp_all
    with Inr show ?thesis unfolding toByteArray_error by auto
  qed
  with base64ToBytes_total [of s] show ?thesis by simp
qed

text \<open>
  The padding loop of the clean up ends for every text, after at most three rounds and with a length
  that is a multiple of four: read as a loop that may run forever, it returns what the recursion does.
\<close>

theorem padding_loop_ends:
  "while_option (\<lambda>s. length s mod 4 \<noteq> 0) (\<lambda>s. s @ [equals_sign]) s = Some (pad4 s) \<and>
   length (pad4 s) mod 4 = 0 \<and> length (pad4 s) \<le> length s + 3"
proof -
  have "while_option (\<lambda>s. length s mod 4 \<noteq> 0) (\<lambda>s. s @ [equals_sign]) s = Some (pad4 s)"
    by (induction s rule: pad4.induct) (subst while_option_unfold, subst pad4.simps, simp)
  moreover have "(4 - length s mod 4) mod 4 < 4" by simp
  ultimately show ?thesis using pad4_length [of "length s"] by (simp add: pad4_eq)
qed

end
