(* ===== verification/Spec2Isabelle.thy ===== *)
theory Spec2Isabelle
  imports Rlp_Deserialize Sign_Tx Query_Laws Application_Laws Slot_Laws Transactions Authorization Retirement
    Eip712_Accepts Rpc_Batches Pkcs11_Life Http_Laws Http_Panics Swagger_Base64
begin

text \<open>
  The signare: a service that keeps the keys of Ethereum accounts in hardware security modules, in
  Azure Key Vault or in its own database, and signs transactions with them for the users of
  applications.  This development models its Go sources under \<open>src/app/pkg\<close> and one module of the
  script that its documentation site serves.

  \<^bold>\<open>The program.\<close>  A request reaches the service over HTTP (administration) or JSON-RPC (signing).
  The middleware finds out who asks and asks the policy decision point whether the action is granted;
  for the methods that sign it also asks whether the account belongs to the user.  The use cases then
  read and write applications, modules, slots, users, accounts and administrators through output
  adapters (mapping, errors) and an infrastructure layer (one statement of the database per function).
  Which resource depends on which is recorded in a table of referential integrity entries.  To sign,
  the resolver finds the slot of the application, the connector builds the RLP payload of the
  transaction, has its hash signed by a signature manager, and checks and completes the signature.

  \<^bold>\<open>The theories.\<close>
  \<^item> \<open>Sig_Prelude\<close>: bytes, texts and big-endian numbers, with the lemmas all parts share.
  \<^item> \<open>Rlp\<close>, \<open>Rlp_Deserialize\<close>: \<open>commons/rlp/rlp.go\<close>.  The Go values \<open>Encode\<close> accepts are \<open>gval\<close>; a slice is
    its bytes up to its capacity with a length, because the decoder slices beyond the length.
  \<^item> \<open>Hex_Core\<close>, \<open>Hex_Types\<close>: \<open>encoding/hex\<close> and \<open>entities/encoding_types.go\<close>.  \<open>Address\<close>:
    \<open>entities/address/address.go\<close>.  Numbers of \<open>math/big\<close> are \<open>int\<close>, \<open>uint64\<close> is \<open>64 word\<close>.
  \<^item> \<open>Go_Errors\<close>: the error chains of \<open>internal/errors\<close>, their constructors, the classification
    functions, and the answers over HTTP and JSON-RPC.
  \<^item> \<open>Eth_Tx\<close>, \<open>Hsm_Connector\<close>, \<open>Sign_Tx\<close>: \<open>usecases/hsmconnector\<close> and the managers for local keys and
    Azure Key Vault.
  \<^item> \<open>Pkcs11_Hsm\<close>: \<open>signaturemanager/pkcs11hsm\<close>, the manager for hardware security modules, with the library of
    the device as a record of calls.  \<open>Pkcs11_Token\<close>: what the standard documents of such a library, as the
    hypothesis \<open>implements\<close>.  \<open>Pkcs11_Laws\<close>: the manager on any such library follows the same program on the token
    of the standard, and ends its sessions.  \<open>Pkcs11_Keys\<close>: what each operation answers on a token whose calls do not fail.
    \<open>Pkcs11_Life\<close>: the life of a key.
  \<^item> \<open>Go_Prog\<close>: an operation \<open>prog\<close> reads and changes a world and returns an error or a result; \<open>keeps\<close> and
    \<open>runs\<close> are its Hoare rules.  \<open>Storage\<close>: the world (the seven tables, the draws of identifiers and
    times, a list of the coming failures of the database, the devices), the rendering of filters, orders
    and pages, and the effect of the four kinds of statement.  \<open>Tables\<close>: the locale \<open>table\<close>, the contract of
    a table with unique keys, interpreted for the tables of the schema.  \<open>Query_Laws\<close>: list queries.
  \<^item> \<open>Referential_Integrity\<close>, \<open>Applications\<close>, \<open>Hsm_Modules\<close>, \<open>Hsm_Slots\<close>, \<open>Users\<close>, \<open>Administrators\<close>: one resource
    each, from its row (\<open>infra/storage\<close>) over its adapter (\<open>adapters/storage/postgres\<close>) to its use case
    (\<open>usecases\<close>).  The functions keep their names, with a prefix where several packages use the same one
    (\<open>slot_infra_Add\<close> is \<open>Add\<close> of \<open>hsmslotdb\<close>, \<open>slot_Add\<close> that of \<open>hsmslotdbout\<close>).
  \<^item> \<open>Application_Laws\<close>, \<open>Slot_Laws\<close>: what the operations do on a database that works.
  \<^item> \<open>Resources\<close>: the locale \<open>resource\<close>, the contract that the deletion of the five resources shares, with
    its five interpretations.  \<open>Integrity\<close>: the invariant of the configuration and the step relation
    \<open>api_step\<close> of twenty operations.  \<open>Reachability\<close>, \<open>Retirement\<close>: what holds of all reachable configurations,
    with the locales \<open>configuration\<close> and \<open>entries_only\<close> for invariants of some of the tables.
  \<^item> \<open>Transactions\<close>: the transactional manager, the transactions of the database framework and the
    decorators of slots and modules.
  \<^item> \<open>Authorization\<close>: the files of roles and permissions (the shipped ones are written out), the policy
    decision point, and the enforcement points.
  \<^item> \<open>Json\<close>: what the program uses of \<open>encoding/json\<close>: values, and decoders into structs, slices and maps.
    Keys denote fields up to case, and a key that comes twice is decoded twice.
  \<^item> \<open>Eip712\<close>: \<open>usecases/eip712/eip712.go\<close>, the types of a request, the values of its message and the digest.
    \<open>Eip712_Laws\<close>: the text of a type, termination, what the digest determines.  \<open>Eip712_Accepts\<close>: which
    data have a digest.  \<open>Sign_Typed\<close>: \<open>SignTypedData\<close> of the connector.
  \<^item> \<open>Rpc_Params\<close>, \<open>Rpc_Adapter\<close>, \<open>Rpc_Server\<close>: the JSON-RPC interface of \<open>infra/rpcinfra\<close>, \<open>adapters/rpcin\<close> and
    \<open>infra/middleware\<close>: the parameters of the methods, the operations behind them with their handlers, and
    the router with the middleware in front of it.  \<open>serve\<close> takes a request, the headers and the value of
    the body, through batches, authentication, authorization and the handler to its replies.
    \<open>Rpc_Signing\<close>: whose key signs a request.  \<open>Rpc_Batches\<close>: the forms of a call.
  \<^item> \<open>Http_Server\<close>: what the HTTP interface shares: requests, answers, the parts of a generated handler, and the
    middleware with the recovery of panics.  A handler stops with an error or a panic, on any type of state, as the
    adapters call the use cases over interfaces (\<open>user_port\<close> and the other ports).  \<open>Http_Users\<close>,
    \<open>Http_Admin\<close>, \<open>Http_Modules\<close>: the 28 handlers of \<open>infra/generated/httpinfra\<close> with the types of their bodies and the
    adapters of \<open>adapters/httpin\<close>; \<open>http_routes\<close> is the table of the routes by their names.  \<open>Http_Laws\<close>: who is
    served, and what a request can change, by the locales \<open>tenancy\<close> (what an operation of an application
    keeps) and \<open>user_contract\<close>.  \<open>Http_Panics\<close>: which requests make a handler panic.
  \<^item> \<open>Swagger_Base64\<close>: the module 67526 (base64-js) of
    \<open>docs/mkdocs/docs/assets/js/swagger-ui-bundle.js\<close> and the clean up of its \<open>Buffer\<close>.  This is the only
    JavaScript of the repository; it is a minified third-party bundle whose second line holds
    everything, so the definitions are mapped to that line, of which they translate this module and
    nothing else.
\<close>

text \<open>
  \<^bold>\<open>What is shown.\<close>
  \<^item> Signing: a transaction leaves \<open>SignTx\<close> only with a signature in range, of low S, from which the sender is
    recovered over the payload of that very transaction; payloads determine every signed field and
    the two types never collide.
  \<^item> Typed data: a signature is over the digest of the data of the request, on the chain of the
    application if the data name one; the digest determines the message; it is computed exactly for the
    values of the types, and in a bounded number of steps unless a struct contains itself, in which
    case it is never computed.
  \<^item> The server: a reply that carries a signature goes to a user who is entitled to the method and has the account
    that signed, if the parameters name the sender in one way only; the request that does not is
    given, and signs with the account of nobody.  A batch is the sequence of its elements.
  \<^item> The HTTP interface: only a request that its user is entitled to succeeds or changes anything, a request for an
    application changes nothing outside it, and of all handlers one panics, for the bodies named there.
  \<^item> The hardware security module: a generated key signs and is listed until it is removed, the other keys are untouched,
    and no session stays open whatever the device does; a label that could not be set loses the key, and a foreign
    public key makes the list panic.
  \<^item> Coding: RLP encoding is that of the Yellow Paper, prefix free and inverted by the decoder; hexadecimal
    types and addresses are read back from their texts; EIP-55 checks are exact.
  \<^item> Storage: no clause carries foreign SQL text, pages cover a table exactly once, edits are locked by
    the version of the row, keys of slots are stored and removed as promised.
  \<^item> Configuration: references resolve, parents are not deleted, leaves can always be deleted, an
    administrator remains, users only have roles of applications.
  \<^item> Transactions: all or nothing on a database that may fail anywhere; nested decoration is transparent.
  \<^item> Authorization: a positive decision has a reason, and a request to sign needs the account of its own user.
  \<^item> Errors: answers to clients carry no internal detail; and the theorems that pin down behaviour that is not
    meant: a nested panic is committed, a failed creation of a user blocks the application, and the
    lemmas that the findings of the manifest name.

  \<^bold>\<open>Assumptions and bounds.\<close>  Functions of libraries are arguments: Keccak-256 and secp256k1, \<open>govalidator\<close>
  (\<open>e_validate\<close>), UUIDs (\<open>e_uuid\<close> on a counter, injective where a theorem says so), the clock, the
  devices with the calls of PKCS#11, the client of Azure Key Vault, and the parsed YAML and JSON of files and requests.  The
  database is the effect of its statements on lists of rows; \<open>w_faults\<close> lists which of the coming
  statements fail, and theorems that do not need it empty hold for every failure.  A failed commit is
  taken to discard its changes.  Operations run one after the other: concurrent requests are the
  sequences of their operations, not of their statements.  All loops but two are recursions with a
  measure, so that they return.  One is the search of objects on a device, which goes on until the library answers none:
  it takes a number of rounds, and one more than the objects of the token is enough (\<open>findObjects_quiet\<close>).
  The other is the encoding of typed data, which need not end: \<open>EncodeField\<close> and
  the functions around it take a number of steps, one for each level of the data, and are \<open>None\<close> if it is
  too small.  The number of the types plus the depth of the message is enough where an end exists by
  the types (\<open>hashing_terminates\<close>), more steps never change a result (\<open>HashTypedData_mono\<close>), and a run
  without enough of them is the end of the process, \<open>stack_exhausted\<close>, for the operations above.

  \<^bold>\<open>Not modelled.\<close>  The library of a PKCS#11 device and its token objects beyond keys of one curve, the parser of JSON and the text of
  a float (the id of a request, which is only given back), the bytes of a reply, the match of
  a URL with the routes (\<open>gorilla/mux\<close>; a request is given by the route it matches and the variables of its path), the texts
  of the errors that print a body, the limit on the size of bodies, telemetry, the migration of the schema, logging,
  metrics, the object graph and the command line; of the documentation bundle everything but the
  module above.  The roles and permissions are those of \<open>app/include/rbac\<close>; a deployment may mount others,
  for which the theorems that take the files as an argument still hold.
\<close>

end
